(* ===== verification/Hamlib_Prelude.thy ===== *)
theory Hamlib_Prelude
  imports Complex_Main "HOL-Library.Word" "HOL-Library.State_Monad"
begin

text \<open>
  What every theory of the development shares: the integer types of the C code, the error
  codes of \<^verbatim>\<open>include/hamlib/rig.h\<close>, the fact collections that carry the component
  proofs, and a few generic lemmas on words, lists and the state monad.

  Status codes stay integers, as in the C code: a back end may return any \<^verbatim>\<open>int\<close>, and the
  front end compares it with \<^verbatim>\<open>RIG_OK\<close> or hands it on, so a closed datatype of errors
  would not be the program. Operations that read and write a handle are programs of the
  state monad of \<^verbatim>\<open>HOL-Library.State_Monad\<close>; what they return is what the C function
  returns (with the output parameters, where it has some).
\<close>

unbundle bit_operations_syntax

subsection \<open>Types of the C code\<close>

type_synonym u8 = "8 word"
type_synonym u32 = "32 word"
type_synonym u64 = "64 word"

subsection \<open>Fact collections\<close>

named_theorems rc_defs \<open>the numeric values of the RIG status codes\<close>
named_theorems vfo_defs \<open>the bits of the VFO constants\<close>
named_theorems flag_defs \<open>the bits of the mode, function, level and capability flags\<close>
named_theorems run_simps \<open>how the components' monadic operations run\<close>

subsection \<open>Status codes: enum rig_errcode_e\<close>

definition RIG_OK :: int where [rc_defs]: "RIG_OK = 0"
definition RIG_EINVAL :: int where [rc_defs]: "RIG_EINVAL = 1"
definition RIG_ECONF :: int where [rc_defs]: "RIG_ECONF = 2"
definition RIG_ENOMEM :: int where [rc_defs]: "RIG_ENOMEM = 3"
definition RIG_ENIMPL :: int where [rc_defs]: "RIG_ENIMPL = 4"
definition RIG_ETIMEOUT :: int where [rc_defs]: "RIG_ETIMEOUT = 5"
definition RIG_EIO :: int where [rc_defs]: "RIG_EIO = 6"
definition RIG_EINTERNAL :: int where [rc_defs]: "RIG_EINTERNAL = 7"
definition RIG_EPROTO :: int where [rc_defs]: "RIG_EPROTO = 8"
definition RIG_ERJCTED :: int where [rc_defs]: "RIG_ERJCTED = 9"
definition RIG_ETRUNC :: int where [rc_defs]: "RIG_ETRUNC = 10"
definition RIG_ENAVAIL :: int where [rc_defs]: "RIG_ENAVAIL = 11"
definition RIG_ENTARGET :: int where [rc_defs]: "RIG_ENTARGET = 12"
definition RIG_BUSERROR :: int where [rc_defs]: "RIG_BUSERROR = 13"
definition RIG_BUSBUSY :: int where [rc_defs]: "RIG_BUSBUSY = 14"
definition RIG_EARG :: int where [rc_defs]: "RIG_EARG = 15"
definition RIG_EVFO :: int where [rc_defs]: "RIG_EVFO = 16"
definition RIG_EDOM :: int where [rc_defs]: "RIG_EDOM = 17"
definition RIG_EDEPRECATED :: int where [rc_defs]: "RIG_EDEPRECATED = 18"

text \<open>The macro \<^verbatim>\<open>RIG_IS_SOFT_ERRCODE\<close>: errors that a retry cannot cure.\<close>

definition RIG_IS_SOFT_ERRCODE :: "int \<Rightarrow> bool" where
  "RIG_IS_SOFT_ERRCODE errcode \<longleftrightarrow>
     errcode = RIG_EINVAL \<or> errcode = RIG_ENIMPL \<or> errcode = RIG_ERJCTED
     \<or> errcode = RIG_ETRUNC \<or> errcode = RIG_ENAVAIL \<or> errcode = RIG_ENTARGET
     \<or> errcode = RIG_EVFO \<or> errcode = RIG_EDOM"

subsection \<open>Single bits of a flag word\<close>

text \<open>
  \<^verbatim>\<open>CONSTANT_64BIT_FLAG(n)\<close> and \<^verbatim>\<open>RIG_VFO_N(n)\<close> are one bit of a word; the lemmas
  below decide equalities and overlaps between flags by comparing bit numbers.
\<close>

lemma push_bit_one_eq_iff:
  fixes i j :: nat
  assumes "i < LENGTH('a::len)" and "j < LENGTH('a)"
  shows "(push_bit i (1 :: 'a word) = push_bit j 1) \<longleftrightarrow> i = j"
proof
  assume eq: "push_bit i (1 :: 'a word) = push_bit j 1"
  have "bit (push_bit i (1 :: 'a word)) i"
    using assms(1) by (simp add: bit_simps)
  then have "bit (push_bit j (1 :: 'a word)) i"
    using eq by simp
  then show "i = j"
    using assms by (auto simp: bit_simps)
qed simp

lemma push_bit_one_neq_zero:
  assumes "i < LENGTH('a::len)"
  shows "push_bit i (1 :: 'a word) \<noteq> 0"
proof
  assume z: "push_bit i (1 :: 'a word) = 0"
  have "bit (push_bit i (1 :: 'a word)) i"
    using assms by (simp add: bit_simps)
  then show False
    by (simp only: z bit_0_eq bot_apply bot_bool_def)
qed

lemma and_push_bit_one:
  fixes w :: "'a::len word"
  assumes "i < LENGTH('a)"
  shows "(w AND push_bit i 1 \<noteq> 0) \<longleftrightarrow> bit w i"
proof -
  have "w AND push_bit i 1 = of_bool (bit w i) * push_bit i 1"
    using assms by (intro bit_word_eqI) (auto simp: bit_simps of_bool_def)
  with push_bit_one_neq_zero [OF assms] show ?thesis
    by (simp add: of_bool_def)
qed

subsection \<open>The state monad\<close>

text \<open>
  \<^verbatim>\<open>gets\<close> reads a component of the state, \<^verbatim>\<open>modify\<close> replaces it; \<^verbatim>\<open>do_when\<close> is the
  C \<^verbatim>\<open>if\<close> without \<^verbatim>\<open>else\<close>.
\<close>

definition gets :: "('s \<Rightarrow> 'a) \<Rightarrow> ('s, 'a) state" where
  "gets f = State (\<lambda>s. (f s, s))"

definition modify :: "('s \<Rightarrow> 's) \<Rightarrow> ('s, unit) state" where
  "modify f = State (\<lambda>s. ((), f s))"

definition do_when :: "bool \<Rightarrow> ('s, unit) state \<Rightarrow> ('s, unit) state" where
  "do_when b m = (if b then m else State_Monad.return ())"

lemma run_gets [simp, run_simps]: "run_state (gets f) s = (f s, s)"
  by (simp add: gets_def)

lemma run_modify [simp, run_simps]: "run_state (modify f) s = ((), f s)"
  by (simp add: modify_def)

lemma run_do_when [simp, run_simps]:
  "run_state (do_when b m) s = (if b then run_state m s else ((), s))"
  by (simp add: do_when_def)

lemma run_state_if [simp, run_simps]:
  "run_state (if b then m else n) s = (if b then run_state m s else run_state n s)"
  by simp

text \<open>
  A program of the monad keeps a property of the state, whatever it returns. The rules
  follow the constructs of the monad, so a handler's invariant is proved by following its
  text.
\<close>

definition keeps :: "('s \<Rightarrow> bool) \<Rightarrow> ('s, 'a) state \<Rightarrow> bool" where
  "keeps P m \<longleftrightarrow> (\<forall>s. P s \<longrightarrow> P (snd (run_state m s)))"

lemma keepsI [intro]: "(\<And>s. P s \<Longrightarrow> P (snd (run_state m s))) \<Longrightarrow> keeps P m"
  by (simp add: keeps_def)

lemma keepsD: "keeps P m \<Longrightarrow> run_state m s = (x, t) \<Longrightarrow> P s \<Longrightarrow> P t"
  by (metis keeps_def snd_conv)

lemma keeps_return [simp, intro]: "keeps P (State_Monad.return x)"
  by (simp add: keeps_def)

lemma keeps_gets [simp, intro]: "keeps P (gets f)"
  by (simp add: keeps_def)

lemma keeps_bind [intro]:
  "keeps P m \<Longrightarrow> (\<And>x. keeps P (f x)) \<Longrightarrow> keeps P (State_Monad.bind m f)"
  by (simp add: keeps_def split: prod.split) (metis snd_conv)

lemma keeps_if [intro]:
  "keeps P m \<Longrightarrow> keeps P n \<Longrightarrow> keeps P (if b then m else n)"
  by simp

lemma keeps_do_when [intro]: "keeps P m \<Longrightarrow> keeps P (do_when b m)"
  by (simp add: do_when_def)

lemma keeps_modify [intro]: "(\<And>s. P s \<Longrightarrow> P (f s)) \<Longrightarrow> keeps P (modify f)"
  by (simp add: keeps_def)

subsection \<open>Numbers\<close>

text \<open>The conversion of a floating-point value to an integer type cuts towards zero.\<close>

definition c_trunc :: "real \<Rightarrow> int" where
  "c_trunc x = (if 0 \<le> x then \<lfloor>x\<rfloor> else \<lceil>x\<rceil>)"

lemma c_trunc_of_int [simp]: "c_trunc (of_int i) = i"
  by (simp add: c_trunc_def)

subsection \<open>Lists\<close>

lemma nth_take_drop_split:
  "i < length xs \<Longrightarrow> xs = take i xs @ xs ! i # drop (Suc i) xs"
  by (simp add: id_take_nth_drop)

end
