(* ===== verification/Hamlib_Bcd.thy ===== *)
theory Hamlib_Bcd
  imports Hamlib_Prelude
begin

text \<open>
  The BCD and hexadecimal converters of \<^verbatim>\<open>src/misc.c\<close>: \<^verbatim>\<open>to_bcd\<close>, \<^verbatim>\<open>from_bcd\<close>,
  \<^verbatim>\<open>to_bcd_be\<close>, \<^verbatim>\<open>from_bcd_be\<close> and \<^verbatim>\<open>to_hex\<close>. Every CI-V and most binary protocols
  carry frequencies in this form.

  A buffer is a list of bytes; the caller's buffer is an argument because an odd number
  of digits leaves one of its nibbles as it was. The decoders accumulate in a
  \<^verbatim>\<open>freq_t\<close>, a C \<^verbatim>\<open>double\<close>: \<^verbatim>\<open>dbl\<close> is its rounding on natural numbers (53
  significant bits, ties to even), applied after every operation as the code does, and
  the conversion of the result to \<^verbatim>\<open>unsigned long long\<close> is defined only below
  \<^verbatim>\<open>2^64\<close>.
\<close>

subsection \<open>A double that holds a natural number\<close>

fun nbits :: "nat \<Rightarrow> nat" where
  "nbits n = (if n = 0 then 0 else Suc (nbits (n div 2)))"

declare nbits.simps [simp del]

definition dbl :: "nat \<Rightarrow> nat" where
  "dbl n = (if n < 2 ^ 53 then n
            else let e = nbits n - 53; q = n div 2 ^ e; r = n mod 2 ^ e; h = 2 ^ (e - 1)
                 in (if r > h \<or> (r = h \<and> 0 < r \<and> odd q) then (q + 1) * 2 ^ e else q * 2 ^ e))"

definition ull_of_dbl :: "nat \<Rightarrow> nat option" where
  "ull_of_dbl x = (if x < 2 ^ 64 then Some x else None)"

lemma dbl_exact [simp]: "n < 2 ^ 53 \<Longrightarrow> dbl n = n"
  by (simp add: dbl_def)

subsection \<open>Little-endian BCD\<close>

text \<open>The body of the loops: two decimal digits of \<^verbatim>\<open>freq\<close> packed into one octet.\<close>

definition bcd_octet :: "u64 \<Rightarrow> u8" where
  "bcd_octet freq = ucast (freq mod 10) OR ucast (push_bit 4 (freq div 10 mod 10))"

fun to_bcd_loop :: "nat \<Rightarrow> nat \<Rightarrow> u8 list \<Rightarrow> u64 \<Rightarrow> u8 list \<times> u64" where
  "to_bcd_loop i 0 bcd freq = (bcd, freq)"
| "to_bcd_loop i (Suc k) bcd freq =
     to_bcd_loop (Suc i) k (bcd[i := bcd_octet freq]) (freq div 10 div 10)"

definition to_bcd :: "u8 list \<Rightarrow> u64 \<Rightarrow> nat \<Rightarrow> u8 list" where
  "to_bcd bcd_data freq bcd_len =
     (let (bcd, f) = to_bcd_loop 0 (bcd_len div 2) bcd_data freq; i = bcd_len div 2
      in if odd bcd_len
         then bcd[i := (bcd ! i AND 0xf0) OR ucast (f mod 10)]
         else bcd)"

fun from_bcd_loop :: "u8 list \<Rightarrow> nat \<Rightarrow> nat \<Rightarrow> nat" where
  "from_bcd_loop bcd 0 f = f"
| "from_bcd_loop bcd (Suc i) f =
     (let f1 = dbl (f * 10);
          f2 = dbl (f1 + unat (drop_bit 4 (bcd ! i)));
          f3 = dbl (f2 * 10)
      in from_bcd_loop bcd i (dbl (f3 + unat (bcd ! i AND 0x0f))))"

definition from_bcd :: "u8 list \<Rightarrow> nat \<Rightarrow> nat option" where
  "from_bcd bcd_data bcd_len =
     (let f = (if odd bcd_len then unat (bcd_data ! (bcd_len div 2) AND 0x0f) else 0)
      in ull_of_dbl (from_bcd_loop bcd_data (bcd_len div 2) f))"

subsection \<open>Big-endian BCD\<close>

fun to_bcd_be_loop :: "nat \<Rightarrow> u8 list \<Rightarrow> u64 \<Rightarrow> u8 list" where
  "to_bcd_be_loop 0 bcd freq = bcd"
| "to_bcd_be_loop (Suc i) bcd freq =
     to_bcd_be_loop i (bcd[i := bcd_octet freq]) (freq div 10 div 10)"

definition to_bcd_be :: "u8 list \<Rightarrow> u64 \<Rightarrow> nat \<Rightarrow> u8 list" where
  "to_bcd_be bcd_data freq bcd_len =
     (let i = bcd_len div 2
      in if odd bcd_len
         then to_bcd_be_loop i
                (bcd_data[i := (bcd_data ! i AND 0x0f) OR ucast (push_bit 4 (freq mod 10))])
                (freq div 10)
         else to_bcd_be_loop i bcd_data freq)"

fun from_bcd_be_loop :: "u8 list \<Rightarrow> nat \<Rightarrow> nat \<Rightarrow> nat \<Rightarrow> nat" where
  "from_bcd_be_loop bcd i 0 f = f"
| "from_bcd_be_loop bcd i (Suc k) f =
     (let f1 = dbl (f * 10);
          f2 = dbl (f1 + unat (drop_bit 4 (bcd ! i)));
          f3 = dbl (f2 * 10)
      in from_bcd_be_loop bcd (Suc i) k (dbl (f3 + unat (bcd ! i AND 0x0f))))"

definition from_bcd_be :: "u8 list \<Rightarrow> nat \<Rightarrow> nat option" where
  "from_bcd_be bcd_data bcd_len =
     (let f = from_bcd_be_loop bcd_data 0 (bcd_len div 2) 0
      in ull_of_dbl (if odd bcd_len
                     then dbl (dbl (f * 10) + unat (drop_bit 4 (bcd_data ! (bcd_len div 2))))
                     else f))"

subsection \<open>Nibbles\<close>

definition lo_nib :: "u8 \<Rightarrow> nat" where "lo_nib b = unat (b AND 0x0f)"
definition hi_nib :: "u8 \<Rightarrow> nat" where "hi_nib b = unat (drop_bit 4 b)"

lemma and_15_take_bit: "(b :: u8) AND 0x0f = take_bit 4 b"
proof -
  have "(0x0f :: u8) = mask 4" by (simp add: mask_eq_exp_minus_1)
  then show ?thesis by (simp add: take_bit_eq_mask)
qed

lemma lo_nib_eq: "lo_nib b = unat b mod 16"
  by (simp add: lo_nib_def and_15_take_bit take_bit_eq_mod unat_mod)

lemma hi_nib_eq: "hi_nib b = unat b div 16"
  by (simp add: hi_nib_def drop_bit_eq_div unat_div)

lemma lo_nib_less: "lo_nib b < 16" by (simp add: lo_nib_eq)

lemma hi_nib_less: "hi_nib b < 16"
proof -
  have "unat b < 2 ^ 8" using unsigned_less [of b, where 'a=nat] by simp
  then show ?thesis by (simp add: hi_nib_eq)
qed

lemma octet_ext: "lo_nib a = lo_nib b \<Longrightarrow> hi_nib a = hi_nib b \<Longrightarrow> a = b"
  by (metis div_mod_decomp hi_nib_eq lo_nib_eq word_unat_eq_iff)

lemma u64_mod10: "unat (f mod 10 :: u64) = unat f mod 10"
  by (simp add: unat_mod)

lemma u64_div10: "unat (f div 10 :: u64) = unat f div 10"
  by (simp add: unat_div)

lemma small_take_bit: "unat (x :: u64) < 16 \<Longrightarrow> take_bit 4 x = x"
  by (simp add: word_unat_eq_iff take_bit_eq_mod unat_mod)

text \<open>Packing a digit into a nibble, whatever the rest of the octet is.\<close>

lemma pack_lo:
  assumes "unat (x :: u64) < 16"
  shows "lo_nib (b AND 0xf0 OR ucast x) = unat x" "hi_nib (b AND 0xf0 OR ucast x) = hi_nib b"
proof -
  have f0: "(0xf0 :: u8) = push_bit 4 (mask 4)" by (simp add: mask_eq_exp_minus_1)
  have "take_bit 4 (b AND 0xf0 OR ucast x) = (ucast (take_bit 4 x) :: u8)"
    unfolding f0 by (rule bit_word_eqI) (auto simp: bit_simps)
  then have "take_bit 4 (b AND 0xf0 OR ucast x) = (ucast x :: u8)"
    by (simp add: small_take_bit [OF assms])
  then show "lo_nib (b AND 0xf0 OR ucast x) = unat x"
    using assms by (simp add: lo_nib_def and_15_take_bit unsigned_ucast_eq take_bit_eq_mod)
  have "drop_bit 4 (b AND 0xf0 OR ucast (take_bit 4 x)) = drop_bit 4 b"
    unfolding f0 by (rule bit_word_eqI) (auto simp: bit_simps dest: bit_imp_le_length)
  then show "hi_nib (b AND 0xf0 OR ucast x) = hi_nib b"
    by (simp add: hi_nib_def small_take_bit [OF assms])
qed

lemma pack_hi:
  assumes "unat (y :: u64) < 16"
  shows "hi_nib (b AND 0x0f OR ucast (push_bit 4 y)) = unat y"
    "lo_nib (b AND 0x0f OR ucast (push_bit 4 y)) = lo_nib b"
proof -
  have "drop_bit 4 (take_bit 4 b OR ucast (push_bit 4 (take_bit 4 y))) = (ucast (take_bit 4 y) :: u8)"
    by (rule bit_word_eqI) (auto simp: bit_simps)
  then have "drop_bit 4 (b AND 0x0f OR ucast (push_bit 4 y)) = (ucast y :: u8)"
    by (simp add: small_take_bit [OF assms] and_15_take_bit)
  then show "hi_nib (b AND 0x0f OR ucast (push_bit 4 y)) = unat y"
    using assms by (simp add: hi_nib_def unsigned_ucast_eq take_bit_eq_mod)
  have "take_bit 4 (take_bit 4 b OR ucast (push_bit 4 y)) = take_bit 4 b"
    by (rule bit_word_eqI) (auto simp: bit_simps)
  then show "lo_nib (b AND 0x0f OR ucast (push_bit 4 y)) = lo_nib b"
    by (simp add: lo_nib_def and_15_take_bit)
qed

lemma bcd_octet_nibs:
  "lo_nib (bcd_octet f) = unat f mod 10" "hi_nib (bcd_octet f) = unat f div 10 mod 10"
proof -
  let ?x = "f mod 10" and ?y = "f div 10 mod 10"
  have x: "unat ?x < 16" and y: "unat ?y < 16"
    by (simp_all add: u64_mod10 u64_div10 less_trans [OF mod_less_divisor])
  have "bcd_octet f = (0 AND 0xf0 OR ucast ?x) AND 0x0f OR ucast (push_bit 4 ?y)"
  proof -
    have "(ucast ?x :: u8) AND 0x0f = ucast (take_bit 4 ?x)"
      by (simp add: and_15_take_bit) (rule bit_word_eqI, auto simp: bit_simps)
    then show ?thesis
      by (simp add: bcd_octet_def small_take_bit [OF x])
  qed
  then show "lo_nib (bcd_octet f) = unat f mod 10" "hi_nib (bcd_octet f) = unat f div 10 mod 10"
    using pack_lo [OF x, of 0] pack_hi [OF y, of "0 AND 0xf0 OR ucast ?x"]
    by (simp_all add: u64_mod10 u64_div10)
qed

subsection \<open>The decoders are exact up to fifteen digits\<close>

text \<open>
  \<open>m\<close> digits, each a nibble of any value, give a number below \<open>2 * 10 ^ m\<close>; up to
  fifteen of them it has 53 bits, so no operation rounds.
\<close>

lemma dbl_step:
  assumes "f + 2 \<le> 2 * 10 ^ m" and "m < 15" and "d < 16"
  shows "dbl (dbl (f * 10) + d) = f * 10 + d" and "f * 10 + d + 2 \<le> 2 * 10 ^ Suc m"
proof -
  have "(10 :: nat) ^ m \<le> 10 ^ 14"
    using assms(2) by (intro power_increasing) auto
  with assms(1) have "f * 10 + 20 \<le> 20 * 10 ^ 14" by simp
  with assms(3) show "dbl (dbl (f * 10) + d) = f * 10 + d" by simp
  from assms(1,3) show "f * 10 + d + 2 \<le> 2 * 10 ^ Suc m" by simp
qed

lemma below_ull:
  fixes f :: nat
  assumes "f + 2 \<le> 2 * 10 ^ m" and "m \<le> 15"
  shows "f < 2 ^ 64"
proof -
  have "(10 :: nat) ^ m \<le> 10 ^ 15" using assms(2) by (intro power_increasing) auto
  with assms(1) have "f \<le> 2 * 10 ^ 15" by linarith
  then show ?thesis by simp
qed

lemma dbl_octet_step:
  assumes "f + 2 \<le> 2 * 10 ^ m" and "m < 14"
  shows "dbl (dbl (dbl (dbl (f * 10) + hi_nib b) * 10) + lo_nib b) = f * 100 + hi_nib b * 10 + lo_nib b"
    and "f * 100 + hi_nib b * 10 + lo_nib b + 2 \<le> 2 * 10 ^ Suc (Suc m)"
proof -
  have m1: "m < 15" and m2: "Suc m < 15" using assms(2) by simp_all
  note one = dbl_step [OF assms(1) m1 hi_nib_less [of b]]
  note two = dbl_step [OF one(2) m2 lo_nib_less [of b]]
  show "dbl (dbl (dbl (dbl (f * 10) + hi_nib b) * 10) + lo_nib b) = f * 100 + hi_nib b * 10 + lo_nib b"
    using one(1) two(1) by (simp add: algebra_simps)
  show "f * 100 + hi_nib b * 10 + lo_nib b + 2 \<le> 2 * 10 ^ Suc (Suc m)"
    using two(2) by (simp add: algebra_simps)
qed

text \<open>Decimal digits, least significant first, of the two byte orders.\<close>

definition digit_le :: "u8 list \<Rightarrow> nat \<Rightarrow> nat \<Rightarrow> nat" where
  "digit_le buf n k = (if even k then lo_nib (buf ! (k div 2)) else hi_nib (buf ! (k div 2)))"

definition digit_be :: "u8 list \<Rightarrow> nat \<Rightarrow> nat \<Rightarrow> nat" where
  "digit_be buf n k =
     (let p = n - 1 - k in if even p then hi_nib (buf ! (p div 2)) else lo_nib (buf ! (p div 2)))"

lemma from_bcd_loop_exact:
  "f + 2 \<le> 2 * 10 ^ m \<Longrightarrow> m + 2 * i \<le> 15 \<Longrightarrow>
   from_bcd_loop buf i f = f * 100 ^ i + (\<Sum>k<2 * i. digit_le buf n k * 10 ^ k)
   \<and> from_bcd_loop buf i f + 2 \<le> 2 * 10 ^ (m + 2 * i)"
proof (induction i arbitrary: f m)
  case (Suc i)
  let ?b = "buf ! i"
  let ?g = "f * 100 + hi_nib ?b * 10 + lo_nib ?b"
  have m: "m < 14" using Suc.prems(2) by simp
  note step = dbl_octet_step [OF Suc.prems(1) m, of ?b]
  have "Suc (Suc m) + 2 * i \<le> 15" using Suc.prems(2) by simp
  note IH = Suc.IH [OF step(2) this]
  have "from_bcd_loop buf (Suc i) f = from_bcd_loop buf i ?g"
    using step(1) by (simp add: Let_def lo_nib_def hi_nib_def)
  moreover have "(10 :: nat) ^ (2 * i) = 100 ^ i" by (simp add: power_mult)
  moreover have "digit_le buf n (2 * i) = lo_nib ?b" "digit_le buf n (Suc (2 * i)) = hi_nib ?b"
    by (simp_all add: digit_le_def)
  ultimately show ?case
    using IH by (simp add: algebra_simps)
qed simp

lemma from_bcd_exact:
  assumes "n \<le> 15"
  shows "from_bcd buf n = Some (\<Sum>k<n. digit_le buf n k * 10 ^ k)"
proof (cases "odd n")
  case True
  define i where "i = n div 2"
  from True have n: "n = Suc (2 * i)" by (simp add: i_def)
  let ?f = "lo_nib (buf ! i)"
  have f: "?f + 2 \<le> 2 * 10 ^ 1" using lo_nib_less [of "buf ! i"] by simp
  have b: "1 + 2 * i \<le> 15" using assms n by simp
  note loop = from_bcd_loop_exact [OF f b, of buf n]
  have "from_bcd buf n = ull_of_dbl (from_bcd_loop buf i ?f)"
    using True by (simp add: from_bcd_def i_def lo_nib_def)
  moreover have "from_bcd_loop buf i ?f < 2 ^ 64" using below_ull [OF conjunct2 [OF loop] b] .
  moreover have "(10 :: nat) ^ (2 * i) = 100 ^ i" by (simp add: power_mult)
  ultimately show ?thesis
    using loop n by (simp add: ull_of_dbl_def digit_le_def algebra_simps)
next
  case False
  define i where "i = n div 2"
  from False have n: "n = 2 * i" by (simp add: i_def)
  have b: "0 + 2 * i \<le> 15" using assms n by simp
  have f: "(0::nat) + 2 \<le> 2 * 10 ^ 0" by simp
  note loop = from_bcd_loop_exact [OF f b, of buf n]
  have "from_bcd buf n = ull_of_dbl (from_bcd_loop buf i 0)"
    using False by (simp add: from_bcd_def i_def)
  moreover have "from_bcd_loop buf i 0 < 2 ^ 64" using below_ull [OF conjunct2 [OF loop] b] .
  ultimately show ?thesis
    using loop n by (simp add: ull_of_dbl_def)
qed

text \<open>Left to right the decoder follows Horner's rule.\<close>

definition nib_be :: "u8 list \<Rightarrow> nat \<Rightarrow> nat" where
  "nib_be buf p = (if even p then hi_nib (buf ! (p div 2)) else lo_nib (buf ! (p div 2)))"

primrec horner_be :: "u8 list \<Rightarrow> nat \<Rightarrow> nat" where
  "horner_be buf 0 = 0"
| "horner_be buf (Suc p) = horner_be buf p * 10 + nib_be buf p"

lemma nib_be_less: "nib_be buf p < 16"
  by (simp add: nib_be_def lo_nib_less hi_nib_less)

lemma horner_be_bound: "horner_be buf p + 2 \<le> 2 * 10 ^ p"
proof (induction p)
  case (Suc p)
  then show ?case using nib_be_less [of buf p] by simp
qed simp

lemma horner_be_sum: "horner_be buf n = (\<Sum>k<n. digit_be buf n k * 10 ^ k)"
proof -
  have "horner_be buf n = (\<Sum>p<n. nib_be buf p * 10 ^ (n - Suc p))"
  proof (induction n)
    case (Suc n)
    have "(\<Sum>p<n. nib_be buf p * 10 ^ (n - p)) = (\<Sum>p<n. nib_be buf p * 10 ^ (n - Suc p)) * 10"
      by (simp add: sum_distrib_right) (rule sum.cong, simp_all add: Suc_diff_Suc flip: power_Suc2 mult.assoc)
    with Suc show ?case by simp
  qed simp
  also have "\<dots> = (\<Sum>k<n. nib_be buf (n - Suc k) * 10 ^ (n - Suc (n - Suc k)))"
    by (rule sum.nat_diff_reindex [symmetric])
  also have "\<dots> = (\<Sum>k<n. digit_be buf n k * 10 ^ k)"
    by (rule sum.cong) (auto simp: nib_be_def digit_be_def Let_def)
  finally show ?thesis .
qed

lemma from_bcd_be_loop_exact:
  "2 * (i + k) \<le> 15 \<Longrightarrow>
   from_bcd_be_loop buf i k (horner_be buf (2 * i)) = horner_be buf (2 * (i + k))"
proof (induction k arbitrary: i)
  case (Suc k)
  have m: "2 * i < 14" using Suc.prems by simp
  have "from_bcd_be_loop buf i (Suc k) (horner_be buf (2 * i))
        = from_bcd_be_loop buf (Suc i) k (horner_be buf (2 * Suc i))"
    using dbl_octet_step (1) [OF horner_be_bound m, of buf "buf ! i"]
    by (simp add: Let_def nib_be_def algebra_simps flip: lo_nib_def hi_nib_def)
  also have "\<dots> = horner_be buf (2 * (Suc i + k))"
    using Suc.prems by (intro Suc.IH) simp
  finally show ?case by simp
qed simp

lemma from_bcd_be_exact:
  assumes "n \<le> 15"
  shows "from_bcd_be buf n = Some (\<Sum>k<n. digit_be buf n k * 10 ^ k)"
proof -
  have small: "horner_be buf n < 2 ^ 64"
    using below_ull [OF horner_be_bound assms] .
  define i where "i = n div 2"
  have loop: "from_bcd_be_loop buf 0 i 0 = horner_be buf (2 * i)"
    using from_bcd_be_loop_exact [of 0 i buf] assms by (simp add: i_def)
  have "from_bcd_be buf n = ull_of_dbl (horner_be buf n)"
  proof (cases "odd n")
    case True
    then have n: "n = Suc (2 * i)" by (simp add: i_def)
    have m: "2 * i < 15" using assms n by simp
    from dbl_step (1) [OF horner_be_bound m hi_nib_less, of buf "buf ! i"] n loop True
    show ?thesis by (simp add: from_bcd_be_def Let_def nib_be_def flip: i_def hi_nib_def)
  next
    case False
    then have "n = 2 * i" by (simp add: i_def)
    with loop False show ?thesis by (simp add: from_bcd_be_def Let_def flip: i_def)
  qed
  with small show ?thesis by (simp add: ull_of_dbl_def horner_be_sum)
qed

subsection \<open>The encoders write the digits\<close>

lemma to_bcd_loop_spec:
  "i + m \<le> length bcd \<Longrightarrow> to_bcd_loop i m bcd f = (bcd', f') \<Longrightarrow>
   length bcd' = length bcd \<and> unat f' = unat f div 100 ^ m
   \<and> (\<forall>j. (i \<le> j \<and> j < i + m \<longrightarrow> lo_nib (bcd' ! j) = unat f div 100 ^ (j - i) mod 10
                                  \<and> hi_nib (bcd' ! j) = unat f div 100 ^ (j - i) div 10 mod 10)
          \<and> (\<not> (i \<le> j \<and> j < i + m) \<longrightarrow> bcd' ! j = bcd ! j))"
proof (induction m arbitrary: i bcd f)
  case (Suc m)
  let ?b = "bcd[i := bcd_octet f]" and ?f = "f div 10 div 10"
  have f: "unat ?f = unat f div 100" by (simp add: u64_div10 div_mult2_eq [symmetric])
  have run: "to_bcd_loop (Suc i) m ?b ?f = (bcd', f')" using Suc.prems(2) by simp
  have len: "Suc i + m \<le> length ?b" using Suc.prems(1) by simp
  note IH = Suc.IH [OF len run]
  have dig: "unat f div 100 div 100 ^ (j - Suc i) = unat f div 100 ^ (j - i)" if "Suc i \<le> j" for j
    using that by (simp add: div_mult2_eq [symmetric] flip: power_Suc) (simp add: Suc_diff_le [symmetric])
  have at_i: "bcd' ! i = bcd_octet f" using IH Suc.prems(1) by simp
  show ?case
  proof (intro conjI allI impI)
    show "length bcd' = length bcd" using IH by simp
    show "unat f' = unat f div 100 ^ Suc m" using IH f by (simp add: div_mult2_eq)
    fix j
    { assume j: "i \<le> j \<and> j < i + Suc m"
      show "lo_nib (bcd' ! j) = unat f div 100 ^ (j - i) mod 10"
        by (cases "j = i") (use j IH f dig [of j] at_i in \<open>auto simp: bcd_octet_nibs\<close>)
      show "hi_nib (bcd' ! j) = unat f div 100 ^ (j - i) div 10 mod 10"
        by (cases "j = i") (use j IH f dig [of j] at_i in \<open>auto simp: bcd_octet_nibs\<close>) }
    assume "\<not> (i \<le> j \<and> j < i + Suc m)"
    then show "bcd' ! j = bcd ! j" using IH by auto
  qed
qed simp

lemma to_bcd_loop_length: "length (fst (to_bcd_loop i m bcd f)) = length bcd"
  by (induction i m bcd f rule: to_bcd_loop.induct) simp_all

lemma div_pow10_pair: "x div 100 ^ j = (x :: nat) div 10 ^ (2 * j)"
  by (simp add: power_mult)

lemma to_bcd_length: "length (to_bcd bcd f n) = length bcd"
  using to_bcd_loop_length [of 0 "n div 2" bcd f] by (auto simp: to_bcd_def Let_def split: prod.split)

lemma to_bcd_digit:
  assumes fits: "n \<le> 2 * length bcd" and k: "k < n"
  shows "digit_le (to_bcd bcd f n) n k = unat f div 10 ^ k mod 10"
proof -
  define m where "m = n div 2"
  obtain bcd' f' where run: "to_bcd_loop 0 m bcd f = (bcd', f')" by fastforce
  have "0 + m \<le> length bcd" using fits by (simp add: m_def)
  note spec = to_bcd_loop_spec [OF this run]
  have pair: "lo_nib (bcd' ! j) = unat f div 10 ^ (2 * j) mod 10"
    "hi_nib (bcd' ! j) = unat f div 10 ^ (2 * j) div 10 mod 10" if "j < m" for j
    using spec that by (simp_all add: div_pow10_pair)
  let ?r = "to_bcd bcd f n"
  have same: "?r ! j = bcd' ! j" if "j < m" for j
    using that run by (simp add: to_bcd_def flip: m_def)
  show ?thesis
  proof (cases "k < 2 * m")
    case True
    then have j: "k div 2 < m" by simp
    show ?thesis
    proof (cases "even k")
      case True
      then show ?thesis using pair [OF j] same [OF j] by (simp add: digit_le_def)
    next
      case False
      then have "k = Suc (2 * (k div 2))" by simp
      then have "unat f div 10 ^ (2 * (k div 2)) div 10 = unat f div 10 ^ k"
        by (metis div_mult2_eq power_Suc2)
      then show ?thesis using pair [OF j] same [OF j] False by (simp add: digit_le_def)
    qed
  next
    case False
    with k have odd: "odd n" and km: "k = 2 * m" by (auto simp: m_def)
    have len: "m < length bcd'" using fits odd spec by (auto simp: m_def elim: oddE)
    have d: "unat (f' mod 10) < 16" by (simp add: u64_mod10 less_trans [OF mod_less_divisor])
    have "?r ! m = bcd' ! m AND 0xf0 OR ucast (f' mod 10)"
      using run odd len by (simp add: to_bcd_def flip: m_def)
    then show ?thesis
      using pack_lo (1) [OF d, of "bcd' ! m"] km spec
      by (simp add: digit_le_def u64_mod10 div_pow10_pair)
  qed
qed

text \<open>The nibble that an odd number of digits does not use keeps the caller's value.\<close>

lemma to_bcd_high_nibble_kept:
  assumes "n \<le> 2 * length bcd" and "odd n"
  shows "hi_nib (to_bcd bcd f n ! (n div 2)) = hi_nib (bcd ! (n div 2))"
proof -
  define m where "m = n div 2"
  obtain bcd' f' where run: "to_bcd_loop 0 m bcd f = (bcd', f')" by fastforce
  have "0 + m \<le> length bcd" using assms(1) by (simp add: m_def)
  note spec = to_bcd_loop_spec [OF this run]
  have len: "m < length bcd'" using assms spec by (auto simp: m_def elim: oddE)
  have d: "unat (f' mod 10) < 16" by (simp add: u64_mod10 less_trans [OF mod_less_divisor])
  have "to_bcd bcd f n ! m = bcd' ! m AND 0xf0 OR ucast (f' mod 10)"
    using run assms(2) len by (simp add: to_bcd_def flip: m_def)
  then show ?thesis
    using pack_lo (2) [OF d, of "bcd' ! m"] spec by (simp flip: m_def)
qed

lemma to_bcd_be_loop_spec:
  "m \<le> length bcd \<Longrightarrow>
   length (to_bcd_be_loop m bcd f) = length bcd
   \<and> (\<forall>j. (j < m \<longrightarrow> lo_nib (to_bcd_be_loop m bcd f ! j) = unat f div 100 ^ (m - 1 - j) mod 10
                 \<and> hi_nib (to_bcd_be_loop m bcd f ! j) = unat f div 100 ^ (m - 1 - j) div 10 mod 10)
        \<and> (\<not> j < m \<longrightarrow> to_bcd_be_loop m bcd f ! j = bcd ! j))"
proof (induction m arbitrary: bcd f)
  case (Suc m)
  let ?b = "bcd[m := bcd_octet f]" and ?f = "f div 10 div 10"
  have f: "unat ?f = unat f div 100" by (simp add: u64_div10 div_mult2_eq [symmetric])
  have len: "m \<le> length ?b" using Suc.prems by simp
  note IH = Suc.IH [OF len, of ?f]
  have dig: "unat f div 100 div 100 ^ (m - 1 - j) = unat f div 100 ^ (m - j)" if "j < m" for j
  proof -
    have "m - j = Suc (m - 1 - j)" using that by simp
    then show ?thesis by (simp only: power_Suc div_mult2_eq)
  qed
  have at_m: "to_bcd_be_loop m ?b ?f ! m = bcd_octet f" using IH Suc.prems by simp
  show ?case
  proof (intro conjI allI impI)
    show "length (to_bcd_be_loop (Suc m) bcd f) = length bcd" using IH by simp
    fix j
    { assume j: "j < Suc m"
      show "lo_nib (to_bcd_be_loop (Suc m) bcd f ! j) = unat f div 100 ^ (Suc m - 1 - j) mod 10"
        by (cases "j = m") (use j IH f dig [of j] at_m in \<open>auto simp: bcd_octet_nibs\<close>)
      show "hi_nib (to_bcd_be_loop (Suc m) bcd f ! j) = unat f div 100 ^ (Suc m - 1 - j) div 10 mod 10"
        by (cases "j = m") (use j IH f dig [of j] at_m in \<open>auto simp: bcd_octet_nibs\<close>) }
    assume "\<not> j < Suc m"
    then show "to_bcd_be_loop (Suc m) bcd f ! j = bcd ! j" using IH by auto
  qed
qed simp

lemma to_bcd_be_length: "length (to_bcd_be bcd f n) = length bcd"
proof -
  have "length (to_bcd_be_loop m b g) = length b" for m b g
    by (induction m b g rule: to_bcd_be_loop.induct) simp_all
  then show ?thesis by (simp add: to_bcd_be_def Let_def)
qed

lemma to_bcd_be_loop_nib:
  assumes "m \<le> length bcd" and "p < 2 * m"
  shows "nib_be (to_bcd_be_loop m bcd f) p = unat f div 10 ^ (2 * m - 1 - p) mod 10"
proof -
  define j where "j = p div 2"
  have j: "j < m" using assms(2) by (simp add: j_def)
  note spec = to_bcd_be_loop_spec [OF assms(1), of f]
  show ?thesis
  proof (cases "even p")
    case True
    then have "2 * m - 1 - p = Suc (2 * (m - 1 - j))" using j by (auto simp: j_def)
    then have "unat f div 10 ^ (2 * m - 1 - p) = unat f div 100 ^ (m - 1 - j) div 10"
      by (simp add: div_pow10_pair div_mult2_eq [symmetric] mult.commute)
    then show ?thesis using spec j True by (simp add: nib_be_def flip: j_def)
  next
    case False
    then have "2 * m - 1 - p = 2 * (m - 1 - j)" using j by (auto simp: j_def elim!: oddE)
    then show ?thesis using spec j False by (simp add: nib_be_def div_pow10_pair flip: j_def)
  qed
qed

lemma digit_be_nib: "k < n \<Longrightarrow> digit_be buf n k = nib_be buf (n - 1 - k)"
  by (simp add: digit_be_def nib_be_def Let_def)

lemma to_bcd_be_digit:
  assumes fits: "n \<le> 2 * length bcd" and k: "k < n"
  shows "digit_be (to_bcd_be bcd f n) n k = unat f div 10 ^ k mod 10"
proof (cases "odd n")
  case False
  then obtain m where n: "n = 2 * m" by (auto elim: evenE)
  have "m \<le> length bcd" "n - 1 - k < 2 * m" using fits k n by simp_all
  from to_bcd_be_loop_nib [OF this, of f] show ?thesis
    using k n by (simp add: digit_be_nib to_bcd_be_def Let_def)
next
  case True
  then obtain m where n: "n = 2 * m + 1" by (auto elim: oddE)
  define b where "b = bcd[m := bcd ! m AND 0x0f OR ucast (push_bit 4 (f mod 10))]"
  have r: "to_bcd_be bcd f n = to_bcd_be_loop m b (f div 10)"
    using n by (simp add: to_bcd_be_def Let_def b_def)
  have m: "m \<le> length b" "m < length bcd" using fits n by (simp_all add: b_def)
  show ?thesis
  proof (cases "k = 0")
    case True
    have d: "unat (f mod 10) < 16" by (simp add: u64_mod10 less_trans [OF mod_less_divisor])
    have "to_bcd_be_loop m b (f div 10) ! m = b ! m"
      using to_bcd_be_loop_spec [OF m(1)] by simp
    with m have "hi_nib (to_bcd_be_loop m b (f div 10) ! m) = unat f mod 10"
      using pack_hi (1) [OF d, of "bcd ! m"] by (simp add: b_def u64_mod10)
    with True n r show ?thesis by (simp add: digit_be_nib nib_be_def)
  next
    case False
    then have p: "n - 1 - k < 2 * m" and e: "2 * m - 1 - (n - 1 - k) = k - 1"
      using k n by auto
    have "10 ^ k = 10 * (10 :: nat) ^ (k - 1)"
      using False by (metis power_eq_if mult.commute)
    then have "unat (f div 10) div 10 ^ (k - 1) = unat f div 10 ^ k"
      by (simp add: u64_div10 div_mult2_eq)
    with to_bcd_be_loop_nib [OF m(1) p, of "f div 10"] e r k show ?thesis
      by (simp add: digit_be_nib)
  qed
qed

subsection \<open>The codec interface\<close>

text \<open>
  What a protocol driver may rely on, whichever byte order the radio speaks: the encoder
  keeps the buffer's size and puts decimal digit \<open>k\<close> of the frequency at digit position
  \<open>k\<close>; the decoder is the number those positions spell. The laws of the pair follow once
  for both orders.
\<close>

locale bcd_codec =
  fixes enc :: "u8 list \<Rightarrow> u64 \<Rightarrow> nat \<Rightarrow> u8 list"
    and dec :: "u8 list \<Rightarrow> nat \<Rightarrow> nat option"
    and digit :: "u8 list \<Rightarrow> nat \<Rightarrow> nat \<Rightarrow> nat"
  assumes enc_length: "length (enc buf f n) = length buf"
    and enc_digit: "n \<le> 2 * length buf \<Longrightarrow> k < n \<Longrightarrow> digit (enc buf f n) n k = unat f div 10 ^ k mod 10"
    and dec_digits: "n \<le> 15 \<Longrightarrow> dec buf n = Some (\<Sum>k<n. digit buf n k * 10 ^ k)"

lemma decimal_expansion: "(\<Sum>k<n. x div 10 ^ k mod 10 * 10 ^ k) = (x :: nat) mod 10 ^ n"
proof (induction n)
  case (Suc n)
  have "x mod 10 ^ Suc n = x mod 10 ^ n + 10 ^ n * (x div 10 ^ n mod 10)"
    by (metis mod_mult2_eq mult.commute power_Suc add.commute)
  with Suc show ?case by simp
qed simp

context bcd_codec
begin

lemma dec_enc:
  assumes "n \<le> 2 * length buf" and "n \<le> 15"
  shows "dec (enc buf f n) n = Some (unat f mod 10 ^ n)"
proof -
  have "(\<Sum>k<n. digit (enc buf f n) n k * 10 ^ k) = (\<Sum>k<n. unat f div 10 ^ k mod 10 * 10 ^ k)"
    using assms(1) by (intro sum.cong) (simp_all add: enc_digit)
  with assms(2) show ?thesis by (simp add: dec_digits decimal_expansion)
qed

lemma dec_enc_exact:
  assumes "n \<le> 2 * length buf" and "n \<le> 15" and "unat f < 10 ^ n"
  shows "dec (enc buf f n) n = Some (unat f)"
  using dec_enc [OF assms(1,2)] assms(3) by simp

lemma enc_inj:
  assumes "n \<le> 2 * length buf" and "n \<le> 15" and "unat f < 10 ^ n" "unat g < 10 ^ n"
    and "enc buf f n = enc buf g n"
  shows "f = g"
  using dec_enc_exact [OF assms(1-3)] dec_enc_exact [OF assms(1,2,4)] assms(5)
  by (simp add: word_unat_eq_iff)

end

interpretation le: bcd_codec to_bcd from_bcd digit_le
  by unfold_locales (simp_all add: to_bcd_length to_bcd_digit from_bcd_exact)

interpretation be: bcd_codec to_bcd_be from_bcd_be digit_be
  by unfold_locales (simp_all add: to_bcd_be_length to_bcd_be_digit from_bcd_be_exact)

subsection \<open>to_hex\<close>

text \<open>
  \<^verbatim>\<open>to_hex\<close> prints octets as pairs of hexadecimal digits into a caller's buffer, with
  the sizes as \<^verbatim>\<open>size_t\<close>. \<^verbatim>\<open>poke\<close> overwrites a stretch of the buffer; \<^verbatim>\<open>snprintf\<close>
  stores at most \<open>room - 1\<close> characters and a terminator. The result is \<open>None\<close> when the
  loop reads past the source or writes past the destination.
\<close>

definition poke :: "'a list \<Rightarrow> nat \<Rightarrow> 'a list \<Rightarrow> 'a list" where
  "poke buf off xs = take off buf @ xs @ drop (off + length xs) buf"

definition hex_digit :: "nat \<Rightarrow> char" where
  "hex_digit n = ''0123456789ABCDEF'' ! n"

definition hex2 :: "u8 \<Rightarrow> string" where
  "hex2 b = [hex_digit (hi_nib b), hex_digit (lo_nib b)]"

definition snprintf_hex :: "char list \<Rightarrow> nat \<Rightarrow> nat \<Rightarrow> u8 \<Rightarrow> char list" where
  "snprintf_hex dest off room v =
     (if room = 0 then dest else poke dest off (take (room - 1) (hex2 v) @ [CHR 0x00]))"

fun to_hex_loop :: "nat \<Rightarrow> nat \<Rightarrow> u8 list \<Rightarrow> u64 \<Rightarrow> char list \<Rightarrow> char list option" where
  "to_hex_loop i 0 source dest_length dest = Some dest"
| "to_hex_loop i (Suc k) source dest_length dest =
     (let room = unat (dest_length - 2 * of_nat i)
      in if i < length source \<and> 2 * i + min room 3 \<le> length dest
         then to_hex_loop (Suc i) k source dest_length (snprintf_hex dest (2 * i) room (source ! i))
         else None)"

definition to_hex :: "u64 \<Rightarrow> u8 list \<Rightarrow> u64 \<Rightarrow> char list \<Rightarrow> (u64 \<times> char list) option" where
  "to_hex source_length source_data dest_length dest_data =
     (if source_length = 0 \<or> dest_length = 0 then Some (0, dest_data)
      else let len = (if source_length * 2 > dest_length then dest_length div 2 - 1
                      else source_length)
           in map_option (\<lambda>d. (len, d)) (to_hex_loop 0 (unat len) source_data dest_length dest_data))"

text \<open>The C string at the start of a buffer.\<close>

definition cstring :: "char list \<Rightarrow> string" where
  "cstring buf = takeWhile (\<lambda>c. c \<noteq> CHR 0x00) buf"

lemma length_poke: "off + length xs \<le> length buf \<Longrightarrow> length (poke buf off xs) = length buf"
  by (simp add: poke_def)

lemma hex_digit_nonzero: "n < 16 \<Longrightarrow> hex_digit n \<noteq> CHR 0x00"
proof -
  assume "n < 16"
  then have "n \<in> set [0..<16]" by simp
  moreover have "\<forall>n \<in> set [0..<16]. hex_digit n \<noteq> CHR 0x00" by code_simp
  ultimately show ?thesis by blast
qed

lemma hex2_chars: "length (hex2 b) = 2" "CHR 0x00 \<notin> set (hex2 b)"
  using hex_digit_nonzero [OF lo_nib_less, of b] hex_digit_nonzero [OF hi_nib_less, of b]
  by (simp_all add: hex2_def eq_commute [of "CHR 0x00"])

text \<open>With room for the terminator every pair is stored whole after the ones before it.\<close>

lemma to_hex_loop_fits:
  assumes "unat n \<le> length dest" and "2 * length source + 1 \<le> unat n"
  shows "i + k = length source \<Longrightarrow> pre = concat (map hex2 (take i source)) \<Longrightarrow>
     take (2 * i) dest' = pre \<Longrightarrow> length dest' = length dest \<Longrightarrow>
     (k = 0 \<Longrightarrow> 2 * i < length dest' \<and> (i = 0 \<or> dest' ! (2 * i) = CHR 0x00)) \<Longrightarrow>
     \<exists>d. to_hex_loop i k source n dest' = Some d \<and> length d = length dest
         \<and> take (2 * length source) d = concat (map hex2 source)
         \<and> (source = [] \<or> d ! (2 * length source) = CHR 0x00)"
proof (induction k arbitrary: i pre dest')
  case (Suc k)
  have i: "i < length source" using Suc.prems(1) by simp
  have "2 * i < 2 ^ 64" using i assms unsigned_less [of n, where 'a=nat] by simp
  then have "unat (of_nat (2 * i) :: u64) = 2 * i" by (simp only: unat_of_nat) simp
  then have w: "unat (2 * of_nat i :: u64) = 2 * i" by simp
  have le: "2 * of_nat i \<le> n" using i assms(2) w by (simp add: word_le_nat_alt)
  have room: "unat (n - 2 * of_nat i) = unat n - 2 * i" using unat_sub [OF le] w by simp
  have big: "3 \<le> unat n - 2 * i" using i assms(2) by linarith
  let ?d = "snprintf_hex dest' (2 * i) (unat n - 2 * i) (source ! i)"
  have d: "?d = poke dest' (2 * i) (hex2 (source ! i) @ [CHR 0x00])"
  proof -
    have "unat n - 2 * i \<noteq> 0" using big by linarith
    then show ?thesis using big by (simp only: snprintf_hex_def if_False) (simp add: hex2_chars)
  qed
  have fit: "2 * i + 3 \<le> length dest'" using Suc.prems(4) assms(1) big by linarith
  have step: "to_hex_loop i (Suc k) source n dest' = to_hex_loop (Suc i) k source n ?d"
    using i fit big by (simp add: room Let_def)
  have "concat (map hex2 (take (Suc i) source)) = pre @ hex2 (source ! i)"
    using i Suc.prems(2) by (simp add: take_Suc_conv_app_nth)
  moreover have "take (2 * Suc i) ?d = pre @ hex2 (source ! i)"
  proof -
    have "length pre = 2 * i" using Suc.prems(3) fit by (metis length_take min_absorb2 add_leD1)
    then show ?thesis using Suc.prems(3) by (simp add: d poke_def hex2_chars)
  qed
  moreover have "length ?d = length dest" using fit Suc.prems(4) by (simp add: d length_poke hex2_chars)
  moreover have "?d ! (2 * Suc i) = CHR 0x00" "2 * Suc i < length ?d"
    using fit by (simp_all add: d poke_def nth_append hex2_chars length_poke)
  ultimately show ?case
    unfolding step using Suc.prems(1) by (intro Suc.IH) (simp_all del: mult_Suc_right)
qed (use assms in auto)

lemma to_hex_loop_overrun:
  "length source < i + k \<Longrightarrow> i \<le> length source \<Longrightarrow> to_hex_loop i k source n dest = None"
proof (induction k arbitrary: i dest)
  case (Suc k)
  then show ?case by (cases "i < length source") (simp_all add: Let_def)
qed simp

lemma cstring_prefix:
  assumes "CHR 0x00 \<notin> set xs" and "take (length xs) d = xs"
    and "length xs < length d" and "d ! length xs = CHR 0x00"
  shows "cstring d = xs"
proof -
  have "d = xs @ CHR 0x00 # drop (Suc (length xs)) d"
    using assms(2-4) by (metis id_take_nth_drop)
  then have "takeWhile (\<lambda>c. c \<noteq> CHR 0x00) d
      = takeWhile (\<lambda>c. c \<noteq> CHR 0x00) (xs @ CHR 0x00 # drop (Suc (length xs)) d)" by simp
  also have "\<dots> = xs" using assms(1) by (subst takeWhile_append2) auto
  finally show ?thesis by (simp add: cstring_def)
qed

subsection \<open>Properties\<close>

text \<open>C39: decoding what the encoder wrote gives the frequency back, modulo the number
  of digits, in both byte orders, for up to fifteen digits (where no \<^verbatim>\<open>double\<close> of the
  decoder rounds).\<close>

theorem bcd_roundtrip:
  assumes "n \<le> 2 * length buf" and "n \<le> 15"
  shows "from_bcd (to_bcd buf freq n) n = Some (unat freq mod 10 ^ n)
         \<and> from_bcd_be (to_bcd_be buf freq n) n = Some (unat freq mod 10 ^ n)"
  using le.dec_enc [OF assms] be.dec_enc [OF assms] by simp

theorem bcd_roundtrip_witness:
  "from_bcd (to_bcd [0, 0, 0, 0, 0] 1234567890 10) 10 = Some 1234567890"
  using bcd_roundtrip [of 10 "[0, 0, 0, 0, 0]" 1234567890] by simp

text \<open>\<^verbatim>\<open>to_bcd\<close> writes exactly the digits of the frequency: digit position \<open>k\<close> below
  \<^verbatim>\<open>bcd_len\<close> holds the \<open>k\<close>-th decimal digit, and the nibble that an odd
  \<^verbatim>\<open>bcd_len\<close> leaves over keeps the caller's value.\<close>

theorem to_bcd_layout:
  assumes "n \<le> 2 * length buf"
  shows "length (to_bcd buf freq n) = length buf
         \<and> (\<forall>k<n. digit_le (to_bcd buf freq n) n k = unat freq div 10 ^ k mod 10)
         \<and> (odd n \<longrightarrow> hi_nib (to_bcd buf freq n ! (n div 2)) = hi_nib (buf ! (n div 2)))"
  using assms by (simp add: to_bcd_length to_bcd_digit to_bcd_high_nibble_kept)

theorem to_bcd_layout_witness:
  "length (to_bcd [0, 0x70] 450 3) = 2 \<and> hi_nib (to_bcd [0, 0x70] 450 3 ! 1) = hi_nib 0x70"
  using to_bcd_layout [of 3 "[0, 0x70]" 450] by simp

text \<open>given room for all pairs and the terminator, \<^verbatim>\<open>to_hex\<close> reports every octet and
  leaves the C string of their hexadecimal digits.\<close>

theorem to_hex_complete:
  assumes "source \<noteq> []" and "source_length = of_nat (length source)"
    and "2 * length source + 1 \<le> unat dest_length" and "unat dest_length \<le> length dest"
  shows "\<exists>d. to_hex source_length source dest_length dest = Some (source_length, d)
             \<and> cstring d = concat (map hex2 source)"
proof -
  let ?n = "length source"
  have small: "2 * ?n < 2 ^ 64"
    using assms(3) unsigned_less [of dest_length, where 'a=nat] by simp
  then have sl: "unat source_length = ?n"
    using assms(2) by (simp only: unat_of_nat) simp
  have "source_length * 2 = of_nat (2 * ?n)" using assms(2) by simp
  then have "unat (source_length * 2) = 2 * ?n" using small by (simp only: unat_of_nat) simp
  then have room: "\<not> source_length * 2 > dest_length"
    using assms(3) by (simp add: word_less_nat_alt)
  have nz: "source_length \<noteq> 0" "dest_length \<noteq> 0" using sl assms(1,3) by auto
  obtain d where d: "to_hex_loop 0 ?n source dest_length dest = Some d" "length d = length dest"
    "take (2 * ?n) d = concat (map hex2 source)" "source = [] \<or> d ! (2 * ?n) = CHR 0x00"
    using to_hex_loop_fits [OF assms(4,3), of 0 ?n "[]" dest] assms(1) by auto
  have "length (concat (map hex2 source)) = 2 * ?n"
    by (induction source) (simp_all add: hex2_chars)
  moreover have "CHR 0x00 \<notin> set (concat (map hex2 source))"
    by (auto simp: hex2_chars)
  ultimately have "cstring d = concat (map hex2 source)"
    using d assms(1,3,4) by (intro cstring_prefix) simp_all
  with d(1) nz room sl show ?thesis by (simp add: to_hex_def)
qed

theorem to_hex_complete_witness:
  "\<exists>d. to_hex 2 [0xA5, 0x0F] 5 (replicate 8 CHR ''x'') = Some (2, d) \<and> cstring d = ''A50F''"
proof -
  have "concat (map hex2 [0xA5, 0x0F]) = ''A50F''" by code_simp
  then show ?thesis
    using to_hex_complete [of "[0xA5, 0x0F]" 2 5 "replicate 8 CHR ''x''"] by simp
qed

text \<open>the size check of \<^verbatim>\<open>to_hex\<close> is off at its two edges. A destination of exactly
  two characters per octet is taken as large enough, and the last digit is lost though
  every octet is reported; a destination of one character makes \<^verbatim>\<open>dest_length / 2 - 1\<close>
  wrap around, and the loop runs off both buffers.\<close>

theorem to_hex_size_edges:
  "(\<exists>d. to_hex 2 [0xA5, 0x0F] 4 (replicate 4 CHR ''x'') = Some (2, d) \<and> cstring d = ''A50'')
   \<and> to_hex 1 [0xA5] 1 (replicate 1 CHR ''x'') = None"
proof
  have "to_hex 2 [0xA5, 0x0F] 4 (replicate 4 CHR ''x'') = Some (2, ''A50'' @ [CHR 0x00])"
    by code_simp
  moreover have "cstring (''A50'' @ [CHR 0x00]) = ''A50''" by code_simp
  ultimately show "\<exists>d. to_hex 2 [0xA5, 0x0F] 4 (replicate 4 CHR ''x'') = Some (2, d) \<and> cstring d = ''A50''"
    by blast
  have "unat (1 div 2 - 1 :: u64) = 18446744073709551615"
    by (simp add: unsigned_minus_1_eq_mask mask_eq_exp_minus_1)
  then have "to_hex_loop 0 (unat (1 div 2 - 1 :: u64)) [0xA5] 1 (replicate 1 CHR ''x'') = None"
    by (intro to_hex_loop_overrun) simp_all
  then show "to_hex 1 [0xA5] 1 (replicate 1 CHR ''x'') = None"
    by (simp add: to_hex_def)
qed

end
