(* ===== verification/Hamlib_Crc.thy ===== *)
theory Hamlib_Crc
  imports Hamlib_Prelude
begin

text \<open>
  The two CRC-32 routines of the library: the one of \<^verbatim>\<open>src/misc.c\<close> (\<^verbatim>\<open>CRC32_function\<close>,
  one octet of the register at a time, \<^verbatim>\<open>uint32_t\<close>), which seals the multicast
  snapshots, and the table-driven one of \<^verbatim>\<open>src/rig.c\<close> (\<^verbatim>\<open>make_crc_table\<close>,
  \<^verbatim>\<open>gen_crc\<close>, \<^verbatim>\<open>unsigned long\<close> of 64 bits), which seals \<^verbatim>\<open>rig_get_rig_info\<close>. Both
  are shown equal to the bit-serial shift register, hence to each other.
\<close>

subsection \<open>CRC32_function of misc.c\<close>

definition crc_shift :: "u32 \<Rightarrow> u32" where
  "crc_shift val = (if val AND 1 \<noteq> 0 then drop_bit 1 val XOR 0xEDB88320 else drop_bit 1 val)"

fun CRC32_loop :: "u32 \<Rightarrow> u8 list \<Rightarrow> u32" where
  "CRC32_loop crc [] = crc"
| "CRC32_loop crc (b # buf) =
     (let val = (crc XOR ucast b) AND 0xFF;
          val' = (crc_shift ^^ 8) val
      in CRC32_loop (val' XOR drop_bit 8 crc) buf)"

definition CRC32_function :: "u8 list \<Rightarrow> u32" where
  "CRC32_function buf = CRC32_loop 0xFFFFFFFF buf XOR 0xFFFFFFFF"

subsection \<open>make_crc_table and gen_crc of rig.c\<close>

definition crc_shift64 :: "u64 \<Rightarrow> u64" where
  "crc_shift64 remainder =
     (if remainder AND 1 \<noteq> 0 then drop_bit 1 remainder XOR 0xEDB88320 else drop_bit 1 remainder)"

fun make_crc_table_loop :: "nat \<Rightarrow> nat \<Rightarrow> u64 list \<Rightarrow> u64 list" where
  "make_crc_table_loop b 0 crcTable = crcTable"
| "make_crc_table_loop b (Suc k) crcTable =
     make_crc_table_loop (Suc b) k (crcTable[b := (crc_shift64 ^^ 8) (of_nat b)])"

definition make_crc_table :: "u64 list \<Rightarrow> u64 list" where
  "make_crc_table crcTable = make_crc_table_loop 0 256 crcTable"

fun gen_crc_loop :: "u64 list \<Rightarrow> u64 \<Rightarrow> u8 list \<Rightarrow> u64" where
  "gen_crc_loop crcTable crc [] = crc"
| "gen_crc_loop crcTable crc (b # p) =
     gen_crc_loop crcTable (crcTable ! unat (ucast b XOR (crc AND 0xff)) XOR drop_bit 8 crc) p"

text \<open>The table is a static array of the file: \<^verbatim>\<open>gen_crc\<close> returns it as it leaves it.\<close>

definition gen_crc :: "u64 list \<Rightarrow> u8 list \<Rightarrow> u64 \<times> u64 list" where
  "gen_crc crcTable p =
     (let tbl = (if crcTable ! 0 = 0 then make_crc_table crcTable else crcTable)
      in (NOT (gen_crc_loop tbl 0xffffffff p) AND 0xffffffff, tbl))"

subsection \<open>The bit-serial register\<close>

text \<open>
  The reference: a register of 32 bits that takes one octet into its low end and shifts
  it out bit by bit, folding the reversed polynomial in whenever a one leaves.
\<close>

fun crc_register :: "u32 \<Rightarrow> u8 list \<Rightarrow> u32" where
  "crc_register crc [] = crc"
| "crc_register crc (b # bs) = crc_register ((crc_shift ^^ 8) (crc XOR ucast b)) bs"

definition crc32_reference :: "u8 list \<Rightarrow> u32" where
  "crc32_reference bs = NOT (crc_register 0xFFFFFFFF bs)"

lemma crc_shift_alt: "crc_shift x = drop_bit 1 x XOR (if bit x 0 then 0xEDB88320 else 0)"
  by (simp add: crc_shift_def and_one_eq bit_0 of_bool_def odd_iff_mod_2_eq_one)

lemma crc_shift_xor: "crc_shift (x XOR y) = crc_shift x XOR crc_shift y"
proof -
  have "drop_bit 1 (x XOR y) = drop_bit 1 x XOR drop_bit 1 y"
    by (rule bit_word_eqI) (simp add: bit_simps)
  then show ?thesis
    by (auto simp: crc_shift_alt bit_xor_iff ac_simps)
qed

lemma crc_shift_pow_xor: "(crc_shift ^^ n) (x XOR y) = (crc_shift ^^ n) x XOR (crc_shift ^^ n) y"
  by (induction n) (simp_all add: crc_shift_xor)

lemma crc_shift_pow_high:
  "(\<And>i. i < n \<Longrightarrow> \<not> bit x i) \<Longrightarrow> (crc_shift ^^ n) x = drop_bit n x"
proof (induction n arbitrary: x)
  case (Suc n)
  have "\<not> bit x 0" using Suc.prems by simp
  then have one: "crc_shift x = drop_bit 1 x" by (simp add: crc_shift_alt)
  have "(crc_shift ^^ Suc n) x = (crc_shift ^^ n) (crc_shift x)"
    by (simp only: funpow_Suc_right o_apply)
  also have "\<dots> = drop_bit n (drop_bit 1 x)"
    unfolding one by (rule Suc.IH) (simp add: bit_simps Suc.prems)
  finally show ?case by simp
qed simp

text \<open>Eight shifts: the low octet is folded, the rest moves down.\<close>

lemma crc_shift8_split: "(crc_shift ^^ 8) x = (crc_shift ^^ 8) (x AND 0xFF) XOR drop_bit 8 x"
proof -
  have m: "(0xFF :: u32) = mask 8" by (simp add: mask_eq_exp_minus_1)
  have "x = (x AND 0xFF) XOR push_bit 8 (drop_bit 8 x)"
    unfolding m by (rule bit_word_eqI) (auto simp: bit_simps)
  then have "(crc_shift ^^ 8) x
      = (crc_shift ^^ 8) (x AND 0xFF) XOR (crc_shift ^^ 8) (push_bit 8 (drop_bit 8 x))"
    by (metis crc_shift_pow_xor)
  also have "(crc_shift ^^ 8) (push_bit 8 (drop_bit 8 x)) = drop_bit 8 (push_bit 8 (drop_bit 8 x))"
    by (rule crc_shift_pow_high) (simp add: bit_simps)
  also have "\<dots> = drop_bit 8 x"
    by (rule bit_word_eqI) (auto simp: bit_simps dest: bit_imp_le_length)
  finally show ?thesis .
qed

lemma drop_octet [simp]: "drop_bit 8 (ucast (b :: u8) :: u32) = 0"
  by (rule bit_word_eqI) (auto simp: bit_simps dest: bit_imp_le_length)

lemma crc_shift8_octet:
  "(crc_shift ^^ 8) (crc XOR ucast (b :: u8))
   = (crc_shift ^^ 8) ((crc XOR ucast b) AND 0xFF) XOR drop_bit 8 crc"
  by (subst crc_shift8_split) simp

lemma CRC32_loop_register: "CRC32_loop crc bs = crc_register crc bs"
  by (induction bs arbitrary: crc)
    (simp_all add: Let_def crc_shift8_octet)

subsection \<open>The table-driven form\<close>

lemma crc_shift64_ucast: "crc_shift64 (ucast (x :: u32)) = ucast (crc_shift x)"
proof -
  have "drop_bit 1 (ucast x :: u64) = ucast (drop_bit 1 x)"
    by (rule bit_word_eqI) (auto simp: bit_simps dest: bit_imp_le_length)
  moreover have "(ucast x :: u64) AND 1 \<noteq> 0 \<longleftrightarrow> x AND 1 \<noteq> 0"
    by (simp add: and_one_eq mod_2_eq_odd bit_unsigned_iff flip: bit_0)
  moreover have "(ucast (y XOR 0xEDB88320 :: u32) :: u64) = ucast y XOR 0xEDB88320" for y
    by (simp add: unsigned_xor_eq)
  ultimately show ?thesis
    by (simp add: crc_shift64_def crc_shift_def)
qed

lemma crc_shift64_pow: "(crc_shift64 ^^ n) (ucast (x :: u32)) = ucast ((crc_shift ^^ n) x)"
  by (induction n) (simp_all add: crc_shift64_ucast)

lemma make_crc_table_loop_nth:
  "b + k \<le> length t \<Longrightarrow>
   length (make_crc_table_loop b k t) = length t
   \<and> (\<forall>j. (b \<le> j \<and> j < b + k \<longrightarrow> make_crc_table_loop b k t ! j = (crc_shift64 ^^ 8) (of_nat j))
         \<and> (\<not> (b \<le> j \<and> j < b + k) \<longrightarrow> make_crc_table_loop b k t ! j = t ! j))"
proof (induction k arbitrary: b t)
  case (Suc k)
  let ?t = "t[b := (crc_shift64 ^^ 8) (of_nat b)]"
  have "Suc b + k \<le> length ?t" using Suc.prems by simp
  note IH = Suc.IH [OF this]
  have at_b: "make_crc_table_loop (Suc b) k ?t ! b = (crc_shift64 ^^ 8) (of_nat b)"
    using IH Suc.prems by simp
  show ?case
    by (intro conjI allI impI) (use IH at_b in \<open>auto simp: le_less Suc_le_eq\<close>)
qed auto

lemma make_crc_table_entry:
  assumes "length t = 256" and "j < 256"
  shows "make_crc_table t ! j = (crc_shift64 ^^ 8) (of_nat j)"
  using make_crc_table_loop_nth [of 0 256 t] assms by (simp add: make_crc_table_def)

lemma make_crc_table_length: "length t = 256 \<Longrightarrow> length (make_crc_table t) = 256"
  using make_crc_table_loop_nth [of 0 256 t] by (simp add: make_crc_table_def)

lemma make_crc_table_head: "length t = 256 \<Longrightarrow> make_crc_table t ! 0 = 0"
proof -
  have "(crc_shift64 ^^ n) 0 = 0" for n by (induction n) (simp_all add: crc_shift64_def)
  then show "length t = 256 \<Longrightarrow> make_crc_table t ! 0 = 0" by (simp add: make_crc_table_entry)
qed

lemma gen_crc_step:
  assumes "length t = 256"
  shows "make_crc_table t ! unat (ucast b XOR ((ucast crc :: u64) AND 0xff)) XOR drop_bit 8 (ucast crc)
         = ucast ((crc_shift ^^ 8) ((crc XOR ucast (b :: u8)) AND 0xFF) XOR drop_bit 8 (crc :: u32))"
proof -
  let ?v = "(crc XOR ucast b) AND 0xFF"
  have v: "ucast b XOR ((ucast crc :: u64) AND 0xff) = ucast ?v"
  proof -
    have m64: "(0xff :: u64) = mask 8" and m32: "(0xFF :: u32) = mask 8"
      by (simp_all add: mask_eq_exp_minus_1)
    show ?thesis unfolding m64 m32
      by (rule bit_word_eqI) (auto simp: bit_simps dest: bit_imp_le_length)
  qed
  have "unat ?v < 256"
  proof -
    have "(0xFF :: u32) = mask 8" by (simp add: mask_eq_exp_minus_1)
    then have "?v = take_bit 8 (crc XOR ucast b)" by (simp add: take_bit_eq_mask)
    then show ?thesis by (simp add: take_bit_eq_mod unat_mod)
  qed
  then have "make_crc_table t ! unat (ucast ?v :: u64) = (crc_shift64 ^^ 8) (ucast ?v)"
    using assms by (simp add: make_crc_table_entry unsigned_ucast_eq take_bit_eq_mod)
  moreover have "drop_bit 8 (ucast crc :: u64) = ucast (drop_bit 8 crc)"
    by (rule bit_word_eqI) (auto simp: bit_simps dest: bit_imp_le_length)
  ultimately show ?thesis
    by (simp add: v crc_shift64_pow unsigned_xor_eq)
qed

lemma gen_crc_loop_ucast:
  "length t = 256 \<Longrightarrow> gen_crc_loop (make_crc_table t) (ucast crc) bs = ucast (CRC32_loop crc bs)"
  by (induction bs arbitrary: crc) (simp_all add: Let_def gen_crc_step del: funpow.simps)

lemma XOR_all_ones: "(x :: u32) XOR 0xFFFFFFFF = NOT x"
proof -
  have m: "(0xFFFFFFFF :: u32) = mask 32" by (simp add: mask_eq_exp_minus_1)
  show ?thesis unfolding m by (rule bit_word_eqI) (auto simp: bit_simps)
qed

subsection \<open>Properties\<close>

text \<open>C37: for every message the octet-at-a-time routine of \<^verbatim>\<open>misc.c\<close> returns the value of
  the bit-serial CRC-32 register (reflected polynomial, preset and final complement).\<close>

theorem CRC32_function_correct: "CRC32_function bs = crc32_reference bs"
  by (simp add: CRC32_function_def crc32_reference_def XOR_all_ones CRC32_loop_register)

text \<open>C38: the table-driven routine of \<^verbatim>\<open>rig.c\<close>, computing in a 64-bit
  \<^verbatim>\<open>unsigned long\<close>, returns the same 32-bit checksum as the one of \<^verbatim>\<open>misc.c\<close> for every
  message, from the zeroed static table and from every table it leaves behind itself,
  and it always rebuilds that table (its entry 0 is 0 also when it is complete).\<close>

theorem gen_crc_agrees:
  assumes "length tbl = 256" and "tbl ! 0 = 0"
  shows "gen_crc tbl bs = (ucast (CRC32_function bs), make_crc_table tbl)
         \<and> length (make_crc_table tbl) = 256 \<and> make_crc_table tbl ! 0 = 0"
proof -
  have ones: "(0xffffffff :: u64) = ucast (0xFFFFFFFF :: u32)" by simp
  have low: "NOT (ucast x :: u64) AND ucast (0xFFFFFFFF :: u32) = ucast (x XOR 0xFFFFFFFF :: u32)"
    for x
  proof -
    have m: "(0xFFFFFFFF :: u32) = mask 32" by (simp add: mask_eq_exp_minus_1)
    show ?thesis unfolding m by (rule bit_word_eqI) (auto simp: bit_simps dest: bit_imp_le_length)
  qed
  have "gen_crc tbl bs = (ucast (CRC32_function bs), make_crc_table tbl)"
    unfolding gen_crc_def Let_def assms(2) CRC32_function_def ones
    by (simp only: simp_thms if_True gen_crc_loop_ucast [OF assms(1)] low)
  then show ?thesis
    using assms(1) by (simp add: make_crc_table_length make_crc_table_head)
qed

theorem gen_crc_agrees_witness:
  "gen_crc (replicate 256 0) [0x31, 0x32, 0x33]
   = (ucast (CRC32_function [0x31, 0x32, 0x33]), make_crc_table (replicate 256 0))"
proof -
  have table: "length (replicate 256 (0 :: u64)) = 256" "replicate 256 (0 :: u64) ! 0 = 0"
    by (rule length_replicate) (rule nth_replicate, simp)
  show ?thesis
    using gen_crc_agrees [OF table, of "[0x31, 0x32, 0x33]"] by (rule conjunct1)
qed

end
