(* ===== verification/Hamlib_Flags.thy ===== *)
theory Hamlib_Flags
  imports Hamlib_Prelude
begin

text \<open>
  The flag words of \<^verbatim>\<open>include/hamlib/rig.h\<close>, \<^verbatim>\<open>rotator.h\<close> and \<^verbatim>\<open>amplifier.h\<close>: VFOs
  (\<^verbatim>\<open>vfo_t\<close>, 32 bits), modes, functions, levels and parameters (\<^verbatim>\<open>rmode_t\<close> and
  \<^verbatim>\<open>setting_t\<close>, 64 bits), operations and scan kinds (\<^verbatim>\<open>enum\<close>s of single bits). Every
  constant keeps the name and the bit the header gives it.
\<close>

type_synonym vfo_t = u32
type_synonym rmode_t = u64
type_synonym setting_t = u64
type_synonym pbwidth_t = int
type_synonym shortfreq_t = int

definition CONSTANT_64BIT_FLAG :: "nat \<Rightarrow> u64" where
  "CONSTANT_64BIT_FLAG n = push_bit n 1"

definition FLAG32 :: "nat \<Rightarrow> u32" where
  "FLAG32 n = push_bit n 1"

lemma FLAG64_eq_iff [simp]:
  "i < 64 \<Longrightarrow> j < 64 \<Longrightarrow> CONSTANT_64BIT_FLAG i = CONSTANT_64BIT_FLAG j \<longleftrightarrow> i = j"
  unfolding CONSTANT_64BIT_FLAG_def by (rule push_bit_one_eq_iff) simp_all

lemma FLAG32_eq_iff [simp]: "i < 32 \<Longrightarrow> j < 32 \<Longrightarrow> FLAG32 i = FLAG32 j \<longleftrightarrow> i = j"
  unfolding FLAG32_def by (rule push_bit_one_eq_iff) simp_all

lemma FLAG64_neq_zero [simp]: "i < 64 \<Longrightarrow> CONSTANT_64BIT_FLAG i \<noteq> 0"
  unfolding CONSTANT_64BIT_FLAG_def by (rule push_bit_one_neq_zero) simp

lemma FLAG32_neq_zero [simp]: "i < 32 \<Longrightarrow> FLAG32 i \<noteq> 0"
  unfolding FLAG32_def by (rule push_bit_one_neq_zero) simp

lemma and_FLAG64: "i < 64 \<Longrightarrow> (w AND CONSTANT_64BIT_FLAG i \<noteq> 0) \<longleftrightarrow> bit w i"
  unfolding CONSTANT_64BIT_FLAG_def by (rule and_push_bit_one) simp

lemma and_FLAG32: "i < 32 \<Longrightarrow> (w AND FLAG32 i \<noteq> 0) \<longleftrightarrow> bit w i"
  unfolding FLAG32_def by (rule and_push_bit_one) simp

lemma bit_FLAG64: "i < 64 \<Longrightarrow> bit (CONSTANT_64BIT_FLAG i) j \<longleftrightarrow> i = j"
  by (auto simp: CONSTANT_64BIT_FLAG_def bit_simps)

subsection \<open>VFOs\<close>

definition RIG_VFO_N :: "nat \<Rightarrow> vfo_t" where [vfo_defs]: "RIG_VFO_N n = push_bit n 1"
definition RIG_VFO_NONE :: vfo_t where [vfo_defs]: "RIG_VFO_NONE = 0"
definition RIG_VFO_A :: vfo_t where [vfo_defs]: "RIG_VFO_A = RIG_VFO_N 0"
definition RIG_VFO_B :: vfo_t where [vfo_defs]: "RIG_VFO_B = RIG_VFO_N 1"
definition RIG_VFO_C :: vfo_t where [vfo_defs]: "RIG_VFO_C = RIG_VFO_N 2"
definition RIG_VFO_SUB_A :: vfo_t where [vfo_defs]: "RIG_VFO_SUB_A = RIG_VFO_N 21"
definition RIG_VFO_SUB_B :: vfo_t where [vfo_defs]: "RIG_VFO_SUB_B = RIG_VFO_N 22"
definition RIG_VFO_SUB_C :: vfo_t where [vfo_defs]: "RIG_VFO_SUB_C = RIG_VFO_N 3"
definition RIG_VFO_MAIN_A :: vfo_t where [vfo_defs]: "RIG_VFO_MAIN_A = RIG_VFO_N 23"
definition RIG_VFO_MAIN_B :: vfo_t where [vfo_defs]: "RIG_VFO_MAIN_B = RIG_VFO_N 24"
definition RIG_VFO_MAIN_C :: vfo_t where [vfo_defs]: "RIG_VFO_MAIN_C = RIG_VFO_N 4"
definition RIG_VFO_OTHER :: vfo_t where [vfo_defs]: "RIG_VFO_OTHER = RIG_VFO_N 5"
definition RIG_VFO_SUB :: vfo_t where [vfo_defs]: "RIG_VFO_SUB = RIG_VFO_N 25"
definition RIG_VFO_MAIN :: vfo_t where [vfo_defs]: "RIG_VFO_MAIN = RIG_VFO_N 26"
definition RIG_VFO_VFO :: vfo_t where [vfo_defs]: "RIG_VFO_VFO = RIG_VFO_N 27"
definition RIG_VFO_MEM :: vfo_t where [vfo_defs]: "RIG_VFO_MEM = RIG_VFO_N 28"
definition RIG_VFO_CURR :: vfo_t where [vfo_defs]: "RIG_VFO_CURR = RIG_VFO_N 29"
definition RIG_VFO_TX_FLAG :: vfo_t where [vfo_defs]: "RIG_VFO_TX_FLAG = RIG_VFO_N 30"
definition RIG_VFO_ALL :: vfo_t where [vfo_defs]: "RIG_VFO_ALL = RIG_VFO_N 31"
definition RIG_VFO_TX_VFO :: "vfo_t \<Rightarrow> vfo_t" where [vfo_defs]: "RIG_VFO_TX_VFO v = v OR RIG_VFO_TX_FLAG"
definition RIG_VFO_TX :: vfo_t where [vfo_defs]: "RIG_VFO_TX = RIG_VFO_TX_VFO RIG_VFO_CURR"
definition RIG_VFO_RX :: vfo_t where [vfo_defs]: "RIG_VFO_RX = RIG_VFO_CURR"

subsection \<open>What a back end can address on a VFO that is not current\<close>

definition RIG_TARGETABLE_FREQ :: u32 where [flag_defs]: "RIG_TARGETABLE_FREQ = FLAG32 0"
definition RIG_TARGETABLE_MODE :: u32 where [flag_defs]: "RIG_TARGETABLE_MODE = FLAG32 1"
definition RIG_TARGETABLE_PURE :: u32 where [flag_defs]: "RIG_TARGETABLE_PURE = FLAG32 2"
definition RIG_TARGETABLE_TONE :: u32 where [flag_defs]: "RIG_TARGETABLE_TONE = FLAG32 3"
definition RIG_TARGETABLE_FUNC :: u32 where [flag_defs]: "RIG_TARGETABLE_FUNC = FLAG32 4"
definition RIG_TARGETABLE_LEVEL :: u32 where [flag_defs]: "RIG_TARGETABLE_LEVEL = FLAG32 5"
definition RIG_TARGETABLE_RITXIT :: u32 where [flag_defs]: "RIG_TARGETABLE_RITXIT = FLAG32 6"
definition RIG_TARGETABLE_PTT :: u32 where [flag_defs]: "RIG_TARGETABLE_PTT = FLAG32 7"
definition RIG_TARGETABLE_MEM :: u32 where [flag_defs]: "RIG_TARGETABLE_MEM = FLAG32 8"
definition RIG_TARGETABLE_BANK :: u32 where [flag_defs]: "RIG_TARGETABLE_BANK = FLAG32 9"
definition RIG_TARGETABLE_ANT :: u32 where [flag_defs]: "RIG_TARGETABLE_ANT = FLAG32 10"
definition RIG_TARGETABLE_ROOFING :: u32 where [flag_defs]: "RIG_TARGETABLE_ROOFING = FLAG32 11"
definition RIG_TARGETABLE_SPECTRUM :: u32 where [flag_defs]: "RIG_TARGETABLE_SPECTRUM = FLAG32 12"
definition RIG_TARGETABLE_BAND :: u32 where [flag_defs]: "RIG_TARGETABLE_BAND = FLAG32 13"

subsection \<open>Modes, functions, levels, parameters, operations, scans, rotator status\<close>

definition RIG_MODE_AM :: u64 where [flag_defs]: "RIG_MODE_AM = CONSTANT_64BIT_FLAG 0"
definition RIG_MODE_PKTAM :: u64 where [flag_defs]: "RIG_MODE_PKTAM = CONSTANT_64BIT_FLAG 22"
definition RIG_MODE_CW :: u64 where [flag_defs]: "RIG_MODE_CW = CONSTANT_64BIT_FLAG 1"
definition RIG_MODE_USB :: u64 where [flag_defs]: "RIG_MODE_USB = CONSTANT_64BIT_FLAG 2"
definition RIG_MODE_LSB :: u64 where [flag_defs]: "RIG_MODE_LSB = CONSTANT_64BIT_FLAG 3"
definition RIG_MODE_RTTY :: u64 where [flag_defs]: "RIG_MODE_RTTY = CONSTANT_64BIT_FLAG 4"
definition RIG_MODE_FM :: u64 where [flag_defs]: "RIG_MODE_FM = CONSTANT_64BIT_FLAG 5"
definition RIG_MODE_PKTFM :: u64 where [flag_defs]: "RIG_MODE_PKTFM = CONSTANT_64BIT_FLAG 12"
definition RIG_MODE_WFM :: u64 where [flag_defs]: "RIG_MODE_WFM = CONSTANT_64BIT_FLAG 6"
definition RIG_MODE_CWR :: u64 where [flag_defs]: "RIG_MODE_CWR = CONSTANT_64BIT_FLAG 7"
definition RIG_MODE_RTTYR :: u64 where [flag_defs]: "RIG_MODE_RTTYR = CONSTANT_64BIT_FLAG 8"
definition RIG_MODE_AMS :: u64 where [flag_defs]: "RIG_MODE_AMS = CONSTANT_64BIT_FLAG 9"
definition RIG_MODE_PKTLSB :: u64 where [flag_defs]: "RIG_MODE_PKTLSB = CONSTANT_64BIT_FLAG 10"
definition RIG_MODE_PKTUSB :: u64 where [flag_defs]: "RIG_MODE_PKTUSB = CONSTANT_64BIT_FLAG 11"
definition RIG_MODE_PKTFMN :: u64 where [flag_defs]: "RIG_MODE_PKTFMN = CONSTANT_64BIT_FLAG 34"
definition RIG_MODE_ECSSUSB :: u64 where [flag_defs]: "RIG_MODE_ECSSUSB = CONSTANT_64BIT_FLAG 13"
definition RIG_MODE_ECSSLSB :: u64 where [flag_defs]: "RIG_MODE_ECSSLSB = CONSTANT_64BIT_FLAG 14"
definition RIG_MODE_FAX :: u64 where [flag_defs]: "RIG_MODE_FAX = CONSTANT_64BIT_FLAG 15"
definition RIG_MODE_SAM :: u64 where [flag_defs]: "RIG_MODE_SAM = CONSTANT_64BIT_FLAG 16"
definition RIG_MODE_SAL :: u64 where [flag_defs]: "RIG_MODE_SAL = CONSTANT_64BIT_FLAG 17"
definition RIG_MODE_SAH :: u64 where [flag_defs]: "RIG_MODE_SAH = CONSTANT_64BIT_FLAG 18"
definition RIG_MODE_DSB :: u64 where [flag_defs]: "RIG_MODE_DSB = CONSTANT_64BIT_FLAG 19"
definition RIG_MODE_FMN :: u64 where [flag_defs]: "RIG_MODE_FMN = CONSTANT_64BIT_FLAG 21"
definition RIG_MODE_P25 :: u64 where [flag_defs]: "RIG_MODE_P25 = CONSTANT_64BIT_FLAG 23"
definition RIG_MODE_DSTAR :: u64 where [flag_defs]: "RIG_MODE_DSTAR = CONSTANT_64BIT_FLAG 24"
definition RIG_MODE_DPMR :: u64 where [flag_defs]: "RIG_MODE_DPMR = CONSTANT_64BIT_FLAG 25"
definition RIG_MODE_NXDNVN :: u64 where [flag_defs]: "RIG_MODE_NXDNVN = CONSTANT_64BIT_FLAG 26"
definition RIG_MODE_NXDN_N :: u64 where [flag_defs]: "RIG_MODE_NXDN_N = CONSTANT_64BIT_FLAG 27"
definition RIG_MODE_DCR :: u64 where [flag_defs]: "RIG_MODE_DCR = CONSTANT_64BIT_FLAG 28"
definition RIG_MODE_AMN :: u64 where [flag_defs]: "RIG_MODE_AMN = CONSTANT_64BIT_FLAG 29"
definition RIG_MODE_PSK :: u64 where [flag_defs]: "RIG_MODE_PSK = CONSTANT_64BIT_FLAG 30"
definition RIG_MODE_PSKR :: u64 where [flag_defs]: "RIG_MODE_PSKR = CONSTANT_64BIT_FLAG 31"
definition RIG_MODE_C4FM :: u64 where [flag_defs]: "RIG_MODE_C4FM = CONSTANT_64BIT_FLAG 33"
definition RIG_MODE_SPEC :: u64 where [flag_defs]: "RIG_MODE_SPEC = CONSTANT_64BIT_FLAG 35"
definition RIG_MODE_CWN :: u64 where [flag_defs]: "RIG_MODE_CWN = CONSTANT_64BIT_FLAG 36"
definition RIG_MODE_IQ :: u64 where [flag_defs]: "RIG_MODE_IQ = CONSTANT_64BIT_FLAG 37"
definition RIG_MODE_NONE :: u64 where [flag_defs]: "RIG_MODE_NONE = 0"
definition RIG_FUNC_FAGC :: u64 where [flag_defs]: "RIG_FUNC_FAGC = CONSTANT_64BIT_FLAG 0"
definition RIG_FUNC_NB :: u64 where [flag_defs]: "RIG_FUNC_NB = CONSTANT_64BIT_FLAG 1"
definition RIG_FUNC_COMP :: u64 where [flag_defs]: "RIG_FUNC_COMP = CONSTANT_64BIT_FLAG 2"
definition RIG_FUNC_VOX :: u64 where [flag_defs]: "RIG_FUNC_VOX = CONSTANT_64BIT_FLAG 3"
definition RIG_FUNC_TONE :: u64 where [flag_defs]: "RIG_FUNC_TONE = CONSTANT_64BIT_FLAG 4"
definition RIG_FUNC_TSQL :: u64 where [flag_defs]: "RIG_FUNC_TSQL = CONSTANT_64BIT_FLAG 5"
definition RIG_FUNC_SBKIN :: u64 where [flag_defs]: "RIG_FUNC_SBKIN = CONSTANT_64BIT_FLAG 6"
definition RIG_FUNC_FBKIN :: u64 where [flag_defs]: "RIG_FUNC_FBKIN = CONSTANT_64BIT_FLAG 7"
definition RIG_FUNC_ANF :: u64 where [flag_defs]: "RIG_FUNC_ANF = CONSTANT_64BIT_FLAG 8"
definition RIG_FUNC_NR :: u64 where [flag_defs]: "RIG_FUNC_NR = CONSTANT_64BIT_FLAG 9"
definition RIG_FUNC_AIP :: u64 where [flag_defs]: "RIG_FUNC_AIP = CONSTANT_64BIT_FLAG 10"
definition RIG_FUNC_APF :: u64 where [flag_defs]: "RIG_FUNC_APF = CONSTANT_64BIT_FLAG 11"
definition RIG_FUNC_MON :: u64 where [flag_defs]: "RIG_FUNC_MON = CONSTANT_64BIT_FLAG 12"
definition RIG_FUNC_MN :: u64 where [flag_defs]: "RIG_FUNC_MN = CONSTANT_64BIT_FLAG 13"
definition RIG_FUNC_RF :: u64 where [flag_defs]: "RIG_FUNC_RF = CONSTANT_64BIT_FLAG 14"
definition RIG_FUNC_ARO :: u64 where [flag_defs]: "RIG_FUNC_ARO = CONSTANT_64BIT_FLAG 15"
definition RIG_FUNC_LOCK :: u64 where [flag_defs]: "RIG_FUNC_LOCK = CONSTANT_64BIT_FLAG 16"
definition RIG_FUNC_MUTE :: u64 where [flag_defs]: "RIG_FUNC_MUTE = CONSTANT_64BIT_FLAG 17"
definition RIG_FUNC_VSC :: u64 where [flag_defs]: "RIG_FUNC_VSC = CONSTANT_64BIT_FLAG 18"
definition RIG_FUNC_REV :: u64 where [flag_defs]: "RIG_FUNC_REV = CONSTANT_64BIT_FLAG 19"
definition RIG_FUNC_SQL :: u64 where [flag_defs]: "RIG_FUNC_SQL = CONSTANT_64BIT_FLAG 20"
definition RIG_FUNC_ABM :: u64 where [flag_defs]: "RIG_FUNC_ABM = CONSTANT_64BIT_FLAG 21"
definition RIG_FUNC_BC :: u64 where [flag_defs]: "RIG_FUNC_BC = CONSTANT_64BIT_FLAG 22"
definition RIG_FUNC_MBC :: u64 where [flag_defs]: "RIG_FUNC_MBC = CONSTANT_64BIT_FLAG 23"
definition RIG_FUNC_RIT :: u64 where [flag_defs]: "RIG_FUNC_RIT = CONSTANT_64BIT_FLAG 24"
definition RIG_FUNC_AFC :: u64 where [flag_defs]: "RIG_FUNC_AFC = CONSTANT_64BIT_FLAG 25"
definition RIG_FUNC_SATMODE :: u64 where [flag_defs]: "RIG_FUNC_SATMODE = CONSTANT_64BIT_FLAG 26"
definition RIG_FUNC_SCOPE :: u64 where [flag_defs]: "RIG_FUNC_SCOPE = CONSTANT_64BIT_FLAG 27"
definition RIG_FUNC_RESUME :: u64 where [flag_defs]: "RIG_FUNC_RESUME = CONSTANT_64BIT_FLAG 28"
definition RIG_FUNC_TBURST :: u64 where [flag_defs]: "RIG_FUNC_TBURST = CONSTANT_64BIT_FLAG 29"
definition RIG_FUNC_TUNER :: u64 where [flag_defs]: "RIG_FUNC_TUNER = CONSTANT_64BIT_FLAG 30"
definition RIG_FUNC_XIT :: u64 where [flag_defs]: "RIG_FUNC_XIT = CONSTANT_64BIT_FLAG 31"
definition RIG_FUNC_NB2 :: u64 where [flag_defs]: "RIG_FUNC_NB2 = CONSTANT_64BIT_FLAG 32"
definition RIG_FUNC_DSQL :: u64 where [flag_defs]: "RIG_FUNC_DSQL = CONSTANT_64BIT_FLAG 39"
definition RIG_FUNC_AFLT :: u64 where [flag_defs]: "RIG_FUNC_AFLT = CONSTANT_64BIT_FLAG 34"
definition RIG_FUNC_ANL :: u64 where [flag_defs]: "RIG_FUNC_ANL = CONSTANT_64BIT_FLAG 35"
definition RIG_FUNC_BC2 :: u64 where [flag_defs]: "RIG_FUNC_BC2 = CONSTANT_64BIT_FLAG 36"
definition RIG_FUNC_DUAL_WATCH :: u64 where [flag_defs]: "RIG_FUNC_DUAL_WATCH = CONSTANT_64BIT_FLAG 37"
definition RIG_FUNC_DIVERSITY :: u64 where [flag_defs]: "RIG_FUNC_DIVERSITY = CONSTANT_64BIT_FLAG 38"
definition RIG_FUNC_CSQL :: u64 where [flag_defs]: "RIG_FUNC_CSQL = CONSTANT_64BIT_FLAG 33"
definition RIG_FUNC_SCEN :: u64 where [flag_defs]: "RIG_FUNC_SCEN = CONSTANT_64BIT_FLAG 40"
definition RIG_FUNC_TRANSCEIVE :: u64 where [flag_defs]: "RIG_FUNC_TRANSCEIVE = CONSTANT_64BIT_FLAG 42"
definition RIG_FUNC_SPECTRUM :: u64 where [flag_defs]: "RIG_FUNC_SPECTRUM = CONSTANT_64BIT_FLAG 43"
definition RIG_FUNC_SPECTRUM_HOLD :: u64 where [flag_defs]: "RIG_FUNC_SPECTRUM_HOLD = CONSTANT_64BIT_FLAG 44"
definition RIG_FUNC_SEND_MORSE :: u64 where [flag_defs]: "RIG_FUNC_SEND_MORSE = CONSTANT_64BIT_FLAG 45"
definition RIG_FUNC_SEND_VOICE_MEM :: u64 where [flag_defs]: "RIG_FUNC_SEND_VOICE_MEM = CONSTANT_64BIT_FLAG 46"
definition RIG_FUNC_NONE :: u64 where [flag_defs]: "RIG_FUNC_NONE = 0"
definition ROT_FUNC_NONE :: u64 where [flag_defs]: "ROT_FUNC_NONE = 0"
definition RIG_LEVEL_PREAMP :: u64 where [flag_defs]: "RIG_LEVEL_PREAMP = CONSTANT_64BIT_FLAG 0"
definition RIG_LEVEL_ATT :: u64 where [flag_defs]: "RIG_LEVEL_ATT = CONSTANT_64BIT_FLAG 1"
definition RIG_LEVEL_VOXDELAY :: u64 where [flag_defs]: "RIG_LEVEL_VOXDELAY = CONSTANT_64BIT_FLAG 2"
definition RIG_LEVEL_AF :: u64 where [flag_defs]: "RIG_LEVEL_AF = CONSTANT_64BIT_FLAG 3"
definition RIG_LEVEL_RF :: u64 where [flag_defs]: "RIG_LEVEL_RF = CONSTANT_64BIT_FLAG 4"
definition RIG_LEVEL_SQL :: u64 where [flag_defs]: "RIG_LEVEL_SQL = CONSTANT_64BIT_FLAG 5"
definition RIG_LEVEL_IF :: u64 where [flag_defs]: "RIG_LEVEL_IF = CONSTANT_64BIT_FLAG 6"
definition RIG_LEVEL_APF :: u64 where [flag_defs]: "RIG_LEVEL_APF = CONSTANT_64BIT_FLAG 7"
definition RIG_LEVEL_NR :: u64 where [flag_defs]: "RIG_LEVEL_NR = CONSTANT_64BIT_FLAG 8"
definition RIG_LEVEL_PBT_IN :: u64 where [flag_defs]: "RIG_LEVEL_PBT_IN = CONSTANT_64BIT_FLAG 9"
definition RIG_LEVEL_PBT_OUT :: u64 where [flag_defs]: "RIG_LEVEL_PBT_OUT = CONSTANT_64BIT_FLAG 10"
definition RIG_LEVEL_CWPITCH :: u64 where [flag_defs]: "RIG_LEVEL_CWPITCH = CONSTANT_64BIT_FLAG 11"
definition RIG_LEVEL_RFPOWER :: u64 where [flag_defs]: "RIG_LEVEL_RFPOWER = CONSTANT_64BIT_FLAG 12"
definition RIG_LEVEL_MICGAIN :: u64 where [flag_defs]: "RIG_LEVEL_MICGAIN = CONSTANT_64BIT_FLAG 13"
definition RIG_LEVEL_KEYSPD :: u64 where [flag_defs]: "RIG_LEVEL_KEYSPD = CONSTANT_64BIT_FLAG 14"
definition RIG_LEVEL_NOTCHF :: u64 where [flag_defs]: "RIG_LEVEL_NOTCHF = CONSTANT_64BIT_FLAG 15"
definition RIG_LEVEL_COMP :: u64 where [flag_defs]: "RIG_LEVEL_COMP = CONSTANT_64BIT_FLAG 16"
definition RIG_LEVEL_AGC :: u64 where [flag_defs]: "RIG_LEVEL_AGC = CONSTANT_64BIT_FLAG 17"
definition RIG_LEVEL_BKINDL :: u64 where [flag_defs]: "RIG_LEVEL_BKINDL = CONSTANT_64BIT_FLAG 18"
definition RIG_LEVEL_BALANCE :: u64 where [flag_defs]: "RIG_LEVEL_BALANCE = CONSTANT_64BIT_FLAG 19"
definition RIG_LEVEL_METER :: u64 where [flag_defs]: "RIG_LEVEL_METER = CONSTANT_64BIT_FLAG 20"
definition RIG_LEVEL_VOXGAIN :: u64 where [flag_defs]: "RIG_LEVEL_VOXGAIN = CONSTANT_64BIT_FLAG 21"
definition RIG_LEVEL_ANTIVOX :: u64 where [flag_defs]: "RIG_LEVEL_ANTIVOX = CONSTANT_64BIT_FLAG 22"
definition RIG_LEVEL_SLOPE_LOW :: u64 where [flag_defs]: "RIG_LEVEL_SLOPE_LOW = CONSTANT_64BIT_FLAG 23"
definition RIG_LEVEL_SLOPE_HIGH :: u64 where [flag_defs]: "RIG_LEVEL_SLOPE_HIGH = CONSTANT_64BIT_FLAG 24"
definition RIG_LEVEL_BKIN_DLYMS :: u64 where [flag_defs]: "RIG_LEVEL_BKIN_DLYMS = CONSTANT_64BIT_FLAG 25"
definition RIG_LEVEL_RAWSTR :: u64 where [flag_defs]: "RIG_LEVEL_RAWSTR = CONSTANT_64BIT_FLAG 26"
definition RIG_LEVEL_SWR :: u64 where [flag_defs]: "RIG_LEVEL_SWR = CONSTANT_64BIT_FLAG 28"
definition RIG_LEVEL_ALC :: u64 where [flag_defs]: "RIG_LEVEL_ALC = CONSTANT_64BIT_FLAG 29"
definition RIG_LEVEL_STRENGTH :: u64 where [flag_defs]: "RIG_LEVEL_STRENGTH = CONSTANT_64BIT_FLAG 30"
definition RIG_LEVEL_RFPOWER_METER :: u64 where [flag_defs]: "RIG_LEVEL_RFPOWER_METER = CONSTANT_64BIT_FLAG 32"
definition RIG_LEVEL_COMP_METER :: u64 where [flag_defs]: "RIG_LEVEL_COMP_METER = CONSTANT_64BIT_FLAG 33"
definition RIG_LEVEL_VD_METER :: u64 where [flag_defs]: "RIG_LEVEL_VD_METER = CONSTANT_64BIT_FLAG 34"
definition RIG_LEVEL_ID_METER :: u64 where [flag_defs]: "RIG_LEVEL_ID_METER = CONSTANT_64BIT_FLAG 35"
definition RIG_LEVEL_NOTCHF_RAW :: u64 where [flag_defs]: "RIG_LEVEL_NOTCHF_RAW = CONSTANT_64BIT_FLAG 36"
definition RIG_LEVEL_MONITOR_GAIN :: u64 where [flag_defs]: "RIG_LEVEL_MONITOR_GAIN = CONSTANT_64BIT_FLAG 37"
definition RIG_LEVEL_NB :: u64 where [flag_defs]: "RIG_LEVEL_NB = CONSTANT_64BIT_FLAG 38"
definition RIG_LEVEL_RFPOWER_METER_WATTS :: u64 where [flag_defs]: "RIG_LEVEL_RFPOWER_METER_WATTS = CONSTANT_64BIT_FLAG 39"
definition RIG_LEVEL_SPECTRUM_MODE :: u64 where [flag_defs]: "RIG_LEVEL_SPECTRUM_MODE = CONSTANT_64BIT_FLAG 40"
definition RIG_LEVEL_SPECTRUM_SPAN :: u64 where [flag_defs]: "RIG_LEVEL_SPECTRUM_SPAN = CONSTANT_64BIT_FLAG 41"
definition RIG_LEVEL_SPECTRUM_EDGE_LOW :: u64 where [flag_defs]: "RIG_LEVEL_SPECTRUM_EDGE_LOW = CONSTANT_64BIT_FLAG 42"
definition RIG_LEVEL_SPECTRUM_EDGE_HIGH :: u64 where [flag_defs]: "RIG_LEVEL_SPECTRUM_EDGE_HIGH = CONSTANT_64BIT_FLAG 43"
definition RIG_LEVEL_SPECTRUM_SPEED :: u64 where [flag_defs]: "RIG_LEVEL_SPECTRUM_SPEED = CONSTANT_64BIT_FLAG 44"
definition RIG_LEVEL_SPECTRUM_REF :: u64 where [flag_defs]: "RIG_LEVEL_SPECTRUM_REF = CONSTANT_64BIT_FLAG 45"
definition RIG_LEVEL_SPECTRUM_AVG :: u64 where [flag_defs]: "RIG_LEVEL_SPECTRUM_AVG = CONSTANT_64BIT_FLAG 46"
definition RIG_LEVEL_SPECTRUM_ATT :: u64 where [flag_defs]: "RIG_LEVEL_SPECTRUM_ATT = CONSTANT_64BIT_FLAG 47"
definition RIG_LEVEL_TEMP_METER :: u64 where [flag_defs]: "RIG_LEVEL_TEMP_METER = CONSTANT_64BIT_FLAG 48"
definition RIG_LEVEL_BAND_SELECT :: u64 where [flag_defs]: "RIG_LEVEL_BAND_SELECT = CONSTANT_64BIT_FLAG 49"
definition RIG_LEVEL_NONE :: u64 where [flag_defs]: "RIG_LEVEL_NONE = 0"
definition ROT_LEVEL_SPEED :: u64 where [flag_defs]: "ROT_LEVEL_SPEED = CONSTANT_64BIT_FLAG 0"
definition ROT_LEVEL_NONE :: u64 where [flag_defs]: "ROT_LEVEL_NONE = 0"
definition AMP_LEVEL_SWR :: u64 where [flag_defs]: "AMP_LEVEL_SWR = CONSTANT_64BIT_FLAG 0"
definition AMP_LEVEL_NH :: u64 where [flag_defs]: "AMP_LEVEL_NH = CONSTANT_64BIT_FLAG 1"
definition AMP_LEVEL_PF :: u64 where [flag_defs]: "AMP_LEVEL_PF = CONSTANT_64BIT_FLAG 2"
definition AMP_LEVEL_PWR_INPUT :: u64 where [flag_defs]: "AMP_LEVEL_PWR_INPUT = CONSTANT_64BIT_FLAG 3"
definition AMP_LEVEL_PWR_FWD :: u64 where [flag_defs]: "AMP_LEVEL_PWR_FWD = CONSTANT_64BIT_FLAG 4"
definition AMP_LEVEL_PWR_REFLECTED :: u64 where [flag_defs]: "AMP_LEVEL_PWR_REFLECTED = CONSTANT_64BIT_FLAG 5"
definition AMP_LEVEL_PWR_PEAK :: u64 where [flag_defs]: "AMP_LEVEL_PWR_PEAK = CONSTANT_64BIT_FLAG 6"
definition AMP_LEVEL_FAULT :: u64 where [flag_defs]: "AMP_LEVEL_FAULT = CONSTANT_64BIT_FLAG 7"
definition AMP_LEVEL_NONE :: u64 where [flag_defs]: "AMP_LEVEL_NONE = 0"
definition RIG_PARM_ANN :: u64 where [flag_defs]: "RIG_PARM_ANN = CONSTANT_64BIT_FLAG 0"
definition RIG_PARM_APO :: u64 where [flag_defs]: "RIG_PARM_APO = CONSTANT_64BIT_FLAG 1"
definition RIG_PARM_BACKLIGHT :: u64 where [flag_defs]: "RIG_PARM_BACKLIGHT = CONSTANT_64BIT_FLAG 2"
definition RIG_PARM_BEEP :: u64 where [flag_defs]: "RIG_PARM_BEEP = CONSTANT_64BIT_FLAG 4"
definition RIG_PARM_TIME :: u64 where [flag_defs]: "RIG_PARM_TIME = CONSTANT_64BIT_FLAG 5"
definition RIG_PARM_BAT :: u64 where [flag_defs]: "RIG_PARM_BAT = CONSTANT_64BIT_FLAG 6"
definition RIG_PARM_KEYLIGHT :: u64 where [flag_defs]: "RIG_PARM_KEYLIGHT = CONSTANT_64BIT_FLAG 7"
definition RIG_PARM_SCREENSAVER :: u64 where [flag_defs]: "RIG_PARM_SCREENSAVER = CONSTANT_64BIT_FLAG 8"
definition RIG_PARM_NONE :: u64 where [flag_defs]: "RIG_PARM_NONE = 0"
definition ROT_PARM_NONE :: u64 where [flag_defs]: "ROT_PARM_NONE = 0"
definition RIG_OP_CPY :: u32 where [flag_defs]: "RIG_OP_CPY = FLAG32 0"
definition RIG_OP_XCHG :: u32 where [flag_defs]: "RIG_OP_XCHG = FLAG32 1"
definition RIG_OP_FROM_VFO :: u32 where [flag_defs]: "RIG_OP_FROM_VFO = FLAG32 2"
definition RIG_OP_TO_VFO :: u32 where [flag_defs]: "RIG_OP_TO_VFO = FLAG32 3"
definition RIG_OP_MCL :: u32 where [flag_defs]: "RIG_OP_MCL = FLAG32 4"
definition RIG_OP_UP :: u32 where [flag_defs]: "RIG_OP_UP = FLAG32 5"
definition RIG_OP_DOWN :: u32 where [flag_defs]: "RIG_OP_DOWN = FLAG32 6"
definition RIG_OP_BAND_UP :: u32 where [flag_defs]: "RIG_OP_BAND_UP = FLAG32 7"
definition RIG_OP_BAND_DOWN :: u32 where [flag_defs]: "RIG_OP_BAND_DOWN = FLAG32 8"
definition RIG_OP_LEFT :: u32 where [flag_defs]: "RIG_OP_LEFT = FLAG32 9"
definition RIG_OP_RIGHT :: u32 where [flag_defs]: "RIG_OP_RIGHT = FLAG32 10"
definition RIG_OP_TUNE :: u32 where [flag_defs]: "RIG_OP_TUNE = FLAG32 11"
definition RIG_OP_TOGGLE :: u32 where [flag_defs]: "RIG_OP_TOGGLE = FLAG32 12"
definition RIG_OP_NONE :: u32 where [flag_defs]: "RIG_OP_NONE = 0"
definition RIG_SCAN_STOP :: u32 where [flag_defs]: "RIG_SCAN_STOP = FLAG32 7"
definition RIG_SCAN_MEM :: u32 where [flag_defs]: "RIG_SCAN_MEM = FLAG32 0"
definition RIG_SCAN_SLCT :: u32 where [flag_defs]: "RIG_SCAN_SLCT = FLAG32 1"
definition RIG_SCAN_PRIO :: u32 where [flag_defs]: "RIG_SCAN_PRIO = FLAG32 2"
definition RIG_SCAN_PROG :: u32 where [flag_defs]: "RIG_SCAN_PROG = FLAG32 3"
definition RIG_SCAN_DELTA :: u32 where [flag_defs]: "RIG_SCAN_DELTA = FLAG32 4"
definition RIG_SCAN_VFO :: u32 where [flag_defs]: "RIG_SCAN_VFO = FLAG32 5"
definition RIG_SCAN_PLT :: u32 where [flag_defs]: "RIG_SCAN_PLT = FLAG32 6"
definition RIG_SCAN_NONE :: u32 where [flag_defs]: "RIG_SCAN_NONE = 0"
definition ROT_STATUS_BUSY :: u32 where [flag_defs]: "ROT_STATUS_BUSY = FLAG32 0"
definition ROT_STATUS_MOVING :: u32 where [flag_defs]: "ROT_STATUS_MOVING = FLAG32 1"
definition ROT_STATUS_MOVING_AZ :: u32 where [flag_defs]: "ROT_STATUS_MOVING_AZ = FLAG32 2"
definition ROT_STATUS_MOVING_LEFT :: u32 where [flag_defs]: "ROT_STATUS_MOVING_LEFT = FLAG32 3"
definition ROT_STATUS_MOVING_RIGHT :: u32 where [flag_defs]: "ROT_STATUS_MOVING_RIGHT = FLAG32 4"
definition ROT_STATUS_MOVING_EL :: u32 where [flag_defs]: "ROT_STATUS_MOVING_EL = FLAG32 5"
definition ROT_STATUS_MOVING_UP :: u32 where [flag_defs]: "ROT_STATUS_MOVING_UP = FLAG32 6"
definition ROT_STATUS_MOVING_DOWN :: u32 where [flag_defs]: "ROT_STATUS_MOVING_DOWN = FLAG32 7"
definition ROT_STATUS_LIMIT_UP :: u32 where [flag_defs]: "ROT_STATUS_LIMIT_UP = FLAG32 8"
definition ROT_STATUS_LIMIT_DOWN :: u32 where [flag_defs]: "ROT_STATUS_LIMIT_DOWN = FLAG32 9"
definition ROT_STATUS_LIMIT_LEFT :: u32 where [flag_defs]: "ROT_STATUS_LIMIT_LEFT = FLAG32 10"
definition ROT_STATUS_LIMIT_RIGHT :: u32 where [flag_defs]: "ROT_STATUS_LIMIT_RIGHT = FLAG32 11"
definition ROT_STATUS_OVERLAP_UP :: u32 where [flag_defs]: "ROT_STATUS_OVERLAP_UP = FLAG32 12"
definition ROT_STATUS_OVERLAP_DOWN :: u32 where [flag_defs]: "ROT_STATUS_OVERLAP_DOWN = FLAG32 13"
definition ROT_STATUS_OVERLAP_LEFT :: u32 where [flag_defs]: "ROT_STATUS_OVERLAP_LEFT = FLAG32 14"
definition ROT_STATUS_OVERLAP_RIGHT :: u32 where [flag_defs]: "ROT_STATUS_OVERLAP_RIGHT = FLAG32 16"

end
