(* ===== verification/Hamlib_Names.thy ===== *)
theory Hamlib_Names
  imports Hamlib_Flags
begin

text \<open>
  The name tables of \<^verbatim>\<open>src/misc.c\<close> and the functions that read them: from a string to a
  flag (\<^verbatim>\<open>rig_parse_mode\<close> and its siblings) and from a flag to its string
  (\<^verbatim>\<open>rig_strrmode\<close> and its siblings). A table is the C array with its terminating
  entry, the one with the empty string; a scan stops there.

  The laws of a table are proved once in the locale \<^verbatim>\<open>name_table\<close> and interpreted on
  each table of the program.
\<close>

subsection \<open>Scanning a table\<close>

fun tbl_parse :: "'v \<Rightarrow> ('v \<times> string) list \<Rightarrow> string \<Rightarrow> 'v" where
  "tbl_parse none [] s = none"
| "tbl_parse none ((v, str) # t) s =
     (if str = [] then none else if s = str then v else tbl_parse none t s)"

fun tbl_str :: "('v \<times> string) list \<Rightarrow> 'v \<Rightarrow> string" where
  "tbl_str [] v = []"
| "tbl_str ((w, str) # t) v =
     (if str = [] then [] else if v = w then str else tbl_str t v)"

text \<open>The entries before the terminator.\<close>

definition entries :: "('v \<times> string) list \<Rightarrow> ('v \<times> string) list" where
  "entries t = takeWhile (\<lambda>(v, str). str \<noteq> []) t"

lemma entries_simps [simp]:
  "entries [] = []"
  "entries ((v, str) # t) = (if str = [] then [] else (v, str) # entries t)"
  by (simp_all add: entries_def)

lemma tbl_parse_entries: "tbl_parse none t s = (case map_of (map prod.swap (entries t)) s of
    None \<Rightarrow> none | Some v \<Rightarrow> v)"
  by (induction t) auto

lemma tbl_str_entries: "tbl_str t v = (case map_of (entries t) v of None \<Rightarrow> [] | Some s \<Rightarrow> s)"
  by (induction t) auto

lemma entries_named: "(v, s) \<in> set (entries t) \<Longrightarrow> s \<noteq> []"
  by (auto simp: entries_def dest: set_takeWhileD)

lemma tbl_parse_empty: "tbl_parse none t [] = none"
  by (induction t) auto

locale name_table =
  fixes tbl :: "('v \<times> string) list" and none :: 'v
  assumes names_distinct: "distinct (map snd (entries tbl))"

context name_table
begin

lemma names_map: "map_of (map prod.swap (entries tbl)) s = Some v \<longleftrightarrow> (v, s) \<in> set (entries tbl)"
proof -
  have "distinct (map fst (map prod.swap (entries tbl)))"
    using names_distinct by (simp add: comp_def)
  then have "map_of (map prod.swap (entries tbl)) s = Some v
      \<longleftrightarrow> (s, v) \<in> set (map prod.swap (entries tbl))"
    by (rule map_of_eq_Some_iff)
  then show ?thesis by force
qed

lemma parse_entry: "(v, s) \<in> set (entries tbl) \<Longrightarrow> tbl_parse none tbl s = v"
  by (simp add: tbl_parse_entries names_map [THEN iffD2])

lemma str_entry:
  assumes "v \<in> fst ` set (entries tbl)"
  shows "(v, tbl_str tbl v) \<in> set (entries tbl)"
proof -
  obtain s where "map_of (entries tbl) v = Some s"
    using assms by (metis map_of_eq_None_iff not_None_eq)
  then show ?thesis by (simp add: tbl_str_entries map_of_SomeD)
qed

text \<open>Printing a flag and parsing the name gives the flag back, aliases or not.\<close>

lemma parse_str: "v \<in> fst ` set (entries tbl) \<Longrightarrow> tbl_parse none tbl (tbl_str tbl v) = v"
  by (rule parse_entry) (rule str_entry)

text \<open>The same for every value, the ones without a name too: these print as the empty string.\<close>

lemma parse_str_total:
  "tbl_parse none tbl (tbl_str tbl v) = (if tbl_str tbl v = [] then none else v)"
proof (cases "v \<in> fst ` set (entries tbl)")
  case True
  then show ?thesis using parse_str [OF True] str_entry [OF True] entries_named by fastforce
next
  case False
  then have "map_of (entries tbl) v = None" by (simp add: map_of_eq_None_iff)
  then have "tbl_str tbl v = []" by (simp add: tbl_str_entries)
  then show ?thesis by (simp add: tbl_parse_empty)
qed

lemma parse_range: "tbl_parse none tbl s = none \<or> (tbl_parse none tbl s, s) \<in> set (entries tbl)"
proof (cases "map_of (map prod.swap (entries tbl)) s")
  case (Some v)
  then show ?thesis by (simp add: tbl_parse_entries names_map [THEN iffD1])
qed (simp add: tbl_parse_entries)

lemma str_parse_str:
  "v \<in> fst ` set (entries tbl) \<Longrightarrow> tbl_str tbl (tbl_parse none tbl (tbl_str tbl v)) = tbl_str tbl v"
  by (simp add: parse_str)

lemma parse_unknown: "s \<notin> snd ` set (entries tbl) \<Longrightarrow> tbl_parse none tbl s = none"
  by (cases "map_of (map prod.swap (entries tbl)) s") (force simp: tbl_parse_entries names_map)+

end

text \<open>A table whose flags do not include the value that means ``no such name''.\<close>

locale strict_name_table = name_table +
  assumes none_free: "none \<notin> fst ` set (entries tbl)"

context strict_name_table
begin

lemma parse_none_iff: "tbl_parse none tbl s = none \<longleftrightarrow> s \<notin> snd ` set (entries tbl)"
proof
  assume none: "tbl_parse none tbl s = none"
  show "s \<notin> snd ` set (entries tbl)"
  proof
    assume "s \<in> snd ` set (entries tbl)"
    then obtain v where "(v, s) \<in> set (entries tbl)" by auto
    with none parse_entry none_free show False by force
  qed
qed (rule parse_unknown)

lemma str_none: "tbl_str tbl none = []"
  by (metis tbl_str_entries map_of_eq_None_iff none_free option.simps(4))

end

subsection \<open>The tables of misc.c\<close>

definition vfo_str :: "(vfo_t \<times> string) list" where
  "vfo_str =
    [(RIG_VFO_A, ''VFOA''),
     (RIG_VFO_B, ''VFOB''),
     (RIG_VFO_C, ''VFOC''),
     (RIG_VFO_CURR, ''currVFO''),
     (RIG_VFO_MEM, ''MEM''),
     (RIG_VFO_VFO, ''VFO''),
     (RIG_VFO_TX, ''TX''),
     (RIG_VFO_RX, ''RX''),
     (RIG_VFO_MAIN, ''Main''),
     (RIG_VFO_MAIN_A, ''MainA''),
     (RIG_VFO_MAIN_B, ''MainB''),
     (RIG_VFO_MAIN_C, ''MainC''),
     (RIG_VFO_SUB, ''Sub''),
     (RIG_VFO_SUB_A, ''SubA''),
     (RIG_VFO_SUB_B, ''SubB''),
     (RIG_VFO_SUB_C, ''SubC''),
     (RIG_VFO_NONE, ''None''),
     (RIG_VFO_OTHER, ''otherVFO''),
     (0xffffffff, '''')]"

definition rig_parse_vfo :: "string \<Rightarrow> vfo_t" where
  "rig_parse_vfo s = tbl_parse RIG_VFO_NONE vfo_str s"

definition rig_strvfo :: "vfo_t \<Rightarrow> string" where
  "rig_strvfo v = tbl_str vfo_str v"

definition mode_str :: "(u64 \<times> string) list" where
  "mode_str =
    [(RIG_MODE_AM, ''AM''),
     (RIG_MODE_PKTAM, ''AM-D''),
     (RIG_MODE_CW, ''CW''),
     (RIG_MODE_USB, ''USB''),
     (RIG_MODE_LSB, ''LSB''),
     (RIG_MODE_RTTY, ''RTTY''),
     (RIG_MODE_FM, ''FM''),
     (RIG_MODE_PKTFM, ''FM-D''),
     (RIG_MODE_WFM, ''WFM''),
     (RIG_MODE_CWR, ''CWR''),
     (RIG_MODE_CWR, ''CW-R''),
     (RIG_MODE_RTTYR, ''RTTYR''),
     (RIG_MODE_RTTYR, ''RTTY-R''),
     (RIG_MODE_AMS, ''AMS''),
     (RIG_MODE_PKTLSB, ''PKTLSB''),
     (RIG_MODE_PKTUSB, ''PKTUSB''),
     (RIG_MODE_PKTLSB, ''LSB-D''),
     (RIG_MODE_PKTUSB, ''USB-D''),
     (RIG_MODE_PKTFM, ''PKTFM''),
     (RIG_MODE_PKTFMN, ''PKTFMN''),
     (RIG_MODE_ECSSUSB, ''ECSSUSB''),
     (RIG_MODE_ECSSLSB, ''ECSSLSB''),
     (RIG_MODE_FAX, ''FAX''),
     (RIG_MODE_SAM, ''SAM''),
     (RIG_MODE_SAL, ''SAL''),
     (RIG_MODE_SAH, ''SAH''),
     (RIG_MODE_DSB, ''DSB''),
     (RIG_MODE_FMN, ''FMN''),
     (RIG_MODE_PKTAM, ''PKTAM''),
     (RIG_MODE_P25, ''P25''),
     (RIG_MODE_DSTAR, ''D-STAR''),
     (RIG_MODE_DPMR, ''DPMR''),
     (RIG_MODE_NXDNVN, ''NXDN-VN''),
     (RIG_MODE_NXDN_N, ''NXDN-N''),
     (RIG_MODE_DCR, ''DCR''),
     (RIG_MODE_AMN, ''AMN''),
     (RIG_MODE_PSK, ''PSK''),
     (RIG_MODE_PSKR, ''PSKR''),
     (RIG_MODE_C4FM, ''C4FM''),
     (RIG_MODE_SPEC, ''SPEC''),
     (RIG_MODE_CWN, ''CWN''),
     (RIG_MODE_IQ, ''IQ''),
     (RIG_MODE_NONE, '''')]"

definition rig_parse_mode :: "string \<Rightarrow> rmode_t" where
  "rig_parse_mode s = tbl_parse RIG_MODE_NONE mode_str s"

definition rig_strrmode :: "rmode_t \<Rightarrow> string" where
  "rig_strrmode v = (if v = RIG_MODE_NONE then [] else tbl_str mode_str v)"

definition rig_func_str :: "(u64 \<times> string) list" where
  "rig_func_str =
    [(RIG_FUNC_FAGC, ''FAGC''),
     (RIG_FUNC_NB, ''NB''),
     (RIG_FUNC_COMP, ''COMP''),
     (RIG_FUNC_VOX, ''VOX''),
     (RIG_FUNC_TONE, ''TONE''),
     (RIG_FUNC_TSQL, ''TSQL''),
     (RIG_FUNC_SBKIN, ''SBKIN''),
     (RIG_FUNC_FBKIN, ''FBKIN''),
     (RIG_FUNC_ANF, ''ANF''),
     (RIG_FUNC_NR, ''NR''),
     (RIG_FUNC_AIP, ''AIP''),
     (RIG_FUNC_APF, ''APF''),
     (RIG_FUNC_MON, ''MON''),
     (RIG_FUNC_MN, ''MN''),
     (RIG_FUNC_RF, ''RF''),
     (RIG_FUNC_ARO, ''ARO''),
     (RIG_FUNC_LOCK, ''LOCK''),
     (RIG_FUNC_MUTE, ''MUTE''),
     (RIG_FUNC_VSC, ''VSC''),
     (RIG_FUNC_REV, ''REV''),
     (RIG_FUNC_SQL, ''SQL''),
     (RIG_FUNC_ABM, ''ABM''),
     (RIG_FUNC_BC, ''BC''),
     (RIG_FUNC_MBC, ''MBC''),
     (RIG_FUNC_RIT, ''RIT''),
     (RIG_FUNC_AFC, ''AFC''),
     (RIG_FUNC_SATMODE, ''SATMODE''),
     (RIG_FUNC_SCOPE, ''SCOPE''),
     (RIG_FUNC_RESUME, ''RESUME''),
     (RIG_FUNC_TBURST, ''TBURST''),
     (RIG_FUNC_TUNER, ''TUNER''),
     (RIG_FUNC_XIT, ''XIT''),
     (RIG_FUNC_NB2, ''NB2''),
     (RIG_FUNC_DSQL, ''DSQL''),
     (RIG_FUNC_AFLT, ''AFLT''),
     (RIG_FUNC_ANL, ''ANL''),
     (RIG_FUNC_BC2, ''BC2''),
     (RIG_FUNC_DUAL_WATCH, ''DUAL_WATCH''),
     (RIG_FUNC_DIVERSITY, ''DIVERSITY''),
     (RIG_FUNC_CSQL, ''CSQL''),
     (RIG_FUNC_SCEN, ''SCEN''),
     (RIG_FUNC_TRANSCEIVE, ''TRANSCEIVE''),
     (RIG_FUNC_SPECTRUM, ''SPECTRUM''),
     (RIG_FUNC_SPECTRUM_HOLD, ''SPECTRUM_HOLD''),
     (RIG_FUNC_SEND_MORSE, ''SEND_MORSE''),
     (RIG_FUNC_SEND_VOICE_MEM, ''SEND_VOICE_MEM''),
     (RIG_FUNC_NONE, '''')]"

definition rig_parse_func :: "string \<Rightarrow> setting_t" where
  "rig_parse_func s = tbl_parse RIG_FUNC_NONE rig_func_str s"

definition rig_strfunc :: "setting_t \<Rightarrow> string" where
  "rig_strfunc v = (if v = RIG_FUNC_NONE then [] else tbl_str rig_func_str v)"

definition rot_func_str :: "(u64 \<times> string) list" where
  "rot_func_str =
    [(ROT_FUNC_NONE, '''')]"

definition rot_parse_func :: "string \<Rightarrow> setting_t" where
  "rot_parse_func s = tbl_parse ROT_FUNC_NONE rot_func_str s"

definition rot_strfunc :: "setting_t \<Rightarrow> string" where
  "rot_strfunc v = (if v = ROT_FUNC_NONE then [] else tbl_str rot_func_str v)"

definition rig_level_str :: "(u64 \<times> string) list" where
  "rig_level_str =
    [(RIG_LEVEL_PREAMP, ''PREAMP''),
     (RIG_LEVEL_ATT, ''ATT''),
     (RIG_LEVEL_VOXDELAY, ''VOXDELAY''),
     (RIG_LEVEL_AF, ''AF''),
     (RIG_LEVEL_RF, ''RF''),
     (RIG_LEVEL_SQL, ''SQL''),
     (RIG_LEVEL_IF, ''IF''),
     (RIG_LEVEL_APF, ''APF''),
     (RIG_LEVEL_NR, ''NR''),
     (RIG_LEVEL_PBT_IN, ''PBT_IN''),
     (RIG_LEVEL_PBT_OUT, ''PBT_OUT''),
     (RIG_LEVEL_CWPITCH, ''CWPITCH''),
     (RIG_LEVEL_RFPOWER, ''RFPOWER''),
     (RIG_LEVEL_MICGAIN, ''MICGAIN''),
     (RIG_LEVEL_KEYSPD, ''KEYSPD''),
     (RIG_LEVEL_NOTCHF, ''NOTCHF''),
     (RIG_LEVEL_COMP, ''COMP''),
     (RIG_LEVEL_AGC, ''AGC''),
     (RIG_LEVEL_BKINDL, ''BKINDL''),
     (RIG_LEVEL_BALANCE, ''BAL''),
     (RIG_LEVEL_METER, ''METER''),
     (RIG_LEVEL_VOXGAIN, ''VOXGAIN''),
     (RIG_LEVEL_ANTIVOX, ''ANTIVOX''),
     (RIG_LEVEL_SLOPE_LOW, ''SLOPE_LOW''),
     (RIG_LEVEL_SLOPE_HIGH, ''SLOPE_HIGH''),
     (RIG_LEVEL_BKIN_DLYMS, ''BKIN_DLYMS''),
     (RIG_LEVEL_RAWSTR, ''RAWSTR''),
     (RIG_LEVEL_SWR, ''SWR''),
     (RIG_LEVEL_ALC, ''ALC''),
     (RIG_LEVEL_STRENGTH, ''STRENGTH''),
     (RIG_LEVEL_RFPOWER_METER, ''RFPOWER_METER''),
     (RIG_LEVEL_COMP_METER, ''COMP_METER''),
     (RIG_LEVEL_VD_METER, ''VD_METER''),
     (RIG_LEVEL_ID_METER, ''ID_METER''),
     (RIG_LEVEL_NOTCHF_RAW, ''NOTCHF_RAW''),
     (RIG_LEVEL_MONITOR_GAIN, ''MONITOR_GAIN''),
     (RIG_LEVEL_NB, ''NB''),
     (RIG_LEVEL_RFPOWER_METER_WATTS, ''RFPOWER_METER_WATTS''),
     (RIG_LEVEL_SPECTRUM_MODE, ''SPECTRUM_MODE''),
     (RIG_LEVEL_SPECTRUM_SPAN, ''SPECTRUM_SPAN''),
     (RIG_LEVEL_SPECTRUM_EDGE_LOW, ''SPECTRUM_EDGE_LOW''),
     (RIG_LEVEL_SPECTRUM_EDGE_HIGH, ''SPECTRUM_EDGE_HIGH''),
     (RIG_LEVEL_SPECTRUM_SPEED, ''SPECTRUM_SPEED''),
     (RIG_LEVEL_SPECTRUM_REF, ''SPECTRUM_REF''),
     (RIG_LEVEL_SPECTRUM_AVG, ''SPECTRUM_AVG''),
     (RIG_LEVEL_SPECTRUM_ATT, ''SPECTRUM_ATT''),
     (RIG_LEVEL_TEMP_METER, ''TEMP_METER''),
     (RIG_LEVEL_BAND_SELECT, ''BAND_SELECT''),
     (RIG_LEVEL_NONE, '''')]"

definition rig_parse_level :: "string \<Rightarrow> setting_t" where
  "rig_parse_level s = tbl_parse RIG_LEVEL_NONE rig_level_str s"

definition rig_strlevel :: "setting_t \<Rightarrow> string" where
  "rig_strlevel v = (if v = RIG_LEVEL_NONE then [] else tbl_str rig_level_str v)"

definition rot_level_str :: "(u64 \<times> string) list" where
  "rot_level_str =
    [(ROT_LEVEL_SPEED, ''SPEED''),
     (ROT_LEVEL_NONE, '''')]"

definition rot_parse_level :: "string \<Rightarrow> setting_t" where
  "rot_parse_level s = tbl_parse ROT_LEVEL_NONE rot_level_str s"

definition rot_strlevel :: "setting_t \<Rightarrow> string" where
  "rot_strlevel v = (if v = ROT_LEVEL_NONE then [] else tbl_str rot_level_str v)"

definition amp_level_str :: "(u64 \<times> string) list" where
  "amp_level_str =
    [(AMP_LEVEL_SWR, ''SWR''),
     (AMP_LEVEL_NH, ''NH''),
     (AMP_LEVEL_PF, ''PF''),
     (AMP_LEVEL_PWR_INPUT, ''PWRINPUT''),
     (AMP_LEVEL_PWR_FWD, ''PWRFORWARD''),
     (AMP_LEVEL_PWR_REFLECTED, ''PWRREFLECTED''),
     (AMP_LEVEL_PWR_PEAK, ''PWRPEAK''),
     (AMP_LEVEL_FAULT, ''FAULT''),
     (AMP_LEVEL_NONE, '''')]"

definition amp_parse_level :: "string \<Rightarrow> setting_t" where
  "amp_parse_level s = tbl_parse AMP_LEVEL_NONE amp_level_str s"

definition amp_strlevel :: "setting_t \<Rightarrow> string" where
  "amp_strlevel v = (if v = AMP_LEVEL_NONE then [] else tbl_str amp_level_str v)"

definition rig_parm_str :: "(u64 \<times> string) list" where
  "rig_parm_str =
    [(RIG_PARM_ANN, ''ANN''),
     (RIG_PARM_APO, ''APO''),
     (RIG_PARM_BACKLIGHT, ''BACKLIGHT''),
     (RIG_PARM_BEEP, ''BEEP''),
     (RIG_PARM_TIME, ''TIME''),
     (RIG_PARM_BAT, ''BAT''),
     (RIG_PARM_KEYLIGHT, ''KEYLIGHT''),
     (RIG_PARM_SCREENSAVER, ''SCREENSAVER''),
     (RIG_PARM_NONE, '''')]"

definition rig_parse_parm :: "string \<Rightarrow> setting_t" where
  "rig_parse_parm s = tbl_parse RIG_PARM_NONE rig_parm_str s"

definition rig_strparm :: "setting_t \<Rightarrow> string" where
  "rig_strparm v = (if v = RIG_PARM_NONE then [] else tbl_str rig_parm_str v)"

definition rot_parm_str :: "(u64 \<times> string) list" where
  "rot_parm_str =
    [(ROT_PARM_NONE, '''')]"

definition rot_parse_parm :: "string \<Rightarrow> setting_t" where
  "rot_parse_parm s = tbl_parse ROT_PARM_NONE rot_parm_str s"

definition rot_strparm :: "setting_t \<Rightarrow> string" where
  "rot_strparm v = (if v = ROT_PARM_NONE then [] else tbl_str rot_parm_str v)"

definition vfo_op_str :: "(u32 \<times> string) list" where
  "vfo_op_str =
    [(RIG_OP_CPY, ''CPY''),
     (RIG_OP_XCHG, ''XCHG''),
     (RIG_OP_FROM_VFO, ''FROM_VFO''),
     (RIG_OP_TO_VFO, ''TO_VFO''),
     (RIG_OP_MCL, ''MCL''),
     (RIG_OP_UP, ''UP''),
     (RIG_OP_DOWN, ''DOWN''),
     (RIG_OP_BAND_UP, ''BAND_UP''),
     (RIG_OP_BAND_DOWN, ''BAND_DOWN''),
     (RIG_OP_LEFT, ''LEFT''),
     (RIG_OP_RIGHT, ''RIGHT''),
     (RIG_OP_TUNE, ''TUNE''),
     (RIG_OP_TOGGLE, ''TOGGLE''),
     (RIG_OP_NONE, '''')]"

definition rig_parse_vfo_op :: "string \<Rightarrow> u32" where
  "rig_parse_vfo_op s = tbl_parse RIG_OP_NONE vfo_op_str s"

definition rig_strvfop :: "u32 \<Rightarrow> string" where
  "rig_strvfop v = tbl_str vfo_op_str v"

definition scan_str :: "(u32 \<times> string) list" where
  "scan_str =
    [(RIG_SCAN_STOP, ''STOP''),
     (RIG_SCAN_MEM, ''MEM''),
     (RIG_SCAN_SLCT, ''SLCT''),
     (RIG_SCAN_PRIO, ''PRIO''),
     (RIG_SCAN_PROG, ''PROG''),
     (RIG_SCAN_DELTA, ''DELTA''),
     (RIG_SCAN_VFO, ''VFO''),
     (RIG_SCAN_PLT, ''PLT''),
     (RIG_SCAN_NONE, '''')]"

definition rig_parse_scan :: "string \<Rightarrow> u32" where
  "rig_parse_scan s = tbl_parse RIG_SCAN_NONE scan_str s"

definition rig_strscan :: "u32 \<Rightarrow> string" where
  "rig_strscan v = (if v = RIG_SCAN_NONE then [] else tbl_str scan_str v)"

definition rot_status_str :: "(u32 \<times> string) list" where
  "rot_status_str =
    [(ROT_STATUS_BUSY, ''BUSY''),
     (ROT_STATUS_MOVING, ''MOVING''),
     (ROT_STATUS_MOVING_AZ, ''MOVING_AZ''),
     (ROT_STATUS_MOVING_LEFT, ''MOVING_LEFT''),
     (ROT_STATUS_MOVING_RIGHT, ''MOVING_RIGHT''),
     (ROT_STATUS_MOVING_EL, ''MOVING_EL''),
     (ROT_STATUS_MOVING_UP, ''MOVING_UP''),
     (ROT_STATUS_MOVING_DOWN, ''MOVING_DOWN''),
     (ROT_STATUS_LIMIT_UP, ''LIMIT_UP''),
     (ROT_STATUS_LIMIT_DOWN, ''LIMIT_DOWN''),
     (ROT_STATUS_LIMIT_LEFT, ''LIMIT_LEFT''),
     (ROT_STATUS_LIMIT_RIGHT, ''LIMIT_RIGHT''),
     (ROT_STATUS_OVERLAP_UP, ''OVERLAP_UP''),
     (ROT_STATUS_OVERLAP_DOWN, ''OVERLAP_DOWN''),
     (ROT_STATUS_OVERLAP_LEFT, ''OVERLAP_LEFT''),
     (ROT_STATUS_OVERLAP_RIGHT, ''OVERLAP_RIGHT''),
     (0xffffff, '''')]"

definition rot_strstatus :: "u32 \<Rightarrow> string" where
  "rot_strstatus v = tbl_str rot_status_str v"

subsection \<open>Their laws\<close>

lemmas table_defs = vfo_str_def mode_str_def rig_func_str_def rot_func_str_def rig_level_str_def rot_level_str_def amp_level_str_def rig_parm_str_def rot_parm_str_def vfo_op_str_def scan_str_def rot_status_str_def

interpretation vfo: name_table vfo_str RIG_VFO_NONE
  by unfold_locales (simp add: vfo_str_def)

interpretation mode: strict_name_table mode_str RIG_MODE_NONE
  by unfold_locales (simp_all add: mode_str_def flag_defs)

interpretation func: strict_name_table rig_func_str RIG_FUNC_NONE
  by unfold_locales (simp_all add: rig_func_str_def flag_defs)

interpretation rfunc: strict_name_table rot_func_str ROT_FUNC_NONE
  by unfold_locales (simp_all add: rot_func_str_def flag_defs)

interpretation level: strict_name_table rig_level_str RIG_LEVEL_NONE
  by unfold_locales (simp_all add: rig_level_str_def flag_defs)

interpretation rlevel: strict_name_table rot_level_str ROT_LEVEL_NONE
  by unfold_locales (simp_all add: rot_level_str_def flag_defs)

interpretation alevel: strict_name_table amp_level_str AMP_LEVEL_NONE
  by unfold_locales (simp_all add: amp_level_str_def flag_defs)

interpretation parm: strict_name_table rig_parm_str RIG_PARM_NONE
  by unfold_locales (simp_all add: rig_parm_str_def flag_defs)

interpretation rparm: strict_name_table rot_parm_str ROT_PARM_NONE
  by unfold_locales (simp_all add: rot_parm_str_def flag_defs)

interpretation vfoop: strict_name_table vfo_op_str RIG_OP_NONE
  by unfold_locales (simp_all add: vfo_op_str_def flag_defs)

interpretation scan: strict_name_table scan_str RIG_SCAN_NONE
  by unfold_locales (simp_all add: scan_str_def flag_defs)

interpretation status: name_table rot_status_str 0
  by unfold_locales (simp add: rot_status_str_def)

subsection \<open>Enumerations that are not flags\<close>

datatype rptr_shift_t = RIG_RPT_SHIFT_NONE | RIG_RPT_SHIFT_MINUS | RIG_RPT_SHIFT_PLUS

fun rig_strptrshift :: "rptr_shift_t \<Rightarrow> string" where
  "rig_strptrshift RIG_RPT_SHIFT_MINUS = ''-''"
| "rig_strptrshift RIG_RPT_SHIFT_PLUS = ''+''"
| "rig_strptrshift RIG_RPT_SHIFT_NONE = ''None''"

definition rig_parse_rptr_shift :: "string \<Rightarrow> rptr_shift_t" where
  "rig_parse_rptr_shift s =
     (if s = ''+'' then RIG_RPT_SHIFT_PLUS
      else if s = ''-'' then RIG_RPT_SHIFT_MINUS
      else RIG_RPT_SHIFT_NONE)"

datatype chan_type_t = RIG_MTYPE_NONE | RIG_MTYPE_MEM | RIG_MTYPE_EDGE | RIG_MTYPE_CALL
  | RIG_MTYPE_MEMOPAD | RIG_MTYPE_SAT | RIG_MTYPE_BAND | RIG_MTYPE_PRIO

definition mtype_str :: "(chan_type_t \<times> string) list" where
  "mtype_str =
    [(RIG_MTYPE_MEM, ''MEM''), (RIG_MTYPE_EDGE, ''EDGE''), (RIG_MTYPE_CALL, ''CALL''),
     (RIG_MTYPE_MEMOPAD, ''MEMOPAD''), (RIG_MTYPE_SAT, ''SAT''), (RIG_MTYPE_BAND, ''BAND''),
     (RIG_MTYPE_PRIO, ''PRIO''), (RIG_MTYPE_NONE, '''')]"

definition rig_parse_mtype :: "string \<Rightarrow> chan_type_t" where
  "rig_parse_mtype s = tbl_parse RIG_MTYPE_NONE mtype_str s"

definition rig_strmtype :: "chan_type_t \<Rightarrow> string" where
  "rig_strmtype v = (if v = RIG_MTYPE_NONE then [] else tbl_str mtype_str v)"

interpretation mtype: strict_name_table mtype_str RIG_MTYPE_NONE
  by unfold_locales (simp_all add: mtype_str_def)

datatype rig_spectrum_mode_e = RIG_SPECTRUM_MODE_NONE | RIG_SPECTRUM_MODE_CENTER
  | RIG_SPECTRUM_MODE_FIXED | RIG_SPECTRUM_MODE_CENTER_SCROLL | RIG_SPECTRUM_MODE_FIXED_SCROLL

definition rig_spectrum_mode_str :: "(rig_spectrum_mode_e \<times> string) list" where
  "rig_spectrum_mode_str =
    [(RIG_SPECTRUM_MODE_CENTER, ''CENTER''), (RIG_SPECTRUM_MODE_FIXED, ''FIXED''),
     (RIG_SPECTRUM_MODE_CENTER_SCROLL, ''CENTER_SCROLL''),
     (RIG_SPECTRUM_MODE_FIXED_SCROLL, ''FIXED_SCROLL''), (RIG_SPECTRUM_MODE_NONE, '''')]"

definition rig_strspectrummode :: "rig_spectrum_mode_e \<Rightarrow> string" where
  "rig_strspectrummode v =
     (if v = RIG_SPECTRUM_MODE_NONE then [] else tbl_str rig_spectrum_mode_str v)"

datatype rig_status_e = RIG_STATUS_ALPHA | RIG_STATUS_UNTESTED | RIG_STATUS_BETA
  | RIG_STATUS_STABLE | RIG_STATUS_BUGGY

fun rig_strstatus :: "rig_status_e \<Rightarrow> string" where
  "rig_strstatus RIG_STATUS_ALPHA = ''Alpha''"
| "rig_strstatus RIG_STATUS_UNTESTED = ''Untested''"
| "rig_strstatus RIG_STATUS_BETA = ''Beta''"
| "rig_strstatus RIG_STATUS_STABLE = ''Stable''"
| "rig_strstatus RIG_STATUS_BUGGY = ''Buggy''"

subsection \<open>AGC levels\<close>

text \<open>The AGC levels travel as integers (\<^verbatim>\<open>value_t.i\<close>), so the enumeration is one.\<close>

definition RIG_AGC_OFF :: int where [flag_defs]: "RIG_AGC_OFF = 0"
definition RIG_AGC_SUPERFAST :: int where [flag_defs]: "RIG_AGC_SUPERFAST = 1"
definition RIG_AGC_FAST :: int where [flag_defs]: "RIG_AGC_FAST = 2"
definition RIG_AGC_SLOW :: int where [flag_defs]: "RIG_AGC_SLOW = 3"
definition RIG_AGC_USER :: int where [flag_defs]: "RIG_AGC_USER = 4"
definition RIG_AGC_MEDIUM :: int where [flag_defs]: "RIG_AGC_MEDIUM = 5"
definition RIG_AGC_AUTO :: int where [flag_defs]: "RIG_AGC_AUTO = 6"

definition rig_agc_level_str :: "(int \<times> string) list" where
  "rig_agc_level_str =
    [(RIG_AGC_OFF, ''OFF''), (RIG_AGC_SUPERFAST, ''SUPERFAST''), (RIG_AGC_FAST, ''FAST''),
     (RIG_AGC_SLOW, ''SLOW''), (RIG_AGC_USER, ''USER''), (RIG_AGC_MEDIUM, ''MEDIUM''),
     (RIG_AGC_AUTO, ''AUTO''), (-1, '''')]"

definition rig_stragclevel :: "int \<Rightarrow> string" where
  "rig_stragclevel level = (if level < 0 then [] else tbl_str rig_agc_level_str level)"

definition rig_valueagclevel :: "int \<Rightarrow> int" where
  "rig_valueagclevel agcLevel =
     (if agcLevel = RIG_AGC_OFF then 0
      else if agcLevel = RIG_AGC_SUPERFAST then 1
      else if agcLevel = RIG_AGC_FAST then 2
      else if agcLevel = RIG_AGC_SLOW then 3
      else if agcLevel = RIG_AGC_USER then 4
      else if agcLevel = RIG_AGC_MEDIUM then 5
      else 6)"

definition rig_levelagcvalue :: "int \<Rightarrow> int" where
  "rig_levelagcvalue agcValue =
     (if agcValue = 0 then RIG_AGC_OFF
      else if agcValue = 1 then RIG_AGC_SUPERFAST
      else if agcValue = 2 then RIG_AGC_FAST
      else if agcValue = 3 then RIG_AGC_SLOW
      else if agcValue = 4 then RIG_AGC_USER
      else if agcValue = 5 then RIG_AGC_MEDIUM
      else if agcValue = 6 then RIG_AGC_AUTO
      else RIG_AGC_AUTO)"

definition rig_levelagcstr :: "string \<Rightarrow> int" where
  "rig_levelagcstr agcString =
     (if agcString = ''OFF'' then RIG_AGC_OFF
      else if agcString = ''SUPERFAST'' then RIG_AGC_SUPERFAST
      else if agcString = ''FAST'' then RIG_AGC_FAST
      else if agcString = ''SLOW'' then RIG_AGC_SLOW
      else if agcString = ''USER'' then RIG_AGC_USER
      else if agcString = ''MEDIUM'' then RIG_AGC_MEDIUM
      else RIG_AGC_AUTO)"

subsection \<open>Bit numbers of settings\<close>

definition RIG_SETTING_MAX :: nat where "RIG_SETTING_MAX = 64"

definition rig_idx2setting :: "nat \<Rightarrow> setting_t" where
  "rig_idx2setting i = push_bit i 1"

fun rig_setting2idx_loop :: "nat \<Rightarrow> nat \<Rightarrow> setting_t \<Rightarrow> nat" where
  "rig_setting2idx_loop i 0 s = 0"
| "rig_setting2idx_loop i (Suc k) s =
     (if s AND rig_idx2setting i \<noteq> 0 then i else rig_setting2idx_loop (Suc i) k s)"

definition rig_setting2idx :: "setting_t \<Rightarrow> nat" where
  "rig_setting2idx s = rig_setting2idx_loop 0 RIG_SETTING_MAX s"

lemma rig_setting2idx_loop_least:
  "i + k \<le> 64 \<Longrightarrow>
   (\<exists>j. i \<le> j \<and> j < i + k \<and> bit s j \<and> (\<forall>m. i \<le> m \<and> m < j \<longrightarrow> \<not> bit s m)
        \<and> rig_setting2idx_loop i k s = j)
   \<or> (\<forall>m. i \<le> m \<and> m < i + k \<longrightarrow> \<not> bit s m) \<and> rig_setting2idx_loop i k s = 0"
proof (induction k arbitrary: i)
  case (Suc k)
  have i: "s AND rig_idx2setting i \<noteq> 0 \<longleftrightarrow> bit s i"
    using Suc.prems and_push_bit_one [where 'a=64, of i s] by (simp add: rig_idx2setting_def)
  show ?case
  proof (cases "bit s i")
    case True
    then show ?thesis by (intro disjI1 exI [of _ i]) (auto simp: i)
  next
    case False
    have k: "Suc i + k \<le> 64" using Suc.prems by simp
    have m: "i = m \<or> Suc i \<le> m" if "i \<le> m" for m using that by linarith
    have step: "rig_setting2idx_loop i (Suc k) s = rig_setting2idx_loop (Suc i) k s"
      using False i by simp
    from Suc.IH [OF k] show ?thesis
    proof (elim disjE exE conjE)
      fix j
      assume j: "Suc i \<le> j" "j < Suc i + k" "bit s j"
        "\<forall>m. Suc i \<le> m \<and> m < j \<longrightarrow> \<not> bit s m" "rig_setting2idx_loop (Suc i) k s = j"
      have "\<not> bit s m'" if "i \<le> m'" "m' < j" for m'
        using m [OF that(1)] that(2) j(4) False by blast
      with j step show ?thesis by (intro disjI1 exI [of _ j]) simp
    next
      assume j: "\<forall>m. Suc i \<le> m \<and> m < Suc i + k \<longrightarrow> \<not> bit s m"
        "rig_setting2idx_loop (Suc i) k s = 0"
      have "\<not> bit s m'" if "i \<le> m'" "m' < i + Suc k" for m'
        using m [OF that(1)] that(2) j(1) False by auto
      with j step show ?thesis by (intro disjI2) simp
    qed
  qed
qed (intro disjI2, auto)

subsection \<open>rig_strrmodes\<close>

text \<open>
  \<^verbatim>\<open>buf\<close> is the C string in the caller's buffer and \<^verbatim>\<open>buflen\<close> the buffer's size, an
  \<^verbatim>\<open>int\<close>; the differences with \<^verbatim>\<open>strlen\<close> are taken in \<^verbatim>\<open>size_t\<close>, 64 bits.
\<close>

definition size_of_int :: "int \<Rightarrow> nat" where
  "size_of_int n = unat (of_int n :: u64)"

fun rig_strrmodes_loop :: "(rmode_t \<times> string) list \<Rightarrow> rmode_t \<Rightarrow> string \<Rightarrow> int \<Rightarrow> int \<times> string" where
  "rig_strrmodes_loop [] modes buf buflen = (RIG_OK, buf)"
| "rig_strrmodes_loop ((m, str) # t) modes buf buflen =
     (if str = [] then (RIG_OK, buf)
      else if modes AND m \<noteq> 0
      then let modebuf = take 15 (if buf = [] then str else '' '' @ str);
               buf' = buf @ take (unat (of_int buflen - of_nat (length buf) - 1 :: u64)) modebuf
           in if length buf' > size_of_int (buflen - 10) then (- RIG_ETRUNC, buf')
              else rig_strrmodes_loop t modes buf' buflen
      else rig_strrmodes_loop t modes buf buflen)"

definition rig_strrmodes :: "rmode_t \<Rightarrow> string \<Rightarrow> int \<Rightarrow> int \<times> string" where
  "rig_strrmodes modes buf buflen =
     (if modes = RIG_MODE_NONE
      then (RIG_OK, if size_of_int buflen = 0 then buf else take (size_of_int buflen - 1) ''NONE'')
      else rig_strrmodes_loop mode_str modes buf buflen)"

text \<open>The names of a set of modes, in table order, separated by blanks.\<close>

fun append_names :: "string \<Rightarrow> string list \<Rightarrow> string" where
  "append_names buf [] = buf"
| "append_names buf (n # ns) = append_names (if buf = [] then n else buf @ '' '' @ n) ns"

definition names_of_modes :: "(rmode_t \<times> string) list \<Rightarrow> rmode_t \<Rightarrow> string list" where
  "names_of_modes t modes = map snd (filter (\<lambda>(m, str). modes AND m \<noteq> 0) (entries t))"

lemma size_of_int_nonneg: "0 \<le> n \<Longrightarrow> n < 2 ^ 31 \<Longrightarrow> size_of_int n = nat n"
  unfolding size_of_int_def by (simp add: unsigned_of_int take_bit_int_eq_self)

lemma strncat_room:
  assumes "int (length buf) < buflen" and "buflen < 2 ^ 31"
  shows "unat (of_int buflen - of_nat (length buf) - 1 :: u64) = nat buflen - length buf - 1"
proof -
  have "(of_int buflen - of_nat (length buf) - 1 :: u64) = of_int (buflen - int (length buf) - 1)"
    by simp
  moreover have "0 \<le> buflen - int (length buf) - 1" "buflen - int (length buf) - 1 < 2 ^ 31"
    using assms by linarith+
  ultimately have "unat (of_int buflen - of_nat (length buf) - 1 :: u64)
      = nat (buflen - int (length buf) - 1)"
    using size_of_int_nonneg by (simp only: size_of_int_def [symmetric])
  then show ?thesis using assms by linarith
qed

text \<open>One mode's text, and the loop's step without the \<^verbatim>\<open>size_t\<close> arithmetic.\<close>

definition mode_piece :: "string \<Rightarrow> string \<Rightarrow> int \<Rightarrow> string" where
  "mode_piece buf str buflen =
     buf @ take (nat buflen - length buf - 1) (take 15 (if buf = [] then str else '' '' @ str))"

lemma mode_piece_length: "int (length buf) < buflen \<Longrightarrow> int (length (mode_piece buf str buflen)) < buflen"
  by (simp add: mode_piece_def)

lemma mode_piece_whole:
  assumes "length (mode_piece buf str buflen) \<le> nat (buflen - 10)" and "10 \<le> buflen"
    and "length str < 15"
  shows "mode_piece buf str buflen = (if buf = [] then str else buf @ '' '' @ str)"
proof -
  let ?m = "take 15 (if buf = [] then str else '' '' @ str)"
  have m: "?m = (if buf = [] then str else '' '' @ str)" using assms(3) by simp
  have "length ?m \<le> nat buflen - length buf - 1"
  proof (rule ccontr)
    assume "\<not> ?thesis"
    then have "length (mode_piece buf str buflen) = length buf + (nat buflen - length buf - 1)"
      by (simp only: mode_piece_def length_append length_take min_def) simp
    with assms(1,2) show False by linarith
  qed
  then have "mode_piece buf str buflen = buf @ ?m" by (simp only: mode_piece_def take_all)
  then show ?thesis by (simp add: m)
qed

lemma rig_strrmodes_loop_step:
  assumes "10 \<le> buflen" and "buflen < 2 ^ 31" and "int (length buf) < buflen"
    and "str \<noteq> []" and "modes AND m \<noteq> 0"
  shows "rig_strrmodes_loop ((m, str) # t) modes buf buflen =
     (if length (mode_piece buf str buflen) > nat (buflen - 10)
      then (- RIG_ETRUNC, mode_piece buf str buflen)
      else rig_strrmodes_loop t modes (mode_piece buf str buflen) buflen)"
proof -
  have "0 \<le> buflen - 10" and "buflen - 10 < 2 ^ 31" using assms(1,2) by simp_all
  then have lim: "size_of_int (buflen - 10) = nat (buflen - 10)" by (rule size_of_int_nonneg)
  show ?thesis
    by (simp only: rig_strrmodes_loop.simps assms(4,5) if_False if_True Let_def lim
        strncat_room [OF assms(3,2)] mode_piece_def not_False_eq_True)
qed

lemma rig_strrmodes_loop_correct:
  assumes "10 \<le> buflen" and "buflen < 2 ^ 31"
  shows "int (length buf) < buflen \<Longrightarrow>
   (\<forall>e \<in> set (entries t). length (snd e) < 15) \<Longrightarrow>
   rig_strrmodes_loop t modes buf buflen = (rc, buf') \<Longrightarrow>
   int (length buf') < buflen \<and> (rc = RIG_OK \<or> rc = - RIG_ETRUNC)
   \<and> (rc = RIG_OK \<longrightarrow> buf' = append_names buf (names_of_modes t modes))"
proof (induction t arbitrary: buf)
  case (Cons e t)
  obtain m str where e: "e = (m, str)" by fastforce
  let ?b = "mode_piece buf str buflen"
  have len: "int (length ?b) < buflen" using Cons.prems(1) by (rule mode_piece_length)
  consider "str = []" | "str \<noteq> []" "modes AND m = 0" | "str \<noteq> []" "modes AND m \<noteq> 0" by blast
  then show ?case
  proof cases
    case 3
    note step = rig_strrmodes_loop_step [OF assms Cons.prems(1) 3, of t]
    have str: "length str < 15" "\<forall>e \<in> set (entries t). length (snd e) < 15"
      using Cons.prems(2) 3(1) by (simp_all add: e)
    show ?thesis
    proof (cases "length ?b > nat (buflen - 10)")
      case True
      then show ?thesis using Cons.prems(3) step len by (auto simp: e rc_defs)
    next
      case False
      then have run: "rig_strrmodes_loop t modes ?b buflen = (rc, buf')"
        using Cons.prems(3) step by (simp add: e)
      have "?b = (if buf = [] then str else buf @ '' '' @ str)"
        using False assms(1) str(1) by (intro mode_piece_whole) simp_all
      then have "append_names buf (names_of_modes (e # t) modes)
          = append_names ?b (names_of_modes t modes)"
        using 3 by (simp add: e names_of_modes_def)
      with Cons.IH [OF len str(2) run] show ?thesis by simp
    qed
  qed (use Cons in \<open>auto simp: e names_of_modes_def\<close>)
qed (simp add: names_of_modes_def)

subsection \<open>What the name functions promise\<close>

text \<open>C40: the name a table gives a flag parses back to that flag, whatever the word: for the
  modes, levels, functions, parameters, VFOs, VFO operations, scans and channel types of
  rigs and for the tables of rotators and amplifiers, printing then parsing is the
  identity on named values, aliases included, and gives the ``none'' value of the table
  for every other word (combinations of flags and unassigned bits have no name).\<close>

lemma names_roundtrip:
  "rig_parse_vfo (rig_strvfo v) = (if rig_strvfo v = [] then RIG_VFO_NONE else v)
   \<and> rig_parse_mode (rig_strrmode m) = (if rig_strrmode m = [] then RIG_MODE_NONE else m)
   \<and> rig_parse_func (rig_strfunc f) = (if rig_strfunc f = [] then RIG_FUNC_NONE else f)
   \<and> rig_parse_level (rig_strlevel l) = (if rig_strlevel l = [] then RIG_LEVEL_NONE else l)
   \<and> rig_parse_parm (rig_strparm p) = (if rig_strparm p = [] then RIG_PARM_NONE else p)
   \<and> rig_parse_vfo_op (rig_strvfop op) = (if rig_strvfop op = [] then RIG_OP_NONE else op)
   \<and> rig_parse_scan (rig_strscan sc) = (if rig_strscan sc = [] then RIG_SCAN_NONE else sc)
   \<and> rig_parse_mtype (rig_strmtype mt) = mt
   \<and> rig_parse_rptr_shift (rig_strptrshift sh) = sh
   \<and> rot_parse_level (rot_strlevel rl) = (if rot_strlevel rl = [] then ROT_LEVEL_NONE else rl)
   \<and> amp_parse_level (amp_strlevel al) = (if amp_strlevel al = [] then AMP_LEVEL_NONE else al)"
proof -
  have mt: "rig_parse_mtype (rig_strmtype mt) = mt"
    by (cases mt) (simp_all add: rig_parse_mtype_def rig_strmtype_def mtype_str_def)
  have sh: "rig_parse_rptr_shift (rig_strptrshift sh) = sh"
    by (cases sh) (simp_all add: rig_parse_rptr_shift_def)
  show ?thesis
    by (intro conjI mt sh)
      (simp_all add: rig_parse_vfo_def rig_strvfo_def vfo.parse_str_total
        rig_parse_mode_def rig_strrmode_def mode.parse_str_total
        rig_parse_func_def rig_strfunc_def func.parse_str_total
        rig_parse_level_def rig_strlevel_def level.parse_str_total
        rig_parse_parm_def rig_strparm_def parm.parse_str_total
        rig_parse_vfo_op_def rig_strvfop_def vfoop.parse_str_total
        rig_parse_scan_def rig_strscan_def scan.parse_str_total
        rot_parse_level_def rot_strlevel_def rlevel.parse_str_total
        amp_parse_level_def amp_strlevel_def alevel.parse_str_total tbl_parse_empty)
qed

text \<open>the bit number of a setting. \<^verbatim>\<open>rig_setting2idx\<close> inverts \<^verbatim>\<open>rig_idx2setting\<close> on all
  64 bits; on any word it returns the number of the lowest set bit, so a set of several
  settings is indexed by its smallest one, and 0 (the index of bit 0) for the empty set.\<close>

lemma setting_index:
  "(\<forall>i<64. rig_setting2idx (rig_idx2setting i) = i)
   \<and> (s \<noteq> 0 \<longrightarrow> bit s (rig_setting2idx s) \<and> (\<forall>m<rig_setting2idx s. \<not> bit s m))
   \<and> rig_setting2idx 0 = 0"
proof (intro conjI allI impI)
  have least: "(\<exists>j<64. bit w j \<and> (\<forall>m<j. \<not> bit w m) \<and> rig_setting2idx w = j)
      \<or> (\<forall>m<64. \<not> bit w m) \<and> rig_setting2idx w = 0" for w
    using rig_setting2idx_loop_least [of 0 64 w]
    by (simp add: rig_setting2idx_def RIG_SETTING_MAX_def)
  show "rig_setting2idx (rig_idx2setting i) = i" if "i < 64" for i
    using least [of "rig_idx2setting i"] that by (auto simp: rig_idx2setting_def bit_simps)
  show "rig_setting2idx 0 = 0" using least [of 0] by auto
  have nz: "\<exists>m<64. bit s m" if "s \<noteq> 0"
    using that bit_word_eqI [of s 0] by auto
  show "bit s (rig_setting2idx s)" if "s \<noteq> 0" using least [of s] nz [OF that] by auto
  show "\<not> bit s m" if "s \<noteq> 0" "m < rig_setting2idx s" for m
    using least [of s] nz [OF that(1)] that(2) by auto
qed

lemma setting_index_witness:
  "rig_setting2idx (rig_idx2setting 41) = 41 \<and> \<not> bit (12::u64) 1"
proof -
  have "rig_setting2idx 12 = 2" by code_simp
  with setting_index [of 12] show ?thesis by simp
qed

text \<open>the three AGC conversions agree. The number stored for a level converts back to that
  level, the level's name converts to the level, and the value 0..6 converts to a level
  whose value it is; anything else is taken as automatic.\<close>

lemma agc_conversions:
  "map (\<lambda>l. rig_levelagcvalue (rig_valueagclevel l)) [RIG_AGC_OFF, RIG_AGC_SUPERFAST, RIG_AGC_FAST,
        RIG_AGC_SLOW, RIG_AGC_USER, RIG_AGC_MEDIUM, RIG_AGC_AUTO]
     = [RIG_AGC_OFF, RIG_AGC_SUPERFAST, RIG_AGC_FAST, RIG_AGC_SLOW, RIG_AGC_USER,
        RIG_AGC_MEDIUM, RIG_AGC_AUTO]
   \<and> rig_levelagcstr (rig_stragclevel l) = (if l \<in> {0..6} then l else RIG_AGC_AUTO)
   \<and> rig_valueagclevel (rig_levelagcvalue v) = (if v \<in> {0..6} then v else 6)"
proof (intro conjI)
  consider "l < 0" | "l \<in> {0, 1, 2, 3, 4, 5, 6}" | "6 < l" by force
  then show "rig_levelagcstr (rig_stragclevel l) = (if l \<in> {0..6} then l else RIG_AGC_AUTO)"
    by cases (auto simp: rig_levelagcstr_def rig_stragclevel_def rig_agc_level_str_def flag_defs)
  consider "v < 0" | "v \<in> {0, 1, 2, 3, 4, 5, 6}" | "6 < v" by force
  then show "rig_valueagclevel (rig_levelagcvalue v) = (if v \<in> {0..6} then v else 6)"
    by cases (auto simp: rig_valueagclevel_def rig_levelagcvalue_def flag_defs)
qed (simp add: rig_valueagclevel_def rig_levelagcvalue_def flag_defs)

text \<open>\<^verbatim>\<open>rig_strrmodes\<close> on a buffer of at least ten bytes, started empty. The text
  always leaves room for its terminating NUL; the code is \<^verbatim>\<open>RIG_OK\<close> or
  \<^verbatim>\<open>-RIG_ETRUNC\<close>, and on \<^verbatim>\<open>RIG_OK\<close> the text is complete: the name of every
  table entry whose mode is in the set, in table order, separated by one blank.\<close>

lemma rig_strrmodes_complete:
  assumes "10 \<le> buflen" and "buflen < 2 ^ 31"
    and "rig_strrmodes modes [] buflen = (rc, buf)"
  shows "int (length buf) < buflen \<and> (rc = RIG_OK \<or> rc = - RIG_ETRUNC)
    \<and> (rc = RIG_OK \<longrightarrow> buf = (if modes = RIG_MODE_NONE then ''NONE''
                            else append_names [] (names_of_modes mode_str modes)))"
proof (cases "modes = RIG_MODE_NONE")
  case True
  moreover have "size_of_int buflen = nat buflen" using assms by (intro size_of_int_nonneg) simp_all
  ultimately show ?thesis using assms by (auto simp: rig_strrmodes_def)
next
  case False
  have "\<forall>e \<in> set (entries mode_str). length (snd e) < 15" by (simp add: mode_str_def)
  with False assms rig_strrmodes_loop_correct [OF assms(1,2), of "[]" mode_str modes rc buf]
  show ?thesis by (simp add: rig_strrmodes_def)
qed

lemma rig_strrmodes_complete_witness:
  "append_names [] (names_of_modes mode_str (RIG_MODE_USB OR RIG_MODE_LSB)) = ''USB LSB''
   \<and> int (length ''USB LSB'') < 40"
proof -
  have run: "rig_strrmodes (RIG_MODE_USB OR RIG_MODE_LSB) [] 40 = (RIG_OK, ''USB LSB'')"
    by code_simp
  have "RIG_MODE_USB OR RIG_MODE_LSB \<noteq> RIG_MODE_NONE" by code_simp
  then have "append_names [] (names_of_modes mode_str (RIG_MODE_USB OR RIG_MODE_LSB)) = ''USB LSB''"
    using rig_strrmodes_complete [OF _ _ run] by simp
  then show ?thesis by simp
qed

lemma rig_strrmodes_loop_filter:
  "rig_strrmodes_loop t modes buf buflen
   = rig_strrmodes_loop (filter (\<lambda>(m, str). str = [] \<or> modes AND m \<noteq> 0) t) modes buf buflen"
  by (induction t modes buf buflen rule: rig_strrmodes_loop.induct) (simp_all add: Let_def)

lemma size_of_int_negative: "size_of_int (- 4) = 18446744073709551612"
  by (simp add: size_of_int_def)

text \<open>below ten bytes the truncation test of \<^verbatim>\<open>rig_strrmodes\<close> compares with
  \<^verbatim>\<open>buflen - 10\<close> taken as a \<^verbatim>\<open>size_t\<close>, a huge number: a cut-off text is
  reported as \<^verbatim>\<open>RIG_OK\<close>, here \<^verbatim>\<open>USB LSB\<close> in a buffer of six bytes.\<close>

lemma rig_strrmodes_short_buffer:
  "rig_strrmodes (RIG_MODE_USB OR RIG_MODE_LSB) [] 6 = (RIG_OK, ''USB L'')
   \<and> rig_strrmodes (RIG_MODE_USB OR RIG_MODE_LSB) [] 12 = (- RIG_ETRUNC, ''USB'')"
proof
  show "rig_strrmodes (RIG_MODE_USB OR RIG_MODE_LSB) [] 6 = (RIG_OK, ''USB L'')"
  proof -
    let ?ms = "RIG_MODE_USB OR RIG_MODE_LSB"
    have nz: "?ms \<noteq> RIG_MODE_NONE" "?ms AND RIG_MODE_USB \<noteq> 0" "?ms AND RIG_MODE_LSB \<noteq> 0"
      "RIG_MODE_USB \<noteq> 0" "RIG_MODE_LSB \<noteq> 0"
      by code_simp+
    have "filter (\<lambda>(m, str). str = [] \<or> ?ms AND m \<noteq> 0) mode_str
        = [(RIG_MODE_USB, ''USB''), (RIG_MODE_LSB, ''LSB''), (RIG_MODE_NONE, [])]"
      by code_simp
    then show ?thesis
      unfolding rig_strrmodes_def rig_strrmodes_loop_filter [of mode_str]
      by (simp add: nz size_of_int_negative Let_def)
  qed
qed code_simp

end
