(* ===== verification/Hamlib_Cal.thy ===== *)
theory Hamlib_Cal
  imports Hamlib_Prelude
begin

text \<open>
  Calibration tables (\<^verbatim>\<open>src/cal.c\<close>): raw meter readings to calibrated values by
  piecewise linear interpolation. A table is the list of its plots, raw value and
  calibrated value; its length is the C field \<^verbatim>\<open>size\<close>. The two functions of the file
  differ in the type of the calibrated values only; values are real numbers here, without
  the rounding of \<^verbatim>\<open>float\<close>. The branch for \<^verbatim>\<open>WANT_CHEAP_WNO_FP\<close>, which no build
  defines, is left out.
\<close>

type_synonym cal_table = "(int \<times> real) list"

text \<open>The index the \<^verbatim>\<open>for\<close> loop stops at, counting from \<^verbatim>\<open>i\<close>.\<close>

fun cal_index :: "nat \<Rightarrow> int \<Rightarrow> cal_table \<Rightarrow> nat" where
  "cal_index i rawval [] = i"
| "cal_index i rawval ((raw, val) # t) = (if rawval < raw then i else cal_index (Suc i) rawval t)"

definition rig_raw2val_float :: "int \<Rightarrow> cal_table \<Rightarrow> real" where
  "rig_raw2val_float rawval cal =
     (if length cal = 0 then of_int rawval
      else let i = cal_index 0 rawval cal
           in if i = 0 then snd (cal ! 0)
              else if i \<ge> length cal then snd (cal ! (i - 1))
              else if fst (cal ! i) = fst (cal ! (i - 1)) then snd (cal ! i)
              else let interpolation = of_int (fst (cal ! i) - rawval) * (snd (cal ! i) - snd (cal ! (i - 1)))
                        / of_int (fst (cal ! i) - fst (cal ! (i - 1)))
                   in snd (cal ! i) - interpolation)"

definition rig_raw2val :: "int \<Rightarrow> (int \<times> int) list \<Rightarrow> real" where
  "rig_raw2val rawval cal = rig_raw2val_float rawval (map (\<lambda>(r, v). (r, of_int v)) cal)"

subsection \<open>The interpolation by recursion on the table\<close>

definition segment :: "int \<times> real \<Rightarrow> int \<times> real \<Rightarrow> int \<Rightarrow> real" where
  "segment p q x = snd q - of_int (fst q - x) * (snd q - snd p) / of_int (fst q - fst p)"

fun interp :: "int \<times> real \<Rightarrow> cal_table \<Rightarrow> int \<Rightarrow> real" where
  "interp p [] x = snd p"
| "interp p (q # t) x = (if x < fst q then segment p q x else interp q t x)"

lemma cal_index_Suc: "cal_index (Suc i) x t = Suc (cal_index i x t)"
  by (induction t arbitrary: i) auto

lemma cal_index_Cons:
  "cal_index 0 x (p # t) = (if x < fst p then 0 else Suc (cal_index 0 x t))"
  by (cases p) (simp add: cal_index_Suc)

lemma interp_index:
  assumes "fst p \<le> x"
  shows "interp p t x =
    (let i = cal_index 0 x t
     in if i \<ge> length t then snd ((p # t) ! length t)
        else segment ((p # t) ! i) (t ! i) x)"
  using assms
proof (induction t arbitrary: p)
  case (Cons q t)
  then show ?case by (cases "x < fst q") (simp_all add: cal_index_Cons Let_def)
qed simp

lemma cal_index_le: "cal_index 0 x t \<le> length t"
  by (induction t) (simp_all add: cal_index_Cons)

lemma cal_index_below: "j < cal_index 0 x t \<Longrightarrow> fst (t ! j) \<le> x"
  by (induction t arbitrary: j) (auto simp: cal_index_Cons less_Suc_eq_0_disj split: if_splits)

lemma cal_index_above: "cal_index 0 x t < length t \<Longrightarrow> x < fst (t ! cal_index 0 x t)"
  by (induction t) (auto simp: cal_index_Cons)

lemma raw2val_interp:
  "rig_raw2val_float x (p # t) = (if x < fst p then snd p else interp p t x)"
proof (cases "x < fst p")
  case False
  let ?i = "cal_index 0 x t"
  have "fst ((p # t) ! ?i) \<le> x"
    using False cal_index_below [of "?i - 1" x t] by (cases ?i) simp_all
  then have "fst (t ! ?i) \<noteq> fst ((p # t) ! ?i)" if "?i < length t"
    using cal_index_above [OF that] by simp
  moreover have "?i = length t" if "\<not> ?i < length t" using that cal_index_le [of x t] by simp
  ultimately show ?thesis
    using False by (auto simp: rig_raw2val_float_def cal_index_Cons interp_index segment_def Let_def)
qed (simp add: rig_raw2val_float_def cal_index_Cons)

lemma segment_weight:
  assumes "fst p \<le> x" and "x < fst q"
  obtains w where "0 \<le> w" "w \<le> 1" "segment p q x = snd q - w * (snd q - snd p)"
    "w = of_int (fst q - x) / of_int (fst q - fst p)"
  by (rule that [OF _ _ _ refl]) (use assms in \<open>simp_all add: segment_def\<close>)

lemma segment_bounds:
  assumes "fst p \<le> x" and "x < fst q"
  shows "min (snd p) (snd q) \<le> segment p q x" "segment p q x \<le> max (snd p) (snd q)"
proof -
  obtain w where w: "0 \<le> w" "w \<le> 1" "segment p q x = snd q - w * (snd q - snd p)"
    using segment_weight [OF assms] by metis
  have up: "0 \<le> w * (snd q - snd p) \<and> w * (snd q - snd p) \<le> snd q - snd p" if "snd p \<le> snd q"
    using w that by (simp add: mult_left_le_one_le)
  have down: "0 \<le> w * (snd p - snd q) \<and> w * (snd p - snd q) \<le> snd p - snd q" if "snd q \<le> snd p"
    using w that by (simp add: mult_left_le_one_le)
  have neg: "w * (snd q - snd p) = - (w * (snd p - snd q))" by (simp add: algebra_simps)
  show "min (snd p) (snd q) \<le> segment p q x" "segment p q x \<le> max (snd p) (snd q)"
    unfolding w(3) using up down neg by (cases "snd p \<le> snd q"; simp add: min_def max_def; linarith)+
qed

lemma segment_mono:
  assumes "fst p \<le> x" "x \<le> y" "y < fst q" "snd p \<le> snd q"
  shows "segment p q x \<le> segment p q y"
proof -
  have "0 < (of_int (fst q - fst p) :: real)" using assms by simp
  then have "of_int (fst q - y) / of_int (fst q - fst p)
      \<le> (of_int (fst q - x) / of_int (fst q - fst p) :: real)"
    using assms(2) by (simp add: divide_right_mono)
  then have "of_int (fst q - y) / of_int (fst q - fst p) * (snd q - snd p)
      \<le> of_int (fst q - x) / of_int (fst q - fst p) * (snd q - snd p)"
    by (rule mult_right_mono) (use assms(4) in simp)
  then show ?thesis by (simp add: segment_def)
qed

lemma interp_bounds:
  assumes "fst p \<le> x" and "\<forall>v \<in> snd ` set (p # t). lo \<le> v \<and> v \<le> hi"
  shows "lo \<le> interp p t x \<and> interp p t x \<le> hi"
  using assms
proof (induction t arbitrary: p)
  case (Cons q t)
  show ?case
  proof (cases "x < fst q")
    case True
    have "lo \<le> min (snd p) (snd q)" "max (snd p) (snd q) \<le> hi" using Cons.prems(2) by auto
    with True segment_bounds [OF Cons.prems(1) True] show ?thesis
      by (auto simp: min_def max_def split: if_splits)
  qed (use Cons in auto)
qed simp

lemma interp_mono:
  assumes "sorted (map snd (p # t))" "fst p \<le> x" "x \<le> y"
  shows "interp p t x \<le> interp p t y"
  using assms
proof (induction t arbitrary: p)
  case (Cons q t)
  have sorted: "sorted (map snd (q # t))" "snd p \<le> snd q" using Cons.prems(1) by auto
  consider "y < fst q" | "x < fst q" "fst q \<le> y" | "fst q \<le> x" by linarith
  then show ?case
  proof cases
    case 1
    then show ?thesis using Cons.prems sorted by (simp add: segment_mono)
  next
    case 2
    have "segment p q x \<le> snd q"
      using segment_bounds(2) [OF Cons.prems(2) 2(1)] sorted(2) by (simp add: max_def)
    also have "snd q \<le> interp q t y"
      using interp_bounds [OF 2(2), where lo = "snd q" and hi = "Max (snd ` set (q # t))" and t = t]
        sorted(1) by (auto simp: sorted_append)
    finally show ?thesis using 2 by simp
  next
    case 3
    then show ?thesis using Cons.IH [OF sorted(1) 3 Cons.prems(3)] Cons.prems(3) by simp
  qed
qed simp

lemma interp_hit:
  assumes "sorted_wrt (<) (map fst (p # t))" and "(r, v) \<in> set (p # t)"
  shows "interp p t r = v"
  using assms
proof (induction t arbitrary: p)
  case (Cons q t)
  show ?case
  proof (cases "(r, v) = p")
    case True
    then have "r < fst q" "fst p = r" "snd p = v" using Cons.prems(1) by auto
    then show ?thesis by (simp add: segment_def)
  next
    case False
    then have "(r, v) \<in> set (q # t)" using Cons.prems(2) by simp
    moreover from this have "fst q \<le> r" using Cons.prems(1) by force
    ultimately show ?thesis using Cons by simp
  qed
qed auto

subsection \<open>What the calibration promises\<close>

lemma raw2val_in_bounds:
  assumes "cal \<noteq> []" and "\<forall>v \<in> snd ` set cal. lo \<le> v \<and> v \<le> hi"
  shows "lo \<le> rig_raw2val_float x cal \<and> rig_raw2val_float x cal \<le> hi"
proof -
  obtain p t where cal: "cal = p # t" using assms(1) by (cases cal) auto
  have "lo \<le> snd p \<and> snd p \<le> hi" using assms(2) by (simp add: cal)
  moreover have "lo \<le> interp p t x \<and> interp p t x \<le> hi" if "fst p \<le> x"
    using interp_bounds [OF that] assms(2) by (simp add: cal)
  ultimately show ?thesis by (auto simp: cal raw2val_interp)
qed

text \<open>calibration never leaves the table's range, for any table, sorted or not: the
  result lies between any bounds of the calibrated values. Below the first raw value it is
  the first plot's value, and above all raw values it is the last plot's value.\<close>

lemma raw2val_bounds:
  assumes "cal \<noteq> []" and "\<forall>v \<in> snd ` set cal. lo \<le> v \<and> v \<le> hi"
  shows "lo \<le> rig_raw2val_float x cal \<and> rig_raw2val_float x cal \<le> hi
    \<and> (x < fst (hd cal) \<longrightarrow> rig_raw2val_float x cal = snd (hd cal))
    \<and> ((\<forall>r \<in> fst ` set cal. r \<le> x) \<longrightarrow> rig_raw2val_float x cal = snd (last cal))"
proof -
  obtain p t where cal: "cal = p # t" using assms(1) by (cases cal) auto
  have last: "(\<forall>r \<in> fst ` set t. r \<le> x) \<Longrightarrow> interp q t x = snd (last (q # t))" for q
    by (induction t arbitrary: q) auto
  show ?thesis
    using last [of p] raw2val_in_bounds [OF assms] by (auto simp: cal raw2val_interp)
qed

lemma raw2val_bounds_witness:
  "0 \<le> rig_raw2val_float 7 [(0, 0), (10, 20)] \<and> rig_raw2val_float 7 [(0, 0), (10, 20)] \<le> 20"
  using raw2val_bounds [of "[(0, 0), (10, 20)]" 0 20 7] by simp

text \<open>on a table with strictly increasing raw values the plots themselves are reproduced
  exactly, and if the calibrated values increase with them the calibration is monotone: a
  stronger reading never shows as a weaker signal.\<close>

lemma raw2val_plots_monotone:
  assumes "cal \<noteq> []" and "sorted_wrt (<) (map fst cal)"
  shows "(\<forall>(r, v) \<in> set cal. rig_raw2val_float r cal = v)
    \<and> (sorted (map snd cal) \<and> x \<le> y \<longrightarrow> rig_raw2val_float x cal \<le> rig_raw2val_float y cal)"
proof -
  obtain p t where cal: "cal = p # t" using assms(1) by (cases cal) auto
  have hit: "rig_raw2val_float r cal = v" if "(r, v) \<in> set cal" for r v
  proof -
    have "fst p \<le> r" using that assms(2) by (force simp: cal)
    then show ?thesis using interp_hit [of p t r v] that assms(2) by (simp add: cal raw2val_interp)
  qed
  have mono: "rig_raw2val_float x cal \<le> rig_raw2val_float y cal"
    if "sorted (map snd cal)" "x \<le> y"
  proof (cases "x < fst p")
    case True
    have "snd p \<le> interp p t y" if "fst p \<le> y"
      using interp_bounds [OF that, where lo = "snd p" and hi = "Max (snd ` set (p # t))" and t = t]
        \<open>sorted (map snd cal)\<close> by (auto simp: cal)
    then show ?thesis using True by (simp add: cal raw2val_interp)
  next
    case False
    then show ?thesis using interp_mono [of p t x y] that by (simp add: cal raw2val_interp)
  qed
  show ?thesis using hit mono by auto
qed

lemma raw2val_plots_monotone_witness:
  "rig_raw2val_float 12 [(0, -54), (12, -48), (24, -42)] = -48
   \<and> rig_raw2val_float 3 [(0, -54), (12, -48), (24, -42)]
     \<le> rig_raw2val_float 20 [(0, -54), (12, -48), (24, -42)]"
  using raw2val_plots_monotone [of "[(0, -54), (12, -48), (24, -42)]" 3 20] by simp

end
