(* ===== verification/Hamlib_State.thy ===== *)
theory Hamlib_State
  imports Hamlib_Names
begin

text \<open>
  The data of a rig handle (\<^verbatim>\<open>struct rig_state\<close>, \<^verbatim>\<open>struct rig_cache\<close> and
  \<^verbatim>\<open>struct rig_caps\<close> of \<^verbatim>\<open>include/hamlib/rig.h\<close>) as far as the front end of
  \<^verbatim>\<open>src/rig.c\<close>, \<^verbatim>\<open>src/cache.c\<close>, \<^verbatim>\<open>src/settings.c\<close>, \<^verbatim>\<open>src/tones.c\<close> and
  \<^verbatim>\<open>src/mem.c\<close> reads or writes it.

  A back end is code outside the front end: its functions are fields of \<^verbatim>\<open>'p caps\<close>,
  programs over the whole handle as in C, with \<^verbatim>\<open>'p\<close> the back end's private data; a
  \<^verbatim>\<open>NULL\<close> function is \<^verbatim>\<open>None\<close>. A getter takes the value its output parameter
  points to and returns the new one, because a back end that fails leaves it alone and the
  front end goes on to read it.

  Frequencies and the other \<^verbatim>\<open>double\<close>s of the handle are real numbers, without rounding.
  The clock is the field \<^verbatim>\<open>now\<close>: only back ends and ports move it, the instructions of
  the front end take no time. Locks, debug output and the nesting depth of the log are left
  out, and so are null arguments: the guards \<^verbatim>\<open>!rig\<close>, \<^verbatim>\<open>!caps\<close> and those on output
  pointers have no counterpart.
\<close>

subsection \<open>Scalar types\<close>

type_synonym freq_t = real
type_synonym ant_t = u32

datatype ptt_t = RIG_PTT_OFF | RIG_PTT_ON | RIG_PTT_ON_MIC | RIG_PTT_ON_DATA
datatype dcd_t = RIG_DCD_OFF | RIG_DCD_ON
datatype split_t = RIG_SPLIT_OFF | RIG_SPLIT_ON
datatype twiddle_t = TWIDDLE_OFF | TWIDDLE_ON

datatype ptt_type_t = RIG_PTT_NONE | RIG_PTT_RIG | RIG_PTT_SERIAL_DTR | RIG_PTT_SERIAL_RTS
  | RIG_PTT_PARALLEL | RIG_PTT_RIG_MICDATA | RIG_PTT_CM108 | RIG_PTT_GPIO | RIG_PTT_GPION

datatype dcd_type_t = RIG_DCD_NONE | RIG_DCD_RIG | RIG_DCD_SERIAL_DSR | RIG_DCD_SERIAL_CTS
  | RIG_DCD_SERIAL_CAR | RIG_DCD_PARALLEL | RIG_DCD_CM108 | RIG_DCD_GPIO | RIG_DCD_GPION

text \<open>The union \<^verbatim>\<open>value_t\<close>, tagged with the member in use.\<close>

datatype value_t = VInt int | VFloat real | VStr string

text \<open>The member \<^verbatim>\<open>i\<close>; a union that holds another member reads as 0 here.\<close>

fun val_i :: "value_t \<Rightarrow> int" where
  "val_i (VInt i) = i"
| "val_i _ = 0"

definition RIG_PASSBAND_NORMAL :: pbwidth_t where "RIG_PASSBAND_NORMAL = 0"
definition RIG_PASSBAND_NOCHANGE :: pbwidth_t where "RIG_PASSBAND_NOCHANGE = - 1"
definition RIG_ANT_UNKNOWN :: ant_t where "RIG_ANT_UNKNOWN = FLAG32 30"
definition HAMLIB_CACHE_ALWAYS :: int where "HAMLIB_CACHE_ALWAYS = - 1"

subsection \<open>Time stamps: elapsed_ms\<close>

record timespec =
  tv_sec :: int
  tv_nsec :: int

datatype elapsed_option = HAMLIB_ELAPSED_GET | HAMLIB_ELAPSED_SET | HAMLIB_ELAPSED_INVALIDATE

text \<open>
  The age in milliseconds, cut to an \<^verbatim>\<open>int\<close> as every caller does, and the stamp left in
  \<^verbatim>\<open>*start\<close>. The age is computed exactly; the C code computes it in \<^verbatim>\<open>double\<close>. A stamp
  with no nanoseconds counts as never set: reading it sets it.
\<close>

definition elapsed_nsec :: "timespec \<Rightarrow> timespec \<Rightarrow> int" where
  "elapsed_nsec start stop =
     (tv_sec stop - tv_sec start) * 1000000000 + (tv_nsec stop - tv_nsec start)"

fun elapsed_ms :: "timespec \<Rightarrow> timespec \<Rightarrow> elapsed_option \<Rightarrow> int \<times> timespec" where
  "elapsed_ms now start HAMLIB_ELAPSED_GET =
     (if tv_nsec start = 0 then (1000 * 1000, now)
      else let ns = elapsed_nsec start now
           in (if ns < 0 then 1000000 else ns div 1000000, start))"
| "elapsed_ms now start HAMLIB_ELAPSED_SET = (999 * 1000, now)"
| "elapsed_ms now start HAMLIB_ELAPSED_INVALIDATE =
     (1000000, now\<lparr>tv_sec := tv_sec now - 10\<rparr>)"

subsection \<open>The cache\<close>

text \<open>
  The nine VFO slots of \<^verbatim>\<open>struct rig_cache\<close>: its fields \<^verbatim>\<open>freqCurr\<close>, \<^verbatim>\<open>freqOther\<close>,
  \<^verbatim>\<open>freqMainA\<close> \dots\ are \<^verbatim>\<open>c_freq\<close> at the slot of the same name, and likewise for the
  modes, the widths and the three families of time stamps.
\<close>

datatype slot = Curr | Other | MainA | MainB | MainC | SubA | SubB | SubC | Mem

record rig_cache =
  timeout_ms :: int
  c_vfo :: vfo_t
  c_freq :: "slot \<Rightarrow> freq_t"
  c_mode :: "slot \<Rightarrow> rmode_t"
  c_width :: "slot \<Rightarrow> pbwidth_t"
  c_ptt :: ptt_t
  c_split :: split_t
  c_split_vfo :: vfo_t
  time_freq :: "slot \<Rightarrow> timespec"
  time_mode :: "slot \<Rightarrow> timespec"
  time_width :: "slot \<Rightarrow> timespec"
  time_vfo :: timespec
  time_ptt :: timespec
  time_split :: timespec
  satmode :: bool

subsection \<open>The handle\<close>

record freq_range_t =
  startf :: freq_t
  endf :: freq_t
  range_modes :: rmode_t
  low_power :: int
  high_power :: int

text \<open>Lists of fixed size are lists without the zero entries after their terminator.\<close>

record 'p rig =
  comm_state :: bool
  current_vfo :: vfo_t
  vfo_list :: vfo_t
  rx_vfo :: vfo_t
  tx_vfo :: vfo_t
  current_freq :: freq_t
  current_mode :: rmode_t
  current_width :: pbwidth_t
  twiddle_timeout :: int
  twiddle_time :: int
  twiddle_state :: twiddle_t
  uplink :: int
  vfo_opt :: int
  lo_freq :: freq_t
  vfo_comp :: real
  use_cached_freq :: bool
  use_cached_mode :: bool
  transmit :: bool
  ptt_type :: ptt_type_t
  dcd_type :: dcd_type_t
  pttport_pathname :: string
  pttport_fd :: int
  rigport_pathname :: string
  ptt_share :: bool
  filters :: "(rmode_t \<times> pbwidth_t) list"
  tuning_steps :: "(rmode_t \<times> shortfreq_t) list"
  tx_range_list :: "freq_range_t list"
  has_get_func :: setting_t
  has_set_func :: setting_t
  has_get_level :: setting_t
  has_set_level :: setting_t
  has_get_parm :: setting_t
  has_set_parm :: setting_t
  str_cal :: "(int \<times> int) list"
  cache :: rig_cache
  now :: timespec
  priv :: 'p

text \<open>The handle \<^verbatim>\<open>calloc\<close> returns, all zero bytes, with the back end's data and the clock.\<close>

definition zero_time :: timespec where "zero_time = \<lparr>tv_sec = 0, tv_nsec = 0\<rparr>"

definition zero_cache :: rig_cache where
  "zero_cache = \<lparr>timeout_ms = 0, c_vfo = 0, c_freq = (\<lambda>_. 0), c_mode = (\<lambda>_. 0), c_width = (\<lambda>_. 0),
     c_ptt = RIG_PTT_OFF, c_split = RIG_SPLIT_OFF, c_split_vfo = 0, time_freq = (\<lambda>_. zero_time),
     time_mode = (\<lambda>_. zero_time), time_width = (\<lambda>_. zero_time), time_vfo = zero_time,
     time_ptt = zero_time, time_split = zero_time, satmode = False\<rparr>"

definition zero_rig :: "timespec \<Rightarrow> 'p \<Rightarrow> 'p rig" where
  "zero_rig t p = \<lparr>comm_state = False, current_vfo = 0, vfo_list = 0, rx_vfo = 0, tx_vfo = 0,
     current_freq = 0, current_mode = 0, current_width = 0, twiddle_timeout = 0, twiddle_time = 0,
     twiddle_state = TWIDDLE_OFF, uplink = 0, vfo_opt = 0, lo_freq = 0, vfo_comp = 0,
     use_cached_freq = False, use_cached_mode = False, transmit = False, ptt_type = RIG_PTT_NONE,
     dcd_type = RIG_DCD_NONE, pttport_pathname = [], pttport_fd = 0, rigport_pathname = [],
     ptt_share = False, filters = [], tuning_steps = [], tx_range_list = [], has_get_func = 0,
     has_set_func = 0, has_get_level = 0, has_set_level = 0, has_get_parm = 0, has_set_parm = 0, str_cal = [],
     cache = zero_cache, now = t, priv = p\<rparr>"

subsection \<open>The back end\<close>

type_synonym 'p call = "('p rig, int) state"
type_synonym ('p, 'a) setter = "vfo_t \<Rightarrow> 'a \<Rightarrow> 'p call"
type_synonym ('p, 'a) getter = "vfo_t \<Rightarrow> 'a \<Rightarrow> ('p rig, int \<times> 'a) state"

record 'p caps_tuning =
  rig_model :: nat
  targetable_vfo :: u32
  vfo_ops :: u32
  scan_ops :: u32
  cap_has_get_level :: setting_t
  cap_has_get_func :: setting_t
  set_freq :: "('p, freq_t) setter option"
  get_freq :: "('p, freq_t) getter option"
  set_mode :: "('p, rmode_t \<times> pbwidth_t) setter option"
  get_mode :: "('p, rmode_t \<times> pbwidth_t) getter option"
  set_vfo :: "(vfo_t \<Rightarrow> 'p call) option"
  get_vfo :: "(vfo_t \<Rightarrow> ('p rig, int \<times> vfo_t) state) option"
  set_ptt :: "('p, ptt_t) setter option"
  get_ptt :: "('p, ptt_t) getter option"
  get_dcd :: "('p, dcd_t) getter option"

record 'p caps_split = "'p caps_tuning" +
  set_rptr_shift :: "('p, rptr_shift_t) setter option"
  get_rptr_shift :: "('p, rptr_shift_t) getter option"
  set_rptr_offs :: "('p, shortfreq_t) setter option"
  get_rptr_offs :: "('p, shortfreq_t) getter option"
  set_split_freq :: "('p, freq_t) setter option"
  get_split_freq :: "('p, freq_t) getter option"
  set_split_mode :: "('p, rmode_t \<times> pbwidth_t) setter option"
  get_split_mode :: "('p, rmode_t \<times> pbwidth_t) getter option"
  set_split_freq_mode :: "('p, freq_t \<times> rmode_t \<times> pbwidth_t) setter option"
  get_split_freq_mode :: "('p, freq_t \<times> rmode_t \<times> pbwidth_t) getter option"
  set_split_vfo :: "('p, split_t \<times> vfo_t) setter option"
  get_split_vfo :: "('p, split_t \<times> vfo_t) getter option"

record 'p caps_vfo = "'p caps_split" +
  set_rit :: "('p, shortfreq_t) setter option"
  get_rit :: "('p, shortfreq_t) getter option"
  set_xit :: "('p, shortfreq_t) setter option"
  get_xit :: "('p, shortfreq_t) getter option"
  set_ts :: "('p, shortfreq_t) setter option"
  get_ts :: "('p, shortfreq_t) getter option"
  set_ant :: "('p, ant_t \<times> value_t) setter option"
  get_ant :: "(ant_t \<Rightarrow> ('p, value_t \<times> ant_t \<times> ant_t \<times> ant_t) getter) option"
  cap_vfo_op :: "('p, u32) setter option"
  cap_scan :: "('p, u32 \<times> int) setter option"

record 'p caps_setting = "'p caps_vfo" +
  send_dtmf :: "('p, string) setter option"
  recv_dtmf :: "('p, string \<times> int) getter option"
  send_morse :: "('p, string) setter option"
  stop_morse :: "('p, unit) setter option"
  send_voice_mem :: "('p, int) setter option"
  set_level :: "('p, setting_t \<times> value_t) setter option"
  get_level :: "(setting_t \<Rightarrow> ('p, value_t) getter) option"
  set_func :: "('p, setting_t \<times> int) setter option"
  get_func :: "(setting_t \<Rightarrow> ('p, int) getter) option"
  set_parm :: "(setting_t \<Rightarrow> value_t \<Rightarrow> 'p call) option"
  get_parm :: "(setting_t \<Rightarrow> value_t \<Rightarrow> ('p rig, int \<times> value_t) state) option"
  set_ext_level :: "('p, nat \<times> value_t) setter option"
  get_ext_level :: "(nat \<Rightarrow> ('p, value_t) getter) option"
  set_ext_func :: "('p, nat \<times> int) setter option"
  get_ext_func :: "(nat \<Rightarrow> ('p, int) getter) option"
  set_ext_parm :: "(nat \<Rightarrow> value_t \<Rightarrow> 'p call) option"
  get_ext_parm :: "(nat \<Rightarrow> value_t \<Rightarrow> ('p rig, int \<times> value_t) state) option"

record 'p caps = "'p caps_setting" +
  set_ctcss_tone :: "('p, nat) setter option"
  get_ctcss_tone :: "('p, nat) getter option"
  set_dcs_code :: "('p, nat) setter option"
  get_dcs_code :: "('p, nat) getter option"
  set_ctcss_sql :: "('p, nat) setter option"
  get_ctcss_sql :: "('p, nat) getter option"
  set_dcs_sql :: "('p, nat) setter option"
  get_dcs_sql :: "('p, nat) getter option"
  set_mem :: "('p, int) setter option"
  get_mem :: "('p, int) getter option"
  set_bank :: "('p, int) setter option"
  power2mW :: "(real \<Rightarrow> freq_t \<Rightarrow> rmode_t \<Rightarrow> nat \<Rightarrow> ('p rig, int \<times> nat) state) option"
  mW2power :: "(nat \<Rightarrow> freq_t \<Rightarrow> rmode_t \<Rightarrow> real \<Rightarrow> ('p rig, int \<times> real) state) option"
  set_powerstat :: "(int \<Rightarrow> 'p call) option"
  get_powerstat :: "(int \<Rightarrow> ('p rig, int \<times> int) state) option"
  cap_reset :: "(int \<Rightarrow> 'p call) option"
  set_vfo_opt :: "(int \<Rightarrow> 'p call) option"

text \<open>A back end in which every function is missing, to be filled in by updates.\<close>

definition no_caps :: "'p caps" where
  "no_caps = \<lparr>rig_model = 0, targetable_vfo = 0, vfo_ops = 0, scan_ops = 0, cap_has_get_level = 0, cap_has_get_func = 0,
     set_freq = None, get_freq = None, set_mode = None, get_mode = None, set_vfo = None, get_vfo = None,
     set_ptt = None, get_ptt = None, get_dcd = None, set_rptr_shift = None, get_rptr_shift = None,
     set_rptr_offs = None, get_rptr_offs = None, set_split_freq = None, get_split_freq = None,
     set_split_mode = None, get_split_mode = None, set_split_freq_mode = None,
     get_split_freq_mode = None, set_split_vfo = None, get_split_vfo = None, set_rit = None,
     get_rit = None, set_xit = None, get_xit = None, set_ts = None, get_ts = None, set_ant = None,
     get_ant = None, cap_vfo_op = None, cap_scan = None, send_dtmf = None, recv_dtmf = None,
     send_morse = None, stop_morse = None, send_voice_mem = None, set_level = None, get_level = None,
     set_func = None, get_func = None, set_parm = None, get_parm = None, set_ext_level = None,
     get_ext_level = None, set_ext_func = None, get_ext_func = None, set_ext_parm = None,
     get_ext_parm = None, set_ctcss_tone = None, get_ctcss_tone = None, set_dcs_code = None,
     get_dcs_code = None, set_ctcss_sql = None, get_ctcss_sql = None, set_dcs_sql = None,
     get_dcs_sql = None, set_mem = None, get_mem = None, set_bank = None, power2mW = None,
     mW2power = None, set_powerstat = None, get_powerstat = None, cap_reset = None,
     set_vfo_opt = None\<rparr>"

text \<open>
  The port layer (\<^verbatim>\<open>src/serial.c\<close>, \<^verbatim>\<open>parallel.c\<close>, \<^verbatim>\<open>cm108.c\<close>, \<^verbatim>\<open>gpio.c\<close>) is
  system calls on devices: an argument of the operations that key or read a PTT line.
  The \<^verbatim>\<open>junk\<close> fields are what uninitialised local variables of these types hold.
\<close>

record 'p ports =
  ser_open :: "('p rig, int) state"
  ser_close :: "('p rig, unit) state"
  ser_set_rts :: "bool \<Rightarrow> 'p call"
  ser_set_dtr :: "bool \<Rightarrow> 'p call"
  ser_get_rts :: "int \<Rightarrow> ('p rig, int \<times> int) state"
  ser_get_dtr :: "int \<Rightarrow> ('p rig, int \<times> int) state"
  par_ptt_set :: "ptt_t \<Rightarrow> 'p call"
  par_ptt_get :: "ptt_t \<Rightarrow> ('p rig, int \<times> ptt_t) state"
  cm108_ptt_set :: "ptt_t \<Rightarrow> 'p call"
  cm108_ptt_get :: "ptt_t \<Rightarrow> ('p rig, int \<times> ptt_t) state"
  gpio_ptt_set :: "ptt_t \<Rightarrow> 'p call"
  gpio_ptt_get :: "ptt_t \<Rightarrow> ('p rig, int \<times> ptt_t) state"
  ser_get_cts :: "int \<Rightarrow> ('p rig, int \<times> int) state"
  ser_get_dsr :: "int \<Rightarrow> ('p rig, int \<times> int) state"
  ser_get_car :: "int \<Rightarrow> ('p rig, int \<times> int) state"
  par_dcd_get :: "dcd_t \<Rightarrow> ('p rig, int \<times> dcd_t) state"
  gpio_dcd_get :: "dcd_t \<Rightarrow> ('p rig, int \<times> dcd_t) state"
  hl_usleep :: "int \<Rightarrow> ('p rig, unit) state"
  junk_freq :: freq_t
  junk_int :: int
  junk_ptt :: ptt_t

text \<open>Ports on which every transfer fails.\<close>

definition dead_ports :: "'p ports" where
  "dead_ports = \<lparr>ser_open = State_Monad.return (- RIG_EIO), ser_close = State_Monad.return (),
     ser_set_rts = (\<lambda>_. State_Monad.return (- RIG_EIO)),
     ser_set_dtr = (\<lambda>_. State_Monad.return (- RIG_EIO)),
     ser_get_rts = (\<lambda>x. State_Monad.return (- RIG_EIO, x)),
     ser_get_dtr = (\<lambda>x. State_Monad.return (- RIG_EIO, x)),
     par_ptt_set = (\<lambda>_. State_Monad.return (- RIG_EIO)),
     par_ptt_get = (\<lambda>x. State_Monad.return (- RIG_EIO, x)),
     cm108_ptt_set = (\<lambda>_. State_Monad.return (- RIG_EIO)),
     cm108_ptt_get = (\<lambda>x. State_Monad.return (- RIG_EIO, x)),
     gpio_ptt_set = (\<lambda>_. State_Monad.return (- RIG_EIO)),
     gpio_ptt_get = (\<lambda>x. State_Monad.return (- RIG_EIO, x)),
     ser_get_cts = (\<lambda>x. State_Monad.return (- RIG_EIO, x)),
     ser_get_dsr = (\<lambda>x. State_Monad.return (- RIG_EIO, x)),
     ser_get_car = (\<lambda>x. State_Monad.return (- RIG_EIO, x)),
     par_dcd_get = (\<lambda>x. State_Monad.return (- RIG_EIO, x)),
     gpio_dcd_get = (\<lambda>x. State_Monad.return (- RIG_EIO, x)),
     hl_usleep = (\<lambda>_. State_Monad.return ()), junk_freq = 0, junk_int = 0,
     junk_ptt = RIG_PTT_OFF\<rparr>"

end
