(* ===== verification/Hamlib_Cache.thy ===== *)
theory Hamlib_Cache
  imports Hamlib_State
begin

text \<open>
  The frequency and mode cache of a handle (\<^verbatim>\<open>src/cache.c\<close>), its time-out
  (\<^verbatim>\<open>src/misc.c\<close>), and \<^verbatim>\<open>vfo_fixup\<close>, which maps the VFO a caller names to
  one the rig has. The three \<^verbatim>\<open>switch\<close> statements of the cache differ; each is a
  function from VFOs to slots here, \<^verbatim>\<open>None\<close> for the \<^verbatim>\<open>default\<close> label.
\<close>

subsection \<open>Time-out\<close>

definition rig_get_cache_timeout_ms :: "('p rig, int) state" where
  "rig_get_cache_timeout_ms = gets (\<lambda>rig. timeout_ms (cache rig))"

definition rig_set_cache_timeout_ms :: "int \<Rightarrow> 'p call" where
  "rig_set_cache_timeout_ms ms =
     State (\<lambda>rig. (RIG_OK, rig\<lparr>cache := (cache rig)\<lparr>timeout_ms := ms\<rparr>\<rparr>))"

subsection \<open>vfo_fixup\<close>

definition vfo_has_all :: "'p rig \<Rightarrow> vfo_t \<Rightarrow> bool" where
  "vfo_has_all rig vs \<longleftrightarrow> vfo_list rig AND vs = vs"

definition VFO_HAS_A_B :: "'p rig \<Rightarrow> bool" where
  "VFO_HAS_A_B rig = vfo_has_all rig (RIG_VFO_A OR RIG_VFO_B)"

definition VFO_HAS_MAIN_SUB :: "'p rig \<Rightarrow> bool" where
  "VFO_HAS_MAIN_SUB rig = vfo_has_all rig (RIG_VFO_MAIN OR RIG_VFO_SUB)"

definition VFO_HAS_MAIN_SUB_ONLY :: "'p rig \<Rightarrow> bool" where
  "VFO_HAS_MAIN_SUB_ONLY rig \<longleftrightarrow> \<not> VFO_HAS_A_B rig \<and> VFO_HAS_MAIN_SUB rig"

definition VFO_HAS_MAIN_SUB_A_B_ONLY :: "'p rig \<Rightarrow> bool" where
  "VFO_HAS_MAIN_SUB_A_B_ONLY rig \<longleftrightarrow> VFO_HAS_A_B rig \<and> VFO_HAS_MAIN_SUB rig"

definition VFO_HAS_A_B_ONLY :: "'p rig \<Rightarrow> bool" where
  "VFO_HAS_A_B_ONLY rig \<longleftrightarrow> VFO_HAS_A_B rig \<and> \<not> VFO_HAS_MAIN_SUB rig"

definition VFO_HAS_DUAL :: "'p rig \<Rightarrow> bool" where
  "VFO_HAS_DUAL rig =
     vfo_has_all rig (RIG_VFO_MAIN_A OR RIG_VFO_MAIN_B OR RIG_VFO_SUB_A OR RIG_VFO_SUB_B)"

text \<open>The inner \<^verbatim>\<open>switch\<close>, for \<^verbatim>\<open>RIG_VFO_OTHER\<close>.\<close>

definition other_vfo :: "vfo_t \<Rightarrow> vfo_t option" where
  "other_vfo cv =
     (if cv = RIG_VFO_A then Some RIG_VFO_B
      else if cv = RIG_VFO_MAIN then Some RIG_VFO_SUB
      else if cv = RIG_VFO_B then Some RIG_VFO_A
      else if cv = RIG_VFO_SUB then Some RIG_VFO_MAIN
      else if cv = RIG_VFO_SUB_A then Some RIG_VFO_SUB_B
      else if cv = RIG_VFO_SUB_B then Some RIG_VFO_SUB_A
      else None)"

text \<open>The branch for \<^verbatim>\<open>RIG_VFO_TX\<close>.\<close>

definition tx_fixup :: "'p rig \<Rightarrow> vfo_t \<Rightarrow> split_t \<Rightarrow> vfo_t" where
  "tx_fixup rig vfo split =
     (let on = (split = RIG_SPLIT_ON); sat = satmode (cache rig)
      in if VFO_HAS_MAIN_SUB_ONLY rig \<and> \<not> on \<and> \<not> sat \<and> vfo \<noteq> RIG_VFO_B then RIG_VFO_MAIN
         else if VFO_HAS_MAIN_SUB_ONLY rig \<and> (on \<or> sat \<or> vfo = RIG_VFO_B) then RIG_VFO_SUB
         else if VFO_HAS_MAIN_SUB_A_B_ONLY rig \<and> on then RIG_VFO_B
         else if VFO_HAS_MAIN_SUB_A_B_ONLY rig \<and> sat then RIG_VFO_SUB
         else if VFO_HAS_A_B_ONLY rig then (if on then RIG_VFO_B else RIG_VFO_A)
         else vfo)"

definition vfo_fixup :: "'p rig \<Rightarrow> vfo_t \<Rightarrow> split_t \<Rightarrow> vfo_t" where
  "vfo_fixup rig vfo0 split =
     (let vfo = (if vfo0 = RIG_VFO_NONE then RIG_VFO_A else vfo0)
      in if vfo = RIG_VFO_CURR \<or> vfo = RIG_VFO_VFO then vfo
         else case (if vfo = RIG_VFO_OTHER then other_vfo (current_vfo rig) else None) of
             Some v \<Rightarrow> v
           | None \<Rightarrow>
             if vfo = RIG_VFO_RX then rx_vfo rig
             else if vfo = RIG_VFO_A \<or> vfo = RIG_VFO_MAIN
             then (if VFO_HAS_MAIN_SUB_A_B_ONLY rig then RIG_VFO_MAIN
                   else if VFO_HAS_MAIN_SUB_ONLY rig then RIG_VFO_MAIN
                   else RIG_VFO_A)
             else if vfo = RIG_VFO_TX then tx_fixup rig vfo split
             else if vfo = RIG_VFO_B \<or> vfo = RIG_VFO_SUB
             then (if VFO_HAS_MAIN_SUB_A_B_ONLY rig then RIG_VFO_SUB
                   else if VFO_HAS_MAIN_SUB_ONLY rig then RIG_VFO_SUB
                   else RIG_VFO_B)
             else vfo)"

subsection \<open>Which slot a VFO is cached in\<close>

text \<open>The lines before each \<^verbatim>\<open>switch\<close> that both writers have.\<close>

definition cache_vfo :: "'p rig \<Rightarrow> vfo_t \<Rightarrow> vfo_t" where
  "cache_vfo rig vfo =
     (let v1 = (if vfo = RIG_VFO_CURR then current_vfo rig else vfo);
          v2 = (if v1 = RIG_VFO_NONE \<or> v1 = RIG_VFO_CURR then RIG_VFO_A else v1)
      in if v2 = RIG_VFO_SUB \<and> satmode (cache rig) then RIG_VFO_SUB_A else v2)"

definition mode_slot :: "vfo_t \<Rightarrow> slot option" where
  "mode_slot vfo =
     (if vfo \<in> {RIG_VFO_A, RIG_VFO_VFO, RIG_VFO_MAIN, RIG_VFO_MAIN_A} then Some MainA
      else if vfo \<in> {RIG_VFO_B, RIG_VFO_SUB, RIG_VFO_MAIN_B} then Some MainB
      else if vfo \<in> {RIG_VFO_C, RIG_VFO_MAIN_C} then Some MainC
      else None)"

definition freq_slot :: "vfo_t \<Rightarrow> slot option" where
  "freq_slot vfo =
     (if vfo \<in> {RIG_VFO_A, RIG_VFO_VFO, RIG_VFO_MAIN, RIG_VFO_MAIN_A} then Some MainA
      else if vfo \<in> {RIG_VFO_B, RIG_VFO_MAIN_B, RIG_VFO_SUB} then Some MainB
      else if vfo \<in> {RIG_VFO_C, RIG_VFO_MAIN_C} then Some MainC
      else if vfo = RIG_VFO_SUB_A then Some SubA
      else if vfo = RIG_VFO_SUB_B then Some SubB
      else if vfo = RIG_VFO_SUB_C then Some SubC
      else if vfo = RIG_VFO_MEM then Some Mem
      else None)"

definition read_slot :: "vfo_t \<Rightarrow> slot option" where
  "read_slot vfo =
     (if vfo = RIG_VFO_CURR then Some Curr
      else if vfo = RIG_VFO_OTHER then Some Other
      else if vfo \<in> {RIG_VFO_A, RIG_VFO_VFO, RIG_VFO_MAIN, RIG_VFO_MAIN_A} then Some MainA
      else if vfo \<in> {RIG_VFO_B, RIG_VFO_SUB, RIG_VFO_MAIN_B} then Some MainB
      else if vfo = RIG_VFO_SUB_A then Some SubA
      else if vfo = RIG_VFO_SUB_B then Some SubB
      else if vfo = RIG_VFO_C then Some MainC
      else if vfo = RIG_VFO_SUB_C then Some SubC
      else if vfo = RIG_VFO_MEM then Some Mem
      else None)"

subsection \<open>Time stamps of the handle\<close>

definition stamp_freq :: "elapsed_option \<Rightarrow> timespec \<Rightarrow> slot \<Rightarrow> rig_cache \<Rightarrow> rig_cache" where
  "stamp_freq opt t s c =
     c\<lparr>time_freq := (time_freq c)(s := snd (elapsed_ms t (time_freq c s) opt))\<rparr>"

definition stamp_mode :: "elapsed_option \<Rightarrow> timespec \<Rightarrow> slot \<Rightarrow> rig_cache \<Rightarrow> rig_cache" where
  "stamp_mode opt t s c =
     c\<lparr>time_mode := (time_mode c)(s := snd (elapsed_ms t (time_mode c s) opt))\<rparr>"

definition stamp_width :: "elapsed_option \<Rightarrow> timespec \<Rightarrow> slot \<Rightarrow> rig_cache \<Rightarrow> rig_cache" where
  "stamp_width opt t s c =
     c\<lparr>time_width := (time_width c)(s := snd (elapsed_ms t (time_width c s) opt))\<rparr>"

definition stamp_vfo :: "elapsed_option \<Rightarrow> timespec \<Rightarrow> rig_cache \<Rightarrow> rig_cache" where
  "stamp_vfo opt t c = c\<lparr>time_vfo := snd (elapsed_ms t (time_vfo c) opt)\<rparr>"

definition stamp_ptt :: "elapsed_option \<Rightarrow> timespec \<Rightarrow> rig_cache \<Rightarrow> rig_cache" where
  "stamp_ptt opt t c = c\<lparr>time_ptt := snd (elapsed_ms t (time_ptt c) opt)\<rparr>"

definition stamp_split :: "elapsed_option \<Rightarrow> timespec \<Rightarrow> rig_cache \<Rightarrow> rig_cache" where
  "stamp_split opt t c = c\<lparr>time_split := snd (elapsed_ms t (time_split c) opt)\<rparr>"

lemmas stamp_defs =
  stamp_freq_def stamp_mode_def stamp_width_def stamp_vfo_def stamp_ptt_def stamp_split_def

definition on_cache :: "(timespec \<Rightarrow> rig_cache \<Rightarrow> rig_cache) \<Rightarrow> 'p rig \<Rightarrow> 'p rig" where
  "on_cache f rig = rig\<lparr>cache := f (now rig) (cache rig)\<rparr>"

subsection \<open>rig_set_cache_mode\<close>

definition invalidate_modes :: "timespec \<Rightarrow> rig_cache \<Rightarrow> rig_cache" where
  "invalidate_modes t =
     stamp_mode HAMLIB_ELAPSED_INVALIDATE t MainA \<circ> stamp_mode HAMLIB_ELAPSED_INVALIDATE t MainB
     \<circ> stamp_mode HAMLIB_ELAPSED_INVALIDATE t MainC
     \<circ> stamp_width HAMLIB_ELAPSED_INVALIDATE t MainA \<circ> stamp_width HAMLIB_ELAPSED_INVALIDATE t MainB
     \<circ> stamp_width HAMLIB_ELAPSED_INVALIDATE t MainC"

definition store_mode :: "slot \<Rightarrow> rmode_t \<Rightarrow> pbwidth_t \<Rightarrow> timespec \<Rightarrow> rig_cache \<Rightarrow> rig_cache" where
  "store_mode s mode width t c =
     (let c1 = c\<lparr>c_mode := (c_mode c)(s := mode)\<rparr>;
          c2 = (if width > 0 then c1\<lparr>c_width := (c_width c1)(s := width)\<rparr> else c1)
      in stamp_width HAMLIB_ELAPSED_SET t s (stamp_mode HAMLIB_ELAPSED_SET t s c2))"

definition rig_set_cache_mode :: "vfo_t \<Rightarrow> rmode_t \<Rightarrow> pbwidth_t \<Rightarrow> 'p call" where
  "rig_set_cache_mode vfo0 mode width = State (\<lambda>rig.
     let vfo = cache_vfo rig vfo0
     in if vfo = RIG_VFO_ALL then (RIG_OK, on_cache invalidate_modes rig)
        else case mode_slot vfo of
            Some s \<Rightarrow> (RIG_OK, on_cache (store_mode s mode width) rig)
          | None \<Rightarrow> (- RIG_EINTERNAL, rig))"

subsection \<open>rig_set_cache_freq\<close>

definition invalidate_all :: "timespec \<Rightarrow> rig_cache \<Rightarrow> rig_cache" where
  "invalidate_all t =
     stamp_freq HAMLIB_ELAPSED_INVALIDATE t MainA \<circ> stamp_freq HAMLIB_ELAPSED_INVALIDATE t MainB
     \<circ> stamp_freq HAMLIB_ELAPSED_INVALIDATE t MainC \<circ> stamp_freq HAMLIB_ELAPSED_INVALIDATE t SubA
     \<circ> stamp_freq HAMLIB_ELAPSED_INVALIDATE t SubB \<circ> stamp_freq HAMLIB_ELAPSED_INVALIDATE t SubC
     \<circ> stamp_freq HAMLIB_ELAPSED_INVALIDATE t Mem \<circ> stamp_vfo HAMLIB_ELAPSED_INVALIDATE t
     \<circ> invalidate_modes t \<circ> stamp_ptt HAMLIB_ELAPSED_INVALIDATE t
     \<circ> stamp_split HAMLIB_ELAPSED_INVALIDATE t"

definition store_freq :: "slot \<Rightarrow> freq_t \<Rightarrow> elapsed_option \<Rightarrow> timespec \<Rightarrow> rig_cache \<Rightarrow> rig_cache" where
  "store_freq s freq flag t c = stamp_freq flag t s (c\<lparr>c_freq := (c_freq c)(s := freq)\<rparr>)"

definition rig_set_cache_freq :: "vfo_t \<Rightarrow> freq_t \<Rightarrow> 'p call" where
  "rig_set_cache_freq vfo0 freq = State (\<lambda>rig.
     let flag = (if freq = 0 then HAMLIB_ELAPSED_INVALIDATE else HAMLIB_ELAPSED_SET);
         vfo = cache_vfo rig vfo0
     in if vfo = RIG_VFO_ALL then (RIG_OK, on_cache invalidate_all rig)
        else case freq_slot vfo of
            Some s \<Rightarrow> (RIG_OK, on_cache (store_freq s freq flag) rig)
          | None \<Rightarrow> (- RIG_EINVAL, rig))"

subsection \<open>rig_get_cache\<close>

text \<open>The variables its output parameters point to.\<close>

record cache_out =
  o_freq :: freq_t
  o_ms_freq :: int
  o_mode :: rmode_t
  o_ms_mode :: int
  o_width :: pbwidth_t
  o_ms_width :: int

definition get_cache_other :: "vfo_t \<Rightarrow> vfo_t" where
  "get_cache_other cv =
     (if cv = RIG_VFO_OTHER then RIG_VFO_OTHER
      else if cv = RIG_VFO_A then RIG_VFO_B
      else if cv = RIG_VFO_MAIN_A then RIG_VFO_MAIN_B
      else if cv = RIG_VFO_MAIN then RIG_VFO_SUB
      else if cv = RIG_VFO_B then RIG_VFO_A
      else if cv = RIG_VFO_MAIN_B then RIG_VFO_MAIN_A
      else if cv = RIG_VFO_SUB_A then RIG_VFO_SUB_B
      else if cv = RIG_VFO_SUB_B then RIG_VFO_SUB_A
      else RIG_VFO_OTHER)"

definition get_cache_vfo :: "'p rig \<Rightarrow> vfo_t \<Rightarrow> vfo_t" where
  "get_cache_vfo rig vfo =
     (let v1 = (if vfo = RIG_VFO_CURR then current_vfo rig
                else if vfo = RIG_VFO_OTHER then get_cache_other (current_vfo rig)
                else vfo);
          v2 = (if v1 = RIG_VFO_CURR \<or> v1 = RIG_VFO_NONE then RIG_VFO_A else v1)
      in if v2 = RIG_VFO_SUB \<and> satmode (cache rig) then RIG_VFO_SUB_A else v2)"

definition read_stamps :: "slot \<Rightarrow> timespec \<Rightarrow> rig_cache \<Rightarrow> rig_cache" where
  "read_stamps s t c =
     stamp_width HAMLIB_ELAPSED_GET t s
       (stamp_mode HAMLIB_ELAPSED_GET t s (stamp_freq HAMLIB_ELAPSED_GET t s c))"

definition rig_get_cache :: "vfo_t \<Rightarrow> cache_out \<Rightarrow> ('p rig, int \<times> cache_out) state" where
  "rig_get_cache vfo0 out = State (\<lambda>rig.
     if \<not> comm_state rig then ((- RIG_EINVAL, out), rig)
     else case read_slot (get_cache_vfo rig vfo0) of
         None \<Rightarrow> ((- RIG_EINVAL, out), rig)
       | Some s \<Rightarrow>
         let c = cache rig; t = now rig
         in ((RIG_OK,
              \<lparr>o_freq = c_freq c s,
               o_ms_freq = fst (elapsed_ms t (time_freq c s) HAMLIB_ELAPSED_GET),
               o_mode = c_mode c s,
               o_ms_mode = fst (elapsed_ms t (time_mode c s) HAMLIB_ELAPSED_GET),
               o_width = c_width c s,
               o_ms_width = fst (elapsed_ms t (time_width c s) HAMLIB_ELAPSED_GET)\<rparr>),
             on_cache (read_stamps s) rig))"

subsection \<open>VFO mapping: what it promises\<close>

lemma vfo_has_all_OR: "vfo_has_all rig (v OR w) \<longleftrightarrow> vfo_has_all rig v \<and> vfo_has_all rig w"
  by (auto simp: vfo_has_all_def bit_eq_iff bit_simps)

lemmas vfo_has_defs = VFO_HAS_A_B_def VFO_HAS_MAIN_SUB_def VFO_HAS_MAIN_SUB_ONLY_def
  VFO_HAS_MAIN_SUB_A_B_ONLY_def VFO_HAS_A_B_ONLY_def

lemma vfo_fixup_names:
  "vfo_fixup rig RIG_VFO_CURR split = RIG_VFO_CURR"
  "vfo_fixup rig RIG_VFO_VFO split = RIG_VFO_VFO"
  "vfo_fixup rig RIG_VFO_NONE split = vfo_fixup rig RIG_VFO_A split"
  "vfo_fixup rig RIG_VFO_A split = (if VFO_HAS_MAIN_SUB rig then RIG_VFO_MAIN else RIG_VFO_A)"
  "vfo_fixup rig RIG_VFO_MAIN split = (if VFO_HAS_MAIN_SUB rig then RIG_VFO_MAIN else RIG_VFO_A)"
  "vfo_fixup rig RIG_VFO_B split = (if VFO_HAS_MAIN_SUB rig then RIG_VFO_SUB else RIG_VFO_B)"
  "vfo_fixup rig RIG_VFO_SUB split = (if VFO_HAS_MAIN_SUB rig then RIG_VFO_SUB else RIG_VFO_B)"
  "vfo_fixup rig RIG_VFO_TX split = tx_fixup rig RIG_VFO_TX split"
  by (simp_all add: vfo_fixup_def VFO_HAS_MAIN_SUB_A_B_ONLY_def VFO_HAS_MAIN_SUB_ONLY_def vfo_defs)

lemma tx_fixup_TX:
  "tx_fixup rig RIG_VFO_TX split =
     (if VFO_HAS_MAIN_SUB rig \<and> \<not> VFO_HAS_A_B rig
      then (if split = RIG_SPLIT_ON \<or> satmode (cache rig) then RIG_VFO_SUB else RIG_VFO_MAIN)
      else if VFO_HAS_MAIN_SUB rig
      then (if split = RIG_SPLIT_ON then RIG_VFO_B
            else if satmode (cache rig) then RIG_VFO_SUB else RIG_VFO_TX)
      else if VFO_HAS_A_B rig
      then (if split = RIG_SPLIT_ON then RIG_VFO_B else RIG_VFO_A)
      else RIG_VFO_TX)"
proof -
  have "RIG_VFO_TX \<noteq> RIG_VFO_B" by (simp add: vfo_defs)
  then show ?thesis
    by (auto simp: tx_fixup_def Let_def VFO_HAS_MAIN_SUB_A_B_ONLY_def VFO_HAS_MAIN_SUB_ONLY_def
        VFO_HAS_A_B_ONLY_def)
qed

lemma vfo_fixup_other_name:
  assumes "vfo \<notin> {RIG_VFO_NONE, RIG_VFO_CURR, RIG_VFO_VFO, RIG_VFO_OTHER, RIG_VFO_A, RIG_VFO_MAIN,
    RIG_VFO_TX, RIG_VFO_B, RIG_VFO_SUB}"
  shows "vfo_fixup rig vfo split = vfo"
  using assms by (simp add: vfo_fixup_def Let_def RIG_VFO_RX_def)

text \<open>C34: a caller that names a VFO by either convention gets one the rig has. On a rig whose
  VFO list holds A and B, or Main and Sub, or all four, the VFOs \<^verbatim>\<open>A\<close>, \<^verbatim>\<open>Main\<close>,
  \<^verbatim>\<open>B\<close>, \<^verbatim>\<open>Sub\<close> and ``none'' are mapped into the rig's list, and so is the transmit
  VFO, unless the rig has all four, is not split and is not in satellite mode.\<close>

lemma vfo_fixup_sound:
  assumes "VFO_HAS_A_B rig \<or> VFO_HAS_MAIN_SUB rig"
    and "vfo \<in> {RIG_VFO_NONE, RIG_VFO_A, RIG_VFO_MAIN, RIG_VFO_B, RIG_VFO_SUB, RIG_VFO_TX}"
    and "vfo = RIG_VFO_TX \<longrightarrow> \<not> (VFO_HAS_A_B rig \<and> VFO_HAS_MAIN_SUB rig)
      \<or> split = RIG_SPLIT_ON \<or> satmode (cache rig)"
  shows "vfo_has_all rig (vfo_fixup rig vfo split)"
proof -
  have ab: "vfo_has_all rig RIG_VFO_A \<and> vfo_has_all rig RIG_VFO_B" if "VFO_HAS_A_B rig"
    using that by (simp add: VFO_HAS_A_B_def vfo_has_all_OR)
  have ms: "vfo_has_all rig RIG_VFO_MAIN \<and> vfo_has_all rig RIG_VFO_SUB" if "VFO_HAS_MAIN_SUB rig"
    using that by (simp add: VFO_HAS_MAIN_SUB_def vfo_has_all_OR)
  show ?thesis
    using assms(2)
  proof (elim insertE emptyE)
    assume vfo: "vfo = RIG_VFO_TX"
    show ?thesis using assms(1,3) ab ms unfolding vfo vfo_fixup_names tx_fixup_TX by auto
  qed (use assms(1) ab ms in \<open>auto simp: vfo_fixup_names\<close>)
qed

definition two_vfo_rig :: "vfo_t \<Rightarrow> int rig" where
  "two_vfo_rig vs = (zero_rig \<lparr>tv_sec = 100, tv_nsec = 5\<rparr> 0)\<lparr>comm_state := True, vfo_list := vs\<rparr>"

lemma two_vfo_rig_has:
  "VFO_HAS_A_B (two_vfo_rig vs) \<longleftrightarrow> vs AND (RIG_VFO_A OR RIG_VFO_B) = RIG_VFO_A OR RIG_VFO_B"
  "VFO_HAS_MAIN_SUB (two_vfo_rig vs)
     \<longleftrightarrow> vs AND (RIG_VFO_MAIN OR RIG_VFO_SUB) = RIG_VFO_MAIN OR RIG_VFO_SUB"
  by (simp_all add: VFO_HAS_A_B_def VFO_HAS_MAIN_SUB_def vfo_has_all_def two_vfo_rig_def)

lemma vfo_fixup_sound_witness:
  "vfo_has_all (two_vfo_rig (RIG_VFO_MAIN OR RIG_VFO_SUB))
     (vfo_fixup (two_vfo_rig (RIG_VFO_MAIN OR RIG_VFO_SUB)) RIG_VFO_B RIG_SPLIT_OFF)"
proof -
  have "VFO_HAS_MAIN_SUB (two_vfo_rig (RIG_VFO_MAIN OR RIG_VFO_SUB))"
    by (simp add: two_vfo_rig_has)
  moreover have "RIG_VFO_B \<noteq> RIG_VFO_TX" by (simp add: vfo_defs)
  ultimately show ?thesis by (intro vfo_fixup_sound) simp_all
qed

text \<open>applying \<^verbatim>\<open>vfo_fixup\<close> again, as \<^verbatim>\<open>rig_set_vfo\<close> does, changes nothing, for every
  VFO but \<^verbatim>\<open>RIG_VFO_OTHER\<close>, with one exception: on a split rig with all four of
  A, B, Main and Sub the transmit VFO is B the first time and Sub the second, so setting
  the frequency of the transmit VFO and selecting the transmit VFO address different
  VFOs.\<close>

lemma vfo_fixup_twice:
  assumes "vfo \<noteq> RIG_VFO_OTHER"
  shows "vfo_fixup rig (vfo_fixup rig vfo split) split =
     (if vfo = RIG_VFO_TX \<and> VFO_HAS_A_B rig \<and> VFO_HAS_MAIN_SUB rig \<and> split = RIG_SPLIT_ON
      then RIG_VFO_SUB else vfo_fixup rig vfo split)"
proof -
  have distinct: "RIG_VFO_A \<noteq> RIG_VFO_TX" "RIG_VFO_B \<noteq> RIG_VFO_TX" "RIG_VFO_MAIN \<noteq> RIG_VFO_TX"
    "RIG_VFO_SUB \<noteq> RIG_VFO_TX" "RIG_VFO_NONE \<noteq> RIG_VFO_TX" "RIG_VFO_CURR \<noteq> RIG_VFO_TX"
    "RIG_VFO_VFO \<noteq> RIG_VFO_TX"
    by (simp_all add: vfo_defs)
  show ?thesis
  proof (cases "vfo \<in> {RIG_VFO_NONE, RIG_VFO_CURR, RIG_VFO_VFO, RIG_VFO_A, RIG_VFO_MAIN,
      RIG_VFO_B, RIG_VFO_SUB}")
    case True
    then show ?thesis by (elim insertE emptyE) (simp_all add: vfo_fixup_names distinct)
  next
    case False
    show ?thesis
    proof (cases "vfo = RIG_VFO_TX")
      case True
      show ?thesis unfolding True vfo_fixup_names tx_fixup_TX
        by (simp add: vfo_fixup_names tx_fixup_TX)
    next
      case other: False
      then have "vfo_fixup rig vfo split = vfo" using False assms by (intro vfo_fixup_other_name) simp
      then show ?thesis using other by simp
    qed
  qed
qed

lemma vfo_fixup_twice_witness:
  "vfo_fixup (two_vfo_rig 0x6000003) RIG_VFO_TX RIG_SPLIT_ON = RIG_VFO_B
   \<and> vfo_fixup (two_vfo_rig 0x6000003) RIG_VFO_B RIG_SPLIT_ON = RIG_VFO_SUB"
proof -
  have has: "VFO_HAS_A_B (two_vfo_rig 0x6000003)" "VFO_HAS_MAIN_SUB (two_vfo_rig 0x6000003)"
    by (simp_all add: two_vfo_rig_has vfo_defs)
  have once: "vfo_fixup (two_vfo_rig 0x6000003) RIG_VFO_TX RIG_SPLIT_ON = RIG_VFO_B"
    by (simp add: vfo_fixup_names tx_fixup_TX has)
  have "RIG_VFO_TX \<noteq> RIG_VFO_OTHER" by (simp add: vfo_defs)
  from vfo_fixup_twice [OF this, of "two_vfo_rig 0x6000003" RIG_SPLIT_ON] show ?thesis
    by (simp add: once has)
qed

subsection \<open>The cache: what it promises\<close>

lemma run_set_cache_freq:
  "run_state (rig_set_cache_freq vfo freq) rig =
     (if cache_vfo rig vfo = RIG_VFO_ALL then (RIG_OK, on_cache invalidate_all rig)
      else case freq_slot (cache_vfo rig vfo) of
          Some s \<Rightarrow> (RIG_OK, on_cache (store_freq s freq
            (if freq = 0 then HAMLIB_ELAPSED_INVALIDATE else HAMLIB_ELAPSED_SET)) rig)
        | None \<Rightarrow> (- RIG_EINVAL, rig))"
  by (simp add: rig_set_cache_freq_def Let_def)

lemma run_set_cache_mode:
  "run_state (rig_set_cache_mode vfo mode width) rig =
     (if cache_vfo rig vfo = RIG_VFO_ALL then (RIG_OK, on_cache invalidate_modes rig)
      else case mode_slot (cache_vfo rig vfo) of
          Some s \<Rightarrow> (RIG_OK, on_cache (store_mode s mode width) rig)
        | None \<Rightarrow> (- RIG_EINTERNAL, rig))"
  by (simp add: rig_set_cache_mode_def Let_def)

text \<open>The part of a read that depends on a slot.\<close>

definition slot_view :: "'p rig \<Rightarrow> slot \<Rightarrow> cache_out" where
  "slot_view rig s =
     \<lparr>o_freq = c_freq (cache rig) s,
      o_ms_freq = fst (elapsed_ms (now rig) (time_freq (cache rig) s) HAMLIB_ELAPSED_GET),
      o_mode = c_mode (cache rig) s,
      o_ms_mode = fst (elapsed_ms (now rig) (time_mode (cache rig) s) HAMLIB_ELAPSED_GET),
      o_width = c_width (cache rig) s,
      o_ms_width = fst (elapsed_ms (now rig) (time_width (cache rig) s) HAMLIB_ELAPSED_GET)\<rparr>"

lemma run_get_cache:
  "run_state (rig_get_cache vfo out) rig =
     (if \<not> comm_state rig then ((- RIG_EINVAL, out), rig)
      else case read_slot (get_cache_vfo rig vfo) of
         None \<Rightarrow> ((- RIG_EINVAL, out), rig)
       | Some s \<Rightarrow> ((RIG_OK, slot_view rig s), on_cache (read_stamps s) rig))"
  by (simp add: rig_get_cache_def slot_view_def Let_def split: option.split)

lemma on_cache_fields [simp]:
  "current_vfo (on_cache f rig) = current_vfo rig" "comm_state (on_cache f rig) = comm_state rig"
  "now (on_cache f rig) = now rig" "cache (on_cache f rig) = f (now rig) (cache rig)"
  "vfo_list (on_cache f rig) = vfo_list rig" "rx_vfo (on_cache f rig) = rx_vfo rig"
  "priv (on_cache f rig) = priv rig"
  by (simp_all add: on_cache_def)

lemma store_fields [simp]:
  "satmode (store_freq s f flag t c) = satmode c" "satmode (store_mode s m w t c) = satmode c"
  "satmode (invalidate_all t c) = satmode c" "satmode (invalidate_modes t c) = satmode c"
  "satmode (read_stamps s t c) = satmode c"
  by (simp_all add: store_freq_def store_mode_def invalidate_all_def invalidate_modes_def
      read_stamps_def stamp_defs Let_def)

lemma vfo_flags_distinct:
  "RIG_VFO_ALL \<noteq> RIG_VFO_SUB" "RIG_VFO_CURR \<noteq> RIG_VFO_SUB" "RIG_VFO_NONE \<noteq> RIG_VFO_SUB"
  "RIG_VFO_A \<noteq> RIG_VFO_SUB" "RIG_VFO_SUB_A \<noteq> RIG_VFO_CURR" "RIG_VFO_SUB_A \<noteq> RIG_VFO_NONE"
  "RIG_VFO_CURR \<noteq> RIG_VFO_OTHER"
  by (simp_all add: vfo_defs)

text \<open>Where a writer stores, the reader looks, except for \<^verbatim>\<open>RIG_VFO_MAIN_C\<close> and
  \<^verbatim>\<open>RIG_VFO_OTHER\<close>.\<close>

lemma slots_no_all:
  "freq_slot RIG_VFO_ALL = None" "mode_slot RIG_VFO_ALL = None"
  "freq_slot RIG_VFO_OTHER = None" "mode_slot RIG_VFO_OTHER = None"
  by (simp_all add: freq_slot_def mode_slot_def vfo_defs)

lemma read_slot_freq_slot:
  assumes "freq_slot v = Some s" and "v \<noteq> RIG_VFO_MAIN_C"
  shows "read_slot v = Some s"
  using assms by (auto simp: freq_slot_def read_slot_def vfo_defs split: if_splits)

lemma freq_slot_mode_slot: "mode_slot v = Some s \<Longrightarrow> freq_slot v = Some s"
  by (auto simp: freq_slot_def mode_slot_def vfo_defs split: if_splits)

lemma get_cache_vfo_eq:
  "vfo \<noteq> RIG_VFO_OTHER \<Longrightarrow> get_cache_vfo rig vfo = cache_vfo rig vfo"
  by (simp only: get_cache_vfo_def cache_vfo_def if_False Let_def disj_commute)

lemma get_cache_vfo_on_cache [simp]:
  "(\<And>t c. satmode (f t c) = satmode c) \<Longrightarrow> get_cache_vfo (on_cache f rig) vfo = get_cache_vfo rig vfo"
  by (simp add: get_cache_vfo_def)

lemma age_just_set: "tv_nsec t \<noteq> 0 \<Longrightarrow> fst (elapsed_ms t t HAMLIB_ELAPSED_GET) = 0"
  by (simp add: elapsed_nsec_def Let_def)

lemma slot_view_store_freq:
  "slot_view (on_cache (store_freq s freq flag) rig) s' =
     (if s' = s then (slot_view rig s)\<lparr>o_freq := freq, o_ms_freq :=
        fst (elapsed_ms (now rig) (snd (elapsed_ms (now rig) (time_freq (cache rig) s) flag)) HAMLIB_ELAPSED_GET)\<rparr>
      else slot_view rig s')"
  by (simp add: slot_view_def store_freq_def stamp_freq_def)

text \<open>C35: a frequency written to the cache is read back. Storing a non-zero frequency for a VFO
  and asking for that VFO at once returns that frequency with age 0, whatever was cached
  before, and the cached mode, width and their ages as they were; every VFO kept in another
  slot reads exactly as before the store. (Excluded: \<^verbatim>\<open>RIG_VFO_MAIN_C\<close>, which the reader
  does not know, and a clock with no nanoseconds, which means ``never set''.)\<close>

lemma cache_freq_roundtrip:
  assumes "comm_state rig" and "freq \<noteq> 0" and "tv_nsec (now rig) \<noteq> 0"
    and "freq_slot (cache_vfo rig vfo) = Some s" and "cache_vfo rig vfo \<noteq> RIG_VFO_MAIN_C"
    and "vfo \<noteq> RIG_VFO_OTHER"
    and "run_state (rig_set_cache_freq vfo freq) rig = (rc, rig')"
  shows "rc = RIG_OK
    \<and> fst (run_state (rig_get_cache vfo out) rig')
        = (RIG_OK, (slot_view rig s)\<lparr>o_freq := freq, o_ms_freq := 0\<rparr>)
    \<and> (\<forall>w. read_slot (get_cache_vfo rig w) \<noteq> Some s \<longrightarrow>
          fst (run_state (rig_get_cache w out) rig') = fst (run_state (rig_get_cache w out) rig))"
proof -
  have "cache_vfo rig vfo \<noteq> RIG_VFO_ALL" using assms(4) slots_no_all by force
  then have run: "rc = RIG_OK" "rig' = on_cache (store_freq s freq HAMLIB_ELAPSED_SET) rig"
    using assms(2,4,7) by (simp_all add: run_set_cache_freq)
  have read: "read_slot (get_cache_vfo rig vfo) = Some s"
    using assms(4-6) by (simp add: get_cache_vfo_eq read_slot_freq_slot)
  have same: "read_slot (get_cache_vfo rig' w) = read_slot (get_cache_vfo rig w)" for w
    by (simp add: run(2))
  have "slot_view rig' s = (slot_view rig s)\<lparr>o_freq := freq, o_ms_freq := 0\<rparr>"
    unfolding run(2) slot_view_store_freq using age_just_set [OF assms(3)] by simp
  moreover have "slot_view rig' s' = slot_view rig s'" if "s' \<noteq> s" for s'
    unfolding run(2) slot_view_store_freq using that by simp
  ultimately show ?thesis
    using assms(1) run(1) read by (auto simp: run_get_cache same run(2) split: option.splits)
qed

lemma cache_freq_roundtrip_witness:
  "let rig = two_vfo_rig 3
   in fst (run_state (rig_get_cache RIG_VFO_B
        (slot_view rig MainB)) (snd (run_state (rig_set_cache_freq RIG_VFO_B 14074000) rig)))
      = (RIG_OK, (slot_view rig MainB)\<lparr>o_freq := 14074000, o_ms_freq := 0\<rparr>)"
proof -
  have "freq_slot (cache_vfo (two_vfo_rig 3) RIG_VFO_B) = Some MainB"
    "cache_vfo (two_vfo_rig 3) RIG_VFO_B \<noteq> RIG_VFO_MAIN_C" "RIG_VFO_B \<noteq> RIG_VFO_OTHER"
    by (simp_all add: cache_vfo_def freq_slot_def vfo_defs)
  from cache_freq_roundtrip [OF _ _ _ this prod.collapse [symmetric],
      of 14074000 "slot_view (two_vfo_rig 3) MainB"]
  show ?thesis by (simp add: two_vfo_rig_def zero_rig_def)
qed

lemma slot_view_store_mode:
  "slot_view (on_cache (store_mode s mode width) rig) s' =
     (if s' = s then (slot_view rig s)\<lparr>o_mode := mode,
        o_ms_mode := fst (elapsed_ms (now rig) (now rig) HAMLIB_ELAPSED_GET),
        o_width := (if width > 0 then width else c_width (cache rig) s),
        o_ms_width := fst (elapsed_ms (now rig) (now rig) HAMLIB_ELAPSED_GET)\<rparr>
      else slot_view rig s')"
  by (auto simp: slot_view_def store_mode_def stamp_mode_def stamp_width_def Let_def)

text \<open>the same for modes. A mode stored with a width reads back with that width and age 0
  for both; a width that is not positive (``normal'', ``no change'') leaves the cached width
  but makes it look fresh. Frequencies and the other slots are not touched. Modes are
  cached for the A, B and C families of VFOs only: for any other VFO nothing is stored and
  \<^verbatim>\<open>-RIG_EINTERNAL\<close> is returned.\<close>

lemma cache_mode_roundtrip:
  assumes "comm_state rig" and "tv_nsec (now rig) \<noteq> 0"
    and "cache_vfo rig vfo \<noteq> RIG_VFO_ALL" and "cache_vfo rig vfo \<noteq> RIG_VFO_MAIN_C"
    and "vfo \<noteq> RIG_VFO_OTHER"
    and "run_state (rig_set_cache_mode vfo mode width) rig = (rc, rig')"
  shows "(case mode_slot (cache_vfo rig vfo) of
      None \<Rightarrow> rc = - RIG_EINTERNAL \<and> rig' = rig
    | Some s \<Rightarrow> rc = RIG_OK
        \<and> fst (run_state (rig_get_cache vfo out) rig') = (RIG_OK, (slot_view rig s)\<lparr>
            o_mode := mode, o_ms_mode := 0,
            o_width := (if width > 0 then width else c_width (cache rig) s), o_ms_width := 0\<rparr>)
        \<and> (\<forall>w. read_slot (get_cache_vfo rig w) \<noteq> Some s \<longrightarrow>
              fst (run_state (rig_get_cache w out) rig') = fst (run_state (rig_get_cache w out) rig)))"
proof (cases "mode_slot (cache_vfo rig vfo)")
  case None
  then show ?thesis using assms(3,6) by (simp add: run_set_cache_mode)
next
  case (Some s)
  then have run: "rc = RIG_OK" "rig' = on_cache (store_mode s mode width) rig"
    using assms(3,6) by (simp_all add: run_set_cache_mode)
  have read: "read_slot (get_cache_vfo rig vfo) = Some s"
    using assms(4,5) Some by (simp add: get_cache_vfo_eq read_slot_freq_slot freq_slot_mode_slot)
  have same: "read_slot (get_cache_vfo rig' w) = read_slot (get_cache_vfo rig w)" for w
    by (simp add: run(2))
  have "slot_view rig' s = (slot_view rig s)\<lparr>o_mode := mode, o_ms_mode := 0,
      o_width := (if width > 0 then width else c_width (cache rig) s), o_ms_width := 0\<rparr>"
    unfolding run(2) slot_view_store_mode using age_just_set [OF assms(2)] by simp
  moreover have "slot_view rig' s' = slot_view rig s'" if "s' \<noteq> s" for s'
    unfolding run(2) slot_view_store_mode using that by simp
  ultimately show ?thesis
    using assms(1) run(1) read Some
    by (auto simp: run_get_cache same run(2) split: option.splits)
qed

lemma cache_mode_roundtrip_witness:
  "fst (run_state (rig_set_cache_mode RIG_VFO_MEM RIG_MODE_USB 2400) (two_vfo_rig 3))
      = - RIG_EINTERNAL"
proof -
  have v: "cache_vfo (two_vfo_rig 3) RIG_VFO_MEM = RIG_VFO_MEM" "RIG_VFO_MEM \<noteq> RIG_VFO_ALL"
    "RIG_VFO_MEM \<noteq> RIG_VFO_MAIN_C" "RIG_VFO_MEM \<noteq> RIG_VFO_OTHER" "mode_slot RIG_VFO_MEM = None"
    by (simp_all add: cache_vfo_def mode_slot_def vfo_defs)
  have "comm_state (two_vfo_rig 3)" "tv_nsec (now (two_vfo_rig 3)) \<noteq> 0"
    by (simp_all add: two_vfo_rig_def zero_rig_def)
  from cache_mode_roundtrip [OF this, of RIG_VFO_MEM, unfolded v, OF v(2,3,4) prod.collapse [symmetric]]
  show ?thesis by simp
qed

lemma age_invalidated:
  assumes "0 \<le> elapsed_nsec t t'"
  shows "10000 \<le> fst (elapsed_ms t' (snd (elapsed_ms t st HAMLIB_ELAPSED_INVALIDATE)) HAMLIB_ELAPSED_GET)"
proof -
  have "elapsed_nsec (t\<lparr>tv_sec := tv_sec t - 10\<rparr>) t' = elapsed_nsec t t' + 10000 * 1000000"
    by (simp add: elapsed_nsec_def)
  moreover have "10000 \<le> (elapsed_nsec t t' + 10000 * 1000000) div 1000000"
    using assms by simp
  ultimately show ?thesis using assms by (simp add: Let_def)
qed

lemma invalidate_all_stamps:
  "s \<notin> {Curr, Other} \<Longrightarrow> time_freq (invalidate_all t c) s = t\<lparr>tv_sec := tv_sec t - 10\<rparr>"
  "s \<in> {MainA, MainB, MainC} \<Longrightarrow> time_mode (invalidate_all t c) s = t\<lparr>tv_sec := tv_sec t - 10\<rparr>"
  "s \<in> {MainA, MainB, MainC} \<Longrightarrow> time_width (invalidate_all t c) s = t\<lparr>tv_sec := tv_sec t - 10\<rparr>"
  "timeout_ms (invalidate_all t c) = timeout_ms c"
  by (cases s; simp add: invalidate_all_def invalidate_modes_def stamp_defs)+

text \<open>invalidating the cache. \<^verbatim>\<open>rig_set_cache_freq(rig, RIG_VFO_ALL, 0)\<close> succeeds, and
  from then on, until the next store, every frequency slot a VFO name reaches is at least
  ten seconds old, as are the modes and widths of the A, B and C slots: with a time-out of
  at most ten seconds the next read goes to the rig. Ten seconds is all it adds: read at
  the same instant the age is exactly 10000 ms, so with a longer time-out the entry still
  counts as fresh.\<close>

lemma cache_invalidate_all:
  assumes "run_state (rig_set_cache_freq RIG_VFO_ALL 0) rig = (rc, rig')"
    and "0 \<le> elapsed_nsec (now rig) t" and "s \<notin> {Curr, Other}"
  shows "rc = RIG_OK \<and> 10000 \<le> o_ms_freq (slot_view (rig'\<lparr>now := t\<rparr>) s)
    \<and> (s \<in> {MainA, MainB, MainC} \<longrightarrow> 10000 \<le> o_ms_mode (slot_view (rig'\<lparr>now := t\<rparr>) s)
          \<and> 10000 \<le> o_ms_width (slot_view (rig'\<lparr>now := t\<rparr>) s))
    \<and> (tv_nsec (now rig) \<noteq> 0 \<longrightarrow> o_ms_freq (slot_view rig' s) = 10000)"
proof -
  have "cache_vfo rig RIG_VFO_ALL = RIG_VFO_ALL" by (simp add: cache_vfo_def vfo_defs)
  then have run: "rc = RIG_OK" "rig' = on_cache invalidate_all rig"
    using assms(1) by (simp_all add: run_set_cache_freq)
  have age: "10000 \<le> fst (elapsed_ms t ((now rig)\<lparr>tv_sec := tv_sec (now rig) - 10\<rparr>) HAMLIB_ELAPSED_GET)"
    using age_invalidated [OF assms(2)] by (simp only: elapsed_ms.simps(3) snd_conv)
  have "fst (elapsed_ms (now rig) ((now rig)\<lparr>tv_sec := tv_sec (now rig) - 10\<rparr>) HAMLIB_ELAPSED_GET)
      = 10000" if "tv_nsec (now rig) \<noteq> 0"
    using that by (simp add: elapsed_nsec_def Let_def)
  with age assms(3) show ?thesis
    by (auto simp add: run slot_view_def invalidate_all_stamps simp del: elapsed_ms.simps)
qed

lemma cache_invalidate_all_witness:
  "o_ms_freq (slot_view (snd (run_state (rig_set_cache_freq RIG_VFO_ALL 0) (two_vfo_rig 3))) MainA)
     = 10000"
proof -
  have "0 \<le> elapsed_nsec (now (two_vfo_rig 3)) (now (two_vfo_rig 3))"
    "tv_nsec (now (two_vfo_rig 3)) \<noteq> 0"
    by (simp_all add: elapsed_nsec_def two_vfo_rig_def zero_rig_def)
  with cache_invalidate_all [OF prod.collapse [symmetric] this(1), of MainA] show ?thesis by simp
qed

text \<open>satellite mode splits the two halves of the cache. With \<^verbatim>\<open>satmode\<close> set the
  frequency of Sub is kept in the SubA slot and can be read back, while its mode is refused
  with \<^verbatim>\<open>-RIG_EINTERNAL\<close>: \<^verbatim>\<open>rig_set_cache_mode\<close> maps Sub to SubA too, but has no
  case for it.\<close>

lemma satmode_sub_mode_lost:
  assumes "satmode (cache rig)"
  shows "run_state (rig_set_cache_mode RIG_VFO_SUB mode width) rig = (- RIG_EINTERNAL, rig)
    \<and> fst (run_state (rig_set_cache_freq RIG_VFO_SUB freq) rig) = RIG_OK
    \<and> c_freq (cache (snd (run_state (rig_set_cache_freq RIG_VFO_SUB freq) rig))) SubA = freq"
proof -
  have v: "cache_vfo rig RIG_VFO_SUB = RIG_VFO_SUB_A" "RIG_VFO_SUB_A \<noteq> RIG_VFO_ALL"
    "mode_slot RIG_VFO_SUB_A = None" "freq_slot RIG_VFO_SUB_A = Some SubA"
    using assms by (simp_all add: cache_vfo_def mode_slot_def freq_slot_def vfo_defs)
  show ?thesis
    by (simp add: run_set_cache_mode run_set_cache_freq v store_freq_def stamp_freq_def)
qed

lemma satmode_sub_mode_lost_witness:
  "fst (run_state (rig_set_cache_mode RIG_VFO_SUB RIG_MODE_FM 15000)
      ((two_vfo_rig 3)\<lparr>cache := zero_cache\<lparr>satmode := True\<rparr>\<rparr>)) = - RIG_EINTERNAL"
  using satmode_sub_mode_lost [of "(two_vfo_rig 3)\<lparr>cache := zero_cache\<lparr>satmode := True\<rparr>\<rparr>"]
  by simp

end
