(* ===== verification/Hamlib_Target.thy ===== *)
theory Hamlib_Target
  imports Hamlib_Cache Hamlib_Cal
begin

text \<open>
  The operations that act on one VFO (\<^verbatim>\<open>src/settings.c\<close>, \<^verbatim>\<open>src/tones.c\<close>,
  \<^verbatim>\<open>src/mem.c\<close> and the repeater, RIT/XIT, tuning step, antenna, VFO operation, scan,
  DTMF, Morse and voice functions of \<^verbatim>\<open>src/rig.c\<close>). Each checks the handle and the
  back end's function, calls it directly when the VFO is the current one (or the back end
  can address any VFO), and otherwise selects the VFO, calls, and selects the old one
  again. The C code repeats this text in every function, in two forms:

  \<^item> \<^verbatim>\<open>on_target\<close>: settings, tones and memories. Without \<^verbatim>\<open>set_vfo\<close> the
    answer is \<^verbatim>\<open>-RIG_ENTARGET\<close>, and the code of the call is returned whatever
    the switch back returns.
  \<^item> \<^verbatim>\<open>on_vfo\<close>: \<^verbatim>\<open>rig.c\<close>. Without \<^verbatim>\<open>set_vfo\<close> the answer is
    \<^verbatim>\<open>-RIG_ENAVAIL\<close>, and the first error of the call and the switch back is returned.

  The laws of a back end's VFO selection are the locale \<^verbatim>\<open>vfo_selector\<close>.
\<close>

subsection \<open>The two forms\<close>

text \<open>\<^verbatim>\<open>CHECK_RIG_ARG\<close>.\<close>

definition check_rig_arg :: "'r \<Rightarrow> ('p rig, 'r) state \<Rightarrow> ('p rig, 'r) state" where
  "check_rig_arg err m = do {
     opened \<leftarrow> gets comm_state;
     if \<not> opened then State_Monad.return err else m
   }"

definition targetable :: "'p caps \<Rightarrow> u32 \<Rightarrow> bool" where
  "targetable caps flag \<longleftrightarrow> targetable_vfo caps AND flag \<noteq> 0"

definition on_target ::
  "'p caps \<Rightarrow> bool \<Rightarrow> vfo_t \<Rightarrow> 'a \<Rightarrow> ('p rig, int \<times> 'a) state \<Rightarrow> ('p rig, int \<times> 'a) state" where
  "on_target caps direct vfo out oper = do {
     curr_vfo \<leftarrow> gets current_vfo;
     if direct \<or> vfo = RIG_VFO_CURR \<or> vfo = curr_vfo then oper
     else case set_vfo caps of
         None \<Rightarrow> State_Monad.return (- RIG_ENTARGET, out)
       | Some select \<Rightarrow> do {
           retcode \<leftarrow> select vfo;
           if retcode \<noteq> RIG_OK then State_Monad.return (retcode, out)
           else do {
             r \<leftarrow> oper;
             _ \<leftarrow> select curr_vfo;
             State_Monad.return r
           }
         }
   }"

definition on_vfo ::
  "'p caps \<Rightarrow> bool \<Rightarrow> vfo_t \<Rightarrow> 'a \<Rightarrow> ('p rig, int \<times> 'a) state \<Rightarrow> ('p rig, int \<times> 'a) state" where
  "on_vfo caps direct vfo out oper = do {
     curr_vfo \<leftarrow> gets current_vfo;
     if direct \<or> vfo = RIG_VFO_CURR \<or> vfo = curr_vfo then oper
     else case set_vfo caps of
         None \<Rightarrow> State_Monad.return (- RIG_ENAVAIL, out)
       | Some select \<Rightarrow> do {
           retcode \<leftarrow> select vfo;
           if retcode \<noteq> RIG_OK then State_Monad.return (retcode, out)
           else do {
             (rc, out') \<leftarrow> oper;
             rc2 \<leftarrow> select curr_vfo;
             State_Monad.return (if rc = RIG_OK then rc2 else rc, out')
           }
         }
   }"

text \<open>A setter has no output parameter.\<close>

definition no_out :: "'p call \<Rightarrow> ('p rig, int \<times> unit) state" where
  "no_out m = do { rc \<leftarrow> m; State_Monad.return (rc, ()) }"

definition set_on_target :: "'p caps \<Rightarrow> bool \<Rightarrow> vfo_t \<Rightarrow> 'p call \<Rightarrow> 'p call" where
  "set_on_target caps direct vfo m = do {
     r \<leftarrow> on_target caps direct vfo () (no_out m);
     State_Monad.return (fst r)
   }"

definition set_on_vfo :: "'p caps \<Rightarrow> bool \<Rightarrow> vfo_t \<Rightarrow> 'p call \<Rightarrow> 'p call" where
  "set_on_vfo caps direct vfo m = do {
     r \<leftarrow> on_vfo caps direct vfo () (no_out m);
     State_Monad.return (fst r)
   }"

subsection \<open>What a handle supports\<close>

definition rig_has_get_func :: "'p rig \<Rightarrow> setting_t \<Rightarrow> setting_t" where
  "rig_has_get_func rig s = has_get_func rig AND s"

definition rig_has_set_func :: "'p rig \<Rightarrow> setting_t \<Rightarrow> setting_t" where
  "rig_has_set_func rig s = has_set_func rig AND s"

definition rig_has_get_level :: "'p rig \<Rightarrow> setting_t \<Rightarrow> setting_t" where
  "rig_has_get_level rig s = has_get_level rig AND s"

definition rig_has_set_level :: "'p rig \<Rightarrow> setting_t \<Rightarrow> setting_t" where
  "rig_has_set_level rig s = has_set_level rig AND s"

definition rig_has_get_parm :: "'p rig \<Rightarrow> setting_t \<Rightarrow> setting_t" where
  "rig_has_get_parm rig s = has_get_parm rig AND s"

definition rig_has_set_parm :: "'p rig \<Rightarrow> setting_t \<Rightarrow> setting_t" where
  "rig_has_set_parm rig s = has_set_parm rig AND s"

subsection \<open>settings.c: levels, functions, parameters\<close>

definition rig_set_level :: "'p caps \<Rightarrow> vfo_t \<Rightarrow> setting_t \<Rightarrow> value_t \<Rightarrow> 'p call" where
  "rig_set_level caps vfo level val = check_rig_arg (- RIG_EINVAL)
     (case set_level caps of
        None \<Rightarrow> State_Monad.return (- RIG_ENAVAIL)
      | Some f \<Rightarrow> do {
          rig \<leftarrow> gets id;
          if rig_has_set_level rig level \<noteq> 0 then set_on_target caps (targetable caps RIG_TARGETABLE_LEVEL) vfo (f vfo (level, val))
          else State_Monad.return (- RIG_ENAVAIL)
        })"

text \<open>\<^verbatim>\<open>rig_get_level\<close> without its special case, and with it: a rig without a calibrated
  S meter but with a raw one and a calibration table.\<close>

definition rig_get_level_plain :: "'p caps \<Rightarrow> vfo_t \<Rightarrow> setting_t \<Rightarrow> value_t \<Rightarrow> ('p rig, int \<times> value_t) state" where
  "rig_get_level_plain caps vfo level out = check_rig_arg (- RIG_EINVAL, out)
     (case get_level caps of
        None \<Rightarrow> State_Monad.return (- RIG_ENAVAIL, out)
      | Some f \<Rightarrow> do {
          rig \<leftarrow> gets id;
          if rig_has_get_level rig level \<noteq> 0 then on_target caps (targetable caps RIG_TARGETABLE_LEVEL) vfo out (f level vfo out)
          else State_Monad.return (- RIG_ENAVAIL, out)
        })"

definition rig_get_level ::
  "'p caps \<Rightarrow> vfo_t \<Rightarrow> setting_t \<Rightarrow> value_t \<Rightarrow> value_t \<Rightarrow> ('p rig, int \<times> value_t) state" where
  "rig_get_level caps vfo level junk out = do {
     rig \<leftarrow> gets id;
     if comm_state rig \<and> get_level caps \<noteq> None \<and> rig_has_get_level rig level \<noteq> 0
        \<and> level = RIG_LEVEL_STRENGTH \<and> cap_has_get_level caps AND RIG_LEVEL_STRENGTH = 0
        \<and> rig_has_get_level rig RIG_LEVEL_RAWSTR \<noteq> 0 \<and> length (str_cal rig) \<noteq> 0
     then do {
       (retcode, rawstr) \<leftarrow> rig_get_level_plain caps vfo RIG_LEVEL_RAWSTR junk;
       if retcode \<noteq> RIG_OK then State_Monad.return (retcode, out)
       else do {
         cal \<leftarrow> gets str_cal;
         State_Monad.return (RIG_OK, VInt (c_trunc (rig_raw2val (val_i rawstr) cal)))
       }
     }
     else rig_get_level_plain caps vfo level out
   }"

definition rig_set_parm :: "'p caps \<Rightarrow> setting_t \<Rightarrow> value_t \<Rightarrow> 'p call" where
  "rig_set_parm caps parm val = check_rig_arg (- RIG_EINVAL)
     (case set_parm caps of
        None \<Rightarrow> State_Monad.return (- RIG_ENAVAIL)
      | Some f \<Rightarrow> do {
          rig \<leftarrow> gets id;
          if rig_has_set_parm rig parm \<noteq> 0 then f parm val
          else State_Monad.return (- RIG_ENAVAIL)
        })"

definition rig_get_parm ::
  "'p caps \<Rightarrow> setting_t \<Rightarrow> value_t \<Rightarrow> ('p rig, int \<times> value_t) state" where
  "rig_get_parm caps parm out = check_rig_arg (- RIG_EINVAL, out)
     (case get_parm caps of
        None \<Rightarrow> State_Monad.return (- RIG_ENAVAIL, out)
      | Some f \<Rightarrow> do {
          rig \<leftarrow> gets id;
          if rig_has_get_parm rig parm \<noteq> 0 then f parm out
          else State_Monad.return (- RIG_ENAVAIL, out)
        })"

definition rig_set_func :: "'p caps \<Rightarrow> vfo_t \<Rightarrow> setting_t \<Rightarrow> int \<Rightarrow> 'p call" where
  "rig_set_func caps vfo func status = check_rig_arg (- RIG_EINVAL)
     (case set_func caps of
        None \<Rightarrow> State_Monad.return (- RIG_ENAVAIL)
      | Some f \<Rightarrow> do {
          rig \<leftarrow> gets id;
          if rig_has_set_func rig func \<noteq> 0 then set_on_target caps (targetable caps RIG_TARGETABLE_FUNC) vfo (f vfo (func, status))
          else State_Monad.return (- RIG_ENAVAIL)
        })"

text \<open>The guard \<^verbatim>\<open>!func\<close> is on the setting, not on the output pointer.\<close>

definition rig_get_func :: "'p caps \<Rightarrow> vfo_t \<Rightarrow> setting_t \<Rightarrow> int \<Rightarrow> ('p rig, int \<times> int) state" where
  "rig_get_func caps vfo func out = check_rig_arg (- RIG_EINVAL, out)
     (if func = 0 then State_Monad.return (- RIG_EINVAL, out)
      else case get_func caps of
        None \<Rightarrow> State_Monad.return (- RIG_ENAVAIL, out)
      | Some f \<Rightarrow> do {
          rig \<leftarrow> gets id;
          if rig_has_get_func rig func \<noteq> 0 then on_target caps (targetable caps RIG_TARGETABLE_FUNC) vfo out (f func vfo out)
          else State_Monad.return (- RIG_ENAVAIL, out)
        })"

definition rig_set_ext_level :: "'p caps \<Rightarrow> vfo_t \<Rightarrow> nat \<Rightarrow> value_t \<Rightarrow> 'p call" where
  "rig_set_ext_level caps vfo token val = check_rig_arg (- RIG_EINVAL)
     (case set_ext_level caps of
        None \<Rightarrow> State_Monad.return (- RIG_ENAVAIL)
      | Some f \<Rightarrow> set_on_target caps (targetable caps RIG_TARGETABLE_LEVEL) vfo (f vfo (token, val)))"

definition rig_get_ext_level :: "'p caps \<Rightarrow> vfo_t \<Rightarrow> nat \<Rightarrow> value_t \<Rightarrow> ('p rig, int \<times> value_t) state" where
  "rig_get_ext_level caps vfo token out = check_rig_arg (- RIG_EINVAL, out)
     (case get_ext_level caps of
        None \<Rightarrow> State_Monad.return (- RIG_ENAVAIL, out)
      | Some f \<Rightarrow> on_target caps (targetable caps RIG_TARGETABLE_LEVEL) vfo out (f token vfo out))"

definition rig_set_ext_func :: "'p caps \<Rightarrow> vfo_t \<Rightarrow> nat \<Rightarrow> int \<Rightarrow> 'p call" where
  "rig_set_ext_func caps vfo token status = check_rig_arg (- RIG_EINVAL)
     (case set_ext_func caps of
        None \<Rightarrow> State_Monad.return (- RIG_ENAVAIL)
      | Some f \<Rightarrow> set_on_target caps (targetable caps RIG_TARGETABLE_FUNC) vfo (f vfo (token, status)))"

definition rig_get_ext_func :: "'p caps \<Rightarrow> vfo_t \<Rightarrow> nat \<Rightarrow> int \<Rightarrow> ('p rig, int \<times> int) state" where
  "rig_get_ext_func caps vfo token out = check_rig_arg (- RIG_EINVAL, out)
     (case get_ext_func caps of
        None \<Rightarrow> State_Monad.return (- RIG_ENAVAIL, out)
      | Some f \<Rightarrow> on_target caps (targetable caps RIG_TARGETABLE_FUNC) vfo out (f token vfo out))"

definition rig_set_ext_parm :: "'p caps \<Rightarrow> nat \<Rightarrow> value_t \<Rightarrow> 'p call" where
  "rig_set_ext_parm caps token val = check_rig_arg (- RIG_EINVAL)
     (case set_ext_parm caps of
        None \<Rightarrow> State_Monad.return (- RIG_ENAVAIL)
      | Some f \<Rightarrow> f token val)"

definition rig_get_ext_parm ::
  "'p caps \<Rightarrow> nat \<Rightarrow> value_t \<Rightarrow> ('p rig, int \<times> value_t) state" where
  "rig_get_ext_parm caps token out = check_rig_arg (- RIG_EINVAL, out)
     (case get_ext_parm caps of
        None \<Rightarrow> State_Monad.return (- RIG_ENAVAIL, out)
      | Some f \<Rightarrow> f token out)"

subsection \<open>tones.c\<close>

definition rig_set_ctcss_tone :: "'p caps \<Rightarrow> vfo_t \<Rightarrow> nat \<Rightarrow> 'p call" where
  "rig_set_ctcss_tone caps vfo tone = check_rig_arg (- RIG_EINVAL)
     (case set_ctcss_tone caps of
        None \<Rightarrow> State_Monad.return (- RIG_ENAVAIL)
      | Some f \<Rightarrow> set_on_target caps (targetable caps RIG_TARGETABLE_TONE) vfo (f vfo tone))"

definition rig_get_ctcss_tone :: "'p caps \<Rightarrow> vfo_t \<Rightarrow> nat \<Rightarrow> ('p rig, int \<times> nat) state" where
  "rig_get_ctcss_tone caps vfo out = check_rig_arg (- RIG_EINVAL, out)
     (case get_ctcss_tone caps of
        None \<Rightarrow> State_Monad.return (- RIG_ENAVAIL, out)
      | Some f \<Rightarrow> on_target caps (targetable caps RIG_TARGETABLE_TONE) vfo out (f vfo out))"

definition rig_set_dcs_code :: "'p caps \<Rightarrow> vfo_t \<Rightarrow> nat \<Rightarrow> 'p call" where
  "rig_set_dcs_code caps vfo tone = check_rig_arg (- RIG_EINVAL)
     (case set_dcs_code caps of
        None \<Rightarrow> State_Monad.return (- RIG_ENAVAIL)
      | Some f \<Rightarrow> set_on_target caps (targetable caps RIG_TARGETABLE_TONE) vfo (f vfo tone))"

definition rig_get_dcs_code :: "'p caps \<Rightarrow> vfo_t \<Rightarrow> nat \<Rightarrow> ('p rig, int \<times> nat) state" where
  "rig_get_dcs_code caps vfo out = check_rig_arg (- RIG_EINVAL, out)
     (case get_dcs_code caps of
        None \<Rightarrow> State_Monad.return (- RIG_ENAVAIL, out)
      | Some f \<Rightarrow> on_target caps (targetable caps RIG_TARGETABLE_TONE) vfo out (f vfo out))"

definition rig_set_ctcss_sql :: "'p caps \<Rightarrow> vfo_t \<Rightarrow> nat \<Rightarrow> 'p call" where
  "rig_set_ctcss_sql caps vfo tone = check_rig_arg (- RIG_EINVAL)
     (case set_ctcss_sql caps of
        None \<Rightarrow> State_Monad.return (- RIG_ENAVAIL)
      | Some f \<Rightarrow> set_on_target caps (targetable caps RIG_TARGETABLE_TONE) vfo (f vfo tone))"

definition rig_get_ctcss_sql :: "'p caps \<Rightarrow> vfo_t \<Rightarrow> nat \<Rightarrow> ('p rig, int \<times> nat) state" where
  "rig_get_ctcss_sql caps vfo out = check_rig_arg (- RIG_EINVAL, out)
     (case get_ctcss_sql caps of
        None \<Rightarrow> State_Monad.return (- RIG_ENAVAIL, out)
      | Some f \<Rightarrow> on_target caps (targetable caps RIG_TARGETABLE_TONE) vfo out (f vfo out))"

definition rig_set_dcs_sql :: "'p caps \<Rightarrow> vfo_t \<Rightarrow> nat \<Rightarrow> 'p call" where
  "rig_set_dcs_sql caps vfo tone = check_rig_arg (- RIG_EINVAL)
     (case set_dcs_sql caps of
        None \<Rightarrow> State_Monad.return (- RIG_ENAVAIL)
      | Some f \<Rightarrow> set_on_target caps (targetable caps RIG_TARGETABLE_TONE) vfo (f vfo tone))"

definition rig_get_dcs_sql :: "'p caps \<Rightarrow> vfo_t \<Rightarrow> nat \<Rightarrow> ('p rig, int \<times> nat) state" where
  "rig_get_dcs_sql caps vfo out = check_rig_arg (- RIG_EINVAL, out)
     (case get_dcs_sql caps of
        None \<Rightarrow> State_Monad.return (- RIG_ENAVAIL, out)
      | Some f \<Rightarrow> on_target caps (targetable caps RIG_TARGETABLE_TONE) vfo out (f vfo out))"

subsection \<open>mem.c: channel and bank\<close>

definition rig_set_mem :: "'p caps \<Rightarrow> vfo_t \<Rightarrow> int \<Rightarrow> 'p call" where
  "rig_set_mem caps vfo ch = check_rig_arg (- RIG_EINVAL)
     (case set_mem caps of
        None \<Rightarrow> State_Monad.return (- RIG_ENAVAIL)
      | Some f \<Rightarrow> set_on_target caps (targetable caps RIG_TARGETABLE_MEM) vfo (f vfo ch))"

definition rig_get_mem :: "'p caps \<Rightarrow> vfo_t \<Rightarrow> int \<Rightarrow> ('p rig, int \<times> int) state" where
  "rig_get_mem caps vfo out = check_rig_arg (- RIG_EINVAL, out)
     (case get_mem caps of
        None \<Rightarrow> State_Monad.return (- RIG_ENAVAIL, out)
      | Some f \<Rightarrow> on_target caps (targetable caps RIG_TARGETABLE_MEM) vfo out (f vfo out))"

definition rig_set_bank :: "'p caps \<Rightarrow> vfo_t \<Rightarrow> int \<Rightarrow> 'p call" where
  "rig_set_bank caps vfo bank = check_rig_arg (- RIG_EINVAL)
     (case set_bank caps of
        None \<Rightarrow> State_Monad.return (- RIG_ENAVAIL)
      | Some f \<Rightarrow> set_on_target caps (targetable caps RIG_TARGETABLE_BANK) vfo (f vfo bank))"

subsection \<open>rig.c: repeater, clarifiers, tuning step, antenna\<close>

definition rig_set_rptr_shift :: "'p caps \<Rightarrow> vfo_t \<Rightarrow> rptr_shift_t \<Rightarrow> 'p call" where
  "rig_set_rptr_shift caps vfo val = check_rig_arg (- RIG_EINVAL)
     (case set_rptr_shift caps of
        None \<Rightarrow> State_Monad.return (- RIG_ENAVAIL)
      | Some f \<Rightarrow> set_on_vfo caps False vfo (f vfo val))"

definition rig_get_rptr_shift :: "'p caps \<Rightarrow> vfo_t \<Rightarrow> rptr_shift_t \<Rightarrow> ('p rig, int \<times> rptr_shift_t) state" where
  "rig_get_rptr_shift caps vfo out = check_rig_arg (- RIG_EINVAL, out)
     (case get_rptr_shift caps of
        None \<Rightarrow> State_Monad.return (- RIG_ENAVAIL, out)
      | Some f \<Rightarrow> on_vfo caps False vfo out (f vfo out))"

definition rig_set_rptr_offs :: "'p caps \<Rightarrow> vfo_t \<Rightarrow> shortfreq_t \<Rightarrow> 'p call" where
  "rig_set_rptr_offs caps vfo val = check_rig_arg (- RIG_EINVAL)
     (case set_rptr_offs caps of
        None \<Rightarrow> State_Monad.return (- RIG_ENAVAIL)
      | Some f \<Rightarrow> set_on_vfo caps False vfo (f vfo val))"

definition rig_get_rptr_offs :: "'p caps \<Rightarrow> vfo_t \<Rightarrow> shortfreq_t \<Rightarrow> ('p rig, int \<times> shortfreq_t) state" where
  "rig_get_rptr_offs caps vfo out = check_rig_arg (- RIG_EINVAL, out)
     (case get_rptr_offs caps of
        None \<Rightarrow> State_Monad.return (- RIG_ENAVAIL, out)
      | Some f \<Rightarrow> on_vfo caps False vfo out (f vfo out))"

definition rig_set_rit :: "'p caps \<Rightarrow> vfo_t \<Rightarrow> shortfreq_t \<Rightarrow> 'p call" where
  "rig_set_rit caps vfo val = check_rig_arg (- RIG_EINVAL)
     (case set_rit caps of
        None \<Rightarrow> State_Monad.return (- RIG_ENAVAIL)
      | Some f \<Rightarrow> set_on_vfo caps (targetable caps RIG_TARGETABLE_RITXIT) vfo (f vfo val))"

definition rig_get_rit :: "'p caps \<Rightarrow> vfo_t \<Rightarrow> shortfreq_t \<Rightarrow> ('p rig, int \<times> shortfreq_t) state" where
  "rig_get_rit caps vfo out = check_rig_arg (- RIG_EINVAL, out)
     (case get_rit caps of
        None \<Rightarrow> State_Monad.return (- RIG_ENAVAIL, out)
      | Some f \<Rightarrow> on_vfo caps (targetable caps RIG_TARGETABLE_RITXIT) vfo out (f vfo out))"

definition rig_set_xit :: "'p caps \<Rightarrow> vfo_t \<Rightarrow> shortfreq_t \<Rightarrow> 'p call" where
  "rig_set_xit caps vfo val = check_rig_arg (- RIG_EINVAL)
     (case set_xit caps of
        None \<Rightarrow> State_Monad.return (- RIG_ENAVAIL)
      | Some f \<Rightarrow> set_on_vfo caps (targetable caps RIG_TARGETABLE_RITXIT) vfo (f vfo val))"

definition rig_get_xit :: "'p caps \<Rightarrow> vfo_t \<Rightarrow> shortfreq_t \<Rightarrow> ('p rig, int \<times> shortfreq_t) state" where
  "rig_get_xit caps vfo out = check_rig_arg (- RIG_EINVAL, out)
     (case get_xit caps of
        None \<Rightarrow> State_Monad.return (- RIG_ENAVAIL, out)
      | Some f \<Rightarrow> on_vfo caps (targetable caps RIG_TARGETABLE_RITXIT) vfo out (f vfo out))"

definition rig_set_ts :: "'p caps \<Rightarrow> vfo_t \<Rightarrow> shortfreq_t \<Rightarrow> 'p call" where
  "rig_set_ts caps vfo val = check_rig_arg (- RIG_EINVAL)
     (case set_ts caps of
        None \<Rightarrow> State_Monad.return (- RIG_ENAVAIL)
      | Some f \<Rightarrow> set_on_vfo caps False vfo (f vfo val))"

definition rig_get_ts :: "'p caps \<Rightarrow> vfo_t \<Rightarrow> shortfreq_t \<Rightarrow> ('p rig, int \<times> shortfreq_t) state" where
  "rig_get_ts caps vfo out = check_rig_arg (- RIG_EINVAL, out)
     (case get_ts caps of
        None \<Rightarrow> State_Monad.return (- RIG_ENAVAIL, out)
      | Some f \<Rightarrow> on_vfo caps False vfo out (f vfo out))"

definition rig_set_ant :: "'p caps \<Rightarrow> vfo_t \<Rightarrow> ant_t \<Rightarrow> value_t \<Rightarrow> 'p call" where
  "rig_set_ant caps vfo ant option = check_rig_arg (- RIG_EINVAL)
     (case set_ant caps of
        None \<Rightarrow> State_Monad.return (- RIG_ENAVAIL)
      | Some f \<Rightarrow> set_on_vfo caps (targetable caps RIG_TARGETABLE_ANT) vfo (f vfo (ant, option)))"

text \<open>The outputs are the option and the current, transmit and receive antenna; they are
  reset before the back end is called.\<close>

definition ant_unknown :: "value_t \<times> ant_t \<times> ant_t \<times> ant_t" where
  "ant_unknown = (VInt 0, RIG_ANT_UNKNOWN, RIG_ANT_UNKNOWN, RIG_ANT_UNKNOWN)"

definition rig_get_ant :: "'p caps \<Rightarrow> vfo_t \<Rightarrow> ant_t \<Rightarrow> (value_t \<times> ant_t \<times> ant_t \<times> ant_t) \<Rightarrow> ('p rig, int \<times> (value_t \<times> ant_t \<times> ant_t \<times> ant_t)) state" where
  "rig_get_ant caps vfo ant out = check_rig_arg (- RIG_EINVAL, out)
     (case get_ant caps of
        None \<Rightarrow> State_Monad.return (- RIG_ENAVAIL, out)
      | Some f \<Rightarrow> on_vfo caps (targetable caps RIG_TARGETABLE_ANT) vfo ant_unknown (f ant vfo ant_unknown))"

subsection \<open>rig.c: VFO operations, scanning, signalling\<close>

definition rig_has_vfo_op :: "'p caps \<Rightarrow> u32 \<Rightarrow> u32" where
  "rig_has_vfo_op caps oper = vfo_ops caps AND oper"

definition rig_has_scan :: "'p caps \<Rightarrow> u32 \<Rightarrow> u32" where
  "rig_has_scan caps scan = scan_ops caps AND scan"

definition rig_vfo_op :: "'p caps \<Rightarrow> vfo_t \<Rightarrow> u32 \<Rightarrow> 'p call" where
  "rig_vfo_op caps vfo oper = check_rig_arg (- RIG_EINVAL)
     (case cap_vfo_op caps of
        None \<Rightarrow> State_Monad.return (- RIG_ENAVAIL)
      | Some f \<Rightarrow> if rig_has_vfo_op caps oper \<noteq> 0 then set_on_vfo caps False vfo (f vfo oper)
          else State_Monad.return (- RIG_ENAVAIL))"

definition rig_scan :: "'p caps \<Rightarrow> vfo_t \<Rightarrow> u32 \<Rightarrow> int \<Rightarrow> 'p call" where
  "rig_scan caps vfo scan ch = check_rig_arg (- RIG_EINVAL)
     (case cap_scan caps of
        None \<Rightarrow> State_Monad.return (- RIG_ENAVAIL)
      | Some f \<Rightarrow> if scan = RIG_SCAN_STOP \<or> rig_has_scan caps scan \<noteq> 0
          then set_on_vfo caps False vfo (f vfo (scan, ch))
          else State_Monad.return (- RIG_ENAVAIL))"

definition rig_send_dtmf :: "'p caps \<Rightarrow> vfo_t \<Rightarrow> string \<Rightarrow> 'p call" where
  "rig_send_dtmf caps vfo digits = check_rig_arg (- RIG_EINVAL)
     (case send_dtmf caps of
        None \<Rightarrow> State_Monad.return (- RIG_ENAVAIL)
      | Some f \<Rightarrow> set_on_vfo caps False vfo (f vfo digits))"

definition rig_recv_dtmf :: "'p caps \<Rightarrow> vfo_t \<Rightarrow> (string \<times> int) \<Rightarrow> ('p rig, int \<times> (string \<times> int)) state" where
  "rig_recv_dtmf caps vfo out = check_rig_arg (- RIG_EINVAL, out)
     (case recv_dtmf caps of
        None \<Rightarrow> State_Monad.return (- RIG_ENAVAIL, out)
      | Some f \<Rightarrow> on_vfo caps False vfo out (f vfo out))"

definition rig_send_morse :: "'p caps \<Rightarrow> vfo_t \<Rightarrow> string \<Rightarrow> 'p call" where
  "rig_send_morse caps vfo msg = check_rig_arg (- RIG_EINVAL)
     (case send_morse caps of
        None \<Rightarrow> State_Monad.return (- RIG_ENAVAIL)
      | Some f \<Rightarrow> set_on_vfo caps False vfo (f vfo msg))"

definition rig_stop_morse :: "'p caps \<Rightarrow> vfo_t \<Rightarrow> 'p call" where
  "rig_stop_morse caps vfo = check_rig_arg (- RIG_EINVAL)
     (case stop_morse caps of
        None \<Rightarrow> State_Monad.return (- RIG_ENAVAIL)
      | Some f \<Rightarrow> set_on_vfo caps False vfo (f vfo ()))"

definition rig_send_voice_mem :: "'p caps \<Rightarrow> vfo_t \<Rightarrow> int \<Rightarrow> 'p call" where
  "rig_send_voice_mem caps vfo ch = check_rig_arg (- RIG_EINVAL)
     (case send_voice_mem caps of
        None \<Rightarrow> State_Monad.return (- RIG_ENAVAIL)
      | Some f \<Rightarrow> set_on_vfo caps False vfo (f vfo ch))"

subsection \<open>Where an operation leaves the radio\<close>

text \<open>
  \<^verbatim>\<open>radio\<close> reads off the handle which channel the radio works on, \<^verbatim>\<open>home\<close> gives the
  channel of a VFO. A handle is settled on a VFO when the radio works on its channel
  and the front end knows. A back-end call is stationary when it moves neither. Selecting a
  VFO is not, and neither are the VFO operations and the choice of a memory channel, whose
  purpose is to move the radio.
\<close>

definition settled :: "('p rig \<Rightarrow> 'c) \<Rightarrow> (vfo_t \<Rightarrow> 'c) \<Rightarrow> vfo_t \<Rightarrow> 'p rig \<Rightarrow> bool" where
  "settled radio home v rig \<longleftrightarrow> radio rig = home v \<and> current_vfo rig = v"

definition stationary :: "('p rig \<Rightarrow> 'c) \<Rightarrow> ('p rig, 'a) state \<Rightarrow> bool" where
  "stationary radio m \<longleftrightarrow> (\<forall>rig. radio (snd (run_state m rig)) = radio rig
     \<and> current_vfo (snd (run_state m rig)) = current_vfo rig)"

definition stationary_caps :: "('p rig \<Rightarrow> 'c) \<Rightarrow> 'p caps \<Rightarrow> bool" where
  "stationary_caps radio caps \<longleftrightarrow>
     (\<forall>f \<in> set_option (set_level caps). \<forall>v x. stationary radio (f v x))
     \<and> (\<forall>f \<in> set_option (set_func caps). \<forall>v x. stationary radio (f v x))
     \<and> (\<forall>f \<in> set_option (set_ext_level caps). \<forall>v x. stationary radio (f v x))
     \<and> (\<forall>f \<in> set_option (set_ext_func caps). \<forall>v x. stationary radio (f v x))
     \<and> (\<forall>f \<in> set_option (set_ctcss_tone caps). \<forall>v x. stationary radio (f v x))
     \<and> (\<forall>f \<in> set_option (set_dcs_code caps). \<forall>v x. stationary radio (f v x))
     \<and> (\<forall>f \<in> set_option (set_ctcss_sql caps). \<forall>v x. stationary radio (f v x))
     \<and> (\<forall>f \<in> set_option (set_dcs_sql caps). \<forall>v x. stationary radio (f v x))
     \<and> (\<forall>f \<in> set_option (set_bank caps). \<forall>v x. stationary radio (f v x))
     \<and> (\<forall>f \<in> set_option (set_rptr_shift caps). \<forall>v x. stationary radio (f v x))
     \<and> (\<forall>f \<in> set_option (set_rptr_offs caps). \<forall>v x. stationary radio (f v x))
     \<and> (\<forall>f \<in> set_option (set_rit caps). \<forall>v x. stationary radio (f v x))
     \<and> (\<forall>f \<in> set_option (set_xit caps). \<forall>v x. stationary radio (f v x))
     \<and> (\<forall>f \<in> set_option (set_ts caps). \<forall>v x. stationary radio (f v x))
     \<and> (\<forall>f \<in> set_option (set_ant caps). \<forall>v x. stationary radio (f v x))
     \<and> (\<forall>f \<in> set_option (cap_scan caps). \<forall>v x. stationary radio (f v x))
     \<and> (\<forall>f \<in> set_option (send_dtmf caps). \<forall>v x. stationary radio (f v x))
     \<and> (\<forall>f \<in> set_option (send_morse caps). \<forall>v x. stationary radio (f v x))
     \<and> (\<forall>f \<in> set_option (stop_morse caps). \<forall>v x. stationary radio (f v x))
     \<and> (\<forall>f \<in> set_option (send_voice_mem caps). \<forall>v x. stationary radio (f v x))
     \<and> (\<forall>f \<in> set_option (get_ctcss_tone caps). \<forall>v x. stationary radio (f v x))
     \<and> (\<forall>f \<in> set_option (get_dcs_code caps). \<forall>v x. stationary radio (f v x))
     \<and> (\<forall>f \<in> set_option (get_ctcss_sql caps). \<forall>v x. stationary radio (f v x))
     \<and> (\<forall>f \<in> set_option (get_dcs_sql caps). \<forall>v x. stationary radio (f v x))
     \<and> (\<forall>f \<in> set_option (get_mem caps). \<forall>v x. stationary radio (f v x))
     \<and> (\<forall>f \<in> set_option (get_rptr_shift caps). \<forall>v x. stationary radio (f v x))
     \<and> (\<forall>f \<in> set_option (get_rptr_offs caps). \<forall>v x. stationary radio (f v x))
     \<and> (\<forall>f \<in> set_option (get_rit caps). \<forall>v x. stationary radio (f v x))
     \<and> (\<forall>f \<in> set_option (get_xit caps). \<forall>v x. stationary radio (f v x))
     \<and> (\<forall>f \<in> set_option (get_ts caps). \<forall>v x. stationary radio (f v x))
     \<and> (\<forall>f \<in> set_option (recv_dtmf caps). \<forall>v x. stationary radio (f v x))
     \<and> (\<forall>f \<in> set_option (set_parm caps). \<forall>v x. stationary radio (f v x))
     \<and> (\<forall>f \<in> set_option (get_parm caps). \<forall>v x. stationary radio (f v x))
     \<and> (\<forall>f \<in> set_option (set_ext_parm caps). \<forall>v x. stationary radio (f v x))
     \<and> (\<forall>f \<in> set_option (get_ext_parm caps). \<forall>v x. stationary radio (f v x))
     \<and> (\<forall>f \<in> set_option (get_level caps). \<forall>s v x. stationary radio (f s v x))
     \<and> (\<forall>f \<in> set_option (get_func caps). \<forall>s v x. stationary radio (f s v x))
     \<and> (\<forall>f \<in> set_option (get_ext_level caps). \<forall>s v x. stationary radio (f s v x))
     \<and> (\<forall>f \<in> set_option (get_ext_func caps). \<forall>s v x. stationary radio (f s v x))
     \<and> (\<forall>f \<in> set_option (get_ant caps). \<forall>s v x. stationary radio (f s v x))"

lemma stationary_no_out [intro]: "stationary radio m \<Longrightarrow> stationary radio (no_out m)"
  by (simp add: stationary_def no_out_def split: prod.split) (metis snd_conv)

lemma stationary_return [intro]: "stationary radio (State_Monad.return x)"
  by (simp add: stationary_def)

lemma stationary_gets [intro]: "stationary radio (gets f)"
  by (simp add: stationary_def)

lemma stationary_bind [intro]:
  "stationary radio m \<Longrightarrow> (\<And>x. stationary radio (f x)) \<Longrightarrow> stationary radio (State_Monad.bind m f)"
  by (simp add: stationary_def split: prod.split) (metis snd_conv)

lemma stationary_if [intro]:
  "stationary radio m \<Longrightarrow> stationary radio n \<Longrightarrow> stationary radio (if b then m else n)"
  by simp

lemma stationary_option [intro]:
  "stationary radio m \<Longrightarrow> (\<And>f. stationary radio (n f)) \<Longrightarrow>
   stationary radio (case x of None \<Rightarrow> m | Some f \<Rightarrow> n f)"
  by (cases x) auto

lemma stationary_do_when [intro]: "stationary radio m \<Longrightarrow> stationary radio (do_when b m)"
  by (simp add: stationary_def)

lemmas stationary_rules = stationary_return stationary_gets stationary_bind stationary_if
  stationary_option stationary_do_when

lemma stationary_keeps: "stationary radio m \<Longrightarrow> keeps (settled radio home v) m"
  by (simp add: stationary_def settled_def keeps_def)

lemma stationary_capsD:
  assumes "stationary_caps radio caps"
  shows "set_level caps = Some f0 \<Longrightarrow> stationary radio (f0 v x0)"
    "set_func caps = Some f1 \<Longrightarrow> stationary radio (f1 v x1)"
    "set_ext_level caps = Some f2 \<Longrightarrow> stationary radio (f2 v x2)"
    "set_ext_func caps = Some f3 \<Longrightarrow> stationary radio (f3 v x3)"
    "set_ctcss_tone caps = Some f4 \<Longrightarrow> stationary radio (f4 v x4)"
    "set_dcs_code caps = Some f5 \<Longrightarrow> stationary radio (f5 v x5)"
    "set_ctcss_sql caps = Some f6 \<Longrightarrow> stationary radio (f6 v x6)"
    "set_dcs_sql caps = Some f7 \<Longrightarrow> stationary radio (f7 v x7)"
    "set_bank caps = Some f9 \<Longrightarrow> stationary radio (f9 v x9)"
    "set_rptr_shift caps = Some f10 \<Longrightarrow> stationary radio (f10 v x10)"
    "set_rptr_offs caps = Some f11 \<Longrightarrow> stationary radio (f11 v x11)"
    "set_rit caps = Some f12 \<Longrightarrow> stationary radio (f12 v x12)"
    "set_xit caps = Some f13 \<Longrightarrow> stationary radio (f13 v x13)"
    "set_ts caps = Some f14 \<Longrightarrow> stationary radio (f14 v x14)"
    "set_ant caps = Some f15 \<Longrightarrow> stationary radio (f15 v x15)"
    "cap_scan caps = Some f17 \<Longrightarrow> stationary radio (f17 v x17)"
    "send_dtmf caps = Some f18 \<Longrightarrow> stationary radio (f18 v x18)"
    "send_morse caps = Some f19 \<Longrightarrow> stationary radio (f19 v x19)"
    "stop_morse caps = Some f20 \<Longrightarrow> stationary radio (f20 v x20)"
    "send_voice_mem caps = Some f21 \<Longrightarrow> stationary radio (f21 v x21)"
    "get_ctcss_tone caps = Some f22 \<Longrightarrow> stationary radio (f22 v x22)"
    "get_dcs_code caps = Some f23 \<Longrightarrow> stationary radio (f23 v x23)"
    "get_ctcss_sql caps = Some f24 \<Longrightarrow> stationary radio (f24 v x24)"
    "get_dcs_sql caps = Some f25 \<Longrightarrow> stationary radio (f25 v x25)"
    "get_mem caps = Some f26 \<Longrightarrow> stationary radio (f26 v x26)"
    "get_rptr_shift caps = Some f27 \<Longrightarrow> stationary radio (f27 v x27)"
    "get_rptr_offs caps = Some f28 \<Longrightarrow> stationary radio (f28 v x28)"
    "get_rit caps = Some f29 \<Longrightarrow> stationary radio (f29 v x29)"
    "get_xit caps = Some f30 \<Longrightarrow> stationary radio (f30 v x30)"
    "get_ts caps = Some f31 \<Longrightarrow> stationary radio (f31 v x31)"
    "recv_dtmf caps = Some f32 \<Longrightarrow> stationary radio (f32 v x32)"
    "set_parm caps = Some f33 \<Longrightarrow> stationary radio (f33 v33 x33)"
    "get_parm caps = Some f34 \<Longrightarrow> stationary radio (f34 v34 x34)"
    "set_ext_parm caps = Some f35 \<Longrightarrow> stationary radio (f35 v35 x35)"
    "get_ext_parm caps = Some f36 \<Longrightarrow> stationary radio (f36 v36 x36)"
    "get_level caps = Some f37 \<Longrightarrow> stationary radio (f37 s37 v x37)"
    "get_func caps = Some f38 \<Longrightarrow> stationary radio (f38 s38 v x38)"
    "get_ext_level caps = Some f39 \<Longrightarrow> stationary radio (f39 s39 v x39)"
    "get_ext_func caps = Some f40 \<Longrightarrow> stationary radio (f40 s40 v x40)"
    "get_ant caps = Some f41 \<Longrightarrow> stationary radio (f41 s41 v x41)"
  by (insert assms, unfold stationary_caps_def) (simp_all del: split_paired_All)

lemma keeps_check_rig_arg [intro]: "keeps P m \<Longrightarrow> keeps P (check_rig_arg err m)"
  by (auto simp: check_rig_arg_def)

lemma keeps_option [intro]:
  "keeps P m \<Longrightarrow> (\<And>f. x = Some f \<Longrightarrow> keeps P (n f)) \<Longrightarrow> keeps P (case x of None \<Rightarrow> m | Some f \<Rightarrow> n f)"
  by (cases x) auto

locale vfo_selector =
  fixes caps :: "'p caps" and select :: "vfo_t \<Rightarrow> 'p call" and radio :: "'p rig \<Rightarrow> 'c"
    and home :: "vfo_t \<Rightarrow> 'c" and tracks :: bool and vfos :: "vfo_t set"
  assumes has_select: "set_vfo caps = Some select"
    and select_home: "v \<in> vfos \<Longrightarrow> run_state (select v) rig = (rc, rig') \<Longrightarrow>
      rc = RIG_OK \<and> radio rig' = home v"
    and select_fails: "run_state (select v) rig = (rc, rig') \<Longrightarrow> rc \<noteq> RIG_OK \<Longrightarrow> radio rig' = radio rig"
    and select_current: "v \<noteq> RIG_VFO_CURR \<Longrightarrow> run_state (select v) rig = (rc, rig') \<Longrightarrow>
      current_vfo rig' = (if rc = RIG_OK \<and> tracks then v else current_vfo rig)"
    and vfos_named: "RIG_VFO_CURR \<notin> vfos"

context vfo_selector
begin

text \<open>The common text of the two forms: select, call, select back.\<close>

lemma excursion:
  assumes "cur \<in> vfos" and "settled radio home cur rig" and "stationary radio oper"
    and "v \<noteq> RIG_VFO_CURR" and "run_state (select v) rig = (rc, rig1)"
  shows "if rc = RIG_OK
     then settled radio home cur (snd (run_state (select cur) (snd (run_state oper rig1))))
     else settled radio home cur rig1"
proof (cases "rc = RIG_OK")
  case True
  obtain rc2 rig2 where r2: "run_state (select cur) (snd (run_state oper rig1)) = (rc2, rig2)"
    by fastforce
  have cur: "cur \<noteq> RIG_VFO_CURR" using assms(1) vfos_named by blast
  have "current_vfo (snd (run_state oper rig1)) = current_vfo rig1"
    using assms(3) by (simp add: stationary_def)
  then have "current_vfo rig2 = cur"
    using select_current [OF cur r2] select_current [OF assms(4,5)] select_home [OF assms(1) r2] assms(2)
    by (auto simp: settled_def True split: if_splits)
  then show ?thesis using select_home [OF assms(1) r2] r2 True by (simp add: settled_def)
next
  case False
  with select_fails [OF assms(5)] select_current [OF assms(4,5)] assms(2) show ?thesis
    by (simp add: settled_def)
qed

lemma on_target_keeps:
  assumes "cur \<in> vfos" and "stationary radio oper"
  shows "keeps (settled radio home cur) (on_target caps direct vfo out oper)"
proof
  fix rig assume settled: "settled radio home cur rig"
  obtain rc rig1 where r1: "run_state (select vfo) rig = (rc, rig1)" by fastforce
  have "settled radio home cur (snd (run_state oper rig))"
    using stationary_keeps [OF assms(2)] settled by (simp add: keeps_def)
  then show "settled radio home cur (snd (run_state (on_target caps direct vfo out oper) rig))"
    using excursion [OF assms(1) settled assms(2) _ r1] settled
    by (auto simp: on_target_def has_select r1 settled_def split: prod.splits)
qed

lemma on_vfo_keeps:
  assumes "cur \<in> vfos" and "stationary radio oper"
  shows "keeps (settled radio home cur) (on_vfo caps direct vfo out oper)"
proof
  fix rig assume settled: "settled radio home cur rig"
  obtain rc rig1 where r1: "run_state (select vfo) rig = (rc, rig1)" by fastforce
  have "settled radio home cur (snd (run_state oper rig))"
    using stationary_keeps [OF assms(2)] settled by (simp add: keeps_def)
  then show "settled radio home cur (snd (run_state (on_vfo caps direct vfo out oper) rig))"
    using excursion [OF assms(1) settled assms(2) _ r1] settled
    by (auto simp: on_vfo_def has_select r1 settled_def split: prod.splits)
qed

lemma set_on_target_keeps:
  "cur \<in> vfos \<Longrightarrow> stationary radio m \<Longrightarrow> keeps (settled radio home cur) (set_on_target caps direct vfo m)"
  unfolding set_on_target_def by (intro keeps_bind keeps_return on_target_keeps stationary_no_out)

lemma set_on_vfo_keeps:
  "cur \<in> vfos \<Longrightarrow> stationary radio m \<Longrightarrow> keeps (settled radio home cur) (set_on_vfo caps direct vfo m)"
  unfolding set_on_vfo_def by (intro keeps_bind keeps_return on_vfo_keeps stationary_no_out)

lemmas target_keeps = on_target_keeps on_vfo_keeps set_on_target_keeps set_on_vfo_keeps

end

lemmas target_op_defs =
  rig_set_level_def rig_set_func_def rig_set_ext_level_def rig_set_ext_func_def rig_set_ctcss_tone_def rig_set_dcs_code_def rig_set_ctcss_sql_def rig_set_dcs_sql_def rig_set_mem_def rig_set_bank_def rig_set_rptr_shift_def rig_set_rptr_offs_def rig_set_rit_def rig_set_xit_def rig_set_ts_def rig_set_ant_def rig_vfo_op_def rig_scan_def rig_send_dtmf_def rig_send_morse_def rig_stop_morse_def rig_send_voice_mem_def rig_get_level_def rig_get_func_def rig_get_ext_level_def rig_get_ext_func_def rig_get_ctcss_tone_def rig_get_dcs_code_def rig_get_ctcss_sql_def rig_get_dcs_sql_def rig_get_mem_def rig_get_rptr_shift_def rig_get_rptr_offs_def rig_get_rit_def rig_get_xit_def rig_get_ts_def rig_get_ant_def rig_recv_dtmf_def rig_set_parm_def rig_get_parm_def rig_set_ext_parm_def rig_get_ext_parm_def

text \<open>C23: no operation on another VFO leaves the radio there. Let the back end be able to
  select the VFOs of a set, leave the radio where it is when a selection fails, and not move
  it in its other calls. Then from a handle settled on a VFO of the set, each of the 40
  operations, for any VFO and any arguments, whether it succeeds or fails and whichever form
  it has, ends settled on that VFO.\<close>

lemma operations_return_home:
  assumes "vfo_selector caps select radio home tracks vfos" and "stationary_caps radio caps"
    and "cur \<in> vfos"
  shows "keeps (settled radio home cur) (rig_set_level caps vfo level val)
     \<and> keeps (settled radio home cur) (rig_set_func caps vfo func status)
     \<and> keeps (settled radio home cur) (rig_set_ext_level caps vfo token val)
     \<and> keeps (settled radio home cur) (rig_set_ext_func caps vfo token status)
     \<and> keeps (settled radio home cur) (rig_set_ctcss_tone caps vfo tone)
     \<and> keeps (settled radio home cur) (rig_set_dcs_code caps vfo tone)
     \<and> keeps (settled radio home cur) (rig_set_ctcss_sql caps vfo tone)
     \<and> keeps (settled radio home cur) (rig_set_dcs_sql caps vfo tone)
     \<and> keeps (settled radio home cur) (rig_set_bank caps vfo ch)
     \<and> keeps (settled radio home cur) (rig_set_rptr_shift caps vfo shift)
     \<and> keeps (settled radio home cur) (rig_set_rptr_offs caps vfo offs)
     \<and> keeps (settled radio home cur) (rig_set_rit caps vfo offs)
     \<and> keeps (settled radio home cur) (rig_set_xit caps vfo offs)
     \<and> keeps (settled radio home cur) (rig_set_ts caps vfo offs)
     \<and> keeps (settled radio home cur) (rig_set_ant caps vfo ant val)
     \<and> keeps (settled radio home cur) (rig_scan caps vfo oper ch)
     \<and> keeps (settled radio home cur) (rig_send_dtmf caps vfo msg)
     \<and> keeps (settled radio home cur) (rig_send_morse caps vfo msg)
     \<and> keeps (settled radio home cur) (rig_stop_morse caps vfo)
     \<and> keeps (settled radio home cur) (rig_send_voice_mem caps vfo ch)
     \<and> keeps (settled radio home cur) (rig_get_level caps vfo level junk val)
     \<and> keeps (settled radio home cur) (rig_get_func caps vfo func status)
     \<and> keeps (settled radio home cur) (rig_get_ext_level caps vfo token val)
     \<and> keeps (settled radio home cur) (rig_get_ext_func caps vfo token status)
     \<and> keeps (settled radio home cur) (rig_get_ctcss_tone caps vfo tone)
     \<and> keeps (settled radio home cur) (rig_get_dcs_code caps vfo tone)
     \<and> keeps (settled radio home cur) (rig_get_ctcss_sql caps vfo tone)
     \<and> keeps (settled radio home cur) (rig_get_dcs_sql caps vfo tone)
     \<and> keeps (settled radio home cur) (rig_get_mem caps vfo ch)
     \<and> keeps (settled radio home cur) (rig_get_rptr_shift caps vfo shift)
     \<and> keeps (settled radio home cur) (rig_get_rptr_offs caps vfo offs)
     \<and> keeps (settled radio home cur) (rig_get_rit caps vfo offs)
     \<and> keeps (settled radio home cur) (rig_get_xit caps vfo offs)
     \<and> keeps (settled radio home cur) (rig_get_ts caps vfo offs)
     \<and> keeps (settled radio home cur) (rig_get_ant caps vfo ant ants)
     \<and> keeps (settled radio home cur) (rig_recv_dtmf caps vfo digits)
     \<and> keeps (settled radio home cur) (rig_set_parm caps level val)
     \<and> keeps (settled radio home cur) (rig_get_parm caps level val)
     \<and> keeps (settled radio home cur) (rig_set_ext_parm caps token val)
     \<and> keeps (settled radio home cur) (rig_get_ext_parm caps token val)"
proof -
  note home = vfo_selector.target_keeps [OF assms(1,3)]
  note moves = keeps_check_rig_arg keeps_option keeps_return keeps_bind keeps_gets keeps_if home
  note stays = stationary_capsD [OF assms(2)]
  show ?thesis
    by (intro conjI)
      (unfold target_op_defs rig_get_level_plain_def case_prod_beta,
       ((rule moves stays | rule stationary_keeps, rule stays | assumption)+))
qed

text \<open>a rig that cannot select VFOs, asked for one that is not current. Nothing is called
  and the handle is unchanged; a setting, tone or memory operation answers
  \<^verbatim>\<open>-RIG_ENTARGET\<close> while the operations of \<^verbatim>\<open>rig.c\<close> answer \<^verbatim>\<open>-RIG_ENAVAIL\<close>,
  the code for a function the rig does not have. A closed handle is refused with
  \<^verbatim>\<open>-RIG_EINVAL\<close> by both.\<close>

lemma operations_without_set_vfo:
  assumes "set_vfo caps = None" and "vfo \<noteq> RIG_VFO_CURR" and "vfo \<noteq> current_vfo rig"
    and "targetable_vfo caps = 0"
    and "set_ctcss_tone caps \<noteq> None" "set_mem caps \<noteq> None" "set_ext_level caps \<noteq> None"
      "set_rit caps \<noteq> None" "set_ts caps \<noteq> None" "send_morse caps \<noteq> None"
  shows "run_state (rig_set_ctcss_tone caps vfo tone) rig
      = (if comm_state rig then - RIG_ENTARGET else - RIG_EINVAL, rig)
    \<and> run_state (rig_set_mem caps vfo ch) rig
      = (if comm_state rig then - RIG_ENTARGET else - RIG_EINVAL, rig)
    \<and> run_state (rig_set_ext_level caps vfo token val) rig
      = (if comm_state rig then - RIG_ENTARGET else - RIG_EINVAL, rig)
    \<and> run_state (rig_set_rit caps vfo offs) rig
      = (if comm_state rig then - RIG_ENAVAIL else - RIG_EINVAL, rig)
    \<and> run_state (rig_set_ts caps vfo offs) rig
      = (if comm_state rig then - RIG_ENAVAIL else - RIG_EINVAL, rig)
    \<and> run_state (rig_send_morse caps vfo msg) rig
      = (if comm_state rig then - RIG_ENAVAIL else - RIG_EINVAL, rig)"
  using assms
  by (auto simp: target_op_defs check_rig_arg_def set_on_target_def set_on_vfo_def on_target_def
      on_vfo_def targetable_def)

lemma operations_without_set_vfo_witness:
  "run_state (rig_set_ctcss_tone
      (no_caps\<lparr>set_ctcss_tone := Some (\<lambda>v t. State_Monad.return 0),
        set_mem := Some (\<lambda>v t. State_Monad.return 0), set_ext_level := Some (\<lambda>v t. State_Monad.return 0),
        set_rit := Some (\<lambda>v t. State_Monad.return 0), set_ts := Some (\<lambda>v t. State_Monad.return 0),
        send_morse := Some (\<lambda>v t. State_Monad.return 0)\<rparr>) RIG_VFO_B 885) (two_vfo_rig 3)
   = (- RIG_ENTARGET, two_vfo_rig 3)"
proof -
  have "RIG_VFO_B \<noteq> RIG_VFO_CURR" "RIG_VFO_B \<noteq> current_vfo (two_vfo_rig 3)" "comm_state (two_vfo_rig 3)"
    by (simp_all add: vfo_defs two_vfo_rig_def zero_rig_def)
  then show ?thesis by (subst operations_without_set_vfo) (simp_all add: no_caps_def)
qed

text \<open>the S meter the front end emulates. On an open handle that offers
  \<^verbatim>\<open>STRENGTH\<close> and \<^verbatim>\<open>RAWSTR\<close> with a calibration table, over a back end without a
  calibrated meter, a raw reading that succeeds is answered with the calibrated value cut to
  an integer, which stays within the table's values; a raw reading that fails is answered with
  its code and leaves the output alone. The handle ends as the raw reading leaves it.\<close>

lemma rig_get_level_emulates_strength:
  assumes "comm_state rig" and "get_level caps = Some f"
    and "has_get_level rig AND RIG_LEVEL_STRENGTH \<noteq> 0" and "has_get_level rig AND RIG_LEVEL_RAWSTR \<noteq> 0"
    and "cap_has_get_level caps AND RIG_LEVEL_STRENGTH = 0" and "str_cal rig \<noteq> []"
    and "run_state (f RIG_LEVEL_RAWSTR RIG_VFO_CURR junk) rig = ((rc, VInt raw), rig')"
    and "str_cal rig' = str_cal rig" and "\<forall>v \<in> snd ` set (str_cal rig). lo \<le> v \<and> v \<le> hi"
  shows "\<exists>v. run_state (rig_get_level caps RIG_VFO_CURR RIG_LEVEL_STRENGTH junk out) rig
      = ((rc, if rc = RIG_OK then VInt v else out), rig')
    \<and> v = c_trunc (rig_raw2val raw (str_cal rig)) \<and> lo \<le> v \<and> v \<le> hi"
proof -
  let ?v = "rig_raw2val raw (str_cal rig)"
  let ?cal = "map (\<lambda>(r, v). (r, of_int v)) (str_cal rig) :: cal_table"
  have "of_int lo \<le> ?v \<and> ?v \<le> of_int hi"
    unfolding rig_raw2val_def
  proof (rule raw2val_in_bounds)
    show "?cal \<noteq> []" using assms(6) by simp
    show "\<forall>v \<in> snd ` set ?cal. of_int lo \<le> v \<and> v \<le> (of_int hi :: real)" using assms(9) by force
  qed
  then have bounds: "lo \<le> c_trunc ?v" "c_trunc ?v \<le> hi"
    by (auto simp: c_trunc_def le_floor_iff floor_le_iff ceiling_le_iff le_ceiling_iff)
  have plain: "run_state (rig_get_level_plain caps RIG_VFO_CURR RIG_LEVEL_RAWSTR junk) rig
      = ((rc, VInt raw), rig')"
    using assms(1,2,4,7)
    by (simp add: rig_get_level_plain_def check_rig_arg_def on_target_def rig_has_get_level_def)
  have "RIG_LEVEL_STRENGTH \<noteq> RIG_LEVEL_RAWSTR" by (simp add: flag_defs)
  then show ?thesis
    using assms(1-6,8) bounds
    by (auto simp: rig_get_level_def rig_has_get_level_def plain)
qed

lemma rig_get_level_emulates_strength_witness:
  "let rig = (two_vfo_rig 3)\<lparr>has_get_level := RIG_LEVEL_STRENGTH OR RIG_LEVEL_RAWSTR,
               str_cal := [(0, -54), (120, 0)]\<rparr>;
       caps = no_caps\<lparr>get_level := Some (\<lambda>l v x. State_Monad.return (RIG_OK, VInt 60))\<rparr>
   in fst (run_state (rig_get_level caps RIG_VFO_CURR RIG_LEVEL_STRENGTH (VInt 0) (VInt 9)) rig)
        = (RIG_OK, VInt (- 27))"
proof -
  let ?rig = "(two_vfo_rig 3)\<lparr>has_get_level := RIG_LEVEL_STRENGTH OR RIG_LEVEL_RAWSTR,
               str_cal := [(0, -54), (120, 0)]\<rparr>"
  let ?f = "\<lambda>l v (x :: value_t). State_Monad.return (RIG_OK, VInt 60) :: (int rig, int \<times> value_t) state"
  let ?caps = "no_caps\<lparr>get_level := Some ?f\<rparr>"
  have opened: "comm_state ?rig" by (simp add: two_vfo_rig_def)
  have bits: "has_get_level ?rig AND RIG_LEVEL_STRENGTH \<noteq> 0" "has_get_level ?rig AND RIG_LEVEL_RAWSTR \<noteq> 0"
    by (simp_all, code_simp+)
  have val: "rig_raw2val 60 [(0, -54), (120, 0)] = - 27"
    by (simp add: rig_raw2val_def rig_raw2val_float_def Let_def)
  have "\<exists>v. run_state (rig_get_level ?caps RIG_VFO_CURR RIG_LEVEL_STRENGTH (VInt 0) (VInt 9)) ?rig
      = ((RIG_OK, if RIG_OK = RIG_OK then VInt v else VInt 9), ?rig)
    \<and> v = c_trunc (rig_raw2val 60 (str_cal ?rig)) \<and> -54 \<le> v \<and> v \<le> 0"
    by (rule rig_get_level_emulates_strength [OF opened _ bits, where f = ?f])
      (simp_all add: no_caps_def)
  then show ?thesis by (auto simp: val c_trunc_def)
qed

end
