(* ===== verification/Hamlib_Models.thy ===== *)
theory Hamlib_Models
  imports Hamlib_Prelude
begin

text \<open>
  Model numbers (\<^verbatim>\<open>include/hamlib/riglist.h\<close>): a family of back ends times a thousand, plus the
  number within the family; those the front end tests for.
\<close>

definition MAX_MODELS_PER_BACKEND :: nat where "MAX_MODELS_PER_BACKEND = 1000"
definition RIG_MAKE_MODEL :: "nat \<Rightarrow> nat \<Rightarrow> nat" where
  "RIG_MAKE_MODEL a b = a * MAX_MODELS_PER_BACKEND + b"
definition RIG_BACKEND_NUM :: "nat \<Rightarrow> nat" where
  "RIG_BACKEND_NUM a = a div MAX_MODELS_PER_BACKEND"
definition RIG_DUMMY :: nat where "RIG_DUMMY = 0"
definition RIG_YAESU :: nat where "RIG_YAESU = 1"
definition RIG_KENWOOD :: nat where "RIG_KENWOOD = 2"
definition RIG_ICOM :: nat where "RIG_ICOM = 3"
definition RIG_MODEL_NETRIGCTL :: nat where "RIG_MODEL_NETRIGCTL = RIG_MAKE_MODEL RIG_DUMMY 2"
definition RIG_MODEL_FTDX101D :: nat where "RIG_MODEL_FTDX101D = RIG_MAKE_MODEL RIG_YAESU 40"
definition RIG_MODEL_IC910 :: nat where "RIG_MODEL_IC910 = RIG_MAKE_MODEL RIG_ICOM 44"
definition RIG_MODEL_NONE :: nat where "RIG_MODEL_NONE = 0"

end
