(* ===== verification/Hamlib_Ptt.thy ===== *)
theory Hamlib_Ptt
  imports Hamlib_Target Hamlib_Models
begin

text \<open>
  Keying the transmitter and reading the squelch: \<^verbatim>\<open>rig_set_ptt\<close>, \<^verbatim>\<open>rig_get_ptt\<close>
  and \<^verbatim>\<open>rig_get_dcd\<close> of \<^verbatim>\<open>src/rig.c\<close>. The port functions they call are the
  argument \<^verbatim>\<open>P\<close>. A \<^verbatim>\<open>switch\<close> that may return from the function or fall out to
  the common end gives a sum: \<^verbatim>\<open>Inl\<close> the code returned at once, \<^verbatim>\<open>Inr\<close> what the
  end of the function works with.
\<close>

subsection \<open>The PTT cache\<close>

definition cache_ptt :: "ptt_t \<Rightarrow> ('p rig, unit) state" where
  "cache_ptt ptt =
     modify (on_cache (\<lambda>t c. stamp_ptt HAMLIB_ELAPSED_SET t (c\<lparr>c_ptt := ptt\<rparr>)))"

definition age_of_ptt :: "('p rig, int) state" where
  "age_of_ptt = State (\<lambda>rig.
     (fst (elapsed_ms (now rig) (time_ptt (cache rig)) HAMLIB_ELAPSED_GET),
      on_cache (stamp_ptt HAMLIB_ELAPSED_GET) rig))"

subsection \<open>rig_set_ptt\<close>

text \<open>The CAT branch. The retry loop runs once: the read-back that could make it run again is
  compiled out.\<close>

definition set_ptt_cat ::
  "'p caps \<Rightarrow> 'p ports \<Rightarrow> vfo_t \<Rightarrow> ptt_t \<Rightarrow> ('p rig, int + int \<times> ptt_t) state" where
  "set_ptt_cat caps P vfo ptt = (case set_ptt caps of
     None \<Rightarrow> State_Monad.return (Inl (- RIG_ENIMPL))
   | Some f \<Rightarrow> do {
       curr_vfo \<leftarrow> gets current_vfo;
       if targetable caps RIG_TARGETABLE_PTT \<or> vfo = RIG_VFO_CURR \<or> vfo = curr_vfo then do {
         rc \<leftarrow> f vfo ptt;
         State_Monad.return (if rc \<noteq> RIG_OK then Inl rc else Inr (rc, ptt))
       }
       else case set_vfo caps of
           None \<Rightarrow> State_Monad.return (Inl (- RIG_ENAVAIL))
         | Some select \<Rightarrow>
             let targetable_ptt =
               (if RIG_BACKEND_NUM (rig_model caps) \<in> {RIG_ICOM, RIG_KENWOOD, RIG_YAESU} then 1
                else junk_int P)
             in do {
               retcode \<leftarrow> (if targetable_ptt = 0 then select vfo else State_Monad.return RIG_OK);
               if retcode = RIG_OK then do {
                 rc \<leftarrow> f vfo ptt;
                 if rc \<noteq> RIG_OK then State_Monad.return (Inl rc)
                 else do {
                   rc2 \<leftarrow> (if targetable_ptt = 0 then select curr_vfo else State_Monad.return RIG_OK);
                   State_Monad.return (Inr (rc2, ptt))
                 }
               }
               else State_Monad.return (Inr (retcode, ptt))
             }
     })"

text \<open>The two serial branches: \<^verbatim>\<open>key\<close> sets the line that keys, \<^verbatim>\<open>idle\<close> the other one.\<close>

definition set_ptt_serial ::
  "'p ports \<Rightarrow> (bool \<Rightarrow> 'p call) \<Rightarrow> (bool \<Rightarrow> 'p call) \<Rightarrow> ptt_t \<Rightarrow> ('p rig, int + int \<times> ptt_t) state" where
  "set_ptt_serial P key idle ptt = do {
     rs \<leftarrow> gets id;
     opened \<leftarrow> (if pttport_pathname rs \<noteq> rigport_pathname rs \<and> pttport_fd rs < 0
                  \<and> ptt \<noteq> RIG_PTT_OFF then do {
         fd \<leftarrow> ser_open P;
         _ \<leftarrow> modify (\<lambda>rig. rig\<lparr>pttport_fd := fd\<rparr>);
         if fd < 0 then State_Monad.return (- RIG_EIO) else idle False
       } else State_Monad.return RIG_OK);
     if opened \<noteq> RIG_OK then State_Monad.return (Inl opened)
     else do {
       retcode \<leftarrow> key (ptt \<noteq> RIG_PTT_OFF);
       rs2 \<leftarrow> gets id;
       _ \<leftarrow> do_when (pttport_pathname rs2 \<noteq> rigport_pathname rs2 \<and> ptt = RIG_PTT_OFF
                     \<and> ptt_share rs2) (ser_close P);
       State_Monad.return (Inr (retcode, ptt))
     }
   }"

definition set_ptt_line :: "'p call \<Rightarrow> ptt_t \<Rightarrow> ('p rig, int + int \<times> ptt_t) state" where
  "set_ptt_line m ptt = do { rc \<leftarrow> m; State_Monad.return (Inr (rc, ptt)) }"

definition set_ptt_switch ::
  "'p caps \<Rightarrow> 'p ports \<Rightarrow> vfo_t \<Rightarrow> ptt_t \<Rightarrow> ('p rig, int + int \<times> ptt_t) state" where
  "set_ptt_switch caps P vfo ptt = do {
     ty \<leftarrow> gets ptt_type;
     case ty of
       RIG_PTT_RIG \<Rightarrow> set_ptt_cat caps P vfo
         (if ptt = RIG_PTT_ON_MIC \<or> ptt = RIG_PTT_ON_DATA then RIG_PTT_ON else ptt)
     | RIG_PTT_RIG_MICDATA \<Rightarrow> set_ptt_cat caps P vfo ptt
     | RIG_PTT_SERIAL_DTR \<Rightarrow> set_ptt_serial P (ser_set_dtr P) (ser_set_rts P) ptt
     | RIG_PTT_SERIAL_RTS \<Rightarrow> set_ptt_serial P (ser_set_rts P) (ser_set_dtr P) ptt
     | RIG_PTT_PARALLEL \<Rightarrow> set_ptt_line (par_ptt_set P ptt) ptt
     | RIG_PTT_CM108 \<Rightarrow> set_ptt_line (cm108_ptt_set P ptt) ptt
     | RIG_PTT_GPIO \<Rightarrow> set_ptt_line (gpio_ptt_set P ptt) ptt
     | RIG_PTT_GPION \<Rightarrow> set_ptt_line (gpio_ptt_set P ptt) ptt
     | RIG_PTT_NONE \<Rightarrow> State_Monad.return (Inl (- RIG_EINVAL))
   }"

definition rig_set_ptt :: "'p caps \<Rightarrow> 'p ports \<Rightarrow> vfo_t \<Rightarrow> ptt_t \<Rightarrow> 'p call" where
  "rig_set_ptt caps P vfo ptt0 = check_rig_arg (- RIG_EINVAL) (do {
     res \<leftarrow> set_ptt_switch caps P vfo ptt0;
     case res of
       Inl rc \<Rightarrow> State_Monad.return rc
     | Inr (retcode, ptt) \<Rightarrow> do {
         _ \<leftarrow> do_when (retcode = RIG_OK) (modify (\<lambda>rig. rig\<lparr>transmit := (ptt \<noteq> RIG_PTT_OFF)\<rparr>));
         _ \<leftarrow> do_when (ptt \<noteq> RIG_PTT_ON) (hl_usleep P (50 * 1000));
         _ \<leftarrow> cache_ptt ptt;
         State_Monad.return retcode
       }
   })"

subsection \<open>rig_get_ptt\<close>

text \<open>The back end's \<^verbatim>\<open>get_ptt\<close>, cached when it succeeds.\<close>

definition get_ptt_cached :: "('p rig, int \<times> ptt_t) state \<Rightarrow> ('p rig, int \<times> ptt_t) state" where
  "get_ptt_cached m = do {
     (retcode, ptt) \<leftarrow> m;
     _ \<leftarrow> do_when (retcode = RIG_OK) (cache_ptt ptt);
     State_Monad.return (retcode, ptt)
   }"

definition get_ptt_cat ::
  "'p caps \<Rightarrow> vfo_t \<Rightarrow> ptt_t \<Rightarrow> ('p rig, int \<times> ptt_t) state" where
  "get_ptt_cat caps vfo ptt = (case get_ptt caps of
     None \<Rightarrow> gets (\<lambda>rs. (RIG_OK, if transmit rs then RIG_PTT_ON else RIG_PTT_OFF))
   | Some f \<Rightarrow> do {
       curr_vfo \<leftarrow> gets current_vfo;
       if targetable caps RIG_TARGETABLE_PTT \<or> vfo = RIG_VFO_CURR \<or> vfo = curr_vfo
       then get_ptt_cached (f vfo ptt)
       else case set_vfo caps of
           None \<Rightarrow> State_Monad.return (- RIG_ENAVAIL, ptt)
         | Some select \<Rightarrow>
             let targetable_ptt = RIG_BACKEND_NUM (rig_model caps) \<in> {0, RIG_ICOM, RIG_KENWOOD, RIG_YAESU}
             in do {
               retcode \<leftarrow> (if \<not> targetable_ptt then select vfo else State_Monad.return RIG_OK);
               if retcode \<noteq> RIG_OK then State_Monad.return (retcode, ptt)
               else do {
                 (rc, ptt') \<leftarrow> f vfo ptt;
                 if \<not> targetable_ptt then do {
                   rc2 \<leftarrow> select curr_vfo;
                   if rc = RIG_OK then do {
                     _ \<leftarrow> cache_ptt ptt';
                     State_Monad.return (rc2, ptt')
                   }
                   else State_Monad.return (rc, ptt')
                 }
                 else State_Monad.return (rc, ptt')
               }
             }
     })"

text \<open>The serial branches: the port's result is cached whatever its code.\<close>

definition get_ptt_serial ::
  "'p caps \<Rightarrow> 'p ports \<Rightarrow> (int \<Rightarrow> ('p rig, int \<times> int) state) \<Rightarrow> vfo_t \<Rightarrow> ptt_t
    \<Rightarrow> ('p rig, int \<times> ptt_t) state" where
  "get_ptt_serial caps P line vfo ptt = (case get_ptt caps of
     Some f \<Rightarrow> get_ptt_cached (f vfo ptt)
   | None \<Rightarrow> do {
       rs \<leftarrow> gets id;
       (retcode, ptt') \<leftarrow>
         (if pttport_pathname rs \<noteq> rigport_pathname rs \<and> pttport_fd rs < 0
          then State_Monad.return (RIG_OK, RIG_PTT_OFF)
          else do {
            (rc, status) \<leftarrow> line (junk_int P);
            State_Monad.return (rc, if status \<noteq> 0 then RIG_PTT_ON else RIG_PTT_OFF)
          });
       _ \<leftarrow> cache_ptt ptt';
       State_Monad.return (retcode, ptt')
     })"

definition get_ptt_line ::
  "'p caps \<Rightarrow> ('p rig, int \<times> ptt_t) state \<Rightarrow> vfo_t \<Rightarrow> ptt_t \<Rightarrow> ('p rig, int \<times> ptt_t) state" where
  "get_ptt_line caps line vfo ptt = (case get_ptt caps of
     Some f \<Rightarrow> get_ptt_cached (f vfo ptt)
   | None \<Rightarrow> get_ptt_cached line)"

text \<open>The GPIO branch stamps the cache before it reads the pin, and does not store the result.\<close>

definition get_ptt_gpio ::
  "'p caps \<Rightarrow> 'p ports \<Rightarrow> vfo_t \<Rightarrow> ptt_t \<Rightarrow> ('p rig, int \<times> ptt_t) state" where
  "get_ptt_gpio caps P vfo ptt = (case get_ptt caps of
     Some f \<Rightarrow> get_ptt_cached (f vfo ptt)
   | None \<Rightarrow> do {
       _ \<leftarrow> modify (on_cache (stamp_ptt HAMLIB_ELAPSED_SET));
       gpio_ptt_get P ptt
     })"

definition rig_get_ptt ::
  "'p caps \<Rightarrow> 'p ports \<Rightarrow> vfo_t \<Rightarrow> ptt_t \<Rightarrow> ('p rig, int \<times> ptt_t) state" where
  "rig_get_ptt caps P vfo ptt = check_rig_arg (- RIG_EINVAL, ptt) (do {
     cache_ms \<leftarrow> age_of_ptt;
     rig \<leftarrow> gets id;
     if cache_ms < timeout_ms (cache rig) then State_Monad.return (RIG_OK, c_ptt (cache rig))
     else case ptt_type rig of
         RIG_PTT_RIG \<Rightarrow> get_ptt_cat caps vfo ptt
       | RIG_PTT_RIG_MICDATA \<Rightarrow> get_ptt_cat caps vfo ptt
       | RIG_PTT_SERIAL_RTS \<Rightarrow> get_ptt_serial caps P (ser_get_rts P) vfo ptt
       | RIG_PTT_SERIAL_DTR \<Rightarrow> get_ptt_serial caps P (ser_get_dtr P) vfo ptt
       | RIG_PTT_PARALLEL \<Rightarrow> get_ptt_line caps (par_ptt_get P ptt) vfo ptt
       | RIG_PTT_CM108 \<Rightarrow> get_ptt_line caps (cm108_ptt_get P ptt) vfo ptt
       | RIG_PTT_GPIO \<Rightarrow> get_ptt_gpio caps P vfo ptt
       | RIG_PTT_GPION \<Rightarrow> get_ptt_gpio caps P vfo ptt
       | RIG_PTT_NONE \<Rightarrow> State_Monad.return (- RIG_ENAVAIL, ptt)
   })"

subsection \<open>rig_get_dcd\<close>

definition get_dcd_serial ::
  "'p ports \<Rightarrow> (int \<Rightarrow> ('p rig, int \<times> int) state) \<Rightarrow> ('p rig, int \<times> dcd_t) state" where
  "get_dcd_serial P line = do {
     (rc, status) \<leftarrow> line (junk_int P);
     State_Monad.return (rc, if status \<noteq> 0 then RIG_DCD_ON else RIG_DCD_OFF)
   }"

definition rig_get_dcd ::
  "'p caps \<Rightarrow> 'p ports \<Rightarrow> vfo_t \<Rightarrow> dcd_t \<Rightarrow> ('p rig, int \<times> dcd_t) state" where
  "rig_get_dcd caps P vfo dcd = check_rig_arg (- RIG_EINVAL, dcd) (do {
     ty \<leftarrow> gets dcd_type;
     case ty of
       RIG_DCD_RIG \<Rightarrow> (case get_dcd caps of
           None \<Rightarrow> State_Monad.return (- RIG_ENIMPL, dcd)
         | Some f \<Rightarrow> on_vfo caps False vfo dcd (f vfo dcd))
     | RIG_DCD_SERIAL_CTS \<Rightarrow> get_dcd_serial P (ser_get_cts P)
     | RIG_DCD_SERIAL_DSR \<Rightarrow> get_dcd_serial P (ser_get_dsr P)
     | RIG_DCD_SERIAL_CAR \<Rightarrow> get_dcd_serial P (ser_get_car P)
     | RIG_DCD_PARALLEL \<Rightarrow> par_dcd_get P dcd
     | RIG_DCD_GPIO \<Rightarrow> gpio_dcd_get P dcd
     | RIG_DCD_GPION \<Rightarrow> gpio_dcd_get P dcd
     | RIG_DCD_NONE \<Rightarrow> State_Monad.return (- RIG_ENAVAIL, dcd)
     | RIG_DCD_CM108 \<Rightarrow> State_Monad.return (- RIG_EINVAL, dcd)
   })"

subsection \<open>What keying promises\<close>

text \<open>The request as the cache keeps it.\<close>

definition ptt_request :: "ptt_type_t \<Rightarrow> ptt_t \<Rightarrow> ptt_t" where
  "ptt_request ty ptt =
     (if ty = RIG_PTT_RIG \<and> (ptt = RIG_PTT_ON_MIC \<or> ptt = RIG_PTT_ON_DATA) then RIG_PTT_ON else ptt)"

definition switch_result :: "ptt_t \<Rightarrow> int + int \<times> ptt_t \<Rightarrow> bool" where
  "switch_result ptt res \<longleftrightarrow> (case res of Inl rc \<Rightarrow> rc \<noteq> RIG_OK | Inr (rc, p) \<Rightarrow> p = ptt)"

lemma set_ptt_cat_result: "switch_result ptt (fst (run_state (set_ptt_cat caps P vfo ptt) rig))"
  by (auto simp: set_ptt_cat_def switch_result_def rc_defs Let_def split: option.splits prod.splits)

lemma set_ptt_serial_result: "switch_result ptt (fst (run_state (set_ptt_serial P key idle ptt) rig))"
  by (auto simp: set_ptt_serial_def switch_result_def split: prod.splits)

lemma set_ptt_line_result: "switch_result ptt (fst (run_state (set_ptt_line m ptt) rig))"
  by (auto simp: set_ptt_line_def switch_result_def split: prod.splits)

lemma set_ptt_switch_result:
  "switch_result (ptt_request (ptt_type rig) ptt) (fst (run_state (set_ptt_switch caps P vfo ptt) rig))"
  using set_ptt_cat_result set_ptt_serial_result set_ptt_line_result
  by (cases "ptt_type rig")
    (auto simp: set_ptt_switch_def ptt_request_def switch_result_def rc_defs)

lemma run_cache_ptt:
  "run_state (cache_ptt ptt) rig
   = ((), on_cache (\<lambda>t c. c\<lparr>c_ptt := ptt, time_ptt := t\<rparr>) rig)"
  by (simp add: cache_ptt_def stamp_ptt_def)

text \<open>How \<^verbatim>\<open>rig_set_ptt\<close> ends: with an error of the \<^verbatim>\<open>switch\<close>, or after the tail.\<close>

lemma rig_set_ptt_outcome:
  assumes "run_state (rig_set_ptt caps P vfo ptt) rig = (rc, rig')" and "comm_state rig"
  obtains (early) "rc \<noteq> RIG_OK" "run_state (set_ptt_switch caps P vfo ptt) rig = (Inl rc, rig')"
  | (tail) rig1 rig2 where
      "run_state (set_ptt_switch caps P vfo ptt) rig
        = (Inr (rc, ptt_request (ptt_type rig) ptt), rig1)"
      "rig2 = rig1\<lparr>transmit := (if rc = RIG_OK then ptt_request (ptt_type rig) ptt \<noteq> RIG_PTT_OFF
                               else transmit rig1)\<rparr>"
      "run_state (do { _ \<leftarrow> do_when (ptt_request (ptt_type rig) ptt \<noteq> RIG_PTT_ON) (hl_usleep P (50 * 1000));
                       cache_ptt (ptt_request (ptt_type rig) ptt) }) rig2 = ((), rig')"
proof -
  obtain res rig1 where sw: "run_state (set_ptt_switch caps P vfo ptt) rig = (res, rig1)" by fastforce
  have res: "switch_result (ptt_request (ptt_type rig) ptt) res"
    using set_ptt_switch_result [of rig ptt caps P vfo] by (simp add: sw)
  show ?thesis
  proof (cases res)
    case (Inl rc0)
    then show ?thesis
      using assms res sw by (intro early) (auto simp: rig_set_ptt_def check_rig_arg_def switch_result_def)
  next
    case (Inr q)
    obtain rc0 where q: "q = (rc0, ptt_request (ptt_type rig) ptt)"
      using res Inr by (cases q) (simp add: switch_result_def)
    have "rc0 = rc"
      using assms sw
      by (auto simp: rig_set_ptt_def check_rig_arg_def Inr q split: if_splits prod.splits)
    then show ?thesis
      using assms sw
      by (intro tail [of rig1 "rig1\<lparr>transmit := (if rc = RIG_OK
            then ptt_request (ptt_type rig) ptt \<noteq> RIG_PTT_OFF else transmit rig1)\<rparr>"])
        (auto simp: rig_set_ptt_def check_rig_arg_def Inr q split: if_splits prod.splits)
  qed
qed

lemma tail_state:
  assumes "run_state (do { _ \<leftarrow> do_when b (hl_usleep P n); cache_ptt ptt }) rig2 = ((), rig')"
  shows "c_ptt (cache rig') = ptt \<and> time_ptt (cache rig') = now rig'"
  using assms by (auto simp: run_cache_ptt split: prod.splits if_splits)

text \<open>C36: what was keyed is what is read. After \<^verbatim>\<open>rig_set_ptt\<close> succeeds, whatever the kind
  of PTT, a read at once answers the state that was set, for any VFO, from the cache (with
  a positive time-out, on an open handle, with a clock that shows nanoseconds). A request for
  microphone or data PTT reads back as plain ``on'' when the rig has plain CAT PTT.\<close>

lemma ptt_set_get:
  assumes "comm_state rig" and "run_state (rig_set_ptt caps P vfo ptt) rig = (RIG_OK, rig')"
    and "comm_state rig'" and "0 < timeout_ms (cache rig')" and "tv_nsec (now rig') \<noteq> 0"
  shows "run_state (rig_get_ptt caps P w x) rig' = ((RIG_OK, ptt_request (ptt_type rig) ptt), rig')"
proof -
  have "c_ptt (cache rig') = ptt_request (ptt_type rig) ptt \<and> time_ptt (cache rig') = now rig'"
    using rig_set_ptt_outcome [OF assms(2,1)] tail_state by metis
  then show ?thesis
    using assms(3-5) age_just_set [OF assms(5)]
    by (simp add: rig_get_ptt_def check_rig_arg_def age_of_ptt_def on_cache_def stamp_ptt_def Let_def
        elapsed_nsec_def)
qed

text \<open>A rig with CAT PTT and a cache of half a second, for the examples.\<close>

definition cat_rig :: "int rig" where
  "cat_rig = (two_vfo_rig 3)\<lparr>ptt_type := RIG_PTT_RIG, cache := zero_cache\<lparr>timeout_ms := 500\<rparr>\<rparr>"

definition cat_caps :: "int caps" where
  "cat_caps = no_caps\<lparr>set_ptt := Some (\<lambda>v p. State_Monad.return RIG_OK)\<rparr>"

lemma ptt_set_get_witness:
  "\<exists>rig'. run_state (rig_set_ptt cat_caps dead_ports RIG_VFO_CURR RIG_PTT_ON_DATA) cat_rig = (RIG_OK, rig')
     \<and> run_state (rig_get_ptt cat_caps dead_ports RIG_VFO_B RIG_PTT_OFF) rig' = ((RIG_OK, RIG_PTT_ON), rig')"
proof -
  obtain rig' where set: "run_state (rig_set_ptt cat_caps dead_ports RIG_VFO_CURR RIG_PTT_ON_DATA) cat_rig
      = (RIG_OK, rig')" and st: "comm_state rig'" "0 < timeout_ms (cache rig')" "tv_nsec (now rig') \<noteq> 0"
    by (auto simp: rig_set_ptt_def check_rig_arg_def set_ptt_switch_def set_ptt_cat_def run_cache_ptt
        cat_rig_def cat_caps_def two_vfo_rig_def zero_rig_def zero_cache_def on_cache_def)
  have "comm_state cat_rig" "ptt_request (ptt_type cat_rig) RIG_PTT_ON_DATA = RIG_PTT_ON"
    by (simp_all add: cat_rig_def two_vfo_rig_def ptt_request_def)
  then show ?thesis using set ptt_set_get [OF _ set st] by auto
qed

text \<open>failures that are remembered as success. When a parallel, CM108 or GPIO line
  cannot be driven, \<^verbatim>\<open>rig_set_ptt\<close> returns the error and leaves \<^verbatim>\<open>transmit\<close>
  alone, but caches the requested state as fresh: until the time-out a read answers
  \<^verbatim>\<open>RIG_OK\<close> with a state the line never had.\<close>

lemma ptt_failure_cached:
  assumes "comm_state rig" and "ptt_type rig = RIG_PTT_PARALLEL"
    and "run_state (par_ptt_set P ptt) rig = (rc, rig)" and "rc \<noteq> RIG_OK"
    and "\<forall>n r. run_state (hl_usleep P n) r = ((), r)"
    and "0 < timeout_ms (cache rig)" and "tv_nsec (now rig) \<noteq> 0"
  shows "\<exists>rig'. run_state (rig_set_ptt caps P vfo ptt) rig = (rc, rig') \<and> transmit rig' = transmit rig
    \<and> run_state (rig_get_ptt caps P w x) rig' = ((RIG_OK, ptt), rig')"
proof -
  have set: "run_state (rig_set_ptt caps P vfo ptt) rig
      = (rc, on_cache (\<lambda>t c. c\<lparr>c_ptt := ptt, time_ptt := t\<rparr>) rig)"
    using assms by (simp add: rig_set_ptt_def check_rig_arg_def set_ptt_switch_def set_ptt_line_def run_cache_ptt)
  moreover have "run_state (rig_get_ptt caps P w x) (on_cache (\<lambda>t c. c\<lparr>c_ptt := ptt, time_ptt := t\<rparr>) rig)
      = ((RIG_OK, ptt), on_cache (\<lambda>t c. c\<lparr>c_ptt := ptt, time_ptt := t\<rparr>) rig)"
    using assms by (simp add: rig_get_ptt_def check_rig_arg_def age_of_ptt_def on_cache_def stamp_ptt_def
        Let_def elapsed_nsec_def)
  ultimately show ?thesis by (auto simp: on_cache_def)
qed

lemma ptt_failure_cached_witness:
  "\<exists>rig'. run_state (rig_set_ptt cat_caps dead_ports RIG_VFO_CURR RIG_PTT_ON)
       (cat_rig\<lparr>ptt_type := RIG_PTT_PARALLEL\<rparr>) = (- RIG_EIO, rig')
     \<and> run_state (rig_get_ptt cat_caps dead_ports RIG_VFO_CURR RIG_PTT_OFF) rig' = ((RIG_OK, RIG_PTT_ON), rig')"
proof -
  let ?rig = "cat_rig\<lparr>ptt_type := RIG_PTT_PARALLEL\<rparr>"
  have "comm_state ?rig" "ptt_type ?rig = RIG_PTT_PARALLEL" "0 < timeout_ms (cache ?rig)"
    "tv_nsec (now ?rig) \<noteq> 0"
    "run_state (par_ptt_set dead_ports RIG_PTT_ON) ?rig = (- RIG_EIO, ?rig)" "- RIG_EIO \<noteq> RIG_OK"
    "\<forall>n r. run_state (hl_usleep dead_ports n) r = ((), r :: int rig)"
    by (simp_all add: cat_rig_def two_vfo_rig_def zero_rig_def zero_cache_def dead_ports_def rc_defs)
  from ptt_failure_cached [OF this(1,2,5,6,7,3,4)] show ?thesis by blast
qed

text \<open>a GPIO read is not cached but looks so. Once the cached state is too old, the first
  read asks the pin and stamps the cache without storing what it saw; the next read
  answers the old cached state, although the pin was just read to be otherwise.\<close>

lemma gpio_read_not_stored:
  assumes "comm_state rig" and "ptt_type rig = RIG_PTT_GPIO" and "get_ptt caps = None"
    and "\<forall>r. run_state (gpio_ptt_get P x) r = ((RIG_OK, pin), r)"
    and "timeout_ms (cache rig) \<le> fst (elapsed_ms (now rig) (time_ptt (cache rig)) HAMLIB_ELAPSED_GET)"
    and "0 < timeout_ms (cache rig)" and "tv_nsec (now rig) \<noteq> 0"
  shows "\<exists>rig'. run_state (rig_get_ptt caps P vfo x) rig = ((RIG_OK, pin), rig')
    \<and> run_state (rig_get_ptt caps P vfo x) rig' = ((RIG_OK, c_ptt (cache rig)), rig')"
proof -
  let ?r1 = "on_cache (\<lambda>t c. c\<lparr>time_ptt := t\<rparr>) rig"
  have "run_state (rig_get_ptt caps P vfo x) rig = ((RIG_OK, pin), ?r1)"
    using assms
    by (simp add: rig_get_ptt_def check_rig_arg_def age_of_ptt_def get_ptt_gpio_def stamp_ptt_def
        on_cache_def not_less del: elapsed_ms.simps(1))
  moreover have "run_state (rig_get_ptt caps P vfo x) ?r1 = ((RIG_OK, c_ptt (cache rig)), ?r1)"
    using assms by (simp add: rig_get_ptt_def check_rig_arg_def age_of_ptt_def on_cache_def stamp_ptt_def
        Let_def elapsed_nsec_def)
  ultimately show ?thesis by blast
qed

lemma gpio_read_not_stored_witness:
  "\<exists>rig'. run_state (rig_get_ptt no_caps (dead_ports\<lparr>gpio_ptt_get := \<lambda>x. State_Monad.return (RIG_OK, RIG_PTT_ON)\<rparr>)
        RIG_VFO_CURR RIG_PTT_OFF) (cat_rig\<lparr>ptt_type := RIG_PTT_GPIO\<rparr>) = ((RIG_OK, RIG_PTT_ON), rig')
    \<and> run_state (rig_get_ptt no_caps (dead_ports\<lparr>gpio_ptt_get := \<lambda>x. State_Monad.return (RIG_OK, RIG_PTT_ON)\<rparr>)
        RIG_VFO_CURR RIG_PTT_OFF) rig' = ((RIG_OK, RIG_PTT_OFF), rig')"
proof -
  let ?rig = "cat_rig\<lparr>ptt_type := RIG_PTT_GPIO\<rparr>"
  let ?P = "dead_ports\<lparr>gpio_ptt_get := \<lambda>x. State_Monad.return (RIG_OK, RIG_PTT_ON)\<rparr> :: int ports"
  have "comm_state ?rig" "ptt_type ?rig = RIG_PTT_GPIO" "get_ptt (no_caps :: int caps) = None"
    "\<forall>r. run_state (gpio_ptt_get ?P RIG_PTT_OFF) r = ((RIG_OK, RIG_PTT_ON), r)"
    "timeout_ms (cache ?rig) \<le> fst (elapsed_ms (now ?rig) (time_ptt (cache ?rig)) HAMLIB_ELAPSED_GET)"
    "0 < timeout_ms (cache ?rig)" "tv_nsec (now ?rig) \<noteq> 0" "c_ptt (cache ?rig) = RIG_PTT_OFF"
    by (simp_all add: cat_rig_def two_vfo_rig_def zero_rig_def zero_cache_def zero_time_def no_caps_def)
  from gpio_read_not_stored [OF this(1-7)] this(8) show ?thesis by auto
qed

text \<open>the first read of a handle that was never keyed or read. If the back end cannot
  answer, its error is returned; but asking stamped the unset time of the cache, so the same
  question asked again before the time-out is answered \<^verbatim>\<open>RIG_OK\<close>, ``off'', without asking
  the back end.\<close>

lemma first_ptt_read_error_forgotten:
  assumes "comm_state rig" and "ptt_type rig = RIG_PTT_RIG" and "get_ptt caps = Some f"
    and "\<forall>r. run_state (f RIG_VFO_CURR x) r = ((rc, y), r)" and "rc \<noteq> RIG_OK"
    and "time_ptt (cache rig) = zero_time" and "c_ptt (cache rig) = RIG_PTT_OFF"
    and "timeout_ms (cache rig) \<in> {1..1000000}" and "tv_nsec (now rig) \<noteq> 0"
  shows "\<exists>rig'. run_state (rig_get_ptt caps P RIG_VFO_CURR x) rig = ((rc, y), rig')
    \<and> run_state (rig_get_ptt caps P RIG_VFO_CURR x) rig' = ((RIG_OK, RIG_PTT_OFF), rig')"
proof -
  let ?r1 = "on_cache (\<lambda>t c. c\<lparr>time_ptt := t\<rparr>) rig"
  have "run_state (rig_get_ptt caps P RIG_VFO_CURR x) rig = ((rc, y), ?r1)"
    using assms
    by (simp add: rig_get_ptt_def check_rig_arg_def age_of_ptt_def get_ptt_cat_def get_ptt_cached_def
        stamp_ptt_def on_cache_def zero_time_def)
  moreover have "run_state (rig_get_ptt caps P RIG_VFO_CURR x) ?r1 = ((RIG_OK, RIG_PTT_OFF), ?r1)"
    using assms by (simp add: rig_get_ptt_def check_rig_arg_def age_of_ptt_def on_cache_def stamp_ptt_def
        Let_def elapsed_nsec_def)
  ultimately show ?thesis by blast
qed

lemma first_ptt_read_error_forgotten_witness:
  "\<exists>rig'. run_state (rig_get_ptt (no_caps\<lparr>get_ptt := Some (\<lambda>v x. State_Monad.return (- RIG_ETIMEOUT, x))\<rparr>)
        dead_ports RIG_VFO_CURR RIG_PTT_OFF) cat_rig = ((- RIG_ETIMEOUT, RIG_PTT_OFF), rig')
    \<and> run_state (rig_get_ptt (no_caps\<lparr>get_ptt := Some (\<lambda>v x. State_Monad.return (- RIG_ETIMEOUT, x))\<rparr>)
        dead_ports RIG_VFO_CURR RIG_PTT_OFF) rig' = ((RIG_OK, RIG_PTT_OFF), rig')"
  by (rule first_ptt_read_error_forgotten [where f = "\<lambda>v x. State_Monad.return (- RIG_ETIMEOUT, x)"])
    (simp_all add: cat_rig_def two_vfo_rig_def zero_rig_def zero_cache_def no_caps_def rc_defs)

end
