(* ===== verification/Hamlib_Ranges.thy ===== *)
theory Hamlib_Ranges
  imports Hamlib_State
begin

text \<open>
  The lookups in a handle's lists (\<^verbatim>\<open>src/rig.c\<close>): pass bands by mode, tuning
  resolution, frequency ranges, and the conversions between relative and absolute power
  that use the transmit ranges. The C arrays have a fixed size and end early at a zero
  entry; a list of the model may be of any length, and the array bound is taken into the
  functions.
\<close>

definition HAMLIB_FLTLSTSIZ :: nat where "HAMLIB_FLTLSTSIZ = 60"
definition HAMLIB_TSLSTSIZ :: nat where "HAMLIB_TSLSTSIZ = 20"
definition HAMLIB_FRQRANGESIZ :: nat where "HAMLIB_FRQRANGESIZ = 30"

subsection \<open>Pass bands\<close>

text \<open>The scans stop at an entry without modes.\<close>

fun filter_for :: "(rmode_t \<times> pbwidth_t) list \<Rightarrow> rmode_t \<Rightarrow> pbwidth_t option" where
  "filter_for [] mode = None"
| "filter_for ((modes, width) # t) mode =
     (if modes = 0 then None
      else if modes AND mode \<noteq> 0 then Some width
      else filter_for t mode)"

definition rig_passband_normal :: "'p rig \<Rightarrow> rmode_t \<Rightarrow> pbwidth_t" where
  "rig_passband_normal rig mode0 =
     (let mode1 = (if mode0 = RIG_MODE_CWR then RIG_MODE_CW else mode0);
          mode = (if mode1 = RIG_MODE_RTTYR then RIG_MODE_RTTY else mode1)
      in case filter_for (take HAMLIB_FLTLSTSIZ (filters rig)) mode of
          Some w \<Rightarrow> w
        | None \<Rightarrow> RIG_PASSBAND_NORMAL)"

text \<open>The inner loops of the narrow and the wide search.\<close>

fun next_filter :: "(pbwidth_t \<Rightarrow> pbwidth_t \<Rightarrow> bool) \<Rightarrow> pbwidth_t \<Rightarrow> rmode_t
    \<Rightarrow> (rmode_t \<times> pbwidth_t) list \<Rightarrow> pbwidth_t" where
  "next_filter better normal mode [] = 0"
| "next_filter better normal mode ((modes, width) # t) =
     (if modes = 0 then 0
      else if modes AND mode \<noteq> 0 \<and> better width normal then width
      else next_filter better normal mode t)"

text \<open>
  The outer loops: they run over the first 59 entries, the inner ones over all 60. The first
  argument counts the entries the outer loop may still look at.
\<close>

fun other_filter :: "nat \<Rightarrow> (pbwidth_t \<Rightarrow> pbwidth_t \<Rightarrow> bool) \<Rightarrow> rmode_t
    \<Rightarrow> (rmode_t \<times> pbwidth_t) list \<Rightarrow> pbwidth_t" where
  "other_filter n better mode [] = 0"
| "other_filter 0 better mode (f # t) = 0"
| "other_filter (Suc n) better mode ((modes, width) # t) =
     (if modes = 0 then 0
      else if modes AND mode \<noteq> 0 then next_filter better width mode t
      else other_filter n better mode t)"

definition rig_passband_narrow :: "'p rig \<Rightarrow> rmode_t \<Rightarrow> pbwidth_t" where
  "rig_passband_narrow rig mode =
     other_filter (HAMLIB_FLTLSTSIZ - 1) (<) mode (take HAMLIB_FLTLSTSIZ (filters rig))"

definition rig_passband_wide :: "'p rig \<Rightarrow> rmode_t \<Rightarrow> pbwidth_t" where
  "rig_passband_wide rig mode =
     other_filter (HAMLIB_FLTLSTSIZ - 1) (>) mode (take HAMLIB_FLTLSTSIZ (filters rig))"

subsection \<open>Tuning resolution\<close>

fun step_for :: "(rmode_t \<times> shortfreq_t) list \<Rightarrow> rmode_t \<Rightarrow> shortfreq_t option" where
  "step_for [] mode = None"
| "step_for ((modes, ts) # t) mode =
     (if ts = 0 then None
      else if modes AND mode \<noteq> 0 then Some ts
      else step_for t mode)"

definition rig_get_resolution :: "'p rig \<Rightarrow> rmode_t \<Rightarrow> int" where
  "rig_get_resolution rig mode =
     (if mode = 0 then - RIG_EINVAL
      else case step_for (take HAMLIB_TSLSTSIZ (tuning_steps rig)) mode of
          Some ts \<Rightarrow> ts
        | None \<Rightarrow> - RIG_EINVAL)"

subsection \<open>Frequency ranges and power\<close>

fun range_for :: "freq_range_t list \<Rightarrow> freq_t \<Rightarrow> rmode_t \<Rightarrow> freq_range_t option" where
  "range_for [] freq mode = None"
| "range_for (r # t) freq mode =
     (if startf r = 0 \<and> endf r = 0 then None
      else if startf r \<le> freq \<and> freq \<le> endf r \<and> range_modes r AND mode \<noteq> 0 then Some r
      else range_for t freq mode)"

definition rig_get_range :: "freq_range_t list \<Rightarrow> freq_t \<Rightarrow> rmode_t \<Rightarrow> freq_range_t option" where
  "rig_get_range range_list freq mode = range_for (take HAMLIB_FRQRANGESIZ range_list) freq mode"

text \<open>
  The power functions take and return \<^verbatim>\<open>unsigned int\<close> milliwatts (natural numbers below
  \<^verbatim>\<open>2^32\<close>; the conversion of the product is exact for ranges that fit).
\<close>

definition rig_power2mW ::
  "'p caps \<Rightarrow> real \<Rightarrow> freq_t \<Rightarrow> rmode_t \<Rightarrow> nat \<Rightarrow> ('p rig, int \<times> nat) state" where
  "rig_power2mW caps pow freq mode out =
     (if pow < 0 \<or> pow > 1 then State_Monad.return (- RIG_EINVAL, out)
      else case power2mW caps of
          Some f \<Rightarrow> f pow freq mode out
        | None \<Rightarrow> do {
            txrange \<leftarrow> gets (\<lambda>rig. rig_get_range (tx_range_list rig) freq mode);
            case txrange of
              None \<Rightarrow> State_Monad.return (- RIG_EINVAL, out)
            | Some r \<Rightarrow> State_Monad.return (RIG_OK, nat (c_trunc (pow * of_int (high_power r))))
          })"

text \<open>
  \<^verbatim>\<open>high_power\<close> is an \<^verbatim>\<open>int\<close> and \<^verbatim>\<open>mwpower\<close> unsigned: the comparison at the end is
  unsigned, which for a range of non-negative power is the comparison of numbers.
\<close>

definition rig_mW2power ::
  "'p caps \<Rightarrow> nat \<Rightarrow> freq_t \<Rightarrow> rmode_t \<Rightarrow> real \<Rightarrow> ('p rig, int \<times> real) state" where
  "rig_mW2power caps mwpower freq mode out =
     (if mwpower = 0 then State_Monad.return (- RIG_EINVAL, out)
      else case mW2power caps of
          Some f \<Rightarrow> f mwpower freq mode out
        | None \<Rightarrow> do {
            txrange \<leftarrow> gets (\<lambda>rig. rig_get_range (tx_range_list rig) freq mode);
            case txrange of
              None \<Rightarrow> State_Monad.return (- RIG_EINVAL, out)
            | Some r \<Rightarrow>
                if high_power r = 0 then State_Monad.return (RIG_OK, 0)
                else let p = of_nat mwpower / of_int (high_power r);
                         pow = (if p > 1 then 1 else p)
                     in State_Monad.return
                          (if int mwpower > high_power r then RIG_OK else - RIG_ETRUNC, pow)
          })"

subsection \<open>What the lookups promise\<close>

lemma filter_for_member:
  "filter_for t mode = Some w \<Longrightarrow> \<exists>m. (m, w) \<in> set t \<and> m AND mode \<noteq> 0"
  by (induction t mode rule: filter_for.induct) (auto split: if_splits)

lemma next_filter_member:
  "next_filter better normal mode t = w \<Longrightarrow> w \<noteq> 0 \<Longrightarrow>
   \<exists>m. (m, w) \<in> set t \<and> m AND mode \<noteq> 0 \<and> better w normal"
  by (induction t) (auto split: if_splits)

lemma other_filter_member:
  "other_filter n better mode t = w \<Longrightarrow> w \<noteq> 0 \<Longrightarrow>
   \<exists>m normal. filter_for t mode = Some normal \<and> (m, w) \<in> set t \<and> m AND mode \<noteq> 0 \<and> better w normal"
proof (induction n better mode t rule: other_filter.induct)
  case (3 n better mode modes width t)
  then show ?case using next_filter_member [of better width mode t w] by (auto split: if_splits)
qed simp_all

lemma other_filter_cases:
  "other_filter n better mode t = 0
   \<or> (\<exists>m normal. filter_for t mode = Some normal \<and> (m, other_filter n better mode t) \<in> set t
        \<and> m AND mode \<noteq> 0 \<and> better (other_filter n better mode t) normal)"
  using other_filter_member [of n better mode t, OF refl] by blast

text \<open>the three pass bands of a mode agree. For every mode but the reversed CW and RTTY
  (whose normal pass band is that of CW and RTTY), the narrow search answers 0 or the width
  of a filter of that mode below the normal width, the wide search answers 0 or the
  width of one above it, and a normal width that is not 0 is the width of a filter of the
  mode.\<close>

lemma passbands_ordered:
  assumes "mode \<noteq> RIG_MODE_CWR" and "mode \<noteq> RIG_MODE_RTTYR"
  shows "(rig_passband_narrow rig mode = 0 \<or> rig_passband_narrow rig mode < rig_passband_normal rig mode)
    \<and> (rig_passband_wide rig mode = 0 \<or> rig_passband_wide rig mode > rig_passband_normal rig mode)
    \<and> (\<forall>w \<in> {rig_passband_narrow rig mode, rig_passband_normal rig mode, rig_passband_wide rig mode}.
          w = 0 \<or> (\<exists>modes. (modes, w) \<in> set (filters rig) \<and> modes AND mode \<noteq> 0))"
proof -
  let ?t = "take HAMLIB_FLTLSTSIZ (filters rig)"
  have sub: "(m, w) \<in> set ?t \<Longrightarrow> (m, w) \<in> set (filters rig)" for m w by (rule in_set_takeD)
  have normal: "rig_passband_normal rig mode
      = (case filter_for ?t mode of Some w \<Rightarrow> w | None \<Rightarrow> RIG_PASSBAND_NORMAL)"
    using assms by (simp add: rig_passband_normal_def)
  show ?thesis
    using other_filter_cases [of "HAMLIB_FLTLSTSIZ - 1" "(<)" mode ?t]
      other_filter_cases [of "HAMLIB_FLTLSTSIZ - 1" "(>)" mode ?t]
      filter_for_member [of ?t mode]
    unfolding normal rig_passband_narrow_def [symmetric] rig_passband_wide_def [symmetric]
    by (auto simp: RIG_PASSBAND_NORMAL_def dest: sub split: option.splits)
qed

lemma passbands_ordered_witness:
  "let rig = (zero_rig zero_time 0 :: int rig)\<lparr>filters :=
       [(RIG_MODE_CW, 500), (RIG_MODE_USB, 2400), (RIG_MODE_USB, 1800), (RIG_MODE_USB, 3000), (0, 0)]\<rparr>
   in rig_passband_narrow rig RIG_MODE_USB = 1800 \<and> rig_passband_normal rig RIG_MODE_USB = 2400
      \<and> rig_passband_wide rig RIG_MODE_USB = 3000
      \<and> (1800 = (0::int) \<or> 1800 < rig_passband_normal rig RIG_MODE_USB)"
proof -
  let ?rig = "(zero_rig zero_time 0 :: int rig)\<lparr>filters :=
       [(RIG_MODE_CW, 500), (RIG_MODE_USB, 2400), (RIG_MODE_USB, 1800), (RIG_MODE_USB, 3000), (0, 0)]\<rparr>"
  have m: "RIG_MODE_USB \<noteq> 0" "RIG_MODE_CW \<noteq> 0" "RIG_MODE_CW AND RIG_MODE_USB = 0"
    "RIG_MODE_USB \<noteq> RIG_MODE_CWR" "RIG_MODE_USB \<noteq> RIG_MODE_RTTYR"
    by code_simp+
  have "rig_passband_narrow ?rig RIG_MODE_USB = 1800" "rig_passband_wide ?rig RIG_MODE_USB = 3000"
    "rig_passband_normal ?rig RIG_MODE_USB = 2400"
    by (simp_all add: rig_passband_narrow_def rig_passband_wide_def rig_passband_normal_def
        HAMLIB_FLTLSTSIZ_def m eval_nat_numeral)
  with passbands_ordered [OF m(4,5), of ?rig] show ?thesis by simp
qed

text \<open>power conversion over the transmit ranges, for a back end without conversions of its
  own. A relative power converts to at most the range's full power, and from full power the
  way back gives 1. The status of \<^verbatim>\<open>rig_mW2power\<close> is the wrong way round: a power
  the range can deliver is converted and reported as truncated, and one beyond it is cut
  to 1 and reported as \<^verbatim>\<open>RIG_OK\<close>.\<close>

lemma power_conversion:
  assumes "power2mW caps = None" and "mW2power caps = None"
    and "rig_get_range (tx_range_list rig) freq mode = Some r" and "0 < high_power r"
    and "0 \<le> rel" and "rel \<le> 1" and "0 < mw"
  shows "(\<exists>n. run_state (rig_power2mW caps rel freq mode out) rig = ((RIG_OK, n), rig)
        \<and> int n \<le> high_power r \<and> (rel = 1 \<longrightarrow> int n = high_power r))
    \<and> (int mw \<le> high_power r \<longrightarrow> run_state (rig_mW2power caps mw freq mode out') rig
          = ((- RIG_ETRUNC, of_nat mw / of_int (high_power r)), rig))
    \<and> (high_power r < int mw \<longrightarrow> run_state (rig_mW2power caps mw freq mode out') rig = ((RIG_OK, 1), rig))"
proof -
  have "rel * of_int (high_power r) \<le> 1 * of_int (high_power r)"
    using assms(4,6) by (intro mult_right_mono) simp_all
  then have le: "\<lfloor>rel * of_int (high_power r)\<rfloor> \<le> high_power r" by (simp add: floor_le_iff)
  have nonneg: "0 \<le> rel * of_int (high_power r)" using assms(4,5) by simp
  have "run_state (rig_power2mW caps rel freq mode out) rig
      = ((RIG_OK, nat \<lfloor>rel * of_int (high_power r)\<rfloor>), rig)"
    using assms(1,3,5,6) nonneg by (simp add: rig_power2mW_def c_trunc_def)
  moreover have "int (nat \<lfloor>rel * of_int (high_power r)\<rfloor>) \<le> high_power r"
    using le nonneg by simp
  moreover have "rel = 1 \<longrightarrow> int (nat \<lfloor>rel * of_int (high_power r)\<rfloor>) = high_power r"
    using assms(4) by simp
  moreover have "int mw \<le> high_power r \<longleftrightarrow> \<not> 1 < real mw / of_int (high_power r)"
    using assms(4) by (simp add: divide_le_eq_1 not_less) linarith
  ultimately show ?thesis
    using assms(2,3,4,7) by (auto simp: rig_mW2power_def Let_def)
qed

lemma power_conversion_witness:
  "let rig = (zero_rig zero_time 0 :: int rig)\<lparr>tx_range_list :=
       [\<lparr>startf = 14000000, endf = 14350000, range_modes = 1, low_power = 5000, high_power = 100000\<rparr>]\<rparr>
   in run_state (rig_mW2power no_caps 50000 14074000 1 0) rig
        = ((- RIG_ETRUNC, 1 / 2), rig)"
proof -
  let ?r = "\<lparr>startf = 14000000, endf = 14350000, range_modes = 1, low_power = 5000, high_power = 100000\<rparr>"
  let ?rig = "(zero_rig zero_time 0 :: int rig)\<lparr>tx_range_list := [?r]\<rparr>"
  have "rig_get_range (tx_range_list ?rig) 14074000 1 = Some ?r"
    by (simp add: rig_get_range_def HAMLIB_FRQRANGESIZ_def)
  from power_conversion [OF _ _ this, of no_caps 1 50000 0 0] show ?thesis
    by (simp add: no_caps_def)
qed

end
