(* ===== verification/Hamlib_Float.thy ===== *)
theory Hamlib_Float
  imports Hamlib_Prelude
begin

text \<open>
  The arithmetic of C's \<^verbatim>\<open>float\<close> and \<^verbatim>\<open>double\<close>: numbers are real numbers, and every
  operation is the exact one followed by rounding to 24 or 53 significant bits, to the nearest number and to an even
  last bit in a tie. The range of exponents is not bounded, so there are no infinities and no denormal numbers.
\<close>

subsection \<open>Rounding to an integer\<close>

definition round_even :: "real \<Rightarrow> int" where
  "round_even y = (let n = \<lfloor>y\<rfloor>; d = y - of_int n in if d < 1 / 2 \<or> d = 1 / 2 \<and> even n then n else n + 1)"

lemma round_even_of_int [simp]: "round_even (of_int n) = n"
  by (simp add: round_even_def)

lemma round_even_error: "\<bar>of_int (round_even y) - y\<bar> \<le> 1 / 2"
  unfolding round_even_def Let_def by (simp; linarith)

lemma round_even_near: "\<bar>y - of_int m\<bar> < 1 / 2 \<Longrightarrow> round_even y = m"
  using round_even_error [of y] by linarith

lemma round_even_mono:
  assumes "x \<le> y"
  shows "round_even x \<le> round_even y"
proof (cases "\<lfloor>x\<rfloor> = \<lfloor>y\<rfloor>")
  case True
  then show ?thesis using assms by (auto simp: round_even_def Let_def)
next
  case False
  then have "\<lfloor>x\<rfloor> + 1 \<le> \<lfloor>y\<rfloor>" using floor_mono [OF assms] by linarith
  moreover have "round_even x \<le> \<lfloor>x\<rfloor> + 1" "\<lfloor>y\<rfloor> \<le> round_even y" by (auto simp: round_even_def Let_def)
  ultimately show ?thesis by linarith
qed

lemma round_even_minus [simp]: "round_even (- y) = - round_even y"
proof (cases "y \<in> \<int>")
  case True
  then obtain n where "y = of_int n" by (auto elim: Ints_cases)
  then show ?thesis by (metis of_int_minus round_even_of_int)
next
  case False
  define n where "n = \<lfloor>y\<rfloor>"
  have "\<lfloor>- y\<rfloor> = - n - 1" using False by (simp add: n_def floor_minus ceiling_altdef) (metis Ints_of_int)
  then show ?thesis by (auto simp: round_even_def Let_def n_def [symmetric])
qed

subsection \<open>Rounding to significant bits\<close>

text \<open>The weight of the last of \<open>p\<close> significant bits.\<close>

definition last_bit :: "nat \<Rightarrow> real \<Rightarrow> real" where
  "last_bit p x = 2 powi (\<lfloor>log 2 \<bar>x\<bar>\<rfloor> - int p + 1)"

definition round_to :: "nat \<Rightarrow> real \<Rightarrow> real" where
  "round_to p x = of_int (round_even (x / last_bit p x)) * last_bit p x"

definition to_float :: "real \<Rightarrow> real" where "to_float = round_to 24"
definition to_double :: "real \<Rightarrow> real" where "to_double = round_to 53"

lemma last_bit_pos [simp]: "0 < last_bit p x"
  by (simp add: last_bit_def)

lemma last_bit_sign [simp]: "last_bit p x \<noteq> 0" "0 \<le> last_bit p x" "\<bar>last_bit p x\<bar> = last_bit p x"
  by (simp_all add: less_imp_le less_imp_neq [symmetric])

lemma last_bit_minus [simp]: "last_bit p (- x) = last_bit p x"
  by (simp add: last_bit_def)

lemma round_to_zero [simp]: "round_to p 0 = 0"
  by (simp add: round_to_def round_even_def)

lemma round_to_minus [simp]: "round_to p (- x) = - round_to p x"
  by (simp add: round_to_def)

text \<open>The binade of a number.\<close>

lemma floor_log2: "0 < x \<Longrightarrow> \<lfloor>log 2 x\<rfloor> = k \<longleftrightarrow> 2 powi k \<le> x \<and> x < 2 powi (k + 1)"
  using floor_log_eq_powr_iff [of x 2 k] powr_real_of_int' [of 2 k] powr_real_of_int' [of 2 "k + 1"]
  by (simp only: one_add_one [symmetric]) simp

lemma last_bit_eqI: "2 powi k \<le> \<bar>x\<bar> \<Longrightarrow> \<bar>x\<bar> < 2 powi (k + 1) \<Longrightarrow> last_bit p x = 2 powi (k - int p + 1)"
proof -
  assume a: "2 powi k \<le> \<bar>x\<bar>" "\<bar>x\<bar> < 2 powi (k + 1)"
  have "0 < (2 :: real) powi k" by simp
  with a(1) have "0 < \<bar>x\<bar>" by linarith
  with a floor_log2 [of "\<bar>x\<bar>" k] show ?thesis by (simp add: last_bit_def)
qed

lemma powi_shift: "0 < p \<Longrightarrow> (2 :: real) powi (e - int p + 1) * 2 ^ (p - 1) = 2 powi e"
  "(2 :: real) powi (e - int p + 1) * 2 ^ p = 2 powi (e + 1)"
  by (simp_all flip: power_int_of_nat power_int_add add: of_nat_diff)

lemma last_bit_bounds:
  assumes "x \<noteq> 0" and "0 < p"
  shows "2 ^ (p - 1) * last_bit p x \<le> \<bar>x\<bar>" and "\<bar>x\<bar> < 2 ^ p * last_bit p x"
proof -
  let ?e = "\<lfloor>log 2 \<bar>x\<bar>\<rfloor>"
  have "2 powi ?e \<le> \<bar>x\<bar>" "\<bar>x\<bar> < 2 powi (?e + 1)" using assms(1) floor_log2 [of "\<bar>x\<bar>" ?e] by simp_all
  then show "2 ^ (p - 1) * last_bit p x \<le> \<bar>x\<bar>" "\<bar>x\<bar> < 2 ^ p * last_bit p x"
    using powi_shift(1) [OF assms(2), of ?e] powi_shift(2) [of ?e p] by (simp_all add: last_bit_def mult.commute)
qed

text \<open>The relative error of one rounding.\<close>

lemma round_to_error_bit: "\<bar>round_to p x - x\<bar> \<le> last_bit p x / 2"
proof -
  let ?u = "last_bit p x"
  have "round_to p x - x = (of_int (round_even (x / ?u)) - x / ?u) * ?u"
    by (simp add: round_to_def left_diff_distrib)
  then have "\<bar>round_to p x - x\<bar> = \<bar>of_int (round_even (x / ?u)) - x / ?u\<bar> * ?u"
    by (simp add: abs_mult)
  also have "\<dots> \<le> 1 / 2 * ?u"
    using round_even_error by (intro mult_right_mono) auto
  finally show ?thesis by simp
qed

lemma round_to_error:
  assumes "0 < p"
  shows "\<bar>round_to p x - x\<bar> \<le> \<bar>x\<bar> / 2 ^ p"
proof (cases "x = 0")
  case False
  have p: "(2 :: real) ^ p = 2 * 2 ^ (p - 1)" using assms by (cases p) simp_all
  have "last_bit p x / 2 \<le> \<bar>x\<bar> / 2 ^ p"
    using last_bit_bounds(1) [OF False assms] by (simp add: p field_simps)
  with round_to_error_bit [of p x] show ?thesis by linarith
qed simp

text \<open>Numbers of \<open>p\<close> bits are not changed, and every result is one.\<close>

lemma round_to_exact:
  assumes "\<bar>m\<bar> \<le> 2 ^ p" and "0 < p"
  shows "round_to p (of_int m * 2 powi k) = of_int m * 2 powi k"
proof (cases "m = 0")
  case False
  let ?x = "of_int m * 2 powi k :: real" and ?e = "\<lfloor>log 2 \<bar>of_int m * 2 powi k :: real\<bar>\<rfloor>"
  let ?j = "?e - int p + 1"
  have x: "?x \<noteq> 0" using False by simp
  have e: "2 powi ?e \<le> \<bar>?x\<bar>" "\<bar>?x\<bar> < 2 powi (?e + 1)" using x floor_log2 [of "\<bar>?x\<bar>" ?e] by simp_all
  have int: "\<exists>n. ?x / last_bit p ?x = of_int n"
  proof (cases "?j \<le> k")
    case True
    then have "(2 :: real) powi k = 2 powi ?j * 2 ^ nat (k - ?j)"
      by (simp flip: power_int_of_nat power_int_add)
    moreover have "last_bit p ?x = 2 powi ?j" by (simp add: last_bit_def)
    ultimately have "?x / last_bit p ?x = of_int m * (2 powi ?j * 2 ^ nat (k - ?j)) / 2 powi ?j" by simp
    also have "\<dots> = of_int (m * 2 ^ nat (k - ?j))" by simp
    finally show ?thesis by blast
  next
    case False
    have "\<bar>?x\<bar> = \<bar>of_int m\<bar> * 2 powi k" by (simp add: abs_mult)
    also have "\<dots> \<le> 2 ^ p * 2 powi k"
    proof (rule mult_right_mono)
      have "real_of_int \<bar>m\<bar> \<le> real_of_int (2 ^ p)" using assms(1) by (simp only: of_int_le_iff)
      then show "\<bar>real_of_int m\<bar> \<le> 2 ^ p" by simp
    qed simp
    also have "\<dots> = 2 powi (int p + k)" by (simp add: power_int_add flip: power_int_of_nat)
    finally have up: "\<bar>?x\<bar> \<le> 2 powi (int p + k)" .
    then have "?e \<le> int p + k"
    proof -
      have "(2 :: real) powi ?e \<le> 2 powi (int p + k)" using e(1) up by linarith
      then show ?thesis
        using power_int_strict_increasing [of "int p + k" ?e "2 :: real"] by (cases "?e \<le> int p + k") simp_all
    qed
    with False have "?e = int p + k" by linarith
    with e(1) up have "\<bar>?x\<bar> = 2 powi ?e" by simp
    moreover have "2 powi ?e = last_bit p ?x * 2 ^ (p - 1)"
      using powi_shift(1) [OF assms(2), of ?e] by (simp add: last_bit_def)
    ultimately have "\<bar>?x\<bar> / last_bit p ?x = of_int (2 ^ (p - 1))"
      by (metis last_bit_pos less_irrefl mult.commute nonzero_mult_div_cancel_right of_int_numeral of_int_power)
    then have "?x / last_bit p ?x = of_int (2 ^ (p - 1)) \<or> ?x / last_bit p ?x = of_int (- (2 ^ (p - 1)))"
      by (cases "0 \<le> ?x") (auto simp: minus_divide_left [symmetric])
    then show ?thesis by blast
  qed
  then obtain n where "?x / last_bit p ?x = of_int n" by blast
  then have "round_to p ?x = ?x / last_bit p ?x * last_bit p ?x" by (simp add: round_to_def)
  then show ?thesis using last_bit_pos [of p ?x] by simp
qed simp

lemma round_to_form:
  assumes "0 < p"
  obtains m k where "round_to p x = of_int m * 2 powi k" and "\<bar>m\<bar> \<le> 2 ^ p"
proof (cases "x = 0")
  case True
  with that [of 0 0] show thesis by simp
next
  case False
  let ?u = "last_bit p x" and ?m = "round_even (x / last_bit p x)"
  have "\<bar>x\<bar> \<le> 2 ^ p * ?u" using last_bit_bounds(2) [OF False assms] by simp
  then have "- of_int (2 ^ p) \<le> x / ?u" "x / ?u \<le> of_int (2 ^ p)"
    by (simp_all add: abs_le_iff divide_le_eq le_divide_eq)
  from round_even_mono [OF this(1)] round_even_mono [OF this(2)]
  have "\<bar>?m\<bar> \<le> 2 ^ p" by (simp only: round_even_minus round_even_of_int)
  moreover have "round_to p x = of_int ?m * 2 powi (\<lfloor>log 2 \<bar>x\<bar>\<rfloor> - int p + 1)" by (simp add: round_to_def last_bit_def)
  ultimately show thesis using that by blast
qed

lemma round_to_rnd: "0 < p \<Longrightarrow> p \<le> q \<Longrightarrow> round_to q (round_to p x) = round_to p x"
proof -
  assume p: "0 < p" "p \<le> q"
  obtain m k where r: "round_to p x = of_int m * 2 powi k" "\<bar>m\<bar> \<le> 2 ^ p" using round_to_form [OF p(1)] .
  have "(2 :: int) ^ p \<le> 2 ^ q" using p(2) by simp
  with r(2) have "\<bar>m\<bar> \<le> 2 ^ q" by linarith
  with p show ?thesis by (simp add: r(1) round_to_exact)
qed

lemma round_to_nonneg: "0 \<le> x \<Longrightarrow> 0 \<le> round_to p x"
  using round_even_mono [of 0 "x / last_bit p x"] round_even_of_int [of 0] by (simp add: round_to_def)

lemma round_to_binade:
  assumes "0 < x" and "0 < p" and "e = \<lfloor>log 2 x\<rfloor>"
  shows "2 powi e \<le> round_to p x" and "round_to p x \<le> 2 powi (e + 1)"
proof -
  let ?u = "last_bit p x"
  have e: "2 powi e \<le> x" "x < 2 powi (e + 1)" using assms(1,3) floor_log2 [of x e] by simp_all
  have u: "?u = 2 powi (e - int p + 1)" using assms(1,3) by (simp add: last_bit_def)
  have sh: "?u * 2 ^ (p - 1) = 2 powi e" "?u * 2 ^ p = 2 powi (e + 1)"
    using powi_shift(1) [OF assms(2), of e] powi_shift(2) [of e p] by (simp_all add: u)
  have lo: "of_int (2 ^ (p - 1)) \<le> x / ?u"
    using e(1) last_bit_pos [of p x] sh(1) by (simp add: le_divide_eq mult.commute)
  have hi: "x / ?u \<le> of_int (2 ^ p)"
    using e(2) last_bit_pos [of p x] sh(2) by (simp add: divide_le_eq mult.commute)
  have m: "2 ^ (p - 1) \<le> round_even (x / ?u)" "round_even (x / ?u) \<le> 2 ^ p"
    using round_even_mono [OF lo] round_even_mono [OF hi] by (simp_all only: round_even_of_int)
  have "real_of_int (2 ^ (p - 1)) * ?u \<le> round_to p x"
    unfolding round_to_def using m(1) last_bit_pos [of p x]
    by (intro mult_right_mono) (simp_all only: of_int_le_iff less_imp_le)
  then show "2 powi e \<le> round_to p x" using sh(1) by (simp add: mult.commute)
  have "round_to p x \<le> real_of_int (2 ^ p) * ?u"
    unfolding round_to_def using m(2) last_bit_pos [of p x]
    by (intro mult_right_mono) (simp_all only: of_int_le_iff less_imp_le)
  then show "round_to p x \<le> 2 powi (e + 1)" using sh(2) by (simp add: mult.commute)
qed

lemma round_to_mono_pos:
  assumes "0 < x" and "x \<le> y" and "0 < p"
  shows "round_to p x \<le> round_to p y"
proof -
  let ?e = "\<lfloor>log 2 x\<rfloor>" and ?f = "\<lfloor>log 2 y\<rfloor>"
  have "?e \<le> ?f" using assms(1,2) by (intro floor_mono) simp
  show ?thesis
  proof (cases "?e = ?f")
    case True
    then have "last_bit p x = last_bit p y" using assms(1,2) by (simp add: last_bit_def)
    then show ?thesis
      using assms(2) round_even_mono [of "x / last_bit p y" "y / last_bit p y"]
      by (simp add: round_to_def mult_right_mono divide_right_mono)
  next
    case False
    with \<open>?e \<le> ?f\<close> have "(2 :: real) powi (?e + 1) \<le> 2 powi ?f" by (intro power_int_increasing) auto
    moreover have "round_to p x \<le> 2 powi (?e + 1)" using assms by (intro round_to_binade) auto
    moreover have "2 powi ?f \<le> round_to p y" using assms by (intro round_to_binade) auto
    ultimately show ?thesis by linarith
  qed
qed

lemma round_to_mono:
  assumes "x \<le> y" and "0 < p"
  shows "round_to p x \<le> round_to p y"
proof (cases "0 < x")
  case True
  with assms show ?thesis by (intro round_to_mono_pos)
next
  case False
  show ?thesis
  proof (cases "0 \<le> y")
    case True
    have "0 \<le> round_to p (- x)" using False by (intro round_to_nonneg) simp
    then show ?thesis using round_to_nonneg [OF True, of p] by simp
  next
    case y: False
    have "round_to p (- y) \<le> round_to p (- x)" using assms y by (intro round_to_mono_pos) simp_all
    then show ?thesis by simp
  qed
qed

subsection \<open>float and double\<close>

lemma to_float_mono: "x \<le> y \<Longrightarrow> to_float x \<le> to_float y"
  and to_double_mono: "x \<le> y \<Longrightarrow> to_double x \<le> to_double y"
  by (simp_all add: to_float_def to_double_def round_to_mono)

lemma to_float_float [simp]: "to_float (to_float x) = to_float x" "to_double (to_float x) = to_float x"
  "to_double (to_double x) = to_double x"
  by (simp_all add: to_float_def to_double_def round_to_rnd)

lemma float_double: "to_float x = x \<Longrightarrow> to_double x = x"
  by (metis to_float_float(2))

lemma to_float_zero [simp]: "to_float 0 = 0" "to_double 0 = 0" "to_float (- x) = - to_float x" "to_double (- x) = - to_double x"
  by (simp_all add: to_float_def to_double_def)

lemma to_float_exact: "\<bar>m\<bar> \<le> 2 ^ 24 \<Longrightarrow> to_float (of_int m * 2 powi k) = of_int m * 2 powi k"
  and to_double_exact: "\<bar>m\<bar> \<le> 2 ^ 53 \<Longrightarrow> to_double (of_int m * 2 powi k) = of_int m * 2 powi k"
  unfolding to_float_def to_double_def by (intro round_to_exact; simp)+

lemma to_float_int: "\<bar>m\<bar> \<le> 2 ^ 24 \<Longrightarrow> to_float (of_int m) = of_int m"
  and to_double_int: "\<bar>m\<bar> \<le> 2 ^ 53 \<Longrightarrow> to_double (of_int m) = of_int m"
  using to_float_exact [of m 0] to_double_exact [of m 0] by simp_all

lemma to_float_numeral [simp]: "(numeral w :: int) \<le> 2 ^ 24 \<Longrightarrow> to_float (numeral w) = numeral w" "to_float 1 = 1"
  and to_double_numeral [simp]: "(numeral w :: int) \<le> 2 ^ 53 \<Longrightarrow> to_double (numeral w) = numeral w" "to_double 1 = 1"
  using to_float_int [of "numeral w"] to_double_int [of "numeral w"] to_float_int [of 1] to_double_int [of 1] by simp_all

text \<open>Rounding does not pass a number that needs none.\<close>

lemma to_float_bounds: "to_float a = a \<Longrightarrow> a \<le> x \<Longrightarrow> a \<le> to_float x" "to_float b = b \<Longrightarrow> x \<le> b \<Longrightarrow> to_float x \<le> b"
  and to_double_bounds: "to_double a = a \<Longrightarrow> a \<le> x \<Longrightarrow> a \<le> to_double x" "to_double b = b \<Longrightarrow> x \<le> b \<Longrightarrow> to_double x \<le> b"
  using to_float_mono [of a x] to_float_mono [of x b] to_double_mono [of a x] to_double_mono [of x b] by simp_all

lemma to_float_error: "\<bar>to_float x - x\<bar> \<le> \<bar>x\<bar> / 2 ^ 24"
  and to_double_error: "\<bar>to_double x - x\<bar> \<le> \<bar>x\<bar> / 2 ^ 53"
  unfolding to_float_def to_double_def by (intro round_to_error; simp)+

lemma to_float_eq_zero [simp]: "to_float x = 0 \<longleftrightarrow> x = 0" "to_double x = 0 \<longleftrightarrow> x = 0"
  using to_float_error [of x] to_double_error [of x] by auto

text \<open>To compute a result: the number lies between two neighbours \<open>m\<close> and \<open>m + 1\<close> at the weight of its last bit.\<close>

lemma round_to_eqI:
  assumes "2 powi k \<le> \<bar>x\<bar>" and "\<bar>x\<bar> < 2 powi (k + 1)" and "u = 2 powi (k - int p + 1)" and "\<bar>x / u - of_int m\<bar> < 1 / 2"
  shows "round_to p x = of_int m * u"
proof -
  have u: "last_bit p x = u" using assms(1-3) by (simp add: last_bit_eqI)
  show ?thesis by (simp add: round_to_def u round_even_near [OF assms(4)])
qed

end
