(* ===== verification/Hamlib_Frontend.thy ===== *)
theory Hamlib_Frontend
  imports Hamlib_Ptt Hamlib_Ranges Hamlib_Float
begin

text \<open>
  The front end's frequency, mode and VFO operations (\<^verbatim>\<open>src/rig.c\<close>): detection of a
  user at the knob, \<^verbatim>\<open>rig_set_vfo\<close>, \<^verbatim>\<open>rig_get_vfo\<close>, \<^verbatim>\<open>rig_set_freq\<close>,
  \<^verbatim>\<open>rig_get_freq\<close>, \<^verbatim>\<open>rig_set_mode\<close>, \<^verbatim>\<open>rig_get_mode\<close>. Code that the
  preprocessor removes (\<^verbatim>\<open>#if 0\<close>) is left out; a retry loop whose condition it makes
  false runs once.
\<close>

subsection \<open>Options of the handle\<close>

definition rig_set_twiddle :: "int \<Rightarrow> 'p call" where
  "rig_set_twiddle seconds = check_rig_arg (- RIG_EINVAL)
     (do { _ \<leftarrow> modify (\<lambda>rig. rig\<lparr>twiddle_timeout := seconds\<rparr>); State_Monad.return RIG_OK })"

definition rig_get_twiddle :: "int \<Rightarrow> ('p rig, int \<times> int) state" where
  "rig_get_twiddle seconds = check_rig_arg (- RIG_EINVAL, seconds)
     (gets (\<lambda>rig. (RIG_OK, twiddle_timeout rig)))"

definition rig_set_uplink :: "int \<Rightarrow> 'p call" where
  "rig_set_uplink val = check_rig_arg (- RIG_EINVAL)
     (do { _ \<leftarrow> modify (\<lambda>rig. rig\<lparr>uplink := val\<rparr>); State_Monad.return RIG_OK })"

subsection \<open>Is somebody turning the knob?\<close>

definition twiddling :: "'p caps \<Rightarrow> ('p rig, bool) state" where
  "twiddling caps = do {
     rig \<leftarrow> gets id;
     if twiddle_timeout rig = 0 then State_Monad.return False
     else case get_freq caps of
         None \<Rightarrow> State_Monad.return False
       | Some f \<Rightarrow> do {
           (retval2, curr_freq) \<leftarrow> f RIG_VFO_CURR 0;
           rig \<leftarrow> gets id;
           first \<leftarrow> (if retval2 = RIG_OK \<and> current_freq rig \<noteq> curr_freq
             then if current_freq rig = 0
               then do {
                 _ \<leftarrow> modify (\<lambda>rig. rig\<lparr>current_freq := curr_freq\<rparr>);
                 State_Monad.return True
               }
               else do {
                 _ \<leftarrow> modify (\<lambda>rig. rig\<lparr>twiddle_time := tv_sec (now rig), current_freq := curr_freq\<rparr>);
                 _ \<leftarrow> rig_set_cache_freq RIG_VFO_CURR curr_freq;
                 State_Monad.return False
               }
             else State_Monad.return False);
           if first then State_Monad.return False
           else do {
             rig \<leftarrow> gets id;
             if tv_sec (now rig) - twiddle_time rig < twiddle_timeout rig
             then do {
               _ \<leftarrow> modify (\<lambda>rig. rig\<lparr>twiddle_state := TWIDDLE_ON\<rparr>);
               State_Monad.return True
             }
             else State_Monad.return False
           }
         }
   }"

subsection \<open>rig_get_vfo and rig_set_vfo\<close>

definition age_of_vfo :: "('p rig, int) state" where
  "age_of_vfo = State (\<lambda>rig.
     (fst (elapsed_ms (now rig) (time_vfo (cache rig)) HAMLIB_ELAPSED_GET),
      on_cache (stamp_vfo HAMLIB_ELAPSED_GET) rig))"

definition cache_vfo_now :: "vfo_t \<Rightarrow> ('p rig, unit) state" where
  "cache_vfo_now vfo =
     modify (on_cache (\<lambda>t c. stamp_vfo HAMLIB_ELAPSED_SET t (c\<lparr>c_vfo := vfo\<rparr>)))"

definition rig_get_vfo :: "'p caps \<Rightarrow> vfo_t \<Rightarrow> ('p rig, int \<times> vfo_t) state" where
  "rig_get_vfo caps vfo = check_rig_arg (- RIG_EINVAL, vfo) (case get_vfo caps of
     None \<Rightarrow> State_Monad.return (- RIG_ENAVAIL, vfo)
   | Some f \<Rightarrow> do {
       cache_ms \<leftarrow> age_of_vfo;
       rig \<leftarrow> gets id;
       if cache_ms < timeout_ms (cache rig) then State_Monad.return (RIG_OK, c_vfo (cache rig))
       else do {
         (retcode, vfo') \<leftarrow> f vfo;
         _ \<leftarrow> (if retcode = RIG_OK
            then do {
              _ \<leftarrow> modify (\<lambda>rig. rig\<lparr>current_vfo := vfo'\<rparr>);
              cache_vfo_now vfo'
            }
            else modify (on_cache (stamp_vfo HAMLIB_ELAPSED_INVALIDATE)));
         State_Monad.return (retcode, vfo')
       }
     })"

text \<open>The part of \<^verbatim>\<open>rig_set_vfo\<close> after all its early returns.\<close>

definition select_vfo :: "'p caps \<Rightarrow> 'p ports \<Rightarrow> (vfo_t \<Rightarrow> 'p call) \<Rightarrow> vfo_t \<Rightarrow> 'p call" where
  "select_vfo caps P select vfo = do {
     vfo_save \<leftarrow> gets current_vfo;
     _ \<leftarrow> do_when (vfo \<noteq> RIG_VFO_CURR) (modify (\<lambda>rig. rig\<lparr>current_vfo := vfo\<rparr>));
     retcode \<leftarrow> select vfo;
     vfo' \<leftarrow> (if retcode = RIG_OK
       then do {
         v \<leftarrow> gets current_vfo;
         _ \<leftarrow> cache_vfo_now v;
         State_Monad.return v
       }
       else do {
         _ \<leftarrow> modify (\<lambda>rig. rig\<lparr>current_vfo := vfo_save\<rparr>);
         State_Monad.return vfo
       });
     case (if retcode = RIG_OK then get_freq caps else None) of
       Some f \<Rightarrow> do {
         (retcode', curr_freq) \<leftarrow> f vfo' (junk_freq P);
         _ \<leftarrow> rig_set_cache_freq vfo' curr_freq;
         State_Monad.return retcode'
       }
     | None \<Rightarrow> do {
         _ \<leftarrow> rig_set_cache_freq RIG_VFO_ALL 0;
         State_Monad.return retcode
       }
   }"

definition rig_set_vfo :: "'p caps \<Rightarrow> 'p ports \<Rightarrow> vfo_t \<Rightarrow> 'p call" where
  "rig_set_vfo caps P vfo0 = check_rig_arg (- RIG_EINVAL) (do {
     vfo1 \<leftarrow> gets (\<lambda>rig. vfo_fixup rig vfo0 (c_split (cache rig)));
     if vfo1 = RIG_VFO_CURR then State_Monad.return RIG_OK
     else do {
       (_, curr_vfo) \<leftarrow> rig_get_vfo caps RIG_VFO_CURR;
       if curr_vfo = vfo1 then State_Monad.return RIG_OK
       else do {
         vfo \<leftarrow> gets (\<lambda>rig. vfo_fixup rig vfo1 (c_split (cache rig)));
         case set_vfo caps of
           None \<Rightarrow> State_Monad.return (- RIG_ENAVAIL)
         | Some select \<Rightarrow> do {
             knob \<leftarrow> twiddling caps;
             if knob then State_Monad.return RIG_OK
             else select_vfo caps P select vfo
           }
       }
     }
   })"

subsection \<open>rig_get_freq\<close>

definition junk_out :: "'p ports \<Rightarrow> freq_t \<Rightarrow> cache_out" where
  "junk_out P freq = \<lparr>o_freq = freq, o_ms_freq = junk_int P, o_mode = of_int (junk_int P),
     o_ms_mode = junk_int P, o_width = junk_int P, o_ms_width = junk_int P\<rparr>"

definition get_freq_direct :: "'p caps \<Rightarrow> 'p ports \<Rightarrow> ('p, freq_t) getter \<Rightarrow> vfo_t \<Rightarrow> freq_t
    \<Rightarrow> ('p rig, (int \<times> freq_t) + (int \<times> freq_t \<times> vfo_t)) state" where
  "get_freq_direct caps P f vfo0 freq0 = do {
     vfo \<leftarrow> gets (\<lambda>rig. if vfo0 = RIG_VFO_CURR \<and> set_vfo caps = None
                       then vfo_fixup rig RIG_VFO_A (c_split (cache rig)) else vfo0);
     (retcode, freq1) \<leftarrow> f vfo freq0;
     freq \<leftarrow> (if freq1 = 0 then do {
         (_, c_out) \<leftarrow> rig_get_cache vfo (junk_out P freq1);
         State_Monad.return (o_freq c_out)
       } else State_Monad.return freq1);
     _ \<leftarrow> (if retcode = RIG_OK then rig_set_cache_freq vfo freq else State_Monad.return RIG_OK);
     State_Monad.return (Inr (retcode, freq, vfo))
   }"

definition get_freq_swap :: "'p caps \<Rightarrow> ('p, freq_t) getter \<Rightarrow> vfo_t \<Rightarrow> vfo_t \<Rightarrow> freq_t
    \<Rightarrow> ('p rig, (int \<times> freq_t) + (int \<times> freq_t \<times> vfo_t)) state" where
  "get_freq_swap caps f curr_vfo vfo freq0 = (case set_vfo caps of
     None \<Rightarrow> State_Monad.return (Inl (- RIG_ENAVAIL, freq0))
   | Some select \<Rightarrow> do {
       rc \<leftarrow> select vfo;
       if rc \<noteq> RIG_OK then State_Monad.return (Inl (rc, freq0))
       else do {
         (retcode, freq) \<leftarrow> f vfo freq0;
         rc2 \<leftarrow> (if curr_vfo \<noteq> RIG_VFO_NONE then select curr_vfo else State_Monad.return RIG_OK);
         if retcode = RIG_OK then do {
           _ \<leftarrow> rig_set_cache_freq vfo freq;
           State_Monad.return (Inr (rc2, freq, vfo))
         }
         else State_Monad.return (Inr (retcode, freq, vfo))
       }
     })"

text \<open>The corrections at the end, and the cache.\<close>

definition get_freq_end :: "int \<Rightarrow> freq_t \<Rightarrow> vfo_t \<Rightarrow> ('p rig, int \<times> freq_t) state" where
  "get_freq_end retcode freq0 vfo = do {
     rig \<leftarrow> gets id;
     let freq1 = (if vfo_comp rig \<noteq> 0 then to_double (freq0 / to_double (1 + vfo_comp rig)) else freq0);
     _ \<leftarrow> do_when (retcode = RIG_OK \<and> (vfo = RIG_VFO_CURR \<or> vfo = current_vfo rig))
            (modify (\<lambda>rig. rig\<lparr>current_freq := freq1\<rparr>));
     let freq = (if lo_freq rig \<noteq> 0 then to_double (freq1 + lo_freq rig) else freq1);
     _ \<leftarrow> rig_set_cache_freq vfo freq;
     State_Monad.return (retcode, freq)
   }"

definition get_freq_uncached ::
  "'p caps \<Rightarrow> 'p ports \<Rightarrow> vfo_t \<Rightarrow> vfo_t \<Rightarrow> freq_t \<Rightarrow> ('p rig, int \<times> freq_t) state" where
  "get_freq_uncached caps P curr_vfo vfo freq = (case get_freq caps of
     None \<Rightarrow> State_Monad.return (- RIG_ENAVAIL, freq)
   | Some f \<Rightarrow> do {
       rig \<leftarrow> gets id;
       res \<leftarrow> (if targetable caps RIG_TARGETABLE_FREQ \<or> vfo = RIG_VFO_CURR \<or> vfo = current_vfo rig
                 \<or> (vfo_opt rig = 1 \<and> rig_model caps = RIG_MODEL_NETRIGCTL)
               then get_freq_direct caps P f vfo freq
               else get_freq_swap caps f curr_vfo vfo freq);
       case res of
         Inl r \<Rightarrow> State_Monad.return r
       | Inr (retcode, freq', vfo') \<Rightarrow> get_freq_end retcode freq' vfo'
     })"

definition get_freq_via_cache ::
  "'p caps \<Rightarrow> 'p ports \<Rightarrow> vfo_t \<Rightarrow> vfo_t \<Rightarrow> freq_t \<Rightarrow> ('p rig, int \<times> freq_t) state" where
  "get_freq_via_cache caps P curr_vfo vfo freq = do {
     (_, c_out) \<leftarrow> rig_get_cache vfo (junk_out P freq);
     rig \<leftarrow> gets id;
     if o_freq c_out \<noteq> 0 \<and> (o_ms_freq c_out < timeout_ms (cache rig)
          \<or> timeout_ms (cache rig) = HAMLIB_CACHE_ALWAYS \<or> use_cached_freq rig)
     then State_Monad.return (RIG_OK, o_freq c_out)
     else get_freq_uncached caps P curr_vfo vfo (o_freq c_out)
   }"

definition rig_get_freq ::
  "'p caps \<Rightarrow> 'p ports \<Rightarrow> vfo_t \<Rightarrow> freq_t \<Rightarrow> ('p rig, int \<times> freq_t) state" where
  "rig_get_freq caps P vfo0 freq = check_rig_arg (- RIG_EINVAL, freq) (do {
     rig \<leftarrow> gets id;
     let curr_vfo = current_vfo rig;
     let vfo1 = vfo_fixup rig vfo0 (c_split (cache rig));
     let vfo = (if vfo1 = RIG_VFO_CURR then curr_vfo else vfo1);
     if (uplink rig = 1 \<and> vfo = RIG_VFO_SUB) \<or> (uplink rig = 2 \<and> vfo = RIG_VFO_MAIN)
     then do {
       (_, c_out) \<leftarrow> rig_get_cache vfo (junk_out P freq);
       State_Monad.return (RIG_OK, o_freq c_out)
     }
     else if (vfo = RIG_VFO_A \<or> vfo = RIG_VFO_MAIN) \<and> c_split (cache rig) = RIG_SPLIT_ON
       \<and> (rig_model caps = RIG_MODEL_FTDX101D \<or> rig_model caps = RIG_MODEL_IC910)
     then do {
       (retcode, ptt) \<leftarrow> rig_get_ptt caps P RIG_VFO_CURR (junk_ptt P);
       if retcode \<noteq> RIG_OK then State_Monad.return (retcode, freq)
       else if ptt \<noteq> RIG_PTT_OFF then gets (\<lambda>rig. (RIG_OK, c_freq (cache rig) MainA))
       else get_freq_via_cache caps P curr_vfo vfo freq
     }
     else get_freq_via_cache caps P curr_vfo vfo freq
   })"

subsection \<open>rig_set_freq\<close>

definition set_freq_ignored :: "'p caps \<Rightarrow> 'p ports \<Rightarrow> vfo_t \<Rightarrow> vfo_t \<Rightarrow> ('p rig, int + int) state" where
  "set_freq_ignored caps P vfo vfo_save = do {
     _ \<leftarrow> (if vfo \<noteq> vfo_save \<and> vfo \<noteq> RIG_VFO_CURR then rig_set_vfo caps P vfo_save
         else State_Monad.return RIG_OK);
     State_Monad.return (Inl RIG_OK)
   }"

definition set_freq_direct ::
  "'p caps \<Rightarrow> 'p ports \<Rightarrow> ('p, freq_t) setter \<Rightarrow> vfo_t \<Rightarrow> vfo_t \<Rightarrow> freq_t \<Rightarrow> ('p rig, int + int) state" where
  "set_freq_direct caps P f vfo vfo_save freq = do {
     knob \<leftarrow> twiddling caps;
     if knob then set_freq_ignored caps P vfo vfo_save
     else do {
       retcode \<leftarrow> f vfo freq;
       if retcode = - RIG_ENTARGET then State_Monad.return (Inl RIG_OK)
       else if retcode \<noteq> RIG_OK then State_Monad.return (Inl retcode)
       else do {
         _ \<leftarrow> rig_set_cache_freq vfo 0;
         State_Monad.return (Inr retcode)
       }
     }
   }"

definition set_freq_swap ::
  "'p caps \<Rightarrow> 'p ports \<Rightarrow> ('p, freq_t) setter \<Rightarrow> vfo_t \<Rightarrow> vfo_t \<Rightarrow> freq_t \<Rightarrow> ('p rig, int + int) state" where
  "set_freq_swap caps P f vfo vfo_save freq =
     (if set_vfo caps = None then State_Monad.return (Inl (- RIG_ENAVAIL))
      else do {
        _ \<leftarrow> rig_set_vfo caps P vfo;
        knob \<leftarrow> twiddling caps;
        if knob then set_freq_ignored caps P vfo vfo_save
        else do { retcode \<leftarrow> f vfo freq; State_Monad.return (Inr retcode) }
      })"

text \<open>Reading back, when the radio may have rounded the frequency. \<^verbatim>\<open>Inl\<close> is an early
  return with an error.\<close>

definition set_freq_verify ::
  "'p caps \<Rightarrow> 'p ports \<Rightarrow> vfo_t \<Rightarrow> freq_t \<Rightarrow> freq_t \<Rightarrow> int \<Rightarrow> ('p rig, int + int \<times> freq_t) state" where
  "set_freq_verify caps P vfo freq freq_new retcode =
     (if retcode = RIG_OK \<and> get_freq caps \<noteq> None
         \<and> (c_trunc freq mod 100 \<noteq> 0 \<or> freq > 100000000)
      then do {
        _ \<leftarrow> rig_set_cache_freq RIG_VFO_ALL 0;
        (rc, freq_new') \<leftarrow> rig_get_freq caps P vfo freq_new;
        State_Monad.return (if rc \<noteq> RIG_OK then Inl rc else Inr (rc, freq_new'))
      }
      else State_Monad.return (Inr (retcode, freq_new)))"

definition set_freq_end ::
  "'p caps \<Rightarrow> 'p ports \<Rightarrow> vfo_t \<Rightarrow> vfo_t \<Rightarrow> freq_t \<Rightarrow> int \<Rightarrow> 'p call" where
  "set_freq_end caps P vfo vfo_save freq_new retcode = do {
     cur \<leftarrow> gets current_vfo;
     _ \<leftarrow> do_when (vfo = RIG_VFO_CURR \<or> vfo = cur) (modify (\<lambda>rig. rig\<lparr>current_freq := freq_new\<rparr>));
     _ \<leftarrow> rig_set_cache_freq vfo freq_new;
     _ \<leftarrow> (if vfo \<noteq> RIG_VFO_CURR then rig_set_vfo caps P vfo_save else State_Monad.return RIG_OK);
     State_Monad.return retcode
   }"

definition rig_set_freq :: "'p caps \<Rightarrow> 'p ports \<Rightarrow> vfo_t \<Rightarrow> freq_t \<Rightarrow> 'p call" where
  "rig_set_freq caps P vfo0 freq0 = check_rig_arg (- RIG_EINVAL) (do {
     _ \<leftarrow> modify (\<lambda>rig. rig\<lparr>twiddle_state := TWIDDLE_OFF\<rparr>);
     rig \<leftarrow> gets id;
     let freq1 = (if lo_freq rig \<noteq> 0 then to_double (freq0 - lo_freq rig) else freq0);
     let freq = (if vfo_comp rig \<noteq> 0 then to_double (freq1 + to_double (vfo_comp rig * freq1)) else freq1);
     case set_freq caps of
       None \<Rightarrow> State_Monad.return (- RIG_ENAVAIL)
     | Some f \<Rightarrow> do {
         let vfo_save = current_vfo rig;
         let vfo = vfo_fixup rig vfo0 (c_split (cache rig));
         res \<leftarrow> (if targetable caps RIG_TARGETABLE_FREQ \<or> vfo = RIG_VFO_CURR \<or> vfo = current_vfo rig
                 then set_freq_direct caps P f vfo vfo_save freq
                 else set_freq_swap caps P f vfo vfo_save freq);
         case res of
           Inl rc \<Rightarrow> State_Monad.return rc
         | Inr rc \<Rightarrow> do {
             ver \<leftarrow> set_freq_verify caps P vfo freq freq0 rc;
             case ver of
               Inl rc' \<Rightarrow> State_Monad.return rc'
             | Inr (rc', freq_new) \<Rightarrow> set_freq_end caps P vfo vfo_save freq_new rc'
           }
       }
   })"

subsection \<open>rig_set_mode and rig_get_mode\<close>

definition set_mode_swap ::
  "'p caps \<Rightarrow> ('p, rmode_t \<times> pbwidth_t) setter \<Rightarrow> vfo_t \<Rightarrow> rmode_t \<Rightarrow> pbwidth_t
    \<Rightarrow> ('p rig, int + int) state" where
  "set_mode_swap caps f vfo mode width = do {
     rig \<leftarrow> gets id;
     if c_mode (cache rig) MainB = mode then State_Monad.return (Inl RIG_OK)
     else case set_vfo caps of
         None \<Rightarrow> State_Monad.return (Inl (- RIG_ENAVAIL))
       | Some select \<Rightarrow> do {
           rc \<leftarrow> select vfo;
           if rc \<noteq> RIG_OK then State_Monad.return (Inl rc)
           else do {
             retcode \<leftarrow> f vfo (mode, width);
             rc2 \<leftarrow> select (current_vfo rig);
             State_Monad.return (Inr (if retcode = RIG_OK then rc2 else retcode))
           }
         }
   }"

definition rig_set_mode :: "'p caps \<Rightarrow> vfo_t \<Rightarrow> rmode_t \<Rightarrow> pbwidth_t \<Rightarrow> 'p call" where
  "rig_set_mode caps vfo0 mode width = check_rig_arg (- RIG_EINVAL) (do {
     rig \<leftarrow> gets id;
     if c_ptt (cache rig) \<noteq> RIG_PTT_OFF then State_Monad.return RIG_OK
     else case set_mode caps of
         None \<Rightarrow> State_Monad.return (- RIG_ENAVAIL)
       | Some f \<Rightarrow> do {
           let vfo1 = (if vfo0 = RIG_VFO_CURR then current_vfo rig else vfo0);
           let vfo = vfo_fixup rig vfo1 (c_split (cache rig));
           res \<leftarrow> (if targetable caps RIG_TARGETABLE_MODE \<or> vfo = current_vfo rig
                   then do { rc \<leftarrow> f vfo (mode, width); State_Monad.return (Inr rc) }
                   else set_mode_swap caps f vfo mode width);
           case res of
             Inl rc \<Rightarrow> State_Monad.return rc
           | Inr retcode \<Rightarrow>
               if retcode \<noteq> RIG_OK then State_Monad.return retcode
               else do {
                 _ \<leftarrow> rig_set_cache_mode vfo mode width;
                 State_Monad.return retcode
               }
         }
   })"

definition get_mode_swap ::
  "'p caps \<Rightarrow> ('p, rmode_t \<times> pbwidth_t) getter \<Rightarrow> vfo_t \<Rightarrow> rmode_t \<times> pbwidth_t
    \<Rightarrow> ('p rig, (int \<times> rmode_t \<times> pbwidth_t) + (int \<times> rmode_t \<times> pbwidth_t)) state" where
  "get_mode_swap caps f vfo out = (case set_vfo caps of
     None \<Rightarrow> State_Monad.return (Inl (- RIG_ENAVAIL, out))
   | Some select \<Rightarrow> do {
       curr_vfo \<leftarrow> gets current_vfo;
       rc \<leftarrow> select (if vfo = RIG_VFO_CURR then RIG_VFO_A else vfo);
       if rc \<noteq> RIG_OK then State_Monad.return (Inl (rc, out))
       else do {
         (retcode, out') \<leftarrow> f vfo out;
         rc2 \<leftarrow> select curr_vfo;
         State_Monad.return (Inr (if retcode = RIG_OK then rc2 else retcode, out'))
       }
     })"

definition get_mode_end ::
  "vfo_t \<Rightarrow> int \<Rightarrow> rmode_t \<Rightarrow> pbwidth_t \<Rightarrow> ('p rig, int \<times> rmode_t \<times> pbwidth_t) state" where
  "get_mode_end vfo retcode mode width0 = do {
     rig \<leftarrow> gets id;
     _ \<leftarrow> do_when (retcode = RIG_OK \<and> (vfo = RIG_VFO_CURR \<or> vfo = current_vfo rig))
            (modify (\<lambda>rig. rig\<lparr>current_mode := mode, current_width := width0\<rparr>));
     let width = (if width0 = RIG_PASSBAND_NORMAL \<and> mode \<noteq> RIG_MODE_NONE
                  then rig_passband_normal rig mode else width0);
     _ \<leftarrow> rig_set_cache_mode vfo mode width;
     State_Monad.return (retcode, mode, width)
   }"

definition rig_get_mode :: "'p caps \<Rightarrow> 'p ports \<Rightarrow> vfo_t \<Rightarrow> rmode_t \<times> pbwidth_t
    \<Rightarrow> ('p rig, int \<times> rmode_t \<times> pbwidth_t) state" where
  "rig_get_mode caps P vfo0 mw = check_rig_arg (- RIG_EINVAL, mw) (case get_mode caps of
     None \<Rightarrow> State_Monad.return (- RIG_ENAVAIL, mw)
   | Some f \<Rightarrow> do {
       vfo \<leftarrow> gets (\<lambda>rig. vfo_fixup rig vfo0 (c_split (cache rig)));
       (_, c_out) \<leftarrow> rig_get_cache vfo ((junk_out P (junk_freq P))\<lparr>o_mode := RIG_MODE_NONE, o_width := snd mw\<rparr>);
       rig \<leftarrow> gets id;
       let limit = timeout_ms (cache rig);
       if limit = HAMLIB_CACHE_ALWAYS \<or> use_cached_mode rig
          \<or> (o_mode c_out \<noteq> RIG_MODE_NONE \<and> o_ms_mode c_out < limit \<and> o_ms_width c_out < limit)
       then State_Monad.return (RIG_OK, o_mode c_out, o_width c_out)
       else do {
         res \<leftarrow> (if targetable caps RIG_TARGETABLE_MODE \<or> vfo = RIG_VFO_CURR \<or> vfo = current_vfo rig
                 then do { r \<leftarrow> f vfo (o_mode c_out, o_width c_out); State_Monad.return (Inr r) }
                 else get_mode_swap caps f vfo (o_mode c_out, o_width c_out));
         case res of
           Inl r \<Rightarrow> State_Monad.return r
         | Inr (retcode, mode, width) \<Rightarrow> get_mode_end vfo retcode mode width
       }
     })"

subsection \<open>Switching the radio on and off\<close>

definition rig_set_powerstat :: "'p caps \<Rightarrow> int \<Rightarrow> 'p call" where
  "rig_set_powerstat caps status = check_rig_arg (- RIG_EINVAL) (case set_powerstat caps of
     None \<Rightarrow> State_Monad.return (- RIG_ENAVAIL)
   | Some f \<Rightarrow> f status)"

definition rig_get_powerstat :: "'p caps \<Rightarrow> int \<Rightarrow> ('p rig, int \<times> int) state" where
  "rig_get_powerstat caps status = check_rig_arg (- RIG_EINVAL, status) (case get_powerstat caps of
     None \<Rightarrow> State_Monad.return (- RIG_ENAVAIL, status)
   | Some f \<Rightarrow> f status)"

definition rig_reset :: "'p caps \<Rightarrow> int \<Rightarrow> 'p call" where
  "rig_reset caps reset = check_rig_arg (- RIG_EINVAL) (case cap_reset caps of
     None \<Rightarrow> State_Monad.return (- RIG_ENAVAIL)
   | Some f \<Rightarrow> f reset)"

end
