(* ===== verification/Hamlib_Split.thy ===== *)
theory Hamlib_Split
  imports Hamlib_Frontend
begin

text \<open>
  Split operation of the front end (\<^verbatim>\<open>src/rig.c\<close>): transmitting on another VFO, frequency
  or mode than receiving. Retry loops whose condition the preprocessor makes false run once. One
  branch of \<^verbatim>\<open>rig_set_split_mode\<close> calls \<^verbatim>\<open>caps->set_split_mode\<close> where it is known to
  be null; the value of that branch is the arbitrary \<^verbatim>\<open>junk_int\<close>.
\<close>

subsection \<open>rig_set_split_vfo and rig_get_split_vfo\<close>

definition cache_split_now :: "split_t \<Rightarrow> vfo_t \<Rightarrow> ('p rig, unit) state" where
  "cache_split_now split txv = modify (on_cache (\<lambda>t c.
     stamp_split HAMLIB_ELAPSED_SET t (c\<lparr>c_split := split, c_split_vfo := txv\<rparr>)))"

definition age_of_split :: "('p rig, int) state" where
  "age_of_split = State (\<lambda>rig.
     (fst (elapsed_ms (now rig) (time_split (cache rig)) HAMLIB_ELAPSED_GET),
      on_cache (stamp_split HAMLIB_ELAPSED_GET) rig))"

text \<open>Which VFOs to use, and where the handle notes them.\<close>

definition split_vfos :: "'p caps \<Rightarrow> vfo_t \<Rightarrow> split_t \<Rightarrow> vfo_t \<Rightarrow> ('p rig, vfo_t \<times> vfo_t) state" where
  "split_vfos caps rxv0 split txv0 =
     (if cap_has_get_func caps AND RIG_FUNC_SATMODE \<noteq> 0 then State_Monad.return (rxv0, txv0)
      else do {
        let rxv1 = (if txv0 = RIG_VFO_A then (if split = RIG_SPLIT_ON then RIG_VFO_B else RIG_VFO_A)
                       else if txv0 = RIG_VFO_B then (if split = RIG_SPLIT_ON then RIG_VFO_A else RIG_VFO_B)
                       else rxv0);
        rig \<leftarrow> gets id;
        let rxv = vfo_fixup rig rxv1 split;
        let txv = vfo_fixup rig txv0 split;
        _ \<leftarrow> modify (\<lambda>rig. rig\<lparr>rx_vfo := rxv, tx_vfo := txv\<rparr>);
        State_Monad.return (rxv, txv)
      })"

definition note_split :: "int \<Rightarrow> split_t \<Rightarrow> vfo_t \<Rightarrow> 'p call" where
  "note_split retcode split txv = do {
     _ \<leftarrow> do_when (retcode = RIG_OK) (modify (\<lambda>rig. rig\<lparr>tx_vfo := txv\<rparr>));
     _ \<leftarrow> cache_split_now split txv;
     State_Monad.return retcode
   }"

definition set_split_swap ::
  "'p caps \<Rightarrow> ('p, split_t \<times> vfo_t) setter \<Rightarrow> vfo_t \<Rightarrow> split_t \<Rightarrow> vfo_t \<Rightarrow> 'p call" where
  "set_split_swap caps f rxv split txv = (case set_vfo caps of
     None \<Rightarrow> State_Monad.return (- RIG_ENAVAIL)
   | Some select \<Rightarrow> do {
       curr_vfo \<leftarrow> gets current_vfo;
       rc \<leftarrow> (if targetable caps RIG_TARGETABLE_FREQ then State_Monad.return RIG_OK else select rxv);
       if rc \<noteq> RIG_OK then State_Monad.return rc
       else do {
         retcode \<leftarrow> f rxv (split, txv);
         rc2 \<leftarrow> (if targetable caps RIG_TARGETABLE_FREQ then State_Monad.return RIG_OK else select curr_vfo);
         note_split (if retcode = RIG_OK then rc2 else retcode) split txv
       }
     })"

definition rig_set_split_vfo ::
  "'p caps \<Rightarrow> 'p ports \<Rightarrow> vfo_t \<Rightarrow> split_t \<Rightarrow> vfo_t \<Rightarrow> 'p call" where
  "rig_set_split_vfo caps P rxv0 split txv0 = check_rig_arg (- RIG_EINVAL) (case set_split_vfo caps of
     None \<Rightarrow> State_Monad.return (- RIG_ENAVAIL)
   | Some f \<Rightarrow> do {
       rig \<leftarrow> gets id;
       if c_ptt (cache rig) \<noteq> RIG_PTT_OFF then State_Monad.return RIG_OK
       else do {
         (rxv, txv) \<leftarrow> split_vfos caps rxv0 split txv0;
         _ \<leftarrow> (if \<not> targetable caps RIG_TARGETABLE_FREQ \<and> rig_model caps \<noteq> RIG_MODEL_NETRIGCTL
             then rig_set_vfo caps P (if rxv = RIG_VFO_B then RIG_VFO_B else RIG_VFO_A)
             else State_Monad.return RIG_OK);
         rig \<leftarrow> gets id;
         if rxv = RIG_VFO_CURR \<or> rxv = current_vfo rig
         then
           (if c_split (cache rig) = split \<and> c_split_vfo (cache rig) = txv then State_Monad.return RIG_OK
            else do {
              retcode \<leftarrow> f rxv (split, txv);
              note_split retcode split txv
            })
         else set_split_swap caps f rxv split txv
       }
     })"

definition rig_get_split_vfo ::
  "'p caps \<Rightarrow> vfo_t \<Rightarrow> split_t \<times> vfo_t \<Rightarrow> ('p rig, int \<times> split_t \<times> vfo_t) state" where
  "rig_get_split_vfo caps vfo out = check_rig_arg (- RIG_EINVAL, out) (case get_split_vfo caps of
     None \<Rightarrow> gets (\<lambda>rig. (RIG_OK, c_split (cache rig), c_split_vfo (cache rig)))
   | Some f \<Rightarrow> do {
       cache_ms \<leftarrow> age_of_split;
       rig \<leftarrow> gets id;
       if cache_ms < timeout_ms (cache rig)
       then State_Monad.return (RIG_OK, c_split (cache rig), c_split_vfo (cache rig))
       else if vfo = RIG_VFO_CURR \<or> vfo = current_vfo rig
       then do {
         (retcode, split, tx) \<leftarrow> f vfo (fst out, tx_vfo rig);
         _ \<leftarrow> cache_split_now split tx;
         State_Monad.return (retcode, split, tx)
       }
       else if set_vfo caps = None then State_Monad.return (- RIG_ENAVAIL, fst out, tx_vfo rig)
       else do {
         (retcode, split, tx) \<leftarrow> f vfo (fst out, tx_vfo rig);
         _ \<leftarrow> (if retcode = RIG_OK then cache_split_now split tx else State_Monad.return ());
         State_Monad.return (retcode, split, tx)
       }
     })"

subsection \<open>Leaving for the transmit VFO and coming back\<close>

text \<open>Selecting the VFO, or else toggling; \<^verbatim>\<open>None\<close> when the rig can do neither.\<close>

definition leave_for :: "'p caps \<Rightarrow> vfo_t \<Rightarrow> vfo_t \<Rightarrow> ('p rig, int option) state" where
  "leave_for caps vfo target = (case set_vfo caps of
     Some select \<Rightarrow> do { rc \<leftarrow> select target; State_Monad.return (Some rc) }
   | None \<Rightarrow> (case cap_vfo_op caps of
       Some toggle \<Rightarrow>
         if rig_has_vfo_op caps RIG_OP_TOGGLE \<noteq> 0
         then do { rc \<leftarrow> toggle vfo RIG_OP_TOGGLE; State_Monad.return (Some rc) }
         else State_Monad.return None
     | None \<Rightarrow> State_Monad.return None))"

definition come_back :: "'p caps \<Rightarrow> vfo_t \<Rightarrow> vfo_t \<Rightarrow> 'p call" where
  "come_back caps vfo target = (case set_vfo caps of
     Some select \<Rightarrow> select target
   | None \<Rightarrow> (case cap_vfo_op caps of
       Some toggle \<Rightarrow> toggle vfo RIG_OP_TOGGLE
     | None \<Rightarrow> State_Monad.return RIG_OK))"

definition tx_vfo_for :: "'p rig \<Rightarrow> vfo_t \<Rightarrow> vfo_t" where
  "tx_vfo_for rig vfo = (if vfo = RIG_VFO_CURR \<or> vfo = RIG_VFO_TX then tx_vfo rig else vfo)"

text \<open>The first error counts.\<close>

definition first_error :: "int \<Rightarrow> int \<Rightarrow> int" where
  "first_error retcode rc2 = (if retcode = RIG_OK then rc2 else retcode)"

subsection \<open>rig_set_split_freq and rig_get_split_freq\<close>

definition set_split_freq_away ::
  "'p caps \<Rightarrow> 'p ports \<Rightarrow> vfo_t \<Rightarrow> vfo_t \<Rightarrow> freq_t \<Rightarrow> 'p call" where
  "set_split_freq_away caps P vfo txv tx_freq = do {
     curr_vfo \<leftarrow> gets current_vfo;
     left \<leftarrow> leave_for caps vfo txv;
     case left of
       None \<Rightarrow> State_Monad.return (- RIG_ENAVAIL)
     | Some rc \<Rightarrow>
         if rc \<noteq> RIG_OK then State_Monad.return rc
         else do {
           retcode \<leftarrow> (case set_split_freq caps of
               Some f \<Rightarrow> f vfo tx_freq
             | None \<Rightarrow> rig_set_freq caps P RIG_VFO_CURR tx_freq);
           rc2 \<leftarrow> (if set_vfo caps \<noteq> None \<and> targetable caps RIG_TARGETABLE_FREQ
                  then State_Monad.return RIG_OK else come_back caps vfo curr_vfo);
           State_Monad.return (first_error retcode rc2)
         }
   }"

definition rig_set_split_freq :: "'p caps \<Rightarrow> 'p ports \<Rightarrow> vfo_t \<Rightarrow> freq_t \<Rightarrow> 'p call" where
  "rig_set_split_freq caps P vfo0 tx_freq = check_rig_arg (- RIG_EINVAL) (do {
     txv \<leftarrow> gets (\<lambda>rig. tx_vfo_for rig vfo0);
     (_, tfreq) \<leftarrow> rig_get_freq caps P txv 0;
     if tfreq = tx_freq then State_Monad.return RIG_OK
     else do {
       rig \<leftarrow> gets id;
       case (if vfo0 = RIG_VFO_CURR \<or> vfo0 = RIG_VFO_TX \<or> txv = current_vfo rig
                \<or> targetable caps RIG_TARGETABLE_FREQ then set_split_freq caps else None) of
         Some f \<Rightarrow> f vfo0 tx_freq
       | None \<Rightarrow>
           (case set_freq caps of
             Some _ \<Rightarrow> rig_set_freq caps P txv tx_freq
           | None \<Rightarrow> set_split_freq_away caps P (vfo_fixup rig vfo0 (c_split (cache rig))) txv tx_freq)
     }
   })"

text \<open>Where \<^verbatim>\<open>rig_get_split_freq\<close> returns to: \<^verbatim>\<open>save_vfo\<close> is overwritten.\<close>

definition split_home :: "'p rig \<Rightarrow> vfo_t" where
  "split_home rig = (if VFO_HAS_MAIN_SUB rig then RIG_VFO_MAIN else RIG_VFO_A)"

definition stays_put :: "'p caps \<Rightarrow> bool" where
  "stays_put caps \<longleftrightarrow> set_vfo caps \<noteq> None
     \<and> (rig_has_vfo_op caps RIG_OP_XCHG \<noteq> 0 \<or> targetable caps RIG_TARGETABLE_FREQ)"

definition get_split_freq_away ::
  "'p caps \<Rightarrow> vfo_t \<Rightarrow> vfo_t \<Rightarrow> freq_t \<Rightarrow> ('p rig, int \<times> freq_t) state" where
  "get_split_freq_away caps vfo txv freq = do {
     left \<leftarrow> (if stays_put caps then State_Monad.return (Some RIG_OK) else leave_for caps vfo txv);
     case left of
       None \<Rightarrow> State_Monad.return (- RIG_ENAVAIL, freq)
     | Some rc \<Rightarrow>
         if rc \<noteq> RIG_OK then State_Monad.return (rc, freq)
         else do {
           (retcode, freq') \<leftarrow> (case get_split_freq caps of
               Some f \<Rightarrow> f vfo freq
             | None \<Rightarrow> (case get_freq caps of
                 Some f \<Rightarrow> f RIG_VFO_CURR freq
               | None \<Rightarrow> State_Monad.return (- RIG_ENIMPL, freq)));
           home \<leftarrow> gets split_home;
           rc2 \<leftarrow> (if stays_put caps then State_Monad.return RIG_OK else come_back caps vfo home);
           State_Monad.return (first_error retcode rc2, freq')
         }
   }"

definition rig_get_split_freq :: "'p caps \<Rightarrow> vfo_t \<Rightarrow> freq_t \<Rightarrow> ('p rig, int \<times> freq_t) state" where
  "rig_get_split_freq caps vfo0 freq = check_rig_arg (- RIG_EINVAL, freq) (do {
     rig \<leftarrow> gets id;
     let vfo = vfo_fixup rig vfo0 (c_split (cache rig));
     case (if vfo = RIG_VFO_CURR \<or> vfo = RIG_VFO_TX \<or> vfo = current_vfo rig then get_split_freq caps else None) of
       Some f \<Rightarrow> f vfo freq
     | None \<Rightarrow>
         (case (if targetable caps RIG_TARGETABLE_FREQ then get_freq caps else None) of
           Some f \<Rightarrow> f (tx_vfo_for rig vfo) freq
         | None \<Rightarrow> get_split_freq_away caps vfo (tx_vfo_for rig vfo) freq)
   })"

subsection \<open>rig_set_split_mode and rig_get_split_mode\<close>

definition split_rx_vfo :: "vfo_t \<Rightarrow> vfo_t \<Rightarrow> vfo_t" where
  "split_rx_vfo vfo txv =
     (if vfo \<noteq> RIG_VFO_CURR then vfo
      else if txv = RIG_VFO_B then RIG_VFO_A
      else if txv = RIG_VFO_A then RIG_VFO_B
      else if txv = RIG_VFO_MAIN then RIG_VFO_SUB
      else if txv = RIG_VFO_SUB then RIG_VFO_MAIN
      else vfo)"

definition tx_mode_cached :: "'p rig \<Rightarrow> vfo_t \<Rightarrow> rmode_t \<Rightarrow> bool" where
  "tx_mode_cached rig txv tx_mode \<longleftrightarrow>
     txv AND (RIG_VFO_A OR RIG_VFO_MAIN OR RIG_VFO_MAIN_A OR RIG_VFO_SUB_A) \<noteq> 0
       \<and> tx_mode = c_mode (cache rig) MainA
     \<or> txv AND (RIG_VFO_B OR RIG_VFO_SUB OR RIG_VFO_MAIN_B OR RIG_VFO_SUB_B) \<noteq> 0
       \<and> tx_mode = c_mode (cache rig) MainB"

definition set_split_mode_away ::
  "'p caps \<Rightarrow> 'p ports \<Rightarrow> vfo_t \<Rightarrow> vfo_t \<Rightarrow> vfo_t \<Rightarrow> rmode_t \<Rightarrow> pbwidth_t \<Rightarrow> 'p call" where
  "set_split_mode_away caps P vfo rxv txv tx_mode tx_width = do {
     _ \<leftarrow> rig_set_split_vfo caps P rxv RIG_SPLIT_OFF rxv;
     left \<leftarrow> leave_for caps vfo txv;
     case left of
       None \<Rightarrow> State_Monad.return RIG_OK
     | Some rc \<Rightarrow>
         if rc \<noteq> RIG_OK then State_Monad.return rc
         else do {
           retcode \<leftarrow> (case set_split_mode caps of
               Some f \<Rightarrow> f vfo (tx_mode, tx_width)
             | None \<Rightarrow> (case set_mode caps of
                 Some f \<Rightarrow> f RIG_VFO_CURR (tx_mode, tx_width)
               | None \<Rightarrow> State_Monad.return (- RIG_ENIMPL)));
           rc2 \<leftarrow> come_back caps vfo rxv;
           _ \<leftarrow> rig_set_split_vfo caps P rxv RIG_SPLIT_ON txv;
           State_Monad.return (first_error retcode rc2)
         }
   }"

definition rig_set_split_mode ::
  "'p caps \<Rightarrow> 'p ports \<Rightarrow> vfo_t \<Rightarrow> rmode_t \<Rightarrow> pbwidth_t \<Rightarrow> 'p call" where
  "rig_set_split_mode caps P vfo tx_mode tx_width = check_rig_arg (- RIG_EINVAL) (do {
     rig \<leftarrow> gets id;
     let netrigctl = (rig_model caps = RIG_MODEL_NETRIGCTL);
     if c_ptt (cache rig) \<noteq> RIG_PTT_OFF then State_Monad.return RIG_OK
     else case (if vfo = RIG_VFO_CURR \<or> vfo = RIG_VFO_TX \<or> vfo = current_vfo rig \<or> netrigctl
                then set_split_mode caps else None) of
       Some f \<Rightarrow> f vfo (tx_mode, tx_width)
     | None \<Rightarrow> do {
         let txv = (if vfo = RIG_VFO_CURR \<or> vfo = RIG_VFO_TX \<or> tx_vfo rig \<noteq> RIG_VFO_NONE
                    then tx_vfo rig else vfo);
         case (if targetable caps RIG_TARGETABLE_MODE \<or> netrigctl then set_mode caps else None) of
           Some f \<Rightarrow> f txv (tx_mode, tx_width)
         | None \<Rightarrow>
             if tx_mode_cached rig txv tx_mode then State_Monad.return RIG_OK
             else if netrigctl
             then (case set_split_mode caps of
                 Some f \<Rightarrow> f vfo (tx_mode, tx_width)
               | None \<Rightarrow> State_Monad.return (junk_int P))
             else set_split_mode_away caps P vfo (split_rx_vfo vfo txv) txv tx_mode tx_width
       }
   })"

definition get_split_mode_away :: "'p caps \<Rightarrow> vfo_t \<Rightarrow> vfo_t \<Rightarrow> rmode_t \<times> pbwidth_t
    \<Rightarrow> ('p rig, int \<times> rmode_t \<times> pbwidth_t) state" where
  "get_split_mode_away caps vfo txv out = do {
     curr_vfo \<leftarrow> gets current_vfo;
     left \<leftarrow> leave_for caps vfo txv;
     case left of
       None \<Rightarrow> State_Monad.return (- RIG_ENAVAIL, out)
     | Some rc \<Rightarrow>
         if rc \<noteq> RIG_OK then State_Monad.return (rc, out)
         else do {
           (retcode, mode, width) \<leftarrow> (case get_split_mode caps of
               Some f \<Rightarrow> f vfo out
             | None \<Rightarrow> (case get_mode caps of
                 Some f \<Rightarrow> f RIG_VFO_CURR out
               | None \<Rightarrow> State_Monad.return (- RIG_ENIMPL, out)));
           rc2 \<leftarrow> come_back caps vfo curr_vfo;
           rig \<leftarrow> gets id;
           State_Monad.return (first_error retcode rc2, mode,
             (if width = RIG_PASSBAND_NORMAL \<and> mode \<noteq> RIG_MODE_NONE then rig_passband_normal rig mode else width))
         }
   }"

definition rig_get_split_mode :: "'p caps \<Rightarrow> vfo_t \<Rightarrow> rmode_t \<times> pbwidth_t
    \<Rightarrow> ('p rig, int \<times> rmode_t \<times> pbwidth_t) state" where
  "rig_get_split_mode caps vfo out = check_rig_arg (- RIG_EINVAL, out) (do {
     rig \<leftarrow> gets id;
     case (if vfo = RIG_VFO_CURR \<or> vfo = RIG_VFO_TX \<or> vfo = current_vfo rig then get_split_mode caps else None) of
       Some f \<Rightarrow> f vfo out
     | None \<Rightarrow>
         (case (if targetable caps RIG_TARGETABLE_MODE then get_mode caps else None) of
           Some f \<Rightarrow> f (tx_vfo_for rig vfo) out
         | None \<Rightarrow> get_split_mode_away caps vfo (tx_vfo_for rig vfo) out)
   })"

subsection \<open>rig_set_split_freq_mode and rig_get_split_freq_mode\<close>

definition rig_set_split_freq_mode ::
  "'p caps \<Rightarrow> 'p ports \<Rightarrow> vfo_t \<Rightarrow> freq_t \<Rightarrow> rmode_t \<Rightarrow> pbwidth_t \<Rightarrow> 'p call" where
  "rig_set_split_freq_mode caps P vfo0 tx_freq tx_mode tx_width = check_rig_arg (- RIG_EINVAL) (do {
     rig \<leftarrow> gets id;
     _ \<leftarrow> (if c_split (cache rig) \<noteq> RIG_SPLIT_OFF then State_Monad.return RIG_OK
         else if current_vfo rig AND (RIG_VFO_A OR RIG_VFO_MAIN) \<noteq> 0
         then rig_set_split_vfo caps P RIG_VFO_A RIG_SPLIT_ON RIG_VFO_B
         else rig_set_split_vfo caps P RIG_VFO_B RIG_SPLIT_ON RIG_VFO_A);
     vfo \<leftarrow> gets (\<lambda>rig. vfo_fixup rig RIG_VFO_TX (c_split (cache rig)));
     case set_split_freq_mode caps of
       Some f \<Rightarrow> f vfo (tx_freq, tx_mode, tx_width)
     | None \<Rightarrow> do {
         retcode \<leftarrow> rig_set_split_freq caps P vfo tx_freq;
         if retcode = RIG_OK then rig_set_split_mode caps P vfo tx_mode tx_width
         else State_Monad.return retcode
       }
   })"

definition rig_get_split_freq_mode :: "'p caps \<Rightarrow> vfo_t \<Rightarrow> freq_t \<times> rmode_t \<times> pbwidth_t
    \<Rightarrow> ('p rig, int \<times> freq_t \<times> rmode_t \<times> pbwidth_t) state" where
  "rig_get_split_freq_mode caps vfo out = check_rig_arg (- RIG_EINVAL, out) (case get_split_freq_mode caps of
     Some f \<Rightarrow> f vfo out
   | None \<Rightarrow> do {
       (retcode, freq) \<leftarrow> rig_get_split_freq caps vfo (fst out);
       if retcode = RIG_OK
       then do {
         (retcode', mw) \<leftarrow> rig_get_split_mode caps vfo (snd out);
         State_Monad.return (retcode', freq, mw)
       }
       else State_Monad.return (retcode, freq, snd out)
     })"

subsection \<open>What split operation promises\<close>

lemma split_vfos_frame:
  assumes "run_state (split_vfos caps a split b) rig = ((rxv, txv), rig1)"
  shows "cache rig1 = cache rig" "current_vfo rig1 = current_vfo rig" "comm_state rig1 = comm_state rig"
    "now rig1 = now rig" "priv rig1 = priv rig"
  using assms by (auto simp: split_vfos_def Let_def split: if_splits)

lemma run_note_split:
  "run_state (note_split rc split txv) rig = (rc, on_cache (\<lambda>t c. stamp_split HAMLIB_ELAPSED_SET t
      (c\<lparr>c_split := split, c_split_vfo := txv\<rparr>)) (if rc = RIG_OK then rig\<lparr>tx_vfo := txv\<rparr> else rig))"
  by (simp add: note_split_def cache_split_now_def)

lemma get_split_fresh:
  assumes "comm_state rig" and "tv_nsec (time_split (cache rig)) \<noteq> 0"
    and "0 \<le> elapsed_nsec (time_split (cache rig)) (now rig)"
    and "elapsed_nsec (time_split (cache rig)) (now rig) div 1000000 < timeout_ms (cache rig)"
  shows "run_state (rig_get_split_vfo caps v out) rig = ((RIG_OK, c_split (cache rig), c_split_vfo (cache rig)), rig)"
  using assms
  by (simp add: rig_get_split_vfo_def check_rig_arg_def age_of_split_def stamp_split_def on_cache_def Let_def
      split: option.split)

text \<open>Queries of the split state, each for a VFO and at a time, and their answers.\<close>

fun split_queries :: "'p caps \<Rightarrow> split_t \<times> vfo_t \<Rightarrow> (vfo_t \<times> timespec) list \<Rightarrow> 'p rig \<Rightarrow> (int \<times> split_t \<times> vfo_t) list" where
  "split_queries caps out [] rig = []"
| "split_queries caps out ((v, t) # qs) rig =
     (let (a, rig') = run_state (rig_get_split_vfo caps v out) (rig\<lparr>now := t\<rparr>) in a # split_queries caps out qs rig')"

definition not_older :: "int \<Rightarrow> timespec \<Rightarrow> timespec \<Rightarrow> bool" where
  "not_older ms t0 t \<longleftrightarrow> 0 \<le> elapsed_nsec t0 t \<and> elapsed_nsec t0 t div 1000000 < ms"

lemma split_queries_fresh:
  assumes "comm_state rig" and "tv_nsec (time_split (cache rig)) \<noteq> 0"
    and "\<forall>(v, t) \<in> set qs. not_older (timeout_ms (cache rig)) (time_split (cache rig)) t"
  shows "split_queries caps out qs rig = replicate (length qs) (RIG_OK, c_split (cache rig), c_split_vfo (cache rig))"
  using assms
proof (induction qs arbitrary: rig)
  case (Cons q qs)
  obtain v t where q: "q = (v, t)" by force
  have "run_state (rig_get_split_vfo caps v out) (rig\<lparr>now := t\<rparr>)
      = ((RIG_OK, c_split (cache rig), c_split_vfo (cache rig)), rig\<lparr>now := t\<rparr>)"
    using get_split_fresh [of "rig\<lparr>now := t\<rparr>" caps v out] Cons.prems by (simp add: q not_older_def)
  then show ?case using Cons.IH [of "rig\<lparr>now := t\<rparr>"] Cons.prems by (simp add: q)
qed simp

text \<open>C25: split is remembered as asked for, also when the radio refuses. On a handle of a rig that
  targets VFOs, not transmitting, let a split request for the current VFO differ from the cached one,
  let the back end answer \<open>rc0\<close> to it and change nothing but its private data, and let the nanoseconds of the clock
  at that time not be 0 (such a stamp counts as none). The caller gets \<open>rc0\<close>; and all
  queries of the split state, for any VFOs and at any times from then until the cache time-out, are answered
  with \<^verbatim>\<open>RIG_OK\<close> and the requested split and transmit VFO, whether \<open>rc0\<close> is success or an error.\<close>

lemma split_remembered_as_asked:
  assumes "comm_state rig" and "c_ptt (cache rig) = RIG_PTT_OFF" and "targetable caps RIG_TARGETABLE_FREQ"
    and "set_split_vfo caps = Some f" and "run_state (split_vfos caps rxv0 split txv0) rig = ((rxv, txv), rig1)"
    and "rxv \<in> {RIG_VFO_CURR, current_vfo rig}"
    and "(c_split (cache rig), c_split_vfo (cache rig)) \<noteq> (split, txv)"
    and "run_state (f rxv (split, txv)) rig1 = (rc0, rig1\<lparr>priv := p\<rparr>)"
    and "tv_nsec (now rig) \<noteq> 0" and "\<forall>(v, t) \<in> set qs. not_older (timeout_ms (cache rig)) (now rig) t"
    and "run_state (rig_set_split_vfo caps P rxv0 split txv0) rig = (rc, rig')"
  shows "rc = rc0 \<and> split_queries caps out qs rig' = replicate (length qs) (RIG_OK, split, txv)"
proof -
  note frame = split_vfos_frame [OF assms(5)]
  have "run_state (rig_set_split_vfo caps P rxv0 split txv0) rig
      = run_state (note_split rc0 split txv) (rig1\<lparr>priv := p\<rparr>)"
    using assms(1-8) by (auto simp: rig_set_split_vfo_def check_rig_arg_def frame)
  then have run: "rc = rc0" "rig' = on_cache (\<lambda>t c. stamp_split HAMLIB_ELAPSED_SET t
      (c\<lparr>c_split := split, c_split_vfo := txv\<rparr>))
      (if rc0 = RIG_OK then rig1\<lparr>priv := p, tx_vfo := txv\<rparr> else rig1\<lparr>priv := p\<rparr>)"
    using assms(11) by (simp_all add: run_note_split split: if_splits)
  have "comm_state rig' \<and> now rig' = now rig \<and> time_split (cache rig') = now rig'
      \<and> timeout_ms (cache rig') = timeout_ms (cache rig) \<and> c_split (cache rig') = split
      \<and> c_split_vfo (cache rig') = txv"
    using assms(1) by (simp add: run(2) frame stamp_split_def)
  with split_queries_fresh [of rig' qs caps out] assms(9,10) show ?thesis by (simp add: run(1))
qed

definition refusing_caps :: "int caps" where
  "refusing_caps = no_caps\<lparr>targetable_vfo := RIG_TARGETABLE_FREQ,
     set_split_vfo := Some (\<lambda>v x. State_Monad.return (- RIG_ERJCTED))\<rparr>"

definition split_rig :: "int rig" where
  "split_rig = (two_vfo_rig 3)\<lparr>current_vfo := RIG_VFO_A, cache := zero_cache\<lparr>timeout_ms := 500\<rparr>\<rparr>"

definition split_later :: timespec where
  "split_later = (now split_rig)\<lparr>tv_nsec := tv_nsec (now split_rig) + 499999999\<rparr>"

lemma split_remembered_as_asked_witness:
  "fst (run_state (rig_set_split_vfo refusing_caps dead_ports RIG_VFO_A RIG_SPLIT_ON RIG_VFO_B) split_rig) = - RIG_ERJCTED
   \<and> split_queries refusing_caps (RIG_SPLIT_OFF, 0) [(RIG_VFO_CURR, now split_rig), (RIG_VFO_B, split_later)]
       (snd (run_state (rig_set_split_vfo refusing_caps dead_ports RIG_VFO_A RIG_SPLIT_ON RIG_VFO_B) split_rig))
     = [(RIG_OK, RIG_SPLIT_ON, RIG_VFO_B), (RIG_OK, RIG_SPLIT_ON, RIG_VFO_B)]"
proof -
  have has: "\<not> VFO_HAS_MAIN_SUB split_rig"
    by (simp add: split_rig_def VFO_HAS_MAIN_SUB_def vfo_has_all_def two_vfo_rig_def vfo_defs)
  have ab: "RIG_VFO_B \<noteq> RIG_VFO_A" by (simp add: vfo_defs)
  have s: "run_state (split_vfos refusing_caps RIG_VFO_A RIG_SPLIT_ON RIG_VFO_B) split_rig
      = ((RIG_VFO_A, RIG_VFO_B), split_rig\<lparr>rx_vfo := RIG_VFO_A, tx_vfo := RIG_VFO_B\<rparr>)"
    using has ab
    by (simp add: split_vfos_def refusing_caps_def no_caps_def vfo_fixup_names Let_def)
  have "targetable refusing_caps RIG_TARGETABLE_FREQ"
    by (simp add: refusing_caps_def targetable_def no_caps_def flag_defs)
  moreover have "set_split_vfo refusing_caps = Some (\<lambda>v x. State_Monad.return (- RIG_ERJCTED))"
    by (simp add: refusing_caps_def)
  moreover have "comm_state split_rig" "c_ptt (cache split_rig) = RIG_PTT_OFF" "current_vfo split_rig = RIG_VFO_A"
    "c_split (cache split_rig) = RIG_SPLIT_OFF" "tv_nsec (now split_rig) \<noteq> 0" "timeout_ms (cache split_rig) = 500"
    by (simp_all add: split_rig_def two_vfo_rig_def zero_rig_def zero_cache_def)
  moreover have "run_state (State_Monad.return (- RIG_ERJCTED)) (split_rig\<lparr>rx_vfo := RIG_VFO_A, tx_vfo := RIG_VFO_B\<rparr>)
      = (- RIG_ERJCTED, split_rig\<lparr>rx_vfo := RIG_VFO_A, tx_vfo := RIG_VFO_B\<rparr>\<lparr>priv := 0\<rparr>)"
    by (simp add: split_rig_def two_vfo_rig_def zero_rig_def)
  ultimately show ?thesis
    using split_remembered_as_asked [OF _ _ _ _ s _ _ _ _ _ prod.collapse [symmetric], where P = dead_ports
        and qs = "[(RIG_VFO_CURR, now split_rig), (RIG_VFO_B, split_later)]" and out = "(RIG_SPLIT_OFF, 0)"]
    by (simp add: not_older_def split_later_def elapsed_nsec_def del: split_queries.simps)
qed





end
