(* ===== verification/Hamlib_Cookie.thy ===== *)
theory Hamlib_Cookie
  imports Hamlib_Prelude
begin

text \<open>
  \<^verbatim>\<open>rig_cookie\<close> (\<^verbatim>\<open>src/rig.c\<close>): a lock of one process shared by its clients. Its
  two static variables are the state. The clock, the text of \<^verbatim>\<open>date_strget\<close> and the number
  of \<^verbatim>\<open>rand()\<close> are arguments; a client's buffer is its text up to the terminator.

  The mutex that should make a call atomic is compiled only with \<^verbatim>\<open>PTHREAD\<close> defined, and nothing in
  the repository defines it (\<^verbatim>\<open>configure\<close> defines \<^verbatim>\<open>HAVE_PTHREAD\<close>), so the library holds no lock.
  There are therefore two models of several clients: \<open>cookie_step\<close>, whose calls follow one another,
  as they do when one thread makes them or when \<^verbatim>\<open>PTHREAD\<close> is defined; and \<open>interleaved\<close>,
  where the calls of several threads overlap. A comparison and the writing of one variable are each one part of a call.
\<close>

definition HAMLIB_COOKIE_SIZE :: nat where "HAMLIB_COOKIE_SIZE = 37"

definition RIG_COOKIE_GET :: int where "RIG_COOKIE_GET = 0"
definition RIG_COOKIE_RELEASE :: int where "RIG_COOKIE_RELEASE = 1"
definition RIG_COOKIE_RENEW :: int where "RIG_COOKIE_RENEW = 2"

record cookie_jar =
  cookie_save :: string
  time_last_used :: real

subsection \<open>The operation\<close>

text \<open>\<^verbatim>\<open>%d\<close> of a number that is not negative.\<close>

fun decimal :: "nat \<Rightarrow> string" where
  "decimal n = (if n < 10 then [char_of (48 + n)] else decimal (n div 10) @ [char_of (48 + n mod 10)])"

declare decimal.simps [simp del]

text \<open>The date, a blank, the number and a line feed, cut by \<^verbatim>\<open>SNPRINTF\<close>.\<close>

definition new_cookie :: "string \<Rightarrow> nat \<Rightarrow> string" where
  "new_cookie date rnd =
     date @ take (HAMLIB_COOKIE_SIZE - length date - 1) (CHR '' '' # decimal rnd @ [CHR 0x0A])"

definition holds :: "cookie_jar \<Rightarrow> string \<Rightarrow> bool" where
  "holds jar cookie \<longleftrightarrow> cookie_save jar \<noteq> [] \<and> cookie = cookie_save jar"

definition rig_cookie :: "int \<Rightarrow> string \<Rightarrow> int \<Rightarrow> real \<Rightarrow> string \<Rightarrow> nat \<Rightarrow> (cookie_jar, int \<times> string) state" where
  "rig_cookie cmd cookie cookie_len t date rnd =
     (if cookie_len < int HAMLIB_COOKIE_SIZE then State_Monad.return (- RIG_EINVAL, cookie)
      else do {
        jar \<leftarrow> gets id;
        if cmd = RIG_COOKIE_RELEASE
        then
          (if holds jar cookie
           then do {
             _ \<leftarrow> modify (\<lambda>jar. jar\<lparr>cookie_save := []\<rparr>);
             State_Monad.return (RIG_OK, cookie)
           }
           else State_Monad.return (- RIG_BUSBUSY, cookie))
        else if cmd = RIG_COOKIE_RENEW
        then
          (if holds jar cookie
           then do {
             _ \<leftarrow> modify (\<lambda>jar. jar\<lparr>time_last_used := t\<rparr>);
             State_Monad.return (RIG_OK, cookie)
           }
           else State_Monad.return (- RIG_EINVAL, cookie))
        else if cmd = RIG_COOKIE_GET
        then
          (if holds jar cookie \<and> t - time_last_used jar < 1
           then State_Monad.return (- RIG_BUSBUSY, cookie)
           else do {
             let cookie' = new_cookie date rnd;
             _ \<leftarrow> modify (\<lambda>jar. jar\<lparr>cookie_save := cookie', time_last_used := t\<rparr>);
             State_Monad.return (RIG_OK, cookie')
           })
        else State_Monad.return (- RIG_EPROTO, cookie)
      })"

lemma new_cookie_fits:
  assumes "length date < HAMLIB_COOKIE_SIZE"
  shows "length (new_cookie date rnd) < HAMLIB_COOKIE_SIZE"
  using assms by (simp add: new_cookie_def HAMLIB_COOKIE_SIZE_def)

lemma new_cookie_nonempty [simp]:
  assumes "length date < HAMLIB_COOKIE_SIZE"
  shows "new_cookie date rnd \<noteq> []"
proof (cases date)
  case Nil
  then show ?thesis by (simp add: new_cookie_def HAMLIB_COOKIE_SIZE_def)
qed (simp add: new_cookie_def)

subsection \<open>The parts of a call\<close>

text \<open>
  A call after its tests of the arguments, part by part: the comparison, and then one part for each
  variable that is written. \<open>Returned\<close> has the result.
\<close>

datatype cookie_part = Enter int real string nat | Clear | Renew real | Grant real string nat | Save real | Mark real | Returned int

fun next_part :: "cookie_part \<Rightarrow> cookie_jar \<times> string \<Rightarrow> cookie_part \<times> cookie_jar \<times> string" where
  "next_part (Enter cmd t date rnd) (jar, cookie) =
     (if cmd = RIG_COOKIE_RELEASE then if holds jar cookie then Clear else Returned (- RIG_BUSBUSY)
      else if cmd = RIG_COOKIE_RENEW then if holds jar cookie then Renew t else Returned (- RIG_EINVAL)
      else if cmd = RIG_COOKIE_GET
      then if holds jar cookie \<and> t - time_last_used jar < 1 then Returned (- RIG_BUSBUSY) else Grant t date rnd
      else Returned (- RIG_EPROTO), jar, cookie)"
| "next_part Clear (jar, cookie) = (Returned RIG_OK, jar\<lparr>cookie_save := []\<rparr>, cookie)"
| "next_part (Renew t) (jar, cookie) = (Returned RIG_OK, jar\<lparr>time_last_used := t\<rparr>, cookie)"
| "next_part (Grant t date rnd) (jar, cookie) = (Save t, jar, new_cookie date rnd)"
| "next_part (Save t) (jar, cookie) = (Mark t, jar\<lparr>cookie_save := cookie\<rparr>, cookie)"
| "next_part (Mark t) (jar, cookie) = (Returned RIG_OK, jar\<lparr>time_last_used := t\<rparr>, cookie)"
| "next_part (Returned ret) (jar, cookie) = (Returned ret, jar, cookie)"

fun parts :: "nat \<Rightarrow> cookie_part \<times> cookie_jar \<times> string \<Rightarrow> cookie_part \<times> cookie_jar \<times> string" where
  "parts 0 s = s"
| "parts (Suc n) (pc, s) = parts n (next_part pc s)"

text \<open>Without another client's parts in between, they are the call.\<close>

lemma parts_are_rig_cookie:
  assumes "int HAMLIB_COOKIE_SIZE \<le> len"
  shows "parts 4 (Enter cmd t date rnd, jar, cookie)
    = (let ((ret, cookie'), jar') = run_state (rig_cookie cmd cookie len t date rnd) jar in (Returned ret, jar', cookie'))"
  using assms by (simp add: rig_cookie_def eval_nat_numeral Let_def)

subsection \<open>Several clients\<close>

text \<open>
  The jar, the buffer of every client, and, to state what ownership means, the client that was
  last granted the cookie and has not released it. Dates have the length \<^verbatim>\<open>date_strget\<close>
  writes (or any that leaves room), and a new cookie is one no client has in its buffer.
\<close>

type_synonym client = nat

record cookie_world =
  jar :: cookie_jar
  buffer :: "client \<Rightarrow> string"
  owner :: "client option"

definition next_owner :: "int \<Rightarrow> int \<Rightarrow> client \<Rightarrow> client option \<Rightarrow> client option" where
  "next_owner cmd ret c own =
     (if ret = RIG_OK \<and> cmd = RIG_COOKIE_GET then Some c
      else if ret = RIG_OK \<and> cmd = RIG_COOKIE_RELEASE then None else own)"

inductive cookie_step :: "cookie_world \<Rightarrow> client \<Rightarrow> int \<Rightarrow> int \<Rightarrow> cookie_world \<Rightarrow> bool" where
  call: "\<lbrakk> run_state (rig_cookie cmd (buffer w c) len t date rnd) (jar w) = ((ret, cookie), jar');
      length date < HAMLIB_COOKIE_SIZE; new_cookie date rnd \<notin> range (buffer w) \<rbrakk>
    \<Longrightarrow> cookie_step w c cmd ret \<lparr>jar = jar', buffer = (buffer w)(c := cookie), owner = next_owner cmd ret c (owner w)\<rparr>"

inductive_cases cookie_stepE [elim!]: "cookie_step w c cmd ret w'"

inductive cookie_reach :: "cookie_world \<Rightarrow> bool" where
  start: "cookie_reach \<lparr>jar = \<lparr>cookie_save = [], time_last_used = 0\<rparr>, buffer = (\<lambda>_. []), owner = None\<rparr>"
| step: "cookie_reach w \<Longrightarrow> cookie_step w c cmd ret w' \<Longrightarrow> cookie_reach w'"

text \<open>The cookie that is saved is the owner's, and nobody else's.\<close>

definition cookie_inv :: "cookie_world \<Rightarrow> bool" where
  "cookie_inv w \<longleftrightarrow> (case owner w of
     None \<Rightarrow> cookie_save (jar w) = []
   | Some c \<Rightarrow> cookie_save (jar w) \<noteq> [] \<and> buffer w c = cookie_save (jar w)
       \<and> (\<forall>d. d \<noteq> c \<longrightarrow> buffer w d \<noteq> cookie_save (jar w)))"

lemma cookie_cmds: "RIG_COOKIE_GET \<noteq> RIG_COOKIE_RELEASE" "RIG_COOKIE_GET \<noteq> RIG_COOKIE_RENEW"
  "RIG_COOKIE_RELEASE \<noteq> RIG_COOKIE_RENEW"
  by (simp_all add: RIG_COOKIE_GET_def RIG_COOKIE_RELEASE_def RIG_COOKIE_RENEW_def)

text \<open>What one call does, case by case.\<close>

lemma rig_cookie_cases:
  assumes "run_state (rig_cookie cmd cookie len t date rnd) j = ((ret, cookie'), j')"
  obtains (granted) "cmd = RIG_COOKIE_GET" "ret = RIG_OK" "cookie' = new_cookie date rnd"
      "cookie_save j' = cookie'" "time_last_used j' = t" "\<not> (holds j cookie \<and> t - time_last_used j < 1)"
  | (released) "cmd = RIG_COOKIE_RELEASE" "ret = RIG_OK" "cookie' = cookie" "holds j cookie" "cookie_save j' = []"
  | (renewed) "cmd = RIG_COOKIE_RENEW" "ret = RIG_OK" "cookie' = cookie" "holds j cookie"
      "cookie_save j' = cookie_save j" "time_last_used j' = t"
  | (refused) "ret \<noteq> RIG_OK" "cookie' = cookie" "j' = j"
  using assms cookie_cmds
  by (auto simp: rig_cookie_def rc_defs Let_def split: if_splits)

lemma cookie_inv_step:
  assumes "cookie_inv w" and "cookie_step w c cmd ret w'"
  shows "cookie_inv w'"
  using assms(2)
proof
  fix len t date rnd cookie jar'
  assume w': "w' = \<lparr>jar = jar', buffer = (buffer w)(c := cookie), owner = next_owner cmd ret c (owner w)\<rparr>"
    and run: "run_state (rig_cookie cmd (buffer w c) len t date rnd) (jar w) = ((ret, cookie), jar')"
    and date: "length date < HAMLIB_COOKIE_SIZE" "new_cookie date rnd \<notin> range (buffer w)"
  have fresh: "buffer w d \<noteq> new_cookie date rnd" for d using date(2) by (metis rangeI)
  from run show "cookie_inv w'"
  proof (cases rule: rig_cookie_cases)
    case granted
    then show ?thesis using date(1) fresh by (simp add: w' cookie_inv_def next_owner_def)
  next
    case released
    then show ?thesis using cookie_cmds by (simp add: w' cookie_inv_def next_owner_def)
  next
    case renewed
    then show ?thesis
      using assms(1) cookie_cmds by (simp add: w' cookie_inv_def next_owner_def split: option.splits)
  next
    case refused
    then show ?thesis using assms(1) by (simp add: w' cookie_inv_def next_owner_def split: option.splits)
  qed
qed

lemma cookie_reach_inv: "cookie_reach w \<Longrightarrow> cookie_inv w"
proof (induction rule: cookie_reach.induct)
  case start
  show ?case by (simp add: cookie_inv_def)
qed (rule cookie_inv_step)

text \<open>The calls of several threads: the next part of the client named, in the order of the list.\<close>

fun interleaved :: "client list \<Rightarrow> (client \<Rightarrow> cookie_part) \<Rightarrow> cookie_jar \<Rightarrow> (client \<Rightarrow> string)
    \<Rightarrow> (client \<Rightarrow> cookie_part) \<times> cookie_jar \<times> (client \<Rightarrow> string)" where
  "interleaved [] pcs j bufs = (pcs, j, bufs)"
| "interleaved (c # cs) pcs j bufs =
     (let (pc, j', cookie) = next_part (pcs c) (j, bufs c) in interleaved cs (pcs(c := pc)) j' (bufs(c := cookie)))"

text \<open>
  The owner \<open>c\<close> releases while \<open>d\<close> is granted a cookie: the owner has compared, then all of the other client's call
  happens, then the owner clears the other client's cookie. Both calls succeed.
\<close>

lemma release_wipes_grant:
  assumes "holds j (bufs c)" and "\<not> holds j (bufs d)" and "d \<noteq> c"
  shows "interleaved [c, d, d, d, d, c] (pcs(c := Enter RIG_COOKIE_RELEASE t0 date0 rnd0, d := Enter RIG_COOKIE_GET t date rnd)) j bufs
    = (pcs(c := Returned RIG_OK, d := Returned RIG_OK), \<lparr>cookie_save = [], time_last_used = t\<rparr>, bufs(d := new_cookie date rnd))"
proof -
  have "RIG_COOKIE_GET \<noteq> RIG_COOKIE_RELEASE" "RIG_COOKIE_GET \<noteq> RIG_COOKIE_RENEW" by (rule cookie_cmds)+
  then show ?thesis using assms by (simp add: Let_def fun_upd_twist fun_eq_iff)
qed

text \<open>C33: if calls do not overlap, then in every run of any number of clients renewing and releasing the cookie succeed for
  one client at most at any time: only the client that was granted the cookie last, and has
  not given it back, can do it. (Every grant hands out a cookie that is in no client's buffer.) The
  condition is needed, and the code does not establish it, since its mutex is compiled to nothing: when another client asks for a
  cookie between the comparison and the clearing of the owner's release, both calls succeed, the
  release comes after the grant and wipes the new cookie, and the new holder's renewal is refused.\<close>

lemma cookie_owner_only:
  assumes "cookie_reach w" and "cookie_step w c cmd RIG_OK w'" and "cmd \<noteq> RIG_COOKIE_GET" and "d \<noteq> c"
  shows "owner w = Some c
    \<and> (let (pcs, j, bufs) = interleaved [c, d, d, d, d, c]
             ((\<lambda>_. Returned RIG_OK)(c := Enter RIG_COOKIE_RELEASE t0 date0 rnd0, d := Enter RIG_COOKIE_GET t date rnd)) (jar w) (buffer w)
       in pcs c = Returned RIG_OK \<and> pcs d = Returned RIG_OK \<and> bufs d = new_cookie date rnd
          \<and> fst (next_part (Enter RIG_COOKIE_RENEW t' date' rnd') (j, bufs d)) = Returned (- RIG_EINVAL))"
  using assms(2)
proof
  fix len t1 date1 rnd1 cookie jar'
  assume "run_state (rig_cookie cmd (buffer w c) len t1 date1 rnd1) (jar w) = ((RIG_OK, cookie), jar')"
  then have h: "holds (jar w) (buffer w c)"
    using assms(3) by (cases rule: rig_cookie_cases) auto
  then have own: "owner w = Some c"
    using cookie_reach_inv [OF assms(1)]
    by (cases "owner w") (force simp: cookie_inv_def holds_def)+
  then have "\<not> holds (jar w) (buffer w d)"
    using cookie_reach_inv [OF assms(1)] assms(4) by (simp add: cookie_inv_def holds_def)
  note race = release_wipes_grant [OF h this assms(4)]
  show ?thesis
    using own assms(4) cookie_cmds by (simp add: race holds_def del: interleaved.simps)
qed

text \<open>the cookie does not exclude anybody. A client that asks for a cookie with anything but the
  active cookie in its buffer is granted a new one at once, however recently the owner
  renewed, and the owner's next renewal or release is refused; the one client that is denied for a
  second is the owner itself.\<close>

lemma cookie_not_exclusive:
  assumes "cookie_reach w" and "owner w = Some c" and "d \<noteq> c" and "int HAMLIB_COOKIE_SIZE \<le> len"
    and "run_state (rig_cookie RIG_COOKIE_GET (buffer w d) len t date rnd) (jar w) = ((ret, cookie), jar')"
    and "cookie \<noteq> buffer w c"
  shows "ret = RIG_OK
    \<and> fst (run_state (rig_cookie RIG_COOKIE_RENEW (buffer w c) len t' date' rnd') jar') = (- RIG_EINVAL, buffer w c)
    \<and> fst (run_state (rig_cookie RIG_COOKIE_RELEASE (buffer w c) len t' date' rnd') jar') = (- RIG_BUSBUSY, buffer w c)
    \<and> (t - time_last_used (jar w) < 1 \<longrightarrow>
        fst (run_state (rig_cookie RIG_COOKIE_GET (buffer w c) len t date rnd) (jar w)) = (- RIG_BUSBUSY, buffer w c))"
proof -
  have own: "holds (jar w) (buffer w c)" "\<not> holds (jar w) (buffer w d)"
    using cookie_reach_inv [OF assms(1)] assms(2,3) by (auto simp: cookie_inv_def holds_def)
  have "ret = RIG_OK \<and> cookie_save jar' = cookie"
    using assms(4,5) own cookie_cmds by (auto simp: rig_cookie_def Let_def)
  moreover from this have "\<not> holds jar' (buffer w c)" using assms(6) by (simp add: holds_def)
  ultimately show ?thesis
    using own assms(4) cookie_cmds by (auto simp: rig_cookie_def)
qed

text \<open>Client 0 gets the cookie, and client 1 takes it in the same second.\<close>

definition cookie_date :: string where "cookie_date = ''2021-12-13T12:00:00.000001-0000''"

definition cookie_granted :: cookie_world where
  "cookie_granted = \<lparr>jar = \<lparr>cookie_save = new_cookie cookie_date 1, time_last_used = 5\<rparr>,
     buffer = (\<lambda>_. [])(0 := new_cookie cookie_date 1), owner = Some 0\<rparr>"

lemma cookie_date_room: "length cookie_date < HAMLIB_COOKIE_SIZE"
  by (simp add: cookie_date_def HAMLIB_COOKIE_SIZE_def)

definition cookie_start :: cookie_world where
  "cookie_start = \<lparr>jar = \<lparr>cookie_save = [], time_last_used = 0\<rparr>, buffer = (\<lambda>_. []), owner = None\<rparr>"

lemma new_cookie_differs: "new_cookie cookie_date 2 \<noteq> new_cookie cookie_date 1"
  by (simp add: new_cookie_def cookie_date_def HAMLIB_COOKIE_SIZE_def decimal.simps)

lemma cookie_granted_reach: "cookie_reach cookie_granted"
proof -
  have run: "run_state (rig_cookie RIG_COOKIE_GET (buffer cookie_start 0) 37 5 cookie_date 1) (jar cookie_start)
      = ((RIG_OK, new_cookie cookie_date 1), \<lparr>cookie_save = new_cookie cookie_date 1, time_last_used = 5\<rparr>)"
    using cookie_cmds by (simp add: rig_cookie_def cookie_start_def holds_def HAMLIB_COOKIE_SIZE_def Let_def)
  have "new_cookie cookie_date 1 \<notin> range (buffer cookie_start)"
    using new_cookie_nonempty [OF cookie_date_room] by (auto simp: cookie_start_def)
  from cookie_step.call [OF run cookie_date_room this]
  have "cookie_step cookie_start 0 RIG_COOKIE_GET RIG_OK cookie_granted"
    by (simp add: cookie_granted_def cookie_start_def next_owner_def)
  with cookie_reach.start show ?thesis unfolding cookie_start_def by (rule cookie_reach.step)
qed

lemma cookie_owner_only_witness:
  "owner cookie_granted = Some 0
    \<and> fst (next_part (Enter RIG_COOKIE_RENEW 7 [] 0) (fst (snd (interleaved [0, 1, 1, 1, 1, 0]
        ((\<lambda>_. Returned RIG_OK)(0 := Enter RIG_COOKIE_RELEASE 6 [] 0, 1 := Enter RIG_COOKIE_GET 6 cookie_date 2))
        (jar cookie_granted) (buffer cookie_granted))), new_cookie cookie_date 2)) = Returned (- RIG_EINVAL)"
proof -
  have run: "run_state (rig_cookie RIG_COOKIE_RENEW (buffer cookie_granted 0) 37 6 cookie_date 2) (jar cookie_granted)
      = ((RIG_OK, new_cookie cookie_date 1), \<lparr>cookie_save = new_cookie cookie_date 1, time_last_used = 6\<rparr>)"
    using cookie_cmds new_cookie_nonempty [OF cookie_date_room]
    by (simp add: rig_cookie_def cookie_granted_def holds_def HAMLIB_COOKIE_SIZE_def)
  have "new_cookie cookie_date 2 \<notin> range (buffer cookie_granted)"
    using new_cookie_nonempty [OF cookie_date_room] new_cookie_differs by (auto simp: cookie_granted_def)
  from cookie_owner_only [OF cookie_granted_reach cookie_step.call [OF run cookie_date_room this], of 1 6 "[]" 0 6 cookie_date 2 7 "[]" 0]
  show ?thesis using cookie_cmds by (simp add: case_prod_beta Let_def split: if_splits del: interleaved.simps)
qed

lemma cookie_not_exclusive_witness:
  "fst (run_state (rig_cookie RIG_COOKIE_RENEW (new_cookie cookie_date 1) 37 5.2 [] 0)
      (snd (run_state (rig_cookie RIG_COOKIE_GET [] 37 5.1 cookie_date 2) (jar cookie_granted))))
    = (- RIG_EINVAL, new_cookie cookie_date 1)"
proof -
  let ?r = "run_state (rig_cookie RIG_COOKIE_GET [] 37 5.1 cookie_date 2) (jar cookie_granted)"
  have r: "run_state (rig_cookie RIG_COOKIE_GET (buffer cookie_granted 1) 37 5.1 cookie_date 2) (jar cookie_granted)
      = ((fst (fst ?r), new_cookie cookie_date 2), snd ?r)"
    using cookie_cmds new_cookie_nonempty [OF cookie_date_room, of 1]
    by (auto simp: rig_cookie_def cookie_granted_def holds_def HAMLIB_COOKIE_SIZE_def Let_def)
  have "new_cookie cookie_date 2 \<noteq> buffer cookie_granted 0"
    using new_cookie_differs by (simp add: cookie_granted_def)
  then show ?thesis
    using cookie_not_exclusive [OF cookie_granted_reach _ _ _ r, where c = 0 and t' = "5.2" and date' = "[]" and rnd' = 0]
    by (simp add: cookie_granted_def HAMLIB_COOKIE_SIZE_def)
qed

end
