(* ===== verification/Hamlib_Frequency.thy ===== *)
theory Hamlib_Frequency
  imports Hamlib_Frontend
begin

text \<open>
  What \<^verbatim>\<open>rig_set_freq\<close> and \<^verbatim>\<open>rig_get_freq\<close> (\<^verbatim>\<open>src/rig.c\<close>) promise about
  the current VFO. The abstract state is one number, the frequency the application sees:
  the radio's frequency without the VFO compensation and with the local oscillator added.
  The locale \<open>reader\<close> is what reading relies on in a back end, \<open>tuner\<close> extends it with
  setting; in them setting is shown to write that number and reading to return it, whether the cache
  answers or the radio.
\<close>

subsection \<open>The radio's frequency and the application's\<close>

definition raw_freq :: "'p rig \<Rightarrow> freq_t \<Rightarrow> freq_t" where
  "raw_freq rig f =
     (let f1 = (if lo_freq rig \<noteq> 0 then to_double (f - lo_freq rig) else f)
      in if vfo_comp rig \<noteq> 0 then to_double (f1 + to_double (vfo_comp rig * f1)) else f1)"

definition user_freq :: "'p rig \<Rightarrow> freq_t \<Rightarrow> freq_t" where
  "user_freq rig r =
     (let f1 = (if vfo_comp rig \<noteq> 0 then to_double (r / to_double (1 + vfo_comp rig)) else r)
      in if lo_freq rig \<noteq> 0 then to_double (f1 + lo_freq rig) else f1)"

text \<open>The arithmetic is that of \<^verbatim>\<open>double\<close>: with a compensation the way to the radio and back may
  end beside the frequency it started from.\<close>

definition comes_back :: "'p rig \<Rightarrow> freq_t \<Rightarrow> bool" where
  "comes_back rig f \<longleftrightarrow> user_freq rig (raw_freq rig f) = f"

lemma comes_back_plain: "lo_freq rig = 0 \<Longrightarrow> vfo_comp rig = 0 \<Longrightarrow> comes_back rig f"
  by (simp add: comes_back_def user_freq_def raw_freq_def)

lemma raw_freq_whole:
  assumes "vfo_comp rig = 0" and "lo_freq rig = of_int lo" and "\<bar>i\<bar> \<le> 2 ^ 52" and "\<bar>lo\<bar> \<le> 2 ^ 52"
  shows "raw_freq rig (of_int i) = of_int (i - lo)" and "comes_back rig (of_int i)"
proof -
  have "to_double (of_int (i - lo)) = of_int (i - lo)" using assms(3,4) by (intro to_double_int) simp
  then show raw: "raw_freq rig (of_int i) = of_int (i - lo)" using assms(1,2) by (simp add: raw_freq_def)
  have "to_double (of_int i) = of_int i" using assms(3) by (intro to_double_int) simp
  then show "comes_back rig (of_int i)"
    unfolding comes_back_def raw using assms(1,2) by (simp add: user_freq_def Let_def)
qed

text \<open>With a compensation of ten parts per million, as a \<^verbatim>\<open>double\<close>, 14074022 Hz come back lower.\<close>

definition ten_ppm :: real where "ten_ppm = 5902958103587057 / 2 ^ 69"

lemma compensation_drifts:
  assumes "vfo_comp rig = ten_ppm" and "lo_freq rig = 0"
  shows "user_freq rig (raw_freq rig 14074022) = 7555933026648063 / 2 ^ 29" and "\<not> comes_back rig 14074022"
proof -
  have p: "to_double (ten_ppm * 14074022) = 4951856268344076 / 2 ^ 45"
    unfolding to_double_def by (subst round_to_eqI [where k = 7 and m = 4951856268344076 and u = "1 / 2 ^ 45"])
      (simp_all add: ten_ppm_def power_int_minus)
  have r: "to_double (14074022 + 4951856268344076 / 2 ^ 45) = 7556008585978330 / 2 ^ 29"
    unfolding to_double_def by (subst round_to_eqI [where k = 23 and m = 7556008585978330 and u = "1 / 2 ^ 29"])
      (simp_all add: power_int_minus)
  have o: "to_double (1 + ten_ppm) = 4503644663366770 / 2 ^ 52"
    unfolding to_double_def by (subst round_to_eqI [where k = 0 and m = 4503644663366770 and u = "1 / 2 ^ 52"])
      (simp_all add: ten_ppm_def power_int_minus)
  have u: "to_double (7556008585978330 / 2 ^ 29 / (4503644663366770 / 2 ^ 52)) = 7555933026648063 / 2 ^ 29"
    unfolding to_double_def by (subst round_to_eqI [where k = 23 and m = 7555933026648063 and u = "1 / 2 ^ 29"])
      (simp_all add: power_int_minus)
  have "ten_ppm \<noteq> 0" by (simp add: ten_ppm_def)
  then show "user_freq rig (raw_freq rig 14074022) = 7555933026648063 / 2 ^ 29"
    unfolding user_freq_def raw_freq_def Let_def assms by (simp only: p r o u simp_thms if_True if_False)
  then show "\<not> comes_back rig 14074022" by (simp add: comes_back_def)
qed

text \<open>
  A cached frequency is either cleared or what the application would read: the invariant
  of the two operations. \<^verbatim>\<open>raw\<close> is the frequency of the radio.
\<close>

definition coherent :: "slot \<Rightarrow> freq_t \<Rightarrow> 'p rig \<Rightarrow> bool" where
  "coherent s raw rig \<longleftrightarrow> c_freq (cache rig) s \<in> {0, user_freq rig raw}"

text \<open>The handle fields that the two operations only read.\<close>

definition same_setup :: "'p rig \<Rightarrow> 'p rig \<Rightarrow> bool" where
  "same_setup rig rig' \<longleftrightarrow> comm_state rig' = comm_state rig \<and> current_vfo rig' = current_vfo rig
     \<and> twiddle_timeout rig' = twiddle_timeout rig \<and> uplink rig' = uplink rig
     \<and> vfo_list rig' = vfo_list rig \<and> lo_freq rig' = lo_freq rig \<and> vfo_comp rig' = vfo_comp rig
     \<and> satmode (cache rig') = satmode (cache rig) \<and> c_split (cache rig') = c_split (cache rig)"

lemma same_setup_refl [simp]: "same_setup rig rig" by (simp add: same_setup_def)

lemma same_setup_trans [trans]: "same_setup a b \<Longrightarrow> same_setup b c \<Longrightarrow> same_setup a c"
  by (simp add: same_setup_def)

lemma same_setup_user: "same_setup rig rig' \<Longrightarrow> user_freq rig' r = user_freq rig r"
  by (simp add: same_setup_def user_freq_def)

lemma same_setup_back: "same_setup rig rig' \<Longrightarrow> comes_back rig' f = comes_back rig f"
  by (simp add: same_setup_def comes_back_def user_freq_def raw_freq_def)

lemma same_setup_raw: "same_setup rig rig' \<Longrightarrow> raw_freq rig' r = raw_freq rig r"
  by (simp add: same_setup_def raw_freq_def)

lemma same_setup_cache_vfo: "same_setup rig rig' \<Longrightarrow> cache_vfo rig' v = cache_vfo rig v"
  by (simp add: same_setup_def cache_vfo_def)

text \<open>
  The handles the theorems are about: open, the current VFO has a slot of its own, nobody is
  watched at the knob, and no read is suppressed.
\<close>

definition tuning_setup :: "'p caps \<Rightarrow> slot \<Rightarrow> 'p rig \<Rightarrow> bool" where
  "tuning_setup caps s rig \<longleftrightarrow> comm_state rig \<and> twiddle_timeout rig = 0 \<and> uplink rig = 0
     \<and> vfo_comp rig \<noteq> - 1
     \<and> freq_slot (cache_vfo rig (current_vfo rig)) = Some s
     \<and> cache_vfo rig (current_vfo rig) \<noteq> RIG_VFO_MAIN_C
     \<and> current_vfo rig \<notin> {RIG_VFO_CURR, RIG_VFO_OTHER}
     \<and> (c_split (cache rig) = RIG_SPLIT_ON \<longrightarrow> rig_model caps \<notin> {RIG_MODEL_FTDX101D, RIG_MODEL_IC910})"

lemma tuning_setup_same:
  "same_setup rig rig' \<Longrightarrow> tuning_setup caps s rig \<Longrightarrow> tuning_setup caps s rig'"
  by (simp add: tuning_setup_def same_setup_cache_vfo) (simp add: same_setup_def)

subsection \<open>The cache under the invariant\<close>

lemma setup_slots:
  assumes "tuning_setup caps s rig"
  shows "freq_slot (cache_vfo rig (current_vfo rig)) = Some s"
    "freq_slot (cache_vfo rig RIG_VFO_CURR) = Some s"
    "cache_vfo rig (current_vfo rig) \<noteq> RIG_VFO_ALL" "cache_vfo rig RIG_VFO_CURR \<noteq> RIG_VFO_ALL"
    "read_slot (get_cache_vfo rig (current_vfo rig)) = Some s"
proof -
  show slot: "freq_slot (cache_vfo rig (current_vfo rig)) = Some s"
    using assms by (simp add: tuning_setup_def)
  have eq: "cache_vfo rig RIG_VFO_CURR = cache_vfo rig (current_vfo rig)"
    using assms by (simp add: cache_vfo_def tuning_setup_def)
  show "freq_slot (cache_vfo rig RIG_VFO_CURR) = Some s" by (simp add: eq slot)
  show all: "cache_vfo rig (current_vfo rig) \<noteq> RIG_VFO_ALL" using slot slots_no_all by force
  show "cache_vfo rig RIG_VFO_CURR \<noteq> RIG_VFO_ALL" by (simp add: eq all)
  show "read_slot (get_cache_vfo rig (current_vfo rig)) = Some s"
    using assms slot by (simp add: get_cache_vfo_eq read_slot_freq_slot tuning_setup_def)
qed

lemma same_setup_on_cache:
  "(\<And>t c. satmode (f t c) = satmode c \<and> c_split (f t c) = c_split c) \<Longrightarrow> same_setup rig (on_cache f rig)"
  by (simp add: same_setup_def on_cache_def)

lemma cache_keeps_split [simp]:
  "c_split (store_freq s f flag t c) = c_split c" "c_split (invalidate_all t c) = c_split c"
  "c_split (read_stamps s t c) = c_split c"
  by (simp_all add: store_freq_def invalidate_all_def invalidate_modes_def read_stamps_def stamp_defs)

lemma cache_values [simp]:
  "c_freq (store_freq s f flag t c) = (c_freq c)(s := f)" "c_freq (invalidate_all t c) = c_freq c"
  "c_freq (read_stamps s t c) = c_freq c"
  by (simp_all add: store_freq_def invalidate_all_def invalidate_modes_def read_stamps_def stamp_defs)

lemma store_current:
  assumes "tuning_setup caps s rig" and "v \<in> {RIG_VFO_CURR, current_vfo rig}"
  shows "\<exists>flag. run_state (rig_set_cache_freq v f) rig = (RIG_OK, on_cache (store_freq s f flag) rig)"
  using assms setup_slots [OF assms(1)] by (auto simp: run_set_cache_freq)

subsection \<open>Requests of an application\<close>

text \<open>
  A session: requests on the current VFO in any order, with pauses of any length (the clock
  is whatever it is afterwards), and what it is answered. \<open>promised\<close> is the
  specification: one number, written and read.
\<close>

datatype tune_request = Tune freq_t | Read freq_t | Pause timespec

fun serve :: "'p caps \<Rightarrow> 'p ports \<Rightarrow> tune_request list \<Rightarrow> ('p rig, (int \<times> freq_t) list) state" where
  "serve caps P [] = State_Monad.return []"
| "serve caps P (Tune f # rs) = do {
     rc \<leftarrow> rig_set_freq caps P RIG_VFO_CURR f;
     as \<leftarrow> serve caps P rs;
     State_Monad.return ((rc, f) # as)
   }"
| "serve caps P (Read x # rs) = do {
     a \<leftarrow> rig_get_freq caps P RIG_VFO_CURR x;
     as \<leftarrow> serve caps P rs;
     State_Monad.return (a # as)
   }"
| "serve caps P (Pause t # rs) = do {
     _ \<leftarrow> modify (\<lambda>rig. rig\<lparr>now := t\<rparr>);
     serve caps P rs
   }"

fun promised :: "freq_t \<Rightarrow> tune_request list \<Rightarrow> (int \<times> freq_t) list" where
  "promised u [] = []"
| "promised u (Tune f # rs) = (RIG_OK, f) # promised f rs"
| "promised u (Read x # rs) = (RIG_OK, u) # promised u rs"
| "promised u (Pause t # rs) = promised u rs"

subsection \<open>The back end's side of the contract\<close>

text \<open>The frequency on the air, and the state the two operations keep.\<close>

definition on_air :: "(vfo_t \<Rightarrow> 'p \<Rightarrow> freq_t) \<Rightarrow> 'p rig \<Rightarrow> freq_t" where
  "on_air tuned rig = tuned (current_vfo rig) (priv rig)"

definition tracked :: "'p caps \<Rightarrow> (vfo_t \<Rightarrow> 'p \<Rightarrow> bool) \<Rightarrow> (vfo_t \<Rightarrow> 'p \<Rightarrow> freq_t) \<Rightarrow> slot \<Rightarrow> 'p rig \<Rightarrow> bool" where
  "tracked caps ready tuned s rig \<longleftrightarrow> tuning_setup caps s rig \<and> ready (current_vfo rig) (priv rig)
     \<and> on_air tuned rig \<noteq> 0 \<and> coherent s (on_air tuned rig) rig"

text \<open>The back end has done something in between, and is still where it was.\<close>

definition same_radio ::
  "(vfo_t \<Rightarrow> 'p \<Rightarrow> bool) \<Rightarrow> (vfo_t \<Rightarrow> 'p \<Rightarrow> freq_t) \<Rightarrow> 'p rig \<Rightarrow> 'p rig \<Rightarrow> bool" where
  "same_radio ready tuned rig rig' \<longleftrightarrow> ready (current_vfo rig) (priv rig')
     \<and> tuned (current_vfo rig) (priv rig') = tuned (current_vfo rig) (priv rig)"

lemma same_radio_refl: "ready (current_vfo rig) (priv rig) \<Longrightarrow> same_radio ready tuned rig rig"
  by (simp add: same_radio_def)

lemma same_radio_priv:
  "priv rig1 = priv rig \<Longrightarrow> current_vfo rig1 = current_vfo rig \<Longrightarrow>
   same_radio ready tuned rig1 rig' \<longleftrightarrow> same_radio ready tuned rig rig'"
  "priv rig2 = priv rig' \<Longrightarrow> same_radio ready tuned rig rig2 \<longleftrightarrow> same_radio ready tuned rig rig'"
  by (simp_all add: same_radio_def)

text \<open>
  \<^verbatim>\<open>ready cv p\<close>: with private data \<open>p\<close> the radio is on VFO \<open>cv\<close>;
  \<^verbatim>\<open>tuned cv p\<close> is its frequency. Reading may take time and change the private data, but not the
  frequency; setting may also use the front end, and with it the cache. \<open>tunable\<close>: the frequencies that
  the radio can be set to exactly; \<open>fits\<close>: what the back end asks of a handle beyond that, of the fields
  which the two operations only read.
\<close>

locale reader =
  fixes caps :: "'p caps" and gf :: "('p, freq_t) getter"
    and ready :: "vfo_t \<Rightarrow> 'p \<Rightarrow> bool" and tuned :: "vfo_t \<Rightarrow> 'p \<Rightarrow> freq_t"
  assumes has_get_freq: "get_freq caps = Some gf"
    and gf_reads: "ready (current_vfo rig) (priv rig) \<Longrightarrow> uplink rig = 0 \<Longrightarrow>
      v \<in> {RIG_VFO_CURR, current_vfo rig} \<Longrightarrow>
      \<exists>rig'. run_state (gf v x) rig = ((RIG_OK, tuned (current_vfo rig) (priv rig)), rig')
        \<and> same_setup rig rig' \<and> cache rig' = cache rig \<and> same_radio ready tuned rig rig'"

context reader
begin

lemma get_freq_end_run:
  assumes "tuning_setup caps s rig"
  shows "\<exists>rig'. run_state (get_freq_end RIG_OK r (current_vfo rig)) rig
      = ((RIG_OK, user_freq rig r), rig')
    \<and> same_setup rig rig' \<and> priv rig' = priv rig \<and> c_freq (cache rig') s = user_freq rig r"
proof -
  let ?f1 = "if vfo_comp rig \<noteq> 0 then to_double (r / to_double (1 + vfo_comp rig)) else r"
  let ?f = "if lo_freq rig \<noteq> 0 then to_double (?f1 + lo_freq rig) else ?f1"
  have f: "?f = user_freq rig r" by (simp add: user_freq_def Let_def)
  let ?rig1 = "rig\<lparr>current_freq := ?f1\<rparr>"
  have same: "same_setup rig ?rig1" by (simp add: same_setup_def)
  have "current_vfo rig \<in> {RIG_VFO_CURR, current_vfo ?rig1}" by simp
  with store_current [OF tuning_setup_same [OF same assms], of "current_vfo rig" "user_freq rig r"]
  obtain flag where run: "run_state (rig_set_cache_freq (current_vfo rig) (user_freq rig r)) ?rig1
      = (RIG_OK, on_cache (store_freq s (user_freq rig r) flag) ?rig1)" by blast
  have "run_state (get_freq_end RIG_OK r (current_vfo rig)) rig
      = ((RIG_OK, user_freq rig r), on_cache (store_freq s (user_freq rig r) flag) ?rig1)"
    using run by (simp add: get_freq_end_def Let_def f)
  moreover have "same_setup rig (on_cache (store_freq s (user_freq rig r) flag) ?rig1)"
    by (rule same_setup_trans [OF same]) (simp add: same_setup_on_cache)
  ultimately show ?thesis by simp
qed

lemma get_freq_radio_run:
  assumes "tuning_setup caps s rig" and "ready (current_vfo rig) (priv rig)" and "on_air tuned rig \<noteq> 0"
  shows "\<exists>rig'. run_state (get_freq_uncached caps P cv (current_vfo rig) x) rig
      = ((RIG_OK, user_freq rig (on_air tuned rig)), rig')
    \<and> same_setup rig rig' \<and> same_radio ready tuned rig rig'
    \<and> c_freq (cache rig') s = user_freq rig (on_air tuned rig)"
proof -
  let ?v = "current_vfo rig" and ?a = "on_air tuned rig"
  have v: "?v \<noteq> RIG_VFO_CURR" using assms(1) by (simp add: tuning_setup_def)
  obtain rig1 where gf: "run_state (gf ?v x) rig = ((RIG_OK, ?a), rig1)"
    and same1: "same_setup rig rig1" and radio: "same_radio ready tuned rig rig1"
    using gf_reads [OF assms(2), of ?v x] assms(1) by (auto simp: tuning_setup_def on_air_def)
  have v1: "current_vfo rig1 = ?v" using same1 by (simp add: same_setup_def)
  with store_current [OF tuning_setup_same [OF same1 assms(1)], of ?v ?a]
  obtain flag where st: "run_state (rig_set_cache_freq ?v ?a) rig1 = (RIG_OK, on_cache (store_freq s ?a flag) rig1)"
    by auto
  let ?rig2 = "on_cache (store_freq s ?a flag) rig1"
  have same2: "same_setup rig ?rig2"
    by (rule same_setup_trans [OF same1]) (simp add: same_setup_on_cache)
  have "run_state (get_freq_direct caps P gf ?v x) rig = (Inr (RIG_OK, ?a, ?v), ?rig2)"
    using gf st assms(3) v by (simp add: get_freq_direct_def)
  then have run: "run_state (get_freq_uncached caps P cv ?v x) rig
      = run_state (get_freq_end RIG_OK ?a ?v) ?rig2"
    by (simp add: get_freq_uncached_def has_get_freq)
  obtain rig3 where "run_state (get_freq_end RIG_OK ?a ?v) ?rig2 = ((RIG_OK, user_freq rig ?a), rig3)"
    "same_setup ?rig2 rig3" "priv rig3 = priv rig1" "c_freq (cache rig3) s = user_freq rig ?a"
    using get_freq_end_run [OF tuning_setup_same [OF same2 assms(1)], of ?a]
    by (auto simp: v1 same_setup_user [OF same2])
  with run radio show ?thesis
    using same_setup_trans [OF same2] by (auto simp: same_radio_priv(2) [of rig3 rig1])
qed

lemma get_freq_cache_run:
  assumes "tracked caps ready tuned s rig"
  shows "\<exists>rig'. run_state (get_freq_via_cache caps P cv (current_vfo rig) x) rig
      = ((RIG_OK, user_freq rig (on_air tuned rig)), rig')
    \<and> same_setup rig rig' \<and> same_radio ready tuned rig rig' \<and> c_freq (cache rig') s = user_freq rig (on_air tuned rig)"
proof -
  let ?u = "user_freq rig (on_air tuned rig)" and ?rig1 = "on_cache (read_stamps s) rig"
  have conf: "tuning_setup caps s rig" and ready: "ready (current_vfo rig) (priv rig)"
    and air: "on_air tuned rig \<noteq> 0" and coh: "c_freq (cache rig) s = 0 \<or> c_freq (cache rig) s = ?u"
    using assms by (simp_all add: tracked_def coherent_def)
  have cache: "run_state (rig_get_cache (current_vfo rig) (junk_out P x)) rig = ((RIG_OK, slot_view rig s), ?rig1)"
    using conf setup_slots(5) [OF conf] by (simp add: run_get_cache tuning_setup_def)
  have same: "same_setup rig ?rig1" by (simp add: same_setup_on_cache)
  have miss: "\<exists>rig'. run_state (get_freq_uncached caps P cv (current_vfo rig) y) ?rig1 = ((RIG_OK, ?u), rig')
      \<and> same_setup rig rig' \<and> same_radio ready tuned rig rig' \<and> c_freq (cache rig') s = ?u" for y
    using get_freq_radio_run [OF tuning_setup_same [OF same conf], where P = P and cv = cv and x = y] ready air
      same_setup_trans [OF same]
    by (auto simp: on_air_def same_setup_user [OF same] same_radio_priv(1) [of ?rig1 rig])
  show ?thesis
  proof (cases "o_freq (slot_view rig s) \<noteq> 0 \<and> (o_ms_freq (slot_view rig s) < timeout_ms (cache ?rig1)
          \<or> timeout_ms (cache ?rig1) = HAMLIB_CACHE_ALWAYS \<or> use_cached_freq ?rig1)")
    case True
    then have "c_freq (cache rig) s = ?u" using coh by (simp add: slot_view_def)
    then have "run_state (get_freq_via_cache caps P cv (current_vfo rig) x) rig = ((RIG_OK, ?u), ?rig1)"
      using True cache by (simp add: get_freq_via_cache_def slot_view_def)
    then show ?thesis using same \<open>c_freq (cache rig) s = ?u\<close> ready by (simp add: same_radio_def)
  next
    case False
    then have "run_state (get_freq_via_cache caps P cv (current_vfo rig) x) rig
        = run_state (get_freq_uncached caps P cv (current_vfo rig) (o_freq (slot_view rig s))) ?rig1"
      using cache by (auto simp: get_freq_via_cache_def)
    then show ?thesis using miss by metis
  qed
qed

lemma tracked_step:
  assumes "tracked caps ready tuned s rig" and "same_setup rig rig'" and "same_radio ready tuned rig rig'"
    and "c_freq (cache rig') s = user_freq rig (on_air tuned rig)"
  shows "tracked caps ready tuned s rig' \<and> on_air tuned rig' = on_air tuned rig"
proof -
  have "current_vfo rig' = current_vfo rig" using assms(2) by (simp add: same_setup_def)
  then have "on_air tuned rig' = on_air tuned rig" using assms(3) by (simp add: on_air_def same_radio_def)
  then show ?thesis
    using assms \<open>current_vfo rig' = current_vfo rig\<close> tuning_setup_same [OF assms(2)]
    by (simp add: tracked_def coherent_def same_setup_user [OF assms(2)] same_radio_def)
qed

lemma get_freq_on_run:
  assumes "tracked caps ready tuned s rig"
    and "v = RIG_VFO_CURR \<or> v = current_vfo rig \<and> vfo_fixup rig v (c_split (cache rig)) = v
      \<and> (c_split (cache rig) = RIG_SPLIT_OFF \<or> rig_model caps \<notin> {RIG_MODEL_FTDX101D, RIG_MODEL_IC910})"
  shows "\<exists>rig'. run_state (rig_get_freq caps P v x) rig
      = ((RIG_OK, user_freq rig (on_air tuned rig)), rig')
    \<and> same_setup rig rig' \<and> on_air tuned rig' = on_air tuned rig \<and> tracked caps ready tuned s rig'
    \<and> same_radio ready tuned rig rig'"
proof -
  have "tuning_setup caps s rig" using assms by (simp add: tracked_def)
  then have "run_state (rig_get_freq caps P v x) rig
      = run_state (get_freq_via_cache caps P (current_vfo rig) (current_vfo rig) x) rig"
    using assms(2) by (auto simp: rig_get_freq_def check_rig_arg_def tuning_setup_def vfo_fixup_names Let_def)
  with get_freq_cache_run [OF assms(1), of P "current_vfo rig" x] tracked_step [OF assms(1)] show ?thesis
    by metis
qed

lemmas get_freq_run = get_freq_on_run [OF _ disjI1 [OF refl]]

end

locale tuner = reader caps gf ready tuned
  for caps :: "'p caps" and gf :: "('p, freq_t) getter"
    and ready :: "vfo_t \<Rightarrow> 'p \<Rightarrow> bool" and tuned :: "vfo_t \<Rightarrow> 'p \<Rightarrow> freq_t" +
  fixes sf :: "('p, freq_t) setter" and tunable :: "freq_t \<Rightarrow> bool" and fits :: "'p rig \<Rightarrow> bool"
  assumes has_set_freq: "set_freq caps = Some sf"
    and fits_same: "same_setup rig rig' \<Longrightarrow> fits rig \<Longrightarrow> fits rig'"
    and sf_tunes: "tracked caps ready tuned s rig \<Longrightarrow> fits rig \<Longrightarrow> tunable f \<Longrightarrow>
      \<exists>rig'. run_state (sf RIG_VFO_CURR f) rig = (RIG_OK, rig') \<and> same_setup rig rig'
        \<and> ready (current_vfo rig) (priv rig') \<and> tuned (current_vfo rig) (priv rig') = f"
    and tunable_nonzero: "tunable f \<Longrightarrow> f \<noteq> 0"

context tuner
begin

text \<open>The three steps of \<^verbatim>\<open>rig_set_freq\<close>: tell the radio, read back if it may have rounded,
  cache.\<close>

lemma set_direct_run:
  assumes "tracked caps ready tuned s rig" and "fits rig" and "tunable r"
  shows "\<exists>rig'. run_state (set_freq_direct caps P sf RIG_VFO_CURR v r) rig = (Inr RIG_OK, rig')
    \<and> same_setup rig rig' \<and> on_air tuned rig' = r \<and> tracked caps ready tuned s rig'"
proof -
  have conf: "tuning_setup caps s rig" using assms(1) by (simp add: tracked_def)
  then have knob: "run_state (twiddling caps) rig = (False, rig)"
    by (simp add: twiddling_def tuning_setup_def)
  obtain rig1 where sf: "run_state (sf RIG_VFO_CURR r) rig = (RIG_OK, rig1)" and same1: "same_setup rig rig1"
    and p: "ready (current_vfo rig) (priv rig1)" "tuned (current_vfo rig) (priv rig1) = r"
    using sf_tunes [OF assms] by blast
  obtain flag where st: "run_state (rig_set_cache_freq RIG_VFO_CURR 0) rig1 = (RIG_OK, on_cache (store_freq s 0 flag) rig1)"
    using store_current [OF tuning_setup_same [OF same1 conf], of RIG_VFO_CURR 0] by blast
  let ?rig2 = "on_cache (store_freq s 0 flag) rig1"
  have same2: "same_setup rig ?rig2"
    by (rule same_setup_trans [OF same1]) (simp add: same_setup_on_cache)
  have v: "current_vfo rig1 = current_vfo rig" using same1 by (simp add: same_setup_def)
  have "RIG_OK \<noteq> - RIG_ENTARGET" by (simp add: rc_defs)
  then have "run_state (set_freq_direct caps P sf RIG_VFO_CURR v r) rig = (Inr RIG_OK, ?rig2)"
    using knob sf st by (simp add: set_freq_direct_def)
  moreover have "on_air tuned ?rig2 = r" using p(2) by (simp add: on_air_def v)
  moreover have "tracked caps ready tuned s ?rig2"
    using tuning_setup_same [OF same2 conf] p tunable_nonzero [OF assms(3)]
    by (simp add: tracked_def coherent_def on_air_def v)
  ultimately show ?thesis using same2 by blast
qed

lemma set_verify_run:
  assumes "tracked caps ready tuned s rig"
  shows "\<exists>rig'. run_state (set_freq_verify caps P RIG_VFO_CURR r (user_freq rig (on_air tuned rig)) RIG_OK) rig
      = (Inr (RIG_OK, user_freq rig (on_air tuned rig)), rig')
    \<and> same_setup rig rig' \<and> on_air tuned rig' = on_air tuned rig \<and> tracked caps ready tuned s rig'"
proof (cases "c_trunc r mod 100 \<noteq> 0 \<or> r > 100000000")
  case True
  let ?u = "user_freq rig (on_air tuned rig)" and ?rig1 = "on_cache invalidate_all rig"
  have clear: "run_state (rig_set_cache_freq RIG_VFO_ALL 0) rig = (RIG_OK, ?rig1)"
    by (simp add: run_set_cache_freq cache_vfo_def vfo_defs)
  have same: "same_setup rig ?rig1" by (simp add: same_setup_on_cache)
  have air: "on_air tuned ?rig1 = on_air tuned rig" by (simp add: on_air_def)
  have "tracked caps ready tuned s ?rig1"
    using assms tuning_setup_same [OF same]
    by (simp add: tracked_def coherent_def air same_setup_user [OF same])
  from get_freq_run [OF this, of P ?u] obtain rig' where
    "run_state (rig_get_freq caps P RIG_VFO_CURR ?u) ?rig1 = ((RIG_OK, ?u), rig')"
    "same_setup ?rig1 rig'" "on_air tuned rig' = on_air tuned rig" "tracked caps ready tuned s rig'"
    by (auto simp: air same_setup_user [OF same])
  with True clear same_setup_trans [OF same] show ?thesis
    by (auto simp: set_freq_verify_def has_get_freq)
next
  case False
  then show ?thesis using assms by (simp add: set_freq_verify_def)
qed

lemma set_end_run:
  assumes "tracked caps ready tuned s rig" and "f = user_freq rig (on_air tuned rig)"
  shows "\<exists>rig'. run_state (set_freq_end caps P RIG_VFO_CURR v f RIG_OK) rig = (RIG_OK, rig')
    \<and> same_setup rig rig' \<and> on_air tuned rig' = on_air tuned rig \<and> tracked caps ready tuned s rig'"
proof -
  let ?rig1 = "rig\<lparr>current_freq := f\<rparr>"
  have conf: "tuning_setup caps s rig" using assms(1) by (simp add: tracked_def)
  have same1: "same_setup rig ?rig1" by (simp add: same_setup_def)
  obtain flag where st: "run_state (rig_set_cache_freq RIG_VFO_CURR f) ?rig1
      = (RIG_OK, on_cache (store_freq s f flag) ?rig1)"
    using store_current [OF tuning_setup_same [OF same1 conf], of RIG_VFO_CURR f] by blast
  let ?rig2 = "on_cache (store_freq s f flag) ?rig1"
  have same2: "same_setup rig ?rig2"
    by (rule same_setup_trans [OF same1]) (simp add: same_setup_on_cache)
  have "run_state (set_freq_end caps P RIG_VFO_CURR v f RIG_OK) rig = (RIG_OK, ?rig2)"
    using st by (simp add: set_freq_end_def)
  moreover have "same_radio ready tuned rig ?rig2"
    using assms(1) by (simp add: same_radio_def tracked_def)
  ultimately show ?thesis using tracked_step [OF assms(1) same2] same2 assms(2) by simp
qed

lemma set_freq_run:
  assumes "tracked caps ready tuned s rig" and "fits rig" and "tunable (raw_freq rig f)" and "comes_back rig f"
  shows "\<exists>rig'. run_state (rig_set_freq caps P RIG_VFO_CURR f) rig = (RIG_OK, rig')
    \<and> same_setup rig rig' \<and> on_air tuned rig' = raw_freq rig f \<and> tracked caps ready tuned s rig'"
proof -
  let ?r = "raw_freq rig f" and ?rig0 = "rig\<lparr>twiddle_state := TWIDDLE_OFF\<rparr>"
  have same0: "same_setup rig ?rig0" by (simp add: same_setup_def)
  have comm: "comm_state rig" using assms(1) by (simp_all add: tracked_def tuning_setup_def)
  have tracked0: "tracked caps ready tuned s ?rig0"
    using assms(1) tuning_setup_same [OF same0]
    by (simp add: tracked_def coherent_def on_air_def same_setup_user [OF same0])
  from set_direct_run [OF tracked0 fits_same [OF same0 assms(2)] assms(3), of P "current_vfo rig"]
  obtain rig1 where d: "run_state (set_freq_direct caps P sf RIG_VFO_CURR (current_vfo rig) ?r) ?rig0 = (Inr RIG_OK, rig1)"
    "same_setup ?rig0 rig1" "on_air tuned rig1 = ?r" "tracked caps ready tuned s rig1" by blast
  have u1: "user_freq rig1 ?r = f"
    using same_setup_user [OF same_setup_trans [OF same0 d(2)]] assms(4) by (simp add: comes_back_def)
  from set_verify_run [OF d(4), of P ?r] obtain rig2 where
    v: "run_state (set_freq_verify caps P RIG_VFO_CURR ?r f RIG_OK) rig1 = (Inr (RIG_OK, f), rig2)"
    "same_setup rig1 rig2" "on_air tuned rig2 = ?r" "tracked caps ready tuned s rig2"
    by (auto simp: d(3) u1)
  have "f = user_freq rig2 (on_air tuned rig2)" by (simp add: v(3) same_setup_user [OF v(2)] u1)
  from set_end_run [OF v(4) this, of P "current_vfo rig"] obtain rig3 where
    e: "run_state (set_freq_end caps P RIG_VFO_CURR (current_vfo rig) f RIG_OK) rig2 = (RIG_OK, rig3)"
    "same_setup rig2 rig3" "on_air tuned rig3 = ?r" "tracked caps ready tuned s rig3"
    by (auto simp: v(3))
  have "run_state (rig_set_freq caps P RIG_VFO_CURR f) rig = (RIG_OK, rig3)"
  proof -
    let ?f1 = "if lo_freq rig \<noteq> 0 then to_double (f - lo_freq rig) else f"
    have r: "(if vfo_comp rig \<noteq> 0 then to_double (?f1 + to_double (vfo_comp rig * ?f1)) else ?f1) = ?r"
      by (simp add: raw_freq_def Let_def)
    show ?thesis
      unfolding rig_set_freq_def check_rig_arg_def has_set_freq
      using d(1) v(1) e(1) comm r
      by (cases "lo_freq rig = 0"; cases "vfo_comp rig = 0") (simp_all add: vfo_fixup_names Let_def)
  qed
  moreover have "same_setup rig rig3"
    using same0 d(2) v(2) e(2) by (blast intro: same_setup_trans)
  ultimately show ?thesis using e by blast
qed

text \<open>The refinement: a session is answered as the specification says.\<close>

lemma serve_run:
  assumes "tracked caps ready tuned s rig" and "fits rig" and "\<forall>f. Tune f \<in> set rs \<longrightarrow> tunable (raw_freq rig f) \<and> comes_back rig f"
  shows "fst (run_state (serve caps P rs) rig) = promised (user_freq rig (on_air tuned rig)) rs"
  using assms
proof (induction rs arbitrary: rig)
  case (Cons r rs)
  show ?case
  proof (cases r)
    case (Tune f)
    obtain rig' where r: "run_state (rig_set_freq caps P RIG_VFO_CURR f) rig = (RIG_OK, rig')"
      "same_setup rig rig'" "on_air tuned rig' = raw_freq rig f" "tracked caps ready tuned s rig'"
      using set_freq_run [OF Cons.prems(1,2), of f P] Cons.prems(3) Tune by auto
    have return: "comes_back rig f" using Cons.prems(3) Tune by simp
    have u: "user_freq rig' (on_air tuned rig') = f"
      using return by (simp add: r(3) same_setup_user [OF r(2)] comes_back_def)
    have "\<forall>f. Tune f \<in> set rs \<longrightarrow> tunable (raw_freq rig' f) \<and> comes_back rig' f"
      using Cons.prems(3) by (simp add: same_setup_raw [OF r(2)] same_setup_back [OF r(2)])
    from Cons.IH [OF r(4) fits_same [OF r(2) Cons.prems(2)] this] show ?thesis
      using r(1) by (auto simp: Tune u split: prod.split)
  next
    case (Read x)
    obtain rig' where r: "run_state (rig_get_freq caps P RIG_VFO_CURR x) rig
        = ((RIG_OK, user_freq rig (on_air tuned rig)), rig')"
      "same_setup rig rig'" "on_air tuned rig' = on_air tuned rig" "tracked caps ready tuned s rig'"
      using get_freq_run [OF Cons.prems(1)] by blast
    have "\<forall>f. Tune f \<in> set rs \<longrightarrow> tunable (raw_freq rig' f) \<and> comes_back rig' f"
      using Cons.prems(3) by (simp add: same_setup_raw [OF r(2)] same_setup_back [OF r(2)])
    from Cons.IH [OF r(4) fits_same [OF r(2) Cons.prems(2)] this] show ?thesis
      using r(1) by (auto simp: Read r(3) same_setup_user [OF r(2)] split: prod.split)
  next
    case (Pause t)
    let ?rig' = "rig\<lparr>now := t\<rparr>"
    have same: "same_setup rig ?rig'" by (simp add: same_setup_def)
    have air: "on_air tuned ?rig' = on_air tuned rig" by (simp add: on_air_def)
    have "tracked caps ready tuned s ?rig'"
      using Cons.prems(1) tuning_setup_same [OF same]
      by (simp add: tracked_def coherent_def air same_setup_user [OF same])
    moreover have "\<forall>f. Tune f \<in> set rs \<longrightarrow> tunable (raw_freq ?rig' f) \<and> comes_back ?rig' f"
      using Cons.prems(3) by (simp add: same_setup_raw [OF same] same_setup_back [OF same])
    ultimately show ?thesis
      using Cons.IH [OF _ fits_same [OF same Cons.prems(2)]] by (simp add: Pause air same_setup_user [OF same])
  qed
qed simp

end

subsection \<open>When the radio does not answer\<close>

text \<open>A back end that fails every read and leaves the output as it was.\<close>

definition reads_fail :: "int \<Rightarrow> 'p caps \<Rightarrow> bool" where
  "reads_fail rc caps \<longleftrightarrow> rc \<noteq> RIG_OK
     \<and> (\<exists>f. get_freq caps = Some f \<and> (\<forall>v x rig. run_state (f v x) rig = ((rc, x), rig)))"

definition fresh :: "slot \<Rightarrow> 'p rig \<Rightarrow> bool" where
  "fresh s rig \<longleftrightarrow> o_ms_freq (slot_view rig s) < timeout_ms (cache rig)
     \<or> timeout_ms (cache rig) = HAMLIB_CACHE_ALWAYS \<or> use_cached_freq rig"

lemma read_stamps_timeout [simp]: "timeout_ms (read_stamps s t c) = timeout_ms c"
  "timeout_ms (store_freq s f flag t c) = timeout_ms c"
  by (simp_all add: read_stamps_def store_freq_def stamp_defs)

lemma use_cached_on_cache [simp]: "use_cached_freq (on_cache f rig) = use_cached_freq rig"
  by (simp add: on_cache_def)

lemma get_freq_opens_cache:
  assumes "tuning_setup caps s rig"
  shows "run_state (rig_get_freq caps P RIG_VFO_CURR x) rig =
    (if c_freq (cache rig) s \<noteq> 0 \<and> fresh s rig
     then ((RIG_OK, c_freq (cache rig) s), on_cache (read_stamps s) rig)
     else run_state (get_freq_uncached caps P (current_vfo rig) (current_vfo rig) (c_freq (cache rig) s))
       (on_cache (read_stamps s) rig))"
proof -
  have "run_state (rig_get_cache (current_vfo rig) (junk_out P x)) rig
      = ((RIG_OK, slot_view rig s), on_cache (read_stamps s) rig)"
    using assms setup_slots(5) [OF assms] by (simp add: run_get_cache tuning_setup_def)
  moreover have "o_freq (slot_view rig s) = c_freq (cache rig) s" by (simp add: slot_view_def)
  moreover have "run_state (rig_get_freq caps P RIG_VFO_CURR x) rig
      = run_state (get_freq_via_cache caps P (current_vfo rig) (current_vfo rig) x) rig"
    using assms by (auto simp: rig_get_freq_def check_rig_arg_def tuning_setup_def vfo_fixup_names Let_def)
  ultimately show ?thesis by (auto simp: get_freq_via_cache_def fresh_def)
qed

text \<open>C24: a failed read is answered from the cache the next time, as a success and with another
  frequency. When the cached frequency \<open>u\<close> of the current VFO is too old and the radio
  fails to answer, \<^verbatim>\<open>rig_get_freq\<close> reports the error, but it applies the VFO
  compensation and the local oscillator to \<open>u\<close> once more and caches the result as fresh:
  repeating the call at once returns \<^verbatim>\<open>RIG_OK\<close> with that value.\<close>

lemma failed_read_cached:
  assumes "tuning_setup caps s rig" and "reads_fail rc caps"
    and "c_freq (cache rig) s = u" and "u \<noteq> 0" and "\<not> fresh s rig"
    and "tv_nsec (now rig) \<noteq> 0" and "0 < timeout_ms (cache rig)" and "user_freq rig u \<noteq> 0"
    and "run_state (rig_get_freq caps P RIG_VFO_CURR x) rig = (res, rig')"
  shows "res = (rc, user_freq rig u)
    \<and> fst (run_state (rig_get_freq caps P RIG_VFO_CURR y) rig') = (RIG_OK, user_freq rig u)"
proof -
  let ?v = "current_vfo rig" and ?w = "user_freq rig u" and ?rig1 = "on_cache (read_stamps s) rig"
  let ?rig2 = "on_cache (store_freq s ?w HAMLIB_ELAPSED_SET) ?rig1"
  have v: "?v \<noteq> RIG_VFO_CURR" using assms(1) by (simp add: tuning_setup_def)
  obtain f where f: "get_freq caps = Some f" "run_state (f ?v u) ?rig1 = ((rc, u), ?rig1)" "rc \<noteq> RIG_OK"
    using assms(2) by (auto simp: reads_fail_def)
  have same1: "same_setup rig ?rig1" by (simp add: same_setup_on_cache)
  have w: "(let f1 = (if vfo_comp rig \<noteq> 0 then to_double (u / to_double (1 + vfo_comp rig)) else u)
      in if lo_freq rig \<noteq> 0 then to_double (f1 + lo_freq rig) else f1) = ?w"
    by (simp add: user_freq_def Let_def)
  have st: "run_state (rig_set_cache_freq ?v ?w) ?rig1 = (RIG_OK, ?rig2)"
    using setup_slots(1,3) [OF tuning_setup_same [OF same1 assms(1)]] assms(8)
    by (simp add: run_set_cache_freq)
  have e: "run_state (get_freq_end rc u ?v) ?rig1 = ((rc, ?w), ?rig2)"
  proof -
    have "vfo_comp ?rig1 = vfo_comp rig" "lo_freq ?rig1 = lo_freq rig"
      using same1 by (simp_all add: same_setup_def)
    then show ?thesis using st w f(3) by (simp add: get_freq_end_def Let_def split: if_splits)
  qed
  have "run_state (get_freq_direct caps P f ?v u) ?rig1 = (Inr (rc, u, ?v), ?rig1)"
    using f(2,3) v assms(4) by (simp add: get_freq_direct_def)
  then have "run_state (get_freq_uncached caps P ?v ?v u) ?rig1 = ((rc, ?w), ?rig2)"
    using e by (simp add: get_freq_uncached_def f(1))
  then have run: "res = (rc, ?w)" "rig' = ?rig2"
    using assms(3,5,9) get_freq_opens_cache [OF assms(1), of P x] by simp_all
  have same2: "same_setup rig ?rig2"
    by (rule same_setup_trans [OF same1]) (simp add: same_setup_on_cache)
  have "fresh s ?rig2"
    using age_just_set [OF assms(6)] assms(7)
    by (simp add: fresh_def slot_view_def store_freq_def stamp_freq_def)
  then show ?thesis
    using run get_freq_opens_cache [OF tuning_setup_same [OF same2 assms(1)], of P y] assms(8) by simp
qed

definition silent_caps :: "int caps" where
  "silent_caps = no_caps\<lparr>get_freq := Some (\<lambda>v x. State_Monad.return (- RIG_EIO, x))\<rparr>"

definition offset_rig :: "int rig" where
  "offset_rig = (two_vfo_rig 3)\<lparr>current_vfo := RIG_VFO_A, lo_freq := 1000,
     cache := zero_cache\<lparr>timeout_ms := 500, c_freq := (\<lambda>_. 0)(MainA := 7000000)\<rparr>\<rparr>"

lemma offset_rig_setup: "tuning_setup silent_caps MainA offset_rig"
  by (simp add: tuning_setup_def offset_rig_def two_vfo_rig_def zero_rig_def zero_cache_def cache_vfo_def
      freq_slot_def vfo_defs)

lemma failed_read_cached_witness:
  "fst (run_state (rig_get_freq silent_caps dead_ports RIG_VFO_CURR 0) offset_rig) = (- RIG_EIO, 7001000)
   \<and> fst (run_state (rig_get_freq silent_caps dead_ports RIG_VFO_CURR 0)
        (snd (run_state (rig_get_freq silent_caps dead_ports RIG_VFO_CURR 0) offset_rig))) = (RIG_OK, 7001000)"
proof -
  have "reads_fail (- RIG_EIO) silent_caps"
    by (simp add: reads_fail_def silent_caps_def rc_defs)
  moreover have "\<not> fresh MainA offset_rig"
    by (simp add: fresh_def slot_view_def offset_rig_def two_vfo_rig_def zero_rig_def zero_cache_def
        zero_time_def HAMLIB_CACHE_ALWAYS_def)
  moreover have "c_freq (cache offset_rig) MainA = 7000000" "tv_nsec (now offset_rig) \<noteq> 0"
    "0 < timeout_ms (cache offset_rig)" "user_freq offset_rig 7000000 = 7001000"
    by (simp_all add: offset_rig_def two_vfo_rig_def zero_rig_def zero_cache_def user_freq_def)
  ultimately show ?thesis
    using failed_read_cached [OF offset_rig_setup _ _ _ _ _ _ _ prod.collapse [symmetric],
        of "- RIG_EIO" 7000000] by simp
qed

text \<open>a mode request can be dropped and reported as done. On an open handle, while the cache says
  the transmitter is keyed, \<^verbatim>\<open>rig_set_mode\<close> returns \<^verbatim>\<open>RIG_OK\<close> without calling the
  radio, whatever is asked; and on a rig that does not target modes, a request for any VFO but
  the current one is dropped in the same way when the mode asked for is the one cached for VFO B,
  also if the VFO addressed is A or C and is in another mode.\<close>

lemma set_mode_dropped:
  assumes "comm_state rig"
    and "c_ptt (cache rig) \<noteq> RIG_PTT_OFF
      \<or> set_mode caps \<noteq> None \<and> \<not> targetable caps RIG_TARGETABLE_MODE
        \<and> vfo_fixup rig (if vfo = RIG_VFO_CURR then current_vfo rig else vfo) (c_split (cache rig)) \<noteq> current_vfo rig
        \<and> c_mode (cache rig) MainB = mode"
  shows "run_state (rig_set_mode caps vfo mode width) rig = (RIG_OK, rig)"
  using assms by (auto simp: rig_set_mode_def check_rig_arg_def set_mode_swap_def Let_def)

definition mode_caps :: "int caps" where
  "mode_caps = no_caps\<lparr>set_mode := Some (\<lambda>v mw. State_Monad.return (- RIG_EIO))\<rparr>"

lemma set_mode_dropped_witness:
  "let rig = (two_vfo_rig 3)\<lparr>current_vfo := RIG_VFO_B,
      cache := zero_cache\<lparr>c_mode := (\<lambda>_. 0)(MainA := RIG_MODE_FM, MainB := RIG_MODE_USB)\<rparr>\<rparr>
   in run_state (rig_set_mode mode_caps RIG_VFO_A RIG_MODE_USB 2400) rig = (RIG_OK, rig)"
proof -
  let ?rig = "(two_vfo_rig 3)\<lparr>current_vfo := RIG_VFO_B,
      cache := zero_cache\<lparr>c_mode := (\<lambda>_. 0)(MainA := RIG_MODE_FM, MainB := RIG_MODE_USB)\<rparr>\<rparr>"
  have "vfo_fixup ?rig RIG_VFO_A (c_split (cache ?rig)) \<noteq> RIG_VFO_B"
    by (simp add: vfo_fixup_names) (simp add: vfo_defs)
  moreover have "RIG_VFO_A \<noteq> RIG_VFO_CURR" by (simp add: vfo_defs)
  moreover have "\<not> targetable mode_caps RIG_TARGETABLE_MODE" "set_mode mode_caps \<noteq> None"
    by (simp_all add: targetable_def mode_caps_def no_caps_def)
  ultimately show ?thesis
    using set_mode_dropped [of ?rig mode_caps RIG_VFO_A RIG_MODE_USB 2400]
    by (simp add: two_vfo_rig_def zero_rig_def)
qed

end
