(* ===== verification/Hamlib_Dummy.thy ===== *)
theory Hamlib_Dummy
  imports Hamlib_Frequency
begin

text \<open>
  The dummy back end (\<^verbatim>\<open>rigs/dummy/dummy.c\<close>), a simulated transceiver: its private data,
  its operations, and the handle it is called with. It is the model's instance of the
  back-end interfaces of the front end.

  A channel is named by where it is stored, because the C code keeps a pointer to the current
  one. A command takes 20 ms, which is how far it moves the clock. \<^verbatim>\<open>rand()\<close> is an argument
  of the operations that use it. The C code allocates the private data without clearing
  it; fields that are read before they are written (\<^verbatim>\<open>split\<close>, VFO C and the extension
  lists of the channels other than A, B and the memories) have whatever value the record
  holds, the extension lists the empty one.
\<close>

subsection \<open>Private data\<close>

datatype chan_ref = Ch_A | Ch_B | Ch_C | Ch_MainA | Ch_MainB | Ch_SubA | Ch_SubB | Ch_Mem nat

record channel_t =
  channel_num :: int
  ch_vfo :: vfo_t
  channel_desc :: string
  ch_freq :: freq_t
  ch_mode :: rmode_t
  ch_width :: pbwidth_t
  ch_tx_freq :: freq_t
  ch_tx_mode :: rmode_t
  ch_tx_width :: pbwidth_t
  ch_split :: split_t
  ch_tx_vfo :: vfo_t
  ch_rptr_shift :: rptr_shift_t
  ch_rptr_offs :: shortfreq_t
  ch_ctcss_tone :: nat
  ch_dcs_code :: nat
  ch_ctcss_sql :: nat
  ch_dcs_sql :: nat
  ch_rit :: shortfreq_t
  ch_xit :: shortfreq_t
  ch_tuning_step :: shortfreq_t
  ch_ant :: ant_t
  ch_funcs :: setting_t
  ch_levels :: "nat \<Rightarrow> value_t"
  ext_levels :: "(nat \<times> value_t) list"

record dummy_priv =
  d_curr_vfo :: vfo_t
  d_last_vfo :: vfo_t
  d_split :: bool
  d_tx_vfo :: vfo_t
  d_ptt :: ptt_t
  d_powerstat :: int
  d_bank :: int
  d_parms :: "nat \<Rightarrow> value_t"
  d_ant_option :: "nat \<Rightarrow> int"
  d_curr :: chan_ref
  d_chan :: "chan_ref \<Rightarrow> channel_t"
  d_ext_funcs :: "(nat \<times> value_t) list"
  d_ext_parms :: "(nat \<times> value_t) list"
  d_static_data :: bool
  d_dcd_twiddle :: int

type_synonym dummy_rig = "dummy_priv rig"

definition NB_CHAN :: int where "NB_CHAN = 22"
definition RIG_MODEL_DUMMY :: nat where "RIG_MODEL_DUMMY = RIG_MAKE_MODEL RIG_DUMMY 1"
definition RIG_MODEL_DUMMY_NOVFO :: nat where "RIG_MODEL_DUMMY_NOVFO = RIG_MAKE_MODEL RIG_DUMMY 6"

definition TOK_EL_MAGICLEVEL :: nat where "TOK_EL_MAGICLEVEL = 1"
definition TOK_EL_MAGICFUNC :: nat where "TOK_EL_MAGICFUNC = 2"
definition TOK_EL_MAGICOP :: nat where "TOK_EL_MAGICOP = 3"
definition TOK_EP_MAGICPARM :: nat where "TOK_EP_MAGICPARM = 4"
definition TOK_EL_MAGICCOMBO :: nat where "TOK_EL_MAGICCOMBO = 5"
definition TOK_EL_MAGICEXTFUNC :: nat where "TOK_EL_MAGICEXTFUNC = 6"

definition RIG_ANT_N :: "nat \<Rightarrow> ant_t" where "RIG_ANT_N n = FLAG32 n"
definition RIG_ANT_CURR :: ant_t where "RIG_ANT_CURR = RIG_ANT_N 31"

subsection \<open>Access to the state\<close>

definition upd_priv :: "(dummy_priv \<Rightarrow> dummy_priv) \<Rightarrow> (dummy_rig, unit) state" where
  "upd_priv f = modify (\<lambda>rig. rig\<lparr>priv := f (priv rig)\<rparr>)"

definition curr_chan :: "dummy_rig \<Rightarrow> channel_t" where
  "curr_chan rig = d_chan (priv rig) (d_curr (priv rig))"

definition upd_chan :: "chan_ref \<Rightarrow> (channel_t \<Rightarrow> channel_t) \<Rightarrow> (dummy_rig, unit) state" where
  "upd_chan ref f = upd_priv (\<lambda>p. p\<lparr>d_chan := (d_chan p)(ref := f (d_chan p ref))\<rparr>)"

definition upd_curr :: "(channel_t \<Rightarrow> channel_t) \<Rightarrow> (dummy_rig, unit) state" where
  "upd_curr f = upd_priv (\<lambda>p. p\<lparr>d_chan := (d_chan p)(d_curr p := f (d_chan p (d_curr p)))\<rparr>)"

definition add_usec :: "int \<Rightarrow> timespec \<Rightarrow> timespec" where
  "add_usec us t = (let ns = tv_nsec t + us * 1000
     in \<lparr>tv_sec = tv_sec t + ns div 1000000000, tv_nsec = ns mod 1000000000\<rparr>)"

definition CMDSLEEP :: int where "CMDSLEEP = 20 * 1000"

definition dummy_usleep :: "(dummy_rig, unit) state" where
  "dummy_usleep = modify (\<lambda>rig. rig\<lparr>now := add_usec CMDSLEEP (now rig)\<rparr>)"

definition ok :: "(dummy_rig, int) state" where
  "ok = State_Monad.return RIG_OK"

subsection \<open>Extension lists: dummy_common.c\<close>

fun find_ext :: "(nat \<times> value_t) list \<Rightarrow> nat \<Rightarrow> value_t option" where
  "find_ext [] token = None"
| "find_ext ((tok, val) # t) token =
     (if tok = 0 then None else if tok = token then Some val else find_ext t token)"

fun store_ext :: "(nat \<times> value_t) list \<Rightarrow> nat \<Rightarrow> value_t \<Rightarrow> (nat \<times> value_t) list" where
  "store_ext [] token v = []"
| "store_ext ((tok, val) # t) token v =
     (if tok = 0 then (tok, val) # t
      else if tok = token then (tok, v) # t
      else (tok, val) # store_ext t token v)"

definition alloc_init_ext :: "nat list \<Rightarrow> (nat \<times> value_t) list" where
  "alloc_init_ext toks = map (\<lambda>tok. (tok, VInt 0)) toks"

subsection \<open>Channels\<close>

fun copy_ext :: "(nat \<times> value_t) list \<Rightarrow> (nat \<times> value_t) list \<Rightarrow> (nat \<times> value_t) list" where
  "copy_ext (d # ds) (s # ss) = s # copy_ext ds ss"
| "copy_ext ds ss = ds"

definition copy_chan :: "channel_t \<Rightarrow> channel_t \<Rightarrow> channel_t" where
  "copy_chan dest src = src\<lparr>ext_levels := copy_ext (ext_levels dest) (ext_levels src)\<rparr>"

definition chan_vfo :: "channel_t \<Rightarrow> vfo_t \<Rightarrow> channel_t" where
  "chan_vfo chan vfo = chan\<lparr>ch_vfo := vfo, channel_desc := rig_strvfo vfo\<rparr>"

definition zero_chan :: channel_t where
  "zero_chan = \<lparr>channel_num = 0, ch_vfo = 0, channel_desc = [], ch_freq = 0, ch_mode = 0, ch_width = 0,
     ch_tx_freq = 0, ch_tx_mode = 0, ch_tx_width = 0, ch_split = RIG_SPLIT_OFF, ch_tx_vfo = 0,
     ch_rptr_shift = RIG_RPT_SHIFT_NONE, ch_rptr_offs = 0, ch_ctcss_tone = 0, ch_dcs_code = 0,
     ch_ctcss_sql = 0, ch_dcs_sql = 0, ch_rit = 0, ch_xit = 0, ch_tuning_step = 0, ch_ant = 0,
     ch_funcs = 0, ch_levels = (\<lambda>_. VInt 0), ext_levels = []\<rparr>"

text \<open>The frequency of a VFO the \<^verbatim>\<open>switch\<close> does not name stays as it was.\<close>

definition init_chan_freq :: "vfo_t \<Rightarrow> freq_t \<Rightarrow> freq_t" where
  "init_chan_freq vfo freq =
     (if vfo = RIG_VFO_A \<or> vfo = RIG_VFO_MAIN_A then 145000000
      else if vfo = RIG_VFO_B \<or> vfo = RIG_VFO_MAIN_B then 146000000
      else if vfo = RIG_VFO_SUB_A then 147000000
      else if vfo = RIG_VFO_SUB_B then 148000000
      else freq)"

definition init_chan :: "dummy_rig \<Rightarrow> vfo_t \<Rightarrow> channel_t \<Rightarrow> channel_t" where
  "init_chan rig vfo chan =
     (let f = init_chan_freq vfo (ch_freq chan); w = rig_passband_normal rig RIG_MODE_FM
      in chan\<lparr>channel_num := 0, ch_vfo := vfo, channel_desc := rig_strvfo vfo, ch_freq := f,
           ch_mode := RIG_MODE_FM, ch_width := w, ch_tx_freq := f, ch_tx_mode := RIG_MODE_FM,
           ch_tx_width := w, ch_split := RIG_SPLIT_OFF, ch_tx_vfo := vfo,
           ch_rptr_shift := RIG_RPT_SHIFT_NONE, ch_rptr_offs := 0, ch_ctcss_tone := 0,
           ch_dcs_code := 0, ch_ctcss_sql := 0, ch_dcs_sql := 0, ch_rit := 0, ch_xit := 0,
           ch_tuning_step := 0, ch_ant := 0, ch_funcs := 0, ch_levels := (\<lambda>_. VInt 0)\<rparr>)"

text \<open>\<^verbatim>\<open>dummy_init\<close> on the memory \<^verbatim>\<open>malloc\<close> returned; allocation does not fail.\<close>

definition dummy_ext_level_toks :: "nat list" where
  "dummy_ext_level_toks = [TOK_EL_MAGICLEVEL, TOK_EL_MAGICFUNC, TOK_EL_MAGICOP, TOK_EL_MAGICCOMBO]"

definition dummy_init :: "nat \<Rightarrow> dummy_priv \<Rightarrow> (dummy_rig, int) state" where
  "dummy_init model mem = do {
     rig \<leftarrow> gets id;
     let chans = (\<lambda>ref. case ref of
         Ch_Mem i \<Rightarrow> if int i < NB_CHAN
           then zero_chan\<lparr>channel_num := int i, ch_vfo := RIG_VFO_MEM,
                           ext_levels := alloc_init_ext dummy_ext_level_toks\<rparr>
           else d_chan mem ref
       | Ch_A \<Rightarrow> init_chan rig RIG_VFO_A ((d_chan mem Ch_A)\<lparr>ext_levels := alloc_init_ext dummy_ext_level_toks\<rparr>)
       | Ch_B \<Rightarrow> init_chan rig RIG_VFO_B ((d_chan mem Ch_B)\<lparr>ext_levels := alloc_init_ext dummy_ext_level_toks\<rparr>)
       | Ch_MainA \<Rightarrow> init_chan rig RIG_VFO_MAIN_A (d_chan mem Ch_MainA)
       | Ch_MainB \<Rightarrow> init_chan rig RIG_VFO_MAIN_B (d_chan mem Ch_MainB)
       | Ch_SubA \<Rightarrow> init_chan rig RIG_VFO_SUB_A (d_chan mem Ch_SubA)
       | Ch_SubB \<Rightarrow> init_chan rig RIG_VFO_SUB_B (d_chan mem Ch_SubB)
       | Ch_C \<Rightarrow> d_chan mem Ch_C);
     let v = (if model = RIG_MODEL_DUMMY_NOVFO then RIG_VFO_CURR else RIG_VFO_A);
     _ \<leftarrow> upd_priv (\<lambda>_. mem\<lparr>d_ptt := RIG_PTT_OFF, d_powerstat := 1, d_bank := 0,
            d_parms := (\<lambda>_. VInt 0), d_chan := chans, d_ext_funcs := alloc_init_ext [TOK_EL_MAGICEXTFUNC],
            d_ext_parms := alloc_init_ext [TOK_EP_MAGICPARM], d_curr := Ch_A, d_curr_vfo := v,
            d_last_vfo := v\<rparr>);
     ok
   }"

subsection \<open>Frequency, mode, VFO\<close>

definition freq_chan :: "vfo_t \<Rightarrow> chan_ref option" where
  "freq_chan vfo =
     (if vfo = RIG_VFO_MAIN \<or> vfo = RIG_VFO_A then Some Ch_A
      else if vfo = RIG_VFO_MAIN_A then Some Ch_MainA
      else if vfo = RIG_VFO_MAIN_B then Some Ch_MainB
      else if vfo = RIG_VFO_SUB \<or> vfo = RIG_VFO_B then Some Ch_B
      else if vfo = RIG_VFO_SUB_A then Some Ch_SubA
      else if vfo = RIG_VFO_SUB_B then Some Ch_SubB
      else if vfo = RIG_VFO_C then Some Ch_C
      else None)"

definition dummy_set_freq :: "(dummy_priv, freq_t) setter" where
  "dummy_set_freq vfo0 freq = do {
     vfo \<leftarrow> gets (\<lambda>rig. if vfo0 = RIG_VFO_CURR then d_curr_vfo (priv rig) else vfo0);
     _ \<leftarrow> dummy_usleep;
     _ \<leftarrow> (case freq_chan vfo of
         Some ref \<Rightarrow> upd_chan ref (\<lambda>c. c\<lparr>ch_freq := freq\<rparr>)
       | None \<Rightarrow> State_Monad.return ());
     split \<leftarrow> gets (\<lambda>rig. d_split (priv rig));
     _ \<leftarrow> do_when (\<not> split) (upd_curr (\<lambda>c. c\<lparr>ch_tx_freq := freq\<rparr>));
     ok
   }"

definition dummy_get_freq :: "nat \<Rightarrow> (dummy_priv, freq_t) getter" where
  "dummy_get_freq model vfo0 freq = do {
     rig \<leftarrow> gets id;
     let vfo = (if vfo0 = RIG_VFO_CURR \<and> model \<noteq> RIG_MODEL_DUMMY_NOVFO then d_curr_vfo (priv rig) else vfo0);
     if (vfo = RIG_VFO_SUB \<and> uplink rig = 1) \<or> (vfo = RIG_VFO_MAIN \<and> uplink rig = 2)
     then State_Monad.return (RIG_OK, freq)
     else do {
       _ \<leftarrow> dummy_usleep;
       case freq_chan vfo of
         Some ref \<Rightarrow> State_Monad.return (RIG_OK, ch_freq (d_chan (priv rig) ref))
       | None \<Rightarrow> State_Monad.return (- RIG_EINVAL, freq)
     }
   }"

definition mode_chan :: "vfo_t \<Rightarrow> chan_ref option" where
  "mode_chan vfo =
     (if vfo = RIG_VFO_MAIN \<or> vfo = RIG_VFO_A then Some Ch_A
      else if vfo = RIG_VFO_SUB \<or> vfo = RIG_VFO_B then Some Ch_B
      else if vfo = RIG_VFO_C then Some Ch_C
      else None)"

text \<open>The second \<^verbatim>\<open>switch\<close> of \<^verbatim>\<open>dummy_set_mode\<close>, without Main and Sub.\<close>

definition width_chan :: "vfo_t \<Rightarrow> chan_ref option" where
  "width_chan vfo =
     (if vfo = RIG_VFO_A then Some Ch_A
      else if vfo = RIG_VFO_B then Some Ch_B
      else if vfo = RIG_VFO_C then Some Ch_C
      else None)"

definition dummy_set_mode :: "(dummy_priv, rmode_t \<times> pbwidth_t) setter" where
  "dummy_set_mode vfo0 mw = do {
     let mode = fst mw;
     let width = snd mw;
     _ \<leftarrow> dummy_usleep;
     rig \<leftarrow> gets id;
     let vfo1 = vfo_fixup rig vfo0 (c_split (cache rig));
     case mode_chan vfo1 of
       None \<Rightarrow> State_Monad.return (- RIG_EINVAL)
     | Some ref \<Rightarrow> do {
         _ \<leftarrow> upd_chan ref (\<lambda>c. c\<lparr>ch_mode := mode, ch_width := width\<rparr>);
         let vfo = vfo_fixup rig vfo1 (c_split (cache rig));
         if width = RIG_PASSBAND_NOCHANGE then ok
         else do {
           w \<leftarrow> (if width = RIG_PASSBAND_NORMAL
             then do {
               let nw = rig_passband_normal rig mode;
               _ \<leftarrow> upd_chan (d_curr (priv rig)) (\<lambda>c. c\<lparr>ch_width := nw\<rparr>);
               State_Monad.return nw
             }
             else State_Monad.return width);
           _ \<leftarrow> (case width_chan vfo of
               Some ref \<Rightarrow> upd_chan ref (\<lambda>c. c\<lparr>ch_width := w\<rparr>)
             | None \<Rightarrow> State_Monad.return ());
           ok
         }
       }
   }"

definition dummy_get_mode :: "(dummy_priv, rmode_t \<times> pbwidth_t) getter" where
  "dummy_get_mode vfo0 mw = do {
     _ \<leftarrow> dummy_usleep;
     rig \<leftarrow> gets id;
     let vfo = (if vfo0 = RIG_VFO_CURR then current_vfo rig else vfo0);
     State_Monad.return (RIG_OK, case mode_chan vfo of
         Some ref \<Rightarrow> (ch_mode (d_chan (priv rig) ref), ch_width (d_chan (priv rig) ref))
       | None \<Rightarrow> mw)
   }"

text \<open>The channel \<^verbatim>\<open>dummy_set_vfo\<close> moves to, if it knows the VFO.\<close>

definition tx_chan :: "dummy_priv \<Rightarrow> chan_ref" where
  "tx_chan p =
     (if d_tx_vfo p = RIG_VFO_A then Ch_A
      else if d_tx_vfo p = RIG_VFO_B then Ch_B
      else if d_tx_vfo p = RIG_VFO_MEM then Ch_Mem (nat (channel_num (d_chan p (d_curr p))))
      else Ch_A)"

definition vfo_chan :: "vfo_t \<Rightarrow> chan_ref option" where
  "vfo_chan vfo =
     (if vfo = RIG_VFO_VFO \<or> vfo = RIG_VFO_RX \<or> vfo = RIG_VFO_MAIN then Some Ch_A
      else if vfo = RIG_VFO_MAIN_A then Some Ch_MainA
      else if vfo = RIG_VFO_MAIN_B then Some Ch_MainB
      else if vfo = RIG_VFO_A then Some Ch_A
      else if vfo = RIG_VFO_SUB then Some Ch_B
      else if vfo = RIG_VFO_SUB_A then Some Ch_SubA
      else if vfo = RIG_VFO_SUB_B then Some Ch_SubB
      else if vfo = RIG_VFO_B then Some Ch_B
      else if vfo = RIG_VFO_C then Some Ch_C
      else None)"

definition set_vfo_chan :: "dummy_priv \<Rightarrow> vfo_t \<Rightarrow> chan_ref option" where
  "set_vfo_chan p vfo =
     (case vfo_chan vfo of
        Some ref \<Rightarrow> Some ref
      | None \<Rightarrow>
        let n = channel_num (d_chan p (d_curr p))
        in if vfo = RIG_VFO_MEM
           then (if 0 \<le> n \<and> n < NB_CHAN then Some (Ch_Mem (nat n)) else Some (tx_chan p))
           else if vfo = RIG_VFO_TX then Some (tx_chan p)
           else None)"

definition dummy_set_vfo :: "vfo_t \<Rightarrow> dummy_priv call" where
  "dummy_set_vfo vfo0 = do {
     _ \<leftarrow> dummy_usleep;
     vfo \<leftarrow> gets (\<lambda>rig. if vfo0 = RIG_VFO_CURR then current_vfo rig else vfo0);
     _ \<leftarrow> upd_priv (\<lambda>p. p\<lparr>d_last_vfo := d_curr_vfo p\<rparr>);
     _ \<leftarrow> upd_priv (\<lambda>p. p\<lparr>d_curr_vfo := vfo\<rparr>);
     dest \<leftarrow> gets (\<lambda>rig. set_vfo_chan (priv rig) vfo);
     case dest of
       None \<Rightarrow> State_Monad.return (- RIG_EINVAL)
     | Some ref \<Rightarrow> do {
         _ \<leftarrow> upd_priv (\<lambda>p. p\<lparr>d_curr := ref\<rparr>);
         _ \<leftarrow> modify (\<lambda>rig. rig\<lparr>current_vfo := vfo\<rparr>);
         ok
       }
   }"

definition dummy_get_vfo :: "vfo_t \<Rightarrow> (dummy_rig, int \<times> vfo_t) state" where
  "dummy_get_vfo vfo = do {
     _ \<leftarrow> dummy_usleep;
     gets (\<lambda>rig. (RIG_OK, d_curr_vfo (priv rig)))
   }"

subsection \<open>PTT and squelch\<close>

definition dummy_set_ptt :: "(dummy_priv, ptt_t) setter" where
  "dummy_set_ptt vfo ptt = do { _ \<leftarrow> upd_priv (\<lambda>p. p\<lparr>d_ptt := ptt\<rparr>); ok }"

definition dummy_line :: "(int \<Rightarrow> (dummy_rig, int \<times> int) state) \<Rightarrow> ptt_t \<Rightarrow> (dummy_rig, int \<times> ptt_t) state" where
  "dummy_line line ptt = do {
     fd \<leftarrow> gets pttport_fd;
     if fd \<ge> 0 then do {
       (rc, status) \<leftarrow> line 0;
       State_Monad.return (if rc \<noteq> RIG_OK then (rc, ptt)
         else (RIG_OK, if status \<noteq> 0 then RIG_PTT_ON else RIG_PTT_OFF))
     }
     else State_Monad.return (RIG_OK, RIG_PTT_OFF)
   }"

definition dummy_port :: "(ptt_t \<Rightarrow> (dummy_rig, int \<times> ptt_t) state) \<Rightarrow> ptt_t \<Rightarrow> (dummy_rig, int \<times> ptt_t) state" where
  "dummy_port port ptt = do {
     fd \<leftarrow> gets pttport_fd;
     if fd \<ge> 0 then port ptt else State_Monad.return (RIG_OK, ptt)
   }"

definition dummy_get_ptt :: "dummy_priv ports \<Rightarrow> (dummy_priv, ptt_t) getter" where
  "dummy_get_ptt P vfo ptt = do {
     _ \<leftarrow> dummy_usleep;
     rig \<leftarrow> gets id;
     case ptt_type rig of
       RIG_PTT_SERIAL_DTR \<Rightarrow> dummy_line (ser_get_dtr P) ptt
     | RIG_PTT_SERIAL_RTS \<Rightarrow> dummy_line (ser_get_rts P) ptt
     | RIG_PTT_PARALLEL \<Rightarrow> dummy_port (par_ptt_get P) ptt
     | RIG_PTT_CM108 \<Rightarrow> dummy_port (cm108_ptt_get P) ptt
     | RIG_PTT_GPIO \<Rightarrow> dummy_port (gpio_ptt_get P) ptt
     | RIG_PTT_GPION \<Rightarrow> dummy_port (gpio_ptt_get P) ptt
     | _ \<Rightarrow> State_Monad.return (RIG_OK, d_ptt (priv rig))
   }"

definition dummy_get_dcd :: "(dummy_priv, dcd_t) getter" where
  "dummy_get_dcd vfo dcd = do {
     _ \<leftarrow> dummy_usleep;
     n \<leftarrow> gets (\<lambda>rig. d_dcd_twiddle (priv rig));
     _ \<leftarrow> upd_priv (\<lambda>p. p\<lparr>d_dcd_twiddle := n + 1\<rparr>);
     State_Monad.return (RIG_OK, if odd n then RIG_DCD_ON else RIG_DCD_OFF)
   }"

subsection \<open>Settings of the current channel\<close>

definition dummy_set_rptr_shift :: "(dummy_priv, rptr_shift_t) setter" where
  "dummy_set_rptr_shift vfo val = do { _ \<leftarrow> dummy_usleep; _ \<leftarrow> upd_curr (\<lambda>c. c\<lparr>ch_rptr_shift := val\<rparr>); ok }"

definition dummy_get_rptr_shift :: "(dummy_priv, rptr_shift_t) getter" where
  "dummy_get_rptr_shift vfo val = do { _ \<leftarrow> dummy_usleep; gets (\<lambda>rig. (RIG_OK, ch_rptr_shift (curr_chan rig))) }"

definition dummy_set_rptr_offs :: "(dummy_priv, shortfreq_t) setter" where
  "dummy_set_rptr_offs vfo val = do { _ \<leftarrow> dummy_usleep; _ \<leftarrow> upd_curr (\<lambda>c. c\<lparr>ch_rptr_offs := val\<rparr>); ok }"

definition dummy_get_rptr_offs :: "(dummy_priv, shortfreq_t) getter" where
  "dummy_get_rptr_offs vfo val = do { gets (\<lambda>rig. (RIG_OK, ch_rptr_offs (curr_chan rig))) }"

definition dummy_set_ctcss_tone :: "(dummy_priv, nat) setter" where
  "dummy_set_ctcss_tone vfo val = do { _ \<leftarrow> dummy_usleep; _ \<leftarrow> upd_curr (\<lambda>c. c\<lparr>ch_ctcss_tone := val\<rparr>); ok }"

definition dummy_get_ctcss_tone :: "(dummy_priv, nat) getter" where
  "dummy_get_ctcss_tone vfo val = do { _ \<leftarrow> dummy_usleep; gets (\<lambda>rig. (RIG_OK, ch_ctcss_tone (curr_chan rig))) }"

definition dummy_set_dcs_code :: "(dummy_priv, nat) setter" where
  "dummy_set_dcs_code vfo val = do { _ \<leftarrow> dummy_usleep; _ \<leftarrow> upd_curr (\<lambda>c. c\<lparr>ch_dcs_code := val\<rparr>); ok }"

definition dummy_get_dcs_code :: "(dummy_priv, nat) getter" where
  "dummy_get_dcs_code vfo val = do { _ \<leftarrow> dummy_usleep; gets (\<lambda>rig. (RIG_OK, ch_dcs_code (curr_chan rig))) }"

definition dummy_set_ctcss_sql :: "(dummy_priv, nat) setter" where
  "dummy_set_ctcss_sql vfo val = do { _ \<leftarrow> dummy_usleep; _ \<leftarrow> upd_curr (\<lambda>c. c\<lparr>ch_ctcss_sql := val\<rparr>); ok }"

definition dummy_get_ctcss_sql :: "(dummy_priv, nat) getter" where
  "dummy_get_ctcss_sql vfo val = do { gets (\<lambda>rig. (RIG_OK, ch_ctcss_sql (curr_chan rig))) }"

definition dummy_set_dcs_sql :: "(dummy_priv, nat) setter" where
  "dummy_set_dcs_sql vfo val = do { _ \<leftarrow> upd_curr (\<lambda>c. c\<lparr>ch_dcs_sql := val\<rparr>); ok }"

definition dummy_get_dcs_sql :: "(dummy_priv, nat) getter" where
  "dummy_get_dcs_sql vfo val = do { gets (\<lambda>rig. (RIG_OK, ch_dcs_sql (curr_chan rig))) }"

definition dummy_set_rit :: "(dummy_priv, shortfreq_t) setter" where
  "dummy_set_rit vfo val = do { _ \<leftarrow> upd_curr (\<lambda>c. c\<lparr>ch_rit := val\<rparr>); ok }"

definition dummy_get_rit :: "(dummy_priv, shortfreq_t) getter" where
  "dummy_get_rit vfo val = do { gets (\<lambda>rig. (RIG_OK, ch_rit (curr_chan rig))) }"

definition dummy_set_xit :: "(dummy_priv, shortfreq_t) setter" where
  "dummy_set_xit vfo val = do { _ \<leftarrow> upd_curr (\<lambda>c. c\<lparr>ch_xit := val\<rparr>); ok }"

definition dummy_get_xit :: "(dummy_priv, shortfreq_t) getter" where
  "dummy_get_xit vfo val = do { gets (\<lambda>rig. (RIG_OK, ch_xit (curr_chan rig))) }"

definition dummy_set_ts :: "(dummy_priv, shortfreq_t) setter" where
  "dummy_set_ts vfo val = do { _ \<leftarrow> upd_curr (\<lambda>c. c\<lparr>ch_tuning_step := val\<rparr>); ok }"

definition dummy_get_ts :: "(dummy_priv, shortfreq_t) getter" where
  "dummy_get_ts vfo val = do { gets (\<lambda>rig. (RIG_OK, ch_tuning_step (curr_chan rig))) }"

definition dummy_set_split_freq :: "(dummy_priv, freq_t) setter" where
  "dummy_set_split_freq vfo val = do { _ \<leftarrow> upd_curr (\<lambda>c. c\<lparr>ch_tx_freq := val\<rparr>); ok }"

definition dummy_get_split_freq :: "(dummy_priv, freq_t) getter" where
  "dummy_get_split_freq vfo val = do { gets (\<lambda>rig. (RIG_OK, ch_tx_freq (curr_chan rig))) }"

definition dummy_set_split_mode :: "(dummy_priv, rmode_t \<times> pbwidth_t) setter" where
  "dummy_set_split_mode vfo mw = do {
     _ \<leftarrow> upd_curr (\<lambda>c. c\<lparr>ch_tx_mode := fst mw\<rparr>);
     _ \<leftarrow> do_when (snd mw \<noteq> RIG_PASSBAND_NOCHANGE) (upd_curr (\<lambda>c. c\<lparr>ch_tx_width := snd mw\<rparr>));
     ok
   }"

definition dummy_get_split_mode :: "(dummy_priv, rmode_t \<times> pbwidth_t) getter" where
  "dummy_get_split_mode vfo mw =
     gets (\<lambda>rig. (RIG_OK, ch_tx_mode (curr_chan rig), ch_tx_width (curr_chan rig)))"

definition dummy_set_split_vfo :: "(dummy_priv, split_t \<times> vfo_t) setter" where
  "dummy_set_split_vfo vfo sv = do {
     _ \<leftarrow> upd_curr (\<lambda>c. c\<lparr>ch_split := fst sv\<rparr>);
     _ \<leftarrow> upd_priv (\<lambda>p. p\<lparr>d_tx_vfo := snd sv\<rparr>);
     ok
   }"

definition dummy_get_split_vfo :: "(dummy_priv, split_t \<times> vfo_t) getter" where
  "dummy_get_split_vfo vfo sv = gets (\<lambda>rig. (RIG_OK, ch_split (curr_chan rig), snd sv))"

definition dummy_set_func :: "(dummy_priv, setting_t \<times> int) setter" where
  "dummy_set_func vfo fs = do {
     _ \<leftarrow> upd_curr (\<lambda>c. c\<lparr>ch_funcs := (if snd fs \<noteq> 0 then ch_funcs c OR fst fs
                                          else ch_funcs c AND NOT (fst fs))\<rparr>);
     ok
   }"

definition dummy_get_func :: "setting_t \<Rightarrow> (dummy_priv, int) getter" where
  "dummy_get_func func vfo status =
     gets (\<lambda>rig. (RIG_OK, if ch_funcs (curr_chan rig) AND func \<noteq> 0 then 1 else 0))"

definition dummy_set_level :: "(dummy_priv, setting_t \<times> value_t) setter" where
  "dummy_set_level vfo lv =
     (let idx = rig_setting2idx (fst lv)
      in if idx \<ge> RIG_SETTING_MAX then State_Monad.return (- RIG_EINVAL)
         else do { _ \<leftarrow> upd_curr (\<lambda>c. c\<lparr>ch_levels := (ch_levels c)(idx := snd lv)\<rparr>); ok })"

text \<open>
  The meters are made up when read, and stored: fixed values with static data, otherwise
  values from the clock and \<^verbatim>\<open>rand()\<close>. \<^verbatim>\<open>LVL_ATT\<close> and \<^verbatim>\<open>LVL_PREAMP\<close> are used as
  indices of the level array.
\<close>

definition LVL_PREAMP :: nat where "LVL_PREAMP = 0"
definition LVL_ATT :: nat where "LVL_ATT = 1"

definition meter_value :: "int \<Rightarrow> dummy_rig \<Rightarrow> setting_t \<Rightarrow> value_t option" where
  "meter_value rnd rig level =
     (let c = curr_chan rig; static = d_static_data (priv rig);
          sec = tv_sec (now rig)
      in if level = RIG_LEVEL_STRENGTH \<or> level = RIG_LEVEL_RAWSTR
         then Some (VInt (if static then - 12
           else (let qrm = (if ch_freq c < 7000000 then - 20 else if ch_freq c < 21000000 then - 30
                            else if ch_freq c < 50000000 then - 50 else - 56)
                 in qrm + sec mod 32 + rnd mod 4 - val_i (ch_levels c LVL_ATT) + val_i (ch_levels c LVL_PREAMP))))
         else if level = RIG_LEVEL_RFPOWER_METER
         then Some (VFloat (if static then 1 / 2 else of_int (sec mod 32) / 64 + of_int (rnd mod 4) / 8))
         else if level = RIG_LEVEL_RFPOWER_METER_WATTS
         then Some (VFloat (if static then 50 else (of_int (sec mod 32) / 64 + of_int (rnd mod 4) / 8) * 100))
         else if level = RIG_LEVEL_COMP_METER
         then Some (VFloat (if static then 7 / 2 else 1 / 2 + of_int (sec mod 32) / 16 + of_int (rnd mod 200) / 20))
         else if level = RIG_LEVEL_VD_METER
         then Some (VFloat (if static then 1382 / 100
                            else 1382 / 100 + of_int (sec mod 10) / 50 - of_int (rnd mod 10) / 40))
         else if level = RIG_LEVEL_ID_METER
         then Some (VFloat (if static then 85 / 100 else 2 + of_int (sec mod 320) / 16 - of_int (rnd mod 40) / 20))
         else None)"

definition dummy_get_level :: "int \<Rightarrow> setting_t \<Rightarrow> (dummy_priv, value_t) getter" where
  "dummy_get_level rnd level vfo val =
     (let idx = rig_setting2idx level
      in if idx \<ge> RIG_SETTING_MAX then State_Monad.return (- RIG_EINVAL, val)
         else do {
           meter \<leftarrow> gets (\<lambda>rig. meter_value rnd rig level);
           _ \<leftarrow> (case meter of
               Some v \<Rightarrow> upd_curr (\<lambda>c. c\<lparr>ch_levels := (ch_levels c)(idx := v)\<rparr>)
             | None \<Rightarrow> State_Monad.return ());
           gets (\<lambda>rig. (RIG_OK, ch_levels (curr_chan rig) idx))
         })"

subsection \<open>Extension levels, functions and parameters\<close>

definition dummy_set_ext_level :: "(dummy_priv, nat \<times> value_t) setter" where
  "dummy_set_ext_level vfo tv =
     (if fst tv \<notin> set dummy_ext_level_toks then State_Monad.return (- RIG_EINVAL)
      else do {
        c \<leftarrow> gets curr_chan;
        if find_ext (ext_levels c) (fst tv) = None then State_Monad.return (- RIG_EINTERNAL)
        else do {
          _ \<leftarrow> upd_curr (\<lambda>c. c\<lparr>ext_levels := store_ext (ext_levels c) (fst tv) (snd tv)\<rparr>);
          ok
        }
      })"

definition dummy_get_ext_level :: "nat \<Rightarrow> (dummy_priv, value_t) getter" where
  "dummy_get_ext_level token vfo val =
     (if token \<notin> set dummy_ext_level_toks then State_Monad.return (- RIG_EINVAL, val)
      else gets (\<lambda>rig. case find_ext (ext_levels (curr_chan rig)) token of
          None \<Rightarrow> (- RIG_EINTERNAL, val)
        | Some v \<Rightarrow> (RIG_OK, v)))"

definition dummy_set_ext_func :: "(dummy_priv, nat \<times> int) setter" where
  "dummy_set_ext_func vfo ts =
     (if fst ts \<noteq> TOK_EL_MAGICEXTFUNC then State_Monad.return (- RIG_EINVAL)
      else do {
        p \<leftarrow> gets priv;
        if find_ext (d_ext_funcs p) (fst ts) = None then State_Monad.return (- RIG_EINTERNAL)
        else do {
          _ \<leftarrow> upd_priv (\<lambda>p. p\<lparr>d_ext_funcs := store_ext (d_ext_funcs p) (fst ts) (VInt (snd ts))\<rparr>);
          ok
        }
      })"

definition dummy_get_ext_func :: "nat \<Rightarrow> (dummy_priv, int) getter" where
  "dummy_get_ext_func token vfo status =
     (if token \<noteq> TOK_EL_MAGICEXTFUNC then State_Monad.return (- RIG_EINVAL, status)
      else gets (\<lambda>rig. case find_ext (d_ext_funcs (priv rig)) token of
          None \<Rightarrow> (- RIG_EINTERNAL, status)
        | Some v \<Rightarrow> (RIG_OK, val_i v)))"

definition dummy_set_ext_parm :: "nat \<Rightarrow> value_t \<Rightarrow> dummy_priv call" where
  "dummy_set_ext_parm token val =
     (if token \<noteq> TOK_EP_MAGICPARM then State_Monad.return (- RIG_EINVAL)
      else do {
        p \<leftarrow> gets priv;
        if find_ext (d_ext_parms p) token = None then State_Monad.return (- RIG_EINTERNAL)
        else do {
          _ \<leftarrow> upd_priv (\<lambda>p. p\<lparr>d_ext_parms := store_ext (d_ext_parms p) token val\<rparr>);
          ok
        }
      })"

definition dummy_get_ext_parm :: "nat \<Rightarrow> value_t \<Rightarrow> (dummy_rig, int \<times> value_t) state" where
  "dummy_get_ext_parm token val =
     (if token \<noteq> TOK_EP_MAGICPARM then State_Monad.return (- RIG_EINVAL, val)
      else gets (\<lambda>rig. case find_ext (d_ext_parms (priv rig)) token of
          None \<Rightarrow> (- RIG_EINTERNAL, val)
        | Some v \<Rightarrow> (RIG_OK, v)))"

definition dummy_set_parm :: "setting_t \<Rightarrow> value_t \<Rightarrow> dummy_priv call" where
  "dummy_set_parm parm val =
     (let idx = rig_setting2idx parm
      in if idx \<ge> RIG_SETTING_MAX then State_Monad.return (- RIG_EINVAL)
         else do { _ \<leftarrow> upd_priv (\<lambda>p. p\<lparr>d_parms := (d_parms p)(idx := val)\<rparr>); ok })"

definition dummy_get_parm :: "setting_t \<Rightarrow> value_t \<Rightarrow> (dummy_rig, int \<times> value_t) state" where
  "dummy_get_parm parm val =
     (let idx = rig_setting2idx parm
      in if idx \<ge> RIG_SETTING_MAX then State_Monad.return (- RIG_EINVAL, val)
         else gets (\<lambda>rig. (RIG_OK, d_parms (priv rig) idx)))"

definition dummy_set_powerstat :: "int \<Rightarrow> dummy_priv call" where
  "dummy_set_powerstat status = do { _ \<leftarrow> upd_priv (\<lambda>p. p\<lparr>d_powerstat := status\<rparr>); ok }"

definition dummy_get_powerstat :: "int \<Rightarrow> (dummy_rig, int \<times> int) state" where
  "dummy_get_powerstat status = gets (\<lambda>rig. (RIG_OK, d_powerstat (priv rig)))"

subsection \<open>Antenna, memory, signalling\<close>

definition dummy_set_ant :: "(dummy_priv, ant_t \<times> value_t) setter" where
  "dummy_set_ant vfo av = do {
     let ant = fst av;
     if ant = RIG_ANT_CURR \<or> ant \<in> {RIG_ANT_N 0, RIG_ANT_N 1, RIG_ANT_N 2, RIG_ANT_N 3} then do {
       _ \<leftarrow> do_when (ant \<noteq> RIG_ANT_CURR) (upd_curr (\<lambda>c. c\<lparr>ch_ant := ant\<rparr>));
       cur \<leftarrow> gets (\<lambda>rig. ch_ant (curr_chan rig));
       _ \<leftarrow> upd_priv (\<lambda>p. p\<lparr>d_ant_option := (d_ant_option p)(rig_setting2idx (ucast cur) := val_i (snd av))\<rparr>);
       ok
     }
     else State_Monad.return (- RIG_EINVAL)
   }"

definition dummy_get_ant :: "ant_t \<Rightarrow> (dummy_priv, value_t \<times> ant_t \<times> ant_t \<times> ant_t) getter" where
  "dummy_get_ant ant vfo ants =
     (case ants of (option, ant_curr, ant_tx, ant_rx) \<Rightarrow>
      if ant = RIG_ANT_CURR \<or> ant \<in> {RIG_ANT_N 0, RIG_ANT_N 1, RIG_ANT_N 2, RIG_ANT_N 3}
      then gets (\<lambda>rig. let a = (if ant = RIG_ANT_CURR then ch_ant (curr_chan rig) else ant)
             in (RIG_OK, VInt (d_ant_option (priv rig) (rig_setting2idx (ucast a))), a, ant_tx, ant_rx))
      else State_Monad.return (- RIG_EINVAL, ants))"

definition dummy_set_bank :: "(dummy_priv, int) setter" where
  "dummy_set_bank vfo bank = do { _ \<leftarrow> upd_priv (\<lambda>p. p\<lparr>d_bank := bank\<rparr>); ok }"

definition dummy_set_mem :: "(dummy_priv, int) setter" where
  "dummy_set_mem vfo ch =
     (if ch < 0 \<or> ch \<ge> NB_CHAN then State_Monad.return (- RIG_EINVAL)
      else do {
        cv \<leftarrow> gets (\<lambda>rig. d_curr_vfo (priv rig));
        _ \<leftarrow> (if cv = RIG_VFO_MEM then upd_priv (\<lambda>p. p\<lparr>d_curr := Ch_Mem (nat ch)\<rparr>)
            else upd_curr (\<lambda>c. c\<lparr>channel_num := ch\<rparr>));
        ok
      })"

definition dummy_get_mem :: "(dummy_priv, int) getter" where
  "dummy_get_mem vfo ch = gets (\<lambda>rig. (RIG_OK, channel_num (curr_chan rig)))"

definition dummy_scan :: "(dummy_priv, u32 \<times> int) setter" where
  "dummy_scan vfo sc = ok"

definition dummy_send_dtmf :: "(dummy_priv, string) setter" where
  "dummy_send_dtmf vfo digits = ok"

definition dummy_recv_dtmf :: "(dummy_priv, string \<times> int) getter" where
  "dummy_recv_dtmf vfo d = State_Monad.return (RIG_OK, ''0123456789ABCDEF'', 16)"

definition dummy_send_morse :: "(dummy_priv, string) setter" where
  "dummy_send_morse vfo msg = ok"

definition dummy_send_voice_mem :: "(dummy_priv, int) setter" where
  "dummy_send_voice_mem vfo ch = ok"

definition dummy_power2mW :: "real \<Rightarrow> freq_t \<Rightarrow> rmode_t \<Rightarrow> nat \<Rightarrow> (dummy_rig, int \<times> nat) state" where
  "dummy_power2mW p freq mode mw = State_Monad.return (RIG_OK, nat (c_trunc (p * 100000)))"

definition dummy_mW2power :: "nat \<Rightarrow> freq_t \<Rightarrow> rmode_t \<Rightarrow> real \<Rightarrow> (dummy_rig, int \<times> real) state" where
  "dummy_mW2power mw freq mode p =
     State_Monad.return (if mw > 100000 then (- RIG_EINVAL, p) else (RIG_OK, of_nat mw / 100000))"

subsection \<open>VFO operations and channels\<close>

definition mem_label :: "int \<Rightarrow> channel_t \<Rightarrow> channel_t" where
  "mem_label ch c = c\<lparr>channel_num := ch, channel_desc := [], ch_vfo := RIG_VFO_MEM\<rparr>"

text \<open>The memory channel the current channel numbers.\<close>

definition mem_of_curr :: "dummy_priv \<Rightarrow> chan_ref" where
  "mem_of_curr p = Ch_Mem (nat (channel_num (d_chan p (d_curr p))))"

definition last_vfo_chan :: "dummy_priv \<Rightarrow> chan_ref" where
  "last_vfo_chan p = (if d_last_vfo p = RIG_VFO_A then Ch_A else Ch_B)"

definition op_from_vfo :: "dummy_priv \<Rightarrow> dummy_priv" where
  "op_from_vfo p =
     (let ch = channel_num (d_chan p (d_curr p))
      in if d_curr_vfo p = RIG_VFO_MEM
         then p\<lparr>d_chan := (d_chan p)(d_curr p :=
                  mem_label ch (copy_chan (d_chan p (d_curr p)) (d_chan p (last_vfo_chan p))))\<rparr>
         else p\<lparr>d_chan := (d_chan p)(mem_of_curr p :=
                  mem_label ch (copy_chan (d_chan p (mem_of_curr p)) (d_chan p (d_curr p))))\<rparr>)"

definition op_to_vfo :: "dummy_priv \<Rightarrow> dummy_priv" where
  "op_to_vfo p =
     (if d_curr_vfo p = RIG_VFO_MEM
      then p\<lparr>d_chan := (d_chan p)(last_vfo_chan p :=
               chan_vfo (copy_chan (d_chan p (last_vfo_chan p)) (d_chan p (d_curr p))) (d_last_vfo p))\<rparr>
      else let p1 = p\<lparr>d_chan := (d_chan p)(mem_of_curr p :=
                        copy_chan (d_chan p (mem_of_curr p)) (d_chan p (d_curr p)))\<rparr>
           in p1\<lparr>d_chan := (d_chan p1)(d_curr p := chan_vfo (d_chan p1 (d_curr p)) (d_curr_vfo p))\<rparr>)"

definition op_cpy :: "dummy_priv \<Rightarrow> dummy_priv" where
  "op_cpy p =
     (if d_curr_vfo p = RIG_VFO_A
      then p\<lparr>d_chan := (d_chan p)(Ch_B := chan_vfo (copy_chan (d_chan p Ch_B) (d_chan p Ch_A)) RIG_VFO_B)\<rparr>
      else if d_curr_vfo p = RIG_VFO_B
      then p\<lparr>d_chan := (d_chan p)(Ch_A := chan_vfo (copy_chan (d_chan p Ch_A) (d_chan p Ch_B)) RIG_VFO_A)\<rparr>
      else p)"

definition op_xchg :: "dummy_priv \<Rightarrow> dummy_priv" where
  "op_xchg p =
     (let tmp = copy_chan (zero_chan\<lparr>ext_levels := alloc_init_ext dummy_ext_level_toks\<rparr>) (d_chan p Ch_B);
          b = copy_chan (d_chan p Ch_B) (d_chan p Ch_A);
          a = copy_chan (d_chan p Ch_A) tmp
      in p\<lparr>d_chan := (d_chan p)(Ch_A := chan_vfo a RIG_VFO_A, Ch_B := chan_vfo b RIG_VFO_B)\<rparr>)"

definition clear_chan :: "int \<Rightarrow> channel_t \<Rightarrow> channel_t" where
  "clear_chan ch c =
     zero_chan\<lparr>ext_levels := map (\<lambda>(tok, v). (tok, VInt 0)) (ext_levels c), channel_num := ch,
       ch_vfo := RIG_VFO_MEM\<rparr>"

definition op_mcl :: "dummy_priv \<Rightarrow> dummy_priv" where
  "op_mcl p =
     (let ch = channel_num (d_chan p (d_curr p));
          ref = (if d_curr_vfo p = RIG_VFO_MEM then d_curr p else mem_of_curr p)
      in p\<lparr>d_chan := (d_chan p)(ref := clear_chan ch (d_chan p ref))\<rparr>)"

text \<open>The two step operations, with the source's tests: \<^verbatim>\<open>if (!ret) break;\<close> leaves when the
  call has succeeded.\<close>

definition op_step :: "nat \<Rightarrow> int \<Rightarrow> freq_t \<Rightarrow> vfo_t \<Rightarrow> (dummy_rig, int) state" where
  "op_step model dir junk vfo = do {
     (ret, freq) \<leftarrow> dummy_get_freq model vfo junk;
     if ret = 0 then ok
     else do {
       (ret, ts) \<leftarrow> dummy_get_ts vfo 0;
       if ret = 0 then ok
       else do {
         _ \<leftarrow> dummy_set_freq vfo (freq + of_int (dir * ts));
         ok
       }
     }
   }"

definition dummy_vfo_op :: "nat \<Rightarrow> freq_t \<Rightarrow> (dummy_priv, u32) setter" where
  "dummy_vfo_op model junk vfo oper =
     (if oper = RIG_OP_FROM_VFO then do { _ \<leftarrow> upd_priv op_from_vfo; ok }
      else if oper = RIG_OP_TO_VFO then do { _ \<leftarrow> upd_priv op_to_vfo; ok }
      else if oper = RIG_OP_CPY then do { _ \<leftarrow> upd_priv op_cpy; ok }
      else if oper = RIG_OP_XCHG then do { _ \<leftarrow> upd_priv op_xchg; ok }
      else if oper = RIG_OP_MCL then do { _ \<leftarrow> upd_priv op_mcl; ok }
      else if oper = RIG_OP_TOGGLE then do {
        cv \<leftarrow> gets (\<lambda>rig. d_curr_vfo (priv rig));
        if cv = RIG_VFO_A then dummy_set_vfo RIG_VFO_B
        else if cv = RIG_VFO_B then dummy_set_vfo RIG_VFO_A
        else State_Monad.return (- RIG_EVFO)
      }
      else if oper = RIG_OP_RIGHT \<or> oper = RIG_OP_LEFT \<or> oper = RIG_OP_TUNE then ok
      else if oper = RIG_OP_BAND_UP \<or> oper = RIG_OP_BAND_DOWN then State_Monad.return (- RIG_ENIMPL)
      else if oper = RIG_OP_UP then op_step model 1 junk vfo
      else if oper = RIG_OP_DOWN then op_step model (- 1) junk vfo
      else ok)"

text \<open>A channel handed over by the caller has an extension list or none (\<^verbatim>\<open>NULL\<close>).\<close>

definition channel_ref :: "dummy_priv \<Rightarrow> channel_t \<Rightarrow> chan_ref option" where
  "channel_ref p chan =
     (if ch_vfo chan = RIG_VFO_MEM then Some (Ch_Mem (nat (channel_num chan)))
      else if ch_vfo chan = RIG_VFO_A then Some Ch_A
      else if ch_vfo chan = RIG_VFO_B then Some Ch_B
      else if ch_vfo chan = RIG_VFO_CURR then Some (d_curr p)
      else None)"

definition dummy_set_channel :: "vfo_t \<Rightarrow> channel_t \<Rightarrow> bool \<Rightarrow> (dummy_rig, int) state" where
  "dummy_set_channel vfo chan has_ext =
     (if \<not> has_ext then State_Monad.return (- RIG_EINVAL)
      else if channel_num chan < 0 \<or> channel_num chan \<ge> NB_CHAN then State_Monad.return (- RIG_EINVAL)
      else do {
        p \<leftarrow> gets priv;
        case channel_ref p chan of
          None \<Rightarrow> State_Monad.return (- RIG_EINVAL)
        | Some ref \<Rightarrow> do { _ \<leftarrow> upd_chan ref (\<lambda>c. copy_chan c chan); ok }
      })"

definition dummy_get_channel :: "vfo_t \<Rightarrow> channel_t \<Rightarrow> bool \<Rightarrow> (dummy_rig, int \<times> channel_t) state" where
  "dummy_get_channel vfo chan has_ext =
     (if channel_num chan < 0 \<or> channel_num chan \<ge> NB_CHAN then State_Monad.return (- RIG_EINVAL, chan)
      else do {
        let dest = (if has_ext then chan else chan\<lparr>ext_levels := alloc_init_ext dummy_ext_level_toks\<rparr>);
        p \<leftarrow> gets priv;
        case channel_ref p dest of
          None \<Rightarrow> State_Monad.return (- RIG_EINVAL, dest)
        | Some ref \<Rightarrow> State_Monad.return (RIG_OK, copy_chan dest (d_chan p ref))
      })"

subsection \<open>The back end as the front end sees it\<close>

definition dummy_caps :: "dummy_priv ports \<Rightarrow> int \<Rightarrow> dummy_priv caps" where
  "dummy_caps P rnd = no_caps\<lparr>rig_model := RIG_MODEL_DUMMY,
     targetable_vfo := RIG_TARGETABLE_PTT OR RIG_TARGETABLE_RITXIT OR RIG_TARGETABLE_FREQ
       OR RIG_TARGETABLE_MODE OR RIG_TARGETABLE_SPECTRUM,
     vfo_ops := 0x7ffffff, scan_ops := 0x7ffffff, cap_has_get_level := NOT (CONSTANT_64BIT_FLAG 27),
     cap_has_get_func := NOT 0,
     set_freq := Some dummy_set_freq, get_freq := Some (dummy_get_freq RIG_MODEL_DUMMY),
     set_mode := Some dummy_set_mode, get_mode := Some dummy_get_mode,
     set_vfo := Some dummy_set_vfo, get_vfo := Some dummy_get_vfo,
     set_powerstat := Some dummy_set_powerstat, get_powerstat := Some dummy_get_powerstat,
     set_level := Some dummy_set_level, get_level := Some (dummy_get_level rnd),
     set_func := Some dummy_set_func, get_func := Some dummy_get_func,
     set_parm := Some dummy_set_parm, get_parm := Some dummy_get_parm,
     set_ext_level := Some dummy_set_ext_level, get_ext_level := Some dummy_get_ext_level,
     set_ext_func := Some dummy_set_ext_func, get_ext_func := Some dummy_get_ext_func,
     set_ext_parm := Some dummy_set_ext_parm, get_ext_parm := Some dummy_get_ext_parm,
     set_ptt := Some dummy_set_ptt, get_ptt := Some (dummy_get_ptt P), get_dcd := Some dummy_get_dcd,
     set_rptr_shift := Some dummy_set_rptr_shift, get_rptr_shift := Some dummy_get_rptr_shift,
     set_rptr_offs := Some dummy_set_rptr_offs, get_rptr_offs := Some dummy_get_rptr_offs,
     set_ctcss_tone := Some dummy_set_ctcss_tone, get_ctcss_tone := Some dummy_get_ctcss_tone,
     set_dcs_code := Some dummy_set_dcs_code, get_dcs_code := Some dummy_get_dcs_code,
     set_ctcss_sql := Some dummy_set_ctcss_sql, get_ctcss_sql := Some dummy_get_ctcss_sql,
     set_dcs_sql := Some dummy_set_dcs_sql, get_dcs_sql := Some dummy_get_dcs_sql,
     set_split_freq := Some dummy_set_split_freq, get_split_freq := Some dummy_get_split_freq,
     set_split_mode := Some dummy_set_split_mode, get_split_mode := Some dummy_get_split_mode,
     set_split_vfo := Some dummy_set_split_vfo, get_split_vfo := Some dummy_get_split_vfo,
     set_rit := Some dummy_set_rit, get_rit := Some dummy_get_rit,
     set_xit := Some dummy_set_xit, get_xit := Some dummy_get_xit,
     set_ts := Some dummy_set_ts, get_ts := Some dummy_get_ts,
     set_ant := Some dummy_set_ant, get_ant := Some dummy_get_ant,
     set_bank := Some dummy_set_bank, set_mem := Some dummy_set_mem, get_mem := Some dummy_get_mem,
     cap_vfo_op := Some (dummy_vfo_op RIG_MODEL_DUMMY (junk_freq P)), cap_scan := Some dummy_scan,
     send_dtmf := Some dummy_send_dtmf, recv_dtmf := Some dummy_recv_dtmf,
     send_morse := Some dummy_send_morse, send_voice_mem := Some dummy_send_voice_mem,
     power2mW := Some dummy_power2mW, mW2power := Some dummy_mW2power\<rparr>"

subsection \<open>The dummy selects VFOs as the front end expects\<close>

definition dummy_radio :: "dummy_rig \<Rightarrow> chan_ref" where
  "dummy_radio rig = d_curr (priv rig)"

definition dummy_home :: "vfo_t \<Rightarrow> chan_ref" where
  "dummy_home v = (case vfo_chan v of Some ref \<Rightarrow> ref | None \<Rightarrow> Ch_A)"

definition dummy_vfos :: "vfo_t set" where
  "dummy_vfos = {RIG_VFO_A, RIG_VFO_B, RIG_VFO_C, RIG_VFO_VFO, RIG_VFO_MAIN, RIG_VFO_SUB, RIG_VFO_MAIN_A,
     RIG_VFO_MAIN_B, RIG_VFO_SUB_A, RIG_VFO_SUB_B}"

lemma dummy_vfos_known:
  "v \<in> dummy_vfos \<Longrightarrow> vfo_chan v \<noteq> None" "v \<in> dummy_vfos \<Longrightarrow> v \<noteq> RIG_VFO_CURR"
  by (auto simp: dummy_vfos_def vfo_chan_def vfo_defs)

lemma run_upd_priv [simp]:
  "run_state (upd_priv f) rig = ((), rig\<lparr>priv := f (priv rig)\<rparr>)"
  by (simp add: upd_priv_def)

lemma run_dummy_usleep [simp]:
  "run_state dummy_usleep rig = ((), rig\<lparr>now := add_usec CMDSLEEP (now rig)\<rparr>)"
  by (simp add: dummy_usleep_def)

lemma run_ok [simp]: "run_state ok rig = (RIG_OK, rig)"
  by (simp add: ok_def)

lemma run_dummy_set_vfo:
  assumes "v \<noteq> RIG_VFO_CURR"
  shows "run_state (dummy_set_vfo v) rig =
    (let p = (priv rig)\<lparr>d_last_vfo := d_curr_vfo (priv rig), d_curr_vfo := v\<rparr>;
         rig1 = rig\<lparr>now := add_usec CMDSLEEP (now rig), priv := p\<rparr>
     in case set_vfo_chan p v of
         None \<Rightarrow> (- RIG_EINVAL, rig1)
       | Some ref \<Rightarrow> (RIG_OK, rig1\<lparr>priv := p\<lparr>d_curr := ref\<rparr>, current_vfo := v\<rparr>))"
  using assms by (simp add: dummy_set_vfo_def Let_def split: option.split)

interpretation dummy_select: vfo_selector "dummy_caps P rnd" dummy_set_vfo dummy_radio dummy_home
  True dummy_vfos
proof
  show "set_vfo (dummy_caps P rnd) = Some dummy_set_vfo" by (simp add: dummy_caps_def)
  show "RIG_VFO_CURR \<notin> dummy_vfos" using dummy_vfos_known(2) by blast
next
  fix v :: vfo_t and rig rc rig'
  assume v: "v \<in> dummy_vfos" and run: "run_state (dummy_set_vfo v) rig = (rc, rig')"
  obtain ref where "vfo_chan v = Some ref" using dummy_vfos_known(1) [OF v] by auto
  then show "rc = RIG_OK \<and> dummy_radio rig' = dummy_home v"
    using run run_dummy_set_vfo [OF dummy_vfos_known(2) [OF v], of rig]
    by (auto simp: set_vfo_chan_def dummy_radio_def dummy_home_def Let_def)
next
  fix v :: vfo_t and rig rc rig'
  assume run: "run_state (dummy_set_vfo v) rig = (rc, rig')" and rc: "rc \<noteq> RIG_OK"
  then show "dummy_radio rig' = dummy_radio rig"
    by (auto simp: dummy_set_vfo_def dummy_radio_def Let_def split: option.splits)
next
  fix v :: vfo_t and rig rc rig'
  assume v: "v \<noteq> RIG_VFO_CURR" and run: "run_state (dummy_set_vfo v) rig = (rc, rig')"
  show "current_vfo rig' = (if rc = RIG_OK \<and> True then v else current_vfo rig)"
    using run run_dummy_set_vfo [OF v, of rig]
    by (auto simp: Let_def rc_defs split: option.splits)
qed

lemma stationary_upd_curr: "stationary dummy_radio (upd_curr f)"
  by (simp add: stationary_def upd_curr_def dummy_radio_def)

lemma stationary_upd_chan: "stationary dummy_radio (upd_chan ref f)"
  by (simp add: stationary_def upd_chan_def dummy_radio_def)

lemma stationary_usleep: "stationary dummy_radio dummy_usleep"
  by (simp add: stationary_def dummy_radio_def)

lemma stationary_ok: "stationary radio ok"
  by (simp add: stationary_def)

lemma stationary_upd_priv: "(\<And>p. d_curr (f p) = d_curr p) \<Longrightarrow> stationary dummy_radio (upd_priv f)"
  by (simp add: stationary_def dummy_radio_def)

lemmas dummy_stationary = stationary_rules stationary_upd_curr stationary_upd_chan stationary_usleep
  stationary_ok

lemmas dummy_setting_defs =
  dummy_set_level_def dummy_set_func_def dummy_set_ext_level_def dummy_set_ext_func_def
  dummy_set_ctcss_tone_def dummy_set_dcs_code_def dummy_set_ctcss_sql_def dummy_set_dcs_sql_def
  dummy_set_bank_def dummy_set_rptr_shift_def dummy_set_rptr_offs_def dummy_set_rit_def
  dummy_set_xit_def dummy_set_ts_def dummy_set_ant_def dummy_scan_def dummy_send_dtmf_def
  dummy_send_morse_def dummy_send_voice_mem_def dummy_get_ctcss_tone_def dummy_get_dcs_code_def
  dummy_get_ctcss_sql_def dummy_get_dcs_sql_def dummy_get_mem_def dummy_get_rptr_shift_def
  dummy_get_rptr_offs_def dummy_get_rit_def dummy_get_xit_def dummy_get_ts_def dummy_recv_dtmf_def
  dummy_set_parm_def dummy_get_parm_def dummy_set_ext_parm_def dummy_get_ext_parm_def
  dummy_get_level_def dummy_get_func_def dummy_get_ext_level_def dummy_get_ext_func_def
  dummy_get_ant_def

lemma dummy_caps_stationary: "stationary_caps dummy_radio (dummy_caps P rnd)"
  unfolding stationary_caps_def
  by (intro conjI; simp add: dummy_caps_def no_caps_def del: split_paired_All;
      (unfold dummy_setting_defs Let_def case_prod_beta)?;
      intro allI dummy_stationary stationary_upd_priv; simp)

lemma operations_return_home_witness:
  "keeps (settled dummy_radio dummy_home RIG_VFO_B)
     (rig_set_level (dummy_caps dead_ports 0) RIG_VFO_A RIG_LEVEL_AF (VFloat 1))"
proof -
  have "RIG_VFO_B \<in> dummy_vfos" by (simp add: dummy_vfos_def)
  from operations_return_home [OF dummy_select.vfo_selector_axioms dummy_caps_stationary this,
      of dead_ports 0]
  show ?thesis by blast
qed

subsection \<open>What the dummy promises\<close>

lemma copy_ext_same_length: "length ds = length ss \<Longrightarrow> copy_ext ds ss = ss"
  by (induction ds ss rule: copy_ext.induct) auto

lemma copy_ext_length: "length (copy_ext ds ss) = length ds"
  by (induction ds ss rule: copy_ext.induct) auto

text \<open>The memory \<^verbatim>\<open>malloc\<close> happens to return in the examples, and the initialised handle.\<close>

definition dummy_mem :: dummy_priv where
  "dummy_mem = \<lparr>d_curr_vfo = 0, d_last_vfo = 0, d_split = False, d_tx_vfo = 0, d_ptt = RIG_PTT_OFF,
     d_powerstat = 0, d_bank = 0, d_parms = (\<lambda>_. VInt 0), d_ant_option = (\<lambda>_. 0), d_curr = Ch_A,
     d_chan = (\<lambda>_. zero_chan), d_ext_funcs = [], d_ext_parms = [], d_static_data = True,
     d_dcd_twiddle = 0\<rparr>"

definition dummy_handle :: dummy_rig where
  "dummy_handle = (snd (run_state (dummy_init RIG_MODEL_DUMMY dummy_mem)
      (zero_rig \<lparr>tv_sec = 100, tv_nsec = 5\<rparr> dummy_mem)))\<lparr>comm_state := True, current_vfo := RIG_VFO_A\<rparr>"

text \<open>frequencies of the simulated radio. For every VFO the radio tunes, setting a
  frequency and reading it gives that frequency; the receive frequency of every other
  channel stays. (The uplink setting, which makes a read of Main or Sub answer with what
  the caller passed, is off.)\<close>

lemma dummy_freq_roundtrip:
  assumes "freq_chan (if vfo = RIG_VFO_CURR then d_curr_vfo (priv rig) else vfo) = Some ref"
    and "uplink rig = 0" and "run_state (dummy_set_freq vfo freq) rig = (rc, rig')"
  shows "rc = RIG_OK
    \<and> fst (run_state (dummy_get_freq RIG_MODEL_DUMMY vfo x) rig') = (RIG_OK, freq)
    \<and> (\<forall>r. r \<noteq> ref \<longrightarrow> ch_freq (d_chan (priv rig') r) = ch_freq (d_chan (priv rig) r))"
proof -
  have model: "RIG_MODEL_DUMMY \<noteq> RIG_MODEL_DUMMY_NOVFO"
    by (simp add: RIG_MODEL_DUMMY_def RIG_MODEL_DUMMY_NOVFO_def RIG_MAKE_MODEL_def)
  have rig': "rc = RIG_OK" "uplink rig' = 0" "d_curr_vfo (priv rig') = d_curr_vfo (priv rig)"
    "ch_freq (d_chan (priv rig') ref) = freq"
    "r \<noteq> ref \<Longrightarrow> ch_freq (d_chan (priv rig') r) = ch_freq (d_chan (priv rig) r)" for r
    using assms by (auto simp: dummy_set_freq_def upd_chan_def upd_curr_def split: if_splits)
  then show ?thesis
    using assms(1) model by (auto simp: dummy_get_freq_def Let_def)
qed

lemma dummy_freq_roundtrip_witness:
  "fst (run_state (dummy_get_freq RIG_MODEL_DUMMY RIG_VFO_SUB_A 0)
     (snd (run_state (dummy_set_freq RIG_VFO_SUB_A 7074000) dummy_handle))) = (RIG_OK, 7074000)"
proof -
  have "freq_chan (if RIG_VFO_SUB_A = RIG_VFO_CURR then d_curr_vfo (priv dummy_handle) else RIG_VFO_SUB_A)
      = Some Ch_SubA"
    by (simp add: freq_chan_def vfo_defs)
  moreover have "uplink dummy_handle = 0"
    by (simp add: dummy_handle_def dummy_init_def zero_rig_def Let_def)
  ultimately show ?thesis by (simp add: dummy_freq_roundtrip [OF _ _ prod.collapse [symmetric]])
qed

text \<open>the step operations step nowhere. \<^verbatim>\<open>RIG_OP_UP\<close> and \<^verbatim>\<open>RIG_OP_DOWN\<close> leave
  when reading the frequency has succeeded, and then when reading the tuning step has, which
  always does: whatever the VFO and the state, they report \<^verbatim>\<open>RIG_OK\<close> and change no channel.\<close>

lemma dummy_step_does_nothing:
  "fst (run_state (dummy_vfo_op model junk vfo RIG_OP_UP) rig) = RIG_OK
   \<and> fst (run_state (dummy_vfo_op model junk vfo RIG_OP_DOWN) rig) = RIG_OK
   \<and> priv (snd (run_state (dummy_vfo_op model junk vfo RIG_OP_UP) rig)) = priv rig
   \<and> priv (snd (run_state (dummy_vfo_op model junk vfo RIG_OP_DOWN) rig)) = priv rig"
proof -
  have step: "fst (run_state (op_step model d junk vfo) rig) = RIG_OK
      \<and> priv (snd (run_state (op_step model d junk vfo) rig)) = priv rig" for d
    by (simp add: op_step_def dummy_get_freq_def dummy_get_ts_def Let_def rc_defs split: option.split)
  have "dummy_vfo_op model junk vfo RIG_OP_UP = op_step model 1 junk vfo"
    "dummy_vfo_op model junk vfo RIG_OP_DOWN = op_step model (- 1) junk vfo"
    by (simp_all add: dummy_vfo_op_def flag_defs)
  then show ?thesis using step by simp
qed

text \<open>recalling a memory stores it instead. With a VFO selected, \<^verbatim>\<open>RIG_OP_TO_VFO\<close>
  (memory to VFO) leaves the VFO's frequency, mode and width as they are and overwrites the
  memory channel with them, which is what \<^verbatim>\<open>RIG_OP_FROM_VFO\<close> does to those fields. From
  memory mode it does recall.\<close>

lemma dummy_to_vfo_direction:
  assumes "d_curr p \<noteq> mem_of_curr p" and "d_curr p \<noteq> last_vfo_chan p"
  shows "(d_curr_vfo p \<noteq> RIG_VFO_MEM \<longrightarrow>
      ch_freq (d_chan (op_to_vfo p) (d_curr p)) = ch_freq (d_chan p (d_curr p))
    \<and> ch_mode (d_chan (op_to_vfo p) (d_curr p)) = ch_mode (d_chan p (d_curr p))
    \<and> ch_freq (d_chan (op_to_vfo p) (mem_of_curr p)) = ch_freq (d_chan p (d_curr p))
    \<and> ch_freq (d_chan (op_to_vfo p) (mem_of_curr p)) = ch_freq (d_chan (op_from_vfo p) (mem_of_curr p))
    \<and> ch_mode (d_chan (op_to_vfo p) (mem_of_curr p)) = ch_mode (d_chan p (d_curr p)))
    \<and> (d_curr_vfo p = RIG_VFO_MEM \<longrightarrow>
      ch_freq (d_chan (op_to_vfo p) (last_vfo_chan p)) = ch_freq (d_chan p (d_curr p))
    \<and> ch_freq (d_chan (op_to_vfo p) (d_curr p)) = ch_freq (d_chan p (d_curr p)))"
  using assms
  by (auto simp: op_to_vfo_def op_from_vfo_def copy_chan_def chan_vfo_def mem_label_def Let_def)

lemma dummy_to_vfo_direction_witness:
  "let p = dummy_mem\<lparr>d_curr_vfo := RIG_VFO_C, d_curr := Ch_C,
             d_chan := (\<lambda>_. zero_chan)(Ch_C := zero_chan\<lparr>ch_freq := 7000000\<rparr>,
                                       Ch_Mem 0 := zero_chan\<lparr>ch_freq := 14000000\<rparr>)\<rparr>
   in ch_freq (d_chan (op_to_vfo p) Ch_C) = 7000000 \<and> ch_freq (d_chan (op_to_vfo p) (Ch_Mem 0)) = 7000000"
proof -
  let ?p = "dummy_mem\<lparr>d_curr_vfo := RIG_VFO_C, d_curr := Ch_C,
             d_chan := (\<lambda>_. zero_chan)(Ch_C := zero_chan\<lparr>ch_freq := 7000000\<rparr>,
                                       Ch_Mem 0 := zero_chan\<lparr>ch_freq := 14000000\<rparr>)\<rparr>"
  have m: "mem_of_curr ?p = Ch_Mem 0" by (simp add: mem_of_curr_def zero_chan_def)
  have "d_curr ?p \<noteq> mem_of_curr ?p" "d_curr ?p \<noteq> last_vfo_chan ?p"
    by (simp_all add: m last_vfo_chan_def)
  from dummy_to_vfo_direction [OF this, unfolded m] show ?thesis by (simp add: vfo_defs)
qed

text \<open>exchanging A and B twice changes nothing, and once swaps everything but the labels,
  for channels that carry the labels of their VFOs and extension lists of the length the
  back end allocates.\<close>

lemma dummy_exchange:
  assumes "chan_vfo (d_chan p Ch_A) RIG_VFO_A = d_chan p Ch_A"
    and "chan_vfo (d_chan p Ch_B) RIG_VFO_B = d_chan p Ch_B"
    and "length (ext_levels (d_chan p Ch_A)) = length dummy_ext_level_toks"
    and "length (ext_levels (d_chan p Ch_B)) = length dummy_ext_level_toks"
  shows "op_xchg (op_xchg p) = p
    \<and> d_chan (op_xchg p) Ch_A = chan_vfo (d_chan p Ch_B) RIG_VFO_A
    \<and> d_chan (op_xchg p) Ch_B = chan_vfo (d_chan p Ch_A) RIG_VFO_B"
proof -
  have copy: "copy_chan c d = d" if "length (ext_levels c) = length (ext_levels d)" for c d
    using that by (simp add: copy_chan_def copy_ext_same_length)
  have ext: "ext_levels (chan_vfo c v) = ext_levels c" for c v by (simp add: chan_vfo_def)
  have relabel: "chan_vfo (chan_vfo c v) w = chan_vfo c w" for c v w by (simp add: chan_vfo_def)
  have tmp: "length (ext_levels (zero_chan\<lparr>ext_levels := alloc_init_ext dummy_ext_level_toks\<rparr>))
      = length dummy_ext_level_toks"
    by (simp add: alloc_init_ext_def)
  have once: "op_xchg q = q\<lparr>d_chan := (d_chan q)(Ch_A := chan_vfo (d_chan q Ch_B) RIG_VFO_A,
      Ch_B := chan_vfo (d_chan q Ch_A) RIG_VFO_B)\<rparr>"
    if "length (ext_levels (d_chan q Ch_A)) = length dummy_ext_level_toks"
      "length (ext_levels (d_chan q Ch_B)) = length dummy_ext_level_toks" for q
    using that tmp by (simp add: op_xchg_def copy Let_def)
  show ?thesis
    using assms by (simp add: once ext relabel fun_upd_twist [of Ch_A Ch_B])
qed

lemma dummy_exchange_witness:
  "op_xchg (op_xchg (priv dummy_handle)) = priv dummy_handle"
  by (rule conjunct1 [OF dummy_exchange])
    (simp_all add: dummy_handle_def dummy_init_def init_chan_def chan_vfo_def dummy_mem_def
      alloc_init_ext_def Let_def)

text \<open>a channel written is the channel read. \<^verbatim>\<open>dummy_set_channel\<close> followed by
  \<^verbatim>\<open>dummy_get_channel\<close> for the same memory, or for A, B or the current VFO, returns every
  field as it was handed over, the extension levels included when the three lists have
  the same length; channel numbers outside the table are refused.\<close>

lemma dummy_channel_roundtrip:
  assumes "channel_ref (priv rig) chan = Some ref" and "0 \<le> channel_num chan" and "channel_num chan < NB_CHAN"
    and "length (ext_levels (d_chan (priv rig) ref)) = length (ext_levels chan)"
    and "run_state (dummy_set_channel vfo chan True) rig = (rc, rig')"
  shows "rc = RIG_OK
    \<and> run_state (dummy_get_channel vfo (zero_chan\<lparr>ch_vfo := ch_vfo chan, channel_num := channel_num chan,
          ext_levels := map (\<lambda>(t, v). (t, VInt 0)) (ext_levels chan)\<rparr>) True) rig' = ((RIG_OK, chan), rig')"
proof -
  have rig': "rc = RIG_OK" "d_chan (priv rig') ref = chan" "d_curr (priv rig') = d_curr (priv rig)"
    using assms
    by (auto simp: dummy_set_channel_def upd_chan_def copy_chan_def copy_ext_same_length)
  let ?q = "zero_chan\<lparr>ch_vfo := ch_vfo chan, channel_num := channel_num chan,
          ext_levels := map (\<lambda>(t, v). (t, VInt 0)) (ext_levels chan)\<rparr>"
  have "channel_ref (priv rig') ?q = channel_ref (priv rig) chan"
    using rig'(3) unfolding channel_ref_def by simp
  then have "channel_ref (priv rig') ?q = Some ref" using assms(1) by simp
  then show ?thesis
    using assms(2,3) rig'(1,2)
    by (simp add: dummy_get_channel_def copy_chan_def copy_ext_same_length Let_def)
qed

lemma dummy_channel_roundtrip_witness:
  "let chan = zero_chan\<lparr>ch_vfo := RIG_VFO_MEM, channel_num := 7, ch_freq := 3573000,
                ext_levels := alloc_init_ext dummy_ext_level_toks\<rparr>
   in fst (run_state (dummy_set_channel RIG_VFO_CURR chan True) dummy_handle) = RIG_OK"
proof -
  let ?chan = "zero_chan\<lparr>ch_vfo := RIG_VFO_MEM, channel_num := 7, ch_freq := 3573000,
                ext_levels := alloc_init_ext dummy_ext_level_toks\<rparr>"
  have "channel_ref (priv dummy_handle) ?chan = Some (Ch_Mem 7)" by (simp add: channel_ref_def)
  moreover have "length (ext_levels (d_chan (priv dummy_handle) (Ch_Mem 7))) = length (ext_levels ?chan)"
    by (simp add: dummy_handle_def dummy_init_def alloc_init_ext_def NB_CHAN_def Let_def)
  ultimately show ?thesis
    using dummy_channel_roundtrip [OF _ _ _ _ prod.collapse [symmetric], of dummy_handle ?chan "Ch_Mem 7"]
    by (simp add: NB_CHAN_def)
qed

subsection \<open>The whole stack: front end over the dummy\<close>

definition dummy_ready :: "vfo_t \<Rightarrow> dummy_priv \<Rightarrow> bool" where
  "dummy_ready cv p \<longleftrightarrow> d_curr_vfo p = cv \<and> freq_chan cv \<noteq> None"

definition dummy_tuned :: "vfo_t \<Rightarrow> dummy_priv \<Rightarrow> freq_t" where
  "dummy_tuned cv p = (case freq_chan cv of Some ref \<Rightarrow> ch_freq (d_chan p ref) | None \<Rightarrow> 0)"

lemma dummy_same_setup: "same_setup rig (rig\<lparr>now := t\<rparr>)" "same_setup rig (rig\<lparr>now := t, priv := p\<rparr>)"
  by (simp_all add: same_setup_def)

interpretation dummy_tuner: tuner "dummy_caps P rnd" "dummy_get_freq RIG_MODEL_DUMMY" dummy_ready dummy_tuned
  dummy_set_freq "\<lambda>f. f \<noteq> 0" "\<lambda>_. True"
proof
  show "set_freq (dummy_caps P rnd) = Some dummy_set_freq"
    "get_freq (dummy_caps P rnd) = Some (dummy_get_freq RIG_MODEL_DUMMY)"
    by (simp_all add: dummy_caps_def)
next
  fix rig :: dummy_rig and s f
  assume "tracked (dummy_caps P rnd) dummy_ready dummy_tuned s rig"
  then obtain ref where ref: "freq_chan (current_vfo rig) = Some ref" "d_curr_vfo (priv rig) = current_vfo rig"
    by (auto simp: dummy_ready_def tracked_def)
  let ?p1 = "(priv rig)\<lparr>d_chan := (d_chan (priv rig))(ref := (d_chan (priv rig) ref)\<lparr>ch_freq := f\<rparr>)\<rparr>"
  let ?p2 = "if d_split (priv rig) then ?p1
    else ?p1\<lparr>d_chan := (d_chan ?p1)(d_curr ?p1 := (d_chan ?p1 (d_curr ?p1))\<lparr>ch_tx_freq := f\<rparr>)\<rparr>"
  have "run_state (dummy_set_freq RIG_VFO_CURR f) rig
      = (RIG_OK, rig\<lparr>now := add_usec CMDSLEEP (now rig), priv := ?p2\<rparr>)"
    using ref by (simp add: dummy_set_freq_def upd_chan_def upd_curr_def)
  moreover have "dummy_ready (current_vfo rig) ?p2 \<and> dummy_tuned (current_vfo rig) ?p2 = f"
    using ref by (simp add: dummy_ready_def dummy_tuned_def)
  ultimately show "\<exists>rig'. run_state (dummy_set_freq RIG_VFO_CURR f) rig = (RIG_OK, rig') \<and> same_setup rig rig'
      \<and> dummy_ready (current_vfo rig) (priv rig') \<and> dummy_tuned (current_vfo rig) (priv rig') = f"
    using dummy_same_setup(2) by auto
next
  fix rig :: dummy_rig and v x
  assume ready: "dummy_ready (current_vfo rig) (priv rig)" and u: "uplink rig = 0"
    and v: "v \<in> {RIG_VFO_CURR, current_vfo rig}"
  then obtain ref where ref: "freq_chan (current_vfo rig) = Some ref" "d_curr_vfo (priv rig) = current_vfo rig"
    by (auto simp: dummy_ready_def)
  have model: "RIG_MODEL_DUMMY \<noteq> RIG_MODEL_DUMMY_NOVFO"
    by (simp add: RIG_MODEL_DUMMY_def RIG_MODEL_DUMMY_NOVFO_def RIG_MAKE_MODEL_def)
  let ?rig' = "rig\<lparr>now := add_usec CMDSLEEP (now rig)\<rparr>"
  have "run_state (dummy_get_freq RIG_MODEL_DUMMY v x) rig
      = ((RIG_OK, dummy_tuned (current_vfo rig) (priv rig)), ?rig')"
  proof (cases "v = RIG_VFO_CURR")
    case True
    then show ?thesis using ref u by (simp add: dummy_get_freq_def dummy_tuned_def Let_def model)
  next
    case False
    then show ?thesis using ref u v by (simp add: dummy_get_freq_def dummy_tuned_def Let_def)
  qed
  moreover have "same_setup rig ?rig' \<and> cache ?rig' = cache rig
      \<and> same_radio dummy_ready dummy_tuned rig ?rig'"
    using ready by (simp add: dummy_same_setup same_radio_def)
  ultimately show "\<exists>rig'. run_state (dummy_get_freq RIG_MODEL_DUMMY v x) rig
      = ((RIG_OK, dummy_tuned (current_vfo rig) (priv rig)), rig') \<and> same_setup rig rig'
      \<and> cache rig' = cache rig \<and> same_radio dummy_ready dummy_tuned rig rig'" by blast
qed simp_all

text \<open>C22: the front end over the simulated radio refines one number. Take an open handle on which the
  cache holds nothing or the right frequency for the current VFO (\<open>tracked\<close>), with no watch on the knob
  (\<^verbatim>\<open>twiddle_timeout\<close>) and no VFO excepted from reading (\<^verbatim>\<open>uplink\<close>), with any cache
  time-out, split or not; and let the local oscillator and the compensation, in \<^verbatim>\<open>double\<close> arithmetic, give
  every frequency set back (\<open>comes_back\<close>: every frequency without both, every whole one without
  compensation) and not take it to 0. Then any sequence of \<^verbatim>\<open>rig_set_freq\<close> and \<^verbatim>\<open>rig_get_freq\<close>
  calls on the current VFO, with pauses of any length between them, is answered as a plain variable would: every
  call returns \<^verbatim>\<open>RIG_OK\<close>, every read the last frequency set, whether the cache, the read-back inside
  \<^verbatim>\<open>rig_set_freq\<close> or the radio answers. The condition is needed: with a compensation of ten parts per million
  14074022 Hz do not come back (\<open>compensation_drifts\<close>).\<close>

lemma dummy_tuning_session:
  assumes "tracked (dummy_caps P rnd) dummy_ready dummy_tuned s rig"
    and "\<forall>f. Tune f \<in> set rs \<longrightarrow> raw_freq rig f \<noteq> 0 \<and> comes_back rig f"
  shows "fst (run_state (serve (dummy_caps P rnd) P rs) rig)
    = promised (user_freq rig (dummy_tuned (current_vfo rig) (priv rig))) rs"
  using dummy_tuner.serve_run [OF assms(1) TrueI assms(2)] by (simp add: on_air_def)

lemma dummy_handle_tracked:
  "tracked (dummy_caps dead_ports 0) dummy_ready dummy_tuned MainA (dummy_handle\<lparr>lo_freq := 116000000\<rparr>)"
  by (simp add: tracked_def tuning_setup_def on_air_def coherent_def dummy_ready_def dummy_tuned_def
      dummy_handle_def dummy_init_def init_chan_def zero_rig_def zero_cache_def cache_vfo_def
      freq_slot_def freq_chan_def vfo_defs dummy_mem_def init_chan_freq_def Let_def
      RIG_MODEL_DUMMY_def RIG_MODEL_DUMMY_NOVFO_def RIG_MAKE_MODEL_def)

lemma dummy_tuning_session_witness:
  "fst (run_state (serve (dummy_caps dead_ports 0) dead_ports
      [Tune 144174000, Read 0, Pause \<lparr>tv_sec = 500, tv_nsec = 0\<rparr>, Read 7, Tune 432065055, Read 0])
      (dummy_handle\<lparr>lo_freq := 116000000\<rparr>))
    = [(RIG_OK, 144174000), (RIG_OK, 144174000), (RIG_OK, 144174000), (RIG_OK, 432065055), (RIG_OK, 432065055)]"
proof -
  have zero: "vfo_comp (dummy_handle\<lparr>lo_freq := 116000000\<rparr>) = 0"
    by (simp add: dummy_handle_def dummy_init_def zero_rig_def Let_def)
  have "raw_freq (dummy_handle\<lparr>lo_freq := 116000000\<rparr>) 144174000 = 28174000"
    "comes_back (dummy_handle\<lparr>lo_freq := 116000000\<rparr>) 144174000"
    "raw_freq (dummy_handle\<lparr>lo_freq := 116000000\<rparr>) 432065055 = 316065055"
    "comes_back (dummy_handle\<lparr>lo_freq := 116000000\<rparr>) 432065055"
    using raw_freq_whole [OF zero, of 116000000 144174000] raw_freq_whole [OF zero, of 116000000 432065055] by simp_all
  then show ?thesis
    using dummy_tuning_session [OF dummy_handle_tracked,
        of "[Tune 144174000, Read 0, Pause \<lparr>tv_sec = 500, tv_nsec = 0\<rparr>, Read 7, Tune 432065055, Read 0]"]
    by (simp add: user_freq_def zero del: serve.simps)
qed

end
