(* ===== verification/Hamlib_Register.thy ===== *)
theory Hamlib_Register
  imports Hamlib_Models "HOL-Library.Signed_Division"
begin

text \<open>
  The registries of back ends: \<^verbatim>\<open>src/register.c\<close>, \<^verbatim>\<open>src/rot_reg.c\<close> and
  \<^verbatim>\<open>src/amp_reg.c\<close>. Each is a static hash table of chains of capability
  structures. A table is a function from the index (negative ones are memory before the array)
  to the chain; a structure is abstract, with its model number read by \<open>model\<close>.
  \<^verbatim>\<open>None\<close> stands for \<^verbatim>\<open>exit(1)\<close>. What the initialisation function of a
  family registers, and whether \<^verbatim>\<open>malloc\<close> succeeds, are arguments.

  The locale \<open>registry\<close> states what a registry promises; all three tables are
  interpretations of it.
\<close>

subsection \<open>Chains and tables\<close>

type_synonym 'c table = "int \<Rightarrow> 'c list"

fun chain_find :: "('c \<Rightarrow> 'k) \<Rightarrow> 'k \<Rightarrow> 'c list \<Rightarrow> 'c option" where
  "chain_find model m [] = None"
| "chain_find model m (p # ps) = (if model p = m then Some p else chain_find model m ps)"

text \<open>Unlinking the first entry of a model; \<^verbatim>\<open>None\<close> when there is none.\<close>

fun chain_unlink :: "('c \<Rightarrow> 'k) \<Rightarrow> 'k \<Rightarrow> 'c list \<Rightarrow> 'c list option" where
  "chain_unlink model m [] = None"
| "chain_unlink model m (p # ps) =
     (if model p = m then Some ps else map_option ((#) p) (chain_unlink model m ps))"

definition table_get :: "('k \<Rightarrow> int) \<Rightarrow> ('c \<Rightarrow> 'k) \<Rightarrow> 'k \<Rightarrow> 'c table \<Rightarrow> 'c option" where
  "table_get hash model m t = chain_find model m (t (hash m))"

definition table_unregister ::
  "('k \<Rightarrow> int) \<Rightarrow> ('c \<Rightarrow> 'k) \<Rightarrow> 'k \<Rightarrow> 'c table \<Rightarrow> int \<times> 'c table" where
  "table_unregister hash model m t = (case chain_unlink model m (t (hash m)) of
     None \<Rightarrow> (- RIG_EINVAL, t)
   | Some chain \<Rightarrow> (RIG_OK, t(hash m := chain)))"

definition table_push :: "('k \<Rightarrow> int) \<Rightarrow> ('c \<Rightarrow> 'k) \<Rightarrow> 'c \<Rightarrow> 'c table \<Rightarrow> 'c table" where
  "table_push hash model c t = t(hash (model c) := c # t (hash (model c)))"

text \<open>
  Calling a function on every entry until it answers zero. The state of the run is the table
  and whatever the function keeps. A chain is read when it is reached and each next pointer
  before the call, so a function may unregister the entry it is called with, no other (in the rotators' and amplifiers' versions the next pointer is read after the call: it may
  unregister none).
\<close>

fun visit_chain :: "('c \<Rightarrow> 's \<Rightarrow> int \<times> 's) \<Rightarrow> 'c list \<Rightarrow> 's \<Rightarrow> bool \<times> 's" where
  "visit_chain cfunc [] s = (True, s)"
| "visit_chain cfunc (p # ps) s =
     (let (r, s') = cfunc p s in if r = 0 then (False, s') else visit_chain cfunc ps s')"

fun visit_table ::
  "('c \<Rightarrow> 'c table \<times> 'd \<Rightarrow> int \<times> 'c table \<times> 'd) \<Rightarrow> int list \<Rightarrow> 'c table \<times> 'd \<Rightarrow> 'c table \<times> 'd" where
  "visit_table cfunc [] s = s"
| "visit_table cfunc (i # is) s =
     (let (continue, s') = visit_chain cfunc (fst s i) s
      in if continue then visit_table cfunc is s' else s')"

text \<open>A row of a back end list. \<^verbatim>\<open>be_probes\<close>: whether it has a probe function.\<close>

record backend =
  be_num :: int
  be_name :: string
  be_probes :: bool

fun lookup_backend :: "int \<Rightarrow> backend list \<Rightarrow> backend option" where
  "lookup_backend num [] = None"
| "lookup_backend num (b # bs) = (if num = be_num b then Some b else lookup_backend num bs)"

fun backend_named :: "string \<Rightarrow> backend list \<Rightarrow> backend option" where
  "backend_named name [] = None"
| "backend_named name (b # bs) = (if name = be_name b then Some b else backend_named name bs)"

subsection \<open>Radios: src/register.c\<close>

definition RIGLSTHASHSZ :: nat where "RIGLSTHASHSZ = 65535"

definition rig_hash :: "nat \<Rightarrow> int" where "rig_hash a = int (a mod RIGLSTHASHSZ)"

definition rig_backend_list :: "backend list" where
  "rig_backend_list = map (\<lambda>(n, s, p). \<lparr>be_num = n, be_name = s, be_probes = p\<rparr>)
    [(0, ''dummy'', False), (1, ''yaesu'', True), (2, ''kenwood'', True), (3, ''icom'', True),
     (30, ''icmarine'', False), (4, ''pcr'', False), (5, ''aor'', False), (6, ''jrc'', False),
     (8, ''uniden'', True), (9, ''drake'', True), (10, ''lowe'', True), (11, ''racal'', False),
     (12, ''wj'', False), (14, ''skanti'', False), (16, ''tentec'', False), (17, ''alinco'', False),
     (18, ''kachina'', False), (22, ''tapr'', False), (23, ''flexradio'', False),
     (24, ''rft'', False), (25, ''kit'', False), (26, ''tuner'', False), (27, ''rs'', False),
     (28, ''prm80'', False), (29, ''adat'', True), (31, ''dorji'', False), (32, ''barrett'', False),
     (33, ''elad'', False), (34, ''codan'', False), (35, ''gomspace'', True)]"

definition rig_register ::
  "('c \<Rightarrow> nat) \<Rightarrow> bool \<Rightarrow> 'c option \<Rightarrow> 'c table \<Rightarrow> (int \<times> 'c table) option" where
  "rig_register model got_memory caps t = (case caps of
     None \<Rightarrow> Some (- RIG_EINVAL, t)
   | Some c \<Rightarrow>
       if \<not> got_memory then Some (- RIG_ENOMEM, t)
       else if t (rig_hash (model c)) \<noteq> [] then None
       else Some (RIG_OK, table_push rig_hash model c t))"

definition rig_get_caps :: "('c \<Rightarrow> nat) \<Rightarrow> nat \<Rightarrow> 'c table \<Rightarrow> 'c option" where
  "rig_get_caps model m t = table_get rig_hash model m t"

definition rig_unregister :: "('c \<Rightarrow> nat) \<Rightarrow> nat \<Rightarrow> 'c table \<Rightarrow> int \<times> 'c table" where
  "rig_unregister model m t = table_unregister rig_hash model m t"

definition rig_list_foreach ::
  "('c \<Rightarrow> 'c table \<times> 'd \<Rightarrow> int \<times> 'c table \<times> 'd) option \<Rightarrow> 'c table \<times> 'd \<Rightarrow> int \<times> 'c table \<times> 'd" where
  "rig_list_foreach cfunc s = (case cfunc of
     None \<Rightarrow> (- RIG_EINVAL, s)
   | Some f \<Rightarrow> (RIG_OK, visit_table f [0..int RIGLSTHASHSZ - 1] s))"

definition rig_list_foreach_model ::
  "('c \<Rightarrow> nat) \<Rightarrow> (nat \<Rightarrow> 'c table \<times> 'd \<Rightarrow> int \<times> 'c table \<times> 'd) option \<Rightarrow> 'c table \<times> 'd
    \<Rightarrow> int \<times> 'c table \<times> 'd" where
  "rig_list_foreach_model model cfunc s = (case cfunc of
     None \<Rightarrow> (- RIG_EINVAL, s)
   | Some f \<Rightarrow> (RIG_OK, visit_table (f \<circ> model) [0..int RIGLSTHASHSZ - 1] s))"

text \<open>
  The initialisation function of a family calls \<^verbatim>\<open>rig_register\<close> for each of its
  structures and ignores what it answers. \<open>family\<close> lists them by the family's name.
\<close>

fun rig_register_all :: "('c \<Rightarrow> nat) \<Rightarrow> ('c \<Rightarrow> bool) \<Rightarrow> 'c list \<Rightarrow> 'c table \<Rightarrow> 'c table option" where
  "rig_register_all model mem [] t = Some t"
| "rig_register_all model mem (c # cs) t = (case rig_register model (mem c) (Some c) t of
     None \<Rightarrow> None
   | Some (_, t') \<Rightarrow> rig_register_all model mem cs t')"

definition rig_load_backend ::
  "('c \<Rightarrow> nat) \<Rightarrow> ('c \<Rightarrow> bool) \<Rightarrow> (string \<Rightarrow> 'c list) \<Rightarrow> string \<Rightarrow> 'c table \<Rightarrow> (int \<times> 'c table) option" where
  "rig_load_backend model mem family name t = (case backend_named name rig_backend_list of
     None \<Rightarrow> Some (- RIG_EINVAL, t)
   | Some b \<Rightarrow> map_option (Pair RIG_OK) (rig_register_all model mem (family (be_name b)) t))"

definition rig_lookup_backend :: "nat \<Rightarrow> backend option" where
  "rig_lookup_backend m = lookup_backend (int (RIG_BACKEND_NUM m)) rig_backend_list"

definition slots_in_use :: "'c table \<Rightarrow> nat" where
  "slots_in_use t = length (filter (\<lambda>i. t i \<noteq> []) [0..int RIGLSTHASHSZ - 1])"

definition rig_check_backend ::
  "('c \<Rightarrow> nat) \<Rightarrow> ('c \<Rightarrow> bool) \<Rightarrow> (string \<Rightarrow> 'c list) \<Rightarrow> nat \<Rightarrow> 'c table \<Rightarrow> (int \<times> 'c table) option" where
  "rig_check_backend model mem family m t = (case rig_get_caps model m t of
     Some _ \<Rightarrow> Some (RIG_OK, t)
   | None \<Rightarrow>
       if slots_in_use t > 1 then Some (- RIG_ENAVAIL, t)
       else case rig_lookup_backend m of
           None \<Rightarrow> Some (- RIG_ENAVAIL, t)
         | Some b \<Rightarrow> rig_load_backend model mem family (be_name b) t)"

text \<open>The table is cleared (the entries leak), then every family is loaded in order.\<close>

fun rig_load_each ::
  "('c \<Rightarrow> nat) \<Rightarrow> ('c \<Rightarrow> bool) \<Rightarrow> (string \<Rightarrow> 'c list) \<Rightarrow> backend list \<Rightarrow> 'c table \<Rightarrow> 'c table option" where
  "rig_load_each model mem family [] t = Some t"
| "rig_load_each model mem family (b # bs) t =
     (case rig_load_backend model mem family (be_name b) t of
        None \<Rightarrow> None
      | Some (_, t') \<Rightarrow> rig_load_each model mem family bs t')"

definition rig_load_all_backends ::
  "('c \<Rightarrow> nat) \<Rightarrow> ('c \<Rightarrow> bool) \<Rightarrow> (string \<Rightarrow> 'c list) \<Rightarrow> (int \<times> 'c table) option" where
  "rig_load_all_backends model mem family =
     map_option (Pair RIG_OK) (rig_load_each model mem family rig_backend_list (\<lambda>_. []))"

text \<open>Probing: \<open>probe\<close> is what the family's probe function answers.\<close>

fun rig_probe_first_in :: "(string \<Rightarrow> nat) \<Rightarrow> backend list \<Rightarrow> nat" where
  "rig_probe_first_in probe [] = RIG_MODEL_NONE"
| "rig_probe_first_in probe (b # bs) =
     (if be_probes b \<and> probe (be_name b) \<noteq> RIG_MODEL_NONE then probe (be_name b)
      else rig_probe_first_in probe bs)"

definition rig_probe_first :: "(string \<Rightarrow> nat) \<Rightarrow> nat" where
  "rig_probe_first probe = rig_probe_first_in probe rig_backend_list"

subsection \<open>Rotators: src/rot_reg.c\<close>

text \<open>
  A rotator's model number is a signed \<^verbatim>\<open>int\<close>: the C remainder of a negative one is
  negative, so the index lies before the array. Another difference: registering a model twice is
  refused, a chain may hold several models, and an unknown family answers \<^verbatim>\<open>-EINVAL\<close> of
  \<^verbatim>\<open>errno.h\<close>.
\<close>

definition ROTLSTHASHSZ :: int where "ROTLSTHASHSZ = 16"
definition EINVAL :: int where "EINVAL = 22"
definition ROT_BACKEND_NUM :: "int \<Rightarrow> int" where "ROT_BACKEND_NUM a = a sdiv 100"

definition rot_hash :: "int \<Rightarrow> int" where "rot_hash a = a smod ROTLSTHASHSZ"

definition rot_backend_list :: "backend list" where
  "rot_backend_list = map (\<lambda>(n, s). \<lparr>be_num = n, be_name = s, be_probes = False\<rparr>)
    [(0, ''dummy''), (2, ''easycomm''), (3, ''fodtrack''), (4, ''rotorez''), (5, ''sartek''),
     (6, ''gs232a''), (7, ''kit''), (8, ''heathkit''), (9, ''spid''), (10, ''m2''), (11, ''ars''),
     (12, ''amsat''), (13, ''ts7400''), (14, ''celestron''), (15, ''ether6''), (16, ''cnctrk''),
     (17, ''prosistel''), (18, ''meade''), (19, ''ioptron''), (21, ''satel''), (22, ''radant'')]"

definition rot_get_caps :: "('c \<Rightarrow> int) \<Rightarrow> int \<Rightarrow> 'c table \<Rightarrow> 'c option" where
  "rot_get_caps model m t = table_get rot_hash model m t"

definition rot_register ::
  "('c \<Rightarrow> int) \<Rightarrow> bool \<Rightarrow> 'c option \<Rightarrow> 'c table \<Rightarrow> int \<times> 'c table" where
  "rot_register model got_memory caps t = (case caps of
     None \<Rightarrow> (- RIG_EINVAL, t)
   | Some c \<Rightarrow>
       if rot_get_caps model (model c) t \<noteq> None then (- RIG_EINVAL, t)
       else if \<not> got_memory then (- RIG_ENOMEM, t)
       else (RIG_OK, table_push rot_hash model c t))"

definition rot_unregister :: "('c \<Rightarrow> int) \<Rightarrow> int \<Rightarrow> 'c table \<Rightarrow> int \<times> 'c table" where
  "rot_unregister model m t = table_unregister rot_hash model m t"

definition rot_list_foreach ::
  "('c \<Rightarrow> 'c table \<times> 'd \<Rightarrow> int \<times> 'c table \<times> 'd) option \<Rightarrow> 'c table \<times> 'd \<Rightarrow> int \<times> 'c table \<times> 'd" where
  "rot_list_foreach cfunc s = (case cfunc of
     None \<Rightarrow> (- RIG_EINVAL, s)
   | Some f \<Rightarrow> (RIG_OK, visit_table f [0..ROTLSTHASHSZ - 1] s))"

fun rot_register_all :: "('c \<Rightarrow> int) \<Rightarrow> ('c \<Rightarrow> bool) \<Rightarrow> 'c list \<Rightarrow> 'c table \<Rightarrow> 'c table" where
  "rot_register_all model mem [] t = t"
| "rot_register_all model mem (c # cs) t =
     rot_register_all model mem cs (snd (rot_register model (mem c) (Some c) t))"

definition rot_load_backend ::
  "('c \<Rightarrow> int) \<Rightarrow> ('c \<Rightarrow> bool) \<Rightarrow> (string \<Rightarrow> 'c list) \<Rightarrow> string \<Rightarrow> 'c table \<Rightarrow> int \<times> 'c table" where
  "rot_load_backend model mem family name t = (case backend_named name rot_backend_list of
     None \<Rightarrow> (- EINVAL, t)
   | Some b \<Rightarrow> (RIG_OK, rot_register_all model mem (family (be_name b)) t))"

definition rot_lookup_backend :: "int \<Rightarrow> backend option" where
  "rot_lookup_backend m = lookup_backend (ROT_BACKEND_NUM m) rot_backend_list"

definition rot_check_backend ::
  "('c \<Rightarrow> int) \<Rightarrow> ('c \<Rightarrow> bool) \<Rightarrow> (string \<Rightarrow> 'c list) \<Rightarrow> int \<Rightarrow> 'c table \<Rightarrow> int \<times> 'c table" where
  "rot_check_backend model mem family m t = (case rot_get_caps model m t of
     Some _ \<Rightarrow> (RIG_OK, t)
   | None \<Rightarrow> (case rot_lookup_backend m of
       None \<Rightarrow> (- RIG_ENAVAIL, t)
     | Some b \<Rightarrow> rot_load_backend model mem family (be_name b) t))"

definition rot_load_all_backends ::
  "('c \<Rightarrow> int) \<Rightarrow> ('c \<Rightarrow> bool) \<Rightarrow> (string \<Rightarrow> 'c list) \<Rightarrow> 'c table \<Rightarrow> int \<times> 'c table" where
  "rot_load_all_backends model mem family t =
     (RIG_OK, fold (\<lambda>b t. snd (rot_load_backend model mem family (be_name b) t)) rot_backend_list t)"

subsection \<open>Amplifiers: src/amp_reg.c\<close>

definition AMPLSTHASHSZ :: int where "AMPLSTHASHSZ = 16"
definition AMP_BACKEND_NUM :: "int \<Rightarrow> int" where "AMP_BACKEND_NUM a = a sdiv 100"

definition amp_hash :: "int \<Rightarrow> int" where "amp_hash a = a smod AMPLSTHASHSZ"

definition amp_backend_list :: "backend list" where
  "amp_backend_list = map (\<lambda>(n, s). \<lparr>be_num = n, be_name = s, be_probes = False\<rparr>)
    [(0, ''dummy''), (2, ''elecraft'')]"

definition amp_get_caps :: "('c \<Rightarrow> int) \<Rightarrow> int \<Rightarrow> 'c table \<Rightarrow> 'c option" where
  "amp_get_caps model m t = table_get amp_hash model m t"

definition amp_register ::
  "('c \<Rightarrow> int) \<Rightarrow> bool \<Rightarrow> 'c option \<Rightarrow> 'c table \<Rightarrow> int \<times> 'c table" where
  "amp_register model got_memory caps t = (case caps of
     None \<Rightarrow> (- RIG_EINVAL, t)
   | Some c \<Rightarrow>
       if amp_get_caps model (model c) t \<noteq> None then (- RIG_EINVAL, t)
       else if \<not> got_memory then (- RIG_ENOMEM, t)
       else (RIG_OK, table_push amp_hash model c t))"

definition amp_unregister :: "('c \<Rightarrow> int) \<Rightarrow> int \<Rightarrow> 'c table \<Rightarrow> int \<times> 'c table" where
  "amp_unregister model m t = table_unregister amp_hash model m t"

definition amp_list_foreach ::
  "('c \<Rightarrow> 'c table \<times> 'd \<Rightarrow> int \<times> 'c table \<times> 'd) option \<Rightarrow> 'c table \<times> 'd \<Rightarrow> int \<times> 'c table \<times> 'd" where
  "amp_list_foreach cfunc s = (case cfunc of
     None \<Rightarrow> (- RIG_EINVAL, s)
   | Some f \<Rightarrow> (RIG_OK, visit_table f [0..AMPLSTHASHSZ - 1] s))"

fun amp_register_all :: "('c \<Rightarrow> int) \<Rightarrow> ('c \<Rightarrow> bool) \<Rightarrow> 'c list \<Rightarrow> 'c table \<Rightarrow> 'c table" where
  "amp_register_all model mem [] t = t"
| "amp_register_all model mem (c # cs) t =
     amp_register_all model mem cs (snd (amp_register model (mem c) (Some c) t))"

definition amp_load_backend ::
  "('c \<Rightarrow> int) \<Rightarrow> ('c \<Rightarrow> bool) \<Rightarrow> (string \<Rightarrow> 'c list) \<Rightarrow> string \<Rightarrow> 'c table \<Rightarrow> int \<times> 'c table" where
  "amp_load_backend model mem family name t = (case backend_named name amp_backend_list of
     None \<Rightarrow> (- EINVAL, t)
   | Some b \<Rightarrow> (RIG_OK, amp_register_all model mem (family (be_name b)) t))"

definition amp_lookup_backend :: "int \<Rightarrow> backend option" where
  "amp_lookup_backend m = lookup_backend (AMP_BACKEND_NUM m) amp_backend_list"

definition amp_check_backend ::
  "('c \<Rightarrow> int) \<Rightarrow> ('c \<Rightarrow> bool) \<Rightarrow> (string \<Rightarrow> 'c list) \<Rightarrow> int \<Rightarrow> 'c table \<Rightarrow> int \<times> 'c table" where
  "amp_check_backend model mem family m t = (case amp_get_caps model m t of
     Some _ \<Rightarrow> (RIG_OK, t)
   | None \<Rightarrow> (case amp_lookup_backend m of
       None \<Rightarrow> (- RIG_ENAVAIL, t)
     | Some b \<Rightarrow> amp_load_backend model mem family (be_name b) t))"

definition amp_load_all_backends ::
  "('c \<Rightarrow> int) \<Rightarrow> ('c \<Rightarrow> bool) \<Rightarrow> (string \<Rightarrow> 'c list) \<Rightarrow> 'c table \<Rightarrow> int \<times> 'c table" where
  "amp_load_all_backends model mem family t =
     (RIG_OK, fold (\<lambda>b t. snd (amp_load_backend model mem family (be_name b) t)) amp_backend_list t)"

subsection \<open>What a registry promises\<close>

text \<open>
  Requests to a registry, what it answers, and the run of a list of requests; \<^verbatim>\<open>None\<close>
  when the process exits. The same run serves the abstract registry, a map from models to
  structures. It answers a second registration of a model with \<open>dup\<close>.
\<close>

datatype ('k, 'c) request = Register 'c | Unregister 'k | Lookup 'k

datatype 'c answer = Code int | Found "'c option"

fun request_key :: "('c \<Rightarrow> 'k) \<Rightarrow> ('k, 'c) request \<Rightarrow> 'k" where
  "request_key model (Register c) = model c"
| "request_key model (Unregister k) = k"
| "request_key model (Lookup k) = k"

fun serve_registry ::
  "('c \<Rightarrow> 't \<Rightarrow> (int \<times> 't) option) \<Rightarrow> ('k \<Rightarrow> 't \<Rightarrow> int \<times> 't) \<Rightarrow> ('k \<Rightarrow> 't \<Rightarrow> 'c option)
    \<Rightarrow> ('k, 'c) request list \<Rightarrow> 't \<Rightarrow> 'c answer list option" where
  "serve_registry reg unreg get [] t = Some []"
| "serve_registry reg unreg get (Register c # rs) t = (case reg c t of
     None \<Rightarrow> None
   | Some (rc, t') \<Rightarrow> map_option ((#) (Code rc)) (serve_registry reg unreg get rs t'))"
| "serve_registry reg unreg get (Unregister k # rs) t = (let (rc, t') = unreg k t
     in map_option ((#) (Code rc)) (serve_registry reg unreg get rs t'))"
| "serve_registry reg unreg get (Lookup k # rs) t =
     map_option ((#) (Found (get k t))) (serve_registry reg unreg get rs t)"

definition map_register ::
  "int option \<Rightarrow> ('c \<Rightarrow> 'k) \<Rightarrow> 'c \<Rightarrow> ('k \<rightharpoonup> 'c) \<Rightarrow> (int \<times> ('k \<rightharpoonup> 'c)) option" where
  "map_register dup model c m =
     (if m (model c) = None then Some (RIG_OK, m(model c \<mapsto> c)) else map_option (\<lambda>rc. (rc, m)) dup)"

definition map_unregister :: "'k \<Rightarrow> ('k \<rightharpoonup> 'c) \<Rightarrow> int \<times> ('k \<rightharpoonup> 'c)" where
  "map_unregister k m = (if m k = None then (- RIG_EINVAL, m) else (RIG_OK, m(k := None)))"

locale registry =
  fixes model :: "'c \<Rightarrow> 'k" and ok :: "'k \<Rightarrow> bool" and dup :: "int option"
    and get :: "'k \<Rightarrow> 't \<Rightarrow> 'c option" and register :: "'c \<Rightarrow> 't \<Rightarrow> (int \<times> 't) option"
    and unregister :: "'k \<Rightarrow> 't \<Rightarrow> int \<times> 't" and inv :: "'t \<Rightarrow> bool"
  assumes register_new: "\<lbrakk> inv t; ok (model c); get (model c) t = None \<rbrakk> \<Longrightarrow>
      \<exists>t'. register c t = Some (RIG_OK, t') \<and> inv t'
        \<and> (\<forall>k. ok k \<longrightarrow> get k t' = (if k = model c then Some c else get k t))"
    and register_twice: "\<lbrakk> inv t; ok (model c); get (model c) t = Some d \<rbrakk> \<Longrightarrow>
      register c t = map_option (\<lambda>rc. (rc, t)) dup"
    and unregister_known: "\<lbrakk> inv t; ok k; get k t = Some c \<rbrakk> \<Longrightarrow>
      \<exists>t'. unregister k t = (RIG_OK, t') \<and> inv t' \<and> (\<forall>j. ok j \<longrightarrow> get j t' = (if j = k then None else get j t))"
    and unregister_unknown: "\<lbrakk> inv t; ok k; get k t = None \<rbrakk> \<Longrightarrow> unregister k t = (- RIG_EINVAL, t)"
begin

lemma serve_as_map:
  assumes "inv t" and "\<forall>k. ok k \<longrightarrow> get k t = m k" and "\<forall>r \<in> set rs. ok (request_key model r)"
  shows "serve_registry register unregister get rs t
    = serve_registry (map_register dup model) map_unregister (\<lambda>k m. m k) rs m"
  using assms
proof (induction rs arbitrary: t m)
  case (Cons r rs)
  have rest: "\<forall>r \<in> set rs. ok (request_key model r)" using Cons.prems(3) by simp
  show ?case
  proof (cases r)
    case (Register c)
    then have c: "ok (model c)" "m (model c) = get (model c) t" using Cons.prems by auto
    show ?thesis
    proof (cases "get (model c) t")
      case None
      with register_new [OF Cons.prems(1) c(1)] obtain t' where t': "register c t = Some (RIG_OK, t')" "inv t'"
        "\<forall>k. ok k \<longrightarrow> get k t' = (if k = model c then Some c else get k t)" by blast
      then have "\<forall>k. ok k \<longrightarrow> get k t' = (m(model c \<mapsto> c)) k" using Cons.prems(2) by simp
      note step = Cons.IH [where m = "m(model c \<mapsto> c)", OF t'(2) this rest]
      have "m (model c) = None" using None c(2) by simp
      then have "map_register dup model c m = Some (RIG_OK, m(model c \<mapsto> c))" by (simp add: map_register_def)
      then show ?thesis by (simp add: Register t'(1) step del: fun_upd_apply)
    next
      case (Some d)
      then show ?thesis
        using register_twice [OF Cons.prems(1) c(1) Some] Cons.IH [OF Cons.prems(1,2) rest] c(2)
        by (cases dup) (simp_all add: Register map_register_def)
    qed
  next
    case (Unregister k)
    then have k: "ok k" "m k = get k t" using Cons.prems by auto
    show ?thesis
    proof (cases "get k t")
      case None
      then show ?thesis
        using unregister_unknown [OF Cons.prems(1) k(1) None] Cons.IH [OF Cons.prems(1,2) rest] k(2)
        by (simp add: Unregister map_unregister_def)
    next
      case (Some c)
      with unregister_known [OF Cons.prems(1) k(1)] obtain t' where t': "unregister k t = (RIG_OK, t')" "inv t'"
        "\<forall>j. ok j \<longrightarrow> get j t' = (if j = k then None else get j t)" by blast
      then have "\<forall>j. ok j \<longrightarrow> get j t' = (m(k := None)) j" using Cons.prems(2) by simp
      note step = Cons.IH [where m = "m(k := None)", OF t'(2) this rest]
      have "m k \<noteq> None" using Some k(2) by simp
      then have "map_unregister k m = (RIG_OK, m(k := None))" by (auto simp: map_unregister_def)
      then show ?thesis by (simp add: Unregister t'(1) step del: fun_upd_apply)
    qed
  next
    case (Lookup k)
    then show ?thesis using Cons.IH [OF Cons.prems(1,2) rest] Cons.prems(2,3) by simp
  qed
qed simp

end

subsection \<open>The tables are registries\<close>

text \<open>
  Every chain a valid model is looked up in holds each model once, only valid models, and only
  models of that index.
\<close>

definition table_ok :: "('k \<Rightarrow> int) \<Rightarrow> ('c \<Rightarrow> 'k) \<Rightarrow> ('k \<Rightarrow> bool) \<Rightarrow> 'c table \<Rightarrow> bool" where
  "table_ok hash model ok t \<longleftrightarrow> (\<forall>k. ok k \<longrightarrow> distinct (map model (t (hash k)))
     \<and> (\<forall>c \<in> set (t (hash k)). ok (model c) \<and> hash (model c) = hash k))"

lemma chain_find_None: "chain_find model m ps = None \<longleftrightarrow> m \<notin> model ` set ps"
  by (induction ps) auto

lemma chain_find_Some: "chain_find model m ps = Some c \<Longrightarrow> c \<in> set ps \<and> model c = m"
  by (induction ps) (auto split: if_splits)

lemma chain_find_member:
  "c \<in> set ps \<Longrightarrow> distinct (map model ps) \<Longrightarrow> chain_find model (model c) ps = Some c"
  by (induction ps) auto

lemma chain_unlink_None: "chain_unlink model m ps = None \<longleftrightarrow> chain_find model m ps = None"
  by (induction ps) auto

lemma chain_unlink_filter:
  assumes "distinct (map model ps)"
  shows "chain_unlink model m ps = (if m \<in> model ` set ps then Some (filter (\<lambda>p. model p \<noteq> m) ps) else None)"
  using assms
proof (induction ps)
  case (Cons p ps)
  have "filter (\<lambda>q. model q \<noteq> m) ps = ps" if "m \<notin> model ` set ps"
    using that by (intro filter_True) auto
  with Cons show ?case by auto
qed simp

lemma chain_find_filter:
  "chain_find model j (filter (\<lambda>p. model p \<noteq> m) ps) = (if j = m then None else chain_find model j ps)"
  by (induction ps) auto

lemma table_okD:
  assumes "table_ok hash model ok t" and "ok k"
  shows "distinct (map model (t (hash k)))" and "\<forall>c \<in> set (t (hash k)). ok (model c) \<and> hash (model c) = hash k"
  using assms unfolding table_ok_def by blast+

lemma table_ok_upd:
  assumes "table_ok hash model ok t" and "distinct (map model ps)" and "\<forall>c \<in> set ps. ok (model c) \<and> hash (model c) = i"
  shows "table_ok hash model ok (t(i := ps))"
  unfolding table_ok_def
proof (intro allI impI)
  fix k assume "ok k"
  then show "distinct (map model ((t(i := ps)) (hash k)))
      \<and> (\<forall>c \<in> set ((t(i := ps)) (hash k)). ok (model c) \<and> hash (model c) = hash k)"
    using assms table_okD [OF assms(1)] by (cases "hash k = i") simp_all
qed

lemma table_ok_push:
  assumes "table_ok hash model ok t" and "ok (model c)" and "table_get hash model (model c) t = None"
  shows "table_ok hash model ok (table_push hash model c t)"
  unfolding table_push_def
  using table_okD [OF assms(1,2)] assms(2,3)
  by (intro table_ok_upd [OF assms(1)]) (simp_all add: table_get_def chain_find_None)

lemma table_get_push:
  "table_get hash model k (table_push hash model c t) = (if k = model c then Some c else table_get hash model k t)"
  by (simp add: table_get_def table_push_def)

lemma table_unregister_known:
  assumes "table_ok hash model ok t" and "ok k" and "table_get hash model k t = Some c"
  shows "\<exists>t'. table_unregister hash model k t = (RIG_OK, t') \<and> table_ok hash model ok t'
    \<and> (\<forall>j. ok j \<longrightarrow> table_get hash model j t' = (if j = k then None else table_get hash model j t))"
proof -
  let ?qs = "filter (\<lambda>p. model p \<noteq> k) (t (hash k))"
  have "k \<in> model ` set (t (hash k))"
    using assms(3) chain_find_None [of model k "t (hash k)"] by (simp add: table_get_def)
  moreover have d: "distinct (map model (t (hash k)))" using assms(1,2) by (simp add: table_ok_def)
  ultimately have "table_unregister hash model k t = (RIG_OK, t(hash k := ?qs))"
    by (simp add: table_unregister_def chain_unlink_filter)
  moreover have "table_ok hash model ok (t(hash k := ?qs))"
    using table_okD [OF assms(1,2)] by (intro table_ok_upd [OF assms(1)]) (simp_all add: distinct_map_filter)
  moreover have "table_get hash model j (t(hash k := ?qs)) = (if j = k then None else table_get hash model j t)" for j
    by (simp add: table_get_def chain_find_filter)
  ultimately show ?thesis by blast
qed

lemma table_unregister_unknown:
  "table_get hash model k t = None \<Longrightarrow> table_unregister hash model k t = (- RIG_EINVAL, t)"
  using chain_unlink_None [of model k "t (hash k)"] by (simp add: table_get_def table_unregister_def)

abbreviation rig_numbers :: "nat \<Rightarrow> bool" where "rig_numbers m \<equiv> m < RIGLSTHASHSZ"

lemma rig_hash_inj: "rig_numbers m \<Longrightarrow> rig_numbers n \<Longrightarrow> rig_hash m = rig_hash n \<Longrightarrow> m = n"
  by (simp add: rig_hash_def)

lemma rig_slot_free:
  assumes "table_ok rig_hash model rig_numbers t" and "rig_numbers m"
  shows "t (rig_hash m) = [] \<longleftrightarrow> table_get rig_hash model m t = None"
proof
  assume "table_get rig_hash model m t = None"
  then have "m \<notin> model ` set (t (rig_hash m))" by (simp add: table_get_def chain_find_None)
  moreover have "model c = m" if "c \<in> set (t (rig_hash m))" for c
  proof -
    have "rig_numbers (model c) \<and> rig_hash (model c) = rig_hash m"
      using assms(1) assms(2) that unfolding table_ok_def by blast
    then show ?thesis using assms(2) rig_hash_inj by blast
  qed
  ultimately show "t (rig_hash m) = []" by (cases "t (rig_hash m)") auto
qed (simp add: table_get_def)

interpretation rig_table: registry model rig_numbers None "rig_get_caps model"
    "\<lambda>c. rig_register model True (Some c)" "rig_unregister model" "table_ok rig_hash model rig_numbers"
  for model :: "'c \<Rightarrow> nat"
proof unfold_locales
  fix t c assume t: "table_ok rig_hash model rig_numbers t" "rig_numbers (model c)"
  { assume "rig_get_caps model (model c) t = None"
    then show "\<exists>t'. rig_register model True (Some c) t = Some (RIG_OK, t') \<and> table_ok rig_hash model rig_numbers t'
        \<and> (\<forall>k. rig_numbers k \<longrightarrow> rig_get_caps model k t' = (if k = model c then Some c else rig_get_caps model k t))"
      using t rig_slot_free [OF t] table_ok_push [of rig_hash model rig_numbers t c]
      by (simp add: rig_get_caps_def rig_register_def table_get_push) }
  { fix d assume "rig_get_caps model (model c) t = Some d"
    then show "rig_register model True (Some c) t = map_option (\<lambda>rc. (rc, t)) None"
      using rig_slot_free [OF t] by (simp add: rig_get_caps_def rig_register_def) }
next
  fix t k and c :: 'c assume "table_ok rig_hash model rig_numbers t" "rig_numbers k" "rig_get_caps model k t = Some c"
  then show "\<exists>t'. rig_unregister model k t = (RIG_OK, t') \<and> table_ok rig_hash model rig_numbers t'
      \<and> (\<forall>j. rig_numbers j \<longrightarrow> rig_get_caps model j t' = (if j = k then None else rig_get_caps model j t))"
    unfolding rig_get_caps_def rig_unregister_def
    using table_unregister_known [of rig_hash model rig_numbers t k c] by blast
qed (simp add: rig_get_caps_def rig_unregister_def table_unregister_unknown)

text \<open>Rotators and amplifiers refuse a second registration.\<close>

definition checked_register :: "('k \<Rightarrow> int) \<Rightarrow> ('c \<Rightarrow> 'k) \<Rightarrow> 'c \<Rightarrow> 'c table \<Rightarrow> int \<times> 'c table" where
  "checked_register hash model c t =
     (if table_get hash model (model c) t \<noteq> None then (- RIG_EINVAL, t)
      else (RIG_OK, table_push hash model c t))"

lemma checked_registry:
  "registry model ok (Some (- RIG_EINVAL)) (table_get hash model)
    (\<lambda>c t. Some (checked_register hash model c t)) (table_unregister hash model) (table_ok hash model ok)"
proof unfold_locales
  fix t k c assume "table_ok hash model ok t" "ok k" "table_get hash model k t = Some c"
  then show "\<exists>t'. table_unregister hash model k t = (RIG_OK, t') \<and> table_ok hash model ok t'
      \<and> (\<forall>j. ok j \<longrightarrow> table_get hash model j t' = (if j = k then None else table_get hash model j t))"
    using table_unregister_known [of hash model ok t k c] by blast
qed (auto simp: checked_register_def table_get_push table_ok_push table_unregister_unknown)

lemma rot_as_table:
  "rot_get_caps model = table_get rot_hash model" "rot_unregister model = table_unregister rot_hash model"
  "rot_register model True (Some c) = checked_register rot_hash model c"
  by (auto simp: fun_eq_iff rot_get_caps_def rot_unregister_def rot_register_def checked_register_def)

lemma amp_as_table:
  "amp_get_caps model = table_get amp_hash model" "amp_unregister model = table_unregister amp_hash model"
  "amp_register model True (Some c) = checked_register amp_hash model c"
  by (auto simp: fun_eq_iff amp_get_caps_def amp_unregister_def amp_register_def checked_register_def)

lemma small_hash_range:
  assumes "0 \<le> m"
  shows "rot_hash m \<in> {0..<ROTLSTHASHSZ}" "amp_hash m \<in> {0..<AMPLSTHASHSZ}"
proof -
  have "m smod 16 = m mod 16" using assms by (cases "m = 0") (simp_all add: signed_modulo_int_def)
  then show "rot_hash m \<in> {0..<ROTLSTHASHSZ}" "amp_hash m \<in> {0..<AMPLSTHASHSZ}"
    by (simp_all add: rot_hash_def amp_hash_def ROTLSTHASHSZ_def AMPLSTHASHSZ_def)
qed

lemma empty_table:
  assumes "\<And>k. ok k \<Longrightarrow> t (hash k) = []"
  shows "table_ok hash model ok t" and "\<forall>k. ok k \<longrightarrow> table_get hash model k t = Map.empty k"
  using assms by (simp_all add: table_ok_def table_get_def)

interpretation rot_table: registry model "(\<le>) 0" "Some (- RIG_EINVAL)" "rot_get_caps model"
    "\<lambda>c t. Some (rot_register model True (Some c) t)" "rot_unregister model" "table_ok rot_hash model ((\<le>) 0)"
  for model :: "'c \<Rightarrow> int"
  unfolding rot_as_table by (rule checked_registry)

interpretation amp_table: registry model "(\<le>) 0" "Some (- RIG_EINVAL)" "amp_get_caps model"
    "\<lambda>c t. Some (amp_register model True (Some c) t)" "amp_unregister model" "table_ok amp_hash model ((\<le>) 0)"
  for model :: "'c \<Rightarrow> int"
  unfolding amp_as_table by (rule checked_registry)

text \<open>C32: the three registries are maps from model numbers to capability structures, as long as
  \<^verbatim>\<open>malloc\<close> gives memory for an entry. Any sequence of registrations, removals and look-ups, of radio models below the size of the table
  or of rotator and amplifier models that are not negative, is answered, from an empty table, as
  by a map: removing an unknown model is \<^verbatim>\<open>-RIG_EINVAL\<close>. The difference is the second
  registration of a model: rotators and amplifiers answer \<^verbatim>\<open>-RIG_EINVAL\<close>, the radios'
  registry ends the process; so all three check for duplicates, which their comments deny.\<close>

lemma registries_are_maps:
  assumes "\<forall>r \<in> set rs. request_key model r < RIGLSTHASHSZ" and "\<forall>r \<in> set qs. 0 \<le> request_key number r"
    and "\<forall>i \<in> {0..<ROTLSTHASHSZ}. rots i = []" and "\<forall>i \<in> {0..<AMPLSTHASHSZ}. amps i = []"
  shows "serve_registry (\<lambda>c. rig_register model True (Some c)) (rig_unregister model) (rig_get_caps model) rs (\<lambda>_. [])
      = serve_registry (map_register None model) map_unregister (\<lambda>k m. m k) rs Map.empty
    \<and> serve_registry (\<lambda>c t. Some (rot_register number True (Some c) t)) (rot_unregister number) (rot_get_caps number) qs rots
      = serve_registry (map_register (Some (- RIG_EINVAL)) number) map_unregister (\<lambda>k m. m k) qs Map.empty
    \<and> serve_registry (\<lambda>c t. Some (amp_register number True (Some c) t)) (amp_unregister number) (amp_get_caps number) qs amps
      = serve_registry (map_register (Some (- RIG_EINVAL)) number) map_unregister (\<lambda>k m. m k) qs Map.empty"
proof (intro conjI)
  show "serve_registry (\<lambda>c. rig_register model True (Some c)) (rig_unregister model) (rig_get_caps model) rs (\<lambda>_. [])
      = serve_registry (map_register None model) map_unregister (\<lambda>k m. m k) rs Map.empty"
    using assms(1) by (intro rig_table.serve_as_map) (simp_all add: table_ok_def rig_get_caps_def table_get_def)
  have rot: "rots (rot_hash k) = []" and amp: "amps (amp_hash k) = []" if "0 \<le> k" for k
    using assms(3,4) small_hash_range [OF that] by simp_all
  show "serve_registry (\<lambda>c t. Some (rot_register number True (Some c) t)) (rot_unregister number) (rot_get_caps number) qs rots
      = serve_registry (map_register (Some (- RIG_EINVAL)) number) map_unregister (\<lambda>k m. m k) qs Map.empty"
    using empty_table [of "(\<le>) 0" rots rot_hash, OF rot] assms(2) by (intro rot_table.serve_as_map) (simp_all add: rot_as_table)
  show "serve_registry (\<lambda>c t. Some (amp_register number True (Some c) t)) (amp_unregister number) (amp_get_caps number) qs amps
      = serve_registry (map_register (Some (- RIG_EINVAL)) number) map_unregister (\<lambda>k m. m k) qs Map.empty"
    using empty_table [of "(\<le>) 0" amps amp_hash, OF amp] assms(2) by (intro amp_table.serve_as_map) (simp_all add: amp_as_table)
qed

text \<open>Models 3 and 4 below are registered twice and removed; a structure is its own number.\<close>

lemma registries_are_maps_witness:
  "serve_registry (\<lambda>c. rig_register id True (Some c)) (rig_unregister id) (rig_get_caps id)
      [Register 1001, Lookup 1001, Unregister 7, Unregister 1001, Lookup 1001, Register (1001 :: nat)] (\<lambda>_. [])
    = Some [Code RIG_OK, Found (Some 1001), Code (- RIG_EINVAL), Code RIG_OK, Found None, Code RIG_OK]
   \<and> serve_registry (\<lambda>c t. Some (rot_register id True (Some c) t)) (rot_unregister id) (rot_get_caps id)
      [Register 101, Register 101, Register 117, Lookup (101 :: int)] (\<lambda>i. if i < 0 then [5] else [])
    = Some [Code RIG_OK, Code (- RIG_EINVAL), Code RIG_OK, Found (Some 101)]"
  using registries_are_maps [of "[Register 1001, Lookup 1001, Unregister 7, Unregister 1001, Lookup 1001, Register (1001 :: nat)]" id
      "[Register 101, Register 101, Register 117, Lookup (101 :: int)]" id "\<lambda>i. if i < 0 then [5] else []" "\<lambda>_. []"]
  by (simp add: RIGLSTHASHSZ_def map_register_def map_unregister_def)

lemma visit_chain_all:
  assumes "\<And>c s. fst (cfunc c s) \<noteq> 0"
  shows "visit_chain cfunc ps s = (True, fold (\<lambda>c s. snd (cfunc c s)) ps s)"
  using assms by (induction ps arbitrary: s) (auto simp: case_prod_beta Let_def)

lemma collect_chain:
  "fold (\<lambda>c s. snd (case s of (t, seen) \<Rightarrow> (1, t, seen @ [c]))) ps (t, seen) = (t, seen @ ps)"
  by (induction ps arbitrary: seen) auto

lemma collect_table:
  "visit_table (\<lambda>c (t, seen). (1, t, seen @ [c])) is (t, seen) = (t, seen @ concat (map t is))"
proof (induction "is" arbitrary: seen)
  case (Cons i "is")
  have "visit_chain (\<lambda>c (t, seen). (1, t, seen @ [c])) (t i) (t, seen) = (True, t, seen @ t i)"
    by (subst visit_chain_all) (auto simp: collect_chain split: prod.split)
  then show ?case using Cons by simp
qed simp

lemma rig_slots: "(\<exists>k. rig_numbers k \<and> rig_hash k = i) \<longleftrightarrow> i \<in> {0..int RIGLSTHASHSZ - 1}"
proof
  assume "i \<in> {0..int RIGLSTHASHSZ - 1}"
  then have "rig_numbers (nat i) \<and> rig_hash (nat i) = i" by (auto simp: rig_hash_def)
  then show "\<exists>k. rig_numbers k \<and> rig_hash k = i" by blast
qed (auto simp: rig_hash_def)

lemma distinct_chains:
  assumes "distinct is" and "\<And>i. i \<in> set is \<Longrightarrow> distinct (map model (t i))"
    and "\<And>i c. i \<in> set is \<Longrightarrow> c \<in> set (t i) \<Longrightarrow> hash (model c) = i"
  shows "distinct (map model (concat (map t is)))"
  using assms
proof (induction "is")
  case (Cons i "is")
  have "model ` set (t i) \<inter> model ` (\<Union>j\<in>set is. set (t j)) = {}"
  proof (rule equals0I)
    fix x assume "x \<in> model ` set (t i) \<inter> model ` (\<Union>j\<in>set is. set (t j))"
    then obtain c d j where cd: "c \<in> set (t i)" "model c = x" "d \<in> set (t j)" "j \<in> set is" "model d = x" by auto
    then have "hash x = i" "hash x = j" using Cons.prems(3) [of i c] Cons.prems(3) [of j d] by auto
    then show False using cd(4) Cons.prems(1) by simp
  qed
  with Cons show ?case by simp
qed simp

text \<open>going through the registered radios meets each exactly once. On a table as the
  registry keeps it, a function that notes what it is called with and answers one is called with
  every registered structure, with none twice, and the table is unchanged.\<close>

lemma rig_list_foreach_complete:
  assumes "table_ok rig_hash model rig_numbers t"
  shows "\<exists>seen. rig_list_foreach (Some (\<lambda>c (t, seen). (1, t, seen @ [c]))) (t, []) = (RIG_OK, t, seen)
    \<and> distinct (map model seen)
    \<and> (\<forall>c. c \<in> set seen \<longleftrightarrow> rig_numbers (model c) \<and> rig_get_caps model (model c) t = Some c)"
proof -
  let ?is = "[0..int RIGLSTHASHSZ - 1]"
  define seen where "seen = concat (map t ?is)"
  have run: "rig_list_foreach (Some (\<lambda>c (t, seen). (1, t, seen @ [c]))) (t, []) = (RIG_OK, t, seen)"
    by (simp add: rig_list_foreach_def collect_table seen_def)
  have slot: "distinct (map model (t i)) \<and> (\<forall>c \<in> set (t i). rig_numbers (model c) \<and> rig_hash (model c) = i)"
    if "i \<in> set ?is" for i
    using that rig_slots [of i] table_okD [OF assms(1)] by auto
  have "c \<in> set seen \<longleftrightarrow> rig_numbers (model c) \<and> rig_get_caps model (model c) t = Some c" for c
  proof
    assume "c \<in> set seen"
    then obtain i where "i \<in> set ?is" "c \<in> set (t i)" unfolding seen_def by auto
    with slot [of i] show "rig_numbers (model c) \<and> rig_get_caps model (model c) t = Some c"
      by (auto simp: rig_get_caps_def table_get_def chain_find_member)
  next
    assume c: "rig_numbers (model c) \<and> rig_get_caps model (model c) t = Some c"
    then have "c \<in> set (t (rig_hash (model c)))"
      using chain_find_Some by (fastforce simp: rig_get_caps_def table_get_def)
    moreover have "rig_hash (model c) \<in> set ?is" using c rig_slots [of "rig_hash (model c)"] by auto
    ultimately show "c \<in> set seen" unfolding seen_def by auto
  qed
  moreover have "distinct (map model seen)"
    unfolding seen_def by (rule distinct_chains [where hash = rig_hash]) (use slot in auto)
  ultimately show ?thesis using run by blast
qed

lemma rig_list_foreach_complete_witness:
  "\<exists>seen. rig_list_foreach (Some (\<lambda>c (t, seen). (1, t, seen @ [c])))
      ((\<lambda>_. [])(rig_hash 1001 := [1001], rig_hash 3073 := [3073]), []) =
      (RIG_OK, (\<lambda>_. [])(rig_hash 1001 := [1001], rig_hash 3073 := [3073 :: nat]), seen)
    \<and> set seen = {1001, 3073} \<and> distinct seen"
proof -
  let ?t = "(\<lambda>_. [])(rig_hash 1001 := [1001], rig_hash 3073 := [3073 :: nat])"
  have "table_ok rig_hash id rig_numbers ?t"
    by (intro table_ok_upd) (simp_all add: table_ok_def RIGLSTHASHSZ_def)
  from rig_list_foreach_complete [OF this] obtain seen where
    seen: "rig_list_foreach (Some (\<lambda>c (t, seen). (1, t, seen @ [c]))) (?t, []) = (RIG_OK, ?t, seen)"
      "distinct seen" "\<And>c. c \<in> set seen \<longleftrightarrow> rig_numbers c \<and> rig_get_caps id c ?t = Some c" by auto
  have "c \<in> set seen \<longleftrightarrow> c = 1001 \<or> c = 3073" for c
    unfolding seen(3) by (auto simp: rig_get_caps_def table_get_def RIGLSTHASHSZ_def rig_hash_def split: if_splits)
  then have "set seen = {1001, 3073}" by auto
  with seen(1,2) show ?thesis by blast
qed

subsection \<open>Loading families on demand\<close>

lemma rig_backend_names: "\<forall>b \<in> set rig_backend_list. backend_named (be_name b) rig_backend_list = Some b"
  by (simp add: rig_backend_list_def)

lemma rot_backend_names: "\<forall>b \<in> set rot_backend_list. backend_named (be_name b) rot_backend_list = Some b"
  by (simp add: rot_backend_list_def)

lemma lookup_backend_member: "lookup_backend n bs = Some b \<Longrightarrow> b \<in> set bs"
  by (induction bs) (auto split: if_splits)

text \<open>Registering structures of different slots, all of them free.\<close>

lemma rig_register_all_fresh:
  assumes "distinct (map (rig_hash \<circ> model) cs)" and "\<forall>c \<in> set cs. mem c \<and> t (rig_hash (model c)) = []"
  shows "\<exists>t'. rig_register_all model mem cs t = Some t' \<and> (\<forall>c \<in> set cs. t' (rig_hash (model c)) = [c])
    \<and> (\<forall>i. i \<notin> (rig_hash \<circ> model) ` set cs \<longrightarrow> t' i = t i)"
  using assms
proof (induction cs arbitrary: t)
  case (Cons c cs)
  let ?t = "table_push rig_hash model c t"
  have "distinct (map (rig_hash \<circ> model) cs)" "\<forall>d \<in> set cs. mem d \<and> ?t (rig_hash (model d)) = []"
  proof -
    have new: "rig_hash (model d) \<noteq> rig_hash (model c)" if "d \<in> set cs" for d
    proof -
      have "rig_hash (model c) \<notin> (\<lambda>d. rig_hash (model d)) ` set cs" using Cons.prems(1) by (simp add: comp_def)
      with imageI [OF that, of "\<lambda>d. rig_hash (model d)"] show ?thesis by metis
    qed
    show "distinct (map (rig_hash \<circ> model) cs)" using Cons.prems(1) by (simp add: comp_def)
    show "\<forall>d \<in> set cs. mem d \<and> ?t (rig_hash (model d)) = []"
      using Cons.prems(2) new by (simp add: table_push_def)
  qed
  from Cons.IH [OF this] obtain t' where t': "rig_register_all model mem cs ?t = Some t'"
    "\<forall>c \<in> set cs. t' (rig_hash (model c)) = [c]" "\<forall>i. i \<notin> (rig_hash \<circ> model) ` set cs \<longrightarrow> t' i = ?t i" by blast
  have "t' (rig_hash (model c)) = [c]" using t'(3) Cons.prems by (auto simp: table_push_def)
  moreover have "t' i = t i" if "i \<notin> (rig_hash \<circ> model) ` set (c # cs)" for i
    using t'(3) that by (auto simp: table_push_def)
  moreover have "rig_register_all model mem (c # cs) t = Some t'"
    using Cons.prems(2) t'(1) by (simp add: rig_register_def)
  ultimately show ?case using t'(2) by auto
qed simp

lemma two_slots_in_use:
  assumes "t i \<noteq> []" and "t j \<noteq> []" and "i \<noteq> j" and "{i, j} \<subseteq> {0..int RIGLSTHASHSZ - 1}"
  shows "slots_in_use t > 1"
proof -
  let ?used = "filter (\<lambda>i. t i \<noteq> []) [0..int RIGLSTHASHSZ - 1]"
  have "card {i, j} \<le> card (set ?used)" using assms by (intro card_mono) (simp_all del: set_filter, simp)
  also have "card (set ?used) = length ?used" by (rule distinct_card) simp
  finally show ?thesis using assms(3) by (simp add: slots_in_use_def)
qed

text \<open>only one family of radios can be loaded on demand. From an empty table, asking for a
  model of a known family, whose structures have different model numbers modulo the size of the
  table and include two models, answers \<^verbatim>\<open>RIG_OK\<close> and the model is registered. After
  that, asking for any model that this family does not have is \<^verbatim>\<open>-RIG_ENAVAIL\<close>, also when
  its family is in the list.\<close>

lemma rig_one_family_on_demand:
  assumes "rig_lookup_backend (model c) = Some b" and "{c, d} \<subseteq> set (family (be_name b))" and "c \<noteq> d"
    and "distinct (map (rig_hash \<circ> model) (family (be_name b)))" and "\<forall>e \<in> set (family (be_name b)). mem e"
    and "\<forall>e \<in> set (family (be_name b)). model e \<noteq> other"
  shows "\<exists>t. rig_check_backend model mem family (model c) (\<lambda>_. []) = Some (RIG_OK, t)
    \<and> rig_get_caps model (model c) t = Some c
    \<and> rig_check_backend model mem family other t = Some (- RIG_ENAVAIL, t)"
proof -
  let ?cs = "family (be_name b)"
  from rig_register_all_fresh [OF assms(4), of mem "\<lambda>_. []"] assms(5) obtain t where
    t: "rig_register_all model mem ?cs (\<lambda>_. []) = Some t" "\<forall>c \<in> set ?cs. t (rig_hash (model c)) = [c]"
      "\<forall>i. i \<notin> (rig_hash \<circ> model) ` set ?cs \<longrightarrow> t i = []" by auto
  have "backend_named (be_name b) rig_backend_list = Some b"
    using assms(1) lookup_backend_member rig_backend_names by (fastforce simp: rig_lookup_backend_def)
  then have "rig_check_backend model mem family (model c) (\<lambda>_. []) = Some (RIG_OK, t)"
    using assms(1) t(1) by (simp add: rig_check_backend_def rig_get_caps_def table_get_def slots_in_use_def rig_load_backend_def)
  moreover have "rig_get_caps model (model c) t = Some c"
    using assms(2) t(2) by (simp add: rig_get_caps_def table_get_def)
  moreover have "rig_get_caps model other t = None"
  proof (cases "rig_hash other \<in> (rig_hash \<circ> model) ` set ?cs")
    case True
    then show ?thesis using t(2) assms(6) by (auto simp: rig_get_caps_def table_get_def)
  next
    case False
    then show ?thesis using t(3) by (simp add: rig_get_caps_def table_get_def)
  qed
  moreover have "slots_in_use t > 1"
  proof (rule two_slots_in_use)
    show "rig_hash (model c) \<noteq> rig_hash (model d)"
      using assms(2-4) by (auto simp: distinct_map inj_on_def)
    show "{rig_hash (model c), rig_hash (model d)} \<subseteq> {0..int RIGLSTHASHSZ - 1}"
      by (auto simp: rig_hash_def RIGLSTHASHSZ_def)
  qed (use assms(2) t(2) in auto)
  ultimately show ?thesis by (auto simp: rig_check_backend_def)
qed

lemma rig_one_family_on_demand_witness:
  "let family = (\<lambda>name. if name = ''dummy'' then [1, 2] else if name = ''icom'' then [3073, 3074 :: nat] else [])
   in rig_lookup_backend 3073 \<noteq> None
    \<and> (\<exists>t. rig_check_backend id (\<lambda>_. True) family 1 (\<lambda>_. []) = Some (RIG_OK, t)
        \<and> rig_get_caps id 1 t = Some 1
        \<and> rig_check_backend id (\<lambda>_. True) family 3073 t = Some (- RIG_ENAVAIL, t))"
proof -
  let ?family = "\<lambda>name. if name = ''dummy'' then [1, 2] else if name = ''icom'' then [3073, 3074 :: nat] else []"
  have "rig_lookup_backend 1 = Some \<lparr>be_num = 0, be_name = ''dummy'', be_probes = False\<rparr>"
    "rig_lookup_backend 3073 = Some \<lparr>be_num = 3, be_name = ''icom'', be_probes = True\<rparr>"
    by (simp_all add: rig_lookup_backend_def rig_backend_list_def RIG_BACKEND_NUM_def MAX_MODELS_PER_BACKEND_def)
  then show ?thesis
    using rig_one_family_on_demand [of id 1 "\<lparr>be_num = 0, be_name = ''dummy'', be_probes = False\<rparr>" 2 ?family "\<lambda>_. True" 3073]
    by (simp add: rig_hash_def RIGLSTHASHSZ_def)
qed

text \<open>Rotators: a structure that is not registered yet is, whatever else is in the table.\<close>

lemma rot_register_all_get:
  assumes "c \<in> set cs" and "distinct (map model cs)" and "\<forall>c \<in> set cs. mem c" and "rot_get_caps model (model c) t = None"
  shows "rot_get_caps model (model c) (rot_register_all model mem cs t) = Some c"
  using assms
proof (induction cs arbitrary: t)
  case (Cons d cs)
  have keep: "rot_get_caps model m (rot_register_all model mem ds t) = Some e"
    if "rot_get_caps model m t = Some e" for m e ds t
    using that
  proof (induction ds arbitrary: t)
    case (Cons d ds)
    have "rot_get_caps model m (snd (rot_register model (mem d) (Some d) t)) = Some e"
      using Cons.prems by (auto simp: rot_register_def rot_get_caps_def table_get_push)
    then show ?case by (simp add: Cons.IH)
  qed simp
  show ?case
  proof (cases "c = d")
    case True
    then have "rot_get_caps model (model c) (snd (rot_register model (mem d) (Some d) t)) = Some c"
      using Cons.prems by (simp add: rot_register_def rot_get_caps_def table_get_push)
    then show ?thesis by (simp add: keep)
  next
    case False
    then have "c \<in> set cs" "model d \<noteq> model c" using Cons.prems(1,2) by auto
    then have "rot_get_caps model (model c) (snd (rot_register model (mem d) (Some d) t)) = None"
      using Cons.prems by (auto simp: rot_register_def rot_get_caps_def table_get_push)
    then show ?thesis using Cons.IH [OF \<open>c \<in> set cs\<close>] Cons.prems by simp
  qed
qed simp

lemma rot_families_on_demand:
  assumes "rot_lookup_backend (model c) = Some b" and "c \<in> set (family (be_name b))"
    and "distinct (map model (family (be_name b)))" and "\<forall>e \<in> set (family (be_name b)). mem e"
    and "rot_get_caps model (model c) t = None"
  shows "\<exists>t'. rot_check_backend model mem family (model c) t = (RIG_OK, t') \<and> rot_get_caps model (model c) t' = Some c"
proof -
  have "backend_named (be_name b) rot_backend_list = Some b"
    using assms(1) lookup_backend_member rot_backend_names by (fastforce simp: rot_lookup_backend_def)
  then show ?thesis
    using assms rot_register_all_get [OF assms(2-5)] by (simp add: rot_check_backend_def rot_load_backend_def)
qed

end
