(* ===== verification/Hamlib_Port.thy ===== *)
theory Hamlib_Port
  imports Hamlib_Prelude
begin

text \<open>
  Opening and closing ports: \<^verbatim>\<open>port_open\<close> and \<^verbatim>\<open>port_close\<close> of
  \<^verbatim>\<open>src/iofunc.c\<close> with the open and close functions of \<^verbatim>\<open>serial.c\<close>,
  \<^verbatim>\<open>parallel.c\<close>, \<^verbatim>\<open>cm108.c\<close>, \<^verbatim>\<open>gpio.c\<close> and \<^verbatim>\<open>network.c\<close> (the
  POSIX branches). The operating system is its table of open descriptors; what the devices do is
  an argument, \<open>hardware\<close>: whether a name can be opened, and the error number (or zero) of setting the
  device up, of moving its lines and of resolving a host name. A retry asks the same question again. Reading and writing, the
  speed of the line and the microHam service (names \<^verbatim>\<open>uh-\<close>) are not modelled.
\<close>

subsection \<open>Descriptors and devices\<close>

record os =
  open_fds :: "int list"
  usb_handles :: nat

record hardware =
  can_open :: "string \<Rightarrow> bool"
  set_up :: "string \<Rightarrow> nat"
  rts_error :: "string \<Rightarrow> bool \<Rightarrow> nat"
  dtr_error :: "string \<Rightarrow> bool \<Rightarrow> nat"
  can_pipe :: bool
  resolve :: "string \<Rightarrow> nat"

text \<open>\<^verbatim>\<open>ser_set_rts\<close> and \<^verbatim>\<open>ser_set_dtr\<close> answer zero or a negative error.\<close>

definition set_rts :: "hardware \<Rightarrow> string \<Rightarrow> bool \<Rightarrow> int" where
  "set_rts H name on = - int (rts_error H name on)"

definition set_dtr :: "hardware \<Rightarrow> string \<Rightarrow> bool \<Rightarrow> int" where
  "set_dtr H name on = - int (dtr_error H name on)"

text \<open>\<^verbatim>\<open>open\<close> returns the lowest descriptor that is not in use.\<close>

definition lowest_free :: "int list \<Rightarrow> int" where
  "lowest_free fds = hd (filter (\<lambda>fd. fd \<notin> set fds) [0..int (length fds)])"

definition os_open :: "hardware \<Rightarrow> string \<Rightarrow> os \<Rightarrow> int \<times> os" where
  "os_open H name S =
     (if can_open H name
      then let fd = lowest_free (open_fds S) in (fd, S\<lparr>open_fds := fd # open_fds S\<rparr>)
      else (-1, S))"

definition os_close :: "int \<Rightarrow> os \<Rightarrow> int \<times> os" where
  "os_close fd S =
     (if fd \<in> set (open_fds S) then (0, S\<lparr>open_fds := remove1 fd (open_fds S)\<rparr>) else (-1, S))"

definition os_close_all :: "int list \<Rightarrow> os \<Rightarrow> os" where
  "os_close_all fds S = fold (\<lambda>fd S. snd (os_close fd S)) fds S"

subsection \<open>hamlib_port_t\<close>

datatype rig_port_t = RIG_PORT_NONE | RIG_PORT_SERIAL | RIG_PORT_NETWORK | RIG_PORT_DEVICE
  | RIG_PORT_PACKET | RIG_PORT_DTMF | RIG_PORT_ULTRA | RIG_PORT_RPC | RIG_PORT_PARALLEL
  | RIG_PORT_USB | RIG_PORT_UDP_NETWORK | RIG_PORT_CM108 | RIG_PORT_GPIO | RIG_PORT_GPION

datatype serial_control_state_e = RIG_SIGNAL_UNSET | RIG_SIGNAL_ON | RIG_SIGNAL_OFF
datatype serial_handshake_e = RIG_HANDSHAKE_NONE | RIG_HANDSHAKE_XONXOFF | RIG_HANDSHAKE_HARDWARE

text \<open>\<open>pipe_fds\<close>: the descriptors of the two pipes for asynchronous data, or none.\<close>

record hamlib_port =
  port_type :: rig_port_t
  pathname :: string
  port_fd :: int
  rts_state :: serial_control_state_e
  dtr_state :: serial_control_state_e
  handshake :: serial_handshake_e
  asyncio :: bool
  pipe_fds :: "int list"

type_synonym port_state = "hamlib_port \<times> os"

definition close_sync_data_pipe :: "port_state \<Rightarrow> port_state" where
  "close_sync_data_pipe = (\<lambda>(p, S). (p\<lparr>pipe_fds := []\<rparr>, os_close_all (pipe_fds p) S))"

text \<open>Two pipes of two descriptors each.\<close>

fun take_fds :: "nat \<Rightarrow> int list \<Rightarrow> int list" where
  "take_fds 0 fds = []"
| "take_fds (Suc n) fds = (let fd = lowest_free fds in fd # take_fds n (fd # fds))"

definition create_sync_data_pipe :: "hardware \<Rightarrow> port_state \<Rightarrow> int \<times> port_state" where
  "create_sync_data_pipe H = (\<lambda>(p, S).
     if can_pipe H
     then let fds = take_fds 4 (open_fds S)
          in (RIG_OK, p\<lparr>pipe_fds := fds\<rparr>, S\<lparr>open_fds := rev fds @ open_fds S\<rparr>)
     else (- RIG_EINTERNAL, p, S))"

subsection \<open>The kinds of ports\<close>

definition serial_open :: "hardware \<Rightarrow> port_state \<Rightarrow> int \<times> port_state" where
  "serial_open H = (\<lambda>(p, S). let (fd, S1) = os_open H (pathname p) S
     in if fd = -1 then (- RIG_EIO, p, S1)
        else let p1 = p\<lparr>port_fd := fd\<rparr>; err = - int (set_up H (pathname p))
             in if err \<noteq> RIG_OK then (err, p1, snd (os_close fd S1)) else (RIG_OK, p1, S1))"

text \<open>\<^verbatim>\<open>ser_open\<close> only opens; its result is the descriptor.\<close>

definition ser_open :: "hardware \<Rightarrow> port_state \<Rightarrow> int \<times> port_state" where
  "ser_open H = (\<lambda>(p, S). let (fd, S1) = os_open H (pathname p) S in (fd, p\<lparr>port_fd := fd\<rparr>, S1))"

definition ser_close :: "port_state \<Rightarrow> int \<times> port_state" where
  "ser_close = (\<lambda>(p, S). let (rc, S1) = os_close (port_fd p) S in (rc, p\<lparr>port_fd := -1\<rparr>, S1))"

text \<open>
  \<^verbatim>\<open>par_open\<close>, \<^verbatim>\<open>cm108_open\<close> and \<^verbatim>\<open>gpio_open\<close> answer the descriptor, or an
  error after closing it; \<open>refused\<close> is the error when the device is not of the kind.
\<close>

definition device_open :: "int \<Rightarrow> hardware \<Rightarrow> port_state \<Rightarrow> int \<times> port_state" where
  "device_open refused H = (\<lambda>(p, S).
     let (fd, S1) = os_open H (pathname p) S
     in if fd < 0 then (- RIG_EIO, p, S1)
        else if set_up H (pathname p) \<noteq> 0 then (refused, p, snd (os_close fd S1))
        else (fd, p\<lparr>port_fd := fd\<rparr>, S1))"

definition par_open :: "hardware \<Rightarrow> port_state \<Rightarrow> int \<times> port_state" where
  "par_open H ps = (if pathname (fst ps) = [] then (- RIG_EINVAL, ps) else device_open (- RIG_EIO) H ps)"

definition cm108_open :: "hardware \<Rightarrow> port_state \<Rightarrow> int \<times> port_state" where
  "cm108_open H ps = (if pathname (fst ps) = [] then (- RIG_EINVAL, ps) else device_open (- RIG_EINVAL) H ps)"

text \<open>The export and direction files of a GPIO are closed again; they fail as the value file does.\<close>

definition gpio_open :: "hardware \<Rightarrow> port_state \<Rightarrow> int \<times> port_state" where
  "gpio_open H ps = device_open (- RIG_EIO) H ps"

text \<open>\<^verbatim>\<open>par_close\<close>, \<^verbatim>\<open>cm108_close\<close> and \<^verbatim>\<open>gpio_close\<close>: the port keeps the number.\<close>

definition device_close :: "port_state \<Rightarrow> int \<times> port_state" where
  "device_close = (\<lambda>(p, S). let (rc, S1) = os_close (port_fd p) S in (rc, p, S1))"

definition network_open :: "hardware \<Rightarrow> port_state \<Rightarrow> int \<times> port_state" where
  "network_open H = (\<lambda>(p, S).
     if resolve H (pathname p) \<noteq> 0 then (- int (resolve H (pathname p)), p, S)
     else let (fd, S1) = os_open H (pathname p) S
     in if fd < 0 then (- RIG_EIO, p, S1) else (RIG_OK, p\<lparr>port_fd := fd\<rparr>, S1))"

definition network_close :: "port_state \<Rightarrow> int \<times> port_state" where
  "network_close = (\<lambda>(p, S).
     if port_fd p > 0 then let (rc, S1) = os_close (port_fd p) S in (rc, p\<lparr>port_fd := 0\<rparr>, S1)
     else (0, p, S))"

text \<open>The USB handle is not a descriptor: \<^verbatim>\<open>port->fd\<close> stays -1.\<close>

definition usb_port_open :: "hardware \<Rightarrow> port_state \<Rightarrow> int \<times> port_state" where
  "usb_port_open H = (\<lambda>(p, S).
     if can_open H (pathname p) then (RIG_OK, p, S\<lparr>usb_handles := Suc (usb_handles S)\<rparr>)
     else (- RIG_EIO, p, S))"

definition usb_port_close :: "port_state \<Rightarrow> int \<times> port_state" where
  "usb_port_close = (\<lambda>(p, S). (0, p, S\<lparr>usb_handles := usb_handles S - 1\<rparr>))"

subsection \<open>port_open and port_close\<close>

text \<open>The lines of a serial port that \<^verbatim>\<open>serial_open\<close> has just opened with \<open>status0\<close>.\<close>

definition serial_lines :: "hardware \<Rightarrow> int \<Rightarrow> hamlib_port \<Rightarrow> int" where
  "serial_lines H status0 p =
     (let status = (if rts_state p \<noteq> RIG_SIGNAL_UNSET \<and> handshake p \<noteq> RIG_HANDSHAKE_HARDWARE
                    then set_rts H (pathname p) (rts_state p = RIG_SIGNAL_ON) else status0)
      in if status \<noteq> 0 then status
         else if dtr_state p \<noteq> RIG_SIGNAL_UNSET then set_dtr H (pathname p) (dtr_state p = RIG_SIGNAL_ON)
         else status)"

definition open_kind :: "hardware \<Rightarrow> port_state \<Rightarrow> int \<times> port_state" where
  "open_kind H ps = (case port_type (fst ps) of
     RIG_PORT_SERIAL \<Rightarrow>
       (let (status, ps1) = serial_open H ps
        in if status < 0 then (status, ps1) else (serial_lines H status (fst ps1), ps1))
   | RIG_PORT_PARALLEL \<Rightarrow> par_open H ps
   | RIG_PORT_CM108 \<Rightarrow> cm108_open H ps
   | RIG_PORT_DEVICE \<Rightarrow>
       (let (fd, S1) = os_open H (pathname (fst ps)) (snd ps)
        in if fd < 0 then (- RIG_EIO, fst ps, S1) else (fd, (fst ps)\<lparr>port_fd := fd\<rparr>, S1))
   | RIG_PORT_USB \<Rightarrow> usb_port_open H ps
   | RIG_PORT_NETWORK \<Rightarrow> network_open H ps
   | RIG_PORT_UDP_NETWORK \<Rightarrow> network_open H ps
   | RIG_PORT_NONE \<Rightarrow> (RIG_OK, ps)
   | RIG_PORT_RPC \<Rightarrow> (RIG_OK, ps)
   | _ \<Rightarrow> (- RIG_EINVAL, ps))"

definition port_open :: "hardware \<Rightarrow> port_state \<Rightarrow> int \<times> port_state" where
  "port_open H = (\<lambda>(p0, S0).
     let p = p0\<lparr>port_fd := -1, pipe_fds := []\<rparr>;
         (status0, ps) = (if asyncio p then create_sync_data_pipe H (p, S0) else (RIG_OK, p, S0))
     in if status0 < 0 then (status0, ps)
        else let (status, ps1) = open_kind H ps
             in if status < 0 \<or> (port_type p = RIG_PORT_SERIAL \<and> status \<noteq> 0)
                then (status, close_sync_data_pipe ps1)
                else (RIG_OK, ps1))"

definition port_close :: "rig_port_t \<Rightarrow> port_state \<Rightarrow> int \<times> port_state" where
  "port_close ty = (\<lambda>(p, S).
     let (ret, p1, S1) =
       (if port_fd p = -1 then (RIG_OK, p, S)
        else let (r, p', S') = (case ty of
                 RIG_PORT_SERIAL \<Rightarrow> ser_close (p, S)
               | RIG_PORT_USB \<Rightarrow> usb_port_close (p, S)
               | RIG_PORT_NETWORK \<Rightarrow> network_close (p, S)
               | RIG_PORT_UDP_NETWORK \<Rightarrow> network_close (p, S)
               | _ \<Rightarrow> device_close (p, S))
             in (r, p'\<lparr>port_fd := -1\<rparr>, S'))
     in (ret, close_sync_data_pipe (p1, S1)))"

subsection \<open>Descriptors are given back\<close>

lemma lowest_free:
  shows lowest_free_new: "lowest_free fds \<notin> set fds" and lowest_free_nonneg: "0 \<le> lowest_free fds"
proof -
  let ?c = "filter (\<lambda>fd. fd \<notin> set fds) [0..int (length fds)]"
  have "?c \<noteq> []"
  proof
    assume "?c = []"
    then have "{0..int (length fds)} \<subseteq> set fds" by (auto simp: filter_empty_conv)
    then have "card {0..int (length fds)} \<le> card (set fds)" by (intro card_mono) simp_all
    also have "\<dots> \<le> length fds" by (rule card_length)
    finally show False by simp
  qed
  then have "lowest_free fds \<in> set ?c" unfolding lowest_free_def by (rule hd_in_set)
  then show "lowest_free fds \<notin> set fds" "0 \<le> lowest_free fds" by simp_all
qed

lemma lowest_free_positive: "0 \<in> set fds \<Longrightarrow> 0 < lowest_free fds"
  using lowest_free_new [of fds] lowest_free_nonneg [of fds] by (cases "lowest_free fds = 0") auto

lemma take_fds_new: "set (take_fds n fds) \<inter> set fds = {} \<and> distinct (take_fds n fds)"
proof (induction n arbitrary: fds)
  case (Suc n)
  from this [of "lowest_free fds # fds"] show ?case
    using lowest_free_new [of fds] by (auto simp: Let_def)
qed simp

lemma os_close_head [simp]: "os_close fd (S\<lparr>open_fds := fd # fds\<rparr>) = (0, S\<lparr>open_fds := fds\<rparr>)"
  by (simp add: os_close_def)

lemma os_close_all_new:
  assumes "distinct fds"
  shows "os_close_all fds (S\<lparr>open_fds := rev fds @ rest\<rparr>) = S\<lparr>open_fds := rest\<rparr>"
  using assms
proof (induction fds arbitrary: rest)
  case (Cons fd fds)
  then have "snd (os_close fd (S\<lparr>open_fds := rev (fd # fds) @ rest\<rparr>)) = S\<lparr>open_fds := rev fds @ rest\<rparr>"
    by (simp add: os_close_def remove1_append)
  with Cons show ?case by (simp add: os_close_all_def)
qed (simp add: os_close_all_def)

lemma os_close_all_above:
  assumes "distinct fds" and "x \<notin> set fds"
  shows "os_close_all fds (S\<lparr>open_fds := x # rev fds @ rest\<rparr>) = S\<lparr>open_fds := x # rest\<rparr>"
  using assms
proof (induction fds arbitrary: rest)
  case (Cons fd fds)
  then have "snd (os_close fd (S\<lparr>open_fds := x # rev (fd # fds) @ rest\<rparr>)) = S\<lparr>open_fds := x # rev fds @ rest\<rparr>"
    by (auto simp: os_close_def remove1_append)
  with Cons show ?case by (simp add: os_close_all_def)
qed (simp add: os_close_all_def)

text \<open>
  The state in which the device is opened, after the pipes: descriptors \<open>fds\<close>, all new, are
  open on top of those of \<open>S\<close> and noted in the port.
\<close>

definition piped :: "int list \<Rightarrow> port_state \<Rightarrow> port_state" where
  "piped fds = (\<lambda>(p, S). (p\<lparr>port_fd := -1, pipe_fds := fds\<rparr>, S\<lparr>open_fds := rev fds @ open_fds S\<rparr>))"

lemma port_open_piped:
  "\<exists>fds. distinct fds \<and> set fds \<inter> set (open_fds S) = {}
    \<and> port_open H (p, S) =
      (if asyncio p \<and> \<not> can_pipe H then (- RIG_EINTERNAL, p\<lparr>port_fd := -1, pipe_fds := []\<rparr>, S)
       else let (status, ps1) = open_kind H (piped fds (p, S))
            in if status < 0 \<or> (port_type p = RIG_PORT_SERIAL \<and> status \<noteq> 0)
               then (status, close_sync_data_pipe ps1) else (RIG_OK, ps1))"
proof (cases "asyncio p \<and> can_pipe H")
  case True
  then show ?thesis
    using take_fds_new [of 4 "open_fds S"]
    by (intro exI [of _ "take_fds 4 (open_fds S)"])
      (simp add: port_open_def piped_def create_sync_data_pipe_def Let_def rc_defs Int_commute)
next
  case False
  then show ?thesis
    by (intro exI [of _ "[]"])
      (auto simp: port_open_def piped_def create_sync_data_pipe_def Let_def rc_defs)
qed

lemmas kind_defs = open_kind_def serial_open_def device_open_def par_open_def cm108_open_def network_open_def
  usb_port_open_def os_open_def

text \<open>What a call leaves: the kinds that open a descriptor, put on top of the open ones.\<close>

definition opens_fd :: "rig_port_t \<Rightarrow> bool" where
  "opens_fd ty \<longleftrightarrow> ty \<in> {RIG_PORT_SERIAL, RIG_PORT_PARALLEL, RIG_PORT_CM108, RIG_PORT_DEVICE,
     RIG_PORT_NETWORK, RIG_PORT_UDP_NETWORK}"

lemma open_kind_ok:
  assumes "open_kind H (p, S) = (status, p', S')" and "\<not> (status < 0 \<or> (port_type p = RIG_PORT_SERIAL \<and> status \<noteq> 0))"
  shows "(p', S') = (if opens_fd (port_type p)
      then (p\<lparr>port_fd := lowest_free (open_fds S)\<rparr>, S\<lparr>open_fds := lowest_free (open_fds S) # open_fds S\<rparr>)
      else (p, if port_type p = RIG_PORT_USB then S\<lparr>usb_handles := Suc (usb_handles S)\<rparr> else S))"
  using assms lowest_free_nonneg [of "open_fds S"]
  by (cases "port_type p"; auto simp: kind_defs opens_fd_def Let_def rc_defs split: if_splits)

lemma open_kind_failed:
  assumes "open_kind H (p, S) = (status, p', S')" and "status < 0 \<or> (port_type p = RIG_PORT_SERIAL \<and> status \<noteq> 0)"
  shows "(\<exists>fd. p' = p\<lparr>port_fd := fd\<rparr>)
    \<and> S' = (if port_type p = RIG_PORT_SERIAL \<and> can_open H (pathname p) \<and> set_up H (pathname p) = 0
            then S\<lparr>open_fds := lowest_free (open_fds S) # open_fds S\<rparr> else S)"
  using assms lowest_free_nonneg [of "open_fds S"]
  by (cases "port_type p"; auto simp: kind_defs Let_def rc_defs split: if_splits intro: exI [of _ "port_fd p"])

text \<open>The devices that PTT and DCD lines are on.\<close>

lemma device_open_ok:
  assumes "dev_open \<in> {par_open H, cm108_open H, gpio_open H}" and "dev_open (p, S) = (fd, p', S')" and "0 \<le> fd"
  shows "fd = lowest_free (open_fds S) \<and> p' = p\<lparr>port_fd := fd\<rparr> \<and> S' = S\<lparr>open_fds := fd # open_fds S\<rparr>"
  using assms
  by (auto simp: par_open_def cm108_open_def gpio_open_def device_open_def os_open_def Let_def rc_defs split: if_splits)

text \<open>A port holds its descriptor and its pipes.\<close>

definition port_fds :: "hamlib_port \<Rightarrow> int set" where
  "port_fds p = {port_fd p} - {-1} \<union> set (pipe_fds p)"

lemma port_open_fds:
  assumes "port_open H (p, S) = (RIG_OK, p', S')"
  shows "port_fds p' \<subseteq> set (open_fds S') \<and> port_type p' = port_type p \<and> pathname p' = pathname p"
proof -
  obtain fds where
    run: "port_open H (p, S) = (if asyncio p \<and> \<not> can_pipe H then (- RIG_EINTERNAL, p\<lparr>port_fd := -1, pipe_fds := []\<rparr>, S)
       else let (status, ps1) = open_kind H (piped fds (p, S))
            in if status < 0 \<or> (port_type p = RIG_PORT_SERIAL \<and> status \<noteq> 0)
               then (status, close_sync_data_pipe ps1) else (RIG_OK, ps1))"
    using port_open_piped by blast
  obtain q R where piped: "piped fds (p, S) = (q, R)" by fastforce
  obtain status where kind: "open_kind H (q, R) = (status, p', S')"
    and ok: "\<not> (status < 0 \<or> (port_type p = RIG_PORT_SERIAL \<and> status \<noteq> 0))"
    using run assms piped by (auto simp: rc_defs split: if_splits prod.splits)
  have q: "port_type q = port_type p" "pathname q = pathname p" "pipe_fds q = fds" "port_fd q = -1"
    and R: "open_fds R = rev fds @ open_fds S" using piped by (auto simp: piped_def)
  show ?thesis
    using open_kind_ok [OF kind, unfolded q(1), OF ok] q R by (auto simp: port_fds_def split: if_splits)
qed

text \<open>Descriptors opened later do not matter to \<^verbatim>\<open>port_close\<close>.\<close>

lemma os_close_below:
  assumes "fd \<notin> set fds"
  shows "os_close fd (S\<lparr>open_fds := fds @ open_fds S\<rparr>)
    = (fst (os_close fd S), (snd (os_close fd S))\<lparr>open_fds := fds @ open_fds (snd (os_close fd S))\<rparr>)"
  using assms by (simp add: os_close_def remove1_append)

lemma os_close_all_below:
  assumes "set gone \<inter> set fds = {}"
  shows "os_close_all gone (S\<lparr>open_fds := fds @ open_fds S\<rparr>)
    = (os_close_all gone S)\<lparr>open_fds := fds @ open_fds (os_close_all gone S)\<rparr>"
  using assms
proof (induction gone arbitrary: S)
  case (Cons fd gone)
  then show ?case by (simp add: os_close_all_def os_close_below)
qed (simp add: os_close_all_def)

lemma port_close_below:
  assumes "port_fds p \<inter> set fds = {}"
  shows "snd (port_close ty (p, S\<lparr>open_fds := fds @ open_fds S\<rparr>))
    = (let (p', S') = snd (port_close ty (p, S)) in (p', S'\<lparr>open_fds := fds @ open_fds S'\<rparr>))"
proof -
  have pipes: "set (pipe_fds p) \<inter> set fds = {}" and fd: "port_fd p \<noteq> -1 \<Longrightarrow> port_fd p \<notin> set fds"
    using assms by (auto simp: port_fds_def)
  have usb: "os_close_all (pipe_fds p) (S\<lparr>open_fds := fds @ open_fds S, usb_handles := n\<rparr>)
      = (os_close_all (pipe_fds p) (S\<lparr>usb_handles := n\<rparr>))\<lparr>open_fds := fds @ open_fds (os_close_all (pipe_fds p) (S\<lparr>usb_handles := n\<rparr>))\<rparr>" for n
    using os_close_all_below [OF pipes, of "S\<lparr>usb_handles := n\<rparr>"] by (cases S) simp
  show ?thesis
    using pipes fd usb
    by (cases ty; simp add: port_close_def ser_close_def network_close_def usb_port_close_def device_close_def
        close_sync_data_pipe_def os_close_below os_close_all_below Let_def case_prod_beta)
qed

lemma port_close_renamed:
  "snd (snd (port_close ty (p\<lparr>pathname := n\<rparr>, S))) = snd (snd (port_close ty (p, S)))"
  by (cases ty; simp add: port_close_def ser_close_def network_close_def usb_port_close_def device_close_def
      close_sync_data_pipe_def Let_def case_prod_beta)

lemma port_close_type [simp]: "port_type (fst (snd (port_close ty ps))) = port_type (fst ps)"
  by (cases ps, cases ty; simp add: port_close_def ser_close_def network_close_def usb_port_close_def device_close_def
      close_sync_data_pipe_def Let_def case_prod_beta)

lemma port_open_status:
  assumes "port_open H ps = (status, ps')" and "0 \<le> status"
  shows "status = RIG_OK"
proof -
  have "serial_lines H st p \<le> 0" if "st \<le> 0" for st p
    using that by (simp add: serial_lines_def set_rts_def set_dtr_def Let_def rc_defs)
  then have "fst (open_kind H q) \<le> 0" if "port_type (fst q) = RIG_PORT_SERIAL" for q
    using that by (auto simp: open_kind_def serial_open_def Let_def rc_defs split: prod.splits)
  note serial = this
  obtain p S where ps: "ps = (p, S)" by fastforce
  obtain fds where run: "port_open H (p, S) =
      (if asyncio p \<and> \<not> can_pipe H then (- RIG_EINTERNAL, p\<lparr>port_fd := -1, pipe_fds := []\<rparr>, S)
       else let (status, ps1) = open_kind H (piped fds (p, S))
            in if status < 0 \<or> (port_type p = RIG_PORT_SERIAL \<and> status \<noteq> 0)
               then (status, close_sync_data_pipe ps1) else (RIG_OK, ps1))"
    using port_open_piped by blast
  have "port_type (fst (piped fds (p, S))) = port_type p" by (simp add: piped_def)
  with serial [of "piped fds (p, S)"] show ?thesis
    using assms run by (auto simp: ps rc_defs split: if_splits prod.splits)
qed

lemma os_close_all_subset: "set (open_fds (os_close_all fds S)) \<subseteq> set (open_fds S)"
proof (induction fds arbitrary: S)
  case (Cons fd fds)
  have "set (open_fds (snd (os_close fd S))) \<subseteq> set (open_fds S)" by (simp add: os_close_def set_remove1_subset)
  with Cons [of "snd (os_close fd S)"] show ?case by (simp add: os_close_all_def)
qed (simp add: os_close_all_def)

lemma port_close_subset: "set (open_fds (snd (snd (port_close ty ps)))) \<subseteq> set (open_fds (snd ps))"
proof -
  have one: "set (open_fds (os_close_all fds (snd (os_close fd S)))) \<subseteq> set (open_fds S)" for fds fd S
    using os_close_all_subset by (rule subset_trans) (simp add: os_close_def set_remove1_subset)
  have usb: "set (open_fds (os_close_all fds (S\<lparr>usb_handles := n\<rparr>))) \<subseteq> set (open_fds S)" for fds n S
    using os_close_all_subset [of fds "S\<lparr>usb_handles := n\<rparr>"] by simp
  show ?thesis
    using one usb os_close_all_subset
    by (cases ps, cases ty; simp add: port_close_def ser_close_def network_close_def usb_port_close_def device_close_def
        close_sync_data_pipe_def Let_def case_prod_beta)
qed

text \<open>what \<^verbatim>\<open>port_open\<close> opens, \<^verbatim>\<open>port_close\<close> closes. With descriptor 0 in
  use, closing a port that has just been opened leaves exactly the descriptors that were open
  before, pipes included, for every kind of port. The exception is USB, whose handle stays open:
  \<^verbatim>\<open>port_open\<close> leaves the descriptor at -1, and \<^verbatim>\<open>port_close\<close> then does
  nothing.\<close>

lemma port_open_close:
  assumes "port_open H (p, S) = (RIG_OK, p', S')" and "0 \<in> set (open_fds S)"
  shows "port_close (port_type p) (p', S') = (0, p'\<lparr>port_fd := -1, pipe_fds := []\<rparr>,
    if port_type p = RIG_PORT_USB then S\<lparr>usb_handles := Suc (usb_handles S)\<rparr> else S)"
proof -
  obtain fds where fds: "distinct fds" "set fds \<inter> set (open_fds S) = {}" and
    run: "port_open H (p, S) = (if asyncio p \<and> \<not> can_pipe H then (- RIG_EINTERNAL, p\<lparr>port_fd := -1, pipe_fds := []\<rparr>, S)
       else let (status, ps1) = open_kind H (piped fds (p, S))
            in if status < 0 \<or> (port_type p = RIG_PORT_SERIAL \<and> status \<noteq> 0)
               then (status, close_sync_data_pipe ps1) else (RIG_OK, ps1))"
    using port_open_piped by blast
  obtain q R where piped: "piped fds (p, S) = (q, R)" by fastforce
  obtain status where kind: "open_kind H (q, R) = (status, p', S')"
    and ok: "\<not> (status < 0 \<or> (port_type p = RIG_PORT_SERIAL \<and> status \<noteq> 0))"
    using run assms(1) piped by (auto simp: rc_defs split: if_splits prod.splits)
  have q: "port_type q = port_type p" "pipe_fds q = fds" "port_fd q = -1"
    and R: "R = S\<lparr>open_fds := rev fds @ open_fds S\<rparr>" using piped by (auto simp: piped_def)
  have pos: "0 < lowest_free (open_fds R)" using assms(2) by (intro lowest_free_positive) (simp add: R)
  have closed: "os_close_all fds R = S"
    using os_close_all_new [OF fds(1), where S = S and rest = "open_fds S"] by (simp add: R)
  have usb: "os_close_all fds (R\<lparr>usb_handles := n\<rparr>) = S\<lparr>usb_handles := n\<rparr>" for n
    using os_close_all_new [OF fds(1), where S = "S\<lparr>usb_handles := n\<rparr>" and rest = "open_fds S"]
    by (cases S) (simp add: R)
  note opened = open_kind_ok [OF kind, unfolded q(1), OF ok]
  show ?thesis
  proof (cases "opens_fd (port_type p)")
    case True
    with opened have "p' = q\<lparr>port_fd := lowest_free (open_fds R)\<rparr>"
      "S' = R\<lparr>open_fds := lowest_free (open_fds R) # open_fds R\<rparr>" by simp_all
    then show ?thesis
      using True pos closed q(2)
      by (auto simp: port_close_def opens_fd_def close_sync_data_pipe_def ser_close_def device_close_def
          network_close_def Let_def rc_defs)
  next
    case False
    with opened have "p' = q" "S' = (if port_type p = RIG_PORT_USB then R\<lparr>usb_handles := Suc (usb_handles S)\<rparr> else R)"
      by (simp_all add: R)
    then show ?thesis
      using closed usb q by (auto simp: port_close_def close_sync_data_pipe_def Let_def rc_defs)
  qed
qed

definition lazy_hardware :: hardware where
  "lazy_hardware = \<lparr>can_open = (\<lambda>name. name \<noteq> []), set_up = (\<lambda>name. if name = ''/dev/null'' then 6 else 0),
     rts_error = (\<lambda>name on. if name = ''/dev/ttyS9'' then 6 else 0), dtr_error = (\<lambda>name on. 0), can_pipe = True, resolve = (\<lambda>name. 0)\<rparr>"

definition some_port :: "rig_port_t \<Rightarrow> string \<Rightarrow> hamlib_port" where
  "some_port ty name = \<lparr>port_type = ty, pathname = name, port_fd = -1, rts_state = RIG_SIGNAL_ON,
     dtr_state = RIG_SIGNAL_UNSET, handshake = RIG_HANDSHAKE_NONE, asyncio = False, pipe_fds = []\<rparr>"

lemma port_open_close_witness:
  "port_open lazy_hardware (some_port RIG_PORT_SERIAL ''/dev/ttyS0'', \<lparr>open_fds = [2, 1, 0], usb_handles = 0\<rparr>)
      = (RIG_OK, (some_port RIG_PORT_SERIAL ''/dev/ttyS0'')\<lparr>port_fd := 3\<rparr>, \<lparr>open_fds = [3, 2, 1, 0], usb_handles = 0\<rparr>)
   \<and> port_close RIG_PORT_SERIAL ((some_port RIG_PORT_SERIAL ''/dev/ttyS0'')\<lparr>port_fd := 3\<rparr>,
         \<lparr>open_fds = [3, 2, 1, 0], usb_handles = 0\<rparr>)
      = (0, some_port RIG_PORT_SERIAL ''/dev/ttyS0'', \<lparr>open_fds = [2, 1, 0], usb_handles = 0\<rparr>)"
proof -
  have fd: "lowest_free [2, 1, 0] = 3" by (simp add: lowest_free_def upto.simps)
  have opened: "port_open lazy_hardware (some_port RIG_PORT_SERIAL ''/dev/ttyS0'', \<lparr>open_fds = [2, 1, 0], usb_handles = 0\<rparr>)
      = (RIG_OK, (some_port RIG_PORT_SERIAL ''/dev/ttyS0'')\<lparr>port_fd := 3\<rparr>, \<lparr>open_fds = [3, 2, 1, 0], usb_handles = 0\<rparr>)"
    by (simp add: port_open_def some_port_def lazy_hardware_def kind_defs serial_lines_def set_rts_def fd rc_defs)
  show ?thesis
    using opened port_open_close [OF opened] by (simp add: some_port_def)
qed

text \<open>a port that cannot be opened leaves no descriptor behind, with one exception. When
  \<^verbatim>\<open>port_open\<close> fails, its pipes are closed and the open descriptors are those of before,
  unless the port is serial and was opened and set up: then a line could not be moved, and the
  descriptor stays open.\<close>

lemma port_open_failed:
  assumes "port_open H (p, S) = (status, p', S')" and "status \<noteq> RIG_OK" and "asyncio p \<longrightarrow> can_pipe H"
  shows "pipe_fds p' = [] \<and> (if port_type p = RIG_PORT_SERIAL \<and> can_open H (pathname p) \<and> set_up H (pathname p) = 0
    then \<exists>fd. fd \<notin> set (open_fds S) \<and> S' = S\<lparr>open_fds := fd # open_fds S\<rparr> else S' = S)"
proof -
  obtain fds where fds: "distinct fds" "set fds \<inter> set (open_fds S) = {}" and
    run: "port_open H (p, S) = (let (status, ps1) = open_kind H (piped fds (p, S))
            in if status < 0 \<or> (port_type p = RIG_PORT_SERIAL \<and> status \<noteq> 0)
               then (status, close_sync_data_pipe ps1) else (RIG_OK, ps1))"
    using port_open_piped [of S H p] assms(3) by auto
  obtain q R where piped: "piped fds (p, S) = (q, R)" by fastforce
  obtain p1 S1 where kind: "open_kind H (q, R) = (status, p1, S1)" and closed: "(p', S') = close_sync_data_pipe (p1, S1)"
    and failed: "status < 0 \<or> (port_type p = RIG_PORT_SERIAL \<and> status \<noteq> 0)"
    using run assms(1,2) piped by (auto split: if_splits prod.splits)
  have q: "port_type q = port_type p" "pathname q = pathname p" "pipe_fds q = fds"
    and R: "R = S\<lparr>open_fds := rev fds @ open_fds S\<rparr>" using piped by (auto simp: piped_def)
  note left = open_kind_failed [OF kind, unfolded q(1,2), OF failed]
  let ?fd = "lowest_free (open_fds R)"
  have new: "?fd \<notin> set fds" "?fd \<notin> set (open_fds S)" using lowest_free_new [of "open_fds R"] by (simp_all add: R)
  have "os_close_all fds R = S"
    using os_close_all_new [OF fds(1), where S = S and rest = "open_fds S"] by (simp add: R)
  moreover have "os_close_all fds (R\<lparr>open_fds := ?fd # open_fds R\<rparr>) = S\<lparr>open_fds := ?fd # open_fds S\<rparr>"
    using os_close_all_above [OF fds(1) new(1), where S = S and rest = "open_fds S"] by (simp add: R)
  moreover have "pipe_fds p1 = fds" using left q(3) by auto
  ultimately show ?thesis
    using left closed new(2) by (auto simp: close_sync_data_pipe_def split: if_splits)
qed

lemma port_open_failed_witness:
  "\<exists>p' S'. port_open lazy_hardware (some_port RIG_PORT_SERIAL ''/dev/ttyS9'', \<lparr>open_fds = [2, 1, 0], usb_handles = 0\<rparr>)
      = (- RIG_EIO, p', S') \<and> length (open_fds S') = 4"
proof -
  have fd: "lowest_free [2, 1, 0] = 3" by (simp add: lowest_free_def upto.simps)
  let ?run = "port_open lazy_hardware (some_port RIG_PORT_SERIAL ''/dev/ttyS9'', \<lparr>open_fds = [2, 1, 0], usb_handles = 0\<rparr>)"
  have st: "fst ?run = - RIG_EIO"
    by (simp add: port_open_def some_port_def lazy_hardware_def kind_defs serial_lines_def set_rts_def fd rc_defs
        close_sync_data_pipe_def)
  then obtain p' S' where run: "?run = (- RIG_EIO, p', S')" by (cases ?run) auto
  from port_open_failed [OF run] have "length (open_fds S') = 4"
    by (auto simp: rc_defs some_port_def lazy_hardware_def)
  with run show ?thesis by blast
qed

end
