(* ===== verification/Hamlib_Lifecycle.thy ===== *)
theory Hamlib_Lifecycle
  imports Hamlib_Frontend Hamlib_Port
begin

text \<open>
  The life of a handle between \<^verbatim>\<open>rig_open\<close>, \<^verbatim>\<open>rig_close\<close> and \<^verbatim>\<open>rig_cleanup\<close>
  (\<^verbatim>\<open>src/rig.c\<close>): its three ports, the descriptors they hold, the thread for
  asynchronous data and the process-wide list of opened handles. Handles are numbers. The copies
  of the ports kept for old clients (\<^verbatim>\<open>*_deprecated\<close>) are left out: nobody but such a
  client writes them. Whether a name parses as host and port is an argument (\<open>is_host\<close>).
\<close>

definition DEFAULT_CM108_PORT :: string where "DEFAULT_CM108_PORT = ''/dev/hidraw0''"

record 'p station =
  handle :: "'p rig"
  rigport :: hamlib_port
  pttport :: hamlib_port
  dcdport :: hamlib_port
  opsys :: os
  opened_rig_list :: "nat list"
  async_data_enabled :: bool
  async_thread :: bool
  auto_disable_screensaver :: bool
  allocated :: bool

text \<open>The back end's functions for a handle's life; \<open>start_thread\<close>: what starting the thread answers.\<close>

record 'p lifecaps =
  async_data_supported :: bool
  cap_rig_open :: "'p call option"
  cap_rig_close :: "'p call option"
  cap_rig_cleanup :: "'p call option"
  start_thread :: int

definition run_call :: "'p call \<Rightarrow> 'p station \<Rightarrow> int \<times> 'p station" where
  "run_call m s = (let (rc, r) = run_state m (handle s) in (rc, s\<lparr>handle := r\<rparr>))"

definition set_comm_state :: "bool \<Rightarrow> 'p station \<Rightarrow> 'p station" where
  "set_comm_state b s = s\<lparr>handle := (handle s)\<lparr>comm_state := b\<rparr>\<rparr>"

text \<open>The handle's copies of what the PTT operations use of the ports.\<close>

definition put_rigport :: "hamlib_port \<times> os \<Rightarrow> 'p station \<Rightarrow> 'p station" where
  "put_rigport = (\<lambda>(p, S) s. s\<lparr>rigport := p, opsys := S, handle := (handle s)\<lparr>rigport_pathname := pathname p\<rparr>\<rparr>)"

definition put_pttport :: "hamlib_port \<times> os \<Rightarrow> 'p station \<Rightarrow> 'p station" where
  "put_pttport = (\<lambda>(p, S) s. s\<lparr>pttport := p, opsys := S,
     handle := (handle s)\<lparr>pttport_pathname := pathname p, pttport_fd := port_fd p\<rparr>\<rparr>)"

definition put_dcdport :: "hamlib_port \<times> os \<Rightarrow> 'p station \<Rightarrow> 'p station" where
  "put_dcdport = (\<lambda>(p, S) s. s\<lparr>dcdport := p, opsys := S\<rparr>)"

subsection \<open>The list of opened handles\<close>

definition add_opened_rig :: "nat \<Rightarrow> 'p station \<Rightarrow> 'p station" where
  "add_opened_rig me s = s\<lparr>opened_rig_list := me # opened_rig_list s\<rparr>"

definition remove_opened_rig :: "nat \<Rightarrow> 'p station \<Rightarrow> int \<times> 'p station" where
  "remove_opened_rig me s =
     (if me \<in> set (opened_rig_list s) then (RIG_OK, s\<lparr>opened_rig_list := remove1 me (opened_rig_list s)\<rparr>)
      else (- RIG_EINVAL, s))"

subsection \<open>The thread for asynchronous data\<close>

definition async_data_handler_start :: "'p lifecaps \<Rightarrow> 'p station \<Rightarrow> int \<times> 'p station" where
  "async_data_handler_start B s =
     (if \<not> async_data_enabled s then (RIG_OK, s)
      else if start_thread B \<noteq> 0 then (start_thread B, s)
      else (RIG_OK, s\<lparr>async_thread := True\<rparr>))"

definition async_data_handler_stop :: "'p station \<Rightarrow> 'p station" where
  "async_data_handler_stop s = s\<lparr>async_thread := False\<rparr>"

subsection \<open>rig_open\<close>

definition use_network :: "(string \<Rightarrow> bool) \<Rightarrow> nat \<Rightarrow> 'p station \<Rightarrow> 'p station" where
  "use_network is_host model s =
     (if pathname (rigport s) \<noteq> [] \<and> is_host (pathname (rigport s))
      then s\<lparr>rigport := (rigport s)\<lparr>port_type :=
          (if RIG_BACKEND_NUM model = RIG_ICOM then RIG_PORT_UDP_NETWORK else RIG_PORT_NETWORK)\<rparr>\<rparr>
      else s)"

definition line_conflict :: "'p station \<Rightarrow> bool" where
  "line_conflict s \<longleftrightarrow> port_type (rigport s) = RIG_PORT_SERIAL
     \<and> (rts_state (rigport s) \<noteq> RIG_SIGNAL_UNSET \<and> handshake (rigport s) = RIG_HANDSHAKE_HARDWARE
       \<or> (pathname (pttport s) = [] \<or> pathname (pttport s) = pathname (rigport s))
         \<and> (rts_state (rigport s) \<noteq> RIG_SIGNAL_UNSET \<and> ptt_type (handle s) = RIG_PTT_SERIAL_RTS
           \<or> dtr_state (rigport s) \<noteq> RIG_SIGNAL_UNSET \<and> ptt_type (handle s) = RIG_PTT_SERIAL_DTR))"

text \<open>A PTT or DCD port without a name is on the rig's serial port.\<close>

definition default_name :: "hamlib_port \<Rightarrow> hamlib_port \<Rightarrow> hamlib_port" where
  "default_name rp p = (if pathname p = [] \<and> port_type rp = RIG_PORT_SERIAL then p\<lparr>pathname := pathname rp\<rparr> else p)"

text \<open>A serial PTT port of its own is opened only to lower its lines; \<open>dtr\<close> is the kind of PTT.\<close>

definition open_ptt_serial :: "hardware \<Rightarrow> bool \<Rightarrow> int \<Rightarrow> 'p station \<Rightarrow> int \<times> 'p station" where
  "open_ptt_serial H dtr status s =
     (let p = default_name (rigport s) (pttport s)
      in if pathname p = pathname (rigport s)
         then ((if dtr then set_dtr H (pathname p) False else set_rts H (pathname p) False),
               put_pttport (p\<lparr>port_fd := port_fd (rigport s)\<rparr>, opsys s) s)
         else let (fd, ps) = Hamlib_Port.ser_open H (p, opsys s);
                  st = (if fd < 0 then - RIG_EIO else status);
                  st' = (if st \<noteq> RIG_OK then st
                         else if set_dtr H (pathname p) False \<noteq> RIG_OK then set_dtr H (pathname p) False
                         else set_rts H (pathname p) False);
                  (_, ps') = Hamlib_Port.ser_close ps
              in (st', put_pttport ps' s))"

text \<open>The other kinds keep their port open; the result of releasing the PTT is ignored.\<close>

definition open_ptt_device ::
  "(port_state \<Rightarrow> int \<times> port_state) \<Rightarrow> int \<Rightarrow> 'p station \<Rightarrow> int \<times> 'p station" where
  "open_ptt_device dev_open status s =
     (let (fd, p, S) = dev_open (pttport s, opsys s)
      in (if fd < 0 then - RIG_EIO else status, put_pttport (p\<lparr>port_fd := fd\<rparr>, S) s))"

definition open_ptt :: "hardware \<Rightarrow> int \<Rightarrow> 'p station \<Rightarrow> int \<times> 'p station" where
  "open_ptt H status s = (case ptt_type (handle s) of
     RIG_PTT_NONE \<Rightarrow> (status, s)
   | RIG_PTT_RIG \<Rightarrow> (status, s)
   | RIG_PTT_RIG_MICDATA \<Rightarrow> (status, s)
   | RIG_PTT_SERIAL_RTS \<Rightarrow> open_ptt_serial H False status s
   | RIG_PTT_SERIAL_DTR \<Rightarrow> open_ptt_serial H True status s
   | RIG_PTT_PARALLEL \<Rightarrow> open_ptt_device (par_open H) status s
   | RIG_PTT_CM108 \<Rightarrow>
       (let (st, s') = open_ptt_device (cm108_open H) status s
        in (st, put_rigport ((rigport s')\<lparr>pathname := DEFAULT_CM108_PORT\<rparr>, opsys s') s'))
   | RIG_PTT_GPIO \<Rightarrow> open_ptt_device (gpio_open H) status s
   | RIG_PTT_GPION \<Rightarrow> open_ptt_device (gpio_open H) status s)"

definition open_dcd_serial :: "hardware \<Rightarrow> int \<Rightarrow> 'p station \<Rightarrow> int \<times> 'p station" where
  "open_dcd_serial H status s =
     (let p = default_name (rigport s) (dcdport s);
          ps = (if pathname p = pathname (rigport s) then (p\<lparr>port_fd := port_fd (rigport s)\<rparr>, opsys s)
                else snd (Hamlib_Port.ser_open H (p, opsys s)))
      in (if port_fd (fst ps) < 0 then - RIG_EIO else status, put_dcdport ps s))"

definition open_dcd_device ::
  "(port_state \<Rightarrow> int \<times> port_state) \<Rightarrow> int \<Rightarrow> 'p station \<Rightarrow> int \<times> 'p station" where
  "open_dcd_device dev_open status s =
     (let (fd, p, S) = dev_open (dcdport s, opsys s)
      in (if fd < 0 then - RIG_EIO else status, put_dcdport (p\<lparr>port_fd := fd\<rparr>, S) s))"

definition open_dcd :: "hardware \<Rightarrow> int \<Rightarrow> 'p station \<Rightarrow> int \<times> 'p station" where
  "open_dcd H status s = (case dcd_type (handle s) of
     RIG_DCD_NONE \<Rightarrow> (status, s)
   | RIG_DCD_RIG \<Rightarrow> (status, s)
   | RIG_DCD_SERIAL_DSR \<Rightarrow> open_dcd_serial H status s
   | RIG_DCD_SERIAL_CTS \<Rightarrow> open_dcd_serial H status s
   | RIG_DCD_SERIAL_CAR \<Rightarrow> open_dcd_serial H status s
   | RIG_DCD_PARALLEL \<Rightarrow> open_dcd_device (par_open H) status s
   | RIG_DCD_GPIO \<Rightarrow> open_dcd_device (gpio_open H) status s
   | RIG_DCD_GPION \<Rightarrow> open_dcd_device (gpio_open H) status s
   | RIG_DCD_CM108 \<Rightarrow> (- RIG_ECONF, s))"

definition close_rigport :: "'p station \<Rightarrow> 'p station" where
  "close_rigport s = put_rigport (snd (port_close (port_type (rigport s)) (rigport s, opsys s))) s"

text \<open>The VFO after a successful open. \<^verbatim>\<open>rig_get_vfo\<close> writes into the handle itself.\<close>

definition first_vfo :: "'p caps \<Rightarrow> 'p rig \<Rightarrow> 'p rig" where
  "first_vfo caps rig0 =
     (let ((rc, v), rig1) = (if get_vfo caps = None then ((- RIG_ENAVAIL, current_vfo rig0), rig0)
                             else run_state (rig_get_vfo caps (current_vfo rig0)) rig0);
          rig = rig1\<lparr>current_vfo := v\<rparr>
      in if rc = RIG_OK then rig\<lparr>tx_vfo := v\<rparr>
         else let rig2 = rig\<lparr>tx_vfo := RIG_VFO_TX, current_vfo := (if v = RIG_VFO_NONE then RIG_VFO_CURR else v)\<rparr>
              in if set_vfo caps = None
                 then rig2\<lparr>current_vfo := vfo_fixup rig2 RIG_VFO_A (c_split (cache rig2))\<rparr> else rig2)"

text \<open>Everything after the ports and the thread.\<close>

definition open_backend :: "'p caps \<Rightarrow> 'p lifecaps \<Rightarrow> nat \<Rightarrow> 'p station \<Rightarrow> int \<times> 'p station" where
  "open_backend caps B me s0 =
     (let s = set_comm_state True (add_opened_rig me s0);
          (status, s1) = (case cap_rig_open B of None \<Rightarrow> (RIG_OK, s) | Some f \<Rightarrow> run_call f s)
      in if status \<noteq> RIG_OK
         then (status, set_comm_state False (close_rigport (async_data_handler_stop (snd (remove_opened_rig me s1)))))
         else let s2 = s1\<lparr>handle := first_vfo caps (handle s1)\<rparr>
              in (RIG_OK, if auto_disable_screensaver s2
                    then snd (run_call (rig_set_parm caps RIG_PARM_SCREENSAVER (VInt 0)) s2) else s2))"

definition rig_open ::
  "(string \<Rightarrow> bool) \<Rightarrow> hardware \<Rightarrow> 'p caps \<Rightarrow> 'p lifecaps \<Rightarrow> nat \<Rightarrow> 'p station \<Rightarrow> int \<times> 'p station" where
  "rig_open is_host H caps B me s0 =
     (let en = async_data_enabled s0 \<and> async_data_supported B;
          s = use_network is_host (rig_model caps)
                (s0\<lparr>async_data_enabled := en, rigport := (rigport s0)\<lparr>asyncio := en\<rparr>\<rparr>)
      in if comm_state (handle s) then (- RIG_EINVAL, set_comm_state False (close_rigport s))
         else if line_conflict s then (- RIG_ECONF, s\<lparr>rigport := (rigport s)\<lparr>port_fd := -1\<rparr>\<rparr>)
         else let (status, ps) = port_open H (rigport s, opsys s); s1 = put_rigport ps s
              in if status < 0 then (status, set_comm_state False s1)
                 else let (st2, s2) = open_ptt H status s1; (st3, s3) = open_dcd H st2 s2
                      in if st3 < 0 then (st3, close_rigport s3)
                         else let (st4, s4) = async_data_handler_start B s3
                              in if st4 < 0 then (st4, close_rigport s4) else open_backend caps B me s4)"

subsection \<open>rig_close and rig_cleanup\<close>

definition close_ptt_serial :: "'p station \<Rightarrow> 'p station" where
  "close_ptt_serial s =
     (if port_fd (pttport s) > -1 \<and> port_fd (pttport s) \<noteq> port_fd (rigport s)
      then put_pttport (snd (port_close RIG_PORT_SERIAL (pttport s, opsys s))) s else s)"

definition close_ptt :: "'p station \<Rightarrow> 'p station" where
  "close_ptt s = (case ptt_type (handle s) of
     RIG_PTT_NONE \<Rightarrow> s
   | RIG_PTT_RIG \<Rightarrow> s
   | RIG_PTT_RIG_MICDATA \<Rightarrow> s
   | RIG_PTT_SERIAL_RTS \<Rightarrow> close_ptt_serial s
   | RIG_PTT_SERIAL_DTR \<Rightarrow> close_ptt_serial s
   | _ \<Rightarrow> put_pttport (snd (device_close (pttport s, opsys s))) s)"

definition close_dcd_serial :: "'p station \<Rightarrow> 'p station" where
  "close_dcd_serial s =
     (if port_fd (dcdport s) \<noteq> port_fd (rigport s)
      then put_dcdport (snd (port_close RIG_PORT_SERIAL (dcdport s, opsys s))) s else s)"

definition close_dcd :: "'p station \<Rightarrow> 'p station" where
  "close_dcd s = (case dcd_type (handle s) of
     RIG_DCD_NONE \<Rightarrow> s
   | RIG_DCD_RIG \<Rightarrow> s
   | RIG_DCD_SERIAL_DSR \<Rightarrow> close_dcd_serial s
   | RIG_DCD_SERIAL_CTS \<Rightarrow> close_dcd_serial s
   | RIG_DCD_SERIAL_CAR \<Rightarrow> close_dcd_serial s
   | RIG_DCD_PARALLEL \<Rightarrow> put_dcdport (snd (device_close (dcdport s, opsys s))) s
   | RIG_DCD_GPIO \<Rightarrow> put_dcdport (snd (device_close (dcdport s, opsys s))) s
   | RIG_DCD_GPION \<Rightarrow> put_dcdport (snd (device_close (dcdport s, opsys s))) s
   | RIG_DCD_CM108 \<Rightarrow> s)"

definition rig_close :: "'p lifecaps \<Rightarrow> nat \<Rightarrow> 'p station \<Rightarrow> int \<times> 'p station" where
  "rig_close B me s =
     (if \<not> comm_state (handle s) then (- RIG_EINVAL, s)
      else let s1 = (case cap_rig_close B of None \<Rightarrow> s | Some f \<Rightarrow> snd (run_call f s));
               s2 = close_dcd (close_ptt (async_data_handler_stop s1));
               s3 = put_dcdport ((dcdport s2)\<lparr>port_fd := -1\<rparr>, opsys s2)
                      (put_pttport ((pttport s2)\<lparr>port_fd := -1\<rparr>, opsys s2) s2)
           in (RIG_OK, set_comm_state False (snd (remove_opened_rig me (close_rigport s3)))))"

definition rig_cleanup :: "'p lifecaps \<Rightarrow> nat \<Rightarrow> 'p station \<Rightarrow> int \<times> 'p station" where
  "rig_cleanup B me s =
     (let s1 = (if comm_state (handle s) then snd (rig_close B me s) else s);
          s2 = (case cap_rig_cleanup B of None \<Rightarrow> s1 | Some f \<Rightarrow> snd (run_call f s1))
      in (RIG_OK, s2\<lparr>allocated := False\<rparr>))"

text \<open>\<^verbatim>\<open>foreach_opened_rig\<close>: the handles its function is called with, in order.\<close>

fun foreach_opened_rig :: "(nat \<Rightarrow> 'd \<Rightarrow> int \<times> 'd) \<Rightarrow> nat list \<Rightarrow> 'd \<Rightarrow> int \<times> 'd" where
  "foreach_opened_rig cfunc [] d = (RIG_OK, d)"
| "foreach_opened_rig cfunc (p # ps) d =
     (let (r, d') = cfunc p d in if r = 0 then (RIG_OK, d') else foreach_opened_rig cfunc ps d')"

subsection \<open>What the PTT and DCD ports hold\<close>

definition ptt_device :: "ptt_type_t \<Rightarrow> bool" where
  "ptt_device ty \<longleftrightarrow> ty \<in> {RIG_PTT_PARALLEL, RIG_PTT_CM108, RIG_PTT_GPIO, RIG_PTT_GPION}"

definition dcd_device :: "dcd_type_t \<Rightarrow> bool" where
  "dcd_device ty \<longleftrightarrow> ty \<in> {RIG_DCD_PARALLEL, RIG_DCD_GPIO, RIG_DCD_GPION}"

definition dcd_serial :: "dcd_type_t \<Rightarrow> bool" where
  "dcd_serial ty \<longleftrightarrow> ty \<in> {RIG_DCD_SERIAL_DSR, RIG_DCD_SERIAL_CTS, RIG_DCD_SERIAL_CAR}"

definition held_ptt :: "'p station \<Rightarrow> int list" where
  "held_ptt s = (if ptt_device (ptt_type (handle s)) then [port_fd (pttport s)] else [])"

definition held_dcd :: "'p station \<Rightarrow> int list" where
  "held_dcd s = (if dcd_device (dcd_type (handle s))
       \<or> dcd_serial (dcd_type (handle s)) \<and> port_fd (dcdport s) \<noteq> port_fd (rigport s)
     then [port_fd (dcdport s)] else [])"

text \<open>What opening and closing the PTT and DCD ports leaves alone.\<close>

definition same_core :: "'p station \<Rightarrow> 'p station \<Rightarrow> bool" where
  "same_core s s' \<longleftrightarrow> (\<exists>n. rigport s' = (rigport s)\<lparr>pathname := n\<rparr>) \<and> opened_rig_list s' = opened_rig_list s
     \<and> comm_state (handle s') = comm_state (handle s) \<and> ptt_type (handle s') = ptt_type (handle s)
     \<and> dcd_type (handle s') = dcd_type (handle s) \<and> async_data_enabled s' = async_data_enabled s
     \<and> async_thread s' = async_thread s"

lemma put_fields [simp]:
  "rigport (put_pttport ps s) = rigport s" "dcdport (put_pttport ps s) = dcdport s" "pttport (put_pttport ps s) = fst ps"
  "opsys (put_pttport ps s) = snd ps" "opened_rig_list (put_pttport ps s) = opened_rig_list s"
  "rigport (put_dcdport ps s) = rigport s" "dcdport (put_dcdport ps s) = fst ps" "pttport (put_dcdport ps s) = pttport s"
  "opsys (put_dcdport ps s) = snd ps" "opened_rig_list (put_dcdport ps s) = opened_rig_list s"
  "rigport (put_rigport ps s) = fst ps" "dcdport (put_rigport ps s) = dcdport s" "pttport (put_rigport ps s) = pttport s"
  "opsys (put_rigport ps s) = snd ps" "opened_rig_list (put_rigport ps s) = opened_rig_list s"
  "handle (put_dcdport ps s) = handle s"
  by (simp_all add: put_pttport_def put_dcdport_def put_rigport_def case_prod_beta)

lemma put_handle [simp]:
  "comm_state (handle (put_pttport ps s)) = comm_state (handle s)" "ptt_type (handle (put_pttport ps s)) = ptt_type (handle s)"
  "dcd_type (handle (put_pttport ps s)) = dcd_type (handle s)"
  "comm_state (handle (put_rigport ps s)) = comm_state (handle s)" "ptt_type (handle (put_rigport ps s)) = ptt_type (handle s)"
  "dcd_type (handle (put_rigport ps s)) = dcd_type (handle s)"
  "async_thread (put_pttport ps s) = async_thread s" "async_data_enabled (put_pttport ps s) = async_data_enabled s"
  "async_thread (put_rigport ps s) = async_thread s" "async_data_enabled (put_rigport ps s) = async_data_enabled s"
  "async_thread (put_dcdport ps s) = async_thread s" "async_data_enabled (put_dcdport ps s) = async_data_enabled s"
  by (simp_all add: put_pttport_def put_rigport_def put_dcdport_def case_prod_beta)

lemma same_core_refl [simp]: "same_core s s"
  unfolding same_core_def by (auto intro: exI [of _ "pathname (rigport s)"])

lemma same_core_trans: "same_core r s \<Longrightarrow> same_core s t \<Longrightarrow> same_core r t"
  unfolding same_core_def by auto

lemma same_core_put [simp]:
  "same_core s (put_pttport ps s)" "same_core s (put_dcdport ps s)"
  by (auto simp: same_core_def intro: exI [of _ "pathname (rigport s)"])

text \<open>
  A PTT port that has been opened: its descriptor, if it holds one, is new and on top of the
  others; a serial line's port shares the rig's descriptor or has none.
\<close>

lemma open_ptt_device_held:
  assumes "dev_open \<in> {par_open H, cm108_open H, gpio_open H}"
    and "open_ptt_device dev_open status s = (st, s')" and "0 \<le> st"
  shows "same_core s s' \<and> rigport s' = rigport s \<and> dcdport s' = dcdport s
    \<and> port_fd (pttport s') \<notin> set (open_fds (opsys s))
    \<and> opsys s' = (opsys s)\<lparr>open_fds := port_fd (pttport s') # open_fds (opsys s)\<rparr>"
proof -
  obtain fd p S where run: "dev_open (pttport s, opsys s) = (fd, p, S)" by (metis prod_cases3)
  then have s': "0 \<le> fd" "s' = put_pttport (p\<lparr>port_fd := fd\<rparr>, S) s"
    using assms(2,3) by (auto simp: open_ptt_device_def rc_defs split: if_splits)
  show ?thesis
    using device_open_ok [OF assms(1) run s'(1)] lowest_free_new by (auto simp: s'(2))
qed

lemma open_ptt_serial_held:
  assumes "open_ptt_serial H dtr status s = (st, s')" and "0 \<le> st"
  shows "same_core s s' \<and> rigport s' = rigport s \<and> dcdport s' = dcdport s \<and> opsys s' = opsys s
    \<and> port_fd (pttport s') \<in> {-1, port_fd (rigport s)}"
proof (cases "pathname (default_name (rigport s) (pttport s)) = pathname (rigport s)")
  case True
  then show ?thesis using assms by (auto simp: open_ptt_serial_def Let_def)
next
  case False
  obtain fd S where opened: "os_open H (pathname (default_name (rigport s) (pttport s))) (opsys s) = (fd, S)" by fastforce
  then have "fd \<noteq> -1" using assms False by (auto simp: open_ptt_serial_def Hamlib_Port.ser_open_def Let_def rc_defs split: if_splits prod.splits)
  then have "S = (opsys s)\<lparr>open_fds := fd # open_fds (opsys s)\<rparr>"
    using opened by (auto simp: os_open_def Let_def split: if_splits)
  then show ?thesis
    using assms False opened
    by (auto simp: open_ptt_serial_def Hamlib_Port.ser_open_def Hamlib_Port.ser_close_def Let_def)
qed

lemma open_ptt_held:
  assumes "open_ptt H status s = (st, s')" and "0 \<le> st"
  shows "same_core s s' \<and> dcdport s' = dcdport s \<and> set (held_ptt s') \<inter> set (open_fds (opsys s)) = {}
    \<and> opsys s' = (opsys s)\<lparr>open_fds := held_ptt s' @ open_fds (opsys s)\<rparr>
    \<and> (ptt_type (handle s) \<in> {RIG_PTT_SERIAL_RTS, RIG_PTT_SERIAL_DTR} \<longrightarrow> port_fd (pttport s') \<in> {-1, port_fd (rigport s')})"
proof -
  consider (plain) "open_ptt H status s = (status, s)" "ptt_type (handle s) \<notin> {RIG_PTT_SERIAL_RTS, RIG_PTT_SERIAL_DTR}"
      "\<not> ptt_device (ptt_type (handle s))"
    | (serial) dtr where "open_ptt_serial H dtr status s = (st, s')" "\<not> ptt_device (ptt_type (handle s))"
    | (device) dev_open s1 where "dev_open \<in> {par_open H, cm108_open H, gpio_open H}" "ptt_device (ptt_type (handle s))"
      "open_ptt_device dev_open status s = (st, s1)"
      "s' = s1 \<or> s' = put_rigport ((rigport s1)\<lparr>pathname := DEFAULT_CM108_PORT\<rparr>, opsys s1) s1"
    using assms(1) by (cases "ptt_type (handle s)") (auto simp: open_ptt_def ptt_device_def split: prod.splits)
  then show ?thesis
  proof cases
    case plain
    then show ?thesis using assms(1) by (simp add: held_ptt_def)
  next
    case serial
    with open_ptt_serial_held [of H dtr status s st s'] assms have "same_core s s'" "rigport s' = rigport s"
      "dcdport s' = dcdport s" "opsys s' = opsys s" "port_fd (pttport s') \<in> {-1, port_fd (rigport s)}" by auto
    moreover from this have "held_ptt s' = []" using serial(2) by (simp add: same_core_def held_ptt_def)
    ultimately show ?thesis by simp
  next
    case device
    from open_ptt_device_held [OF device(1,3) assms(2)]
    have s1: "same_core s s1" "rigport s1 = rigport s" "dcdport s1 = dcdport s" "port_fd (pttport s1) \<notin> set (open_fds (opsys s))"
      "opsys s1 = (opsys s)\<lparr>open_fds := port_fd (pttport s1) # open_fds (opsys s)\<rparr>" by simp_all
    have "same_core s s' \<and> dcdport s' = dcdport s1 \<and> opsys s' = opsys s1 \<and> pttport s' = pttport s1"
      using device(4) s1(1,2) by (auto simp: same_core_def)
    moreover from this have "held_ptt s' = [port_fd (pttport s1)]"
      using device(2) by (simp add: same_core_def held_ptt_def)
    ultimately show ?thesis using device(2) s1 by (auto simp: ptt_device_def)
  qed
qed

lemma open_dcd_held:
  assumes "open_dcd H status s = (st, s')" and "0 \<le> st"
  shows "0 \<le> status \<and> same_core s s' \<and> pttport s' = pttport s \<and> rigport s' = rigport s
    \<and> handle s' = handle s \<and> pipe_fds (dcdport s') = pipe_fds (dcdport s)
    \<and> (port_fds (rigport s) \<subseteq> set (open_fds (opsys s)) \<longrightarrow>
        set (held_dcd s') \<inter> set (open_fds (opsys s)) = {} \<and> -1 \<notin> set (held_dcd s')
        \<and> opsys s' = (opsys s)\<lparr>open_fds := held_dcd s' @ open_fds (opsys s)\<rparr>)"
proof -
  consider (plain) "st = status" "s' = s" "\<not> dcd_device (dcd_type (handle s))" "\<not> dcd_serial (dcd_type (handle s))"
    | (serial) "open_dcd_serial H status s = (st, s')" "dcd_serial (dcd_type (handle s))"
    | (device) dev_open where "dev_open \<in> {par_open H, cm108_open H, gpio_open H}" "dcd_device (dcd_type (handle s))"
      "open_dcd_device dev_open status s = (st, s')"
    using assms by (cases "dcd_type (handle s)")
      (auto simp: open_dcd_def dcd_device_def dcd_serial_def rc_defs split: prod.splits)
  then show ?thesis
  proof cases
    case plain
    then show ?thesis using assms(2) by (simp add: held_dcd_def)
  next
    case serial
    let ?p = "default_name (rigport s) (dcdport s)"
    have pipes: "pipe_fds ?p = pipe_fds (dcdport s)" by (simp add: default_name_def)
    show ?thesis
    proof (cases "pathname ?p = pathname (rigport s)")
      case True
      then have "s' = put_dcdport (?p\<lparr>port_fd := port_fd (rigport s)\<rparr>, opsys s) s" "0 \<le> status"
        using serial(1) assms(2) by (auto simp: open_dcd_serial_def Let_def rc_defs split: if_splits)
      moreover from this have "held_dcd s' = []"
        using serial(2) by (auto simp: held_dcd_def dcd_device_def dcd_serial_def)
      ultimately show ?thesis using pipes by simp
    next
      case False
      obtain fd S where opened: "os_open H (pathname ?p) (opsys s) = (fd, S)" by fastforce
      then have s': "s' = put_dcdport (?p\<lparr>port_fd := fd\<rparr>, S) s" "0 \<le> fd" "0 \<le> status"
        using serial(1) assms(2) False
        by (auto simp: open_dcd_serial_def Hamlib_Port.ser_open_def Let_def rc_defs split: if_splits)
      then have fd: "fd = lowest_free (open_fds (opsys s))" "S = (opsys s)\<lparr>open_fds := fd # open_fds (opsys s)\<rparr>"
        using opened by (auto simp: os_open_def Let_def split: if_splits)
      have "held_dcd s' = [fd]" if "port_fds (rigport s) \<subseteq> set (open_fds (opsys s))"
      proof -
        have "fd \<noteq> port_fd (rigport s)"
          using that lowest_free_new [of "open_fds (opsys s)"] s'(2) by (auto simp: fd(1) port_fds_def)
        then show ?thesis using serial(2) by (auto simp: s'(1) held_dcd_def)
      qed
      then show ?thesis
        using pipes fd lowest_free_new lowest_free_nonneg [of "open_fds (opsys s)"] by (auto simp: s')
    qed
  next
    case device
    obtain fd p S where run: "dev_open (dcdport s, opsys s) = (fd, p, S)" by (metis prod_cases3)
    then have s': "0 \<le> fd" "s' = put_dcdport (p\<lparr>port_fd := fd\<rparr>, S) s" "0 \<le> status"
      using device(3) assms(2) by (auto simp: open_dcd_device_def rc_defs split: if_splits)
    have "held_dcd s' = [fd]" using device(2) by (simp add: s'(2) held_dcd_def)
    then show ?thesis
      using device_open_ok [OF device(1) run s'(1)] lowest_free_new lowest_free_nonneg [of "open_fds (opsys s)"]
      by (auto simp: s'(2,3))
  qed
qed

subsection \<open>Back ends that leave the ports alone\<close>

definition same_ports :: "'p rig \<Rightarrow> 'p rig \<Rightarrow> bool" where
  "same_ports r r' \<longleftrightarrow> comm_state r' = comm_state r \<and> ptt_type r' = ptt_type r \<and> dcd_type r' = dcd_type r
     \<and> pttport_fd r' = pttport_fd r"

definition polite :: "('p rig, 'a) state \<Rightarrow> bool" where
  "polite m \<longleftrightarrow> (\<forall>r. keeps (same_ports r) m)"

definition polite_back_end :: "'p caps \<Rightarrow> 'p lifecaps \<Rightarrow> bool" where
  "polite_back_end caps B \<longleftrightarrow> (\<forall>f. cap_rig_open B = Some f \<longrightarrow> polite f) \<and> (\<forall>f. cap_rig_close B = Some f \<longrightarrow> polite f)
     \<and> (\<forall>f v. get_vfo caps = Some f \<longrightarrow> polite (f v)) \<and> (\<forall>f p v. set_parm caps = Some f \<longrightarrow> polite (f p v))"

lemma politeD: "polite m \<Longrightarrow> same_ports r (snd (run_state m r))"
  by (simp add: polite_def keeps_def same_ports_def)

lemma same_ports_refl [simp]: "same_ports r r"
  by (simp add: same_ports_def)

lemma same_ports_trans: "same_ports r s \<Longrightarrow> same_ports s t \<Longrightarrow> same_ports r t"
  by (simp add: same_ports_def)

lemma polite_get_vfo:
  assumes "\<And>f v. get_vfo caps = Some f \<Longrightarrow> polite (f v)"
  shows "polite (rig_get_vfo caps v)"
proof -
  have on: "same_ports r (on_cache g s) = same_ports r s" for g and r s :: "'a rig"
    by (simp add: same_ports_def on_cache_def)
  have age: "keeps (same_ports r) age_of_vfo" for r :: "'a rig"
    by (auto simp: age_of_vfo_def on)
  have "keeps (same_ports r) (f v)" if "get_vfo caps = Some f" for r f v
    using assms [OF that] by (simp add: polite_def)
  then show ?thesis
    unfolding polite_def rig_get_vfo_def check_rig_arg_def cache_vfo_now_def
    by (auto intro!: keeps_bind keeps_if age keeps_modify simp: on split: option.split) (auto simp: same_ports_def)
qed

lemma polite_first_vfo:
  assumes "\<And>f v. get_vfo caps = Some f \<Longrightarrow> polite (f v)"
  shows "same_ports r (first_vfo caps r)"
proof -
  have "same_ports r (snd (run_state (rig_get_vfo caps (current_vfo r)) r))"
    by (intro politeD polite_get_vfo) (rule assms)
  then show ?thesis by (auto simp: first_vfo_def Let_def same_ports_def split: prod.split)
qed

lemma polite_set_parm:
  assumes "\<And>f p v. set_parm caps = Some f \<Longrightarrow> polite (f p v)"
  shows "polite (rig_set_parm caps parm val)"
proof -
  have "keeps (same_ports r) (f parm val)" if "set_parm caps = Some f" for r f
    using assms [OF that] by (simp add: polite_def)
  then show ?thesis
    unfolding polite_def rig_set_parm_def check_rig_arg_def
    by (auto intro!: keeps_bind keeps_if split: option.split)
qed

subsection \<open>Tidy clients\<close>

text \<open>
  A handle that is not open: the descriptors and the list of opened handles are those of the
  start. A handle that is open: it is in the list once more, and there are descriptors
  \<open>R\<close> on top of which the PTT and DCD ports hold theirs and that closing the rig's port
  turns into those of the start. A DCD line on a serial port of its own is left out: see below.
\<close>

definition calm :: "'p station \<Rightarrow> bool" where
  "calm s \<longleftrightarrow> port_type (rigport s) \<noteq> RIG_PORT_USB
     \<and> (dcd_serial (dcd_type (handle s)) \<longrightarrow> pipe_fds (dcdport s) = [])"

definition closed_inv :: "'p station \<Rightarrow> 'p station \<Rightarrow> bool" where
  "closed_inv s0 s \<longleftrightarrow> \<not> comm_state (handle s) \<and> calm s \<and> opsys s = opsys s0
     \<and> opened_rig_list s = opened_rig_list s0 \<and> \<not> async_thread s"

definition ports_inv :: "'p station \<Rightarrow> 'p station \<Rightarrow> bool" where
  "ports_inv s0 s \<longleftrightarrow> (\<exists>R. opsys s = R\<lparr>open_fds := held_dcd s @ held_ptt s @ open_fds R\<rparr>
       \<and> set (held_dcd s) \<inter> set (held_ptt s @ open_fds R) = {} \<and> -1 \<notin> set (held_dcd s) \<and> set (held_ptt s) \<inter> set (open_fds R) = {}
       \<and> port_fds (rigport s) \<subseteq> set (open_fds R)
       \<and> snd (snd (port_close (port_type (rigport s)) (rigport s, R))) = opsys s0)
     \<and> (ptt_type (handle s) \<in> {RIG_PTT_SERIAL_RTS, RIG_PTT_SERIAL_DTR} \<longrightarrow>
          port_fd (pttport s) \<in> {-1, port_fd (rigport s)})"

definition open_inv :: "nat \<Rightarrow> 'p station \<Rightarrow> 'p station \<Rightarrow> bool" where
  "open_inv me s0 s \<longleftrightarrow> comm_state (handle s) \<and> calm s \<and> opened_rig_list s = me # opened_rig_list s0 \<and> ports_inv s0 s"

lemma same_ports_held:
  assumes "same_ports (handle s) h"
  shows "held_ptt (s\<lparr>handle := h\<rparr>) = held_ptt s" "held_dcd (s\<lparr>handle := h\<rparr>) = held_dcd s"
    "calm (s\<lparr>handle := h\<rparr>) = calm s" "ports_inv s0 (s\<lparr>handle := h\<rparr>) = ports_inv s0 s"
  using assms by (simp_all add: same_ports_def held_ptt_def held_dcd_def calm_def ports_inv_def)

text \<open>The three ports, opened one after the other.\<close>

lemma ports_opened:
  assumes "port_open H (rigport s, opsys s) = (RIG_OK, ps)" and "open_ptt H RIG_OK (put_rigport ps s) = (st2, s2)"
    and "open_dcd H st2 s2 = (st3, s3)" and "0 \<le> st3" and "calm s" and "0 \<in> set (open_fds (opsys s))"
  shows "ports_inv s s3 \<and> calm s3 \<and> opened_rig_list s3 = opened_rig_list s
    \<and> comm_state (handle s3) = comm_state (handle s) \<and> async_thread s3 = async_thread s"
proof -
  obtain p S where ps: "ps = (p, S)" by fastforce
  note opened = assms(1) [unfolded ps]
  note fds = port_open_fds [OF opened] and closes = port_open_close [OF opened assms(6)]
  let ?s1 = "put_rigport ps s"
  note dcd = open_dcd_held [OF assms(3,4)]
  then have "0 \<le> st2" by simp
  note ptt = open_ptt_held [OF assms(2) this]
  obtain n where rp: "rigport s3 = p\<lparr>pathname := n\<rparr>" "port_fd (rigport s2) = port_fd (rigport s3)"
    using ptt dcd ps by (auto simp: same_core_def)
  then have fds3: "port_fds (rigport s3) = port_fds p" "port_type (rigport s3) = port_type p"
    by (auto simp: port_fds_def)
  have held: "held_ptt s3 = held_ptt s2" using dcd by (simp add: held_ptt_def)
  have above: "port_fds (rigport s2) \<subseteq> set (open_fds (opsys s2))"
    using ptt fds fds3 dcd by (auto simp: ps)
  have o2: "opsys s2 = S\<lparr>open_fds := held_ptt s2 @ open_fds S\<rparr>" "set (held_ptt s2) \<inter> set (open_fds S) = {}"
    using ptt by (simp_all add: ps)
  have o3: "opsys s3 = (opsys s2)\<lparr>open_fds := held_dcd s3 @ open_fds (opsys s2)\<rparr>"
    "set (held_dcd s3) \<inter> set (open_fds (opsys s2)) = {}" "-1 \<notin> set (held_dcd s3)"
    using dcd above by blast+
  have "snd (snd (port_close (port_type (rigport s3)) (rigport s3, S))) = snd (snd (port_close (port_type p) (p, S)))"
    by (simp add: rp(1) port_close_renamed)
  also have "\<dots> = opsys s" using closes fds assms(5) by (simp add: calm_def)
  finally have "snd (snd (port_close (port_type (rigport s3)) (rigport s3, S))) = opsys s" .
  moreover have "opsys s3 = S\<lparr>open_fds := held_dcd s3 @ held_ptt s3 @ open_fds S\<rparr>"
    unfolding o3(1) o2(1) held by simp
  moreover have "set (held_dcd s3) \<inter> set (held_ptt s3 @ open_fds S) = {}"
    using o3(2) unfolding o2(1) held by simp
  moreover note o3(3)
  moreover have "set (held_ptt s3) \<inter> set (open_fds S) = {}"
    using o2(2) unfolding held .
  moreover have "port_fds (rigport s3) \<subseteq> set (open_fds S)" using fds fds3 by simp
  moreover have "ptt_type (handle s3) \<in> {RIG_PTT_SERIAL_RTS, RIG_PTT_SERIAL_DTR} \<longrightarrow>
      port_fd (pttport s3) \<in> {-1, port_fd (rigport s3)}"
  proof -
    have "ptt_type (handle ?s1) \<in> {RIG_PTT_SERIAL_RTS, RIG_PTT_SERIAL_DTR} \<longrightarrow>
        port_fd (pttport s2) \<in> {-1, port_fd (rigport s2)}"
      "ptt_type (handle s2) = ptt_type (handle ?s1)" using ptt unfolding same_core_def by blast+
    moreover have "handle s3 = handle s2" "pttport s3 = pttport s2" using dcd by blast+
    ultimately show ?thesis by (simp add: rp(2))
  qed
  ultimately have "ports_inv s s3" unfolding ports_inv_def by blast
  moreover have core: "opened_rig_list s3 = opened_rig_list s" "comm_state (handle s3) = comm_state (handle s)"
    "async_thread s3 = async_thread s" "dcd_type (handle s3) = dcd_type (handle s)"
    "pipe_fds (dcdport s3) = pipe_fds (dcdport s)"
    using same_core_trans [of ?s1 s2 s3] ptt dcd by (simp_all add: same_core_def)
  moreover have "calm s3" using assms(5) fds fds3(2) core by (simp add: calm_def)
  ultimately show ?thesis by blast
qed

lemma close_ptt_frees:
  assumes "open_fds (opsys s) = d @ held_ptt s @ fds" and "set d \<inter> set (held_ptt s) = {}"
    and "ptt_type (handle s) \<in> {RIG_PTT_SERIAL_RTS, RIG_PTT_SERIAL_DTR} \<longrightarrow> port_fd (pttport s) \<in> {-1, port_fd (rigport s)}"
  shows "opsys (close_ptt s) = (opsys s)\<lparr>open_fds := d @ fds\<rparr> \<and> same_core s (close_ptt s)
    \<and> rigport (close_ptt s) = rigport s \<and> dcdport (close_ptt s) = dcdport s"
proof (cases "ptt_device (ptt_type (handle s))")
  case True
  then have "close_ptt s = put_pttport (snd (device_close (pttport s, opsys s))) s" "held_ptt s = [port_fd (pttport s)]"
    by (auto simp: ptt_device_def close_ptt_def held_ptt_def)
  then show ?thesis using assms(1,2) by (simp add: device_close_def os_close_def remove1_append)
next
  case False
  then have "close_ptt s = s" "held_ptt s = []"
    using assms(3) by (cases "ptt_type (handle s)"; auto simp: ptt_device_def close_ptt_def close_ptt_serial_def held_ptt_def)+
  then show ?thesis using assms(1) by (cases "opsys s") simp
qed

lemma close_dcd_frees:
  assumes "open_fds (opsys s) = held_dcd s @ fds" and "calm s" and "-1 \<notin> set (held_dcd s)"
  shows "opsys (close_dcd s) = (opsys s)\<lparr>open_fds := fds\<rparr> \<and> same_core s (close_dcd s)
    \<and> rigport (close_dcd s) = rigport s \<and> calm (close_dcd s)"
proof -
  have calm: "calm (put_dcdport ps s)" if "dcd_serial (dcd_type (handle s)) \<longrightarrow> pipe_fds (fst ps) = []" for ps
    using assms(2) that by (simp add: calm_def)
  consider (device) "dcd_device (dcd_type (handle s))" | (serial) "dcd_serial (dcd_type (handle s))" "\<not> dcd_device (dcd_type (handle s))"
    | (none) "\<not> dcd_device (dcd_type (handle s))" "\<not> dcd_serial (dcd_type (handle s))" by blast
  then show ?thesis
  proof cases
    case device
    then have "close_dcd s = put_dcdport (snd (device_close (dcdport s, opsys s))) s" "held_dcd s = [port_fd (dcdport s)]"
      by (auto simp: dcd_device_def close_dcd_def held_dcd_def)
    moreover have "\<not> dcd_serial (dcd_type (handle s))" using device by (auto simp: dcd_device_def dcd_serial_def)
    ultimately show ?thesis using assms(1) calm by (simp add: device_close_def os_close_def)
  next
    case serial
    then have run: "close_dcd s = close_dcd_serial s" "pipe_fds (dcdport s) = []"
      using assms(2) by (auto simp: dcd_serial_def close_dcd_def calm_def)
    show ?thesis
    proof (cases "port_fd (dcdport s) = port_fd (rigport s)")
      case True
      then show ?thesis
        using serial assms(1,2) run by (cases "opsys s") (simp add: close_dcd_serial_def held_dcd_def)
    next
      case False
      then have "held_dcd s = [port_fd (dcdport s)]" using serial by (simp add: held_dcd_def)
      then show ?thesis
        using False assms(1,3) run calm
        by (simp add: close_dcd_serial_def port_close_def Hamlib_Port.ser_close_def os_close_def
            close_sync_data_pipe_def os_close_all_def)
    qed
  next
    case none
    then have "close_dcd s = s" "held_dcd s = []"
      by (cases "dcd_type (handle s)"; simp add: dcd_device_def dcd_serial_def close_dcd_def held_dcd_def)+
    then show ?thesis using assms(1,2) by (cases "opsys s") simp
  qed
qed

lemma rig_close_inv:
  assumes "open_inv me s0 s" and "polite_back_end caps B"
  shows "fst (rig_close B me s) = RIG_OK \<and> closed_inv s0 (snd (rig_close B me s))"
proof -
  define s1 where "s1 = async_data_handler_stop (case cap_rig_close B of None \<Rightarrow> s | Some f \<Rightarrow> snd (run_call f s))"
  obtain h where h: "s1 = s\<lparr>handle := h, async_thread := False\<rparr>" "same_ports (handle s) h"
  proof (cases "cap_rig_close B")
    case None
    then show ?thesis using that [of "handle s"] by (simp add: s1_def async_data_handler_stop_def)
  next
    case (Some f)
    then have "same_ports (handle s) (snd (run_state f (handle s)))"
      using assms(2) by (intro politeD) (simp add: polite_back_end_def)
    with Some show ?thesis
      using that [of "snd (run_state f (handle s))"]
      by (simp add: s1_def async_data_handler_stop_def run_call_def Let_def case_prod_beta)
  qed
  have eqs: "held_ptt s1 = held_ptt s" "held_dcd s1 = held_dcd s" "opsys s1 = opsys s" "rigport s1 = rigport s"
    "pttport s1 = pttport s" "calm s1" "opened_rig_list s1 = me # opened_rig_list s0"
    "ptt_type (handle s1) = ptt_type (handle s)"
    using same_ports_held [OF h(2)] h assms(1)
    by (simp_all add: held_ptt_def held_dcd_def calm_def open_inv_def same_ports_def)
  from assms(1) obtain R where R: "opsys s = R\<lparr>open_fds := held_dcd s @ held_ptt s @ open_fds R\<rparr>"
    "set (held_dcd s) \<inter> set (held_ptt s @ open_fds R) = {}" "-1 \<notin> set (held_dcd s)"
    "snd (snd (port_close (port_type (rigport s)) (rigport s, R))) = opsys s0"
    "ptt_type (handle s) \<in> {RIG_PTT_SERIAL_RTS, RIG_PTT_SERIAL_DTR} \<longrightarrow> port_fd (pttport s) \<in> {-1, port_fd (rigport s)}"
    unfolding open_inv_def ports_inv_def by blast
  let ?s2 = "close_ptt s1"
  have "open_fds (opsys s1) = held_dcd s1 @ held_ptt s1 @ open_fds R" "set (held_dcd s1) \<inter> set (held_ptt s1) = {}"
    "ptt_type (handle s1) \<in> {RIG_PTT_SERIAL_RTS, RIG_PTT_SERIAL_DTR} \<longrightarrow> port_fd (pttport s1) \<in> {-1, port_fd (rigport s1)}"
    using R eqs by auto
  note s2 = close_ptt_frees [OF this]
  have s2': "held_dcd ?s2 = held_dcd s1" "calm ?s2"
    using s2 eqs(6) by (simp_all add: held_dcd_def calm_def same_core_def)
  have "open_fds (opsys ?s2) = held_dcd ?s2 @ open_fds R" "-1 \<notin> set (held_dcd ?s2)"
    using s2 s2' R(3) eqs(2) by simp_all
  from close_dcd_frees [OF this(1) s2'(2) this(2)] obtain
    s3: "opsys (close_dcd ?s2) = (opsys ?s2)\<lparr>open_fds := open_fds R\<rparr>" "same_core ?s2 (close_dcd ?s2)"
      "rigport (close_dcd ?s2) = rigport ?s2" "calm (close_dcd ?s2)" by blast
  have os: "opsys (close_dcd ?s2) = R" using s2 s3(1) eqs(3) R(1) by simp
  have core: "opened_rig_list (close_dcd ?s2) = me # opened_rig_list s0" "async_thread (close_dcd ?s2) = False"
    using s2 s3(2) eqs(7) h(1) by (simp_all add: same_core_def)
  show ?thesis
    using assms(1) os core s2 s3(3,4) R(4) eqs(4)
    by (simp add: rig_close_def Let_def s1_def [symmetric] closed_inv_def close_rigport_def remove_opened_rig_def
        set_comm_state_def calm_def open_inv_def)
qed

lemma run_call_inv:
  assumes "open_inv me s0 s" and "polite m"
  shows "open_inv me s0 (snd (run_call m s))"
proof -
  have "same_ports (handle s) (snd (run_state m (handle s)))" by (rule politeD [OF assms(2)])
  with assms(1) show ?thesis
    using same_ports_held by (fastforce simp: run_call_def Let_def case_prod_beta open_inv_def same_ports_def)
qed

text \<open>Once a handle can be opened, only the back end decides.\<close>

lemma rig_open_reaches_backend:
  assumes "rig_open is_host H caps B me s = (RIG_OK, s')" and "closed_inv s0 s" and "0 \<in> set (open_fds (opsys s0))"
  obtains s4 where "ports_inv s0 s4" and "calm s4" and "opened_rig_list s4 = opened_rig_list s0"
    and "\<And>g. rig_open is_host H caps (B\<lparr>cap_rig_open := g\<rparr>) me s = open_backend caps (B\<lparr>cap_rig_open := g\<rparr>) me s4"
proof -
  let ?en = "async_data_enabled s \<and> async_data_supported B"
  define u where "u = use_network is_host (rig_model caps) (s\<lparr>async_data_enabled := ?en, rigport := (rigport s)\<lparr>asyncio := ?en\<rparr>\<rparr>)"
  have u: "handle u = handle s" "opsys u = opsys s0" "calm u" "opened_rig_list u = opened_rig_list s0" "\<not> comm_state (handle u)"
    using assms(2) by (auto simp: u_def use_network_def closed_inv_def calm_def)
  obtain status ps where opened: "port_open H (rigport u, opsys u) = (status, ps)" by (rule prod.exhaust)
  obtain st2 s2 where ptt: "open_ptt H status (put_rigport ps u) = (st2, s2)" by (rule prod.exhaust)
  obtain st3 s3 where dcd: "open_dcd H st2 s2 = (st3, s3)" by (rule prod.exhaust)
  obtain st4 s4 where thread: "async_data_handler_start B s3 = (st4, s4)" by (rule prod.exhaust)
  have st: "0 \<le> status" "0 \<le> st3" "0 \<le> st4" "\<not> line_conflict u"
    using assms(1) u(5) opened ptt dcd thread
    by (auto simp: rig_open_def Let_def u_def [symmetric] rc_defs split: if_splits)
  have ok: "status = RIG_OK"
    by (rule port_open_status [OF opened st(1)])
  have zero: "0 \<in> set (open_fds (opsys u))" using assms(3) u(2) by simp
  note ports = ports_opened [OF opened [unfolded ok] ptt [unfolded ok] dcd st(2) u(3) zero]
  have "ports_inv u s3" "calm s3" "opened_rig_list s3 = opened_rig_list s0"
    using ports u by simp_all
  moreover have "s4 = s3\<lparr>async_thread := async_thread s4\<rparr>"
    using thread by (auto simp: async_data_handler_start_def split: if_splits)
  moreover have "ports_inv s0 (s3\<lparr>async_thread := b\<rparr>) = ports_inv u s3" "calm (s3\<lparr>async_thread := b\<rparr>) = calm s3" for b
    by (simp_all add: ports_inv_def held_ptt_def held_dcd_def calm_def u(2))
  ultimately have "ports_inv s0 s4" "calm s4" "opened_rig_list s4 = opened_rig_list s0"
    by (metis, metis, metis station.select_convs(6) station.surjective station.update_convs(8))
  moreover have "rig_open is_host H caps (B\<lparr>cap_rig_open := g\<rparr>) me s = open_backend caps (B\<lparr>cap_rig_open := g\<rparr>) me s4" for g
    using u(5) st opened ptt dcd thread
    by (simp add: rig_open_def Let_def u_def [symmetric] async_data_handler_start_def split: if_splits)
  ultimately show ?thesis by (rule that)
qed

lemma open_backend_start:
  assumes "ports_inv s0 s4" and "calm s4" and "opened_rig_list s4 = opened_rig_list s0"
  shows "open_inv me s0 (set_comm_state True (add_opened_rig me s4))"
proof -
  let ?s = "set_comm_state True (add_opened_rig me s4)"
  have "ports_inv s0 ?s = ports_inv s0 s4" "calm ?s = calm s4"
    by (simp_all add: ports_inv_def held_ptt_def held_dcd_def calm_def set_comm_state_def add_opened_rig_def)
  then show ?thesis using assms by (simp add: open_inv_def set_comm_state_def add_opened_rig_def)
qed

lemma rig_open_inv:
  assumes "rig_open is_host H caps B me s = (RIG_OK, s')" and "closed_inv s0 s" and "polite_back_end caps B"
    and "0 \<in> set (open_fds (opsys s0))"
  shows "open_inv me s0 s'"
proof -
  obtain s4 where s4: "ports_inv s0 s4" "calm s4" "opened_rig_list s4 = opened_rig_list s0"
    "\<And>g. rig_open is_host H caps (B\<lparr>cap_rig_open := g\<rparr>) me s = open_backend caps (B\<lparr>cap_rig_open := g\<rparr>) me s4"
    using rig_open_reaches_backend [OF assms(1,2,4)] by blast
  have run: "open_backend caps B me s4 = (RIG_OK, s')" using s4(4) [of "cap_rig_open B"] assms(1) by simp
  let ?s = "set_comm_state True (add_opened_rig me s4)"
  note s = open_backend_start [OF s4(1-3), of me]
  obtain s5 where s5: "open_inv me s0 s5"
    "s' = (let s6 = s5\<lparr>handle := first_vfo caps (handle s5)\<rparr> in if auto_disable_screensaver s6
       then snd (run_call (rig_set_parm caps RIG_PARM_SCREENSAVER (VInt 0)) s6) else s6)"
  proof (cases "cap_rig_open B")
    case None
    then show ?thesis using run s that [of ?s] by (simp add: open_backend_def Let_def)
  next
    case (Some f)
    have "open_inv me s0 (snd (run_call f ?s))"
      using assms(3) Some by (intro run_call_inv [OF s]) (simp add: polite_back_end_def)
    then show ?thesis
      using run Some that [of "snd (run_call f ?s)"]
      by (auto simp: open_backend_def Let_def case_prod_beta split: if_splits)
  qed
  have "same_ports (handle s5) (first_vfo caps (handle s5))"
    using assms(3) by (intro polite_first_vfo) (simp add: polite_back_end_def)
  with s5(1) have s6: "open_inv me s0 (s5\<lparr>handle := first_vfo caps (handle s5)\<rparr>)"
    using same_ports_held [of s5] by (simp add: open_inv_def same_ports_def)
  have "polite (rig_set_parm caps RIG_PARM_SCREENSAVER (VInt 0))"
    using assms(3) by (intro polite_set_parm) (simp add: polite_back_end_def)
  with run_call_inv [OF s6] s6 show ?thesis by (simp add: s5(2) Let_def)
qed

text \<open>
  A client that opens the handle only when it is not open, uses it only when it is, and may close
  it at any time. Using it may change the handle as it likes except for the ports: PTT released.
\<close>

inductive tidy ::
  "(string \<Rightarrow> bool) \<Rightarrow> hardware \<Rightarrow> 'p caps \<Rightarrow> 'p lifecaps \<Rightarrow> nat \<Rightarrow> 'p station \<Rightarrow> 'p station \<Rightarrow> bool"
  for is_host H caps B me s0 where
  start: "tidy is_host H caps B me s0 s0"
| opens: "\<lbrakk> tidy is_host H caps B me s0 s; \<not> comm_state (handle s); rig_open is_host H caps B me s = (RIG_OK, s') \<rbrakk>
    \<Longrightarrow> tidy is_host H caps B me s0 s'"
| uses: "\<lbrakk> tidy is_host H caps B me s0 s; same_ports (handle s) h \<rbrakk> \<Longrightarrow> tidy is_host H caps B me s0 (s\<lparr>handle := h\<rparr>)"
| closes: "tidy is_host H caps B me s0 s \<Longrightarrow> tidy is_host H caps B me s0 (snd (rig_close B me s))"

lemma tidy_inv:
  assumes "tidy is_host H caps B me s0 s" and "closed_inv s0 s0" and "polite_back_end caps B" and "0 \<in> set (open_fds (opsys s0))"
  shows "if comm_state (handle s) then open_inv me s0 s else closed_inv s0 s"
  using assms(1)
proof induction
  case start
  then show ?case using assms(2) by (simp add: closed_inv_def)
next
  case (opens s s')
  then have "open_inv me s0 s'" using assms(3,4) by (intro rig_open_inv [OF opens(3)]) simp_all
  then show ?case by (simp add: open_inv_def)
next
  case (uses s h)
  then show ?case
    using same_ports_held [of s h] by (simp add: open_inv_def closed_inv_def same_ports_def split: if_splits)
next
  case (closes s)
  show ?case
  proof (cases "comm_state (handle s)")
    case True
    with closes have "closed_inv s0 (snd (rig_close B me s))" using rig_close_inv assms(3) by fastforce
    then show ?thesis by (simp add: closed_inv_def)
  next
    case False
    then show ?thesis using closes by (simp add: rig_close_def)
  qed
qed

text \<open>C27: tidy clients leave nothing behind. From a handle that is not open, not on USB, and not
  with a DCD line on a serial port whose pipes are uninitialised, in a process whose descriptor 0 is open, let a client open it when it is
  closed, use it, and close it, any number of times, with a back end that leaves the ports alone.
  Whenever the handle is closed, the descriptors of the process and the list of opened handles
  are those of the start, and while it is open the list has it exactly one more time; releasing
  the handle at any moment leaves no entry of it in the list.\<close>

lemma tidy_client_leaves_nothing:
  assumes "tidy is_host H caps B me s0 s" and "closed_inv s0 s0" and "polite_back_end caps B"
    and "0 \<in> set (open_fds (opsys s0))" and "\<And>f. cap_rig_cleanup B = Some f \<Longrightarrow> polite f"
  shows "(if comm_state (handle s) then opened_rig_list s = me # opened_rig_list s0
          else opsys s = opsys s0 \<and> opened_rig_list s = opened_rig_list s0)
    \<and> opsys (snd (rig_cleanup B me s)) = opsys s0 \<and> opened_rig_list (snd (rig_cleanup B me s)) = opened_rig_list s0"
proof -
  note inv = tidy_inv [OF assms(1-4)]
  define c where "c = (if comm_state (handle s) then snd (rig_close B me s) else s)"
  have "closed_inv s0 c" using inv rig_close_inv [OF _ assms(3)] by (auto simp: c_def split: if_splits)
  then have "opsys (snd (rig_cleanup B me s)) = opsys s0" "opened_rig_list (snd (rig_cleanup B me s)) = opened_rig_list s0"
    by (simp_all add: rig_cleanup_def c_def [symmetric] Let_def closed_inv_def run_call_def case_prod_beta split: option.split)
  then show ?thesis using inv by (auto simp: open_inv_def closed_inv_def)
qed

definition quiet_life :: "int lifecaps" where
  "quiet_life = \<lparr>async_data_supported = False, cap_rig_open = None, cap_rig_close = None, cap_rig_cleanup = None, start_thread = 0\<rparr>"

definition closed_station :: "ptt_type_t \<Rightarrow> dcd_type_t \<Rightarrow> int list \<Rightarrow> int station" where
  "closed_station ptt dcd pipes = \<lparr>handle = (zero_rig \<lparr>tv_sec = 100, tv_nsec = 5\<rparr> 0)\<lparr>ptt_type := ptt, dcd_type := dcd\<rparr>,
     rigport = (some_port RIG_PORT_SERIAL ''/dev/ttyS0''), pttport = some_port RIG_PORT_PARALLEL ''/dev/parport0'',
     dcdport = (some_port RIG_PORT_SERIAL ''/dev/ttyS1'')\<lparr>pipe_fds := pipes\<rparr>,
     opsys = \<lparr>open_fds = [2, 1, 0], usb_handles = 0\<rparr>, opened_rig_list = [3], async_data_enabled = False,
     async_thread = False, auto_disable_screensaver = False, allocated = True\<rparr>"

lemma some_free:
  "lowest_free [2, 1, 0] = 3" "lowest_free [3, 2, 1, 0] = 4" "lowest_free [4, 3, 2, 1, 0] = 5"
  by (simp_all add: lowest_free_def upto.simps)

lemma closed_station_open:
  "port_open lazy_hardware (some_port RIG_PORT_SERIAL ''/dev/ttyS0'', \<lparr>open_fds = [2, 1, 0], usb_handles = 0\<rparr>)
    = (RIG_OK, (some_port RIG_PORT_SERIAL ''/dev/ttyS0'')\<lparr>port_fd := 3\<rparr>, \<lparr>open_fds = [3, 2, 1, 0], usb_handles = 0\<rparr>)"
  by (simp add: port_open_def some_port_def lazy_hardware_def kind_defs serial_lines_def set_rts_def some_free rc_defs)

lemma tidy_client_leaves_nothing_witness:
  "\<exists>s. rig_open (\<lambda>_. False) lazy_hardware no_caps quiet_life 7 (closed_station RIG_PTT_PARALLEL RIG_DCD_SERIAL_DSR []) = (RIG_OK, s)
    \<and> opened_rig_list s = [7, 3] \<and> opsys (snd (rig_cleanup quiet_life 7 s)) = \<lparr>open_fds = [2, 1, 0], usb_handles = 0\<rparr>
    \<and> opened_rig_list (snd (rig_cleanup quiet_life 7 s)) = [3]"
proof -
  let ?s0 = "closed_station RIG_PTT_PARALLEL RIG_DCD_SERIAL_DSR []"
  have "fst (rig_open (\<lambda>_. False) lazy_hardware no_caps quiet_life 7 ?s0) = RIG_OK"
    using closed_station_open
    by (simp add: rig_open_def closed_station_def use_network_def zero_rig_def line_conflict_def some_port_def
        quiet_life_def put_rigport_def open_ptt_def open_ptt_device_def device_open_def par_open_def os_open_def
        lazy_hardware_def put_pttport_def open_dcd_def open_dcd_serial_def default_name_def
        Hamlib_Port.ser_open_def put_dcdport_def async_data_handler_start_def open_backend_def some_free
        set_comm_state_def add_opened_rig_def no_caps_def rc_defs Let_def)
  then obtain s where run: "rig_open (\<lambda>_. False) lazy_hardware no_caps quiet_life 7 ?s0 = (RIG_OK, s)" by (metis prod.collapse)
  have closed: "closed_inv ?s0 ?s0"
    by (simp add: closed_inv_def calm_def closed_station_def zero_rig_def some_port_def)
  have polite: "polite_back_end no_caps quiet_life" by (simp add: polite_back_end_def no_caps_def quiet_life_def)
  have zero: "0 \<in> set (open_fds (opsys ?s0))" by (simp add: closed_station_def)
  have "tidy (\<lambda>_. False) lazy_hardware no_caps quiet_life 7 ?s0 s"
    by (rule tidy.opens [OF tidy.start _ run]) (simp add: closed_station_def zero_rig_def)
  from tidy_client_leaves_nothing [OF this closed polite zero] have
    "opsys (snd (rig_cleanup quiet_life 7 s)) = opsys ?s0" "opened_rig_list (snd (rig_cleanup quiet_life 7 s)) = [3]"
    by (simp_all add: quiet_life_def closed_station_def)
  moreover have "opened_rig_list s = [7, 3]"
    using rig_open_inv [OF run closed polite zero] by (simp add: open_inv_def closed_station_def)
  ultimately show ?thesis using run by (simp add: closed_station_def)
qed


lemmas open_steps = rig_open_def closed_station_def use_network_def zero_rig_def line_conflict_def some_port_def
  quiet_life_def put_rigport_def open_ptt_def open_ptt_device_def device_open_def par_open_def os_open_def
  lazy_hardware_def put_pttport_def open_dcd_def open_dcd_serial_def default_name_def
  Hamlib_Port.ser_open_def put_dcdport_def async_data_handler_start_def open_backend_def some_free
  set_comm_state_def add_opened_rig_def no_caps_def rc_defs Let_def

lemma closed_station_opens:
  assumes "ptt \<in> {RIG_PTT_PARALLEL, RIG_PTT_RIG}" and "dcd \<in> {RIG_DCD_SERIAL_DSR, RIG_DCD_NONE}"
  shows "fst (rig_open (\<lambda>_. False) lazy_hardware no_caps quiet_life 7 (closed_station ptt dcd pipes)) = RIG_OK"
  using closed_station_open assms
  by (auto simp: open_steps)


text \<open>opening a handle twice leaves a pointer behind. On a handle that is open, \<^verbatim>\<open>rig_open\<close>
  answers \<^verbatim>\<open>-RIG_EINVAL\<close>, closes the rig's port and marks the handle as not open, but does
  not take it off the list of opened handles; \<^verbatim>\<open>rig_cleanup\<close> then sees a closed handle and
  frees it while the list still has it.\<close>

lemma rig_open_twice:
  assumes "comm_state (handle s)" and "me \<in> set (opened_rig_list s)"
    and "rig_open is_host H caps B me s = (rc, s')" and "rig_cleanup B me s' = (rc2, s2)"
  shows "rc = - RIG_EINVAL \<and> \<not> comm_state (handle s') \<and> port_fd (rigport s') = -1
    \<and> \<not> allocated s2 \<and> me \<in> set (opened_rig_list s2)"
proof -
  let ?en = "async_data_enabled s \<and> async_data_supported B"
  define u where "u = use_network is_host (rig_model caps) (s\<lparr>async_data_enabled := ?en, rigport := (rigport s)\<lparr>asyncio := ?en\<rparr>\<rparr>)"
  have u: "comm_state (handle u)" "me \<in> set (opened_rig_list u)"
    using assms(1,2) by (simp_all add: u_def use_network_def)
  then have run: "rc = - RIG_EINVAL" "s' = set_comm_state False (close_rigport u)"
    using assms(3) by (simp_all add: rig_open_def Let_def u_def [symmetric])
  have "port_fd (fst (snd (port_close ty ps))) = -1" for ty ps
    by (cases ps) (simp add: port_close_def close_sync_data_pipe_def Let_def case_prod_beta)
  then have s': "\<not> comm_state (handle s')" "me \<in> set (opened_rig_list s')" "port_fd (rigport s') = -1"
    using u by (simp_all add: run(2) set_comm_state_def close_rigport_def)
  then have "\<not> allocated s2 \<and> opened_rig_list s2 = opened_rig_list s'"
    using assms(4) by (auto simp: rig_cleanup_def run_call_def Let_def case_prod_beta split: option.splits)
  then show ?thesis using run s' by simp
qed

lemma rig_open_twice_witness:
  "\<exists>s s' s2. rig_open (\<lambda>_. False) lazy_hardware no_caps quiet_life 7 (closed_station RIG_PTT_RIG RIG_DCD_NONE []) = (RIG_OK, s)
    \<and> rig_open (\<lambda>_. False) lazy_hardware no_caps quiet_life 7 s = (- RIG_EINVAL, s')
    \<and> rig_cleanup quiet_life 7 s' = (RIG_OK, s2) \<and> \<not> allocated s2 \<and> 7 \<in> set (opened_rig_list s2)"
proof -
  let ?s0 = "closed_station RIG_PTT_RIG RIG_DCD_NONE []"
  have "fst (rig_open (\<lambda>_. False) lazy_hardware no_caps quiet_life 7 ?s0) = RIG_OK"
    by (rule closed_station_opens) simp_all
  then obtain s where run: "rig_open (\<lambda>_. False) lazy_hardware no_caps quiet_life 7 ?s0 = (RIG_OK, s)" by (metis prod.collapse)
  have "open_inv 7 ?s0 s"
    by (rule rig_open_inv [OF run])
      (simp_all add: closed_inv_def calm_def closed_station_def zero_rig_def some_port_def polite_back_end_def no_caps_def quiet_life_def)
  then have s: "comm_state (handle s)" "7 \<in> set (opened_rig_list s)" by (simp_all add: open_inv_def)
  obtain rc s' where again: "rig_open (\<lambda>_. False) lazy_hardware no_caps quiet_life 7 s = (rc, s')" by (rule prod.exhaust)
  obtain rc2 s2 where freed: "rig_cleanup quiet_life 7 s' = (rc2, s2)" by (rule prod.exhaust)
  moreover have "rc2 = RIG_OK" using freed by (simp add: rig_cleanup_def Let_def)
  ultimately show ?thesis using run again rig_open_twice [OF s again freed] by blast
qed

text \<open>closing a handle can close the standard input. The pipes of the DCD port are never
  initialised: in a handle fresh from \<^verbatim>\<open>calloc\<close> they are descriptor 0. When the DCD line is
  on a serial port of its own, \<^verbatim>\<open>rig_close\<close> closes that port with its pipes, and
  descriptor 0 is no longer open.\<close>

lemma rig_close_closes_stdin:
  assumes "comm_state (handle s)" and "dcd_serial (dcd_type (handle s))" and "pipe_fds (dcdport s) = [0, 0, 0, 0]"
    and "port_fd (dcdport s) \<notin> {-1, port_fd (rigport s)}" and "ptt_type (handle s) \<in> {RIG_PTT_NONE, RIG_PTT_RIG}"
    and "distinct (open_fds (opsys s))" and "\<And>f. cap_rig_close B = Some f \<Longrightarrow> polite f"
  shows "0 \<notin> set (open_fds (opsys (snd (rig_close B me s))))"
proof -
  define s1 where "s1 = async_data_handler_stop (case cap_rig_close B of None \<Rightarrow> s | Some f \<Rightarrow> snd (run_call f s))"
  have "\<exists>h. s1 = s\<lparr>handle := h, async_thread := False\<rparr> \<and> same_ports (handle s) h"
    using politeD [OF assms(7)]
    by (auto simp: s1_def async_data_handler_stop_def run_call_def Let_def case_prod_beta split: option.split
        intro: exI [of _ "handle s"])
  then obtain h where h: "s1 = s\<lparr>handle := h, async_thread := False\<rparr>" "same_ports (handle s) h" by blast
  have "close_ptt s1 = s1" using assms(5) h by (auto simp: close_ptt_def same_ports_def)
  moreover have "close_dcd s1 = close_dcd_serial s1"
    using assms(2) h by (auto simp: close_dcd_def dcd_serial_def same_ports_def)
  moreover have "0 \<notin> set (open_fds (opsys (close_dcd_serial s1)))"
    using assms(3,4,6) h(1)
    by (auto simp: close_dcd_serial_def port_close_def Hamlib_Port.ser_close_def close_sync_data_pipe_def
        os_close_all_def os_close_def Let_def)
  moreover have "set (open_fds (opsys (close_rigport t))) \<subseteq> set (open_fds (opsys t))" for t :: "'a station"
    using port_close_subset by (fastforce simp: close_rigport_def)
  ultimately have "0 \<notin> set (open_fds (opsys (close_rigport (put_dcdport ((dcdport s2)\<lparr>port_fd := -1\<rparr>, opsys s2)
      (put_pttport ((pttport s2)\<lparr>port_fd := -1\<rparr>, opsys s2) s2)))))" if "s2 = close_dcd (close_ptt s1)" for s2
    using that by (metis put_fields(9) snd_conv subsetD)
  then show ?thesis
    using assms(1)
    by (simp add: rig_close_def Let_def s1_def [symmetric] set_comm_state_def remove_opened_rig_def)
qed

lemma rig_close_closes_stdin_witness:
  "\<exists>s. rig_open (\<lambda>_. False) lazy_hardware no_caps quiet_life 7 (closed_station RIG_PTT_RIG RIG_DCD_SERIAL_DSR [0, 0, 0, 0]) = (RIG_OK, s)
    \<and> 0 \<in> set (open_fds (opsys s)) \<and> 0 \<notin> set (open_fds (opsys (snd (rig_close quiet_life 7 s))))"
proof -
  let ?s0 = "closed_station RIG_PTT_RIG RIG_DCD_SERIAL_DSR [0, 0, 0, 0]"
  have "fst (rig_open (\<lambda>_. False) lazy_hardware no_caps quiet_life 7 ?s0) = RIG_OK"
    by (rule closed_station_opens) simp_all
  then obtain s where run: "rig_open (\<lambda>_. False) lazy_hardware no_caps quiet_life 7 ?s0 = (RIG_OK, s)" by (metis prod.collapse)
  have "comm_state (handle s) \<and> dcd_serial (dcd_type (handle s)) \<and> pipe_fds (dcdport s) = [0, 0, 0, 0]
      \<and> port_fd (dcdport s) \<notin> {-1, port_fd (rigport s)} \<and> ptt_type (handle s) = RIG_PTT_RIG
      \<and> open_fds (opsys s) = [4, 3, 2, 1, 0]"
    using run closed_station_open by (auto simp: open_steps dcd_serial_def first_vfo_def)
  with run rig_close_closes_stdin [of s quiet_life 7] show ?thesis by (simp add: quiet_life_def)
qed

end
