(* ===== verification/Hamlib_Rotator.thy ===== *)
theory Hamlib_Rotator
  imports Hamlib_State Hamlib_Register Hamlib_Port Hamlib_Float
begin

text \<open>
  The front end for antenna rotators: \<^verbatim>\<open>src/rotator.c\<close> and \<^verbatim>\<open>src/rot_settings.c\<close>.
  Angles are the real numbers that \<^verbatim>\<open>float\<close> holds: every sum is rounded (\<open>to_float\<close>). A handle's record also holds
  what is outside of it: the clock, the operating system and the process-wide list of opened
  rotators (handles are numbers). A rotator's registry is the one of \<^verbatim>\<open>Hamlib_Register\<close>.
  The copies of the port for old clients are left out, as for radios.
\<close>

subsection \<open>Handles and back ends\<close>

record timeval =
  tv_s :: int
  tv_us :: int

record 'p rot =
  min_az :: real
  max_az :: real
  min_el :: real
  max_el :: real
  south_zero :: bool
  az_offset :: real
  el_offset :: real
  current_speed :: int
  rot_get_funcs :: setting_t
  rot_set_funcs :: setting_t
  rot_get_levels :: setting_t
  rot_set_levels :: setting_t
  rot_get_parms :: setting_t
  rot_set_parms :: setting_t
  rot_statuses :: u32
  rotport :: hamlib_port
  rotport2 :: hamlib_port
  rot_comm_state :: bool
  rot_priv :: 'p
  rot_clock :: timeval
  rot_os :: os
  opened_rot_list :: "nat list"

type_synonym 'p rot_call = "('p rot, int) state"

text \<open>A function that answers a value besides the status leaves it alone when it fails: \<^verbatim>\<open>None\<close>.\<close>

type_synonym ('p, 'a) rot_query = "('p rot, int \<times> 'a option) state"

record 'p rot_caps =
  rot_model :: int
  rot_port_type :: rig_port_t
  caps_min_az :: real
  caps_max_az :: real
  caps_min_el :: real
  caps_max_el :: real
  has_funcs :: "setting_t \<times> setting_t"
  has_levels :: "setting_t \<times> setting_t"
  has_parms :: "setting_t \<times> setting_t"
  caps_has_status :: u32
  cap_rot_init :: "'p rot_call option"
  cap_rot_cleanup :: "'p rot_call option"
  cap_rot_open :: "'p rot_call option"
  cap_rot_close :: "'p rot_call option"
  cap_set_position :: "(real \<Rightarrow> real \<Rightarrow> 'p rot_call) option"
  cap_get_position :: "('p, real \<times> real) rot_query option"
  cap_park :: "'p rot_call option"
  cap_stop :: "'p rot_call option"
  cap_rot_reset :: "(int \<Rightarrow> 'p rot_call) option"
  cap_move :: "(int \<Rightarrow> int \<Rightarrow> 'p rot_call) option"
  cap_get_status :: "('p, u32) rot_query option"
  cap_set_level :: "(setting_t \<Rightarrow> value_t \<Rightarrow> 'p rot_call) option"
  cap_get_level :: "(setting_t \<Rightarrow> ('p, value_t) rot_query) option"
  cap_set_func :: "(setting_t \<Rightarrow> int \<Rightarrow> 'p rot_call) option"
  cap_get_func :: "(setting_t \<Rightarrow> ('p, int) rot_query) option"
  cap_set_parm :: "(setting_t \<Rightarrow> value_t \<Rightarrow> 'p rot_call) option"
  cap_get_parm :: "(setting_t \<Rightarrow> ('p, value_t) rot_query) option"
  cap_set_ext_level :: "(nat \<Rightarrow> value_t \<Rightarrow> 'p rot_call) option"
  cap_get_ext_level :: "(nat \<Rightarrow> ('p, value_t) rot_query) option"
  cap_set_ext_func :: "(nat \<Rightarrow> int \<Rightarrow> 'p rot_call) option"
  cap_get_ext_func :: "(nat \<Rightarrow> ('p, int) rot_query) option"
  cap_set_ext_parm :: "(nat \<Rightarrow> value_t \<Rightarrow> 'p rot_call) option"
  cap_get_ext_parm :: "(nat \<Rightarrow> ('p, value_t) rot_query) option"


definition CHECK_ROT_ARG :: "'p rot \<Rightarrow> bool" where
  "CHECK_ROT_ARG rot \<longleftrightarrow> \<not> rot_comm_state rot"

definition DEFAULT_SERIAL_PORT :: string where "DEFAULT_SERIAL_PORT = ''/dev/ttyS0''"
definition DEFAULT_PARALLEL_PORT :: string where "DEFAULT_PARALLEL_PORT = ''/dev/parport0''"
definition ROT_MODEL_RT21 :: int where "ROT_MODEL_RT21 = 405"

definition put_rotport :: "port_state \<Rightarrow> 'p rot \<Rightarrow> 'p rot" where
  "put_rotport = (\<lambda>(p, S) rot. rot\<lparr>rotport := p, rot_os := S\<rparr>)"

subsection \<open>rot_init\<close>

text \<open>
  The handle that \<^verbatim>\<open>rot_init\<close> fills is all zeros but for what is outside of it; \<open>blank\<close>
  is that handle.
\<close>

definition default_rotport :: "rig_port_t \<Rightarrow> hamlib_port \<Rightarrow> hamlib_port" where
  "default_rotport ty p = p\<lparr>port_type := ty, port_fd := -1, pathname :=
     (case ty of
        RIG_PORT_SERIAL \<Rightarrow> DEFAULT_SERIAL_PORT
      | RIG_PORT_PARALLEL \<Rightarrow> DEFAULT_PARALLEL_PORT
      | RIG_PORT_NETWORK \<Rightarrow> ''127.0.0.1:4533''
      | RIG_PORT_UDP_NETWORK \<Rightarrow> ''127.0.0.1:4533''
      | _ \<Rightarrow> [])\<rparr>"

definition rot_populate :: "'p rot_caps \<Rightarrow> 'p rot \<Rightarrow> 'p rot" where
  "rot_populate caps blank = blank\<lparr>
     rot_comm_state := False, rotport := default_rotport (rot_port_type caps) (rotport blank),
     min_el := caps_min_el caps, max_el := caps_max_el caps,
     min_az := caps_min_az caps, max_az := caps_max_az caps, current_speed := 50,
     rot_get_funcs := fst (has_funcs caps), rot_set_funcs := snd (has_funcs caps),
     rot_get_levels := fst (has_levels caps), rot_set_levels := snd (has_levels caps),
     rot_get_parms := fst (has_parms caps), rot_set_parms := snd (has_parms caps),
     rot_statuses := caps_has_status caps\<rparr>"

definition rot_setup :: "'p rot_caps \<Rightarrow> 'p rot \<Rightarrow> 'p rot option" where
  "rot_setup caps blank =
     (let rot = rot_populate caps blank
      in case cap_rot_init caps of
           None \<Rightarrow> Some rot
         | Some f \<Rightarrow> (let (retcode, rot') = run_state f rot in if retcode \<noteq> RIG_OK then None else Some rot'))"

definition rot_init ::
  "('p rot_caps \<Rightarrow> bool) \<Rightarrow> (string \<Rightarrow> 'p rot_caps list) \<Rightarrow> bool \<Rightarrow> 'p rot \<Rightarrow> int
    \<Rightarrow> 'p rot_caps table \<Rightarrow> ('p rot_caps \<times> 'p rot) option \<times> 'p rot_caps table" where
  "rot_init mem family got_memory blank m t =
     (let t' = snd (rot_check_backend rot_model mem family m t)
      in (case rot_get_caps rot_model m t' of
            None \<Rightarrow> None
          | Some caps \<Rightarrow> if got_memory then map_option (Pair caps) (rot_setup caps blank) else None, t'))"

subsection \<open>rot_open, rot_close and rot_cleanup\<close>

text \<open>
  The tests for USB name macros that are defined nowhere, so USB falls to the default.
\<close>

definition rot_open_port :: "hardware \<Rightarrow> 'p rot_caps \<Rightarrow> 'p rot \<Rightarrow> int \<times> 'p rot" where
  "rot_open_port H caps rot =
     (let ps = (rotport rot, rot_os rot)
      in case port_type (rotport rot) of
           RIG_PORT_SERIAL \<Rightarrow> (let (status, ps') = serial_open H ps in (status, put_rotport ps' rot))
         | RIG_PORT_PARALLEL \<Rightarrow>
             (let (status, ps') = par_open H ps in (if status < 0 then status else RIG_OK, put_rotport ps' rot))
         | RIG_PORT_DEVICE \<Rightarrow>
             (let (fd, S) = os_open H (pathname (rotport rot)) (rot_os rot)
              in if fd < 0 then (- RIG_EIO, rot\<lparr>rot_os := S\<rparr>)
                 else let rot1 = put_rotport ((rotport rot)\<lparr>port_fd := fd\<rparr>, S) rot
                      in if rot_model caps = ROT_MODEL_RT21 \<and> pathname (rotport2 rot) \<noteq> []
                         then let (fd2, S2) = os_open H (pathname (rotport2 rot)) S
                              in if fd2 < 0 then (- RIG_EIO, rot1\<lparr>rot_os := S2\<rparr>)
                                 else (RIG_OK, rot1\<lparr>rotport2 := (rotport2 rot)\<lparr>port_fd := fd2\<rparr>, rot_os := S2\<rparr>)
                         else (RIG_OK, rot1))
         | RIG_PORT_NONE \<Rightarrow> (RIG_OK, rot)
         | RIG_PORT_RPC \<Rightarrow> (RIG_OK, rot)
         | RIG_PORT_NETWORK \<Rightarrow>
             (let (status, ps') = network_open H ps in (if status < 0 then status else RIG_OK, put_rotport ps' rot))
         | RIG_PORT_UDP_NETWORK \<Rightarrow>
             (let (status, ps') = network_open H ps in (if status < 0 then status else RIG_OK, put_rotport ps' rot))
         | _ \<Rightarrow> (- RIG_EINVAL, rot))"

definition rot_open ::
  "(string \<Rightarrow> bool) \<Rightarrow> hardware \<Rightarrow> 'p rot_caps \<Rightarrow> nat \<Rightarrow> 'p rot \<Rightarrow> int \<times> 'p rot" where
  "rot_open is_address H caps me rot0 =
     (if rot_comm_state rot0 then (- RIG_EINVAL, rot0)
      else let rot = rot0\<lparr>rotport := (rotport rot0)\<lparr>port_fd := -1,
                   port_type := (if is_address (pathname (rotport rot0)) then RIG_PORT_NETWORK
                                 else port_type (rotport rot0))\<rparr>\<rparr>;
               (status, rot1) = rot_open_port H caps rot
           in if status \<noteq> RIG_OK then (status, rot1)
              else let rot2 = rot1\<lparr>opened_rot_list := me # opened_rot_list rot1, rot_comm_state := True\<rparr>
                   in case cap_rot_open caps of None \<Rightarrow> (RIG_OK, rot2) | Some f \<Rightarrow> run_state f rot2)"

definition rot_close_port :: "'p rot \<Rightarrow> 'p rot" where
  "rot_close_port rot =
     (if port_fd (rotport rot) = -1 then rot
      else let ps = (rotport rot, rot_os rot);
               (p, S) = snd (case port_type (rotport rot) of
                   RIG_PORT_SERIAL \<Rightarrow> Hamlib_Port.ser_close ps
                 | RIG_PORT_NETWORK \<Rightarrow> network_close ps
                 | RIG_PORT_UDP_NETWORK \<Rightarrow> network_close ps
                 | _ \<Rightarrow> device_close ps)
           in put_rotport (p\<lparr>port_fd := -1\<rparr>, S) rot)"

definition rot_close :: "'p rot_caps \<Rightarrow> nat \<Rightarrow> 'p rot \<Rightarrow> int \<times> 'p rot" where
  "rot_close caps me rot =
     (if \<not> rot_comm_state rot then (- RIG_EINVAL, rot)
      else let rot1 = (case cap_rot_close caps of None \<Rightarrow> rot | Some f \<Rightarrow> snd (run_state f rot));
               rot2 = rot_close_port rot1
           in (RIG_OK, rot2\<lparr>opened_rot_list := remove1 me (opened_rot_list rot2), rot_comm_state := False\<rparr>))"

text \<open>\<^verbatim>\<open>rot_cleanup\<close> frees the handle; what is left is what was outside of it.\<close>

definition rot_cleanup :: "'p rot_caps \<Rightarrow> nat \<Rightarrow> 'p rot \<Rightarrow> int \<times> 'p rot" where
  "rot_cleanup caps me rot =
     (let rot1 = (if rot_comm_state rot then snd (rot_close caps me rot) else rot)
      in (RIG_OK, case cap_rot_cleanup caps of None \<Rightarrow> rot1 | Some f \<Rightarrow> snd (run_state f rot1)))"


subsection \<open>Position\<close>

text \<open>The half turn for a rotator whose zero is south.\<close>

definition south_adjust :: "'p rot \<Rightarrow> real \<Rightarrow> real" where
  "south_adjust rot az = (if south_zero rot then to_float (az + (if az \<ge> 180 then - 180 else 180)) else az)"

definition rot_set_position :: "'p rot_caps \<Rightarrow> real \<Rightarrow> real \<Rightarrow> 'p rot_call" where
  "rot_set_position caps azimuth elevation = do {
     rot \<leftarrow> gets id;
     if CHECK_ROT_ARG rot then State_Monad.return (- RIG_EINVAL)
     else
       let az = south_adjust rot (to_float (azimuth + az_offset rot)); el = to_float (elevation + el_offset rot)
       in if az < min_az rot \<or> az > max_az rot \<or> el < min_el rot \<or> el > max_el rot
          then State_Monad.return (- RIG_EINVAL)
          else case cap_set_position caps of
              None \<Rightarrow> State_Monad.return (- RIG_ENAVAIL)
            | Some f \<Rightarrow> f az el
   }"

definition rot_get_position :: "'p rot_caps \<Rightarrow> ('p, real \<times> real) rot_query" where
  "rot_get_position caps = do {
     rot \<leftarrow> gets id;
     if CHECK_ROT_ARG rot then State_Monad.return (- RIG_EINVAL, None)
     else case cap_get_position caps of
         None \<Rightarrow> State_Monad.return (- RIG_ENAVAIL, None)
       | Some f \<Rightarrow> do {
           (retval, position) \<leftarrow> f;
           rot \<leftarrow> gets id;
           State_Monad.return
             (retval, if retval \<noteq> RIG_OK then None
                      else map_option (\<lambda>(az, el).
                        (to_float (south_adjust rot az - az_offset rot), to_float (el - el_offset rot))) position)
         }
   }"

subsection \<open>Operations that only ask the back end\<close>

text \<open>
  The guards that the other operations share: an opened handle, a setting the handle has
  (where it is about one), and a function of the back end.
\<close>

definition rot_ask :: "('p rot \<Rightarrow> bool) \<Rightarrow> 'f option \<Rightarrow> ('f \<Rightarrow> ('p rot, 'r) state) \<Rightarrow> (int \<Rightarrow> 'r) \<Rightarrow> ('p rot, 'r) state" where
  "rot_ask has capability call failed = do {
     rot \<leftarrow> gets id;
     if CHECK_ROT_ARG rot then State_Monad.return (failed (- RIG_EINVAL))
     else case capability of
         None \<Rightarrow> State_Monad.return (failed (- RIG_ENAVAIL))
       | Some f \<Rightarrow> if has rot then call f else State_Monad.return (failed (- RIG_ENAVAIL))
   }"

definition rot_park :: "'p rot_caps \<Rightarrow> 'p rot_call" where
  "rot_park caps = rot_ask (\<lambda>_. True) (cap_park caps) id id"

definition rot_stop :: "'p rot_caps \<Rightarrow> 'p rot_call" where
  "rot_stop caps = rot_ask (\<lambda>_. True) (cap_stop caps) id id"

definition rot_reset :: "'p rot_caps \<Rightarrow> int \<Rightarrow> 'p rot_call" where
  "rot_reset caps what = rot_ask (\<lambda>_. True) (cap_rot_reset caps) (\<lambda>f. f what) id"

definition rot_move :: "'p rot_caps \<Rightarrow> int \<Rightarrow> int \<Rightarrow> 'p rot_call" where
  "rot_move caps direction speed = rot_ask (\<lambda>_. True) (cap_move caps) (\<lambda>f. f direction speed) id"

definition rot_get_status :: "'p rot_caps \<Rightarrow> ('p, u32) rot_query" where
  "rot_get_status caps = rot_ask (\<lambda>_. True) (cap_get_status caps) id (\<lambda>rc. (rc, None))"

definition rot_has_get_level :: "'p rot \<Rightarrow> setting_t \<Rightarrow> setting_t" where
  "rot_has_get_level rot level = rot_get_levels rot AND level"
definition rot_has_set_level :: "'p rot \<Rightarrow> setting_t \<Rightarrow> setting_t" where
  "rot_has_set_level rot level = rot_set_levels rot AND level"
definition rot_has_get_parm :: "'p rot \<Rightarrow> setting_t \<Rightarrow> setting_t" where
  "rot_has_get_parm rot parm = rot_get_parms rot AND parm"
definition rot_has_set_parm :: "'p rot \<Rightarrow> setting_t \<Rightarrow> setting_t" where
  "rot_has_set_parm rot parm = rot_set_parms rot AND parm"
definition rot_has_get_func :: "'p rot \<Rightarrow> setting_t \<Rightarrow> setting_t" where
  "rot_has_get_func rot func = rot_get_funcs rot AND func"
definition rot_has_set_func :: "'p rot \<Rightarrow> setting_t \<Rightarrow> setting_t" where
  "rot_has_set_func rot func = rot_set_funcs rot AND func"

definition rot_set_level :: "'p rot_caps \<Rightarrow> setting_t \<Rightarrow> value_t \<Rightarrow> 'p rot_call" where
  "rot_set_level caps level val =
     rot_ask (\<lambda>rot. rot_has_set_level rot level \<noteq> 0) (cap_set_level caps) (\<lambda>f. f level val) id"

definition rot_get_level :: "'p rot_caps \<Rightarrow> setting_t \<Rightarrow> ('p, value_t) rot_query" where
  "rot_get_level caps level =
     rot_ask (\<lambda>rot. rot_has_get_level rot level \<noteq> 0) (cap_get_level caps) (\<lambda>f. f level) (\<lambda>rc. (rc, None))"

definition rot_set_parm :: "'p rot_caps \<Rightarrow> setting_t \<Rightarrow> value_t \<Rightarrow> 'p rot_call" where
  "rot_set_parm caps parm val =
     rot_ask (\<lambda>rot. rot_has_set_parm rot parm \<noteq> 0) (cap_set_parm caps) (\<lambda>f. f parm val) id"

definition rot_get_parm :: "'p rot_caps \<Rightarrow> setting_t \<Rightarrow> ('p, value_t) rot_query" where
  "rot_get_parm caps parm =
     rot_ask (\<lambda>rot. rot_has_get_parm rot parm \<noteq> 0) (cap_get_parm caps) (\<lambda>f. f parm) (\<lambda>rc. (rc, None))"

definition rot_set_func :: "'p rot_caps \<Rightarrow> setting_t \<Rightarrow> int \<Rightarrow> 'p rot_call" where
  "rot_set_func caps func status =
     rot_ask (\<lambda>rot. rot_has_set_func rot func \<noteq> 0) (cap_set_func caps) (\<lambda>f. f func status) id"

text \<open>\<^verbatim>\<open>rot_get_func\<close> tests \<^verbatim>\<open>func\<close> where the others test the pointer to the answer.\<close>

definition rot_get_func :: "'p rot_caps \<Rightarrow> setting_t \<Rightarrow> ('p, int) rot_query" where
  "rot_get_func caps func =
     (if func = 0 then State_Monad.return (- RIG_EINVAL, None)
      else rot_ask (\<lambda>rot. rot_has_get_func rot func \<noteq> 0) (cap_get_func caps) (\<lambda>f. f func) (\<lambda>rc. (rc, None)))"

definition rot_set_ext_level :: "'p rot_caps \<Rightarrow> nat \<Rightarrow> value_t \<Rightarrow> 'p rot_call" where
  "rot_set_ext_level caps token val = rot_ask (\<lambda>_. True) (cap_set_ext_level caps) (\<lambda>f. f token val) id"

definition rot_get_ext_level :: "'p rot_caps \<Rightarrow> nat \<Rightarrow> ('p, value_t) rot_query" where
  "rot_get_ext_level caps token = rot_ask (\<lambda>_. True) (cap_get_ext_level caps) (\<lambda>f. f token) (\<lambda>rc. (rc, None))"

definition rot_set_ext_func :: "'p rot_caps \<Rightarrow> nat \<Rightarrow> int \<Rightarrow> 'p rot_call" where
  "rot_set_ext_func caps token status = rot_ask (\<lambda>_. True) (cap_set_ext_func caps) (\<lambda>f. f token status) id"

definition rot_get_ext_func :: "'p rot_caps \<Rightarrow> nat \<Rightarrow> ('p, int) rot_query" where
  "rot_get_ext_func caps token = rot_ask (\<lambda>_. True) (cap_get_ext_func caps) (\<lambda>f. f token) (\<lambda>rc. (rc, None))"

definition rot_set_ext_parm :: "'p rot_caps \<Rightarrow> nat \<Rightarrow> value_t \<Rightarrow> 'p rot_call" where
  "rot_set_ext_parm caps token val = rot_ask (\<lambda>_. True) (cap_set_ext_parm caps) (\<lambda>f. f token val) id"

definition rot_get_ext_parm :: "'p rot_caps \<Rightarrow> nat \<Rightarrow> ('p, value_t) rot_query" where
  "rot_get_ext_parm caps token = rot_ask (\<lambda>_. True) (cap_get_ext_parm caps) (\<lambda>f. f token) (\<lambda>rc. (rc, None))"


subsection \<open>Opening and cleaning up\<close>

text \<open>A function of a back end that leaves what belongs to the front end alone.\<close>

definition polite_rot :: "'p rot_call option \<Rightarrow> bool" where
  "polite_rot c \<longleftrightarrow> (\<forall>f rot rc rot'. c = Some f \<longrightarrow> run_state f rot = (rc, rot') \<longrightarrow>
     rotport rot' = rotport rot \<and> rotport2 rot' = rotport2 rot \<and> rot_os rot' = rot_os rot
     \<and> opened_rot_list rot' = opened_rot_list rot \<and> rot_comm_state rot' = rot_comm_state rot)"

lemma polite_rotD:
  assumes "polite_rot c" and "c = Some f"
  shows "rotport (snd (run_state f rot)) = rotport rot" "rotport2 (snd (run_state f rot)) = rotport2 rot"
    "rot_os (snd (run_state f rot)) = rot_os rot" "opened_rot_list (snd (run_state f rot)) = opened_rot_list rot"
    "rot_comm_state (snd (run_state f rot)) = rot_comm_state rot"
  using assms unfolding polite_rot_def by (metis prod.collapse)+

text \<open>The model whose second port is opened too.\<close>

definition two_ports :: "'p rot_caps \<Rightarrow> 'p rot \<Rightarrow> bool" where
  "two_ports caps rot \<longleftrightarrow> port_type (rotport rot) = RIG_PORT_DEVICE \<and> rot_model caps = ROT_MODEL_RT21 \<and> pathname (rotport2 rot) \<noteq> []"

definition takes_fd :: "rig_port_t \<Rightarrow> bool" where
  "takes_fd ty \<longleftrightarrow> ty \<in> {RIG_PORT_SERIAL, RIG_PORT_PARALLEL, RIG_PORT_DEVICE, RIG_PORT_NETWORK, RIG_PORT_UDP_NETWORK}"

lemma put_rotport_fields [simp]:
  "rotport (put_rotport ps rot) = fst ps" "rot_os (put_rotport ps rot) = snd ps" "rotport2 (put_rotport ps rot) = rotport2 rot"
  "opened_rot_list (put_rotport ps rot) = opened_rot_list rot" "rot_comm_state (put_rotport ps rot) = rot_comm_state rot"
  by (simp_all add: put_rotport_def case_prod_beta)

lemma rot_open_port_cases:
  assumes "rot_open_port H caps rot = (status, rot')" and "\<not> two_ports caps rot"
  shows "opened_rot_list rot' = opened_rot_list rot \<and> rot_comm_state rot' = rot_comm_state rot
    \<and> port_type (rotport rot') = port_type (rotport rot)
    \<and> (if status = RIG_OK \<and> takes_fd (port_type (rotport rot))
       then port_fd (rotport rot') = lowest_free (open_fds (rot_os rot))
         \<and> rot_os rot' = (rot_os rot)\<lparr>open_fds := lowest_free (open_fds (rot_os rot)) # open_fds (rot_os rot)\<rparr>
       else rot_os rot' = rot_os rot \<and> (status = RIG_OK \<longrightarrow> rotport rot' = rotport rot))"
  using assms lowest_free_nonneg [of "open_fds (rot_os rot)"]
  by (cases "port_type (rotport rot)")
    (auto simp: rot_open_port_def two_ports_def takes_fd_def kind_defs Let_def rc_defs split: if_splits)

lemma rot_close_port_frees:
  assumes "port_fd (rotport rot) = fd" and "0 < fd" and "takes_fd (port_type (rotport rot))"
    and "rot_os rot = S\<lparr>open_fds := fd # fds\<rparr>"
  shows "rot_os (rot_close_port rot) = S\<lparr>open_fds := fds\<rparr>"
  using assms
  by (auto simp: rot_close_port_def takes_fd_def Hamlib_Port.ser_close_def network_close_def device_close_def Let_def
      split: rig_port_t.splits)

lemma rot_close_port_closed: "port_fd (rotport rot) = -1 \<Longrightarrow> rot_close_port rot = rot"
  by (simp add: rot_close_port_def)

lemma rot_close_port_list: "opened_rot_list (rot_close_port rot) = opened_rot_list rot"
  by (simp add: rot_close_port_def Let_def case_prod_beta)

text \<open>what opening a rotator takes, cleaning up gives back. With standard input open and a back end
  that leaves the ports alone, a closed handle that is opened, whatever that answers, and then
  cleaned up leaves the open descriptors and the list of opened rotators as they were. It
  also holds when the back end refuses: \<^verbatim>\<open>rot_open\<close> then answers its error with the port
  still open, and \<^verbatim>\<open>rot_cleanup\<close> closes it. The RT-21 with a second port is left out:
  nothing closes that port.\<close>

lemma rotator_gives_back:
  assumes "polite_rot (cap_rot_open caps)" "polite_rot (cap_rot_close caps)" "polite_rot (cap_rot_cleanup caps)"
    and "\<not> rot_comm_state rot" and "0 \<in> set (open_fds (rot_os rot))" and "\<not> (rot_model caps = ROT_MODEL_RT21 \<and> pathname (rotport2 rot) \<noteq> [])"
    and opened: "rot_open is_address H caps me rot = (rc, rot1)"
  shows "rot_os (snd (rot_cleanup caps me rot1)) = rot_os rot \<and> opened_rot_list (snd (rot_cleanup caps me rot1)) = opened_rot_list rot"
proof -
  define rot0 where "rot0 = rot\<lparr>rotport := (rotport rot)\<lparr>port_fd := -1,
      port_type := (if is_address (pathname (rotport rot)) then RIG_PORT_NETWORK else port_type (rotport rot))\<rparr>\<rparr>"
  obtain status r where port: "rot_open_port H caps rot0 = (status, r)" by fastforce
  have one: "\<not> two_ports caps rot0" using assms(6) by (simp add: two_ports_def rot0_def)
  note r = rot_open_port_cases [OF port one]
  have same0: "rot_os rot0 = rot_os rot" "opened_rot_list rot0 = opened_rot_list rot" "rot_comm_state rot0 = rot_comm_state rot"
    "port_fd (rotport rot0) = -1"
    by (simp_all add: rot0_def)
  have cleanup: "rot_os (snd (rot_cleanup caps me x)) = rot_os y \<and> opened_rot_list (snd (rot_cleanup caps me x)) = opened_rot_list y"
    if "y = (if rot_comm_state x then snd (rot_close caps me x) else x)" for x y
    using that polite_rotD [OF assms(3)] by (auto simp: rot_cleanup_def Let_def split: option.split)
  show ?thesis
  proof (cases "status = RIG_OK")
    case False
    then have "rot1 = r" using opened port assms(4) by (simp add: rot_open_def rot0_def [symmetric] Let_def)
    then show ?thesis using cleanup [of r r] r False same0 assms(4) by auto
  next
    case True
    define s where "s = r\<lparr>opened_rot_list := me # opened_rot_list r, rot_comm_state := True\<rparr>"
    have rot1: "rot1 = (case cap_rot_open caps of None \<Rightarrow> s | Some f \<Rightarrow> snd (run_state f s))"
      using opened port True assms(4) by (auto simp: rot_open_def rot0_def [symmetric] s_def Let_def split: option.splits)
    have s1: "rotport rot1 = rotport r" "rot_os rot1 = rot_os r" "opened_rot_list rot1 = me # opened_rot_list r" "rot_comm_state rot1"
      using polite_rotD [OF assms(1)] by (auto simp: rot1 s_def split: option.split)
    define t where "t = (case cap_rot_close caps of None \<Rightarrow> rot1 | Some f \<Rightarrow> snd (run_state f rot1))"
    have t: "rotport t = rotport r" "rot_os t = rot_os r" "opened_rot_list t = me # opened_rot_list r"
      using polite_rotD [OF assms(2)] s1 by (auto simp: t_def split: option.split)
    have closed: "rot_os (rot_close_port t) = rot_os rot"
    proof (cases "takes_fd (port_type (rotport rot0))")
      case True
      then show ?thesis
        using r t \<open>status = RIG_OK\<close> same0 lowest_free_positive [OF assms(5)]
        by (subst rot_close_port_frees [where S = "rot_os rot" and fds = "open_fds (rot_os rot)"]) auto
    next
      case False
      then show ?thesis using r t \<open>status = RIG_OK\<close> same0 by (simp add: rot_close_port_closed)
    qed
    have "snd (rot_close caps me rot1) = (rot_close_port t)
        \<lparr>opened_rot_list := remove1 me (opened_rot_list (rot_close_port t)), rot_comm_state := False\<rparr>"
      using s1(4) by (simp add: rot_close_def t_def Let_def)
    then show ?thesis
      using cleanup [of "snd (rot_close caps me rot1)" rot1] s1(4) closed t(3) r same0 by (simp add: rot_close_port_list)
  qed
qed

end
