(* ===== verification/Hamlib_Rot_Dummy.thy ===== *)
theory Hamlib_Rot_Dummy
  imports Hamlib_Rotator Hamlib_Dummy
begin

text \<open>
  The simulated rotator of \<^verbatim>\<open>rigs/dummy/rot_dummy.c\<close>: it turns at a fixed speed towards its
  target, and moves whenever it is asked where it is. The flag \<open>simulating\<close> is a static variable
  of the back end. Degrees are the numbers of a \<^verbatim>\<open>float\<close>, and each step of the simulation is rounded as in the
  code; what a new private structure holds before it is filled (\<^verbatim>\<open>malloc\<close>) is an argument.
\<close>

record dummy_rot_priv =
  rd_az :: real
  rd_el :: real
  rd_tv :: timeval
  target_az :: real
  target_el :: real
  rd_status :: u32
  rd_funcs :: setting_t
  rd_levels :: "nat \<Rightarrow> value_t"
  rd_parms :: "nat \<Rightarrow> value_t"
  rd_ext_funcs :: "(nat \<times> value_t) list"
  rd_ext_levels :: "(nat \<times> value_t) list"
  rd_ext_parms :: "(nat \<times> value_t) list"
  rd_magic_conf :: string
  simulating :: bool

type_synonym dummy_rot = "dummy_rot_priv rot"

definition upd_rot :: "(dummy_rot_priv \<Rightarrow> dummy_rot_priv) \<Rightarrow> (dummy_rot, unit) state" where
  "upd_rot f = modify (\<lambda>rot. rot\<lparr>rot_priv := f (rot_priv rot)\<rparr>)"

definition rot_ok :: "dummy_rot_priv rot_call" where
  "rot_ok = State_Monad.return RIG_OK"

definition rot_answer :: "(dummy_rot_priv \<Rightarrow> 'a) \<Rightarrow> (dummy_rot_priv, 'a) rot_query" where
  "rot_answer f = gets (\<lambda>rot. (RIG_OK, Some (f (rot_priv rot))))"

definition ROT_MODEL_DUMMY :: int where "ROT_MODEL_DUMMY = 1"
definition TOK_CFG_ROT_MAGICCONF :: nat where "TOK_CFG_ROT_MAGICCONF = 1"
definition TOK_EL_ROT_MAGICLEVEL :: nat where "TOK_EL_ROT_MAGICLEVEL = 1"
definition TOK_EL_ROT_MAGICFUNC :: nat where "TOK_EL_ROT_MAGICFUNC = 2"
definition TOK_EL_ROT_MAGICOP :: nat where "TOK_EL_ROT_MAGICOP = 3"
definition TOK_EP_ROT_MAGICPARM :: nat where "TOK_EP_ROT_MAGICPARM = 4"
definition TOK_EL_ROT_MAGICCOMBO :: nat where "TOK_EL_ROT_MAGICCOMBO = 5"
definition TOK_EL_ROT_MAGICEXTFUNC :: nat where "TOK_EL_ROT_MAGICEXTFUNC = 6"

definition ROT_MOVE_UP :: int where "ROT_MOVE_UP = 2"
definition ROT_MOVE_DOWN :: int where "ROT_MOVE_DOWN = 4"
definition ROT_MOVE_CCW :: int where "ROT_MOVE_CCW = 8"
definition ROT_MOVE_CW :: int where "ROT_MOVE_CW = 16"

definition rot_magic_levels :: "nat list" where
  "rot_magic_levels = [TOK_EL_ROT_MAGICLEVEL, TOK_EL_ROT_MAGICFUNC, TOK_EL_ROT_MAGICOP, TOK_EL_ROT_MAGICCOMBO]"

definition dummy_rot_init :: "dummy_rot_priv \<Rightarrow> dummy_rot_priv rot_call" where
  "dummy_rot_init junk = do {
     _ \<leftarrow> modify (\<lambda>rot. rot\<lparr>rotport := (rotport rot)\<lparr>port_type := RIG_PORT_NONE\<rparr>,
       rot_priv := junk\<lparr>rd_ext_funcs := alloc_init_ext [TOK_EL_ROT_MAGICEXTFUNC],
         rd_ext_levels := alloc_init_ext rot_magic_levels, rd_ext_parms := alloc_init_ext [TOK_EP_ROT_MAGICPARM],
         rd_az := 0, rd_el := 0, target_az := 0, target_el := 0, rd_magic_conf := ''ROTATOR''\<rparr>\<rparr>);
     rot_ok
   }"

definition dummy_rot_cleanup :: "dummy_rot_priv rot_call" where
  "dummy_rot_cleanup = rot_ok"

definition dummy_rot_open :: "int \<Rightarrow> dummy_rot_priv rot_call" where
  "dummy_rot_open model = do {
     _ \<leftarrow> do_when (model = ROT_MODEL_DUMMY) (upd_rot (\<lambda>p. p\<lparr>simulating := True\<rparr>));
     rot_ok
   }"

definition dummy_rot_close :: "dummy_rot_priv rot_call" where
  "dummy_rot_close = rot_ok"

definition rot_dummy_set_conf :: "nat \<Rightarrow> string option \<Rightarrow> dummy_rot_priv rot_call" where
  "rot_dummy_set_conf token val =
     (if token = TOK_CFG_ROT_MAGICCONF
      then do {
        _ \<leftarrow> (case val of None \<Rightarrow> State_Monad.return () | Some s \<Rightarrow> upd_rot (\<lambda>p. p\<lparr>rd_magic_conf := s\<rparr>));
        rot_ok
      }
      else State_Monad.return (- RIG_EINVAL))"

definition rot_dummy_get_conf2 :: "nat \<Rightarrow> nat \<Rightarrow> (dummy_rot_priv, string) rot_query" where
  "rot_dummy_get_conf2 token val_len =
     (if token = TOK_CFG_ROT_MAGICCONF then rot_answer (\<lambda>p. take (val_len - 1) (rd_magic_conf p))
      else State_Monad.return (- RIG_EINVAL, None))"

definition rot_dummy_get_conf :: "nat \<Rightarrow> (dummy_rot_priv, string) rot_query" where
  "rot_dummy_get_conf token = rot_dummy_get_conf2 token 128"

subsection \<open>Moving\<close>

text \<open>Without the simulation the elevation goes to the target of the azimuth.\<close>

definition dummy_rot_set_position :: "real \<Rightarrow> real \<Rightarrow> dummy_rot_priv rot_call" where
  "dummy_rot_set_position az el = do {
     now \<leftarrow> gets rot_clock;
     _ \<leftarrow> upd_rot (\<lambda>p. if simulating p then p\<lparr>target_az := az, target_el := el, rd_tv := now\<rparr>
                    else p\<lparr>rd_az := az, rd_el := el, target_az := el\<rparr>);
     rot_ok
   }"

definition DEG_PER_MS :: real where "DEG_PER_MS = to_double (360 / 60 / 1000)"

text \<open>Milliseconds since the last update, in an \<^verbatim>\<open>unsigned\<close>: both parts are cut to whole ones.\<close>

definition elapsed_since :: "timeval \<Rightarrow> timeval \<Rightarrow> u32" where
  "elapsed_since tv0 tv = of_int ((tv_s tv - tv_s tv0) * 1000 + (tv_us tv - tv_us tv0) sdiv 1000)"

text \<open>
  One axis: its position and its bits of the status word, \<open>moving\<close>, and \<open>up\<close> or \<open>down\<close> for the
  direction. The difference is a \<^verbatim>\<open>float\<close>; the quotient, the way and the sum are computed
  in \<^verbatim>\<open>double\<close>, and storing the sum rounds it to a \<^verbatim>\<open>float\<close> again.
\<close>

definition turn :: "u32 \<Rightarrow> u32 \<Rightarrow> u32 \<Rightarrow> u32 \<Rightarrow> real \<Rightarrow> real \<times> u32 \<Rightarrow> real \<times> u32" where
  "turn moving up down elapsed target = (\<lambda>(pos, status).
     if to_double (\<bar>to_float (target - pos)\<bar> / DEG_PER_MS) \<le> real (unat elapsed)
     then (target, status AND NOT (moving OR up OR down))
     else let way = to_double (to_float (real (unat elapsed)) * DEG_PER_MS)
          in if pos < target then (to_float (to_double (pos + way)), status OR moving OR up)
             else (to_float (to_double (pos - way)), status OR moving OR down))"

definition turn_az :: "u32 \<Rightarrow> real \<Rightarrow> real \<times> u32 \<Rightarrow> real \<times> u32" where
  "turn_az = turn ROT_STATUS_MOVING_AZ ROT_STATUS_MOVING_RIGHT ROT_STATUS_MOVING_LEFT"

definition turn_el :: "u32 \<Rightarrow> real \<Rightarrow> real \<times> u32 \<Rightarrow> real \<times> u32" where
  "turn_el = turn ROT_STATUS_MOVING_EL ROT_STATUS_MOVING_UP ROT_STATUS_MOVING_DOWN"

definition simulate :: "timeval \<Rightarrow> dummy_rot_priv \<Rightarrow> dummy_rot_priv" where
  "simulate tv p =
     (let elapsed = elapsed_since (rd_tv p) tv;
          (az, status1) = turn_az elapsed (target_az p) (rd_az p, rd_status p);
          (el, status2) = turn_el elapsed (target_el p) (rd_el p, status1);
          status = (if status2 AND (ROT_STATUS_MOVING_AZ OR ROT_STATUS_MOVING_EL) \<noteq> 0
                    then status2 OR ROT_STATUS_MOVING else status2 AND NOT ROT_STATUS_MOVING)
      in p\<lparr>rd_az := az, rd_el := el, rd_status := status, rd_tv := tv\<rparr>)"

definition dummy_rot_simulate_rotation :: "(dummy_rot, unit) state" where
  "dummy_rot_simulate_rotation = do { tv \<leftarrow> gets rot_clock; upd_rot (simulate tv) }"

definition dummy_rot_get_position :: "(dummy_rot_priv, real \<times> real) rot_query" where
  "dummy_rot_get_position = do {
     p \<leftarrow> gets rot_priv;
     if simulating p \<and> rd_az p = target_az p \<and> rd_el p = target_el p then rot_answer (\<lambda>p. (rd_az p, rd_el p))
     else do {
       _ \<leftarrow> do_when (simulating p) dummy_rot_simulate_rotation;
       rot_answer (\<lambda>p. (rd_az p, rd_el p))
     }
   }"

definition dummy_rot_stop :: "dummy_rot_priv rot_call" where
  "dummy_rot_stop = do {
     _ \<leftarrow> dummy_rot_get_position;
     _ \<leftarrow> upd_rot (\<lambda>p. p\<lparr>target_az := rd_az p, target_el := rd_el p\<rparr>);
     rot_ok
   }"

definition dummy_rot_park :: "dummy_rot_priv rot_call" where
  "dummy_rot_park = do { _ \<leftarrow> dummy_rot_set_position 0 0; rot_ok }"

definition dummy_rot_reset :: "int \<Rightarrow> dummy_rot_priv rot_call" where
  "dummy_rot_reset what = rot_ok"

definition dummy_rot_move :: "int \<Rightarrow> int \<Rightarrow> dummy_rot_priv rot_call" where
  "dummy_rot_move direction speed = do {
     p \<leftarrow> gets rot_priv;
     if direction = ROT_MOVE_UP then dummy_rot_set_position (target_az p) 90
     else if direction = ROT_MOVE_DOWN then dummy_rot_set_position (target_az p) 0
     else if direction = ROT_MOVE_CCW then dummy_rot_set_position (- 180) (target_el p)
     else if direction = ROT_MOVE_CW then dummy_rot_set_position 180 (target_el p)
     else State_Monad.return (- RIG_EINVAL)
   }"

definition dummy_rot_get_status :: "(dummy_rot_priv, u32) rot_query" where
  "dummy_rot_get_status = do {
     p \<leftarrow> gets rot_priv;
     _ \<leftarrow> do_when (simulating p) dummy_rot_simulate_rotation;
     rot_answer rd_status
   }"

subsection \<open>Settings\<close>

definition rot_dummy_set_func :: "setting_t \<Rightarrow> int \<Rightarrow> dummy_rot_priv rot_call" where
  "rot_dummy_set_func func status = do {
     _ \<leftarrow> upd_rot (\<lambda>p. p\<lparr>rd_funcs := (if status \<noteq> 0 then rd_funcs p OR func else rd_funcs p AND NOT func)\<rparr>);
     rot_ok
   }"

definition rot_dummy_get_func :: "setting_t \<Rightarrow> (dummy_rot_priv, int) rot_query" where
  "rot_dummy_get_func func = rot_answer (\<lambda>p. if rd_funcs p AND func \<noteq> 0 then 1 else 0)"

definition rot_dummy_set_level :: "setting_t \<Rightarrow> value_t \<Rightarrow> dummy_rot_priv rot_call" where
  "rot_dummy_set_level level val =
     (let idx = rig_setting2idx level
      in if idx \<ge> RIG_SETTING_MAX then State_Monad.return (- RIG_EINVAL)
         else do { _ \<leftarrow> upd_rot (\<lambda>p. p\<lparr>rd_levels := (rd_levels p)(idx := val)\<rparr>); rot_ok })"

definition rot_dummy_get_level :: "setting_t \<Rightarrow> (dummy_rot_priv, value_t) rot_query" where
  "rot_dummy_get_level level =
     (let idx = rig_setting2idx level
      in if idx \<ge> RIG_SETTING_MAX then State_Monad.return (- RIG_EINVAL, None)
         else rot_answer (\<lambda>p. rd_levels p idx))"

definition rot_dummy_set_parm :: "setting_t \<Rightarrow> value_t \<Rightarrow> dummy_rot_priv rot_call" where
  "rot_dummy_set_parm parm val =
     (let idx = rig_setting2idx parm
      in if idx \<ge> RIG_SETTING_MAX then State_Monad.return (- RIG_EINVAL)
         else do { _ \<leftarrow> upd_rot (\<lambda>p. p\<lparr>rd_parms := (rd_parms p)(idx := val)\<rparr>); rot_ok })"

definition rot_dummy_get_parm :: "setting_t \<Rightarrow> (dummy_rot_priv, value_t) rot_query" where
  "rot_dummy_get_parm parm =
     (let idx = rig_setting2idx parm
      in if idx \<ge> RIG_SETTING_MAX then State_Monad.return (- RIG_EINVAL, None)
         else rot_answer (\<lambda>p. rd_parms p idx))"

text \<open>
  The extension settings: the tokens each accepts, the list it keeps them in, and the
  internal error when the list has no entry.
\<close>

definition store_rot_ext ::
  "nat list \<Rightarrow> (dummy_rot_priv \<Rightarrow> (nat \<times> value_t) list)
    \<Rightarrow> (((nat \<times> value_t) list \<Rightarrow> (nat \<times> value_t) list) \<Rightarrow> dummy_rot_priv \<Rightarrow> dummy_rot_priv)
    \<Rightarrow> nat \<Rightarrow> value_t \<Rightarrow> dummy_rot_priv rot_call" where
  "store_rot_ext known read upd token v =
     (if token \<notin> set known then State_Monad.return (- RIG_EINVAL)
      else do {
        p \<leftarrow> gets rot_priv;
        if find_ext (read p) token = None then State_Monad.return (- RIG_EINTERNAL)
        else do { _ \<leftarrow> upd_rot (upd (\<lambda>l. store_ext l token v)); rot_ok }
      })"

definition load_rot_ext ::
  "nat list \<Rightarrow> (dummy_rot_priv \<Rightarrow> (nat \<times> value_t) list) \<Rightarrow> nat \<Rightarrow> (dummy_rot_priv, value_t) rot_query" where
  "load_rot_ext known read token =
     (if token \<notin> set known then State_Monad.return (- RIG_EINVAL, None)
      else gets (\<lambda>rot. case find_ext (read (rot_priv rot)) token of
             None \<Rightarrow> (- RIG_EINTERNAL, None)
           | Some v \<Rightarrow> (RIG_OK, Some v)))"

definition rot_dummy_set_ext_level :: "nat \<Rightarrow> value_t \<Rightarrow> dummy_rot_priv rot_call" where
  "rot_dummy_set_ext_level = store_rot_ext rot_magic_levels rd_ext_levels rd_ext_levels_update"

definition rot_dummy_get_ext_level :: "nat \<Rightarrow> (dummy_rot_priv, value_t) rot_query" where
  "rot_dummy_get_ext_level = load_rot_ext rot_magic_levels rd_ext_levels"

definition rot_dummy_set_ext_func :: "nat \<Rightarrow> int \<Rightarrow> dummy_rot_priv rot_call" where
  "rot_dummy_set_ext_func token status =
     store_rot_ext [TOK_EL_ROT_MAGICEXTFUNC] rd_ext_funcs rd_ext_funcs_update token (VInt status)"

definition rot_dummy_get_ext_func :: "nat \<Rightarrow> (dummy_rot_priv, int) rot_query" where
  "rot_dummy_get_ext_func token = do {
     (rc, v) \<leftarrow> load_rot_ext [TOK_EL_ROT_MAGICEXTFUNC] rd_ext_funcs token;
     State_Monad.return (rc, map_option val_i v)
   }"

definition rot_dummy_set_ext_parm :: "nat \<Rightarrow> value_t \<Rightarrow> dummy_rot_priv rot_call" where
  "rot_dummy_set_ext_parm = store_rot_ext [TOK_EP_ROT_MAGICPARM] rd_ext_parms rd_ext_parms_update"

definition rot_dummy_get_ext_parm :: "nat \<Rightarrow> (dummy_rot_priv, value_t) rot_query" where
  "rot_dummy_get_ext_parm = load_rot_ext [TOK_EP_ROT_MAGICPARM] rd_ext_parms"

definition DUMMY_ROT_STATUS :: u32 where
  "DUMMY_ROT_STATUS = ROT_STATUS_MOVING OR ROT_STATUS_MOVING_AZ OR ROT_STATUS_MOVING_LEFT
     OR ROT_STATUS_MOVING_RIGHT OR ROT_STATUS_MOVING_EL OR ROT_STATUS_MOVING_UP OR ROT_STATUS_MOVING_DOWN
     OR ROT_STATUS_LIMIT_UP OR ROT_STATUS_LIMIT_DOWN OR ROT_STATUS_LIMIT_LEFT OR ROT_STATUS_LIMIT_RIGHT"

definition dummy_rot_caps :: "dummy_rot_priv \<Rightarrow> dummy_rot_priv rot_caps" where
  "dummy_rot_caps junk = \<lparr>rot_model = ROT_MODEL_DUMMY, rot_port_type = RIG_PORT_NONE,
     caps_min_az = - 180, caps_max_az = 180, caps_min_el = 0, caps_max_el = 90,
     has_funcs = (0, 0), has_levels = (ROT_LEVEL_SPEED, ROT_LEVEL_SPEED), has_parms = (0, 0),
     caps_has_status = DUMMY_ROT_STATUS,
     cap_rot_init = Some (dummy_rot_init junk), cap_rot_cleanup = Some dummy_rot_cleanup,
     cap_rot_open = Some (dummy_rot_open ROT_MODEL_DUMMY), cap_rot_close = Some dummy_rot_close,
     cap_set_position = Some dummy_rot_set_position, cap_get_position = Some dummy_rot_get_position,
     cap_park = Some dummy_rot_park, cap_stop = Some dummy_rot_stop, cap_rot_reset = Some dummy_rot_reset,
     cap_move = Some dummy_rot_move, cap_get_status = Some dummy_rot_get_status,
     cap_set_level = Some rot_dummy_set_level, cap_get_level = Some rot_dummy_get_level,
     cap_set_func = Some rot_dummy_set_func, cap_get_func = Some rot_dummy_get_func,
     cap_set_parm = Some rot_dummy_set_parm, cap_get_parm = Some rot_dummy_get_parm,
     cap_set_ext_level = Some rot_dummy_set_ext_level, cap_get_ext_level = Some rot_dummy_get_ext_level,
     cap_set_ext_func = Some rot_dummy_set_ext_func, cap_get_ext_func = Some rot_dummy_get_ext_func,
     cap_set_ext_parm = Some rot_dummy_set_ext_parm, cap_get_ext_parm = Some rot_dummy_get_ext_parm\<rparr>"


subsection \<open>What the simulation does\<close>

text \<open>The position after moving by at most \<open>e\<close> towards the target, without passing it.\<close>

definition step_to :: "real \<Rightarrow> real \<Rightarrow> real \<Rightarrow> real" where
  "step_to target e pos = (if \<bar>target - pos\<bar> \<le> e then target else if pos < target then pos + e else pos - e)"

lemma step_to_step:
  assumes "0 \<le> d" and "0 \<le> e"
  shows "step_to target e (step_to target d pos) = step_to target (d + e) pos"
  using assms by (auto simp: step_to_def)

lemma step_to_target [simp]: "0 \<le> e \<Longrightarrow> step_to target e target = target"
  by (simp add: step_to_def)

lemma step_to_zero [simp]: "step_to target 0 pos = pos"
  by (simp add: step_to_def)

lemma step_to_between: "0 \<le> e \<Longrightarrow> step_to target e pos \<in> {min pos target..max pos target}"
  by (auto simp: step_to_def)

definition reached :: "nat \<Rightarrow> real \<Rightarrow> real \<Rightarrow> bool" where
  "reached n target pos \<longleftrightarrow> to_double (\<bar>to_float (target - pos)\<bar> / DEG_PER_MS) \<le> real n"

definition stride :: "nat \<Rightarrow> real" where
  "stride n = to_double (to_float (real n) * DEG_PER_MS)"

definition turned :: "nat \<Rightarrow> real \<Rightarrow> real \<Rightarrow> real" where
  "turned n target pos = (if reached n target pos then target
     else if pos < target then to_float (to_double (pos + stride n)) else to_float (to_double (pos - stride n)))"

text \<open>The speed, in degrees for a millisecond.\<close>

abbreviation deg_ms :: real where "deg_ms \<equiv> 6 / 1000"

lemma DEG_PER_MS_near: "\<bar>DEG_PER_MS - deg_ms\<bar> \<le> 1 / 2 ^ 60"
  using to_double_error [of "6 / 1000"] by (simp add: DEG_PER_MS_def)

lemma DEG_PER_MS_pos: "0 < DEG_PER_MS"
proof -
  have "deg_ms - DEG_PER_MS \<le> 1 / 2 ^ 60" using DEG_PER_MS_near by linarith
  moreover have "1 / 2 ^ 60 < deg_ms" by simp
  ultimately show ?thesis by linarith
qed

lemma DEG_PER_MS_ge: "1 / 200 \<le> DEG_PER_MS"
proof -
  have "deg_ms - DEG_PER_MS \<le> 1 / 2 ^ 60" using DEG_PER_MS_near by linarith
  moreover have "1 / 2 ^ 60 \<le> deg_ms - 1 / 200" by simp
  ultimately show ?thesis by linarith
qed

lemma reached_minus: "reached n (- target) (- pos) = reached n target pos"
proof -
  have "to_float (- target - - pos) = - to_float (target - pos)"
    by (metis minus_diff_eq minus_diff_minus to_float_zero(3))
  then show ?thesis by (simp add: reached_def)
qed

lemma turned_minus: "turned n (- target) (- pos) = - turned n target pos"
proof -
  have "reached n target pos" if "target = pos" using that by (simp add: reached_def)
  moreover have "to_double (- pos - x) = - to_double (pos + x)" "to_double (- pos + x) = - to_double (pos - x)" for x
    by (metis minus_add_distrib uminus_add_conv_diff add.commute minus_diff_eq to_float_zero(4))+
  ultimately show ?thesis
    by (cases "pos < target"; cases "target = pos") (simp_all add: turned_def reached_minus)
qed

lemma near_trans: "\<bar>a - b\<bar> \<le> e \<Longrightarrow> \<bar>b - c\<bar> \<le> f \<Longrightarrow> e + f \<le> g \<Longrightarrow> \<bar>a - c\<bar> \<le> (g :: real)"
  by linarith

lemma reached_bound:
  assumes "reached n target pos" and "\<bar>target - pos\<bar> \<le> 1024"
  shows "\<bar>target - pos\<bar> \<le> real n * deg_ms + 1 / 8192"
proof (rule ccontr)
  assume far: "\<not> ?thesis"
  let ?d = "\<bar>target - pos\<bar>" and ?f = "\<bar>to_float (target - pos)\<bar>"
  have f: "?d - ?d / 2 ^ 24 \<le> ?f" using to_float_error [of "target - pos"] by linarith
  have "?f / DEG_PER_MS - ?f / DEG_PER_MS / 2 ^ 53 \<le> real n"
    using assms(1) to_double_error [of "?f / DEG_PER_MS"] DEG_PER_MS_pos by (simp add: reached_def; linarith)
  then have "(?f - ?f / 2 ^ 53) / DEG_PER_MS \<le> real n" by (simp add: diff_divide_distrib)
  then have a: "?f - ?f / 2 ^ 53 \<le> real n * DEG_PER_MS" using DEG_PER_MS_pos by (simp add: pos_divide_le_eq)
  have n: "real n \<le> 2 ^ 18" using far assms(2) by (simp; linarith)
  have "real n * (DEG_PER_MS - deg_ms) \<le> 2 ^ 18 * (1 / 2 ^ 60)"
    using n DEG_PER_MS_near by (intro order_trans [OF mult_left_mono mult_right_mono [of "real n" "2 ^ 18" "1 / 2 ^ 60"]]) linarith+
  then have "real n * DEG_PER_MS \<le> real n * deg_ms + 1 / 2 ^ 42" by (simp add: algebra_simps)
  with a f far assms(2) show False by (simp; linarith)
qed

lemma stride_near:
  assumes "\<not> reached n target pos" and "\<bar>target - pos\<bar> \<le> 1024" and "n < 2 ^ 32"
  shows "real n * deg_ms \<le> \<bar>target - pos\<bar> + 1 / 16000" and "\<bar>stride n - real n * deg_ms\<bar> \<le> 1 / 100000000" and "0 \<le> stride n"
proof -
  let ?d = "\<bar>target - pos\<bar>" and ?f = "\<bar>to_float (target - pos)\<bar>"
  have f: "?f \<le> ?d + ?d / 2 ^ 24" using to_float_error [of "target - pos"] by linarith
  have "to_double (of_int (int n)) = of_int (int n)" using assms(3) by (intro to_double_int) simp
  then have "real n < ?f / DEG_PER_MS"
    using assms(1) to_double_bounds(2) [of "real n" "?f / DEG_PER_MS"] by (force simp: reached_def not_le)
  then have a: "real n * DEG_PER_MS < ?f" using DEG_PER_MS_pos by (simp add: pos_less_divide_eq)
  have "real n * (1 / 200) \<le> real n * DEG_PER_MS" using DEG_PER_MS_ge by (intro mult_left_mono) simp_all
  with a f assms(2) have n: "real n \<le> 2 ^ 18" by (simp; linarith)
  have e: "\<bar>real n * DEG_PER_MS - real n * deg_ms\<bar> \<le> 1 / 2 ^ 42"
  proof -
    have "\<bar>real n * (DEG_PER_MS - deg_ms)\<bar> \<le> 2 ^ 18 * (1 / 2 ^ 60)"
      unfolding abs_mult using n DEG_PER_MS_near by (intro mult_mono) auto
    then show ?thesis by (simp add: algebra_simps)
  qed
  have small: "?d / 2 ^ 24 \<le> 1 / 16384" "(1 :: real) / 2 ^ 42 \<le> 1 / 1000000000" using assms(2) by simp_all
  with a f e show "real n * deg_ms \<le> \<bar>target - pos\<bar> + 1 / 16000" by linarith
  have "to_float (of_int (int n)) = of_int (int n)" using n by (intro to_float_int) simp
  then have s: "stride n = to_double (real n * DEG_PER_MS)" by (simp add: stride_def)
  have "\<bar>stride n - real n * DEG_PER_MS\<bar> \<le> 1 / 2 ^ 42"
    using to_double_error [of "real n * DEG_PER_MS"] a f assms(2) DEG_PER_MS_pos by (simp add: s abs_mult; linarith)
  from near_trans [OF this e, of "1 / 100000000"] show "\<bar>stride n - real n * deg_ms\<bar> \<le> 1 / 100000000" by simp
  show "0 \<le> stride n" using to_double_bounds(1) [of 0 "real n * DEG_PER_MS"] DEG_PER_MS_pos by (simp add: s)
qed

lemma turned_up:
  assumes "\<not> reached n target pos" and "pos < target" and "\<bar>pos\<bar> \<le> 512" and "\<bar>target\<bar> \<le> 511" and "n < 2 ^ 32"
    and "to_float pos = pos"
  shows "real n * deg_ms \<le> target - pos + 1 / 16000" and "\<bar>turned n target pos - (pos + real n * deg_ms)\<bar> \<le> 1 / 32000"
    and "pos \<le> turned n target pos"
proof -
  have d: "\<bar>target - pos\<bar> \<le> 1024" using assms(3,4) by linarith
  note st = stride_near [OF assms(1) d assms(5)]
  show s: "real n * deg_ms \<le> target - pos + 1 / 16000" using st(1) assms(2) by simp
  let ?y = "pos + stride n"
  have t: "turned n target pos = to_float (to_double ?y)" using assms(1,2) by (simp add: turned_def)
  have "?y \<le> 512" "- 512 \<le> ?y" using s st(2,3) assms(3,4) by linarith+
  then have y: "\<bar>?y\<bar> \<le> 512" "\<bar>to_double ?y\<bar> \<le> 512"
    using to_double_bounds [of 512 ?y] to_double_bounds [of "- 512" ?y] by (simp_all add: abs_le_iff)
  have "\<bar>to_double ?y - ?y\<bar> \<le> 1 / 10000000" using to_double_error [of ?y] y(1) by (simp; linarith)
  moreover have "\<bar>to_float (to_double ?y) - to_double ?y\<bar> \<le> 1 / 32768"
    using to_float_error [of "to_double ?y"] y(2) by (simp; linarith)
  ultimately show "\<bar>turned n target pos - (pos + real n * deg_ms)\<bar> \<le> 1 / 32000"
    using st(2) unfolding t by linarith
  show "pos \<le> turned n target pos"
    using st(3) by (simp add: t to_float_bounds(1) to_double_bounds(1) assms(6) float_double)
qed

text \<open>Positions that the simulation keeps, and targets.\<close>

definition float_axis :: "real \<Rightarrow> real \<Rightarrow> bool" where
  "float_axis target pos \<longleftrightarrow> to_float pos = pos \<and> to_float target = target \<and> \<bar>pos\<bar> \<le> 512 \<and> \<bar>target\<bar> \<le> 511"

lemma float_axis_minus: "float_axis (- target) (- pos) = float_axis target pos"
  by (simp add: float_axis_def)

lemma step_to_minus: "0 \<le> e \<Longrightarrow> step_to (- target) e (- pos) = - step_to target e pos"
  by (auto simp: step_to_def)

text \<open>One update, upwards; then in both directions.\<close>

lemma turned_cases:
  assumes "float_axis target pos" and "n < 2 ^ 32"
  obtains (there) "turned n target pos = target" "\<bar>target - pos\<bar> \<le> real n * deg_ms + 1 / 8192"
  | (up) "\<not> reached n target pos" "pos < target" | (down) "\<not> reached n target pos" "target < pos"
proof (cases "reached n target pos")
  case True
  have "\<bar>target - pos\<bar> \<le> 1024" using assms(1) by (simp add: float_axis_def; linarith)
  from reached_bound [OF True this] show thesis using True there by (simp add: turned_def)
next
  case False
  have "target \<noteq> pos" using False by (auto simp: reached_def)
  then show thesis using False up down by linarith
qed

lemma turned_error:
  assumes "float_axis target pos" and "n < 2 ^ 32"
  shows "\<bar>turned n target pos - step_to target (real n * deg_ms) pos\<bar> \<le> 1 / 8192"
proof -
  have up: "\<bar>turned n t p - step_to t (real n * deg_ms) p\<bar> \<le> 1 / 8192"
    if "\<not> reached n t p" "p < t" "float_axis t p" for t p
  proof -
    have "real n * deg_ms \<le> t - p + 1 / 16000" "\<bar>turned n t p - (p + real n * deg_ms)\<bar> \<le> 1 / 32000"
      using turned_up [of n t p] that assms(2) unfolding float_axis_def by blast+
    moreover have "step_to t (real n * deg_ms) p = t \<and> t - p \<le> real n * deg_ms \<or> step_to t (real n * deg_ms) p = p + real n * deg_ms"
      using that(2) by (simp add: step_to_def)
    ultimately show ?thesis by (elim disjE conjE) linarith+
  qed
  show ?thesis using assms
  proof (cases rule: turned_cases)
    case there
    then show ?thesis by (simp add: step_to_def abs_le_iff)
  next
    case down
    with up [of "- target" "- pos"] assms(1) show ?thesis
      by (simp add: turned_minus float_axis_minus step_to_minus reached_minus abs_minus_commute del: times_divide_eq_right)
  qed (use up assms in blast)
qed


lemma turned_between:
  assumes "float_axis target pos" and "n < 2 ^ 32"
  shows "min pos (target - 1 / 8192) \<le> turned n target pos" and "turned n target pos \<le> max pos (target + 1 / 8192)"
proof -
  have up: "p \<le> turned n t p \<and> turned n t p \<le> t + 1 / 8192"
    if "\<not> reached n t p" "p < t" "float_axis t p" for t p
    using turned_up [of n t p] that assms(2) by (simp add: float_axis_def; linarith)
  have "min pos (target - 1 / 8192) \<le> turned n target pos \<and> turned n target pos \<le> max pos (target + 1 / 8192)"
    using assms
  proof (cases rule: turned_cases)
    case down
    with up [of "- target" "- pos"] assms(1) show ?thesis
      by (simp add: turned_minus float_axis_minus reached_minus min_le_iff_disj le_max_iff_disj; linarith)
  next
    case u: up
    with up assms(1) show ?thesis by (simp add: min_le_iff_disj le_max_iff_disj)
  qed (simp add: min_le_iff_disj le_max_iff_disj)
  then show "min pos (target - 1 / 8192) \<le> turned n target pos" "turned n target pos \<le> max pos (target + 1 / 8192)"
    by simp_all
qed

lemma turned_axis:
  assumes "float_axis target pos" and "n < 2 ^ 32"
  shows "float_axis target (turned n target pos)"
  using turned_between [OF assms] assms(1) by (auto simp: float_axis_def turned_def abs_le_iff min_def max_def split: if_splits)

lemma turned_zero:
  assumes "float_axis target pos"
  shows "turned 0 target pos = pos"
proof (cases "reached 0 target pos")
  case True
  let ?q = "\<bar>to_float (target - pos)\<bar> / DEG_PER_MS"
  have "to_double ?q = 0"
    using True to_double_bounds(1) [of 0 ?q] DEG_PER_MS_pos by (simp add: reached_def del: to_float_eq_zero)
  then have "target = pos" using DEG_PER_MS_pos by simp
  then show ?thesis using True by (simp add: turned_def)
next
  case False
  then show ?thesis using assms by (simp add: turned_def stride_def float_axis_def float_double)
qed

lemma step_to_near: "0 \<le> e \<Longrightarrow> \<bar>step_to target e x - step_to target e y\<bar> \<le> \<bar>x - y\<bar>"
  by (auto simp: step_to_def)

lemma fst_turn:
  "fst (turn moving up down elapsed target (pos, status)) = turned (unat elapsed) target pos"
  by (simp add: turn_def turned_def reached_def stride_def Let_def del: of_nat_unat)

lemma turn_before:
  assumes "\<not> reached (unat elapsed) target pos"
  shows "snd (turn moving up down elapsed target (pos, status)) = status OR moving OR (if pos < target then up else down)"
  using assms by (simp add: turn_def reached_def Let_def del: of_nat_unat)

text \<open>The milliseconds that updates at the given times count.\<close>

fun counted_ms :: "timeval \<Rightarrow> timeval list \<Rightarrow> nat" where
  "counted_ms tv0 [] = 0"
| "counted_ms tv0 (tv # ts) = unat (elapsed_since tv0 tv) + counted_ms tv ts"

text \<open>Asking for the position at a time.\<close>

definition poll :: "dummy_rot_priv rot_caps \<Rightarrow> timeval \<Rightarrow> dummy_rot \<Rightarrow> (int \<times> (real \<times> real) option) \<times> dummy_rot" where
  "poll caps tv rot = run_state (rot_get_position caps) (rot\<lparr>rot_clock := tv\<rparr>)"

fun polls :: "dummy_rot_priv rot_caps \<Rightarrow> timeval list \<Rightarrow> dummy_rot \<Rightarrow> dummy_rot" where
  "polls caps [] rot = rot"
| "polls caps (tv # ts) rot = polls caps ts (snd (poll caps tv rot))"

lemmas rot_run_defs = rot_ask_def rot_set_position_def rot_get_position_def CHECK_ROT_ARG_def upd_rot_def rot_ok_def rot_answer_def

text \<open>What a poll of a simulated rotator leaves, and what it answers.\<close>

definition at_rest :: "dummy_rot_priv \<Rightarrow> bool" where
  "at_rest p \<longleftrightarrow> rd_az p = target_az p \<and> rd_el p = target_el p"

lemma poll_dummy:
  assumes "rot_comm_state rot" and "simulating (rot_priv rot)"
  shows "poll (dummy_rot_caps junk) tv rot =
    (let p = (if at_rest (rot_priv rot) then rot_priv rot else simulate tv (rot_priv rot))
     in ((RIG_OK, Some (to_float (south_adjust rot (rd_az p) - az_offset rot), to_float (rd_el p - el_offset rot))),
         rot\<lparr>rot_clock := tv, rot_priv := p\<rparr>))"
  using assms
  by (simp add: poll_def dummy_rot_caps_def rot_run_defs dummy_rot_get_position_def dummy_rot_simulate_rotation_def
      at_rest_def Let_def south_adjust_def)

lemma simulate_fields:
  "rd_az (simulate tv p) = turned (unat (elapsed_since (rd_tv p) tv)) (target_az p) (rd_az p)"
  "rd_el (simulate tv p) = turned (unat (elapsed_since (rd_tv p) tv)) (target_el p) (rd_el p)"
  "rd_tv (simulate tv p) = tv" "target_az (simulate tv p) = target_az p" "target_el (simulate tv p) = target_el p"
  "simulating (simulate tv p) = simulating p"
  by (simp_all add: simulate_def turn_az_def turn_el_def fst_turn Let_def case_prod_beta)

lemma unat_u32: "unat w < 2 ^ 32" for w :: u32
  using unsigned_less [of w] by simp

text \<open>What polling leaves alone.\<close>

definition same_rotator :: "dummy_rot \<Rightarrow> dummy_rot \<Rightarrow> bool" where
  "same_rotator rot rot' \<longleftrightarrow> rot_comm_state rot' = rot_comm_state rot \<and> south_zero rot' = south_zero rot
     \<and> az_offset rot' = az_offset rot \<and> el_offset rot' = el_offset rot
     \<and> target_az (rot_priv rot') = target_az (rot_priv rot) \<and> target_el (rot_priv rot') = target_el (rot_priv rot)
     \<and> simulating (rot_priv rot') = simulating (rot_priv rot)"



lemma polls_at_rest:
  assumes "rot_comm_state rot" and "simulating (rot_priv rot)" and "at_rest (rot_priv rot)"
  shows "same_rotator rot (polls (dummy_rot_caps junk) ts rot) \<and> rot_priv (polls (dummy_rot_caps junk) ts rot) = rot_priv rot"
  using assms
proof (induction ts arbitrary: rot)
  case (Cons tv ts)
  then show ?case
    using Cons.IH [of "rot\<lparr>rot_clock := tv\<rparr>"] by (simp add: poll_dummy same_rotator_def Let_def)
qed (simp add: same_rotator_def)

text \<open>
  Both axes of a rotator, and what holds of each after polls if every update of an axis
  keeps it: \<open>R n target pos pos'\<close> for \<open>n\<close> polls.
\<close>

definition float_rotator :: "dummy_rot_priv \<Rightarrow> bool" where
  "float_rotator p \<longleftrightarrow> float_axis (target_az p) (rd_az p) \<and> float_axis (target_el p) (rd_el p)"

lemma float_rotator_simulate: "float_rotator p \<Longrightarrow> float_rotator (simulate tv p)"
  by (simp add: float_rotator_def simulate_fields turned_axis [OF _ unat_u32])


lemma polls_track:
  assumes "rot_comm_state rot" and "simulating (rot_priv rot)" and "float_rotator (rot_priv rot)"
  shows "let p = rot_priv rot; p' = rot_priv (polls (dummy_rot_caps junk) ts rot); e = real (counted_ms (rd_tv p) ts) * deg_ms
    in \<bar>rd_az p' - step_to (target_az p) e (rd_az p)\<bar> \<le> real (length ts) / 8192
      \<and> \<bar>rd_el p' - step_to (target_el p) e (rd_el p)\<bar> \<le> real (length ts) / 8192"
  using assms
proof (induction ts arbitrary: rot)
  case (Cons tv ts)
  show ?case
  proof (cases "at_rest (rot_priv rot)")
    case True
    with polls_at_rest [OF Cons.prems(1,2) True, of junk "tv # ts"] show ?thesis
      by (simp add: at_rest_def Let_def del: counted_ms.simps polls.simps)
  next
    case False
    let ?p = "rot_priv rot" and ?n = "unat (elapsed_since (rd_tv (rot_priv rot)) tv)" and ?e = "real (counted_ms tv ts) * deg_ms"
    let ?s = "rot\<lparr>rot_clock := tv, rot_priv := simulate tv (rot_priv rot)\<rparr>"
    have s: "snd (poll (dummy_rot_caps junk) tv rot) = ?s"
      using False by (simp add: poll_dummy [OF Cons.prems(1,2)] Let_def)
    have axis: "\<bar>pos' - step_to t (real (counted_ms (rd_tv ?p) (tv # ts)) * deg_ms) pos\<bar> \<le> real (length (tv # ts)) / 8192"
      if "float_axis t pos" "\<bar>pos' - step_to t ?e (turned ?n t pos)\<bar> \<le> real (length ts) / 8192" for t pos pos'
    proof -
      have "\<bar>step_to t ?e (turned ?n t pos) - step_to t ?e (step_to t (real ?n * deg_ms) pos)\<bar> \<le> 1 / 8192"
        using step_to_near [of ?e t "turned ?n t pos" "step_to t (real ?n * deg_ms) pos"] turned_error [OF that(1) unat_u32]
        by (rule order_trans) simp_all
      from near_trans [OF that(2) this order_refl]
      show ?thesis by (simp add: step_to_step ring_distribs add_divide_distrib del: of_nat_unat)
    qed
    have "float_rotator (rot_priv ?s)" using Cons.prems(3) by (simp add: float_rotator_simulate)
    with Cons.IH [of ?s] Cons.prems s show ?thesis
      using axis by (simp add: Let_def simulate_fields float_rotator_def del: counted_ms.simps of_nat_unat)
  qed
qed (simp add: Let_def)

text \<open>The angles that a request for a position hands to the back end.\<close>

definition sent_az :: "dummy_rot \<Rightarrow> real \<Rightarrow> real" where
  "sent_az rot az = south_adjust rot (to_float (az + az_offset rot))"

definition sent_el :: "dummy_rot \<Rightarrow> real \<Rightarrow> real" where
  "sent_el rot el = to_float (el + el_offset rot)"

lemma sent_float [simp]: "to_float (sent_az rot az) = sent_az rot az" "to_float (sent_el rot el) = sent_el rot el"
  by (simp_all add: sent_az_def sent_el_def south_adjust_def)

lemma set_position_dummy:
  assumes "rot_comm_state rot" and "simulating (rot_priv rot)"
    and "run_state (rot_set_position (dummy_rot_caps junk) az el) rot = (RIG_OK, rot1)"
  shows "rot1 = rot\<lparr>rot_priv := (rot_priv rot)\<lparr>target_az := sent_az rot az, target_el := sent_el rot el, rd_tv := rot_clock rot\<rparr>\<rparr>
    \<and> sent_az rot az \<in> {min_az rot..max_az rot} \<and> sent_el rot el \<in> {min_el rot..max_el rot}"
  using assms
  by (auto simp: dummy_rot_caps_def rot_run_defs dummy_rot_set_position_def Let_def rc_defs sent_az_def sent_el_def split: if_splits)


subsection \<open>How the milliseconds are counted\<close>

definition timeval_ok :: "timeval \<Rightarrow> bool" where
  "timeval_ok tv \<longleftrightarrow> 0 \<le> tv_us tv \<and> tv_us tv < 1000000"

definition microseconds :: "timeval \<Rightarrow> timeval \<Rightarrow> int" where
  "microseconds tv0 tv = (tv_s tv - tv_s tv0) * 1000000 + (tv_us tv - tv_us tv0)"

text \<open>Times that follow one another by at least \<open>lo\<close> and at most \<open>hi\<close> microseconds.\<close>

fun spaced :: "int \<Rightarrow> int \<Rightarrow> timeval \<Rightarrow> timeval list \<Rightarrow> bool" where
  "spaced lo hi tv0 [] \<longleftrightarrow> timeval_ok tv0"
| "spaced lo hi tv0 (tv # ts) \<longleftrightarrow>
     timeval_ok tv0 \<and> lo \<le> microseconds tv0 tv \<and> microseconds tv0 tv \<le> hi \<and> spaced lo hi tv ts"

lemma spaced_ok: "spaced lo hi tv0 ts \<Longrightarrow> timeval_ok tv0"
  by (cases ts) simp_all

lemma sdiv_1000: "k sdiv 1000 = (if 0 \<le> k then k div 1000 else - (- k div 1000))" for k :: int
  by (auto simp: signed_divide_int_def sgn_if)

lemma unat_of_small_int: "0 \<le> n \<Longrightarrow> n < 2 ^ 32 \<Longrightarrow> int (unat (of_int n :: u32)) = n"
  by (simp add: unsigned_of_int take_bit_int_eq_self)

lemma elapsed_at_least_one:
  assumes "timeval_ok tv0" and "timeval_ok tv" and "1000 \<le> microseconds tv0 tv" and "microseconds tv0 tv \<le> 4294967295000"
  shows "1 \<le> unat (elapsed_since tv0 tv)"
proof -
  let ?n = "(tv_s tv - tv_s tv0) * 1000 + (tv_us tv - tv_us tv0) sdiv 1000"
  have "1 \<le> ?n" and "?n < 2 ^ 32"
    using assms by (auto simp: timeval_ok_def microseconds_def sdiv_1000)
  then show ?thesis using unat_of_small_int [of ?n] unfolding elapsed_since_def by linarith
qed

lemma counted_at_least:
  assumes "spaced 1000 4294967295000 tv0 ts"
  shows "length ts \<le> counted_ms tv0 ts"
  using assms
proof (induction ts arbitrary: tv0)
  case (Cons tv ts)
  then have "1 \<le> unat (elapsed_since tv0 tv)" by (intro elapsed_at_least_one) (auto dest: spaced_ok)
  moreover have "length ts \<le> counted_ms tv ts" using Cons by simp
  ultimately show ?case by simp
qed simp

lemma int_div_999: "999000 < k \<Longrightarrow> k < 1000000 \<Longrightarrow> k div 1000 = (999 :: int)"
  by linarith

lemma elapsed_fast:
  assumes "timeval_ok tv0" and "timeval_ok tv" and "0 \<le> microseconds tv0 tv" and "microseconds tv0 tv \<le> 999"
  shows "int (unat (elapsed_since tv0 tv)) = tv_s tv - tv_s tv0"
proof -
  have bounds: "0 \<le> tv_us tv0" "tv_us tv0 < 1000000" "0 \<le> tv_us tv" "tv_us tv < 1000000"
    "0 \<le> (tv_s tv - tv_s tv0) * 1000000 + (tv_us tv - tv_us tv0)"
    "(tv_s tv - tv_s tv0) * 1000000 + (tv_us tv - tv_us tv0) \<le> 999"
    using assms by (simp_all add: timeval_ok_def microseconds_def)
  have "(tv_s tv = tv_s tv0 \<and> 0 \<le> tv_us tv - tv_us tv0 \<and> tv_us tv - tv_us tv0 < 1000)
      \<or> (tv_s tv = tv_s tv0 + 1 \<and> tv_us tv - tv_us tv0 < - 999000 \<and> - 1000000 < tv_us tv - tv_us tv0)"
  proof -
    have "tv_s tv - tv_s tv0 < 2" using bounds by (simp add: algebra_simps)
    moreover have "- 1 < tv_s tv - tv_s tv0" using bounds by (simp add: algebra_simps)
    ultimately consider "tv_s tv = tv_s tv0" | "tv_s tv = tv_s tv0 + 1" by linarith
    then show ?thesis using bounds by cases simp_all
  qed
  then show ?thesis
  proof (elim disjE conjE)
    assume same: "tv_s tv = tv_s tv0" and us: "0 \<le> tv_us tv - tv_us tv0" "tv_us tv - tv_us tv0 < 1000"
    then have "(tv_us tv - tv_us tv0) sdiv 1000 = 0" by (simp add: sdiv_1000)
    with same show ?thesis by (simp add: elapsed_since_def)
  next
    assume sec: "tv_s tv = tv_s tv0 + 1" and us: "tv_us tv - tv_us tv0 < - 999000" "- 1000000 < tv_us tv - tv_us tv0"
    then have "- (tv_us tv - tv_us tv0) div 1000 = 999" by (intro int_div_999) simp_all
    with us have "(tv_us tv - tv_us tv0) sdiv 1000 = - 999" by (simp add: sdiv_1000)
    with sec show ?thesis by (simp add: elapsed_since_def)
  qed
qed


lemma counted_fast:
  assumes "spaced 0 999 tv0 ts"
  shows "int (counted_ms tv0 ts) = tv_s (last (tv0 # ts)) - tv_s tv0"
  using assms
proof (induction ts arbitrary: tv0)
  case (Cons tv ts)
  have "int (unat (elapsed_since tv0 tv)) = tv_s tv - tv_s tv0"
    using Cons.prems by (intro elapsed_fast) (auto dest: spaced_ok)
  with Cons show ?case by simp
qed simp

subsection \<open>Turning to a position\<close>

text \<open>Angles as rotators have them: the limits are at most 511 degrees, and the position is a \<^verbatim>\<open>float\<close>.\<close>

definition usual_angles :: "dummy_rot \<Rightarrow> bool" where
  "usual_angles rot \<longleftrightarrow> - 511 \<le> min_az rot \<and> max_az rot \<le> 511 \<and> - 511 \<le> min_el rot \<and> max_el rot \<le> 511
     \<and> to_float (rd_az (rot_priv rot)) = rd_az (rot_priv rot) \<and> \<bar>rd_az (rot_priv rot)\<bar> \<le> 512
     \<and> to_float (rd_el (rot_priv rot)) = rd_el (rot_priv rot) \<and> \<bar>rd_el (rot_priv rot)\<bar> \<le> 512"

lemma set_position_ready:
  assumes "rot_comm_state rot" and "simulating (rot_priv rot)" and "usual_angles rot"
    and "run_state (rot_set_position (dummy_rot_caps junk) az el) rot = (RIG_OK, rot1)"
  shows "rot_comm_state rot1" and "simulating (rot_priv rot1)" and "float_rotator (rot_priv rot1)"
  using set_position_dummy [OF assms(1,2,4)] assms(1-3)
  by (auto simp: float_rotator_def float_axis_def usual_angles_def abs_le_iff)

text \<open>C29: the simulated rotator turns as specified, up to the rounding of \<^verbatim>\<open>float\<close>. After an
  accepted request for a position, any number of queries at any times leaves each axis within a rounding
  per query (1/8192 of a degree each) of where moving towards its target for the milliseconds
  counted, at 6 degrees in a second and without passing the target, puts it. Beyond the count
  of milliseconds, that rounding is all that the number and the times of the queries change. The
  targets are the requested angles, with offsets and the half turn of a south zero, each sum rounded to a
  \<^verbatim>\<open>float\<close>, and lie within the limits. Limits are at most 511 degrees, positions at most 512 in size.\<close>

lemma dummy_rotator_tracks:
  assumes "rot_comm_state rot" and "simulating (rot_priv rot)" and "usual_angles rot"
    and "run_state (rot_set_position (dummy_rot_caps junk) az el) rot = (RIG_OK, rot1)"
  shows "let p = rot_priv (polls (dummy_rot_caps junk) ts rot1);
             reach = real (counted_ms (rot_clock rot) ts) * (6 / 1000);
             to_az = south_adjust rot (to_float (az + az_offset rot)); to_el = to_float (el + el_offset rot)
         in \<bar>rd_az p - step_to to_az reach (rd_az (rot_priv rot))\<bar> \<le> real (length ts) / 8192
            \<and> \<bar>rd_el p - step_to to_el reach (rd_el (rot_priv rot))\<bar> \<le> real (length ts) / 8192
            \<and> min_az rot \<le> to_az \<and> to_az \<le> max_az rot \<and> min_el rot \<le> to_el \<and> to_el \<le> max_el rot"
proof -
  note set = set_position_dummy [OF assms(1,2,4)]
  from polls_track [OF set_position_ready [OF assms], of junk ts] set
  show ?thesis by (simp add: Let_def sent_az_def sent_el_def)
qed









text \<open>asked more often than once in a millisecond, the simulated rotator crawls: it counts one
  millisecond for every second that begins, a thousandth of its speed, because each query cuts
  the time since the last to whole milliseconds and starts anew. Within one second it
  does not move at all.\<close>

lemma turned_way:
  assumes "float_axis target pos" and "n < 2 ^ 32"
  shows "\<bar>turned n target pos - pos\<bar> \<le> real n * (62 / 10000)"
proof (cases "n = 0")
  case False
  have "\<bar>step_to target (real n * deg_ms) pos - pos\<bar> \<le> real n * deg_ms" by (auto simp: step_to_def)
  with turned_error [OF assms] have "\<bar>turned n target pos - pos\<bar> \<le> 1 / 8192 + real n * deg_ms" by linarith
  moreover have "1 \<le> real n" using False by simp
  ultimately show ?thesis by linarith
qed (simp add: turned_zero [OF assms(1)])

lemma polls_way:
  assumes "rot_comm_state rot" and "simulating (rot_priv rot)" and "float_rotator (rot_priv rot)"
  shows "\<bar>rd_az (rot_priv (polls (dummy_rot_caps junk) ts rot)) - rd_az (rot_priv rot)\<bar>
    \<le> real (counted_ms (rd_tv (rot_priv rot)) ts) * (62 / 10000)"
  using assms
proof (induction ts arbitrary: rot)
  case (Cons tv ts)
  show ?case
  proof (cases "at_rest (rot_priv rot)")
    case True
    with polls_at_rest [OF Cons.prems(1,2) True, of junk "tv # ts"] show ?thesis by (simp del: polls.simps counted_ms.simps)
  next
    case False
    let ?s = "rot\<lparr>rot_clock := tv, rot_priv := simulate tv (rot_priv rot)\<rparr>"
    have s: "snd (poll (dummy_rot_caps junk) tv rot) = ?s"
      using False by (simp add: poll_dummy [OF Cons.prems(1,2)] Let_def)
    have "float_axis (target_az (rot_priv rot)) (rd_az (rot_priv rot))" using Cons.prems(3) by (simp add: float_rotator_def)
    note step = turned_way [OF this unat_u32, of "elapsed_since (rd_tv (rot_priv rot)) tv"]
    have "\<bar>rd_az (rot_priv (polls (dummy_rot_caps junk) ts ?s)) - rd_az (rot_priv ?s)\<bar> \<le> real (counted_ms (rd_tv (rot_priv ?s)) ts) * (62 / 10000)"
      using Cons.prems by (intro Cons.IH) (simp_all add: simulate_fields float_rotator_simulate)
    then have "\<bar>rd_az (rot_priv (polls (dummy_rot_caps junk) ts ?s)) - turned (unat (elapsed_since (rd_tv (rot_priv rot)) tv))
        (target_az (rot_priv rot)) (rd_az (rot_priv rot))\<bar> \<le> real (counted_ms tv ts) * (62 / 10000)"
      by (simp add: simulate_fields)
    from near_trans [OF this step order_refl] show ?thesis by (simp add: s distrib_right add.commute del: of_nat_unat)
  qed
qed simp

lemma dummy_rotator_crawls:
  assumes "rot_comm_state rot" and "simulating (rot_priv rot)" and "usual_angles rot"
    and "run_state (rot_set_position (dummy_rot_caps junk) az el) rot = (RIG_OK, rot1)"
    and "spaced 0 999 (rot_clock rot) ts"
  shows "\<bar>rd_az (rot_priv (polls (dummy_rot_caps junk) ts rot1)) - rd_az (rot_priv rot)\<bar>
    \<le> of_int (tv_s (last (rot_clock rot # ts)) - tv_s (rot_clock rot)) * (62 / 10000)"
proof -
  note set = set_position_dummy [OF assms(1,2,4)]
  have "real (counted_ms (rot_clock rot) ts) = of_int (tv_s (last (rot_clock rot # ts)) - tv_s (rot_clock rot))"
    using counted_fast [OF assms(5)] by (metis of_int_of_nat_eq)
  then show ?thesis using polls_way [OF set_position_ready [OF assms(1-4)], of junk ts] set by simp
qed


subsection \<open>Limits\<close>

datatype rot_request = SetPosition real real | GetPosition | Park | Stop | Move int int | GetStatus | Wait timeval

fun rot_serve :: "dummy_rot_priv rot_caps \<Rightarrow> rot_request \<Rightarrow> dummy_rot \<Rightarrow> dummy_rot" where
  "rot_serve caps (SetPosition az el) rot = snd (run_state (rot_set_position caps az el) rot)"
| "rot_serve caps GetPosition rot = snd (run_state (rot_get_position caps) rot)"
| "rot_serve caps Park rot = snd (run_state (rot_park caps) rot)"
| "rot_serve caps Stop rot = snd (run_state (rot_stop caps) rot)"
| "rot_serve caps (Move direction speed) rot = snd (run_state (rot_move caps direction speed) rot)"
| "rot_serve caps GetStatus rot = snd (run_state (rot_get_status caps) rot)"
| "rot_serve caps (Wait tv) rot = rot\<lparr>rot_clock := tv\<rparr>"

text \<open>
  An axis within its limits: the position up to the rounding, and the target (where the axis does not rest) exactly.
\<close>

definition axis_in :: "real \<Rightarrow> real \<Rightarrow> real \<Rightarrow> real \<Rightarrow> bool" where
  "axis_in lo hi target pos \<longleftrightarrow>
     lo - 1 / 8192 \<le> pos \<and> pos \<le> hi + 1 / 8192 \<and> (target = pos \<or> lo \<le> target \<and> target \<le> hi)"

definition in_limits :: "dummy_rot \<Rightarrow> bool" where
  "in_limits rot \<longleftrightarrow> (let p = rot_priv rot in
     axis_in (min_az rot) (max_az rot) (target_az p) (rd_az p) \<and> axis_in (min_el rot) (max_el rot) (target_el p) (rd_el p))"

text \<open>All angles a rotator keeps are a \<^verbatim>\<open>float\<close>, and its limits are usual ones.\<close>

definition all_floats :: "dummy_rot_priv \<Rightarrow> bool" where
  "all_floats p \<longleftrightarrow> (\<forall>x\<in>{rd_az p, rd_el p, target_az p, target_el p}. to_float x = x)"

definition wide_limits :: "dummy_rot \<Rightarrow> bool" where
  "wide_limits rot \<longleftrightarrow> - 511 \<le> min_az rot \<and> min_az rot \<le> - 180 \<and> 180 \<le> max_az rot \<and> max_az rot \<le> 511
     \<and> - 511 \<le> min_el rot \<and> min_el rot \<le> 0 \<and> 90 \<le> max_el rot \<and> max_el rot \<le> 511"

text \<open>An opened, simulated rotator within limits that allow every direction and home.\<close>

definition limits_inv :: "dummy_rot \<Rightarrow> bool" where
  "limits_inv rot \<longleftrightarrow> rot_comm_state rot \<and> simulating (rot_priv rot) \<and> in_limits rot \<and> all_floats (rot_priv rot) \<and> wide_limits rot"

lemma turned_in_limits:
  assumes "axis_in lo hi target pos" and "to_float target = target" "to_float pos = pos"
    and "- 511 \<le> lo" "hi \<le> 511" and "n < 2 ^ 32"
  shows "axis_in lo hi target (turned n target pos)" and "to_float (turned n target pos) = turned n target pos"
proof -
  have "axis_in lo hi target (turned n target pos) \<and> to_float (turned n target pos) = turned n target pos"
  proof (cases "target = pos")
    case True
    then show ?thesis using assms(1,2) by (simp add: turned_def reached_def)
  next
    case False
    then have t: "lo \<le> target" "target \<le> hi" "lo - 1 / 8192 \<le> pos" "pos \<le> hi + 1 / 8192"
      using assms(1) by (simp_all add: axis_in_def)
    then have "\<bar>pos\<bar> \<le> 512" "\<bar>target\<bar> \<le> 511" using assms(4,5) by (simp_all add: abs_le_iff)
    then have f: "float_axis target pos" using assms(2,3) by (simp add: float_axis_def)
    show ?thesis
      using turned_between [OF f assms(6)] turned_axis [OF f assms(6)] t
      by (simp add: axis_in_def float_axis_def min_def max_def split: if_splits)
  qed
  then show "axis_in lo hi target (turned n target pos)" "to_float (turned n target pos) = turned n target pos" by simp_all
qed

lemma limits_inv_simulate:
  assumes "limits_inv rot"
  shows "limits_inv (rot\<lparr>rot_priv := simulate tv (rot_priv rot)\<rparr>)"
proof -
  let ?p = "rot_priv rot" and ?w = "elapsed_since (rd_tv (rot_priv rot)) tv"
  have az: "axis_in (min_az rot) (max_az rot) (target_az ?p) (rd_az ?p)" "to_float (target_az ?p) = target_az ?p"
      "to_float (rd_az ?p) = rd_az ?p" "- 511 \<le> min_az rot" "max_az rot \<le> 511"
    and el: "axis_in (min_el rot) (max_el rot) (target_el ?p) (rd_el ?p)" "to_float (target_el ?p) = target_el ?p"
      "to_float (rd_el ?p) = rd_el ?p" "- 511 \<le> min_el rot" "max_el rot \<le> 511"
    using assms by (simp_all add: limits_inv_def in_limits_def all_floats_def wide_limits_def Let_def)
  note turned_in_limits [OF az unat_u32, of ?w] turned_in_limits [OF el unat_u32, of ?w]
  then show ?thesis
    using assms by (simp add: limits_inv_def in_limits_def all_floats_def wide_limits_def simulate_fields Let_def)
qed

lemmas dummy_rot_run = dummy_rot_caps_def rot_run_defs dummy_rot_get_position_def dummy_rot_simulate_rotation_def
  dummy_rot_set_position_def dummy_rot_park_def dummy_rot_stop_def dummy_rot_move_def dummy_rot_get_status_def
  rot_park_def rot_stop_def rot_move_def rot_get_status_def

text \<open>New targets, where the axes are or within the limits.\<close>

lemma limits_inv_upd:
  assumes "limits_inv rot"
    and "target_az p = rd_az (rot_priv rot) \<or> min_az rot \<le> target_az p \<and> target_az p \<le> max_az rot"
    and "target_el p = rd_el (rot_priv rot) \<or> min_el rot \<le> target_el p \<and> target_el p \<le> max_el rot"
    and "to_float (target_az p) = target_az p" and "to_float (target_el p) = target_el p"
    and "simulating p" and "rd_az p = rd_az (rot_priv rot)" and "rd_el p = rd_el (rot_priv rot)"
  shows "limits_inv (rot\<lparr>rot_priv := p\<rparr>)"
  using assms unfolding limits_inv_def in_limits_def all_floats_def wide_limits_def axis_in_def by (simp add: Let_def)

lemma limits_invD:
  assumes "limits_inv rot"
  shows "rot_comm_state rot" "simulating (rot_priv rot)"
    "target_az (rot_priv rot) = rd_az (rot_priv rot)
      \<or> min_az rot \<le> target_az (rot_priv rot) \<and> target_az (rot_priv rot) \<le> max_az rot"
    "target_el (rot_priv rot) = rd_el (rot_priv rot)
      \<or> min_el rot \<le> target_el (rot_priv rot) \<and> target_el (rot_priv rot) \<le> max_el rot"
    "to_float (target_az (rot_priv rot)) = target_az (rot_priv rot)" "to_float (target_el (rot_priv rot)) = target_el (rot_priv rot)"
    "to_float (rd_az (rot_priv rot)) = rd_az (rot_priv rot)" "to_float (rd_el (rot_priv rot)) = rd_el (rot_priv rot)"
    "min_az rot \<le> - 180" "180 \<le> max_az rot" "min_el rot \<le> 0" "90 \<le> max_el rot"
  using assms by (simp_all add: limits_inv_def in_limits_def all_floats_def wide_limits_def axis_in_def Let_def)

text \<open>Every way the back end sets a target.\<close>

lemma limits_inv_target:
  assumes "limits_inv rot" and "az = rd_az (rot_priv rot) \<or> min_az rot \<le> az \<and> az \<le> max_az rot"
    and "el = rd_el (rot_priv rot) \<or> min_el rot \<le> el \<and> el \<le> max_el rot" and "to_float az = az" and "to_float el = el"
  shows "limits_inv (snd (run_state (dummy_rot_set_position az el) rot))"
  using assms limits_invD(1,2) [OF assms(1)]
  by (auto simp: dummy_rot_set_position_def upd_rot_def rot_ok_def intro!: limits_inv_upd)

lemma limits_inv_get:
  assumes "limits_inv rot"
  shows "limits_inv (snd (run_state dummy_rot_get_position rot))"
  using assms limits_inv_simulate [OF assms]
  by (simp add: dummy_rot_get_position_def dummy_rot_simulate_rotation_def upd_rot_def rot_answer_def)

lemma limits_inv_stop:
  assumes "limits_inv rot"
  shows "limits_inv (snd (run_state dummy_rot_stop rot))"
proof -
  obtain x rot' where get: "run_state dummy_rot_get_position rot = (x, rot')" by fastforce
  with limits_inv_get [OF assms] have inv: "limits_inv rot'" by simp
  then have "limits_inv (rot'\<lparr>rot_priv := (rot_priv rot')
      \<lparr>target_az := rd_az (rot_priv rot'), target_el := rd_el (rot_priv rot')\<rparr>\<rparr>)"
    using limits_invD [OF inv] by (intro limits_inv_upd [OF inv]) simp_all
  then show ?thesis by (simp add: dummy_rot_stop_def get upd_rot_def rot_ok_def)
qed

lemma limits_inv_serve:
  assumes "limits_inv rot"
  shows "limits_inv (rot_serve (dummy_rot_caps junk) req rot)"
proof -
  note lim = limits_invD [OF assms]
  have ask: "snd (run_state (rot_ask (\<lambda>_. True) (Some f) call failed) rot) = snd (run_state (call f) rot)" for f call failed
    using lim by (simp add: rot_ask_def CHECK_ROT_ARG_def)
  show ?thesis
  proof (cases req)
    case (SetPosition az el)
    then show ?thesis
      using assms lim(1,2) limits_inv_target [OF assms, of "sent_az rot az" "sent_el rot el"]
      by (simp add: rot_set_position_def CHECK_ROT_ARG_def dummy_rot_caps_def Let_def flip: sent_az_def sent_el_def)
  next
    case GetPosition
    obtain x rot' where get: "run_state dummy_rot_get_position rot = (x, rot')" by fastforce
    have "snd (run_state (rot_get_position (dummy_rot_caps junk)) rot) = rot'"
      using lim by (simp add: rot_get_position_def CHECK_ROT_ARG_def dummy_rot_caps_def get case_prod_beta)
    then show ?thesis using GetPosition limits_inv_get [OF assms] get by simp
  next
    case Park
    then show ?thesis
      using limits_inv_target [OF assms, of 0 0] lim
      by (simp add: rot_park_def dummy_rot_caps_def ask dummy_rot_park_def rot_ok_def case_prod_beta)
  next
    case Stop
    then show ?thesis using limits_inv_stop [OF assms] by (simp add: rot_stop_def dummy_rot_caps_def ask)
  next
    case (Move direction speed)
    then show ?thesis
      using assms lim limits_inv_target [OF assms] by (simp add: rot_move_def dummy_rot_caps_def ask dummy_rot_move_def)
  next
    case GetStatus
    then show ?thesis
      using limits_inv_simulate [OF assms] lim
      by (simp add: rot_get_status_def dummy_rot_caps_def ask dummy_rot_get_status_def dummy_rot_simulate_rotation_def
          upd_rot_def rot_answer_def)
  next
    case (Wait tv)
    then show ?thesis using assms by (simp add: limits_inv_def in_limits_def wide_limits_def Let_def)
  qed
qed

text \<open>C31: a simulated rotator stays within its limits, up to the rounding of \<^verbatim>\<open>float\<close>. Within limits
  that hold the points the back end turns to by itself (home, and the ends of each direction), no sequence of requests
  moves it out of them by more than 1/8192 of a degree, or sets a target outside of them (where an axis rests, its target is
  where it is). The limits are at most 511 degrees, and the angles a \<^verbatim>\<open>float\<close>. The condition is needed: a
  request to turn clockwise sets the target to 180 degrees whatever the limit, since \<^verbatim>\<open>rot_move\<close> does not look at it.\<close>

lemma dummy_rotator_within_limits:
  assumes "rot_comm_state rot" and "simulating (rot_priv rot)" and "in_limits rot" and "all_floats (rot_priv rot)"
    and "wide_limits rot"
    and "rot_comm_state rot2" and "simulating (rot_priv rot2)" and "max_az rot2 < 180"
  shows "in_limits (fold (rot_serve (dummy_rot_caps junk)) reqs rot)
    \<and> max_az rot2 < target_az (rot_priv (rot_serve (dummy_rot_caps junk) (Move ROT_MOVE_CW speed) rot2))"
proof
  have "limits_inv (fold (rot_serve (dummy_rot_caps junk)) reqs rot)" if "limits_inv rot" for rot
    using that by (induction reqs arbitrary: rot) (simp_all add: limits_inv_serve)
  then show "in_limits (fold (rot_serve (dummy_rot_caps junk)) reqs rot)"
    using assms(1-5) unfolding limits_inv_def by blast
  show "max_az rot2 < target_az (rot_priv (rot_serve (dummy_rot_caps junk) (Move ROT_MOVE_CW speed) rot2))"
    using assms(6-8)
    by (simp add: rot_move_def rot_run_defs dummy_rot_caps_def dummy_rot_move_def dummy_rot_set_position_def
        ROT_MOVE_UP_def ROT_MOVE_DOWN_def ROT_MOVE_CCW_def ROT_MOVE_CW_def Let_def)
qed


text \<open>a rotator that turns back reports both directions. When the last update found it turning
  right and its target is now far to the left, the answered status has the bits for moving left
  and for moving right: an update sets the bit of the new direction without clearing the other's.\<close>

lemma dummy_rotator_both_directions:
  assumes "rot_comm_state rot" and "simulating (rot_priv rot)"
    and "rd_status (rot_priv rot) AND ROT_STATUS_MOVING_RIGHT \<noteq> 0" and "\<bar>target_az (rot_priv rot) - rd_az (rot_priv rot)\<bar> \<le> 1024"
    and "target_az (rot_priv rot) + real (unat (elapsed_since (rd_tv (rot_priv rot)) (rot_clock rot))) * (6 / 1000) + 1 / 8192
         < rd_az (rot_priv rot)"
  shows "\<exists>status. fst (run_state (rot_get_status (dummy_rot_caps junk)) rot) = (RIG_OK, Some status)
    \<and> status AND ROT_STATUS_MOVING_RIGHT \<noteq> 0 \<and> status AND ROT_STATUS_MOVING_LEFT \<noteq> 0"
proof -
  let ?p = "rot_priv rot"
  let ?e = "elapsed_since (rd_tv ?p) (rot_clock rot)"
  let ?s1 = "snd (turn_az ?e (target_az ?p) (rd_az ?p, rd_status ?p))"
  let ?s2 = "snd (turn_el ?e (target_el ?p) (rd_el ?p, ?s1))"
  have "0 \<le> real (unat ?e) * deg_ms" by (simp del: of_nat_unat)
  then have "\<not> \<bar>target_az ?p - rd_az ?p\<bar> \<le> real (unat ?e) * deg_ms + 1 / 8192" and left: "\<not> rd_az ?p < target_az ?p"
    using assms(5) by linarith+
  then have "\<not> reached (unat ?e) (target_az ?p) (rd_az ?p)" using reached_bound assms(4) by blast
  then have s1: "?s1 = rd_status ?p OR ROT_STATUS_MOVING_AZ OR ROT_STATUS_MOVING_LEFT"
    using left by (simp add: turn_az_def turn_before)
  have right: "bit (rd_status ?p) 4" using assms(3) by (simp add: ROT_STATUS_MOVING_RIGHT_def and_FLAG32)
  have "?s2 \<in> {?s1 AND NOT (ROT_STATUS_MOVING_EL OR ROT_STATUS_MOVING_UP OR ROT_STATUS_MOVING_DOWN),
      ?s1 OR ROT_STATUS_MOVING_EL OR ROT_STATUS_MOVING_UP, ?s1 OR ROT_STATUS_MOVING_EL OR ROT_STATUS_MOVING_DOWN}"
    by (simp add: turn_el_def turn_def Let_def)
  then have bits: "bit ?s2 4" "bit ?s2 3"
    using right by (auto simp: s1 flag_defs bit_simps FLAG32_def)
  have fin: "bit (rd_status (simulate (rot_clock rot) ?p)) n \<longleftrightarrow> bit ?s2 n" if "n \<in> {3, 4}" for n
    using that by (auto simp: simulate_def Let_def case_prod_beta flag_defs bit_simps FLAG32_def)
  have "fst (run_state (rot_get_status (dummy_rot_caps junk)) rot) = (RIG_OK, Some (rd_status (simulate (rot_clock rot) ?p)))"
    using assms(1,2) by (simp add: rot_get_status_def rot_run_defs dummy_rot_caps_def dummy_rot_get_status_def dummy_rot_simulate_rotation_def)
  then show ?thesis
    using fin bits by (simp add: ROT_STATUS_MOVING_RIGHT_def ROT_STATUS_MOVING_LEFT_def and_FLAG32)
qed


subsection \<open>A rotator to test with\<close>

definition blank_rot_priv :: dummy_rot_priv where
  "blank_rot_priv = \<lparr>rd_az = 0, rd_el = 0, rd_tv = \<lparr>tv_s = 0, tv_us = 0\<rparr>, target_az = 0, target_el = 0, rd_status = 0,
     rd_funcs = 0, rd_levels = (\<lambda>_. VInt 0), rd_parms = (\<lambda>_. VInt 0), rd_ext_funcs = [], rd_ext_levels = [],
     rd_ext_parms = [], rd_magic_conf = [], simulating = False\<rparr>"

definition blank_rot :: dummy_rot where
  "blank_rot = \<lparr>min_az = 0, max_az = 0, min_el = 0, max_el = 0, south_zero = False, az_offset = 0, el_offset = 0,
     current_speed = 0, rot_get_funcs = 0, rot_set_funcs = 0, rot_get_levels = 0, rot_set_levels = 0,
     rot_get_parms = 0, rot_set_parms = 0, rot_statuses = 0, rotport = some_port RIG_PORT_NONE [], rotport2 = some_port RIG_PORT_NONE [],
     rot_comm_state = False, rot_priv = blank_rot_priv, rot_clock = \<lparr>tv_s = 100, tv_us = 0\<rparr>,
     rot_os = \<lparr>open_fds = [0, 1, 2], usb_handles = 0\<rparr>, opened_rot_list = []\<rparr>"

definition opened_dummy_rot :: dummy_rot where
  "opened_dummy_rot = snd (rot_open (\<lambda>name. False) lazy_hardware (dummy_rot_caps blank_rot_priv) 1
     (the (rot_setup (dummy_rot_caps blank_rot_priv) blank_rot)))"

lemma opened_dummy_rot:
  "rot_comm_state opened_dummy_rot" "simulating (rot_priv opened_dummy_rot)"
  "min_az opened_dummy_rot = - 180" "max_az opened_dummy_rot = 180" "min_el opened_dummy_rot = 0" "max_el opened_dummy_rot = 90"
  "\<not> south_zero opened_dummy_rot" "az_offset opened_dummy_rot = 0" "el_offset opened_dummy_rot = 0"
  "rot_clock opened_dummy_rot = \<lparr>tv_s = 100, tv_us = 0\<rparr>"
  "rd_az (rot_priv opened_dummy_rot) = 0" "rd_el (rot_priv opened_dummy_rot) = 0"
  "target_az (rot_priv opened_dummy_rot) = 0" "target_el (rot_priv opened_dummy_rot) = 0"
  by (simp_all add: opened_dummy_rot_def rot_open_def rot_setup_def rot_populate_def rot_open_port_def dummy_rot_caps_def
      dummy_rot_init_def dummy_rot_open_def default_rotport_def blank_rot_def rot_run_defs rc_defs Let_def
      del: of_nat_unat)

lemma opened_dummy_rot_usual: "usual_angles opened_dummy_rot"
  by (simp add: usual_angles_def opened_dummy_rot)

lemma opened_dummy_rot_accepts:
  assumes "to_float az = az" "to_float el = el" "- 180 \<le> az" "az \<le> 180" "0 \<le> el" "el \<le> 90"
  shows "run_state (rot_set_position (dummy_rot_caps blank_rot_priv) az el) opened_dummy_rot
    = (RIG_OK, opened_dummy_rot\<lparr>rot_priv := (rot_priv opened_dummy_rot)\<lparr>target_az := az, target_el := el,
        rd_tv := \<lparr>tv_s = 100, tv_us = 0\<rparr>\<rparr>\<rparr>)"
  using assms
  by (simp add: rot_run_defs dummy_rot_caps_def dummy_rot_set_position_def opened_dummy_rot south_adjust_def Let_def)

definition later :: "int \<Rightarrow> int \<Rightarrow> timeval" where
  "later s us = \<lparr>tv_s = 100 + s, tv_us = us\<rparr>"

definition heading :: "real \<Rightarrow> real \<Rightarrow> dummy_rot" where
  "heading az el = opened_dummy_rot\<lparr>rot_priv := (rot_priv opened_dummy_rot)\<lparr>target_az := az, target_el := el,
     rd_tv := \<lparr>tv_s = 100, tv_us = 0\<rparr>\<rparr>\<rparr>"

lemma dummy_rotator_tracks_witness:
  "\<bar>rd_az (rot_priv (polls (dummy_rot_caps blank_rot_priv) [later 1 0, later 1 500000] (heading 90 5))) - 9\<bar> \<le> 2 / 8192"
  using dummy_rotator_tracks [OF opened_dummy_rot(1,2) opened_dummy_rot_usual opened_dummy_rot_accepts [of 90 5],
      of "[later 1 0, later 1 500000]"]
  by (simp add: heading_def Let_def opened_dummy_rot south_adjust_def later_def elapsed_since_def sdiv_1000 step_to_def)



lemma dummy_rotator_crawls_witness:
  "\<bar>rd_az (rot_priv (polls (dummy_rot_caps blank_rot_priv) [later 0 400, later 0 800] (heading 90 0)))\<bar> \<le> 0"
  using dummy_rotator_crawls [OF opened_dummy_rot(1,2) opened_dummy_rot_usual opened_dummy_rot_accepts [of 90 0],
      of "[later 0 400, later 0 800]"]
  by (simp add: heading_def opened_dummy_rot later_def microseconds_def timeval_ok_def)

lemma dummy_rotator_within_limits_witness:
  "in_limits (fold (rot_serve (dummy_rot_caps blank_rot_priv)) [SetPosition 10 20, Wait (later 1 0), Move ROT_MOVE_CW 1, Stop]
      opened_dummy_rot)
    \<and> 90 < target_az (rot_priv (rot_serve (dummy_rot_caps blank_rot_priv) (Move ROT_MOVE_CW 1) (opened_dummy_rot\<lparr>max_az := 90\<rparr>)))"
  using dummy_rotator_within_limits [of opened_dummy_rot "opened_dummy_rot\<lparr>max_az := 90\<rparr>" blank_rot_priv
      "[SetPosition 10 20, Wait (later 1 0), Move ROT_MOVE_CW 1, Stop]" 1]
  by (simp add: opened_dummy_rot in_limits_def axis_in_def all_floats_def wide_limits_def Let_def)

text \<open>
  The rounding does pass a limit: from an azimuth of \<^verbatim>\<open>-76.24199\<close> the way to 180 degrees is rounded up, so 42.707 seconds
  do not reach it, but moving for that time ends one \<^verbatim>\<open>float\<close> beyond the target, which is the limit.
\<close>

lemma near_bounds: "\<bar>a - b\<bar> \<le> e \<Longrightarrow> a \<le> b + e" "\<bar>a - b\<bar> \<le> e \<Longrightarrow> b - e \<le> (a :: real)"
  by linarith+

lemma DEG_PER_MS_close: "DEG_PER_MS \<le> 6000000001 / 1000000000000" "5999999999 / 1000000000000 \<le> DEG_PER_MS"
proof -
  have "(1 :: real) / 2 ^ 60 \<le> 1 / 1000000000000" by simp
  with DEG_PER_MS_near have "\<bar>DEG_PER_MS - deg_ms\<bar> \<le> 1 / 1000000000000" by (rule order_trans)
  then show "DEG_PER_MS \<le> 6000000001 / 1000000000000" "5999999999 / 1000000000000 \<le> DEG_PER_MS" by linarith+
qed

definition odd_az :: real where "odd_az = - 9993190 / 131072"

lemma odd_az_float: "to_float odd_az = odd_az"
  using to_float_exact [of "- 9993190" "- 17"] by (simp add: odd_az_def power_int_minus)

lemma odd_az_way: "to_float (180 - odd_az) = 33586152 / 131072"
proof -
  have u: "last_bit 24 (180 - odd_az) = 1 / 32768"
    using last_bit_eqI [of 8 "180 - odd_az" 24] by (simp add: odd_az_def power_int_minus)
  have "round_even ((180 - odd_az) / (1 / 32768)) = 8396538" by (simp add: round_even_def odd_az_def Let_def)
  then show ?thesis by (simp add: to_float_def round_to_def u)
qed

lemma odd_az_not_reached: "\<not> reached 42707 180 odd_az"
proof -
  let ?q = "33586152 / 131072 / DEG_PER_MS"
  have "427070005 / 10000 * DEG_PER_MS \<le> 33586152 / 131072" using DEG_PER_MS_close by linarith
  then have "427070005 / 10000 \<le> ?q" using DEG_PER_MS_pos by (simp add: pos_le_divide_eq)
  moreover have "to_double (42707 + 1 / 4096) = 42707 + 1 / 4096"
    using to_double_exact [of "42707 * 4096 + 1" "- 12"] by (simp add: power_int_minus)
  ultimately have "42707 < to_double ?q" using to_double_bounds(1) [of "42707 + 1 / 4096" ?q] by (simp; linarith)
  then show ?thesis by (simp add: reached_def odd_az_way)
qed

lemma odd_az_turned: "turned 42707 180 odd_az = 180 + 1 / 65536"
proof -
  have d: "\<bar>180 - odd_az\<bar> \<le> 1024" by (simp add: odd_az_def)
  have st: "\<bar>stride 42707 - real 42707 * deg_ms\<bar> \<le> 1 / 100000000" by (rule stride_near(2) [OF odd_az_not_reached d]) simp
  then have sb: "stride 42707 \<le> 25624200001 / 100000000" "25624199999 / 100000000 \<le> stride 42707"
    using near_bounds [OF st] by simp_all
  let ?y = "odd_az + stride 42707"
  have y: "18000001 / 100000 \<le> ?y" "?y \<le> 180000011 / 1000000" using sb by (simp_all add: odd_az_def)
  have "\<bar>to_double ?y - ?y\<bar> \<le> 1 / 10000000" using to_double_error [of ?y] y by (simp; linarith)
  with y have z: "1800000099 / 10000000 \<le> to_double ?y" "to_double ?y \<le> 1800000112 / 10000000" by linarith+
  have "to_float (to_double ?y) = of_int 11796481 * (1 / 65536)"
    unfolding to_float_def by (rule round_to_eqI [of 7]) (use z in \<open>simp_all add: power_int_minus abs_less_iff\<close>)
  then show ?thesis using odd_az_not_reached by (simp add: turned_def odd_az_def)
qed

lemma odd_az_reached: "turned 13000 odd_az 0 = odd_az"
proof -
  have "\<bar>odd_az\<bar> \<le> 13000 * DEG_PER_MS" using DEG_PER_MS_close by (simp add: odd_az_def)
  then have "\<bar>odd_az\<bar> / DEG_PER_MS \<le> 13000" using DEG_PER_MS_pos by (simp add: pos_divide_le_eq)
  then have "to_double (\<bar>odd_az\<bar> / DEG_PER_MS) \<le> 13000" by (intro to_double_bounds(2)) simp_all
  then show ?thesis by (simp add: turned_def reached_def odd_az_float)
qed

lemma turned_at_rest [simp]: "turned n target target = target"
  by (simp add: turned_def reached_def)

lemma serve_GetPosition:
  assumes "rot_comm_state rot" and "simulating (rot_priv rot)"
  shows "rot_serve (dummy_rot_caps junk) GetPosition rot
    = rot\<lparr>rot_priv := if at_rest (rot_priv rot) then rot_priv rot else simulate (rot_clock rot) (rot_priv rot)\<rparr>"
  using poll_dummy [OF assms, of junk "rot_clock rot"] by (simp add: poll_def Let_def)

lemma dummy_rotator_passes_limit:
  "let rot = fold (rot_serve (dummy_rot_caps blank_rot_priv)) [SetPosition odd_az 0, Wait (later 13 0), GetPosition,
       Move ROT_MOVE_CW 1, Wait (later 55 707000), GetPosition] opened_dummy_rot
   in max_az rot = 180 \<and> target_az (rot_priv rot) = 180 \<and> rd_az (rot_priv rot) = 180 + 1 / 65536"
proof -
  let ?serve = "rot_serve (dummy_rot_caps blank_rot_priv)"
  let ?r1 = "?serve (Wait (later 13 0)) (?serve (SetPosition odd_az 0) opened_dummy_rot)"
  have r1: "?r1 = (heading odd_az 0)\<lparr>rot_clock := later 13 0\<rparr>"
    using opened_dummy_rot_accepts [of odd_az 0] odd_az_float by (simp add: heading_def odd_az_def)
  let ?r2 = "?serve GetPosition ?r1"
  have e1: "unat (elapsed_since \<lparr>tv_s = 100, tv_us = 0\<rparr> (later 13 0)) = 13000" by (simp add: elapsed_since_def later_def sdiv_1000)
  have e2: "unat (elapsed_since (later 13 0) (later 55 707000)) = 42707" by (simp add: elapsed_since_def later_def sdiv_1000)
  have "odd_az \<noteq> 0" by (simp add: odd_az_def)
  then have r2: "rd_az (rot_priv ?r2) = odd_az" "rd_el (rot_priv ?r2) = 0" "target_az (rot_priv ?r2) = odd_az"
    "target_el (rot_priv ?r2) = 0" "rot_clock ?r2 = later 13 0" "rot_comm_state ?r2" "simulating (rot_priv ?r2)" "max_az ?r2 = 180"
    unfolding r1
    by (simp_all add: serve_GetPosition heading_def opened_dummy_rot at_rest_def simulate_fields e1 odd_az_reached del: rot_serve.simps(2))
  let ?r3 = "?serve (Wait (later 55 707000)) (?serve (Move ROT_MOVE_CW 1) ?r2)"
  have r3: "?r3 = ?r2\<lparr>rot_priv := (rot_priv ?r2)\<lparr>target_az := 180, target_el := 0, rd_tv := later 13 0\<rparr>, rot_clock := later 55 707000\<rparr>"
    using r2 by (simp add: rot_move_def rot_run_defs dummy_rot_caps_def dummy_rot_move_def dummy_rot_set_position_def
        ROT_MOVE_UP_def ROT_MOVE_DOWN_def ROT_MOVE_CCW_def ROT_MOVE_CW_def Let_def del: rot_serve.simps(2))
  have "180 \<noteq> odd_az" by (simp add: odd_az_def)
  then have "max_az (?serve GetPosition ?r3) = 180 \<and> target_az (rot_priv (?serve GetPosition ?r3)) = 180
      \<and> rd_az (rot_priv (?serve GetPosition ?r3)) = 180 + 1 / 65536"
    unfolding r3 using r2
    by (simp add: serve_GetPosition at_rest_def simulate_fields e2 odd_az_turned del: rot_serve.simps(2))
  then show ?thesis by (simp add: Let_def del: rot_serve.simps)
qed

definition turning_back :: dummy_rot where
  "turning_back = opened_dummy_rot\<lparr>rot_priv := (rot_priv opened_dummy_rot)\<lparr>rd_az := 90, rd_tv := later 0 0,
     rd_status := ROT_STATUS_MOVING_RIGHT, target_az := - 90\<rparr>\<rparr>"

lemma dummy_rotator_both_directions_witness:
  "\<exists>status. fst (run_state (rot_get_status (dummy_rot_caps blank_rot_priv)) turning_back) = (RIG_OK, Some status)
    \<and> status AND ROT_STATUS_MOVING_RIGHT \<noteq> 0 \<and> status AND ROT_STATUS_MOVING_LEFT \<noteq> 0"
  by (rule dummy_rotator_both_directions)
    (simp_all add: turning_back_def opened_dummy_rot later_def elapsed_since_def ROT_STATUS_MOVING_RIGHT_def)


definition serial_rot :: dummy_rot where
  "serial_rot = blank_rot\<lparr>rotport := some_port RIG_PORT_SERIAL ''/dev/ttyS0''\<rparr>"

lemma rotator_gives_back_witness:
  "rot_os (snd (rot_cleanup (dummy_rot_caps blank_rot_priv) 7
      (snd (rot_open (\<lambda>name. False) lazy_hardware (dummy_rot_caps blank_rot_priv) 7 serial_rot)))) = rot_os serial_rot"
proof -
  have "polite_rot (cap_rot_open (dummy_rot_caps blank_rot_priv))" "polite_rot (cap_rot_close (dummy_rot_caps blank_rot_priv))"
    "polite_rot (cap_rot_cleanup (dummy_rot_caps blank_rot_priv))"
    by (auto simp: polite_rot_def dummy_rot_caps_def dummy_rot_open_def dummy_rot_close_def dummy_rot_cleanup_def upd_rot_def rot_ok_def)
  then show ?thesis
    by (intro rotator_gives_back [THEN conjunct1, OF _ _ _ _ _ _ surjective_pairing])
      (simp_all add: serial_rot_def blank_rot_def dummy_rot_caps_def ROT_MODEL_RT21_def ROT_MODEL_DUMMY_def)
qed

end
