(* ===== verification/Hamlib_Io.thy ===== *)
theory Hamlib_Io
  imports Hamlib_Prelude
begin

text \<open>
  Reading from and writing to ports: \<^verbatim>\<open>write_block\<close>, \<^verbatim>\<open>read_block\<close> and
  \<^verbatim>\<open>read_string\<close> of \<^verbatim>\<open>src/iofunc.c\<close> (POSIX). What arrives is a list of events in the
  order in which waiting for data meets them; an empty list is a line that stays quiet. What is
  connected to the line is a parameter that answers each octet written to it with arrivals. Buffers
  are the list of octets read; what a caller finds after them is zeros. Waiting times
  are left out.
\<close>

subsection \<open>The line\<close>

text \<open>
  \<open>Octet b\<close>: an octet is there. \<open>Quiet\<close>: \<^verbatim>\<open>select\<close> times out once. \<open>Fault e\<close>: it fails or
  reports an error, and \<^verbatim>\<open>errno\<close> is \<open>e\<close> afterwards. \<open>Hangup\<close>: from now on it reports data and
  \<^verbatim>\<open>read\<close> finds none. \<open>Broken e\<close>: it reports data and \<^verbatim>\<open>read\<close> fails with \<^verbatim>\<open>errno\<close>
  \<open>e\<close>. \<open>Told e\<close>: on the pipes of a port that a thread of its own reads (\<^verbatim>\<open>asyncio\<close>), the pipe for errors has been
  written to, and its last octet, as a \<^verbatim>\<open>signed char\<close>, is \<open>e\<close>.
\<close>

datatype arrival = Octet u8 | Quiet | Fault int | Hangup | Broken int | Told int

definition EAGAIN :: int where "EAGAIN = 11"
definition EBUSY :: int where "EBUSY = 16"

lemma EBUSY_nonzero [simp]: "EBUSY \<noteq> 0" "0 \<noteq> EBUSY"
  by (simp_all add: EBUSY_def)

text \<open>
  \<open>errno\<close> is what the thread's \<^verbatim>\<open>errno\<close> holds when the port is read next; a call that succeeds
  does not change it. \<open>minlen\<close> is a static variable of \<^verbatim>\<open>read_string_generic\<close>. \<open>room\<close>: how many octets can
  still be written, all when \<open>None\<close>. \<open>seven_bits\<close>: a serial port with 7 data bits. \<open>overrun\<close>: some octet
  was stored past the end of its buffer; what the program does from then on is not claimed.
\<close>

record 'd line =
  incoming :: "arrival list"
  device :: 'd
  line_fd :: int
  line_async :: bool
  seven_bits :: bool
  room :: "nat option"
  minlen :: int
  errno :: int
  overrun :: bool

type_synonym 'd answers = "u8 \<Rightarrow> 'd \<Rightarrow> arrival list \<times> 'd"

definition port_wait_for_data :: "'d line \<Rightarrow> int \<times> 'd line" where
  "port_wait_for_data l = (case incoming l of
     [] \<Rightarrow> (- RIG_ETIMEOUT, l)
   | Quiet # t \<Rightarrow> (- RIG_ETIMEOUT, l\<lparr>incoming := t\<rparr>)
   | Fault e # t \<Rightarrow> (- RIG_EIO, l\<lparr>incoming := t, errno := e\<rparr>)
   | Told e # t \<Rightarrow> (e, l\<lparr>incoming := t\<rparr>)
   | _ \<Rightarrow> (RIG_OK, l))"

text \<open>\<^verbatim>\<open>read\<close> of at most \<open>n\<close> octets: \<open>None\<close> is -1. Where nothing is there the descriptor does not block.\<close>

fun take_octets :: "nat \<Rightarrow> arrival list \<Rightarrow> u8 list \<times> arrival list" where
  "take_octets (Suc n) (Octet b # t) = (let (bs, t') = take_octets n t in (b # bs, t'))"
| "take_octets n t = ([], t)"

definition clear_msb :: "u8 \<Rightarrow> u8" where
  "clear_msb b = b AND NOT 0x80"

definition port_read_generic :: "nat \<Rightarrow> 'd line \<Rightarrow> u8 list option \<times> 'd line" where
  "port_read_generic n l =
     (if n = 0 then (Some [], l)
      else case incoming l of
          Octet b # t \<Rightarrow> (let (bs, t') = take_octets n (incoming l)
             in (Some (if seven_bits l then map clear_msb bs else bs), l\<lparr>incoming := t'\<rparr>))
        | Hangup # t \<Rightarrow> (Some [], l)
        | Broken e # t \<Rightarrow> (None, l\<lparr>incoming := t, errno := e\<rparr>)
        | _ \<Rightarrow> (None, l\<lparr>errno := EAGAIN\<rparr>))"

subsection \<open>write_block\<close>

fun transmit :: "'d answers \<Rightarrow> u8 list \<Rightarrow> 'd line \<Rightarrow> 'd line" where
  "transmit dev [] l = l"
| "transmit dev (b # bs) l =
     (let (as, d) = dev b (device l) in transmit dev bs (l\<lparr>incoming := incoming l @ as, device := d\<rparr>))"

definition write_block :: "'d answers \<Rightarrow> u8 list \<Rightarrow> 'd line \<Rightarrow> int \<times> 'd line" where
  "write_block dev tx l =
     (if line_fd l < 0 then (- RIG_EIO, l)
      else case room l of
          None \<Rightarrow> (RIG_OK, transmit dev tx l)
        | Some k \<Rightarrow>
            (let l' = transmit dev (take k tx) (l\<lparr>room := Some (k - length tx)\<rparr>)
             in (if k < length tx then - RIG_EIO else RIG_OK, l')))"

subsection \<open>read_block\<close>

text \<open>
  The loop reads until it has all octets. It does not end when \<^verbatim>\<open>read\<close> keeps finding
  none; then the result is \<open>None\<close>.
\<close>

partial_function (option) read_block_loop ::
  "nat \<Rightarrow> u8 list \<Rightarrow> 'd line \<Rightarrow> ((int \<times> u8 list) \<times> 'd line) option" where
  "read_block_loop count got l =
     (if count = 0 then Some ((int (length got), got), l)
      else let (result, l1) = port_wait_for_data l
           in if result < 0 then Some ((result, got), l1)
              else let (rd, l2) = port_read_generic count l1
                   in case rd of
                        None \<Rightarrow> Some ((- RIG_EIO, got), l2)
                      | Some bs \<Rightarrow> read_block_loop (count - length bs) (got @ bs) l2)"

definition read_block_generic :: "bool \<Rightarrow> nat \<Rightarrow> 'd line \<Rightarrow> ((int \<times> u8 list) \<times> 'd line) option" where
  "read_block_generic direct count l =
     (if \<not> line_async l \<and> \<not> direct then Some ((- RIG_EINTERNAL, []), l) else read_block_loop count [] l)"

definition read_block :: "nat \<Rightarrow> 'd line \<Rightarrow> ((int \<times> u8 list) \<times> 'd line) option" where
  "read_block count l = read_block_generic (\<not> line_async l) count l"

definition read_block_direct :: "nat \<Rightarrow> 'd line \<Rightarrow> ((int \<times> u8 list) \<times> 'd line) option" where
  "read_block_direct count l = read_block_generic True count l"

subsection \<open>read_string\<close>

text \<open>
  How many octets one read asks for: one, or \<open>minlen\<close>, which as a \<^verbatim>\<open>size_t\<close> is without
  limit when it is negative.
\<close>

definition ask_for :: "int \<Rightarrow> 'd line \<Rightarrow> nat" where
  "ask_for expected_len l =
     (if expected_len = 1 then 1 else if minlen l < 0 then length (incoming l) else nat (minlen l))"

lemma take_octets_length: "length (fst (take_octets n t)) + length (snd (take_octets n t)) = length t"
  by (induction n t rule: take_octets.induct) (auto simp: case_prod_beta)

text \<open>
  One octet, or what \<open>minlen\<close> asks for, behind the \<open>pos\<close> octets read so far, into a buffer of \<open>cap\<close>. The code
  reads again to the same place while \<^verbatim>\<open>errno\<close> is \<^verbatim>\<open>EBUSY\<close>, ten times at most in a call of
  \<^verbatim>\<open>read_string_generic\<close>, and does not look at the result or clear \<^verbatim>\<open>errno\<close> before.
\<close>

definition rd_count :: "u8 list option \<Rightarrow> int" where
  "rd_count rd = (case rd of None \<Rightarrow> - 1 | Some bs \<Rightarrow> int (length bs))"

function read_again :: "int \<Rightarrow> nat \<Rightarrow> nat \<Rightarrow> nat \<Rightarrow> 'd line \<Rightarrow> (u8 list option \<times> nat) \<times> 'd line" where
  "read_again expected_len cap pos i l =
     (let (rd, l1) = port_read_generic (ask_for expected_len l) l;
          l2 = l1\<lparr>minlen := minlen l1 - rd_count rd, overrun := overrun l1 \<or> int cap < int pos + rd_count rd\<rparr>
      in if Suc i < 10 \<and> errno l2 = EBUSY then read_again expected_len cap pos (Suc i) l2 else ((rd, Suc i), l2))"
  by pat_completeness auto

termination read_again
  by (relation "measure (\<lambda>(expected_len, cap, pos, i, l). 10 - i)") auto

declare read_again.simps [simp del]

text \<open>
  The loop. A first octet that is a backslash makes the limit five times as large.
\<close>

function read_string_loop ::
  "u8 list \<Rightarrow> int \<Rightarrow> nat \<Rightarrow> nat \<Rightarrow> nat \<Rightarrow> u8 list \<Rightarrow> 'd line \<Rightarrow> (int \<times> u8 list) \<times> 'd line" where
  "read_string_loop stopset expected_len cap rxmax i got l =
     (if \<not> length got < rxmax - 1 then ((int (length got), got), l)
      else let (result, l1) = port_wait_for_data l
           in if result < 0 then ((result, got), l1)
              else let (r, l3) = read_again expected_len cap (length got) i l1; (rd, i') = r
                   in if rd_count rd \<le> 0 then ((- RIG_EIO, got), l3)
                      else let bs = the rd;
                               rxmax' = (if got = [] \<and> hd bs = 0x5c then (rxmax - 1) * 5 else rxmax);
                               got' = got @ bs
                           in if last got' \<in> set stopset
                              then ((int (length got'), got'),
                                    l3\<lparr>minlen := (if minlen l3 = 1 then int (length got')
                                                  else max (minlen l3) (int (length got')))\<rparr>)
                              else read_string_loop stopset expected_len cap rxmax' i' got' l3)"
  by pat_completeness auto

lemma port_read_length:
  "port_read_generic n l = (rd, l') \<Longrightarrow> nat (rd_count rd) + length (incoming l') \<le> length (incoming l)"
  using take_octets_length [of n "incoming l"]
  by (auto simp: port_read_generic_def rd_count_def case_prod_beta split: if_splits list.splits arrival.splits)

lemma port_wait_length: "port_wait_for_data l = (result, l') \<Longrightarrow> length (incoming l') \<le> length (incoming l)"
  by (auto simp: port_wait_for_data_def split: list.splits arrival.splits)

lemma read_again_length:
  "read_again e cap pos i l = ((rd, i'), l') \<Longrightarrow> nat (rd_count rd) + length (incoming l') \<le> length (incoming l)"
proof (induction e cap pos i l arbitrary: rd i' l' rule: read_again.induct)
  case (1 e cap pos i l)
  obtain r l1 where r: "port_read_generic (ask_for e l) l = (r, l1)" by force
  let ?m = "l1\<lparr>minlen := minlen l1 - rd_count r, overrun := overrun l1 \<or> int cap < int pos + rd_count r\<rparr>"
  show ?case
  proof (cases "Suc i < 10 \<and> errno ?m = EBUSY")
    case True
    then have "read_again e cap pos (Suc i) ?m = ((rd, i'), l')"
      using 1(2) by (subst (asm) read_again.simps) (simp add: r)
    with True r have "nat (rd_count rd) + length (incoming l') \<le> length (incoming ?m)" by (intro 1(1)) auto
    then show ?thesis using port_read_length [OF r] by simp
  next
    case False
    then show ?thesis using 1(2) port_read_length [OF r] by (subst (asm) read_again.simps) (auto simp: r)
  qed
qed

termination read_string_loop
  by (relation "measure (\<lambda>(stopset, expected_len, cap, rxmax, i, got, l). length (incoming l))")
    (auto dest!: read_again_length [OF sym] port_wait_length [OF sym])

declare read_string_loop.simps [simp del]

definition read_string_generic ::
  "nat \<Rightarrow> u8 list \<Rightarrow> int \<Rightarrow> bool \<Rightarrow> 'd line \<Rightarrow> (int \<times> u8 list) \<times> 'd line" where
  "read_string_generic rxmax stopset expected_len direct l =
     (if \<not> line_async l \<and> \<not> direct then ((- RIG_EINTERNAL, []), l)
      else if rxmax < 1 then ((0, []), l)
      else let ((rc, got), l') = read_string_loop stopset expected_len rxmax rxmax 0 [] l
           in ((rc, got), l'\<lparr>overrun := overrun l' \<or> 0 \<le> rc \<and> rxmax < length got + 1\<rparr>))"

definition read_string ::
  "nat \<Rightarrow> u8 list \<Rightarrow> int \<Rightarrow> 'd line \<Rightarrow> (int \<times> u8 list) \<times> 'd line" where
  "read_string rxmax stopset expected_len l =
     read_string_generic rxmax stopset expected_len (\<not> line_async l) l"

definition read_string_direct ::
  "nat \<Rightarrow> u8 list \<Rightarrow> int \<Rightarrow> 'd line \<Rightarrow> (int \<times> u8 list) \<times> 'd line" where
  "read_string_direct rxmax stopset expected_len l =
     read_string_generic rxmax stopset expected_len True l"

subsection \<open>What is written\<close>

lemma transmit_silent [simp]:
  "transmit (\<lambda>b d. ([], d @ [b])) tx l = l\<lparr>device := device l @ tx\<rparr>"
  by (induction tx arbitrary: l) auto

lemma transmit_append: "transmit dev (xs @ ys) l = transmit dev ys (transmit dev xs l)"
  by (induction xs arbitrary: l) (auto simp: case_prod_beta)

lemma transmit_keeps [simp]:
  "line_fd (transmit dev tx l) = line_fd l" "line_async (transmit dev tx l) = line_async l"
  "seven_bits (transmit dev tx l) = seven_bits l" "room (transmit dev tx l) = room l"
  "minlen (transmit dev tx l) = minlen l" "errno (transmit dev tx l) = errno l" "overrun (transmit dev tx l) = overrun l"
  by (induction tx arbitrary: l) (auto simp: case_prod_beta)

text \<open>What the device answers to a whole message.\<close>

fun reply_of :: "'d answers \<Rightarrow> u8 list \<Rightarrow> 'd \<Rightarrow> arrival list \<times> 'd" where
  "reply_of dev [] d = ([], d)"
| "reply_of dev (b # bs) d =
     (let (as, d1) = dev b d; (as', d2) = reply_of dev bs d1 in (as @ as', d2))"

lemma transmit_reply:
  "transmit dev tx l = l\<lparr>incoming := incoming l @ fst (reply_of dev tx (device l)),
     device := snd (reply_of dev tx (device l))\<rparr>"
  by (induction tx arbitrary: l) (auto simp: case_prod_beta)

lemma reply_of_append:
  "reply_of dev (xs @ ys) d = (fst (reply_of dev xs d) @ fst (reply_of dev ys (snd (reply_of dev xs d))),
     snd (reply_of dev ys (snd (reply_of dev xs d))))"
  by (induction xs arbitrary: d) (auto simp: case_prod_beta)

subsection \<open>Reading a block\<close>

lemma take_octets_octets: "take_octets n (map Octet bs @ t) =
   (if n \<le> length bs then (take n bs, map Octet (drop n bs) @ t)
    else (bs @ fst (take_octets (n - length bs) t), snd (take_octets (n - length bs) t)))"
proof (induction bs arbitrary: n)
  case (Cons b bs)
  then show ?case by (cases n) (auto simp: case_prod_beta)
qed auto

lemma take_octets_stops [simp]:
  "take_octets n (Quiet # t) = ([], Quiet # t)" "take_octets n (Fault e # t) = ([], Fault e # t)"
  "take_octets n (Hangup # t) = ([], Hangup # t)" "take_octets n [] = ([], [])"
  "take_octets n (Broken e # t) = ([], Broken e # t)" "take_octets n (Told e # t) = ([], Told e # t)"
  by (cases n; simp)+

lemma take_octets_bound: "length (fst (take_octets n t)) \<le> n"
  by (induction n t rule: take_octets.induct) (auto simp: case_prod_beta)

lemma take_octets_split: "map Octet (fst (take_octets n t)) @ snd (take_octets n t) = t"
  by (induction n t rule: take_octets.induct) (auto simp: case_prod_beta)

text \<open>The octets a caller sees of what arrives.\<close>

definition seen :: "'d line \<Rightarrow> u8 list \<Rightarrow> u8 list" where
  "seen l bs = (if seven_bits l then map clear_msb bs else bs)"

lemma seen_simps [simp]:
  "seen l [] = []" "length (seen l bs) = length bs" "seen (l\<lparr>incoming := t\<rparr>) bs = seen l bs"
  "seen (l\<lparr>minlen := m\<rparr>) bs = seen l bs" "seen l bs = [] \<longleftrightarrow> bs = []"
  "\<not> seven_bits l \<Longrightarrow> seen l bs = bs" "take k (seen l bs) = seen l (take k bs)"
  by (auto simp: seen_def take_map)

text \<open>What ends a run of octets; a thread passes on negative codes only.\<close>

definition ends_run :: "arrival list \<Rightarrow> bool" where
  "ends_run t = ((\<forall>b t'. t \<noteq> Octet b # t') \<and> (\<forall>e t'. t = Told e # t' \<longrightarrow> e < 0))"

lemma ends_run_simps [simp]:
  "ends_run []" "ends_run (Quiet # t)" "ends_run (Fault e # t)" "ends_run (Hangup # t)"
  "ends_run (Broken e # t)" "ends_run (Told e # t) \<longleftrightarrow> e < 0" "\<not> ends_run (Octet b # t)"
  by (auto simp: ends_run_def)

lemma ends_run_cases:
  assumes "ends_run t"
  obtains "t = []" | t' where "t = Quiet # t'" | e t' where "t = Fault e # t'" | t' where "t = Hangup # t'"
  | e t' where "t = Broken e # t'" | e t' where "t = Told e # t'" "e < 0"
proof (cases t)
  case (Cons a t')
  with assms that show ?thesis by (cases a) (auto simp: ends_run_def)
qed (use that in auto)

lemma port_read_octets:
  "n \<noteq> 0 \<Longrightarrow> bs \<noteq> [] \<Longrightarrow> incoming l = map Octet bs @ t \<Longrightarrow>
   port_read_generic n l = (Some (seen l (fst (take_octets n (map Octet bs @ t)))),
     l\<lparr>incoming := snd (take_octets n (map Octet bs @ t))\<rparr>)"
  by (cases bs) (auto simp: port_read_generic_def seen_def case_prod_beta)

lemma read_octets:
  "bs \<noteq> [] \<Longrightarrow> incoming l = map Octet bs @ t \<Longrightarrow> port_wait_for_data l = (RIG_OK, l)"
  by (cases bs) (auto simp: port_wait_for_data_def)

lemma read_block_hangup_loops:
  assumes "read_block_loop count got l = Some r"
  shows "count = 0 \<or> incoming l \<noteq> Hangup # t"
  using assms
proof (induction rule: read_block_loop.raw_induct [rotated, consumes 1])
  case (1 f count got l r)
  show ?case
  proof (rule ccontr)
    assume "\<not> ?thesis"
    then have *: "count \<noteq> 0" "incoming l = Hangup # t" by auto
    then have "l\<lparr>incoming := Hangup # t\<rparr> = l" by simp
    with 1(2) * have "f count got l = Some r"
      by (simp add: port_wait_for_data_def port_read_generic_def RIG_OK_def split: if_splits)
    then show False using 1(1) * by (metis surj_pair)
  qed
qed

lemma read_block_hangup: "count \<noteq> 0 \<Longrightarrow> incoming l = Hangup # t \<Longrightarrow> read_block_loop count got l = None"
  using read_block_hangup_loops by (metis not_None_eq)

text \<open>Everything \<^verbatim>\<open>read_block\<close> can meet.\<close>

definition block_outcome ::
  "nat \<Rightarrow> u8 list \<Rightarrow> arrival list \<Rightarrow> 'd line \<Rightarrow> ((int \<times> u8 list) \<times> 'd line) option" where
  "block_outcome count bs t l =
     (if count \<le> length bs
      then Some ((int count, seen l (take count bs)), l\<lparr>incoming := map Octet (drop count bs) @ t\<rparr>)
      else case t of
          [] \<Rightarrow> Some ((- RIG_ETIMEOUT, seen l bs), l\<lparr>incoming := []\<rparr>)
        | Quiet # t' \<Rightarrow> Some ((- RIG_ETIMEOUT, seen l bs), l\<lparr>incoming := t'\<rparr>)
        | Fault e # t' \<Rightarrow> Some ((- RIG_EIO, seen l bs), l\<lparr>incoming := t', errno := e\<rparr>)
        | Broken e # t' \<Rightarrow> Some ((- RIG_EIO, seen l bs), l\<lparr>incoming := t', errno := e\<rparr>)
        | Told e # t' \<Rightarrow> Some ((e, seen l bs), l\<lparr>incoming := t'\<rparr>)
        | _ \<Rightarrow> None)"

lemma same_incoming [simp]: "incoming l = t \<Longrightarrow> l\<lparr>incoming := t\<rparr> = l"
  by (cases l) simp

lemma read_block_loop_quiet:
  "count \<noteq> 0 \<Longrightarrow> ends_run (incoming l) \<Longrightarrow>
   read_block_loop count got l = (case incoming l of
          [] \<Rightarrow> Some ((- RIG_ETIMEOUT, got), l)
        | Quiet # t' \<Rightarrow> Some ((- RIG_ETIMEOUT, got), l\<lparr>incoming := t'\<rparr>)
        | Fault e # t' \<Rightarrow> Some ((- RIG_EIO, got), l\<lparr>incoming := t', errno := e\<rparr>)
        | Broken e # t' \<Rightarrow> Some ((- RIG_EIO, got), l\<lparr>incoming := t', errno := e\<rparr>)
        | Told e # t' \<Rightarrow> Some ((e, got), l\<lparr>incoming := t'\<rparr>)
        | _ \<Rightarrow> None)"
  by (erule ends_run_cases) (simp_all add: read_block_hangup,
      simp_all add: read_block_loop.simps port_wait_for_data_def port_read_generic_def RIG_ETIMEOUT_def RIG_EIO_def RIG_OK_def)

lemma read_block_loop_octets:
  assumes "incoming l = map Octet bs @ t" "ends_run t"
  shows "read_block_loop count [] l = block_outcome count bs t l"
proof (cases "count = 0 \<or> bs = []")
  case True
  then show ?thesis
    using assms read_block_loop_quiet [of count l "[]"]
    by (auto simp: block_outcome_def read_block_loop.simps [of 0] elim!: ends_run_cases)
next
  case False
  let ?m = "l\<lparr>incoming := map Octet (drop count bs) @ t\<rparr>"
  have r: "port_read_generic count l = (Some (seen l (take count bs)), ?m)"
    using assms False by (auto simp: port_read_octets [OF _ _ assms(1)] take_octets_octets seen_def elim!: ends_run_cases)
  have "read_block_loop count [] l
      = read_block_loop (count - length (take count bs)) (seen l (take count bs)) ?m"
    using False assms(1) by (subst read_block_loop.simps) (simp add: r read_octets [of bs l t] RIG_OK_def)
  then show ?thesis
    using read_block_loop_quiet [of "count - length bs" ?m "seen l bs"] assms(2)
    by (auto simp: block_outcome_def read_block_loop.simps [of 0] split: list.splits arrival.splits)
qed

text \<open>C20: \<^verbatim>\<open>read_block\<close> on every line, that of a port with a reading thread included. When the
  octets \<open>bs\<close> come before anything else, a request for at most that many gets exactly the first of them and
  leaves the others on the line; a longer request fails with a timeout, an error of \<^verbatim>\<open>select\<close>, a failing
  \<^verbatim>\<open>read\<close>, or the (negative) error code that the thread has passed on, whichever comes first, with the octets
  read so far in the buffer and not on the line any more; and at the end of the file it never returns, because
  \<^verbatim>\<open>select\<close> then reports data and \<^verbatim>\<open>read\<close> finds none. Octets are without their highest bit on a
  port with 7 data bits.\<close>

theorem read_block_result:
  assumes "incoming l = map Octet bs @ t" and "ends_run t"
  shows "read_block count l = block_outcome count bs t l
    \<and> (read_block count l = None \<longleftrightarrow> length bs < count \<and> (\<exists>t'. t = Hangup # t'))"
  using assms(2) by (auto simp: read_block_def read_block_generic_def read_block_loop_octets [OF assms]
      block_outcome_def elim!: ends_run_cases)

subsection \<open>Reading a string\<close>

lemma port_reads_keep:
  "line_fd (snd (port_wait_for_data l)) = line_fd l" "device (snd (port_wait_for_data l)) = device l"
  "line_async (snd (port_wait_for_data l)) = line_async l" "room (snd (port_wait_for_data l)) = room l"
  "seven_bits (snd (port_wait_for_data l)) = seven_bits l" "overrun (snd (port_wait_for_data l)) = overrun l"
  "minlen (snd (port_wait_for_data l)) = minlen l"
  "line_fd (snd (port_read_generic n l)) = line_fd l" "device (snd (port_read_generic n l)) = device l"
  "line_async (snd (port_read_generic n l)) = line_async l" "room (snd (port_read_generic n l)) = room l"
  "seven_bits (snd (port_read_generic n l)) = seven_bits l" "overrun (snd (port_read_generic n l)) = overrun l"
  "minlen (snd (port_read_generic n l)) = minlen l"
  by (auto simp: port_wait_for_data_def port_read_generic_def case_prod_beta split: list.split arrival.split)

text \<open>What a read leaves alone: the device and the settings of the port, and \<open>errno\<close> unless it fails.\<close>

definition port_kept :: "'d line \<Rightarrow> 'd line \<Rightarrow> bool" where
  "port_kept l l' \<longleftrightarrow> device l' = device l \<and> line_fd l' = line_fd l \<and> line_async l' = line_async l
     \<and> seven_bits l' = seven_bits l \<and> room l' = room l"

definition same_port :: "'d line \<Rightarrow> 'd line \<Rightarrow> bool" where
  "same_port l l' \<longleftrightarrow> port_kept l l' \<and> errno l' = errno l"

lemma same_port_eq:
  "same_port l l' \<longleftrightarrow> device l' = device l \<and> line_fd l' = line_fd l \<and> line_async l' = line_async l
     \<and> seven_bits l' = seven_bits l \<and> room l' = room l \<and> errno l' = errno l"
  by (simp add: same_port_def port_kept_def)

lemma port_kept_refl [simp]: "port_kept l l" by (simp add: port_kept_def)
lemma port_kept_trans [trans]: "port_kept a b \<Longrightarrow> port_kept b c \<Longrightarrow> port_kept a c"
  by (simp add: port_kept_def)
lemma port_kept_updates [simp]:
  "port_kept l (l'\<lparr>minlen := m\<rparr>) = port_kept l l'" "port_kept l (l'\<lparr>overrun := ov\<rparr>) = port_kept l l'"
  "port_kept l (l'\<lparr>incoming := t\<rparr>) = port_kept l l'"
  by (simp_all add: port_kept_def)

lemma same_port_refl [simp]: "same_port l l" by (simp add: same_port_def)
lemma same_port_trans [trans]: "same_port a b \<Longrightarrow> same_port b c \<Longrightarrow> same_port a c"
  by (auto simp: same_port_def intro: port_kept_trans)
lemma same_port_updates [simp]:
  "same_port l (l'\<lparr>minlen := m\<rparr>) = same_port l l'" "same_port l (l'\<lparr>overrun := ov\<rparr>) = same_port l l'"
  "same_port l (l'\<lparr>incoming := t\<rparr>) = same_port l l'"
  by (simp_all add: same_port_def)

lemma port_reads_same:
  "port_wait_for_data l = (res, l') \<Longrightarrow> port_kept l l'"
  "port_read_generic n l = (rd, l') \<Longrightarrow> port_kept l l'"
  using port_reads_keep(1-7) [of l] port_reads_keep(8-14) [of n l] by (simp_all add: port_kept_def)

lemma read_again_keeps: "read_again e cap pos i l = (r, l') \<Longrightarrow> port_kept l l'"
proof (induction e cap pos i l arbitrary: r l' rule: read_again.induct)
  case (1 e cap pos i l)
  obtain rd l1 where rd: "port_read_generic (ask_for e l) l = (rd, l1)" by force
  let ?m = "l1\<lparr>minlen := minlen l1 - rd_count rd, overrun := overrun l1 \<or> int cap < int pos + rd_count rd\<rparr>"
  have m: "port_kept l ?m" using port_reads_same(2) [OF rd] by simp
  show ?case
  proof (cases "Suc i < 10 \<and> errno ?m = EBUSY")
    case True
    then have "read_again e cap pos (Suc i) ?m = (r, l')" using 1(2) by (subst (asm) read_again.simps) (simp add: rd)
    with True rd have "port_kept ?m l'" by (intro 1(1)) auto
    with m show ?thesis by (rule port_kept_trans)
  next
    case False
    then show ?thesis using 1(2) m by (subst (asm) read_again.simps) (auto simp: rd)
  qed
qed

lemma read_string_loop_keeps:
  "read_string_loop stopset e cap rxmax i got l = (r, l') \<Longrightarrow> port_kept l l'"
proof (induction stopset e cap rxmax i got l arbitrary: r l' rule: read_string_loop.induct)
  case (1 stopset e cap rxmax i got l)
  obtain res l1 where w: "port_wait_for_data l = (res, l1)" by force
  obtain rd i' l2 where r: "read_again e cap (length got) i l1 = ((rd, i'), l2)" by (metis surj_pair)
  have same: "port_kept l l1" "port_kept l l2"
    using port_reads_same(1) [OF w] read_again_keeps [OF r] by (auto intro: port_kept_trans)
  show ?case
  proof (cases "length got < rxmax - 1 \<and> 0 \<le> res \<and> 0 < rd_count rd \<and> last (got @ the rd) \<notin> set stopset")
    case True
    let ?k = "if got = [] \<and> hd (the rd) = 0x5c then (rxmax - 1) * 5 else rxmax"
    have "read_string_loop stopset e cap ?k i' (got @ the rd) l2 = (r, l')"
      using True 1(2) by (subst (asm) read_string_loop.simps) (auto simp: w r Let_def)
    then have "port_kept l2 l'" using True w r by (intro 1(1)) auto
    with same show ?thesis by (blast intro: port_kept_trans)
  next
    case False
    then show ?thesis
      using 1(2) same by (subst (asm) read_string_loop.simps) (auto simp: w r Let_def split: if_splits)
  qed
qed

lemma read_string_keeps:
  "errno (snd (read_string rxmax stopset e l)) = errno l \<Longrightarrow> same_port l (snd (read_string rxmax stopset e l))"
  using read_string_loop_keeps [of stopset e rxmax rxmax 0 "[]" l]
  by (auto simp: same_port_def read_string_def read_string_generic_def case_prod_beta prod_eq_iff)

text \<open>The limit after the first octet.\<close>

definition string_limit :: "nat \<Rightarrow> u8 list \<Rightarrow> nat" where
  "string_limit rxmax bs = (if bs \<noteq> [] \<and> hd bs = 0x5c then (rxmax - 1) * 5 - 1 else rxmax - 1)"

text \<open>The part of an answer up to its first stop character.\<close>

fun up_to_stop :: "u8 list \<Rightarrow> u8 list \<Rightarrow> u8 list" where
  "up_to_stop stopset [] = []"
| "up_to_stop stopset (b # bs) = (if b \<in> set stopset then [b] else b # up_to_stop stopset bs)"

lemma read_again_once: "errno (snd (port_read_generic (ask_for e l) l)) \<noteq> EBUSY \<Longrightarrow>
  read_again e cap pos i l = (let (rd, l1) = port_read_generic (ask_for e l) l
    in ((rd, Suc i), l1\<lparr>minlen := minlen l1 - rd_count rd, overrun := overrun l1 \<or> int cap < int pos + rd_count rd\<rparr>))"
  by (subst read_again.simps) (simp add: case_prod_beta Let_def)

lemma read_string_step:
  assumes "incoming l = Octet b # t" "length got < rxmax - 1" "\<not> seven_bits l" "errno l \<noteq> EBUSY"
  shows "read_string_loop stopset 1 cap rxmax i got l =
    (let l' = l\<lparr>incoming := t, minlen := minlen l - 1, overrun := overrun l \<or> cap < length got + 1\<rparr>;
         n = 1 + int (length got)
     in if b \<in> set stopset
        then ((n, got @ [b]), l'\<lparr>minlen := (if minlen l' = 1 then n else max (minlen l') n)\<rparr>)
        else read_string_loop stopset 1 cap (if got = [] \<and> b = 0x5c then (rxmax - 1) * 5 else rxmax) (Suc i)
               (got @ [b]) l')"
proof -
  have "port_read_generic (ask_for 1 l) l = (Some [b], l\<lparr>incoming := t\<rparr>)"
    using assms(1,3) by (simp add: port_read_generic_def ask_for_def)
  moreover have "int cap < int (length got) + 1 \<longleftrightarrow> cap < length got + 1" by linarith
  ultimately have "read_again 1 cap (length got) i l = ((Some [b], Suc i),
      l\<lparr>incoming := t, minlen := minlen l - 1, overrun := overrun l \<or> cap < length got + 1\<rparr>)"
    using assms(4) by (subst read_again_once) (simp_all add: rd_count_def)
  then show ?thesis
    using assms(1,2) by (subst read_string_loop.simps) (simp add: port_wait_for_data_def RIG_OK_def Let_def rd_count_def)
qed

text \<open>After the first octet the limit stays.\<close>

lemma read_string_tail:
  assumes "incoming l = map Octet bs @ t" "got \<noteq> []" "\<not> seven_bits l" "errno l \<noteq> EBUSY"
    "set bs \<inter> set stopset = {}" "length got + length bs \<le> rxmax - 1"
  shows "read_string_loop stopset 1 cap rxmax i got l =
    read_string_loop stopset 1 cap rxmax (i + length bs) (got @ bs) (l\<lparr>incoming := t, minlen := minlen l - int (length bs),
      overrun := overrun l \<or> bs \<noteq> [] \<and> cap < length got + length bs\<rparr>)"
  using assms
proof (induction bs arbitrary: i got l)
  case (Cons b bs)
  let ?m = "l\<lparr>incoming := map Octet bs @ t, minlen := minlen l - 1, overrun := overrun l \<or> cap < length got + 1\<rparr>"
  have ov: "(overrun l \<or> cap < length got + 1) \<or> bs \<noteq> [] \<and> cap < length (got @ [b]) + length bs
      \<longleftrightarrow> overrun l \<or> cap < length got + length (b # bs)" by (cases bs) auto
  have "read_string_loop stopset 1 cap rxmax i got l = read_string_loop stopset 1 cap rxmax (Suc i) (got @ [b]) ?m"
    using Cons.prems by (subst read_string_step) (auto simp: Let_def)
  also have "\<dots> = read_string_loop stopset 1 cap rxmax (Suc i + length bs) ((got @ [b]) @ bs)
      (?m\<lparr>incoming := t, minlen := minlen ?m - int (length bs),
        overrun := overrun ?m \<or> bs \<noteq> [] \<and> cap < length (got @ [b]) + length bs\<rparr>)"
    using Cons.prems by (intro Cons.IH) auto
  finally show ?case using ov by (simp add: algebra_simps)
qed simp

lemma up_to_stop_none: "set bs \<inter> set stopset = {} \<Longrightarrow> up_to_stop stopset bs = bs"
  by (induction bs) auto

lemma up_to_stop_split:
  assumes "set bs \<inter> set stopset \<noteq> {}"
  obtains as c cs where "bs = as @ c # cs" "c \<in> set stopset" "set as \<inter> set stopset = {}"
    "up_to_stop stopset bs = as @ [c]"
proof -
  have "\<exists>as c cs. bs = as @ c # cs \<and> c \<in> set stopset \<and> set as \<inter> set stopset = {}
      \<and> up_to_stop stopset bs = as @ [c]"
    using assms
  proof (induction bs)
    case (Cons b bs)
    show ?case
    proof (cases "b \<in> set stopset")
      case False
      with Cons obtain as c cs where "bs = as @ c # cs \<and> c \<in> set stopset \<and> set as \<inter> set stopset = {}
        \<and> up_to_stop stopset bs = as @ [c]" by auto
      with False show ?thesis by (intro exI [of _ "b # as"] exI [of _ c] exI [of _ cs]) auto
    qed (intro exI [of _ "[]"] exI [of _ b] exI [of _ bs], auto)
  qed auto
  with that show thesis by blast
qed

text \<open>The octets before a stop character leave the loop with the limit the first one sets.\<close>

lemma read_string_prefix:
  assumes "incoming l = map Octet bs @ t" "\<not> seven_bits l" "errno l \<noteq> EBUSY" "1 < rxmax"
    "set bs \<inter> set stopset = {}" "length bs \<le> string_limit rxmax (bs @ cs)"
  shows "read_string_loop stopset 1 cap rxmax i [] l =
    read_string_loop stopset 1 cap (if bs = [] then rxmax else string_limit rxmax bs + 1) (i + length bs) bs
      (l\<lparr>incoming := t, minlen := minlen l - int (length bs), overrun := overrun l \<or> bs \<noteq> [] \<and> cap < length bs\<rparr>)"
proof (cases bs)
  case (Cons b bs')
  let ?l = "l\<lparr>incoming := map Octet bs' @ t, minlen := minlen l - 1, overrun := overrun l \<or> cap < 1\<rparr>"
    and ?k = "string_limit rxmax bs + 1"
  have ov: "(overrun l \<or> cap < 1) \<or> bs' \<noteq> [] \<and> cap < length [b] + length bs' \<longleftrightarrow> overrun l \<or> cap < length bs"
    using Cons by (cases bs') auto
  have "read_string_loop stopset 1 cap rxmax i [] l = read_string_loop stopset 1 cap ?k (Suc i) [b] ?l"
    using assms Cons
    by (subst read_string_step) (auto simp: Let_def string_limit_def)
  also have "\<dots> = read_string_loop stopset 1 cap ?k (Suc i + length bs') ([b] @ bs')
      (?l\<lparr>incoming := t, minlen := minlen ?l - int (length bs'),
        overrun := overrun ?l \<or> bs' \<noteq> [] \<and> cap < length [b] + length bs'\<rparr>)"
    using assms Cons by (intro read_string_tail) (auto simp: string_limit_def)
  finally show ?thesis using Cons ov by (simp add: algebra_simps)
qed (use assms in simp)

lemma read_string_full:
  "\<not> length got < rxmax - 1 \<Longrightarrow> read_string_loop stopset e cap rxmax i got l = ((int (length got), got), l)"
  by (simp add: read_string_loop.simps)

lemma string_limit_prefix: "as \<noteq> [] \<Longrightarrow> string_limit rxmax (as @ bs) = string_limit rxmax as"
  by (simp add: string_limit_def)

lemma read_string_by_loop:
  assumes "0 < rxmax"
  shows "fst (read_string rxmax stopset e l) = fst (read_string_loop stopset e rxmax rxmax 0 [] l)"
    "incoming (snd (read_string rxmax stopset e l)) = incoming (snd (read_string_loop stopset e rxmax rxmax 0 [] l))"
    "errno (snd (read_string rxmax stopset e l)) = errno (snd (read_string_loop stopset e rxmax rxmax 0 [] l))"
    "overrun (snd (read_string rxmax stopset e l)) = (overrun (snd (read_string_loop stopset e rxmax rxmax 0 [] l))
      \<or> 0 \<le> fst (fst (read_string_loop stopset e rxmax rxmax 0 [] l))
        \<and> rxmax < length (snd (fst (read_string_loop stopset e rxmax rxmax 0 [] l))) + 1)"
  using assms by (auto simp: read_string_def read_string_generic_def case_prod_beta prod_eq_iff)

lemma read_string_stopped:
  assumes "incoming l = map Octet bs @ t" and "\<not> seven_bits l" and "errno l \<noteq> EBUSY" and "1 < rxmax"
    and "n = string_limit rxmax bs" and "n \<le> length bs \<or> set bs \<inter> set stopset \<noteq> {}"
    and "w = up_to_stop stopset (take n bs)"
  shows "fst (read_string rxmax stopset 1 l) = (int (length w), w)
    \<and> incoming (snd (read_string rxmax stopset 1 l)) = map Octet (drop (length w) bs) @ t
    \<and> overrun (snd (read_string rxmax stopset 1 l)) = (overrun l \<or> rxmax < length w + 1)
    \<and> (rxmax < length w + 1 \<longrightarrow> hd bs = 0x5c)
    \<and> same_port l (snd (read_string rxmax stopset 1 l))"
proof -
  let ?r = "read_string_loop stopset 1 rxmax rxmax 0 [] l"
  have "0 < rxmax" using assms(4) by simp
  note rs = read_string_by_loop [OF this, of stopset 1 l]
  have ne: "0 < n" "bs \<noteq> []" using assms(4-6) by (auto simp: string_limit_def)
  have "fst ?r = (int (length w), w) \<and> incoming (snd ?r) = map Octet (drop (length w) bs) @ t \<and> errno (snd ?r) = errno l
    \<and> overrun (snd ?r) = (overrun l \<or> rxmax < length w) \<and> (rxmax < length w + 1 \<longrightarrow> hd bs = 0x5c)"
  proof (cases "set (take n bs) \<inter> set stopset = {}")
    case True
    then have w: "w = take n bs" using assms(7) by (simp add: up_to_stop_none)
    have n: "n \<le> length bs" using True assms(6) by (cases "n \<le> length bs") auto
    have "?r = read_string_loop stopset 1 rxmax (n + 1) n (take n bs)
        (l\<lparr>incoming := map Octet (drop n bs) @ t, minlen := minlen l - int n, overrun := overrun l \<or> rxmax < n\<rparr>)"
      using read_string_prefix [of l "take n bs" "map Octet (drop n bs) @ t" rxmax stopset "drop n bs" rxmax 0]
        assms ne n True string_limit_prefix [of "take n bs" rxmax "drop n bs"]
      by (auto simp flip: map_append)
    then show ?thesis
      using n assms(4,5) by (auto simp: w read_string_full string_limit_def split: if_splits)
  next
    case False
    then obtain as c cs where *: "take n bs = as @ c # cs" "c \<in> set stopset"
      "set as \<inter> set stopset = {}" "w = as @ [c]"
      using up_to_stop_split assms(7) by metis
    have bs: "bs = as @ c # (cs @ drop n bs)" using * append_take_drop_id [of n bs] by simp
    have k: "length as < n" using arg_cong [OF *(1), of length] by simp
    let ?m = "l\<lparr>incoming := map Octet (c # cs @ drop n bs) @ t, minlen := minlen l - int (length as),
      overrun := overrun l \<or> as \<noteq> [] \<and> rxmax < length as\<rparr>"
    let ?k = "if as = [] then rxmax else string_limit rxmax as + 1"
    have "?r = read_string_loop stopset 1 rxmax ?k (0 + length as) as ?m"
    proof (rule read_string_prefix [where cs = "c # cs @ drop n bs"])
      show "incoming l = map Octet as @ map Octet (c # cs @ drop n bs) @ t"
        unfolding assms(1) map_append [symmetric] append_assoc [symmetric] by (simp flip: bs)
      show "length as \<le> string_limit rxmax (as @ c # cs @ drop n bs)"
        using k assms(5) by (metis bs less_imp_le)
    qed (use assms(2,3,4) * in auto)
    moreover have "length as < ?k - 1"
      using k assms(4,5) bs string_limit_prefix [of as rxmax "c # cs @ drop n bs"] by auto
    moreover have "drop (length w) bs = cs @ drop n bs" using *(4) by (subst bs) simp
    moreover have "(overrun l \<or> as \<noteq> [] \<and> rxmax < length as) \<or> rxmax < length as + 1
        \<longleftrightarrow> overrun l \<or> rxmax < length as + 1" by auto
    moreover have "rxmax < length w + 1 \<longrightarrow> hd bs = 0x5c"
      using *(4) k ne assms(5) by (auto simp: string_limit_def split: if_splits)
    ultimately show ?thesis using *(2,4) assms(2,3) by (simp add: read_string_step Let_def)
  qed
  then show ?thesis using read_string_keeps [of rxmax stopset 1 l] by (auto simp: rs)
qed

text \<open>C21: reading a string octet by octet, as every back end but one does, from a port with 8 data bits and while
  \<^verbatim>\<open>errno\<close> is not \<^verbatim>\<open>EBUSY\<close>. What comes back is the answer up to and including its first stop
  character, at most \<open>string_limit\<close> octets of it, and what follows stays on the line for the next read. The limit is
  \<^verbatim>\<open>rxmax - 1\<close>, which leaves room in the caller's buffer for the final zero, except when the first octet
  is a backslash: then it is \<^verbatim>\<open>(rxmax - 1) * 5 - 1\<close>, more than the buffer holds from \<^verbatim>\<open>rxmax = 3\<close>
  on, and a longer answer is written past its end.\<close>

theorem read_string_result:
  assumes "incoming l = map Octet bs @ t" and "\<not> seven_bits l" and "errno l \<noteq> EBUSY" and "1 < rxmax"
    and "n = string_limit rxmax bs" and "n \<le> length bs \<or> set bs \<inter> set stopset \<noteq> {}"
    and "w = up_to_stop stopset (take n bs)"
  shows "fst (read_string rxmax stopset 1 l) = (int (length w), w)
    \<and> incoming (snd (read_string rxmax stopset 1 l)) = map Octet (drop (length w) bs) @ t
    \<and> overrun (snd (read_string rxmax stopset 1 l)) = (overrun l \<or> rxmax < length w + 1)
    \<and> (rxmax < length w + 1 \<longrightarrow> hd bs = 0x5c)"
  using read_string_stopped [OF assms] by blast

text \<open>a stale \<^verbatim>\<open>EBUSY\<close> in \<^verbatim>\<open>errno\<close> loses octets. When some earlier call has left it there,
  as an attempt to open a port in use does, every read that succeeds is repeated to the same place, until ten have been
  made: of ten octets the first nine are gone.\<close>

lemma read_again_busy:
  assumes "errno l = EBUSY" and "incoming l = map Octet (bs @ [b]) @ t" and "i + length bs = 9" and "\<not> seven_bits l"
  shows "fst (read_again 1 cap pos i l) = (Some [b], 10) \<and> incoming (snd (read_again 1 cap pos i l)) = t"
  using assms
proof (induction bs arbitrary: i l)
  case Nil
  then show ?case by (subst (1 2) read_again.simps) (simp add: port_read_generic_def ask_for_def rd_count_def)
next
  case (Cons c bs)
  let ?m = "l\<lparr>incoming := map Octet (bs @ [b]) @ t, minlen := minlen l - 1,
    overrun := overrun l \<or> int cap < int pos + 1\<rparr>"
  have "read_again 1 cap pos i l = read_again 1 cap pos (Suc i) ?m"
    using Cons.prems by (subst read_again.simps) (simp add: port_read_generic_def ask_for_def rd_count_def)
  then show ?case using Cons.IH [of ?m "Suc i"] Cons.prems by simp
qed

theorem read_string_stale_busy:
  assumes "incoming l = map Octet (bs @ [b]) @ t" and "length bs = 9" and "errno l = EBUSY" and "\<not> seven_bits l"
    and "1 < rxmax" and "b \<in> set stopset"
  shows "fst (read_string rxmax stopset 1 l) = (1, [b])"
proof -
  have "fst (read_again 1 rxmax 0 0 l) = (Some [b], 10)"
    using read_again_busy [OF assms(3,1) _ assms(4), of 0] assms(2) by simp
  moreover obtain c cs where "bs = c # cs" using assms(2) by (cases bs) auto
  ultimately show ?thesis
    using assms(1,5,6) by (simp add: read_string_by_loop read_string_loop.simps port_wait_for_data_def case_prod_beta
        RIG_OK_def rd_count_def Let_def)
qed

lemma read_string_dry:
  assumes "incoming l = map Octet bs @ t" and "ends_run t" and "\<not> seven_bits l" and "errno l \<noteq> EBUSY" and "1 < rxmax"
    and "length bs < string_limit rxmax bs" and "set bs \<inter> set stopset = {}"
    and "\<nexists>e t'. t = Told e # t' \<or> t = Broken EBUSY # t'"
  shows "fst (read_string rxmax stopset 1 l)
      = (if t = [] \<or> hd t = Quiet then - RIG_ETIMEOUT else - RIG_EIO, bs)
    \<and> incoming (snd (read_string rxmax stopset 1 l)) = (if t \<noteq> [] \<and> hd t = Hangup then t else tl t)
    \<and> overrun (snd (read_string rxmax stopset 1 l)) = (overrun l \<or> bs \<noteq> [] \<and> rxmax < length bs)
    \<and> (t = [] \<longrightarrow> same_port l (snd (read_string rxmax stopset 1 l)))"
proof -
  have k: "length bs < (if bs = [] then rxmax else string_limit rxmax bs + 1) - 1"
    using assms(5,6) by auto
  have "0 < rxmax" using assms(5) by simp
  note rs = read_string_by_loop [OF this, of stopset 1 l]
  have "fst (read_string rxmax stopset 1 l) = (if t = [] \<or> hd t = Quiet then - RIG_ETIMEOUT else - RIG_EIO, bs)
    \<and> incoming (snd (read_string rxmax stopset 1 l)) = (if t \<noteq> [] \<and> hd t = Hangup then t else tl t)
    \<and> overrun (snd (read_string rxmax stopset 1 l)) = (overrun l \<or> bs \<noteq> [] \<and> rxmax < length bs)
    \<and> (t = [] \<longrightarrow> errno (snd (read_string rxmax stopset 1 l)) = errno l)"
    using assms(2) k read_string_prefix [of l bs t rxmax stopset "[]" rxmax 0] assms(1,3-8)
    by (auto elim!: ends_run_cases simp: rs RIG_ETIMEOUT_def RIG_EIO_def RIG_OK_def port_wait_for_data_def
        port_read_generic_def read_string_loop.simps [of _ _ _ _ _ bs] read_again_once ask_for_def rd_count_def)
  then show ?thesis using read_string_keeps [of rxmax stopset 1 l] by blast
qed

text \<open>reading a string when the line gives out before a stop character or the limit: a timeout
  when nothing more comes, the octets read before it being lost to the next read; an input error when
  \<^verbatim>\<open>select\<close> fails or the file has ended.\<close>

theorem read_string_gives_out:
  assumes "incoming l = map Octet bs @ t" and "ends_run t" and "\<not> seven_bits l" and "errno l \<noteq> EBUSY" and "1 < rxmax"
    and "length bs < string_limit rxmax bs" and "set bs \<inter> set stopset = {}"
    and "\<nexists>e t'. t = Told e # t' \<or> t = Broken EBUSY # t'"
  shows "fst (read_string rxmax stopset 1 l)
      = (if t = [] \<or> hd t = Quiet then - RIG_ETIMEOUT else - RIG_EIO, bs)
    \<and> incoming (snd (read_string rxmax stopset 1 l)) = (if t \<noteq> [] \<and> hd t = Hangup then t else tl t)"
  using read_string_dry [OF assms] by blast

text \<open>a caller that does not ask to read octet by octet cannot read the first answer longer than one
  octet: \<^verbatim>\<open>minlen\<close>, one at first, is counted down by what is read, so the second read asks for no
  octet, gets none, and that is an input error. The counter belongs to the function and not to the port and
  stays at zero, so that later reads of that kind fail, on whatever port, although the octets are there.\<close>

theorem read_string_asks_for_nothing:
  assumes "e \<noteq> 1" and "incoming l = map Octet (a # b # bs) @ t" and "a \<notin> set stopset"
    and "minlen l = 1" and "2 < rxmax" and "\<not> seven_bits l" and "errno l \<noteq> EBUSY" and "1 < rxmax'"
  shows "fst (read_string rxmax stopset e l) = (- RIG_EIO, [a])
    \<and> fst (read_string rxmax' stopset' e (snd (read_string rxmax stopset e l))) = (- RIG_EIO, [])"
  using assms
  by (auto simp: read_string_def read_string_generic_def read_string_loop.simps [of _ _ _ _ _ "[]"]
      read_string_loop.simps [of _ _ _ _ _ "[a]"] port_wait_for_data_def port_read_generic_def ask_for_def
      RIG_OK_def Let_def read_again_once rd_count_def)

subsection \<open>serial_flush\<close>

text \<open>
  \<^verbatim>\<open>src/serial.c\<close>, for a port that is not a microHam's: reads of up to 4094 octets with no stop
  characters until one of them gives nothing.
\<close>

lemma read_string_loop_length:
  "read_string_loop stopset e cap rxmax i got l = ((rc, w), l') \<Longrightarrow>
   length w + length (incoming l') \<le> length got + length (incoming l) \<and> (0 \<le> rc \<longrightarrow> rc = int (length w))"
proof (induction stopset e cap rxmax i got l arbitrary: rc w l' rule: read_string_loop.induct)
  case (1 stopset e cap rxmax i got l)
  obtain res l1 where w: "port_wait_for_data l = (res, l1)" by force
  obtain rd i' l2 where r: "read_again e cap (length got) i l1 = ((rd, i'), l2)" by (metis surj_pair)
  have some: "0 < rd_count rd \<Longrightarrow> rd_count rd = int (length (the rd))" by (auto simp: rd_count_def split: option.splits)
  have len: "length (incoming l1) \<le> length (incoming l)"
    "nat (rd_count rd) + length (incoming l2) \<le> length (incoming l1)"
    using port_wait_length [OF w] read_again_length [OF r] by auto
  show ?case
  proof (cases "length got < rxmax - 1 \<and> 0 \<le> res \<and> 0 < rd_count rd \<and> last (got @ the rd) \<notin> set stopset")
    case True
    let ?k = "if got = [] \<and> hd (the rd) = 0x5c then (rxmax - 1) * 5 else rxmax"
    have "read_string_loop stopset e cap ?k i' (got @ the rd) l2 = ((rc, w), l')"
      using True 1(2) by (subst (asm) read_string_loop.simps) (auto simp: w r Let_def)
    then have "length w + length (incoming l') \<le> length (got @ the rd) + length (incoming l2)
      \<and> (0 \<le> rc \<longrightarrow> rc = int (length w))"
      using True w r by (intro 1(1)) auto
    then show ?thesis using len True some by auto
  next
    case False
    then show ?thesis
      using 1(2) len some
      by (subst (asm) read_string_loop.simps) (auto simp: w r Let_def RIG_EIO_def split: if_splits)
  qed
qed

lemma read_string_length:
  "read_string rxmax stopset e l = ((rc, w), l') \<Longrightarrow>
   length w + length (incoming l') \<le> length (incoming l) \<and> (0 \<le> rc \<longrightarrow> rc = int (length w))"
  by (cases "read_string_loop stopset e rxmax rxmax 0 [] l")
    (auto simp: read_string_def read_string_generic_def split: if_splits dest: read_string_loop_length)

lemma read_string_consumes:
  "0 < fst (fst (read_string rxmax stopset e l)) \<Longrightarrow>
   length (incoming (snd (read_string rxmax stopset e l))) < length (incoming l)"
  using read_string_length [of rxmax stopset e l "fst (fst (read_string rxmax stopset e l))"
      "snd (fst (read_string rxmax stopset e l))" "snd (read_string rxmax stopset e l)"]
  by (auto simp: neq_Nil_conv)

function serial_flush :: "'d line \<Rightarrow> int \<times> 'd line" where
  "serial_flush l = (let (r, l') = read_string 4095 [] 1 l
     in if 0 < fst r then serial_flush l' else (RIG_OK, l'))"
  by pat_completeness auto

termination serial_flush
  by (relation "measure (\<lambda>l. length (incoming l))") (simp, metis in_measure fst_conv snd_conv read_string_consumes)

declare serial_flush.simps [simp del]

text \<open>A short remainder is gone after one read, and nothing else happens.\<close>

lemma serial_flush_stale:
  assumes "incoming l = map Octet bs" and "length bs < 4094" and "\<not> seven_bits l" and "errno l \<noteq> EBUSY"
  shows "\<exists>l'. serial_flush l = (RIG_OK, l') \<and> incoming l' = [] \<and> same_port l l' \<and> overrun l' = overrun l"
proof -
  let ?r = "read_string 4095 [] 1 l"
  have "fst ?r = (- RIG_ETIMEOUT, bs)" "incoming (snd ?r) = []" "overrun (snd ?r) = overrun l" "same_port l (snd ?r)"
    using read_string_dry [of l bs "[]" 4095 "[]"] assms by (auto simp: string_limit_def)
  then show ?thesis
    by (subst serial_flush.simps) (auto simp: case_prod_beta RIG_ETIMEOUT_def)
qed

text \<open>flushing a port returns, and drops all that has arrived up to the first pause, however much it
  is, and the pause or the failure that ends it.\<close>

theorem serial_flush_drops:
  assumes "incoming l = map Octet bs @ t" and "ends_run t" and "\<not> seven_bits l" and "errno l \<noteq> EBUSY"
    and "\<nexists>e t'. t = Told e # t' \<or> t = Broken EBUSY # t'"
  shows "fst (serial_flush l) = RIG_OK
    \<and> incoming (snd (serial_flush l)) = (if t \<noteq> [] \<and> hd t = Hangup then t else tl t)"
  using assms
proof (induction "length bs" arbitrary: bs l rule: less_induct)
  case less
  let ?n = "string_limit 4095 bs" and ?r = "read_string 4095 [] 1 l"
  show ?case
  proof (cases "?n \<le> length bs")
    case True
    let ?w = "up_to_stop [] (take ?n bs)"
    have w: "?w = take ?n bs" by (simp add: up_to_stop_none)
    have n: "0 < ?n" by (simp add: string_limit_def)
    have r: "fst ?r = (int (length ?w), ?w)" "incoming (snd ?r) = map Octet (drop (length ?w) bs) @ t"
      "same_port l (snd ?r)"
      using read_string_stopped [OF less(2,4,5) _ refl _ refl, of 4095 "[]"] True by auto
    have "\<not> seven_bits (snd ?r)" "errno (snd ?r) \<noteq> EBUSY"
      using r(3) less(4,5) by (simp_all add: same_port_def port_kept_def)
    with less(1) [OF _ r(2) less(3)] less(6) True n w
    have "fst (serial_flush (snd ?r)) = RIG_OK \<and> incoming (snd (serial_flush (snd ?r)))
        = (if t \<noteq> [] \<and> hd t = Hangup then t else tl t)" by simp
    moreover have "serial_flush l = serial_flush (snd ?r)"
      using r(1) w n True by (subst serial_flush.simps) (auto simp: case_prod_beta)
    ultimately show ?thesis by simp
  next
    case False
    then show ?thesis
      using read_string_dry [OF less(2-5), of 4095 "[]"] less(6)
      by (subst (1 2) serial_flush.simps) (auto simp: case_prod_beta RIG_ETIMEOUT_def RIG_EIO_def)
  qed
qed

subsection \<open>Exchanges on a line\<close>

text \<open>A line that a transaction can use.\<close>

definition usable :: "'d line \<Rightarrow> bool" where
  "usable l \<longleftrightarrow> \<not> seven_bits l \<and> \<not> line_async l \<and> 0 \<le> line_fd l \<and> room l = None \<and> errno l \<noteq> EBUSY"

lemma same_port_usable: "same_port l l' \<Longrightarrow> usable l \<Longrightarrow> usable l'"
  by (simp add: same_port_def port_kept_def usable_def)

text \<open>What is left on the line before a command: octets, fewer than one read of the flush takes.\<close>

definition stale :: "'d line \<Rightarrow> bool" where
  "stale l \<longleftrightarrow> (\<exists>bs. incoming l = map Octet bs \<and> length bs < 4094)"

text \<open>Two states of a line that differ in what has arrived.\<close>

definition consumed :: "'d line \<Rightarrow> arrival list \<Rightarrow> 'd line \<Rightarrow> bool" where
  "consumed l t l' \<longleftrightarrow> incoming l' = t \<and> same_port l l' \<and> overrun l' = overrun l"

text \<open>What a command does to the line: the device gets it, its answer is what arrives.\<close>

definition heard :: "'d answers \<Rightarrow> u8 list \<Rightarrow> 'd line \<Rightarrow> 'd line \<Rightarrow> bool" where
  "heard dev tx l l' \<longleftrightarrow> incoming l' = fst (reply_of dev tx (device l))
     \<and> device l' = snd (reply_of dev tx (device l)) \<and> usable l' \<and> overrun l' = overrun l"

lemma flush_write:
  assumes "usable l" and "stale l"
  shows "\<exists>l1 l'. serial_flush l = (RIG_OK, l1) \<and> write_block dev tx l1 = (RIG_OK, l') \<and> heard dev tx l l'"
proof -
  obtain l1 where l1: "serial_flush l = (RIG_OK, l1)" "incoming l1 = []" "same_port l l1" "overrun l1 = overrun l"
    using serial_flush_stale assms by (auto simp: stale_def usable_def)
  have u: "usable l1" using same_port_usable [OF l1(3) assms(1)] .
  then have "write_block dev tx l1 = (RIG_OK, transmit dev tx l1)"
    by (simp add: write_block_def usable_def)
  moreover have "heard dev tx l (transmit dev tx l1)"
    using l1 u by (simp add: heard_def transmit_reply usable_def same_port_def port_kept_def)
  ultimately show ?thesis using l1(1) by blast
qed

lemma up_to_stop_whole: "f \<noteq> [] \<Longrightarrow> last f \<in> set S \<Longrightarrow> set (butlast f) \<inter> set S = {} \<Longrightarrow> up_to_stop S f = f"
  by (induction f) (auto split: if_splits)

text \<open>Devices that never answer, and what a device remembers of \<open>n\<close> equal messages.\<close>

definition silent :: "'d answers \<Rightarrow> bool" where
  "silent dev \<longleftrightarrow> (\<forall>b d. fst (dev b d) = [])"

lemma silent_reply: "silent dev \<Longrightarrow> fst (reply_of dev tx d) = []"
  by (induction tx arbitrary: d) (auto simp: silent_def case_prod_beta)

fun hear :: "'d answers \<Rightarrow> u8 list \<Rightarrow> nat \<Rightarrow> 'd \<Rightarrow> 'd" where
  "hear dev tx 0 d = d"
| "hear dev tx (Suc n) d = hear dev tx n (snd (reply_of dev tx d))"

subsection \<open>Witnesses\<close>

definition fresh_line :: "arrival list \<Rightarrow> 'd \<Rightarrow> 'd line" where
  "fresh_line as d = \<lparr>incoming = as, device = d, line_fd = 3, line_async = False, seven_bits = False,
                     room = None, minlen = 1, errno = 0, overrun = False\<rparr>"

lemma fresh_line_simps [simp]:
  "incoming (fresh_line as d) = as" "device (fresh_line as d) = d" "line_fd (fresh_line as d) = 3"
  "line_async (fresh_line as d) = False" "seven_bits (fresh_line as d) = False"
  "room (fresh_line as d) = None" "minlen (fresh_line as d) = 1" "errno (fresh_line as d) = 0" "\<not> overrun (fresh_line as d)"
  "(fresh_line as d)\<lparr>incoming := bs\<rparr> = fresh_line bs d"
  by (auto simp: fresh_line_def)

lemma read_block_result_witness:
  "read_block 2 (fresh_line [Octet 1, Octet 2, Hangup] ()) = Some ((2, [1, 2]), fresh_line [Hangup] ())
   \<and> read_block 3 (fresh_line [Octet 1, Octet 2, Hangup] ()) = None"
  using read_block_result [of "fresh_line [Octet 1, Octet 2, Hangup] ()" "[1, 2]" "[Hangup]" 2]
    read_block_result [of "fresh_line [Octet 1, Octet 2, Hangup] ()" "[1, 2]" "[Hangup]" 3]
  by (simp add: block_outcome_def)

lemma read_string_result_witness:
  "fst (read_string 3 [6] 1 (fresh_line (map Octet [0x5c, 2, 3, 4, 5, 6, 7]) ())) = (6, [0x5c, 2, 3, 4, 5, 6])"
  using read_string_result [of "fresh_line (map Octet [0x5c, 2, 3, 4, 5, 6, 7]) ()"
      "[0x5c, 2, 3, 4, 5, 6, 7]" "[]" 3 9 "[6]" "[0x5c, 2, 3, 4, 5, 6]"]
  by (simp add: string_limit_def EBUSY_def)

lemma read_string_stale_busy_witness:
  "fst (read_string 80 [6] 1 ((fresh_line (map Octet ([1, 2, 3, 4, 5, 6, 7, 8, 9] @ [6])) ())\<lparr>errno := EBUSY\<rparr>)) = (1, [6])"
  by (rule read_string_stale_busy [where bs = "[1, 2, 3, 4, 5, 6, 7, 8, 9]" and t = "[]"]) simp_all

lemma read_string_gives_out_witness:
  "fst (read_string 8 [6] 1 (fresh_line [Octet 1, Octet 2, Fault 5, Octet 6] ())) = (- RIG_EIO, [1, 2])"
  using read_string_gives_out [of "fresh_line [Octet 1, Octet 2, Fault 5, Octet 6] ()" "[1, 2]"
      "[Fault 5, Octet 6]" 8 "[6]"]
  by (simp add: string_limit_def EBUSY_def)

lemma read_string_asks_for_nothing_witness:
  "fst (read_string 8 [6] 8 (fresh_line [Octet 1, Octet 2, Octet 6] ())) = (- RIG_EIO, [1])"
  using read_string_asks_for_nothing [of 8 "fresh_line [Octet 1, Octet 2, Octet 6] ()" 1 2 "[6]" "[]"
      "[6]" 8 8 "[6]"]
  by (simp add: EBUSY_def)

lemma serial_flush_drops_witness:
  "incoming (snd (serial_flush (fresh_line [Octet 1, Octet 2, Quiet, Octet 3] ()))) = [Octet 3]"
  using serial_flush_drops [of "fresh_line [Octet 1, Octet 2, Quiet, Octet 3] ()" "[1, 2]" "[Quiet, Octet 3]"]
  by (simp add: EBUSY_def)

end
