(* ===== verification/Hamlib_Icom_Frame.thy ===== *)
theory Hamlib_Icom_Frame
  imports Hamlib_Io Hamlib_Bcd Hamlib_Names Hamlib_Models Hamlib_Ranges Hamlib_Frontend
begin

text \<open>
  The data of the Icom back end (\<^verbatim>\<open>rigs/icom/icom.h\<close>, \<^verbatim>\<open>icom_defs.h\<close>) and the part of
  \<^verbatim>\<open>rigs/icom/frame.c\<close> that talks to no radio: building a CI-V frame, repairing its preamble, and
  translating modes.

  The private data of the back end carries the port of the handle (\<^verbatim>\<open>rig->state.rigport\<close>) and the
  options to switch the radio on and off, since nothing else of the handle uses them. What the C code reads behind the end of a frame, in a buffer that
  was cleared before it was read, is zero: \<open>octet\<close>.
\<close>

subsection \<open>Codes of the protocol: icom_defs.h\<close>

named_theorems civ_defs \<open>the values of the CI-V codes\<close>

definition PR :: u8 where [civ_defs]: "PR = 0xfe"
definition CTRLID :: u8 where [civ_defs]: "CTRLID = 0xe0"
definition BCASTID :: u8 where [civ_defs]: "BCASTID = 0"
definition FI :: u8 where [civ_defs]: "FI = 0xfd"
definition ACK :: u8 where [civ_defs]: "ACK = 0xfb"
definition NAK :: u8 where [civ_defs]: "NAK = 0xfa"
definition COL :: u8 where [civ_defs]: "COL = 0xfc"
definition ACKFRMLEN :: nat where "ACKFRMLEN = 6"
definition MAXFRAMELEN :: nat where "MAXFRAMELEN = 200"
definition S_NONE :: int where "S_NONE = - 1"

definition C_SND_FREQ :: u8 where [civ_defs]: "C_SND_FREQ = 0x00"
definition C_SND_MODE :: u8 where [civ_defs]: "C_SND_MODE = 0x01"
definition C_RD_FREQ :: u8 where [civ_defs]: "C_RD_FREQ = 0x03"
definition C_RD_MODE :: u8 where [civ_defs]: "C_RD_MODE = 0x04"
definition C_SET_FREQ :: u8 where [civ_defs]: "C_SET_FREQ = 0x05"
definition C_SET_MODE :: u8 where [civ_defs]: "C_SET_MODE = 0x06"
definition C_SET_VFO :: u8 where [civ_defs]: "C_SET_VFO = 0x07"
definition C_SET_PWR :: u8 where [civ_defs]: "C_SET_PWR = 0x18"
definition C_CTL_PTT :: u8 where [civ_defs]: "C_CTL_PTT = 0x1c"
definition C_CTL_SCP :: u8 where [civ_defs]: "C_CTL_SCP = 0x27"
definition S_SCP_DAT :: u8 where [civ_defs]: "S_SCP_DAT = 0x00"

definition S_LSB :: u8 where [civ_defs]: "S_LSB = 0x00"
definition S_USB :: u8 where [civ_defs]: "S_USB = 0x01"
definition S_AM :: u8 where [civ_defs]: "S_AM = 0x02"
definition S_AMN :: u8 where [civ_defs]: "S_AMN = 0x02"
definition S_CW :: u8 where [civ_defs]: "S_CW = 0x03"
definition S_RTTY :: u8 where [civ_defs]: "S_RTTY = 0x04"
definition S_FM :: u8 where [civ_defs]: "S_FM = 0x05"
definition S_FMN :: u8 where [civ_defs]: "S_FMN = 0x05"
definition S_WFM :: u8 where [civ_defs]: "S_WFM = 0x06"
definition S_CWR :: u8 where [civ_defs]: "S_CWR = 0x07"
definition S_RTTYR :: u8 where [civ_defs]: "S_RTTYR = 0x08"
definition S_AMS :: u8 where [civ_defs]: "S_AMS = 0x11"
definition S_PSK :: u8 where [civ_defs]: "S_PSK = 0x12"
definition S_PSKR :: u8 where [civ_defs]: "S_PSKR = 0x13"
definition S_P25 :: u8 where [civ_defs]: "S_P25 = 0x16"
definition S_DSTAR :: u8 where [civ_defs]: "S_DSTAR = 0x17"
definition S_DPMR :: u8 where [civ_defs]: "S_DPMR = 0x18"
definition S_NXDNVN :: u8 where [civ_defs]: "S_NXDNVN = 0x19"
definition S_NXDN_N :: u8 where [civ_defs]: "S_NXDN_N = 0x20"
definition S_DCR :: u8 where [civ_defs]: "S_DCR = 0x21"
definition S_DD :: u8 where [civ_defs]: "S_DD = 0x22"
definition S_R7000_SSB :: u8 where [civ_defs]: "S_R7000_SSB = 0x05"
definition PD_WIDE_3 :: int where [civ_defs]: "PD_WIDE_3 = 1"
definition PD_MEDIUM_3 :: int where [civ_defs]: "PD_MEDIUM_3 = 2"
definition PD_NARROW_3 :: int where [civ_defs]: "PD_NARROW_3 = 3"

definition RIG_MODE_DD :: rmode_t where [flag_defs]: "RIG_MODE_DD = CONSTANT_64BIT_FLAG 32"

named_theorems model_defs \<open>model numbers of the Icom family\<close>

definition RIG_MODEL_IC706 :: nat where [model_defs]: "RIG_MODEL_IC706 = RIG_MAKE_MODEL RIG_ICOM 9"
definition RIG_MODEL_IC706MKII :: nat where [model_defs]: "RIG_MODEL_IC706MKII = RIG_MAKE_MODEL RIG_ICOM 10"
definition RIG_MODEL_IC706MKIIG :: nat where [model_defs]: "RIG_MODEL_IC706MKIIG = RIG_MAKE_MODEL RIG_ICOM 11"
definition RIG_MODEL_ICR7000 :: nat where [model_defs]: "RIG_MODEL_ICR7000 = RIG_MAKE_MODEL RIG_ICOM 40"
definition RIG_MODEL_ICR30 :: nat where [model_defs]: "RIG_MODEL_ICR30 = RIG_MAKE_MODEL RIG_ICOM 80"

subsection \<open>Data: icom.h\<close>

record icom_spectrum_scope_cache =
  spectrum_metadata_valid :: bool
  spectrum_mode :: rig_spectrum_mode_e
  spectrum_center_freq :: freq_t
  spectrum_span_freq :: freq_t
  spectrum_low_edge_freq :: freq_t
  spectrum_high_edge_freq :: freq_t
  spectrum_data_length :: u64
  spectrum_data :: "u8 list"

datatype enum_1a_03 = ENUM_1A_03_UNK | ENUM_1A_03_YES | ENUM_1A_03_NO

record 'd icom_priv_data =
  re_civ_addr :: u8
  civ_731_mode :: bool
  no_xchg :: bool
  no_1a_03_cmd :: enum_1a_03
  split_on :: bool
  serial_USB_echo_off :: bool
  curr_freq :: freq_t
  main_freq :: freq_t
  sub_freq :: freq_t
  maina_freq :: freq_t
  mainb_freq :: freq_t
  suba_freq :: freq_t
  subb_freq :: freq_t
  vfoa_freq :: freq_t
  vfob_freq :: freq_t
  other_freq :: freq_t
  x25cmdfails :: bool
  x1cx03cmdfails :: bool
  filter_sel :: u8
  poweron :: bool
  vfo_flag :: bool
  sat_rx_vfo :: vfo_t
  sat_tx_vfo :: vfo_t
  scopes :: "icom_spectrum_scope_cache list"
  rigport :: "'d line"
  rigport_timeout :: int
  rigport_retry :: int
  auto_power_on :: bool
  auto_power_off :: bool

type_synonym 'd icom_rig = "'d icom_priv_data rig"

definition octet :: "u8 list \<Rightarrow> nat \<Rightarrow> u8" where
  "octet buf i = (if i < length buf then buf ! i else 0)"

definition octets :: "u8 list \<Rightarrow> nat \<Rightarrow> nat \<Rightarrow> u8 list" where
  "octets buf i n = map (octet buf) [i..<i + n]"

text \<open>\<^verbatim>\<open>from_bcd(buf + i, 2 * n)\<close> for up to five octets, where it always has a value.\<close>

definition bcd_at :: "u8 list \<Rightarrow> nat \<Rightarrow> nat \<Rightarrow> nat" where
  "bcd_at buf i n = (case from_bcd (octets buf i n) (2 * n) of Some v \<Rightarrow> v | None \<Rightarrow> 0)"

subsection \<open>Building frames: frame.c\<close>

text \<open>The sub-command, of up to three octets.\<close>

definition subcmd_octets :: "int \<Rightarrow> u8 list" where
  "subcmd_octets subcmd =
     (if subcmd = - 1 then []
      else (if subcmd AND 0xff0000 \<noteq> 0
            then [word_of_int (drop_bit 16 (subcmd AND 0xff0000)), word_of_int (drop_bit 8 (subcmd AND 0xff00))]
            else if subcmd AND 0xff00 \<noteq> 0 then [word_of_int (drop_bit 8 (subcmd AND 0xff00))]
            else [])
           @ [word_of_int (subcmd AND 0xff)])"

definition make_cmd_frame :: "u8 \<Rightarrow> u8 \<Rightarrow> u8 \<Rightarrow> int \<Rightarrow> u8 list \<Rightarrow> u8 list" where
  "make_cmd_frame re_id ctrl_id cmd subcmd payload =
     [PR, PR, re_id, ctrl_id, cmd] @ subcmd_octets subcmd @ payload @ [FI]"

definition icom_frame_fix_preamble :: "u8 list \<Rightarrow> int \<times> u8 list" where
  "icom_frame_fix_preamble frame =
     (if octet frame 0 = PR
      then if octet frame 1 \<noteq> PR then (int (length frame) + 1, PR # frame)
           else (int (length frame), frame)
      else (- RIG_EPROTO, frame))"

subsection \<open>Modes: frame.c\<close>

definition icom_mode :: "rmode_t \<Rightarrow> u8 option" where
  "icom_mode mode =
     (if mode = RIG_MODE_AM then Some S_AM
      else if mode = RIG_MODE_PKTAM then Some S_AM
      else if mode = RIG_MODE_AMN then Some S_AMN
      else if mode = RIG_MODE_AMS then Some S_AMS
      else if mode = RIG_MODE_CW then Some S_CW
      else if mode = RIG_MODE_CWR then Some S_CWR
      else if mode = RIG_MODE_USB then Some S_USB
      else if mode = RIG_MODE_PKTUSB then Some S_USB
      else if mode = RIG_MODE_LSB then Some S_LSB
      else if mode = RIG_MODE_PKTLSB then Some S_LSB
      else if mode = RIG_MODE_RTTY then Some S_RTTY
      else if mode = RIG_MODE_RTTYR then Some S_RTTYR
      else if mode = RIG_MODE_PSK then Some S_PSK
      else if mode = RIG_MODE_PSKR then Some S_PSKR
      else if mode = RIG_MODE_FM then Some S_FM
      else if mode = RIG_MODE_PKTFM then Some S_FM
      else if mode = RIG_MODE_FMN then Some S_FMN
      else if mode = RIG_MODE_PKTFMN then Some S_FMN
      else if mode = RIG_MODE_WFM then Some S_WFM
      else if mode = RIG_MODE_P25 then Some S_P25
      else if mode = RIG_MODE_DSTAR then Some S_DSTAR
      else if mode = RIG_MODE_DPMR then Some S_DPMR
      else if mode = RIG_MODE_NXDNVN then Some S_NXDNVN
      else if mode = RIG_MODE_NXDN_N then Some S_NXDN_N
      else if mode = RIG_MODE_DCR then Some S_DCR
      else if mode = RIG_MODE_DD then Some S_DD
      else None)"

text \<open>The mode and the filter octet; a filter octet of -1 is not sent.\<close>

definition rig2icom_mode ::
  "'d icom_priv_data caps \<Rightarrow> 'd icom_priv_data ports \<Rightarrow> vfo_t \<Rightarrow> rmode_t \<Rightarrow> pbwidth_t
    \<Rightarrow> ('d icom_rig, int \<times> (u8 \<times> int) option) state" where
  "rig2icom_mode caps P vfo mode width = do {
     _ \<leftarrow> (if width = RIG_PASSBAND_NOCHANGE then rig_get_mode caps P vfo (0, width)
         else State_Monad.return (RIG_OK, 0, width));
     case icom_mode mode of
       None \<Rightarrow> State_Monad.return (- RIG_EINVAL, None)
     | Some icmode \<Rightarrow> do {
         rig \<leftarrow> gets id;
         let medium_width = rig_passband_normal rig mode;
         let icmode_ext = (if width = RIG_PASSBAND_NORMAL then - 1
                           else if width < medium_width then PD_NARROW_3
                           else if width = medium_width then PD_MEDIUM_3 else PD_WIDE_3);
         State_Monad.return (RIG_OK, Some
           (if width = RIG_PASSBAND_NOCHANGE then (icmode, sint (filter_sel (priv rig)))
            else if rig_model caps = RIG_MODEL_ICR7000
            then if mode = RIG_MODE_USB \<or> mode = RIG_MODE_LSB then (S_R7000_SSB, 0)
                 else if mode = RIG_MODE_AM \<and> icmode_ext = - 1 then (icmode, PD_WIDE_3)
                 else (icmode, icmode_ext)
            else (icmode, icmode_ext)))
       }
   }"

text \<open>The mode, with the model's exceptions; the filter octet is 0, 1 or 2 on the IC-706 family.\<close>

definition rig_mode :: "nat \<Rightarrow> u8 \<Rightarrow> int \<Rightarrow> rmode_t" where
  "rig_mode model md pd =
     (if md = S_AM then if model = RIG_MODEL_ICR30 \<and> pd = 2 then RIG_MODE_AMN else RIG_MODE_AM
      else if md = S_AMS then RIG_MODE_AMS
      else if md = S_CW then RIG_MODE_CW
      else if md = S_CWR then RIG_MODE_CWR
      else if md = S_FM then if model = RIG_MODEL_ICR30 \<and> pd = 2 then RIG_MODE_FMN else RIG_MODE_FM
      else if md = S_WFM then RIG_MODE_WFM
      else if md = S_USB then RIG_MODE_USB
      else if md = S_LSB then RIG_MODE_LSB
      else if md = S_RTTY then RIG_MODE_RTTY
      else if md = S_RTTYR then RIG_MODE_RTTYR
      else if md = S_PSK then RIG_MODE_PSK
      else if md = S_PSKR then RIG_MODE_PSKR
      else if md = S_DSTAR then RIG_MODE_DSTAR
      else if md = S_P25 then RIG_MODE_P25
      else if md = S_DPMR then RIG_MODE_DPMR
      else if md = S_NXDNVN then RIG_MODE_NXDNVN
      else if md = S_NXDN_N then RIG_MODE_NXDN_N
      else if md = S_DCR then RIG_MODE_DCR
      else RIG_MODE_NONE)"

definition rig_width :: "'p rig \<Rightarrow> rmode_t \<Rightarrow> int \<Rightarrow> pbwidth_t" where
  "rig_width rig mode pd =
     (if pd = 1 then if rig_passband_wide rig mode = 0 then rig_passband_normal rig mode
                     else rig_passband_wide rig mode
      else if pd = 2 then if rig_passband_wide rig mode \<noteq> 0 then rig_passband_normal rig mode
                          else rig_passband_narrow rig mode
      else if pd = 3 then rig_passband_narrow rig mode
      else RIG_PASSBAND_NORMAL)"

definition icom2rig_mode :: "nat \<Rightarrow> 'p rig \<Rightarrow> u8 \<Rightarrow> int \<Rightarrow> rmode_t \<times> pbwidth_t" where
  "icom2rig_mode model rig md pd =
     (if md = S_FM \<and> model = RIG_MODEL_ICR7000 \<and> pd = 0
      then (RIG_MODE_USB, rig_passband_normal rig RIG_MODE_USB)
      else let mode = rig_mode model md pd;
               pd' = (if 0 \<le> pd \<and> model \<in> {RIG_MODEL_IC706MKIIG, RIG_MODEL_IC706, RIG_MODEL_IC706MKII}
                      then pd + 1 else pd)
           in (mode, rig_width rig mode pd'))"

subsection \<open>Frames on the wire\<close>

lemma low_octet [simp]: "word_of_int (v AND 0xff) = (word_of_int v :: u8)"
  using take_bit_eq_mask [of 8 v] by (simp add: word_of_int_eq_iff mask_eq_exp_minus_1)

lemma subcmd_none [simp]: "subcmd_octets (- 1) = []"
  by (simp add: subcmd_octets_def)

text \<open>A sub-command of one octet is that octet.\<close>

lemma high_octets_zero: "0 \<le> k \<Longrightarrow> k < 256 \<Longrightarrow> take_bit 8 m = 0 \<Longrightarrow> k AND m = (0 :: int)"
proof -
  assume k: "0 \<le> k" "k < 256" and m: "take_bit 8 m = 0"
  have "0 \<le> k AND m" "k AND m \<le> k" using k(1) by simp_all
  then have "k AND m = take_bit 8 (k AND m)"
    using k(2) by (intro take_bit_int_eq_self [symmetric]) auto
  also have "\<dots> = 0" by (simp add: m)
  finally show "k AND m = 0" .
qed

lemma subcmd_octet: "0 \<le> k \<Longrightarrow> k < 256 \<Longrightarrow> subcmd_octets k = [word_of_int k]"
  by (simp add: subcmd_octets_def high_octets_zero)

lemma make_cmd_frame_shape:
  "make_cmd_frame re_id ctrl_id cmd subcmd payload
     = PR # PR # re_id # ctrl_id # cmd # (subcmd_octets subcmd @ payload @ [FI])"
  by (simp add: make_cmd_frame_def)

lemma fix_preamble_id: "icom_frame_fix_preamble (PR # PR # f) = (int (length f) + 2, PR # PR # f)"
  by (simp add: icom_frame_fix_preamble_def octet_def)

text \<open>a frame that lost one of its two preamble octets on the way is repaired to the frame that was
  sent, whatever follows them, and one that lost both is refused.\<close>

theorem preamble_repair:
  assumes "re_id \<noteq> PR"
  shows "icom_frame_fix_preamble (tl (make_cmd_frame re_id ctrl_id cmd subcmd payload))
      = (int (length (make_cmd_frame re_id ctrl_id cmd subcmd payload)),
         make_cmd_frame re_id ctrl_id cmd subcmd payload)
    \<and> fst (icom_frame_fix_preamble (make_cmd_frame re_id ctrl_id cmd subcmd payload))
      = int (length (make_cmd_frame re_id ctrl_id cmd subcmd payload))
    \<and> fst (icom_frame_fix_preamble (tl (tl (make_cmd_frame re_id ctrl_id cmd subcmd payload)))) = - RIG_EPROTO"
  using assms by (auto simp: make_cmd_frame_shape icom_frame_fix_preamble_def octet_def)

lemma preamble_repair_witness:
  "icom_frame_fix_preamble [PR, 0x94, CTRLID, C_RD_FREQ, FI] = (6, [PR, PR, 0x94, CTRLID, C_RD_FREQ, FI])"
  using preamble_repair [where re_id = "0x94" and ctrl_id = CTRLID and cmd = C_RD_FREQ and subcmd = "- 1"
      and payload = "[]"]
  by (simp add: make_cmd_frame_shape PR_def)

subsection \<open>Modes there and back\<close>

text \<open>The modes with an octet of their own, that come back as they went.\<close>

definition civ_modes :: "rmode_t set" where
  "civ_modes = {RIG_MODE_AM, RIG_MODE_AMS, RIG_MODE_CW, RIG_MODE_CWR, RIG_MODE_USB, RIG_MODE_LSB,
     RIG_MODE_RTTY, RIG_MODE_RTTYR, RIG_MODE_PSK, RIG_MODE_PSKR, RIG_MODE_FM, RIG_MODE_WFM, RIG_MODE_P25,
     RIG_MODE_DSTAR, RIG_MODE_DPMR, RIG_MODE_NXDNVN, RIG_MODE_NXDN_N, RIG_MODE_DCR}"

text \<open>The mode read back after one was set: the data and narrow modes fall back to the voice mode, and
  DD, which can be set, is not known when it is read.\<close>

definition reported_mode :: "rmode_t \<Rightarrow> rmode_t" where
  "reported_mode mode =
     (if mode = RIG_MODE_PKTAM \<or> mode = RIG_MODE_AMN then RIG_MODE_AM
      else if mode = RIG_MODE_PKTUSB then RIG_MODE_USB
      else if mode = RIG_MODE_PKTLSB then RIG_MODE_LSB
      else if mode \<in> {RIG_MODE_PKTFM, RIG_MODE_FMN, RIG_MODE_PKTFMN} then RIG_MODE_FM
      else if mode = RIG_MODE_DD then RIG_MODE_NONE
      else mode)"

lemma reported_civ_mode: "mode \<in> civ_modes \<Longrightarrow> reported_mode mode = mode"
  by (auto simp: reported_mode_def civ_modes_def flag_defs)

lemma rig_mode_icom_mode:
  assumes "icom_mode mode = Some md" and "model \<noteq> RIG_MODEL_ICR30"
  shows "rig_mode model md pd = reported_mode mode"
  using assms
  by (auto simp: icom_mode_def rig_mode_def reported_mode_def civ_defs flag_defs split: if_splits)

text \<open>The width read back: narrow, normal or wide, as the filter list of the radio has them.\<close>

definition reported_width :: "'p rig \<Rightarrow> rmode_t \<Rightarrow> pbwidth_t \<Rightarrow> pbwidth_t" where
  "reported_width rig mode width =
     (let normal = rig_passband_normal rig mode; wide = rig_passband_wide rig mode;
          narrow = rig_passband_narrow rig mode
      in if width = RIG_PASSBAND_NORMAL then RIG_PASSBAND_NORMAL
         else if width < normal then narrow
         else if width = normal then if wide \<noteq> 0 then normal else narrow
         else if wide = 0 then normal else wide)"

text \<open>C9: a mode set and read back, on models other than the IC-R30 and the IC-R7000, which have codes of their own (on
  the IC-R7000 LSB and USB share one), with a width that is not \<^verbatim>\<open>RIG_PASSBAND_NOCHANGE\<close>.
  Where \<^verbatim>\<open>rig2icom_mode\<close> succeeds, \<^verbatim>\<open>icom2rig_mode\<close> decodes its octets to the
  same mode, except that data and narrow modes come back as the voice mode they share an octet with and DD as no mode.
  For a mode with an octet of its own (\<open>civ_modes\<close>), on models other than the three IC-706, which number the filters
  in another way, the width comes back as the narrow, the normal or the wide filter of the
  mode; the normal one comes back as the narrow one on a radio whose list has no wide filter.\<close>

theorem icom_mode_roundtrip:
  assumes "width \<noteq> RIG_PASSBAND_NOCHANGE"
    and "rig_model caps \<notin> {RIG_MODEL_ICR30, RIG_MODEL_ICR7000}"
    and "run_state (rig2icom_mode caps P vfo mode width) rig = ((RIG_OK, Some (md, pd)), rig')"
  shows "rig' = rig \<and> fst (icom2rig_mode (rig_model caps) rig md pd) = reported_mode mode
    \<and> (mode \<in> civ_modes
       \<and> rig_model caps \<notin> {RIG_MODEL_IC706MKIIG, RIG_MODEL_IC706, RIG_MODEL_IC706MKII}
       \<longrightarrow> snd (icom2rig_mode (rig_model caps) rig md pd) = reported_width rig mode width)"
proof -
  let ?ext = "if width = RIG_PASSBAND_NORMAL then - 1 else if width < rig_passband_normal rig mode
    then PD_NARROW_3 else if width = rig_passband_normal rig mode then PD_MEDIUM_3 else PD_WIDE_3"
  obtain m where m: "icom_mode mode = Some m"
    using assms(1,3) by (cases "icom_mode mode") (auto simp: rig2icom_mode_def)
  with assms have *: "md = m" "pd = ?ext" "rig' = rig"
    by (auto simp: rig2icom_mode_def Let_def)
  have "rig_mode (rig_model caps) md pd = reported_mode mode"
    using m * assms(2) rig_mode_icom_mode by simp
  then show ?thesis
    using * assms(2) reported_civ_mode [of mode]
    by (auto simp: icom2rig_mode_def rig_width_def reported_width_def Let_def civ_defs)
qed

text \<open>A handle for the witnesses: a radio at address \<^verbatim>\<open>0x94\<close> on a line without echo.\<close>

definition bench_rig :: "'d line \<Rightarrow> 'd icom_rig" where
  "bench_rig l = (zero_rig \<lparr>tv_sec = 1, tv_nsec = 1\<rparr>
     \<lparr>re_civ_addr = 0x94, civ_731_mode = False, no_xchg = False, no_1a_03_cmd = ENUM_1A_03_UNK, split_on = False, serial_USB_echo_off = True,
      curr_freq = 0, main_freq = 0, sub_freq = 0, maina_freq = 0, mainb_freq = 0, suba_freq = 0, subb_freq = 0,
      vfoa_freq = 0, vfob_freq = 0, other_freq = 0, x25cmdfails = False, x1cx03cmdfails = False,
      filter_sel = 0, poweron = True, vfo_flag = False, sat_rx_vfo = 0, sat_tx_vfo = 0, scopes = [], rigport = l, rigport_timeout = 1000, rigport_retry = 3, auto_power_on = False,
      auto_power_off = False\<rparr>)
     \<lparr>comm_state := True, current_vfo := RIG_VFO_A, vfo_list := RIG_VFO_A OR RIG_VFO_B,
      filters := [(RIG_MODE_USB, 2400), (RIG_MODE_USB, 1800)]\<rparr>"

lemma bench_filters:
  "rig_passband_normal (bench_rig l) RIG_MODE_USB = 2400" "rig_passband_wide (bench_rig l) RIG_MODE_USB = 0"
  "rig_passband_narrow (bench_rig l) RIG_MODE_USB = 1800"
  by (simp_all add: bench_rig_def rig_passband_normal_def rig_passband_wide_def rig_passband_narrow_def
      HAMLIB_FLTLSTSIZ_def flag_defs zero_rig_def numeral_eq_Suc)

lemmas model_numbers = model_defs RIG_MAKE_MODEL_def RIG_ICOM_def MAX_MODELS_PER_BACKEND_def no_caps_def

lemma icom_mode_usb: "icom_mode RIG_MODE_USB = Some S_USB"
  by (simp add: icom_mode_def flag_defs)

lemma icom_mode_roundtrip_witness:
  "let caps = no_caps :: unit icom_priv_data caps; rig = bench_rig (fresh_line [] ())
   in run_state (rig2icom_mode caps dead_ports RIG_VFO_A RIG_MODE_USB 2400) rig
        = ((RIG_OK, Some (S_USB, PD_MEDIUM_3)), rig)
      \<and> icom2rig_mode (rig_model caps) rig S_USB PD_MEDIUM_3 = (RIG_MODE_USB, 1800)"
proof -
  let ?caps = "no_caps :: unit icom_priv_data caps" and ?rig = "bench_rig (fresh_line [] ())"
  have model: "rig_model ?caps = 0" by (simp add: no_caps_def)
  have r: "run_state (rig2icom_mode ?caps dead_ports RIG_VFO_A RIG_MODE_USB 2400) ?rig
      = ((RIG_OK, Some (S_USB, PD_MEDIUM_3)), ?rig)"
    by (simp add: rig2icom_mode_def RIG_PASSBAND_NOCHANGE_def RIG_PASSBAND_NORMAL_def bench_filters
        icom_mode_usb Let_def model_numbers)
  have "fst (icom2rig_mode (rig_model ?caps) ?rig S_USB PD_MEDIUM_3) = reported_mode RIG_MODE_USB
      \<and> snd (icom2rig_mode (rig_model ?caps) ?rig S_USB PD_MEDIUM_3) = reported_width ?rig RIG_MODE_USB 2400"
    using icom_mode_roundtrip [OF _ _ r]
    by (simp add: model model_numbers RIG_PASSBAND_NOCHANGE_def civ_modes_def)
  moreover have "reported_mode RIG_MODE_USB = RIG_MODE_USB" by (simp add: reported_civ_mode civ_modes_def)
  ultimately show ?thesis
    using r by (simp add: prod_eq_iff reported_width_def bench_filters RIG_PASSBAND_NORMAL_def)
qed

end
