(* ===== verification/Hamlib_Icom_Civ.thy ===== *)
theory Hamlib_Icom_Civ
  imports Hamlib_Icom_Frame Hamlib_Frequency
begin

text \<open>
  Talking to an Icom radio: reading a CI-V frame, the transaction of a command with its echo and its
  reply, and its retries (\<^verbatim>\<open>rigs/icom/frame.c\<close>), and what the radio sends without being asked,
  transceive frames and spectrum lines (\<^verbatim>\<open>rigs/icom/icom.c\<close>, \<^verbatim>\<open>src/event.c\<close>).

  Callbacks are not installed and nothing is published on the network: an event changes the cache. An
  access outside a buffer sets \<open>overrun\<close> of the line, and the model goes on as if it had not
  happened.
\<close>

subsection \<open>The line to the radio\<close>

text \<open>
  What surrounds the back end: the radio that answers each octet, the clock after a read and after a
  pause, and what the capabilities of the model say (\<^verbatim>\<open>struct icom_priv_caps\<close>).
\<close>

record 'd civ =
  radio :: "'d answers"
  after_read :: "'d line \<Rightarrow> timespec \<Rightarrow> timespec"
  after_sleep :: "int \<Rightarrow> timespec \<Rightarrow> timespec"
  civ_model :: nat
  civ_addr :: u8
  civ_731 :: bool
  civ_no_xchg :: bool
  scope_count :: nat
  serial_full_duplex :: bool
  spectrum_line_length :: int
  single_frame_data_length :: int

definition upd_icom :: "('p \<Rightarrow> 'p) \<Rightarrow> ('p rig, unit) state" where
  "upd_icom f = modify (\<lambda>rig. rig\<lparr>priv := f (priv rig)\<rparr>)"

definition on_port :: "('d line \<Rightarrow> 'a \<times> 'd line) \<Rightarrow> ('d icom_rig, 'a) state" where
  "on_port f = State (\<lambda>rig. let (a, l) = f (rigport (priv rig))
     in (a, rig\<lparr>priv := (priv rig)\<lparr>rigport := l\<rparr>\<rparr>))"

definition run_over :: "('d icom_rig, unit) state" where
  "run_over = on_port (\<lambda>l. ((), l\<lparr>overrun := True\<rparr>))"

definition pause_for :: "'d civ \<Rightarrow> int \<Rightarrow> ('d icom_rig, unit) state" where
  "pause_for C us = modify (\<lambda>rig. rig\<lparr>now := after_sleep C us (now rig)\<rparr>)"

subsection \<open>Reading a frame\<close>

text \<open>
  The loop of \<^verbatim>\<open>read_icom_frame_generic\<close>: it goes on until an end mark, or the buffer is full. Its
  reads are of up to \<^verbatim>\<open>MAXFRAMELEN - read\<close> octets whatever \<^verbatim>\<open>rxbuffer_len\<close> is, and each clears that
  many octets of the buffer first.
\<close>

function read_icom_frame_loop ::
  "nat \<Rightarrow> bool \<Rightarrow> nat \<Rightarrow> u8 list \<Rightarrow> 'd line \<Rightarrow> (int \<times> u8 list) \<times> 'd line" where
  "read_icom_frame_loop rxbuffer_len direct retries got l =
     (let (r, l') = read_string_generic (MAXFRAMELEN - length got) [FI, COL] 1 direct l;
          i = fst r; got' = got @ snd r
      in if i < 0 then ((i, got'), l')
         else if i = 0 \<and> retries \<le> 1 then ((int (length got), got), l')
         else if length got' < rxbuffer_len \<and> (got' = [] \<or> last got' \<notin> {FI, COL})
         then read_icom_frame_loop rxbuffer_len direct (if i = 0 then retries - 1 else retries) got' l'
         else ((int (length got'), got'), l'))"
  by pat_completeness auto

lemma read_string_generic_cases:
  "read_string_generic rxmax stopset e direct l = ((- RIG_EINTERNAL, []), l)
   \<or> read_string_generic rxmax stopset e direct l = read_string rxmax stopset e l"
  by (auto simp: read_string_def read_string_generic_def)

lemma read_string_generic_consumes:
  assumes "read_string_generic rxmax stopset e direct l = (r, l')"
  shows "length (snd r) + length (incoming l') \<le> length (incoming l)"
    and "0 \<le> fst r \<Longrightarrow> fst r = int (length (snd r))"
    and "0 < fst r \<Longrightarrow> length (incoming l') < length (incoming l)"
proof -
  have "length (snd r) + length (incoming l') \<le> length (incoming l) \<and> (0 \<le> fst r \<longrightarrow> fst r = int (length (snd r)))"
    using assms read_string_generic_cases [of rxmax stopset e direct l]
      read_string_length [of rxmax stopset e l "fst r" "snd r" l'] by (auto simp: RIG_EINTERNAL_def)
  then show "length (snd r) + length (incoming l') \<le> length (incoming l)"
    "0 \<le> fst r \<Longrightarrow> fst r = int (length (snd r))" by simp_all
  show "length (incoming l') < length (incoming l)" if "0 < fst r"
    using that assms read_string_generic_cases [of rxmax stopset e direct l]
      read_string_consumes [of rxmax stopset e l] by (auto simp: RIG_EINTERNAL_def prod_eq_iff)
qed

termination read_icom_frame_loop
  by (relation "measure (\<lambda>(n, direct, retries, got, l). retries + length (incoming l))")
    (auto dest: read_string_generic_consumes(1,3) [OF sym])

declare read_icom_frame_loop.simps [simp del]

definition read_icom_frame_generic ::
  "nat \<Rightarrow> bool \<Rightarrow> 'd line \<Rightarrow> (int \<times> u8 list) \<times> 'd line" where
  "read_icom_frame_generic rxbuffer_len direct l =
     read_icom_frame_loop rxbuffer_len direct 10 []
       (l\<lparr>overrun := overrun l \<or> rxbuffer_len < MAXFRAMELEN\<rparr>)"

text \<open>Reading moves the clock.\<close>

definition read_icom_frame :: "'d civ \<Rightarrow> nat \<Rightarrow> ('d icom_rig, int \<times> u8 list) state" where
  "read_icom_frame C rxbuffer_len = do {
     r \<leftarrow> on_port (\<lambda>l. read_icom_frame_generic rxbuffer_len (\<not> line_async l) l);
     _ \<leftarrow> modify (\<lambda>rig. rig\<lparr>now := after_read C (rigport (priv rig)) (now rig)\<rparr>);
     State_Monad.return r
   }"

definition read_icom_frame_direct :: "'d civ \<Rightarrow> nat \<Rightarrow> ('d icom_rig, int \<times> u8 list) state" where
  "read_icom_frame_direct C rxbuffer_len = do {
     r \<leftarrow> on_port (read_icom_frame_generic rxbuffer_len True);
     _ \<leftarrow> modify (\<lambda>rig. rig\<lparr>now := after_read C (rigport (priv rig)) (now rig)\<rparr>);
     State_Monad.return r
   }"

subsection \<open>Events: event.c\<close>

definition rig_fire_freq_event :: "vfo_t \<Rightarrow> freq_t \<Rightarrow> 'p call" where
  "rig_fire_freq_event vfo freq = do {
     _ \<leftarrow> rig_set_cache_freq vfo freq;
     State_Monad.return 0
   }"

definition rig_fire_mode_event :: "vfo_t \<Rightarrow> rmode_t \<Rightarrow> pbwidth_t \<Rightarrow> 'p call" where
  "rig_fire_mode_event vfo mode width = do {
     _ \<leftarrow> rig_set_cache_mode vfo mode width;
     State_Monad.return 0
   }"

subsection \<open>Spectrum lines: icom.c\<close>

text \<open>The header that the first division of a line carries.\<close>

definition spectrum_header ::
  "u8 list \<Rightarrow> icom_spectrum_scope_cache \<Rightarrow> icom_spectrum_scope_cache option" where
  "spectrum_header fd c =
     (let mode = octet fd 3; a = real (bcd_at fd 4 5); b = real (bcd_at fd 9 5)
      in if mode = 0
         then Some (c\<lparr>spectrum_mode := RIG_SPECTRUM_MODE_CENTER, spectrum_center_freq := a,
                      spectrum_span_freq := b * 2, spectrum_low_edge_freq := a - b * 2 / 2,
                      spectrum_high_edge_freq := a + b * 2 / 2\<rparr>)
         else if mode \<in> {1, 2, 3}
         then Some (c\<lparr>spectrum_mode := (if mode = 1 then RIG_SPECTRUM_MODE_FIXED
                                        else if mode = 2 then RIG_SPECTRUM_MODE_CENTER_SCROLL
                                        else RIG_SPECTRUM_MODE_FIXED_SCROLL),
                      spectrum_low_edge_freq := a, spectrum_high_edge_freq := b,
                      spectrum_span_freq := b - a, spectrum_center_freq := b - (b - a) / 2\<rparr>)
         else None)"

text \<open>
  Copying \<open>len\<close> octets of a division to its place in the line. \<^verbatim>\<open>size_t\<close> and
  \<^verbatim>\<open>int\<close> mix in the test: a negative place counts modulo \<^verbatim>\<open>2^64\<close>. The flag says that the
  copy leaves the line's buffer.
\<close>

definition spectrum_store :: "'d civ \<Rightarrow> int \<Rightarrow> int \<Rightarrow> u64 \<Rightarrow> u8 list \<Rightarrow> icom_spectrum_scope_cache
    \<Rightarrow> int \<times> icom_spectrum_scope_cache \<times> bool" where
  "spectrum_store C division max_division len source c =
     (let data_frame_index = (if max_division > 1 then division - 2 else division - 1);
          offset = data_frame_index * single_frame_data_length C;
          total = word_of_int offset + len
      in if len = 0 then (RIG_OK, c, False)
         else if total > word_of_int (spectrum_line_length C) then (- RIG_EPROTO, c, False)
         else if 0 \<le> offset \<and> offset + uint len \<le> spectrum_line_length C
         then (RIG_OK, c\<lparr>spectrum_data := take (nat offset) (spectrum_data c) @ octets source 0 (unat len)
                            @ drop (nat offset + unat len) (spectrum_data c),
                         spectrum_data_length := total\<rparr>, False)
         else (RIG_OK, c\<lparr>spectrum_data_length := total\<rparr>, True))"

definition spectrum_begin :: "'d civ \<Rightarrow> u8 list \<Rightarrow> icom_spectrum_scope_cache
    \<Rightarrow> icom_spectrum_scope_cache + icom_spectrum_scope_cache" where
  "spectrum_begin C fd c = (case spectrum_header fd c of
     None \<Rightarrow> Inl (c\<lparr>spectrum_mode := RIG_SPECTRUM_MODE_NONE\<rparr>)
   | Some c' \<Rightarrow> Inr (c'\<lparr>spectrum_data := replicate (nat (spectrum_line_length C)) 0,
                       spectrum_data_length := 0, spectrum_metadata_valid := True\<rparr>))"

text \<open>A frame of \<open>n\<close> octets of spectrum data. A line that is complete fires an event and starts anew.\<close>

definition scope_step ::
  "'d civ \<Rightarrow> u64 \<Rightarrow> u8 list \<Rightarrow> icom_spectrum_scope_cache \<Rightarrow> int \<times> icom_spectrum_scope_cache \<times> bool" where
  "scope_step C n fd c =
     (let division = int (bcd_at fd 1 1); max_division = int (bcd_at fd 2 1);
          started = (if division = 1 then spectrum_begin C fd c else Inr c);
          skip = (if division = 1 then 15 else 3 :: nat)
      in case started of
          Inl c' \<Rightarrow> (- RIG_EPROTO, c', False)
        | Inr c1 \<Rightarrow>
            (let (rc, c2, bad) = spectrum_store C division max_division (n - of_nat skip) (drop skip fd) c1
             in if rc \<noteq> RIG_OK then (rc, c2, bad)
                else (RIG_OK, c2\<lparr>spectrum_metadata_valid :=
                        spectrum_metadata_valid c2 \<and> division \<noteq> max_division\<rparr>, bad)))"

definition icom_parse_spectrum_frame :: "'d civ \<Rightarrow> u64 \<Rightarrow> u8 list \<Rightarrow> ('d icom_rig, int) state" where
  "icom_parse_spectrum_frame C n frame_data = do {
     rig \<leftarrow> gets id;
     let spectrum_id = unat (octet frame_data 0);
     if length (scopes (priv rig)) \<le> spectrum_id then State_Monad.return (- RIG_EPROTO)
     else do {
       let (rc, c, bad) = scope_step C n frame_data (scopes (priv rig) ! spectrum_id);
       _ \<leftarrow> upd_icom (\<lambda>p. p\<lparr>scopes := (scopes p)[spectrum_id := c]\<rparr>);
       _ \<leftarrow> do_when bad run_over;
       State_Monad.return rc
     }
   }"

subsection \<open>What the radio sends by itself: icom.c\<close>

definition icom_is_async_frame :: "u8 list \<Rightarrow> bool" where
  "icom_is_async_frame frame \<longleftrightarrow> ACKFRMLEN \<le> length frame
     \<and> (octet frame 2 = BCASTID
        \<or> octet frame 2 = CTRLID \<and> octet frame 4 = C_CTL_SCP \<and> octet frame 5 = S_SCP_DAT)"

definition icom_process_async_frame :: "'d civ \<Rightarrow> u8 list \<Rightarrow> ('d icom_rig, int) state" where
  "icom_process_async_frame C frame =
     (if octet frame 4 = C_SND_FREQ then do {
        mode731 \<leftarrow> gets (\<lambda>rig. civ_731_mode (priv rig));
        _ \<leftarrow> rig_fire_freq_event RIG_VFO_CURR (real (bcd_at frame 5 (if mode731 then 4 else 5)));
        _ \<leftarrow> modify (\<lambda>rig. rig\<lparr>use_cached_freq := True\<rparr>);
        State_Monad.return RIG_OK
      }
      else if octet frame 4 = C_SND_MODE then do {
        (mode, width) \<leftarrow> gets (\<lambda>rig. icom2rig_mode (civ_model C) rig (octet frame 5) (uint (octet frame 6)));
        _ \<leftarrow> rig_fire_mode_event RIG_VFO_CURR mode width;
        _ \<leftarrow> modify (\<lambda>rig. rig\<lparr>use_cached_mode := True\<rparr>);
        State_Monad.return RIG_OK
      }
      else if octet frame 4 = C_CTL_SCP then do {
        _ \<leftarrow> (if octet frame 5 = S_SCP_DAT
            then icom_parse_spectrum_frame C (of_nat (length frame) - 7) (drop 6 frame)
            else State_Monad.return RIG_OK);
        State_Monad.return RIG_OK
      }
      else State_Monad.return (- RIG_ENIMPL))"

text \<open>The event handler, called when data arrives while nobody waits for it.\<close>

definition icom_decode_event :: "'d civ \<Rightarrow> ('d icom_rig, int) state" where
  "icom_decode_event C = do {
     (frm_len, buf) \<leftarrow> read_icom_frame C MAXFRAMELEN;
     if frm_len = - RIG_ETIMEOUT then State_Monad.return (- RIG_ETIMEOUT)
     else if frm_len < 1 then State_Monad.return RIG_OK
     else do {
       let (retval, frame) = icom_frame_fix_preamble buf;
       if retval < 0 then State_Monad.return retval
       else if last frame = COL then State_Monad.return (- RIG_BUSBUSY)
       else if last frame \<noteq> FI then State_Monad.return (- RIG_EPROTO)
       else icom_process_async_frame C frame
     }
   }"

subsection \<open>One transaction: frame.c\<close>

text \<open>
  The loop that drops the wake-up octets before an echo, \<^verbatim>\<open>while (buf[2] == 0xfe) memmove(buf,
  &buf[1], frm_len--)\<close>: \<open>None\<close> when the length of the move has gone below zero.
\<close>

fun strip_wakeup :: "nat \<Rightarrow> u8 list \<Rightarrow> (nat \<times> u8 list) option" where
  "strip_wakeup 0 buf = (if octet buf 2 \<noteq> PR then Some (0, buf) else None)"
| "strip_wakeup (Suc n) buf =
     (if octet buf 2 \<noteq> PR then Some (Suc n, buf)
      else strip_wakeup n (octets buf 1 (Suc n) @ drop (Suc n) buf))"

text \<open>What the echo says; \<open>None\<close>: the loop left the buffer.\<close>

definition check_echo :: "u8 \<Rightarrow> u8 list \<Rightarrow> u8 list \<Rightarrow> int option" where
  "check_echo cmd sendbuf buf =
     (case (if length buf \<noteq> length sendbuf \<and> cmd = C_SET_PWR then strip_wakeup (length sendbuf) buf
            else Some (length sendbuf, buf)) of
        None \<Rightarrow> None
      | Some (frm_len, buf') \<Rightarrow> Some
          (if octet buf' (length buf - 1) = COL then - RIG_BUSBUSY
           else if octet buf' (length buf - 1) \<noteq> FI then - RIG_BUSERROR
           else if length buf \<noteq> frm_len then - RIG_EPROTO
           else if take frm_len buf' \<noteq> take frm_len sendbuf then - RIG_EPROTO
           else RIG_OK))"

definition read_echo :: "'d civ \<Rightarrow> u8 \<Rightarrow> u8 list \<Rightarrow> ('d icom_rig, int) state" where
  "read_echo C cmd sendbuf = do {
     (retval, buf) \<leftarrow> read_icom_frame C MAXFRAMELEN;
     if retval = - RIG_ETIMEOUT \<or> retval = 0 then State_Monad.return (- RIG_BUSERROR)
     else if retval < 0 then State_Monad.return retval
     else case check_echo cmd sendbuf buf of
         Some rc \<Rightarrow> State_Monad.return rc
       | None \<Rightarrow> do { _ \<leftarrow> run_over; State_Monad.return (- RIG_EPROTO) }
   }"

text \<open>The tests on a reply, its preamble already repaired.\<close>

definition classify_reply :: "u8 list \<Rightarrow> int" where
  "classify_reply buf =
     (if last buf = COL then - RIG_BUSBUSY
      else if last buf = NAK then - RIG_ERJCTED
      else if last buf \<noteq> FI then - RIG_EPROTO
      else if length buf < ACKFRMLEN then - RIG_EPROTO
      else if length buf = 6 \<and> NAK = buf ! (length buf - 2) then - RIG_ERJCTED
      else RIG_OK)"

text \<open>
  Waiting for the reply, from \<^verbatim>\<open>read_another_frame\<close> on. Frames that are no reply are processed and
  the next one is read, as long as the timeout has not passed.
\<close>

lemma on_port_run:
  "run_state (on_port f) rig = (fst (f (rigport (priv rig))),
     rig\<lparr>priv := (priv rig)\<lparr>rigport := snd (f (rigport (priv rig)))\<rparr>\<rparr>)"
  by (simp add: on_port_def case_prod_beta)

lemma run_upd_icom [simp]: "run_state (upd_icom f) rig = ((), rig\<lparr>priv := f (priv rig)\<rparr>)"
  by (simp add: upd_icom_def)

text \<open>What the rest of the handle sees of the line: nothing.\<close>

definition line_of :: "'d icom_rig \<Rightarrow> 'd line" where
  "line_of rig = rigport (priv rig)"

lemma set_cache_keeps_priv:
  "priv (snd (run_state (rig_set_cache_freq v f) rig)) = priv rig"
  "priv (snd (run_state (rig_set_cache_mode v m w) rig)) = priv rig"
  by (auto simp: rig_set_cache_freq_def rig_set_cache_mode_def on_cache_def Let_def split: option.split)

lemma incoming_process_async:
  "incoming (line_of (snd (run_state (icom_process_async_frame C frame) rig))) = incoming (line_of rig)"
  by (auto simp: icom_process_async_frame_def rig_fire_freq_event_def rig_fire_mode_event_def
      icom_parse_spectrum_frame_def run_over_def on_port_run line_of_def case_prod_beta
      set_cache_keeps_priv Let_def run_state_bind)

lemma read_icom_frame_loop_length:
  "read_icom_frame_loop m direct retries got l = ((n, w), l') \<Longrightarrow>
   length w + length (incoming l') \<le> length got + length (incoming l) \<and> (0 \<le> n \<longrightarrow> n = int (length w))"
proof (induction m direct retries got l arbitrary: n w l' rule: read_icom_frame_loop.induct)
  case (1 m direct retries got l)
  obtain r l1 where r: "read_string_generic (MAXFRAMELEN - length got) [FI, COL] 1 direct l = (r, l1)"
    by (metis surj_pair)
  note len = read_string_generic_consumes [OF r]
  show ?case
  proof (cases "\<not> fst r < 0 \<and> \<not> (fst r = 0 \<and> retries \<le> 1)
      \<and> length (got @ snd r) < m \<and> (got @ snd r = [] \<or> last (got @ snd r) \<notin> {FI, COL})")
    case True
    then have "read_icom_frame_loop m direct (if fst r = 0 then retries - 1 else retries) (got @ snd r) l1
        = ((n, w), l')"
      using 1(2) by (subst (asm) read_icom_frame_loop.simps) (auto simp: r Let_def)
    then have "length w + length (incoming l') \<le> length (got @ snd r) + length (incoming l1)
        \<and> (0 \<le> n \<longrightarrow> n = int (length w))"
      using True r by (intro 1(1)) auto
    then show ?thesis using len by auto
  next
    case False
    then show ?thesis
      using 1(2) len by (subst (asm) read_icom_frame_loop.simps) (auto simp: r Let_def split: if_splits)
  qed
qed

lemma read_icom_frame_length:
  assumes "run_state (read_icom_frame C m) rig = ((n, w), rig')" and "0 \<le> n"
  shows "n = int (length w)" "length w + length (incoming (line_of rig')) \<le> length (incoming (line_of rig))"
proof -
  let ?l = "rigport (priv rig)"
  have "read_icom_frame_loop m (\<not> line_async ?l) 10 [] (?l\<lparr>overrun := overrun ?l \<or> m < MAXFRAMELEN\<rparr>)
      = ((n, w), line_of rig')"
    using assms(1) by (auto simp: read_icom_frame_def on_port_run line_of_def read_icom_frame_generic_def prod_eq_iff)
  from read_icom_frame_loop_length [OF this] assms(2)
  show "n = int (length w)" "length w + length (incoming (line_of rig')) \<le> length (incoming (line_of rig))"
    by (simp_all add: line_of_def)
qed

function await_reply :: "'d civ \<Rightarrow> timespec \<Rightarrow> 'd icom_rig \<Rightarrow> (int \<times> u8 list) \<times> 'd icom_rig" where
  "await_reply C start rig =
     (let (r, rig1) = run_state (read_icom_frame C MAXFRAMELEN) rig;
          (retval, buf) = icom_frame_fix_preamble (snd r);
          rig2 = snd (run_state (icom_process_async_frame C buf) rig1)
      in if fst r < 0 then ((fst r, []), rig1)
         else if fst r < 1 then ((- RIG_EPROTO, []), rig1)
         else if retval < 0 then ((retval, []), rig1)
         else if classify_reply buf \<noteq> RIG_OK then ((classify_reply buf, []), rig1)
         else if icom_is_async_frame buf
         then if elapsed_nsec start (now rig2) div 1000000 > rigport_timeout (priv rig2)
              then ((- RIG_ETIMEOUT, []), rig2)
              else await_reply C start rig2
         else ((RIG_OK, octets buf 4 (length buf - (ACKFRMLEN - 1))), rig1))"
  by pat_completeness auto

termination await_reply
proof (relation "measure (\<lambda>(C, start, rig). length (incoming (line_of rig)))", goal_cases)
  case (2 C start rig x r rig1 y retval buf rig2)
  obtain n w where nw: "r = (n, w)" by force
  with 2 have run: "run_state (read_icom_frame C MAXFRAMELEN) rig = ((n, w), rig1)" by simp
  have "0 \<le> n" "\<not> n < 1" using 2 nw by simp_all
  with read_icom_frame_length [OF run] have "length (incoming (line_of rig1)) < length (incoming (line_of rig))"
    by (auto simp: neq_Nil_conv)
  with 2 show ?case by (simp add: incoming_process_async)
qed simp

declare await_reply.simps [simp del]

text \<open>\<open>wanted\<close>: whether the caller passes a place for the reply.\<close>

definition icom_one_transaction ::
  "'d civ \<Rightarrow> u8 \<Rightarrow> int \<Rightarrow> u8 list \<Rightarrow> bool \<Rightarrow> ('d icom_rig, int \<times> u8 list) state" where
  "icom_one_transaction C cmd subcmd payload wanted = do {
     rig \<leftarrow> gets id;
     let ctrl_id = (if \<not> serial_full_duplex C then CTRLID else 0x80);
     let sendbuf = make_cmd_frame (re_civ_addr (priv rig)) ctrl_id cmd subcmd payload;
     _ \<leftarrow> do_when (MAXFRAMELEN < length sendbuf) run_over;
     _ \<leftarrow> on_port serial_flush;
     retval \<leftarrow> on_port (write_block (radio C) sendbuf);
     if retval \<noteq> RIG_OK then State_Monad.return (retval, [])
     else do {
       rc \<leftarrow> (if \<not> serial_full_duplex C \<and> \<not> serial_USB_echo_off (priv rig)
             then read_echo C cmd sendbuf else State_Monad.return RIG_OK);
       if rc \<noteq> RIG_OK then State_Monad.return (rc, [])
       else if \<not> wanted then State_Monad.return (RIG_OK, [])
       else do {
         start \<leftarrow> gets now;
         State (await_reply C start)
       }
     }
   }"

fun icom_tries ::
  "'d civ \<Rightarrow> ('d icom_rig, int \<times> u8 list) state \<Rightarrow> nat \<Rightarrow> ('d icom_rig, int \<times> u8 list) state" where
  "icom_tries C one 0 = do {
     r \<leftarrow> one;
     _ \<leftarrow> do_when (fst r \<notin> {RIG_OK, - RIG_ERJCTED}) (pause_for C (100 * 1000));
     State_Monad.return r
   }"
| "icom_tries C one (Suc retry) = do {
     r \<leftarrow> one;
     if fst r \<in> {RIG_OK, - RIG_ERJCTED} then State_Monad.return r
     else do { _ \<leftarrow> pause_for C (100 * 1000); icom_tries C one retry }
   }"

definition icom_transaction ::
  "'d civ \<Rightarrow> u8 \<Rightarrow> int \<Rightarrow> u8 list \<Rightarrow> bool \<Rightarrow> ('d icom_rig, int \<times> u8 list) state" where
  "icom_transaction C cmd subcmd payload wanted = do {
     retry \<leftarrow> gets (\<lambda>rig. rigport_retry (priv rig));
     icom_tries C (icom_one_transaction C cmd subcmd payload wanted) (nat retry)
   }"

subsection \<open>Frames that arrive\<close>

text \<open>The handles that differ only in the line and the clock.\<close>

definition only_line :: "'d icom_rig \<Rightarrow> 'd icom_rig \<Rightarrow> bool" where
  "only_line rig rig' \<longleftrightarrow> (\<exists>l t. rig' = rig\<lparr>now := t, priv := (priv rig)\<lparr>rigport := l\<rparr>\<rparr>)"

lemma only_line_refl [simp]: "only_line rig rig"
proof -
  have "rig = rig\<lparr>now := now rig, priv := (priv rig)\<lparr>rigport := rigport (priv rig)\<rparr>\<rparr>" by simp
  then show ?thesis unfolding only_line_def by blast
qed

lemma only_line_trans [trans]: "only_line a b \<Longrightarrow> only_line b c \<Longrightarrow> only_line a c"
  by (force simp: only_line_def)

lemma only_line_updates [simp]:
  "only_line rig (rig\<lparr>now := t\<rparr>)" "only_line rig (rig\<lparr>priv := (priv rig)\<lparr>rigport := l\<rparr>\<rparr>)"
  "only_line rig (rig\<lparr>now := t, priv := (priv rig)\<lparr>rigport := l\<rparr>\<rparr>)"
  "only_line rig (rig\<lparr>priv := (priv rig)\<lparr>rigport := l\<rparr>, now := t\<rparr>)"
proof -
  have "rig\<lparr>now := t\<rparr> = rig\<lparr>now := t, priv := (priv rig)\<lparr>rigport := rigport (priv rig)\<rparr>\<rparr>"
    "rig\<lparr>priv := (priv rig)\<lparr>rigport := l\<rparr>\<rparr> = rig\<lparr>now := now rig, priv := (priv rig)\<lparr>rigport := l\<rparr>\<rparr>"
    "rig\<lparr>priv := (priv rig)\<lparr>rigport := l\<rparr>, now := t\<rparr> = rig\<lparr>now := t, priv := (priv rig)\<lparr>rigport := l\<rparr>\<rparr>"
    by simp_all
  then show "only_line rig (rig\<lparr>now := t\<rparr>)" "only_line rig (rig\<lparr>priv := (priv rig)\<lparr>rigport := l\<rparr>\<rparr>)"
    "only_line rig (rig\<lparr>now := t, priv := (priv rig)\<lparr>rigport := l\<rparr>\<rparr>)"
    "only_line rig (rig\<lparr>priv := (priv rig)\<lparr>rigport := l\<rparr>, now := t\<rparr>)"
    unfolding only_line_def by blast+
qed

text \<open>A whole frame, as it stands on the line.\<close>

definition whole_frame :: "u8 list \<Rightarrow> bool" where
  "whole_frame f \<longleftrightarrow> f \<noteq> [] \<and> hd f \<noteq> 0x5c \<and> last f \<in> {FI, COL} \<and> set (butlast f) \<inter> {FI, COL} = {}
     \<and> length f < MAXFRAMELEN"

lemma read_whole_frame_into:
  assumes "whole_frame f" and "incoming l = map Octet f @ t" and "usable l"
  shows "\<exists>l'. read_icom_frame_generic m (\<not> line_async l) l = ((int (length f), f), l')
    \<and> incoming l' = t \<and> same_port l l' \<and> overrun l' = (overrun l \<or> m < MAXFRAMELEN)"
proof -
  let ?l = "l\<lparr>overrun := overrun l \<or> m < MAXFRAMELEN\<rparr>"
  have l: "incoming ?l = map Octet f @ t" "usable ?l" using assms(2,3) by (simp_all add: usable_def)
  let ?r = "read_string MAXFRAMELEN [FI, COL] 1 ?l"
  have "last f \<in> set f \<inter> set [FI, COL]" using assms(1) by (simp add: whole_frame_def)
  then have stop: "set f \<inter> set [FI, COL] \<noteq> {}" by blast
  have f: "string_limit MAXFRAMELEN f = 199" "take 199 f = f" "up_to_stop [FI, COL] f = f"
    "f \<noteq> []" "length f < 200"
    using assms(1)
    by (auto simp: whole_frame_def string_limit_def MAXFRAMELEN_def up_to_stop_whole)
  have r: "fst ?r = (int (length f), f)" "incoming (snd ?r) = t" "overrun (snd ?r) = overrun ?l" "same_port ?l (snd ?r)"
    using read_string_stopped [OF l(1) _ _ _ refl _ refl, of MAXFRAMELEN "[FI, COL]"] l(2) f stop
    by (auto simp: usable_def MAXFRAMELEN_def)
  have "read_string_generic (MAXFRAMELEN - length []) [FI, COL] 1 (\<not> line_async l) ?l = ?r"
    by (simp add: read_string_def)
  then have "read_icom_frame_loop m (\<not> line_async l) 10 [] ?l = ((int (length f), f), snd ?r)"
    using r(1) f(4) assms(1)
    by (subst read_icom_frame_loop.simps) (auto simp: case_prod_beta Let_def whole_frame_def)
  moreover have "same_port l (snd ?r)"
    using r(4) by (simp add: same_port_eq)
  ultimately show ?thesis
    using r by (intro exI [of _ "snd ?r"]) (simp add: read_icom_frame_generic_def)
qed

lemma run_read_frame_into:
  assumes "whole_frame f" and "incoming (line_of rig) = map Octet f @ t" and "usable (line_of rig)"
  shows "\<exists>rig'. run_state (read_icom_frame C m) rig = ((int (length f), f), rig')
    \<and> only_line rig rig' \<and> incoming (line_of rig') = t \<and> same_port (line_of rig) (line_of rig')
    \<and> overrun (line_of rig') = (overrun (line_of rig) \<or> m < MAXFRAMELEN)"
proof -
  obtain l' where l': "read_icom_frame_generic m (\<not> line_async (line_of rig)) (line_of rig)
      = ((int (length f), f), l')" "incoming l' = t" "same_port (line_of rig) l'"
    "overrun l' = (overrun (line_of rig) \<or> m < MAXFRAMELEN)"
    using read_whole_frame_into [OF assms] by blast
  then show ?thesis
    by (auto simp: read_icom_frame_def on_port_run line_of_def)
qed

lemmas run_read_frame = run_read_frame_into [where m = MAXFRAMELEN, simplified]

subsection \<open>A transaction step by step\<close>

definition command :: "'d civ \<Rightarrow> 'd icom_rig \<Rightarrow> u8 \<Rightarrow> int \<Rightarrow> u8 list \<Rightarrow> u8 list" where
  "command C rig cmd subcmd payload = make_cmd_frame (re_civ_addr (priv rig))
     (if \<not> serial_full_duplex C then CTRLID else 0x80) cmd subcmd payload"

text \<open>The rest of a transaction, once the command is written.\<close>

definition after_write ::
  "'d civ \<Rightarrow> u8 \<Rightarrow> u8 list \<Rightarrow> bool \<Rightarrow> bool \<Rightarrow> ('d icom_rig, int \<times> u8 list) state" where
  "after_write C cmd sendbuf echo wanted = do {
     rc \<leftarrow> (if echo then read_echo C cmd sendbuf else State_Monad.return RIG_OK);
     if rc \<noteq> RIG_OK then State_Monad.return (rc, [])
     else if \<not> wanted then State_Monad.return (RIG_OK, [])
     else do { start \<leftarrow> gets now; State (await_reply C start) }
   }"

lemma run_one_transaction:
  assumes "usable (line_of rig)" and "stale (line_of rig)"
    and "length (command C rig cmd subcmd payload) \<le> MAXFRAMELEN"
  shows "\<exists>rig'. run_state (icom_one_transaction C cmd subcmd payload wanted) rig
      = run_state (after_write C cmd (command C rig cmd subcmd payload)
          (\<not> serial_full_duplex C \<and> \<not> serial_USB_echo_off (priv rig)) wanted) rig'
    \<and> only_line rig rig' \<and> heard (radio C) (command C rig cmd subcmd payload) (line_of rig) (line_of rig')"
proof -
  let ?cmd = "command C rig cmd subcmd payload"
  obtain l1 l' where l': "serial_flush (line_of rig) = (RIG_OK, l1)"
    "write_block (radio C) ?cmd l1 = (RIG_OK, l')" "heard (radio C) ?cmd (line_of rig) l'"
    using flush_write [OF assms(1,2)] by blast
  have "run_state (icom_one_transaction C cmd subcmd payload wanted) rig
      = run_state (after_write C cmd ?cmd (\<not> serial_full_duplex C \<and> \<not> serial_USB_echo_off (priv rig)) wanted)
          (rig\<lparr>priv := (priv rig)\<lparr>rigport := l'\<rparr>\<rparr>)"
    using assms(3) l'(1,2)
    by (simp add: icom_one_transaction_def after_write_def command_def on_port_run run_state_bind line_of_def Let_def)
  then show ?thesis
    using l'(3) by (intro exI [of _ "rig\<lparr>priv := (priv rig)\<lparr>rigport := l'\<rparr>\<rparr>"]) (simp add: line_of_def)
qed

text \<open>A reply that delivers \<open>data\<close>, and one that rejects.\<close>

definition reply_frame :: "u8 \<Rightarrow> u8 \<Rightarrow> u8 list \<Rightarrow> u8 list" where
  "reply_frame to_id from_id data = [PR, PR, to_id, from_id] @ data @ [FI]"

text \<open>No transceive frame, nor a spectrum frame; and no end mark inside.\<close>

definition proper_reply :: "u8 \<Rightarrow> u8 \<Rightarrow> u8 list \<Rightarrow> bool" where
  "proper_reply to_id from_id data \<longleftrightarrow> {FI, COL} \<inter> set (to_id # from_id # data) = {} \<and> data \<noteq> []
     \<and> length data < MAXFRAMELEN - 5 \<and> to_id \<noteq> BCASTID
     \<and> \<not> (to_id = CTRLID \<and> octet data 0 = C_CTL_SCP \<and> octet data 1 = S_SCP_DAT)"

lemma reply_whole: "proper_reply a b data \<Longrightarrow> whole_frame (reply_frame a b data)"
  by (auto simp: proper_reply_def whole_frame_def reply_frame_def civ_defs MAXFRAMELEN_def butlast_append)

lemma octet_nth [simp]: "i < length f \<Longrightarrow> octet f i = f ! i"
  by (simp add: octet_def)

lemma octets_append: "octets (a @ b @ c) (length a) (length b) = b"
  by (rule nth_equalityI) (auto simp: octets_def octet_def nth_append)

lemma reply_fields:
  "icom_frame_fix_preamble (reply_frame a b data) = (int (length data) + 5, reply_frame a b data)"
  "octets (reply_frame a b data) 4 (length data) = data"
  "last (reply_frame a b data) = FI" "length (reply_frame a b data) = length data + 5"
  using octets_append [of "[PR, PR, a, b]" data "[FI]"]
  by (simp_all add: reply_frame_def icom_frame_fix_preamble_def octet_def numeral_eq_Suc)

lemma reply_not_async: "proper_reply a b data \<Longrightarrow> \<not> icom_is_async_frame (reply_frame a b data)"
  by (cases data; cases "tl data")
    (auto simp: icom_is_async_frame_def proper_reply_def reply_frame_def octet_def civ_defs nth_Cons')

lemma classify_reply_frame:
  "proper_reply a b data \<Longrightarrow>
   classify_reply (reply_frame a b data) = (if data = [NAK] then - RIG_ERJCTED else RIG_OK)"
  by (cases data; cases "tl data")
    (auto simp: classify_reply_def proper_reply_def reply_frame_def ACKFRMLEN_def civ_defs)

lemma await_proper_reply:
  assumes "proper_reply a b data" and "usable (line_of rig)"
    and "incoming (line_of rig) = map Octet (reply_frame a b data) @ t"
  shows "\<exists>rig'. await_reply C start rig
      = ((if data = [NAK] then (- RIG_ERJCTED, []) else (RIG_OK, data)), rig')
    \<and> only_line rig rig' \<and> consumed (line_of rig) t (line_of rig')"
proof -
  obtain rig' where *: "run_state (read_icom_frame C MAXFRAMELEN) rig
      = ((int (length (reply_frame a b data)), reply_frame a b data), rig')"
    "only_line rig rig'" "consumed (line_of rig) t (line_of rig')"
    using run_read_frame [OF reply_whole [OF assms(1)] assms(3,2)] unfolding consumed_def by blast
  have "await_reply C start rig = ((if data = [NAK] then (- RIG_ERJCTED, []) else (RIG_OK, data)), rig')"
    using reply_not_async [OF assms(1)] classify_reply_frame [OF assms(1)]
    by (subst await_reply.simps) (simp add: * reply_fields Let_def RIG_ERJCTED_def RIG_OK_def ACKFRMLEN_def)
  with * show ?thesis by blast
qed

lemma read_echo_same:
  assumes "whole_frame sendbuf" and "last sendbuf = FI" and "usable (line_of rig)"
    and "incoming (line_of rig) = map Octet sendbuf @ t"
  shows "\<exists>rig'. run_state (read_echo C cmd sendbuf) rig = (RIG_OK, rig')
    \<and> only_line rig rig' \<and> consumed (line_of rig) t (line_of rig')"
proof -
  obtain rig' where *: "run_state (read_icom_frame C MAXFRAMELEN) rig = ((int (length sendbuf), sendbuf), rig')"
    "only_line rig rig'" "consumed (line_of rig) t (line_of rig')"
    using run_read_frame [OF assms(1,4,3)] unfolding consumed_def by blast
  have "check_echo cmd sendbuf sendbuf = Some RIG_OK" "sendbuf \<noteq> []"
    using assms(1,2) by (auto simp: check_echo_def whole_frame_def civ_defs last_conv_nth)
  then show ?thesis
    using * by (auto simp: read_echo_def run_state_bind RIG_ETIMEOUT_def)
qed

text \<open>The echo that comes before the reply, when the line has one.\<close>

definition echo_of :: "'d civ \<Rightarrow> 'd icom_rig \<Rightarrow> u8 list \<Rightarrow> u8 list" where
  "echo_of C rig sendbuf =
     (if \<not> serial_full_duplex C \<and> \<not> serial_USB_echo_off (priv rig) then sendbuf else [])"

lemma transaction_delivers:
  assumes "usable (line_of rig)" and "stale (line_of rig)"
    and "sendbuf = command C rig cmd subcmd payload" and "whole_frame sendbuf"
    and "reply_of (radio C) sendbuf (device (line_of rig))
      = (map Octet (echo_of C rig sendbuf @ reply_frame a b data) @ t, d')"
    and "proper_reply a b data"
  shows "\<exists>rig'. run_state (icom_one_transaction C cmd subcmd payload True) rig
      = ((if data = [NAK] then (- RIG_ERJCTED, []) else (RIG_OK, data)), rig')
    \<and> only_line rig rig' \<and> incoming (line_of rig') = t \<and> device (line_of rig') = d'
    \<and> usable (line_of rig') \<and> overrun (line_of rig') = overrun (line_of rig)"
proof -
  let ?echo = "\<not> serial_full_duplex C \<and> \<not> serial_USB_echo_off (priv rig)"
  have len: "length sendbuf \<le> MAXFRAMELEN" using assms(4) by (simp add: whole_frame_def)
  obtain r1 where r1: "run_state (icom_one_transaction C cmd subcmd payload True) rig
      = run_state (after_write C cmd sendbuf ?echo True) r1" "only_line rig r1"
    "heard (radio C) sendbuf (line_of rig) (line_of r1)"
    using run_one_transaction [OF assms(1,2) len [unfolded assms(3)]] assms(3) by metis
  have l1: "incoming (line_of r1) = map Octet (echo_of C rig sendbuf @ reply_frame a b data) @ t"
    "device (line_of r1) = d'" "usable (line_of r1)" "overrun (line_of r1) = overrun (line_of rig)"
    using r1(3) assms(5) by (simp_all add: heard_def)
  have "\<exists>r2. run_state (if ?echo then read_echo C cmd sendbuf else State_Monad.return RIG_OK) r1 = (RIG_OK, r2)
      \<and> only_line r1 r2 \<and> consumed (line_of r1) (map Octet (reply_frame a b data) @ t) (line_of r2)"
  proof (cases ?echo)
    case True
    then have inc: "incoming (line_of r1) = map Octet sendbuf @ map Octet (reply_frame a b data) @ t"
      using l1(1) by (simp add: echo_of_def)
    have "last sendbuf = FI" using assms(3) by (simp add: command_def make_cmd_frame_def)
    with read_echo_same [OF assms(4) _ l1(3) inc] True show ?thesis by simp
  qed (use l1(1) in \<open>auto simp: echo_of_def consumed_def\<close>)
  then obtain r2 where r2:
    "run_state (if ?echo then read_echo C cmd sendbuf else State_Monad.return RIG_OK) r1 = (RIG_OK, r2)"
    "only_line r1 r2" "consumed (line_of r1) (map Octet (reply_frame a b data) @ t) (line_of r2)" by blast
  then have u2: "usable (line_of r2)" "incoming (line_of r2) = map Octet (reply_frame a b data) @ t"
    using l1(3) same_port_usable by (auto simp: consumed_def)
  obtain r3 where r3: "await_reply C (now r2) r2
      = ((if data = [NAK] then (- RIG_ERJCTED, []) else (RIG_OK, data)), r3)"
    "only_line r2 r3" "consumed (line_of r2) t (line_of r3)"
    using await_proper_reply [OF assms(6) u2] by blast
  have "run_state (icom_one_transaction C cmd subcmd payload True) rig
      = ((if data = [NAK] then (- RIG_ERJCTED, []) else (RIG_OK, data)), r3)"
    using r1(1) r2(1) r3(1) by (simp add: after_write_def run_state_bind)
  moreover have "only_line rig r3" using r1(2) r2(2) r3(2) by (blast intro: only_line_trans)
  ultimately show ?thesis
    using r2(3) r3(3) l1 u2(1) same_port_usable by (auto simp: consumed_def same_port_eq)
qed

lemma line_of_only: "only_line rig rig' \<Longrightarrow> re_civ_addr (priv rig') = re_civ_addr (priv rig)
    \<and> serial_USB_echo_off (priv rig') = serial_USB_echo_off (priv rig)
    \<and> rigport_retry (priv rig') = rigport_retry (priv rig)"
  by (auto simp: only_line_def)

text \<open>One answered attempt is the whole transaction.\<close>

lemma tries_once:
  "run_state one rig = ((rc, data), rig') \<Longrightarrow> rc \<in> {RIG_OK, - RIG_ERJCTED} \<Longrightarrow>
   run_state (icom_tries C one n) rig = ((rc, data), rig')"
  by (cases n) (auto simp: run_state_bind)

lemma full_transaction_delivers:
  assumes "usable (line_of rig)" and "stale (line_of rig)"
    and "sendbuf = command C rig cmd subcmd payload" and "whole_frame sendbuf"
    and "reply_of (radio C) sendbuf (device (line_of rig))
      = (map Octet (echo_of C rig sendbuf @ reply_frame a b data) @ t, d')"
    and "proper_reply a b data"
  shows "\<exists>rig'. run_state (icom_transaction C cmd subcmd payload True) rig
      = ((if data = [NAK] then (- RIG_ERJCTED, []) else (RIG_OK, data)), rig')
    \<and> only_line rig rig' \<and> incoming (line_of rig') = t \<and> device (line_of rig') = d'
    \<and> usable (line_of rig') \<and> overrun (line_of rig') = overrun (line_of rig)"
  using transaction_delivers [OF assms]
  by (force simp: icom_transaction_def run_state_bind intro: tries_once)

text \<open>C2: a CI-V transaction. The radio gets the command once, in one frame; if it answers with a frame
  of data, after the echo when the line has one, the caller gets exactly the data, from the command octet
  up to the end mark, and what comes after the frame stays on the line. If it answers that the command is no
  good, the caller gets \<^verbatim>\<open>-RIG_ERJCTED\<close> and there is no retry. Octets left over from before do not
  matter, and of the handle only the line and the clock change.\<close>

theorem icom_transaction_delivers:
  assumes "usable (line_of rig)" and "stale (line_of rig)"
    and "sendbuf = command C rig cmd subcmd payload" and "whole_frame sendbuf"
    and "reply_of (radio C) sendbuf (device (line_of rig))
      = (map Octet (echo_of C rig sendbuf @ reply_frame a b data) @ t, d')"
    and "proper_reply a b data"
  shows "\<exists>rig'. run_state (icom_transaction C cmd subcmd payload True) rig
      = ((if data = [NAK] then (- RIG_ERJCTED, []) else (RIG_OK, data)), rig')
    \<and> only_line rig rig' \<and> incoming (line_of rig') = t \<and> device (line_of rig') = d'
    \<and> usable (line_of rig') \<and> overrun (line_of rig') = overrun (line_of rig)"
  using assms by (rule full_transaction_delivers)

subsection \<open>A radio that does not answer\<close>

lemma read_frame_silent:
  assumes "usable (line_of rig)" and "incoming (line_of rig) = []"
  shows "\<exists>rig'. run_state (read_icom_frame C MAXFRAMELEN) rig = ((- RIG_ETIMEOUT, []), rig')
    \<and> only_line rig rig' \<and> consumed (line_of rig) [] (line_of rig')"
proof -
  let ?l = "line_of rig"
  let ?r = "read_string 200 [FI, COL] 1 ?l"
  have r: "fst ?r = (- RIG_ETIMEOUT, [])" "incoming (snd ?r) = []" "overrun (snd ?r) = overrun ?l" "same_port ?l (snd ?r)"
    using read_string_dry [of ?l "[]" "[]" 200 "[FI, COL]"] assms
    by (auto simp: string_limit_def usable_def)
  have "consumed ?l [] (snd ?r)"
    using r by (simp add: consumed_def)
  moreover have "read_icom_frame_generic MAXFRAMELEN (\<not> line_async ?l) ?l = ((- RIG_ETIMEOUT, []), snd ?r)"
    using r by (simp add: read_icom_frame_generic_def read_icom_frame_loop.simps MAXFRAMELEN_def
        read_string_def [symmetric] case_prod_beta Let_def RIG_ETIMEOUT_def)
  ultimately show ?thesis
    by (auto simp: read_icom_frame_def on_port_run line_of_def)
qed

lemma transaction_silent:
  assumes "usable (line_of rig)" and "stale (line_of rig)" and "silent (radio C)"
    and "sendbuf = command C rig cmd subcmd payload" and "length sendbuf \<le> MAXFRAMELEN"
  shows "\<exists>rig'. run_state (icom_one_transaction C cmd subcmd payload True) rig
      = ((if echo_of C rig [PR] = [] then - RIG_ETIMEOUT else - RIG_BUSERROR, []), rig')
    \<and> only_line rig rig' \<and> incoming (line_of rig') = [] \<and> usable (line_of rig')
    \<and> device (line_of rig') = snd (reply_of (radio C) sendbuf (device (line_of rig)))
    \<and> overrun (line_of rig') = overrun (line_of rig)"
proof -
  let ?echo = "\<not> serial_full_duplex C \<and> \<not> serial_USB_echo_off (priv rig)"
  obtain r1 where r1: "run_state (icom_one_transaction C cmd subcmd payload True) rig
      = run_state (after_write C cmd sendbuf ?echo True) r1" "only_line rig r1"
    "heard (radio C) sendbuf (line_of rig) (line_of r1)"
    using run_one_transaction [OF assms(1,2) assms(5) [unfolded assms(4)]] assms(4) by metis
  have u: "usable (line_of r1)" "incoming (line_of r1) = []"
    using r1(3) silent_reply [OF assms(3)] by (simp_all add: heard_def)
  obtain r2 where r2: "run_state (read_icom_frame C MAXFRAMELEN) r1 = ((- RIG_ETIMEOUT, []), r2)"
    "only_line r1 r2" "consumed (line_of r1) [] (line_of r2)" using read_frame_silent [OF u] by blast
  have "run_state (after_write C cmd sendbuf ?echo True) r1
      = ((if echo_of C rig [PR] = [] then - RIG_ETIMEOUT else - RIG_BUSERROR, []), r2)"
    using r2(1) by (auto simp: after_write_def read_echo_def run_state_bind echo_of_def RIG_BUSERROR_def
        RIG_OK_def RIG_ETIMEOUT_def await_reply.simps Let_def case_prod_beta)
  moreover have "only_line rig r2" using r1(2) r2(2) by (rule only_line_trans)
  moreover have "usable (line_of r2)" using r2(3) u(1) same_port_usable by (auto simp: consumed_def)
  ultimately show ?thesis
    using r1(1,3) r2(3) by (auto simp: consumed_def heard_def same_port_eq)
qed

lemma run_pause [simp]: "run_state (pause_for C us) rig = ((), rig\<lparr>now := after_sleep C us (now rig)\<rparr>)"
  by (simp add: pause_for_def)

lemma line_of_now [simp]: "line_of (rig\<lparr>now := t\<rparr>) = line_of rig"
  by (simp add: line_of_def)

lemma command_only: "only_line rig rig' \<Longrightarrow> command C rig' = command C rig \<and> echo_of C rig' = echo_of C rig"
  using line_of_only [of rig rig'] by (auto simp: command_def echo_of_def fun_eq_iff)

lemma tries_silent:
  assumes "usable (line_of rig)" and "stale (line_of rig)" and "silent (radio C)"
    and "sendbuf = command C rig cmd subcmd payload" and "length sendbuf \<le> MAXFRAMELEN"
  shows "\<exists>rig'. run_state (icom_tries C (icom_one_transaction C cmd subcmd payload True) n) rig
      = ((if echo_of C rig [PR] = [] then - RIG_ETIMEOUT else - RIG_BUSERROR, []), rig')
    \<and> only_line rig rig' \<and> device (line_of rig') = hear (radio C) sendbuf (Suc n) (device (line_of rig))
    \<and> overrun (line_of rig') = overrun (line_of rig) \<and> usable (line_of rig') \<and> incoming (line_of rig') = []"
  using assms(1,2,4)
proof (induction n arbitrary: rig)
  case 0
  from transaction_silent [OF 0(1,2) assms(3) 0(3) assms(5)] obtain r1 where r1:
    "run_state (icom_one_transaction C cmd subcmd payload True) rig
      = ((if echo_of C rig [PR] = [] then - RIG_ETIMEOUT else - RIG_BUSERROR, []), r1)" "only_line rig r1"
    "device (line_of r1) = snd (reply_of (radio C) sendbuf (device (line_of rig)))"
    "overrun (line_of r1) = overrun (line_of rig)" "usable (line_of r1)" "incoming (line_of r1) = []" by blast
  then show ?case
    using only_line_trans [OF r1(2) only_line_updates(1)]
    by (auto simp: run_state_bind RIG_OK_def RIG_ETIMEOUT_def RIG_ERJCTED_def RIG_BUSERROR_def)
next
  case (Suc n)
  from transaction_silent [OF Suc(2,3) assms(3) Suc(4) assms(5)] obtain r1 where r1:
    "run_state (icom_one_transaction C cmd subcmd payload True) rig
      = ((if echo_of C rig [PR] = [] then - RIG_ETIMEOUT else - RIG_BUSERROR, []), r1)" "only_line rig r1"
    "device (line_of r1) = snd (reply_of (radio C) sendbuf (device (line_of rig)))" "usable (line_of r1)"
    "incoming (line_of r1) = []" "overrun (line_of r1) = overrun (line_of rig)" by blast
  let ?r = "r1\<lparr>now := after_sleep C (100 * 1000) (now r1)\<rparr>"
  have same: "only_line rig ?r" by (rule only_line_trans [OF r1(2) only_line_updates(1)])
  have "stale (line_of ?r)" using r1(5) by (simp add: stale_def)
  with Suc.IH [of ?r] r1(4) command_only [OF same] Suc(4) obtain r2 where
    "run_state (icom_tries C (icom_one_transaction C cmd subcmd payload True) n) ?r
      = ((if echo_of C rig [PR] = [] then - RIG_ETIMEOUT else - RIG_BUSERROR, []), r2)" "only_line ?r r2"
    "device (line_of r2) = hear (radio C) sendbuf (Suc n) (device (line_of r1))" "overrun (line_of r2) = overrun (line_of r1)"
    "usable (line_of r2)" "incoming (line_of r2) = []"
    by auto
  then show ?case
    using r1(1,3,6) only_line_trans [OF same]
    by (auto simp: run_state_bind RIG_OK_def RIG_ETIMEOUT_def RIG_ERJCTED_def RIG_BUSERROR_def)
qed

text \<open>C3: a radio that is off. The command goes out once and then \<^verbatim>\<open>retry\<close> times more, and the
  caller gets a timeout, or a bus error where the echo of the command is missing too. However long it
  takes, the transaction returns, with no reply.\<close>

theorem icom_transaction_gives_up:
  assumes "usable (line_of rig)" and "stale (line_of rig)" and "silent (radio C)"
    and "sendbuf = command C rig cmd subcmd payload" and "length sendbuf \<le> MAXFRAMELEN"
    and "rigport_retry (priv rig) = int n"
  shows "\<exists>rig'. run_state (icom_transaction C cmd subcmd payload True) rig
      = ((if echo_of C rig [PR] = [] then - RIG_ETIMEOUT else - RIG_BUSERROR, []), rig')
    \<and> only_line rig rig' \<and> device (line_of rig') = hear (radio C) sendbuf (Suc n) (device (line_of rig))
    \<and> overrun (line_of rig') = overrun (line_of rig)"
proof -
  have "run_state (icom_transaction C cmd subcmd payload True) rig
      = run_state (icom_tries C (icom_one_transaction C cmd subcmd payload True) n) rig"
    using assms(6) by (simp add: icom_transaction_def run_state_bind)
  then show ?thesis using tries_silent [OF assms(1-5), of n] by metis
qed

subsection \<open>The echo of a wake-up\<close>

lemma octet_octets [simp]: "octet (octets buf 1 n @ drop n buf) i = (if i < n then octet buf (Suc i) else octet buf i)"
proof (cases n)
  case (Suc m)
  then show ?thesis
    by (auto simp: octets_def octet_def nth_append simp del: upt_Suc)
qed (simp add: octets_def)

lemma strip_wakeup_runs_away:
  "\<forall>i \<le> max n 2. octet buf i = PR \<Longrightarrow> strip_wakeup n buf = None"
proof (induction n arbitrary: buf)
  case (Suc n)
  have "\<forall>i \<le> max n 2. octet (octets buf 1 (Suc n) @ drop (Suc n) buf) i = PR"
    using Suc.prems unfolding octet_octets by auto
  moreover have "octet buf 2 = PR" using Suc.prems by simp
  ultimately show ?case using Suc.IH by (simp del: octet_octets)
qed simp

lemma octets_tl: "n \<le> length xs \<Longrightarrow> octets (x # xs) (Suc 0) n = take n xs"
  by (rule nth_equalityI) (simp_all add: octets_def octet_def del: upt_Suc)

lemma wakeup_step:
  "n \<le> Suc (length xs) \<Longrightarrow> strip_wakeup (Suc n) (PR # PR # PR # xs)
     = strip_wakeup n (take (Suc n) (PR # PR # xs) @ drop (Suc n) (PR # PR # PR # xs))"
  by (simp add: octets_tl octet_def)

lemma wakeup_stop: "re_id \<noteq> PR \<Longrightarrow> strip_wakeup n (PR # PR # re_id # xs) = Some (n, PR # PR # re_id # xs)"
  by (cases n) (simp_all add: octet_def)

lemma wakeup_short:
  assumes "re_id \<noteq> PR" and "k \<in> {1, 2, 3, 4, 5}"
  shows "\<exists>buf. strip_wakeup 7 (replicate k PR @ [PR, PR, re_id, ctrl_id, cmd, s, FI]) = Some (7 - k, buf)
    \<and> octet buf (6 + k) = FI"
  using assms
  by (auto simp: numeral_eq_Suc wakeup_step wakeup_stop octet_def simp del: strip_wakeup.simps)

text \<open>switching a radio on over a line with echo. If wake-up octets come before the echo of the
  command, the transaction cannot succeed. The loop that drops them counts down \<^verbatim>\<open>frm_len\<close>, the
  length of the command, where it should count down the length of what was read: up to five of them,
  the echo then has the wrong length and is a protocol error; from six on the loop finds a wake-up octet
  for ever and moves memory with a negative length.\<close>

theorem wakeup_echo_fails:
  assumes "re_id \<noteq> PR" and "0 < k" and "0 \<le> s" and "s < 256"
    and "sendbuf = make_cmd_frame re_id ctrl_id C_SET_PWR s []"
  shows "check_echo C_SET_PWR sendbuf (replicate k PR @ sendbuf)
    = (if k \<le> 5 then Some (- RIG_EPROTO) else None)"
proof -
  have f: "sendbuf = [PR, PR, re_id, ctrl_id, C_SET_PWR, word_of_int s, FI]"
    using assms(3-5) by (simp add: make_cmd_frame_def subcmd_octet)
  show ?thesis
  proof (cases "k \<le> 5")
    case True
    then have "k \<in> {1, 2, 3, 4, 5}" using assms(2) by auto
    with wakeup_short [OF assms(1) this, of ctrl_id C_SET_PWR "word_of_int s"] obtain buf where
      b: "strip_wakeup 7 (replicate k PR @ sendbuf) = Some (7 - k, buf)" "octet buf (6 + k) = FI"
      unfolding f by blast
    have len: "length sendbuf = 7" by (simp add: f)
    have "octet buf (length (replicate k PR @ sendbuf) - 1) = FI"
      using b(2) by (simp add: len add.commute)
    moreover have "length (replicate k PR @ sendbuf) \<noteq> 7 - k" "length (replicate k PR @ sendbuf) \<noteq> 7"
      using assms(2) by (simp_all add: len)
    ultimately show ?thesis
      using True b(1) assms(2) by (simp add: check_echo_def len civ_defs del: length_append)
  next
    case False
    have "\<forall>i \<le> max (length sendbuf) 2. octet (replicate k PR @ sendbuf) i = PR"
      using False by (auto simp: f octet_def nth_append nth_Cons')
    then have "strip_wakeup (length sendbuf) (replicate k PR @ sendbuf) = None"
      by (rule strip_wakeup_runs_away)
    then show ?thesis using False assms(2) by (simp add: check_echo_def)
  qed
qed

subsection \<open>Spectrum data stay in their buffer\<close>

text \<open>C5: a division of a spectrum line is stored in the line's buffer or refused, and the buffer keeps
  its length, if divisions are counted from one, the first of several carries no data, and the frame is
  not shorter than its header.\<close>

theorem spectrum_in_bounds:
  assumes "0 \<le> single_frame_data_length C" and "single_frame_data_length C < 2 ^ 20"
    and "0 \<le> spectrum_line_length C" and "spectrum_line_length C < 2 ^ 31"
    and "length (spectrum_data c) = nat (spectrum_line_length C)"
    and "1 \<le> division" and "division < 256" and "1 < max_division \<and> division = 1 \<longrightarrow> len = 0"
    and "unat len < 2 ^ 31"
    and "spectrum_store C division max_division len source c = (rc, c', bad)"
  shows "\<not> bad \<and> length (spectrum_data c') = nat (spectrum_line_length C)"
proof (cases "len = 0")
  case True
  then show ?thesis using assms(5,10) by (simp add: spectrum_store_def)
next
  case False
  define k where "k = (if 1 < max_division then division - 2 else division - 1)"
  define off where "off = k * single_frame_data_length C"
  have k: "0 \<le> k" "k < 256" using assms(6-8) False by (auto simp: k_def)
  have "off \<le> 255 * 2 ^ 20"
    using mult_mono [of k 255 "single_frame_data_length C" "2 ^ 20"] k assms(1,2) by (simp add: off_def)
  moreover have off: "0 \<le> off" using k assms(1) by (simp add: off_def)
  moreover have "uint len < 2 ^ 31" using of_nat_less_iff [where 'a = int, THEN iffD2, OF assms(9)] by simp
  ultimately have t: "uint (word_of_int off + len) = off + uint len"
    by (simp add: uint_word_ariths uint_word_of_int)
  have L: "uint (word_of_int (spectrum_line_length C) :: u64) = spectrum_line_length C"
    using assms(3,4) by (simp add: uint_word_of_int)
  have fits: "word_of_int off + len > word_of_int (spectrum_line_length C) \<longleftrightarrow> spectrum_line_length C < off + uint len"
    by (simp add: word_less_def t L)
  have st: "spectrum_store C division max_division len source c =
      (if spectrum_line_length C < off + uint len then (- RIG_EPROTO, c, False)
       else (RIG_OK, c\<lparr>spectrum_data := take (nat off) (spectrum_data c) @ octets source 0 (unat len)
                          @ drop (nat off + unat len) (spectrum_data c),
                       spectrum_data_length := word_of_int off + len\<rparr>, False))"
    unfolding spectrum_store_def Let_def k_def [symmetric] off_def [symmetric] using off False fits by simp
  have "nat off + nat (uint len) = nat (off + uint len)"
    using off by (intro nat_add_distrib [symmetric]) simp_all
  then have "nat off + unat len \<le> nat (spectrum_line_length C)" if "\<not> spectrum_line_length C < off + uint len"
    using that unfolding unat_eq_nat_uint by (metis nat_mono linorder_not_less)
  then show ?thesis
    using st assms(5,10) by (auto simp: octets_def split: if_splits)
qed

text \<open>What the event handler does with a whole frame.\<close>

lemma decode_whole_frame:
  assumes "whole_frame (PR # PR # f)" and "last f = FI" and "f \<noteq> []" and "usable (line_of rig)"
    and "incoming (line_of rig) = map Octet (PR # PR # f) @ t"
  shows "\<exists>rig'. run_state (icom_decode_event C) rig = run_state (icom_process_async_frame C (PR # PR # f)) rig'
    \<and> only_line rig rig' \<and> consumed (line_of rig) t (line_of rig')"
proof -
  obtain rig' where *: "run_state (read_icom_frame C MAXFRAMELEN) rig
      = ((int (length (PR # PR # f)), PR # PR # f), rig')"
    "only_line rig rig'" "consumed (line_of rig) t (line_of rig')"
    using run_read_frame [OF assms(1,5,4)] unfolding consumed_def by blast
  have "run_state (icom_decode_event C) rig = run_state (icom_process_async_frame C (PR # PR # f)) rig'"
    using *(1) assms(2,3)
    by (simp add: icom_decode_event_def run_state_bind fix_preamble_id RIG_ETIMEOUT_def FI_def COL_def)
  with * show ?thesis by blast
qed

lemma bcd_at_octet: "bcd_at buf i 1 = 10 * hi_nib (octet buf i) + lo_nib (octet buf i)"
proof -
  have "octets buf i 1 = [octet buf i]" by (simp add: octets_def)
  then show ?thesis
    by (simp add: bcd_at_def from_bcd_exact eval_nat_numeral digit_le_def)
qed

text \<open>C6: nine octets from the radio that make the library write outside its memory. A spectrum frame
  with a division number after the first and nothing else is shorter than the header it is taken to have;
  the length of its data, one below zero, is a huge \<^verbatim>\<open>size_t\<close>, adding the place in the line makes
  it small again, and it passes the test that guards the copy.\<close>

theorem short_spectrum_frame_overruns:
  assumes "usable (line_of rig)" and "scopes (priv rig) \<noteq> []"
    and "1 \<le> single_frame_data_length C" and "single_frame_data_length C \<le> spectrum_line_length C"
    and "spectrum_line_length C < 2 ^ 31"
    and "incoming (line_of rig)
      = map Octet [PR, PR, CTRLID, re_civ_addr (priv rig), C_CTL_SCP, S_SCP_DAT, 0, 3, FI] @ t"
    and "re_civ_addr (priv rig) \<notin> {FI, COL}"
  shows "\<exists>rig'. run_state (icom_decode_event C) rig = (RIG_OK, rig') \<and> overrun (line_of rig')"
proof -
  let ?f = "[CTRLID, re_civ_addr (priv rig), C_CTL_SCP, S_SCP_DAT, 0, 3, FI]" and ?fd = "[0, 3, FI]"
  let ?n = "single_frame_data_length C" and ?c = "scopes (priv rig) ! 0"
  have whole: "whole_frame (PR # PR # ?f)"
    using assms(7) by (auto simp: whole_frame_def civ_defs MAXFRAMELEN_def)
  have "incoming (line_of rig) = map Octet (PR # PR # ?f) @ t" using assms(6) by simp
  from decode_whole_frame [OF whole _ _ assms(1) this] obtain r where
    r: "run_state (icom_decode_event C) rig = run_state (icom_process_async_frame C (PR # PR # ?f)) r"
    "only_line rig r" by auto
  have sc: "scopes (priv r) = scopes (priv rig)" using r(2) by (auto simp: only_line_def)
  have div: "bcd_at ?fd 1 1 = 3" "bcd_at ?fd 2 1 = 163"
    using bcd_at_octet [of ?fd 1] bcd_at_octet [of ?fd 2]
    by (simp_all add: octet_def hi_nib_eq lo_nib_eq FI_def)
  have total: "word_of_int ?n + (2 - 3) = (word_of_int (?n - 1) :: u64)" by (simp add: wi_hom_sub [symmetric])
  have "\<not> word_of_int (spectrum_line_length C) < (word_of_int (?n - 1) :: u64)"
  proof -
    have "uint (word_of_int (?n - 1) :: u64) = ?n - 1"
      by (subst uint_word_of_int) (use assms(3-5) in simp)
    moreover have "uint (word_of_int (spectrum_line_length C) :: u64) = spectrum_line_length C"
      by (subst uint_word_of_int) (use assms(3-5) in simp)
    ultimately show ?thesis using assms(4) unfolding word_less_def by simp
  qed
  moreover have "uint (2 - 3 :: u64) = 2 ^ 64 - 1" by (simp add: unsigned_minus_1_eq_mask mask_eq_exp_minus_1)
  ultimately have "spectrum_store C 3 163 (2 - 3) (drop 3 ?fd) ?c
      = (RIG_OK, ?c\<lparr>spectrum_data_length := word_of_int (?n - 1)\<rparr>, True)"
    using assms(3,5) total by (simp add: spectrum_store_def Let_def)
  then have "scope_step C 2 ?fd ?c = (RIG_OK, (?c\<lparr>spectrum_data_length := word_of_int (?n - 1)\<rparr>)
      \<lparr>spectrum_metadata_valid := spectrum_metadata_valid ?c\<rparr>, True)"
    unfolding scope_step_def div by (simp add: Let_def)
  then show ?thesis
    using sc assms(2)
    by (auto simp: r(1) icom_process_async_frame_def icom_parse_spectrum_frame_def octet_def civ_defs
        run_state_bind run_over_def on_port_run line_of_def Let_def)
qed

subsection \<open>Transceive frames and the cache\<close>

text \<open>A frequency as the radio sends it: five octets of BCD.\<close>

definition freq_octets :: "nat \<Rightarrow> u8 list" where
  "freq_octets f = to_bcd (replicate 5 0) (of_nat f) 10"

lemma length_freq_octets [simp]: "length (freq_octets f) = 5"
  by (simp add: freq_octets_def to_bcd_length)

lemma freq_octets_digits: "b \<in> set (freq_octets f) \<Longrightarrow> lo_nib b < 10 \<and> hi_nib b < 10"
proof -
  assume "b \<in> set (freq_octets f)"
  then obtain i where i: "i < 5" "b = freq_octets f ! i" by (auto simp: in_set_conv_nth)
  have d: "digit_le (freq_octets f) 10 k < 10" if "k < 10" for k
    using that by (simp add: freq_octets_def to_bcd_digit)
  from d [of "2 * i"] d [of "2 * i + 1"] i show ?thesis by (simp add: digit_le_def)
qed

lemma freq_octets_no_marks: "{FI, COL, NAK, PR} \<inter> set (freq_octets f) = {}"
  using freq_octets_digits [of _ f] by (fastforce simp: hi_nib_eq lo_nib_eq civ_defs)

lemma bcd_at_freq: "f < 10 ^ 10 \<Longrightarrow> bcd_at (h @ freq_octets f @ u) (length h) 5 = f"
proof -
  assume f: "f < 10 ^ 10"
  have "octets (h @ freq_octets f @ u) (length h) 5 = freq_octets f"
    using octets_append [of h "freq_octets f" u] by simp
  moreover have "unat (of_nat f :: u64) = f" using f by (simp add: unat_of_nat)
  ultimately show ?thesis
    using f le.dec_enc [of 10 "replicate 5 0" "of_nat f"] by (simp add: bcd_at_def freq_octets_def)
qed

text \<open>A cached frequency that does not age any more is the answer, at any later time.\<close>

lemma cached_for_ever:
  assumes "tuning_setup caps s rig" and "use_cached_freq rig" and "c_freq (cache rig) s = f" and "f \<noteq> 0"
  shows "fst (run_state (rig_get_freq caps P RIG_VFO_CURR x) rig) = (RIG_OK, f)"
proof -
  have cache: "run_state (rig_get_cache (current_vfo rig) (junk_out P x)) rig
      = ((RIG_OK, slot_view rig s), on_cache (read_stamps s) rig)"
    using assms(1) setup_slots(5) [OF assms(1)] by (simp add: run_get_cache tuning_setup_def)
  have "fst (run_state (get_freq_via_cache caps P (current_vfo rig) (current_vfo rig) x) rig) = (RIG_OK, f)"
    using assms(2-4) cache by (simp add: get_freq_via_cache_def slot_view_def)
  moreover have "run_state (rig_get_freq caps P RIG_VFO_CURR x) rig
      = run_state (get_freq_via_cache caps P (current_vfo rig) (current_vfo rig) x) rig"
    using assms(1) by (auto simp: rig_get_freq_def check_rig_arg_def tuning_setup_def vfo_fixup_names Let_def)
  ultimately show ?thesis by simp
qed

text \<open>C4: a transceive frame and the front end. When the operator turns the knob and the radio sends
  its new frequency, the event handler takes it over, and \<^verbatim>\<open>rig_get_freq\<close> on the current VFO answers
  it, at once and at any later time: the cached frequency does not expire any more, and the radio is not
  asked again.\<close>

theorem transceive_fixes_frequency:
  assumes "usable (line_of rig)" and "tuning_setup caps s rig" and "\<not> civ_731_mode (priv rig)"
    and "0 < f" and "f < 10 ^ 10" and "from_id \<notin> {FI, COL}"
    and "incoming (line_of rig)
      = map Octet ([PR, PR, BCASTID, from_id, C_SND_FREQ] @ freq_octets f @ [FI]) @ t"
  shows "\<exists>rig'. run_state (icom_decode_event C) rig = (RIG_OK, rig')
    \<and> (\<forall>P x later. fst (run_state (rig_get_freq caps P RIG_VFO_CURR x) (rig'\<lparr>now := later\<rparr>)) = (RIG_OK, real f))"
proof -
  let ?f = "[BCASTID, from_id, C_SND_FREQ] @ freq_octets f @ [FI]"
  have whole: "whole_frame (PR # PR # ?f)"
    using assms(6) freq_octets_no_marks [of f] by (auto simp: whole_frame_def civ_defs MAXFRAMELEN_def butlast_append)
  have "incoming (line_of rig) = map Octet (PR # PR # ?f) @ t" using assms(7) by simp
  from decode_whole_frame [OF whole _ _ assms(1) this] obtain r where
    r: "run_state (icom_decode_event C) rig = run_state (icom_process_async_frame C (PR # PR # ?f)) r"
    "only_line rig r" by auto
  have same: "same_setup rig r" "\<not> civ_731_mode (priv r)"
    using r(2) assms(3) by (auto simp: only_line_def same_setup_def)
  have "bcd_at ([PR, PR, BCASTID, from_id, C_SND_FREQ] @ freq_octets f @ [FI]) 5 5 = f"
    using bcd_at_freq [OF assms(5), of "[PR, PR, BCASTID, from_id, C_SND_FREQ]" "[FI]"]
    by (simp add: numeral_eq_Suc)
  then have v: "bcd_at (PR # PR # ?f) 5 5 = f" by simp
  obtain flag where st: "run_state (rig_set_cache_freq RIG_VFO_CURR (real f)) r
      = (RIG_OK, on_cache (store_freq s (real f) flag) r)"
    using store_current [OF tuning_setup_same [OF same(1) assms(2)]] by blast
  define rig' where "rig' = (on_cache (store_freq s (real f) flag) r)\<lparr>use_cached_freq := True\<rparr>"
  have "run_state (icom_decode_event C) rig = (RIG_OK, rig')"
    using st same(2) v
    by (simp add: r(1) icom_process_async_frame_def rig_fire_freq_event_def run_state_bind octet_def rig'_def)
  moreover have "tuning_setup caps s (rig'\<lparr>now := later\<rparr>)" for later
  proof -
    have "same_setup r (on_cache (store_freq s (real f) flag) r)" by (simp add: same_setup_on_cache)
    then have "same_setup r (rig'\<lparr>now := later\<rparr>)" by (simp add: same_setup_def rig'_def)
    then show ?thesis using tuning_setup_same same_setup_trans [OF same(1)] assms(2) by blast
  qed
  then have "fst (run_state (rig_get_freq caps P RIG_VFO_CURR x) (rig'\<lparr>now := later\<rparr>)) = (RIG_OK, real f)" for P x later
    using assms(4) by (intro cached_for_ever [where s = s]) (simp_all add: rig'_def)
  ultimately show ?thesis by blast
qed

subsection \<open>Witnesses\<close>

text \<open>A radio that answers any frame with \<open>data\<close>, and the line to it.\<close>

definition bench_civ :: "u8 list \<Rightarrow> unit civ" where
  "bench_civ data = \<lparr>radio = (\<lambda>b d. (if b = FI \<and> data \<noteq> [] then map Octet (reply_frame CTRLID 0x94 data) else [], d)),
     after_read = (\<lambda>l t. t), after_sleep = (\<lambda>us t. t), civ_model = 0,
     civ_addr = 0x94, civ_731 = False, civ_no_xchg = False, scope_count = 1, serial_full_duplex = False,
     spectrum_line_length = 475, single_frame_data_length = 50\<rparr>"

lemma bench_civ_simps [simp]:
  "radio (bench_civ data) b d = (if b = FI \<and> data \<noteq> [] then map Octet (reply_frame CTRLID 0x94 data) else [], d)"
  "serial_full_duplex (bench_civ data) = False" "spectrum_line_length (bench_civ data) = 475"
  "single_frame_data_length (bench_civ data) = 50"
  by (simp_all add: bench_civ_def)

lemma bench_priv [simp]:
  "line_of (bench_rig l) = l" "re_civ_addr (priv (bench_rig l)) = 0x94"
  "serial_USB_echo_off (priv (bench_rig l))" "\<not> civ_731_mode (priv (bench_rig l))"
  "rigport_retry (priv (bench_rig l)) = 3" "scopes (priv (bench_rig l)) = []"
  by (simp_all add: bench_rig_def line_of_def zero_rig_def)

lemma fresh_usable [simp]: "usable (fresh_line as d)" "stale (fresh_line [] d)"
  by (simp_all add: usable_def stale_def)

lemma icom_transaction_delivers_witness:
  "fst (run_state (icom_transaction (bench_civ [3, 0, 0x40, 0x07, 0x14, 0]) C_RD_FREQ (- 1) [] True)
     (bench_rig (fresh_line [] ()))) = (RIG_OK, [3, 0, 0x40, 0x07, 0x14, 0])"
proof -
  let ?d = "[3, 0, 0x40, 0x07, 0x14, 0] :: u8 list" and ?rig = "bench_rig (fresh_line [] ())"
  let ?cmd = "[PR, PR, 0x94, CTRLID, C_RD_FREQ, FI]"
  have "?cmd = command (bench_civ ?d) ?rig C_RD_FREQ (- 1) []"
    by (simp add: command_def make_cmd_frame_def)
  moreover have "whole_frame ?cmd" by (simp add: whole_frame_def civ_defs MAXFRAMELEN_def)
  moreover have "reply_of (radio (bench_civ ?d)) ?cmd (device (line_of ?rig))
      = (map Octet (echo_of (bench_civ ?d) ?rig ?cmd @ reply_frame CTRLID 0x94 ?d) @ [], ())"
    by (simp add: echo_of_def civ_defs)
  moreover have "proper_reply CTRLID 0x94 ?d"
    by (simp add: proper_reply_def civ_defs MAXFRAMELEN_def octet_def)
  ultimately show ?thesis
    using icom_transaction_delivers [of ?rig ?cmd "bench_civ ?d" C_RD_FREQ "- 1" "[]" CTRLID "0x94" ?d "[]" "()"]
    by auto
qed

lemma icom_transaction_gives_up_witness:
  "fst (run_state (icom_transaction (bench_civ []) C_RD_FREQ (- 1) [] True) (bench_rig (fresh_line [] ())))
     = (- RIG_ETIMEOUT, [])"
  using icom_transaction_gives_up [of "bench_rig (fresh_line [] ())" "bench_civ []" _ C_RD_FREQ "- 1" "[]" 3]
  by (auto simp: silent_def command_def make_cmd_frame_def MAXFRAMELEN_def echo_of_def)

lemma wakeup_echo_fails_witness:
  "check_echo C_SET_PWR (make_cmd_frame 0x94 CTRLID C_SET_PWR 1 [])
     (replicate 25 PR @ make_cmd_frame 0x94 CTRLID C_SET_PWR 1 []) = None"
  using wakeup_echo_fails [of "0x94" 25 1 _ CTRLID] by (simp add: PR_def)

definition bench_scope :: icom_spectrum_scope_cache where
  "bench_scope = \<lparr>spectrum_metadata_valid = False, spectrum_mode = RIG_SPECTRUM_MODE_NONE,
     spectrum_center_freq = 0, spectrum_span_freq = 0, spectrum_low_edge_freq = 0, spectrum_high_edge_freq = 0,
     spectrum_data_length = 0, spectrum_data = replicate 475 0\<rparr>"

lemma spectrum_in_bounds_witness:
  "\<not> snd (snd (spectrum_store (bench_civ []) 2 11 50 (replicate 50 7) bench_scope))"
  using spectrum_in_bounds [of "bench_civ []" bench_scope 2 11 50 "replicate 50 7"]
  by (cases "spectrum_store (bench_civ []) 2 11 50 (replicate 50 7) bench_scope") (simp add: bench_scope_def)

lemma short_spectrum_frame_overruns_witness:
  "overrun (line_of (snd (run_state (icom_decode_event (bench_civ []))
     ((bench_rig (fresh_line (map Octet [0xfe, 0xfe, 0xe0, 0x94, 0x27, 0, 0, 3, 0xfd]) ()))
        \<lparr>priv := (priv (bench_rig (fresh_line (map Octet [0xfe, 0xfe, 0xe0, 0x94, 0x27, 0, 0, 3, 0xfd]) ())))
           \<lparr>scopes := [bench_scope]\<rparr>\<rparr>))))"
proof -
  let ?r = "bench_rig (fresh_line (map Octet [0xfe, 0xfe, 0xe0, 0x94, 0x27, 0, 0, 3, 0xfd]) ())"
  have "line_of (?r\<lparr>priv := (priv ?r)\<lparr>scopes := [bench_scope]\<rparr>\<rparr>)
      = fresh_line (map Octet [0xfe, 0xfe, 0xe0, 0x94, 0x27, 0, 0, 3, 0xfd]) ()"
    by (simp add: line_of_def bench_rig_def zero_rig_def)
  then show ?thesis
    using short_spectrum_frame_overruns [of "?r\<lparr>priv := (priv ?r)\<lparr>scopes := [bench_scope]\<rparr>\<rparr>" "bench_civ []" "[]"]
    by (auto simp: civ_defs)
qed

lemma bench_setup: "tuning_setup (no_caps :: 'd icom_priv_data caps) MainA (bench_rig l)"
  by (simp add: tuning_setup_def bench_rig_def zero_rig_def zero_cache_def cache_vfo_def freq_slot_def vfo_defs
      no_caps_def)

lemma transceive_fixes_frequency_witness:
  "\<exists>rig'. run_state (icom_decode_event (bench_civ []))
      (bench_rig (fresh_line (map Octet ([PR, PR, BCASTID, 0x94, C_SND_FREQ] @ freq_octets 14074000 @ [FI])) ()))
      = (RIG_OK, rig')
    \<and> fst (run_state (rig_get_freq no_caps dead_ports RIG_VFO_CURR 0)
        (rig'\<lparr>now := \<lparr>tv_sec = 1000000, tv_nsec = 1\<rparr>\<rparr>)) = (RIG_OK, 14074000)"
  using transceive_fixes_frequency [of "bench_rig (fresh_line (map Octet ([PR, PR, BCASTID, 0x94, C_SND_FREQ]
      @ freq_octets 14074000 @ [FI])) ())" no_caps MainA 14074000 "0x94" "[]" "bench_civ []"]
    bench_setup
  by (force simp: civ_defs)

end
