(* ===== verification/Hamlib_Icom.thy ===== *)
theory Hamlib_Icom
  imports Hamlib_Icom_Civ
begin

text \<open>
  Operations of the Icom back end (\<^verbatim>\<open>rigs/icom/icom.c\<close>): frequency, VFO, VFO operations, PTT and
  squelch, the detection of an echo, switching the radio on and off.

  The C functions call back into the front end, which calls the back end through \<^verbatim>\<open>rig->caps\<close>;
  here \<open>caps\<close> is an argument of theirs, and \<open>icom_table\<close> ties the knot, with a bound on how deep the
  calls back nest. A reply is the list of octets after the addresses; its length is \<^verbatim>\<open>ack_len\<close>.
\<close>

named_theorems icom_defs \<open>codes used by the operations\<close>

definition S_VFOA :: int where [icom_defs]: "S_VFOA = 0x00"
definition S_VFOB :: int where [icom_defs]: "S_VFOB = 0x01"
definition S_BTOA :: int where [icom_defs]: "S_BTOA = 0xa0"
definition S_XCHNG :: int where [icom_defs]: "S_XCHNG = 0xb0"
definition S_SUBTOMAIN :: int where [icom_defs]: "S_SUBTOMAIN = 0xb1"
definition S_MAIN :: int where [icom_defs]: "S_MAIN = 0xd0"
definition S_SUB :: int where [icom_defs]: "S_SUB = 0xd1"
definition S_PTT :: int where [icom_defs]: "S_PTT = 0x00"
definition S_ANT_TUN :: int where [icom_defs]: "S_ANT_TUN = 0x01"
definition S_SQL :: int where [icom_defs]: "S_SQL = 0x01"
definition S_PWR_OFF :: int where [icom_defs]: "S_PWR_OFF = 0x00"
definition S_PWR_ON :: int where [icom_defs]: "S_PWR_ON = 0x01"
definition C_SET_MEM :: u8 where [icom_defs]: "C_SET_MEM = 0x08"
definition C_WR_MEM :: u8 where [icom_defs]: "C_WR_MEM = 0x09"
definition C_MEM2VFO :: u8 where [icom_defs]: "C_MEM2VFO = 0x0a"
definition C_CLR_MEM :: u8 where [icom_defs]: "C_CLR_MEM = 0x0b"
definition C_RD_SQSM :: u8 where [icom_defs]: "C_RD_SQSM = 0x15"
definition C_SEND_SEL_FREQ :: u8 where [icom_defs]: "C_SEND_SEL_FREQ = 0x25"
definition RIG_MODEL_IC821H :: nat where [model_defs]: "RIG_MODEL_IC821H = RIG_MAKE_MODEL RIG_ICOM 34"

type_synonym 'd icom_caps = "'d icom_priv_data caps"
type_synonym 'd icom_ports = "'d icom_priv_data ports"
type_synonym 'd icom_call = "('d icom_rig, int) state"

subsection \<open>Acknowledgements\<close>

text \<open>The two tests that follow every command which is only acknowledged.\<close>

definition ack_result :: "u8 list \<Rightarrow> int" where
  "ack_result ack =
     (if (1 \<le> length ack \<and> octet ack 0 \<noteq> ACK) \<and> (2 \<le> length ack \<and> octet ack 1 \<noteq> NAK) then - RIG_ETIMEOUT
      else if length ack \<noteq> 1 \<or> (1 \<le> length ack \<and> octet ack 0 \<noteq> ACK) then - RIG_ERJCTED
      else RIG_OK)"

definition icom_command :: "'d civ \<Rightarrow> u8 \<Rightarrow> int \<Rightarrow> u8 list \<Rightarrow> 'd icom_call" where
  "icom_command C cmd subcmd payload = do {
     (retval, ack) \<leftarrow> icom_transaction C cmd subcmd payload True;
     State_Monad.return (if retval \<noteq> RIG_OK then retval else ack_result ack)
   }"

subsection \<open>Selecting a VFO: icom_set_vfo\<close>

text \<open>The VFO that is meant, on the kind of radio it is: the chain of tests before the switch.\<close>

definition icom_vfo_alias :: "nat \<Rightarrow> 'd icom_rig \<Rightarrow> vfo_t \<Rightarrow> vfo_t" where
  "icom_vfo_alias model rig vfo =
     (let sat = satmode (cache rig); split = c_split (cache rig) = RIG_SPLIT_ON
      in if vfo = RIG_VFO_MAIN \<and> VFO_HAS_A_B_ONLY rig then RIG_VFO_A
         else if vfo = RIG_VFO_SUB \<and> (VFO_HAS_A_B_ONLY rig
                  \<or> (VFO_HAS_MAIN_SUB_A_B_ONLY rig \<and> \<not> split_on (priv rig) \<and> \<not> sat)) then RIG_VFO_B
         else if vfo = RIG_VFO_TX
         then if VFO_HAS_A_B_ONLY rig \<and> sat then RIG_VFO_B
              else if VFO_HAS_MAIN_SUB_ONLY rig then RIG_VFO_SUB
              else if VFO_HAS_MAIN_SUB_A_B_ONLY rig \<and> sat then RIG_VFO_SUB
              else RIG_VFO_A
         else if vfo \<in> {RIG_VFO_A, RIG_VFO_MAIN} \<and> VFO_HAS_DUAL rig
         then if model = RIG_MODEL_IC821H \<and> sat then RIG_VFO_SUB
              else if split \<and> \<not> sat then RIG_VFO_A else RIG_VFO_MAIN
         else if vfo \<in> {RIG_VFO_B, RIG_VFO_SUB} \<and> VFO_HAS_DUAL rig
         then if model = RIG_MODEL_IC821H \<and> sat then RIG_VFO_MAIN
              else if sat then RIG_VFO_SUB_A
              else if split then RIG_VFO_B else RIG_VFO_SUB
         else if vfo \<in> {RIG_VFO_A, RIG_VFO_B} \<and> \<not> VFO_HAS_A_B rig \<and> VFO_HAS_MAIN_SUB rig
         then if vfo = RIG_VFO_A then RIG_VFO_MAIN else RIG_VFO_SUB
         else vfo)"

text \<open>The last command, after the switch.\<close>

definition select_icom_vfo :: "'d civ \<Rightarrow> vfo_t \<Rightarrow> int \<Rightarrow> 'd icom_call" where
  "select_icom_vfo C vfo icvfo = do {
     rc \<leftarrow> icom_command C C_SET_VFO icvfo [];
     _ \<leftarrow> do_when (rc = RIG_OK) (modify (\<lambda>rig. rig\<lparr>current_vfo := vfo\<rparr>));
     State_Monad.return rc
   }"

text \<open>The switch. \<^verbatim>\<open>RIG_VFO_OTHER\<close> works out the other VFO and then falls into the default case,
  which refuses it.\<close>

definition icom_vfo_switch :: "'d civ \<Rightarrow> vfo_t \<Rightarrow> 'd icom_call" where
  "icom_vfo_switch C vfo = do {
     rig \<leftarrow> gets id;
     let single = VFO_HAS_MAIN_SUB_A_B_ONLY rig \<and> \<not> split_on (priv rig) \<and> \<not> satmode (cache rig);
     if vfo = RIG_VFO_A then select_icom_vfo C vfo S_VFOA
     else if vfo = RIG_VFO_B then select_icom_vfo C vfo S_VFOB
     else if vfo = RIG_VFO_MAIN then select_icom_vfo C vfo (if single then S_VFOA else S_MAIN)
     else if vfo = RIG_VFO_SUB
     then select_icom_vfo C vfo
            (if single \<or> (VFO_HAS_MAIN_SUB_A_B_ONLY rig \<and> split_on (priv rig)) then S_VFOB else S_SUB)
     else if vfo = RIG_VFO_TX
     then if split_on (priv rig) then select_icom_vfo C RIG_VFO_B S_VFOB else select_icom_vfo C RIG_VFO_A S_VFOA
     else if vfo = RIG_VFO_VFO \<or> vfo = RIG_VFO_MEM
     then do {
       rc \<leftarrow> icom_command C (if vfo = RIG_VFO_VFO then C_SET_VFO else C_SET_MEM) (- 1) [];
       _ \<leftarrow> do_when (rc = RIG_OK) (modify (\<lambda>rig. rig\<lparr>current_vfo := vfo\<rparr>));
       State_Monad.return rc
     }
     else if vfo \<in> {RIG_VFO_MAIN_A, RIG_VFO_MAIN_B}
     then do {
       rc \<leftarrow> icom_command C C_SET_VFO S_MAIN [];
       if rc \<noteq> RIG_OK then State_Monad.return rc
       else select_icom_vfo C vfo (if vfo = RIG_VFO_MAIN_A then S_VFOA else S_VFOB)
     }
     else if vfo \<in> {RIG_VFO_SUB_A, RIG_VFO_SUB_B}
     then do {
       rc \<leftarrow> icom_command C C_SET_VFO S_SUB [];
       if rc \<noteq> RIG_OK then State_Monad.return rc
       else if vfo = RIG_VFO_SUB_A then State_Monad.return RIG_OK
       else select_icom_vfo C vfo S_VFOB
     }
     else State_Monad.return (- RIG_EINVAL)
   }"

definition icom_set_vfo :: "'d civ \<Rightarrow> vfo_t \<Rightarrow> 'd icom_call" where
  "icom_set_vfo C vfo0 =
     (if vfo0 = RIG_VFO_CURR then State_Monad.return RIG_OK
      else do {
        rig \<leftarrow> gets id;
        let vfo = icom_vfo_alias (civ_model C) rig vfo0;
        if vfo \<in> {RIG_VFO_MAIN, RIG_VFO_SUB} \<and> \<not> VFO_HAS_MAIN_SUB rig then State_Monad.return (- RIG_EINVAL)
        else do {
          _ \<leftarrow> do_when (vfo \<noteq> current_vfo rig) (upd_icom (\<lambda>p. p\<lparr>curr_freq := 0\<rparr>));
          icom_vfo_switch C vfo
        }
      })"

text \<open>
  \<^verbatim>\<open>set_vfo_curr\<close>: through the front end, when the VFO is not the current one. Its tests for
  \<^verbatim>\<open>RIG_VFO_CURR\<close> after the first cannot be met.
\<close>

definition set_vfo_curr :: "'d icom_caps \<Rightarrow> 'd icom_ports \<Rightarrow> vfo_t \<Rightarrow> 'd icom_call" where
  "set_vfo_curr caps P vfo0 =
     (if vfo0 = RIG_VFO_CURR then State_Monad.return RIG_OK
      else do {
        rig \<leftarrow> gets id;
        let vfo = (if vfo0 = RIG_VFO_MAIN \<and> VFO_HAS_A_B_ONLY rig then RIG_VFO_A
                   else if vfo0 = RIG_VFO_SUB \<and> VFO_HAS_A_B_ONLY rig then RIG_VFO_B else vfo0);
        rc \<leftarrow> (if current_vfo rig \<noteq> vfo
               \<and> \<not> (VFO_HAS_MAIN_SUB_A_B_ONLY rig \<and> \<not> split_on (priv rig) \<and> \<not> satmode (cache rig)
                   \<and> vfo = RIG_VFO_SUB \<and> current_vfo rig = RIG_VFO_B)
             then rig_set_vfo caps P vfo else State_Monad.return RIG_OK);
        if rc \<noteq> RIG_OK then State_Monad.return rc
        else do {
          _ \<leftarrow> modify (\<lambda>rig. rig\<lparr>current_vfo := vfo\<rparr>);
          State_Monad.return RIG_OK
        }
      })"

subsection \<open>Reading the frequency: icom_get_freq\<close>

text \<open>The sub-command of \<^verbatim>\<open>0x25\<close>: 1 for the VFO that is not selected.\<close>

definition other_side :: "vfo_t \<Rightarrow> vfo_t" where
  "other_side cv =
     (let unselected = RIG_VFO_B OR RIG_VFO_SUB OR RIG_VFO_SUB_B OR RIG_VFO_MAIN_B OR RIG_VFO_OTHER
      in if cv AND unselected \<noteq> 0
         then RIG_VFO_A OR RIG_VFO_MAIN OR RIG_VFO_SUB_A OR RIG_VFO_MAIN_A OR RIG_VFO_OTHER
         else unselected)"

definition x25_subcmd :: "vfo_t \<Rightarrow> vfo_t \<Rightarrow> int" where
  "x25_subcmd cv vfo = (if vfo AND other_side cv \<noteq> 0 \<and> cv AND other_side cv = 0 then 1 else 0)"

definition remember_read :: "vfo_t \<Rightarrow> freq_t \<Rightarrow> 'd icom_priv_data \<Rightarrow> 'd icom_priv_data" where
  "remember_read vfo f p =
     (if vfo = RIG_VFO_A then p\<lparr>vfoa_freq := f\<rparr>
      else if vfo = RIG_VFO_MAIN_A then p\<lparr>maina_freq := f\<rparr>
      else if vfo = RIG_VFO_SUB_A then p\<lparr>suba_freq := f\<rparr>
      else if vfo = RIG_VFO_B then p\<lparr>vfob_freq := f\<rparr>
      else if vfo = RIG_VFO_MAIN_B then p\<lparr>mainb_freq := f\<rparr>
      else if vfo = RIG_VFO_SUB_B then p\<lparr>subb_freq := f\<rparr>
      else if vfo = RIG_VFO_MAIN then p\<lparr>main_freq := f\<rparr>
      else if vfo = RIG_VFO_SUB then p\<lparr>sub_freq := f\<rparr>
      else if vfo = RIG_VFO_OTHER then p\<lparr>other_freq := f\<rparr>
      else if vfo = RIG_VFO_NONE \<or> vfo = RIG_VFO_CURR then p\<lparr>curr_freq := f\<rparr>
      else p)"

text \<open>
  \<^verbatim>\<open>RIG_VFO_TX\<close>: \<open>Inl\<close> when command \<^verbatim>\<open>1c 03\<close> answers; \<open>Inr\<close> the VFO to read and the
  command for it, which stays \<^verbatim>\<open>1c 03\<close> when that has just failed. What an answer that is too short does not
  cover counts as zero; in C it is whatever the buffer held.
\<close>

definition get_tx_freq ::
  "'d civ \<Rightarrow> vfo_t \<Rightarrow> ('d icom_rig, freq_t + vfo_t \<times> u8 \<times> int) state" where
  "get_tx_freq C vfo =
     (if vfo \<noteq> RIG_VFO_TX then State_Monad.return (Inr (vfo, C_RD_FREQ, - 1))
      else do {
        rig \<leftarrow> gets id;
        let tx = (if vfo_list rig AND RIG_VFO_B \<noteq> 0
                  then if split_on (priv rig) then RIG_VFO_B else RIG_VFO_A
                  else if split_on (priv rig) then RIG_VFO_SUB else RIG_VFO_MAIN);
        if x1cx03cmdfails (priv rig) then State_Monad.return (Inr (tx, C_RD_FREQ, - 1))
        else do {
          (retval, ack) \<leftarrow> icom_transaction C 0x1c 3 [] True;
          if retval = RIG_OK
          then State_Monad.return (Inl (real (bcd_at ack 2 (if civ_731_mode (priv rig) then 4 else 5))))
          else do {
            _ \<leftarrow> upd_icom (\<lambda>p. p\<lparr>x1cx03cmdfails := True\<rparr>);
            State_Monad.return (Inr (tx, 0x1c, 3))
          }
        }
      })"

text \<open>
  Asking the radio: by \<^verbatim>\<open>0x25\<close>, or by going to the VFO and back. The result is what the command
  returned, the length of the data it announces (\<^verbatim>\<open>freq_len\<close>), the buffer and the place of the
  frequency in it; \<open>Inl\<close> an early return.
\<close>

definition ask_freq :: "'d civ \<Rightarrow> 'd icom_caps \<Rightarrow> 'd icom_ports \<Rightarrow> vfo_t \<Rightarrow> u8 \<Rightarrow> int \<Rightarrow> vfo_t
    \<Rightarrow> ('d icom_rig, int + int \<times> int \<times> u8 list \<times> nat) state" where
  "ask_freq C caps P vfo cmd subcmd vfo_save = do {
     rig \<leftarrow> gets id;
     r \<leftarrow> (if x25cmdfails (priv rig) then State_Monad.return (- RIG_EINTERNAL, [])
          else icom_transaction C C_SEND_SEL_FREQ (x25_subcmd (current_vfo rig) vfo) [] True);
     _ \<leftarrow> do_when (fst r \<noteq> RIG_OK) (upd_icom (\<lambda>p. p\<lparr>x25cmdfails := True\<rparr>));
     if fst r = RIG_OK then State_Monad.return (Inr (RIG_OK, int (length (snd r)) - 1, snd r, 2))
     else do {
       rc \<leftarrow> set_vfo_curr caps P vfo;
       if rc \<noteq> RIG_OK then State_Monad.return (Inl rc)
       else do {
         (retval, buf) \<leftarrow> icom_transaction C cmd subcmd [] True;
         _ \<leftarrow> set_vfo_curr caps P vfo_save;
         State_Monad.return (Inr (retval, int (length buf), buf, 1))
       }
     }
   }"

text \<open>What the answer says; \<open>None\<close>: not a frequency.\<close>

definition freq_of_reply :: "int \<Rightarrow> u8 list \<Rightarrow> nat \<Rightarrow> freq_t option" where
  "freq_of_reply freq_len buf off =
     (if freq_len = 4 \<or> freq_len = 5 then Some (real (bcd_at buf off (nat freq_len))) else None)"

definition icom_get_freq :: "'d civ \<Rightarrow> 'd icom_caps \<Rightarrow> 'd icom_ports \<Rightarrow> ('d icom_priv_data, freq_t) getter" where
  "icom_get_freq C caps P vfo0 freq = do {
     rig \<leftarrow> gets id;
     let mem731 = (vfo0 = RIG_VFO_MEM \<and> (civ_731_mode (priv rig) \<or> rig_model caps = RIG_MODEL_IC706));
     _ \<leftarrow> do_when mem731 (upd_icom (\<lambda>p. p\<lparr>civ_731_mode := False\<rparr>));
     tx \<leftarrow> get_tx_freq C vfo0;
     case tx of
       Inl f \<Rightarrow> State_Monad.return (RIG_OK, f)
     | Inr (vfo, cmd, subcmd) \<Rightarrow> do {
         ans \<leftarrow> ask_freq C caps P vfo cmd subcmd (current_vfo rig);
         _ \<leftarrow> do_when (vfo = RIG_VFO_MEM \<and> mem731) (upd_icom (\<lambda>p. p\<lparr>civ_731_mode := True\<rparr>));
         case ans of
           Inl rc \<Rightarrow> State_Monad.return (rc, freq)
         | Inr (retval, len, buf, off) \<Rightarrow>
             if retval \<noteq> RIG_OK then State_Monad.return (retval, freq)
             else if len - 1 = 1 \<and> octet buf 1 = 0xff then State_Monad.return (RIG_OK, 0)
             else case freq_of_reply (len - 1) buf off of
                 None \<Rightarrow> State_Monad.return (- RIG_ERJCTED, freq)
               | Some f \<Rightarrow> do {
                   _ \<leftarrow> do_when (vfo = RIG_VFO_NONE) (modify (\<lambda>rig. rig\<lparr>current_vfo := RIG_VFO_CURR\<rparr>));
                   _ \<leftarrow> upd_icom (remember_read vfo f);
                   State_Monad.return (RIG_OK, f)
                 }
       }
   }"

subsection \<open>VFO operations: icom_vfo_op\<close>

text \<open>The macro \<^verbatim>\<open>CACHE_RESET\<close>.\<close>

definition cache_reset :: "timespec \<Rightarrow> rig_cache \<Rightarrow> rig_cache" where
  "cache_reset t =
     stamp_freq HAMLIB_ELAPSED_INVALIDATE t MainA \<circ> stamp_freq HAMLIB_ELAPSED_INVALIDATE t MainB
     \<circ> stamp_freq HAMLIB_ELAPSED_INVALIDATE t SubA \<circ> stamp_freq HAMLIB_ELAPSED_INVALIDATE t SubB
     \<circ> stamp_vfo HAMLIB_ELAPSED_INVALIDATE t \<circ> invalidate_modes t
     \<circ> stamp_mode HAMLIB_ELAPSED_INVALIDATE t SubA \<circ> stamp_mode HAMLIB_ELAPSED_INVALIDATE t SubB
     \<circ> stamp_mode HAMLIB_ELAPSED_INVALIDATE t SubC
     \<circ> stamp_width HAMLIB_ELAPSED_INVALIDATE t SubA \<circ> stamp_width HAMLIB_ELAPSED_INVALIDATE t SubB
     \<circ> stamp_width HAMLIB_ELAPSED_INVALIDATE t SubC
     \<circ> stamp_ptt HAMLIB_ELAPSED_INVALIDATE t \<circ> stamp_split HAMLIB_ELAPSED_INVALIDATE t"

definition icom_op_command :: "'d icom_rig \<Rightarrow> u32 \<Rightarrow> int + u8 \<times> int \<times> u8 list" where
  "icom_op_command rig oper =
     (if oper = RIG_OP_CPY
      then if vfo_has_all rig (RIG_VFO_A OR RIG_VFO_B) then Inr (C_SET_VFO, S_BTOA, [])
           else if vfo_has_all rig (RIG_VFO_MAIN OR RIG_VFO_SUB) then Inr (C_SET_VFO, S_SUBTOMAIN, [])
           else Inl (- RIG_ENAVAIL)
      else if oper = RIG_OP_XCHG then Inr (C_SET_VFO, S_XCHNG, [])
      else if oper = RIG_OP_FROM_VFO then Inr (C_WR_MEM, - 1, [])
      else if oper = RIG_OP_TO_VFO then Inr (C_MEM2VFO, - 1, [])
      else if oper = RIG_OP_MCL then Inr (C_CLR_MEM, - 1, [])
      else if oper = RIG_OP_TUNE then Inr (C_CTL_PTT, S_ANT_TUN, [2])
      else Inl (- RIG_EINVAL))"

definition icom_vfo_op :: "'d civ \<Rightarrow> ('d icom_priv_data, u32) setter" where
  "icom_vfo_op C vfo oper = do {
     rig \<leftarrow> gets id;
     case icom_op_command rig oper of
       Inl rc \<Rightarrow> State_Monad.return rc
     | Inr (cn, sc, buf) \<Rightarrow> do {
         (retval, ack) \<leftarrow> icom_transaction C cn sc buf True;
         if retval \<noteq> RIG_OK then State_Monad.return retval
         else do {
           _ \<leftarrow> modify (on_cache cache_reset);
           State_Monad.return (ack_result ack)
         }
       }
   }"

subsection \<open>Setting the frequency: icom_set_freq\<close>

definition icom_band_changing ::
  "'d icom_caps \<Rightarrow> 'd icom_ports \<Rightarrow> freq_t \<Rightarrow> ('d icom_rig, bool) state" where
  "icom_band_changing caps P test_freq = do {
     (retval, curr) \<leftarrow> rig_get_freq caps P RIG_VFO_CURR (junk_freq P);
     State_Monad.return (retval = RIG_OK \<and> \<lfloor>curr / 10 ^ 8\<rfloor> \<noteq> \<lfloor>test_freq / 10 ^ 8\<rfloor>)
   }"

text \<open>The switch at the end, with two cases that run on into the ones after them.\<close>

definition remember_set :: "vfo_t \<Rightarrow> freq_t \<Rightarrow> 'd icom_priv_data \<Rightarrow> 'd icom_priv_data" where
  "remember_set vfo f p0 =
     (let p = p0\<lparr>curr_freq := f\<rparr>
      in if vfo = RIG_VFO_A then p\<lparr>vfoa_freq := f\<rparr>
         else if vfo = RIG_VFO_MAIN_A then p\<lparr>maina_freq := f\<rparr>
         else if vfo = RIG_VFO_SUB_A then p\<lparr>suba_freq := f\<rparr>
         else if vfo = RIG_VFO_B then p\<lparr>vfob_freq := f\<rparr>
         else if vfo = RIG_VFO_MAIN_B then p\<lparr>mainb_freq := f, subb_freq := f, main_freq := f\<rparr>
         else if vfo = RIG_VFO_SUB_B then p\<lparr>subb_freq := f, main_freq := f\<rparr>
         else if vfo = RIG_VFO_MAIN then p\<lparr>main_freq := f\<rparr>
         else if vfo = RIG_VFO_SUB then p\<lparr>sub_freq := f\<rparr>
         else if vfo = RIG_VFO_OTHER then p\<lparr>other_freq := f\<rparr>
         else p)"

text \<open>The octets of a frequency: its digits, cut to an integer of 64 bits as C does.\<close>

definition bcd_of_freq :: "freq_t \<Rightarrow> nat \<Rightarrow> u8 list" where
  "bcd_of_freq freq n = to_bcd (replicate n 0) (word_of_int (c_trunc freq)) (2 * n)"

text \<open>
  When the command fails and the band would change, the VFOs are exchanged, the command repeated, and the
  exchange undone if it fails again. \<open>Inl\<close>: an early return.
\<close>

definition set_freq_recovery :: "'d civ \<Rightarrow> 'd icom_caps \<Rightarrow> 'd icom_ports \<Rightarrow> vfo_t \<Rightarrow> freq_t \<Rightarrow> int
    \<Rightarrow> ('d icom_rig, int \<times> u8 list) state \<Rightarrow> ('d icom_rig, int + u8 list) state" where
  "set_freq_recovery C caps P vfo freq retval send = do {
     changing \<leftarrow> icom_band_changing caps P freq;
     if \<not> changing \<or> rig_has_vfo_op caps RIG_OP_XCHG = 0 then State_Monad.return (Inl retval)
     else do {
       rc \<leftarrow> icom_vfo_op C vfo RIG_OP_XCHG;
       if rc \<noteq> RIG_OK then State_Monad.return (Inl rc)
       else do {
         (rc2, ack) \<leftarrow> send;
         if rc2 = RIG_OK then State_Monad.return (Inr ack)
         else do {
           rc3 \<leftarrow> icom_vfo_op C vfo RIG_OP_XCHG;
           State_Monad.return (Inl (if rc3 \<noteq> RIG_OK then rc3 else rc2))
         }
       }
     }
   }"

definition icom_set_freq :: "'d civ \<Rightarrow> 'd icom_caps \<Rightarrow> 'd icom_ports \<Rightarrow> ('d icom_priv_data, freq_t) setter" where
  "icom_set_freq C caps P vfo freq = do {
     let targeted = targetable caps RIG_TARGETABLE_FREQ;
     rc \<leftarrow> (if targeted then State_Monad.return RIG_OK else set_vfo_curr caps P vfo);
     if rc \<noteq> RIG_OK then State_Monad.return rc
     else do {
       (rc1, _) \<leftarrow> rig_get_freq caps P vfo (junk_freq P);
       if rc1 \<noteq> RIG_OK then State_Monad.return rc1
       else do {
         rig \<leftarrow> gets id;
         let freqbuf = bcd_of_freq freq (if civ_731_mode (priv rig) then 4 else 5);
         let send = (if targeted
                     then icom_transaction C C_SEND_SEL_FREQ (x25_subcmd (current_vfo rig) vfo) freqbuf True
                     else icom_transaction C C_SET_FREQ (- 1) freqbuf True);
         (retval, ack) \<leftarrow> send;
         _ \<leftarrow> pause_for C (50 * 1000);
         res \<leftarrow> (if retval = RIG_OK then State_Monad.return (Inr ack)
               else set_freq_recovery C caps P vfo freq retval send);
         case res of
           Inl rc2 \<Rightarrow> State_Monad.return rc2
         | Inr ack' \<Rightarrow>
             if ack_result ack' \<noteq> RIG_OK then State_Monad.return (ack_result ack')
             else do {
               _ \<leftarrow> upd_icom (remember_set vfo freq);
               _ \<leftarrow> do_when (vfo = RIG_VFO_NONE) (modify (\<lambda>rig. rig\<lparr>current_vfo := RIG_VFO_CURR\<rparr>));
               State_Monad.return RIG_OK
             }
       }
     }
   }"

subsection \<open>PTT and squelch\<close>

definition icom_set_ptt :: "'d civ \<Rightarrow> ('d icom_priv_data, ptt_t) setter" where
  "icom_set_ptt C vfo ptt = icom_command C C_CTL_PTT S_PTT [if ptt = RIG_PTT_ON then 1 else 0]"

text \<open>A reply of one data octet after command and sub-command.\<close>

definition ask_octet :: "'d civ \<Rightarrow> u8 \<Rightarrow> int \<Rightarrow> ('d icom_rig, int + u8) state" where
  "ask_octet C cmd subcmd = do {
     (retval, buf) \<leftarrow> icom_transaction C cmd subcmd [] True;
     State_Monad.return (if retval \<noteq> RIG_OK then Inl retval
                         else if length buf - 2 \<noteq> 1 then Inl (- RIG_ERJCTED) else Inr (octet buf 2))
   }"

definition icom_get_ptt :: "'d civ \<Rightarrow> ('d icom_priv_data, ptt_t) getter" where
  "icom_get_ptt C vfo ptt = do {
     r \<leftarrow> ask_octet C C_CTL_PTT S_PTT;
     State_Monad.return (case r of Inl rc \<Rightarrow> (rc, ptt)
                         | Inr b \<Rightarrow> (RIG_OK, if b = 1 then RIG_PTT_ON else RIG_PTT_OFF))
   }"

definition icom_get_dcd :: "'d civ \<Rightarrow> ('d icom_priv_data, dcd_t) getter" where
  "icom_get_dcd C vfo dcd = do {
     r \<leftarrow> ask_octet C C_RD_SQSM S_SQL;
     State_Monad.return (case r of Inl rc \<Rightarrow> (rc, dcd)
                         | Inr b \<Rightarrow> (RIG_OK, if b = 1 then RIG_DCD_ON else RIG_DCD_OFF))
   }"

subsection \<open>Which VFO is selected\<close>

text \<open>
  An Icom radio cannot be asked. The frequencies of two VFOs tell them apart; when they are equal, the
  current one is moved by 100 Hz for the time being, once in the life of a handle.
\<close>

definition probe_vfo :: "'d icom_caps \<Rightarrow> 'd icom_ports \<Rightarrow> freq_t \<Rightarrow> freq_t \<Rightarrow> ('d icom_rig, vfo_t) state" where
  "probe_vfo caps P fcurr f2 = do {
     rig \<leftarrow> gets id;
     if fcurr = f2 \<and> vfo_flag (priv rig) then State_Monad.return (current_vfo rig)
     else do {
       let offset = (if fcurr = f2 then 100 else 0);
       _ \<leftarrow> do_when (fcurr = f2) (upd_icom (\<lambda>p. p\<lparr>vfo_flag := True\<rparr>));
       _ \<leftarrow> (if fcurr = f2 then rig_set_freq caps P RIG_VFO_CURR (fcurr + offset) else State_Monad.return RIG_OK);
       chk \<leftarrow> gets (\<lambda>rig. if current_vfo rig = RIG_VFO_B then RIG_VFO_B else RIG_VFO_A);
       _ \<leftarrow> rig_set_vfo caps P chk;
       (_, f3) \<leftarrow> rig_get_freq caps P RIG_VFO_CURR (junk_freq P);
       let other = (if chk = RIG_VFO_A then RIG_VFO_B else RIG_VFO_A);
       _ \<leftarrow> (if f3 = fcurr + offset then State_Monad.return RIG_OK else rig_set_vfo caps P other);
       _ \<leftarrow> (if offset \<noteq> 0 then rig_set_freq caps P RIG_VFO_CURR fcurr else State_Monad.return RIG_OK);
       State_Monad.return (if f3 = fcurr + offset then chk else other)
     }
   }"

definition icom_current_vfo_x25 :: "'d icom_caps \<Rightarrow> 'd icom_ports \<Rightarrow> ('d icom_rig, vfo_t) state" where
  "icom_current_vfo_x25 caps P = do {
     (_, fcurr) \<leftarrow> rig_get_freq caps P RIG_VFO_CURR (junk_freq P);
     (_, f2) \<leftarrow> rig_get_freq caps P RIG_VFO_OTHER (junk_freq P);
     probe_vfo caps P fcurr f2
   }"

text \<open>An error of the exchange is returned as if it were a VFO.\<close>

definition icom_current_vfo :: "'d civ \<Rightarrow> 'd icom_caps \<Rightarrow> 'd icom_ports \<Rightarrow> ('d icom_rig, vfo_t) state" where
  "icom_current_vfo C caps P = do {
     rig \<leftarrow> gets id;
     if \<not> x25cmdfails (priv rig) then icom_current_vfo_x25 caps P
     else if c_ptt (cache rig) \<noteq> RIG_PTT_OFF then State_Monad.return (current_vfo rig)
     else if no_xchg (priv rig) \<or> rig_has_vfo_op caps RIG_OP_XCHG = 0
     then do { _ \<leftarrow> rig_set_vfo caps P RIG_VFO_A; State_Monad.return RIG_VFO_A }
     else do {
       (_, fcurr) \<leftarrow> rig_get_freq caps P RIG_VFO_CURR (junk_freq P);
       rc \<leftarrow> icom_vfo_op C RIG_VFO_NONE RIG_OP_XCHG;
       if rc \<noteq> RIG_OK then State_Monad.return (word_of_int rc)
       else do {
         (_, f2) \<leftarrow> rig_get_freq caps P RIG_VFO_CURR (junk_freq P);
         rc2 \<leftarrow> icom_vfo_op C RIG_VFO_NONE RIG_OP_XCHG;
         if rc2 \<noteq> RIG_OK then State_Monad.return (word_of_int rc2)
         else probe_vfo caps P fcurr f2
       }
     }
   }"

subsection \<open>Echo, opening, power\<close>

text \<open>
  Is there an echo? A command is sent as if there were none; an answer of one octet is then the echo, and
  the true reply is read into a buffer of 16 octets.
\<close>

definition icom_get_usb_echo_off :: "'d civ \<Rightarrow> 'd icom_call" where
  "icom_get_usb_echo_off C = do {
     _ \<leftarrow> upd_icom (\<lambda>p. p\<lparr>serial_USB_echo_off := True\<rparr>);
     (retval, ack) \<leftarrow> icom_transaction C C_RD_FREQ (- 1) [] True;
     if length ack = 0 \<and> retval = - RIG_ETIMEOUT then State_Monad.return retval
     else if length ack = 1
     then do {
       _ \<leftarrow> upd_icom (\<lambda>p. p\<lparr>serial_USB_echo_off := False\<rparr>);
       (n, _) \<leftarrow> read_icom_frame C 16;
       State_Monad.return (if n \<le> 0 then - RIG_ETIMEOUT else 0)
     }
     else State_Monad.return 1
   }"

definition set_retry :: "int \<Rightarrow> ('d icom_rig, unit) state" where
  "set_retry n = upd_icom (\<lambda>p. p\<lparr>rigport_retry := n\<rparr>)"

text \<open>One round of waiting for a radio to wake up; \<open>Inl\<close>: it has, and the function returns.\<close>

definition wake_round :: "'d civ \<Rightarrow> 'd icom_caps \<Rightarrow> 'd icom_ports \<Rightarrow> ('d icom_rig, int + int) state" where
  "wake_round C caps P = do {
     retval \<leftarrow> icom_get_usb_echo_off C;
     if retval = - RIG_ETIMEOUT then State_Monad.return (Inr retval)
     else do {
       (rc, _) \<leftarrow> rig_get_freq caps P RIG_VFO_CURR (junk_freq P);
       if rc = RIG_OK
       then do {
         vfo \<leftarrow> icom_current_vfo C caps P;
         _ \<leftarrow> modify (\<lambda>rig. rig\<lparr>current_vfo := vfo\<rparr>);
         State_Monad.return (Inl rc)
       }
       else State_Monad.return (Inr rc)
     }
   }"

fun wake_rounds ::
  "'d civ \<Rightarrow> 'd icom_caps \<Rightarrow> 'd icom_ports \<Rightarrow> nat \<Rightarrow> ('d icom_rig, int + int) state" where
  "wake_rounds C caps P 0 = State_Monad.return (Inr (- RIG_ETIMEOUT))"
| "wake_rounds C caps P (Suc n) = do {
     r \<leftarrow> wake_round C caps P;
     case r of Inl rc \<Rightarrow> State_Monad.return (Inl rc) | Inr _ \<Rightarrow> wake_rounds C caps P n
   }"

text \<open>
  \<^verbatim>\<open>icom_set_powerstat\<close>. Retries are off while it runs; on the way out through a radio that has
  woken up they are not switched on again.
\<close>

definition icom_set_powerstat :: "'d civ \<Rightarrow> 'd icom_caps \<Rightarrow> 'd icom_ports \<Rightarrow> int \<Rightarrow> 'd icom_call" where
  "icom_set_powerstat C caps P status = do {
     retry_save \<leftarrow> gets (\<lambda>rig. rigport_retry (priv rig));
     _ \<leftarrow> set_retry 0;
     if status = 1
     then do {
       _ \<leftarrow> pause_for C 1000000;
       _ \<leftarrow> on_port (write_block (radio C) (replicate 175 PR));
       _ \<leftarrow> upd_icom (\<lambda>p. p\<lparr>serial_USB_echo_off := True\<rparr>);
       _ \<leftarrow> icom_transaction C C_SET_PWR S_PWR_ON [] True;
       r \<leftarrow> wake_rounds C caps P 3;
       case r of
         Inl rc \<Rightarrow> State_Monad.return rc
       | Inr rc \<Rightarrow> do { _ \<leftarrow> set_retry retry_save; State_Monad.return rc }
     }
     else do {
       (retval, ack) \<leftarrow> icom_transaction C C_SET_PWR S_PWR_OFF [] True;
       _ \<leftarrow> set_retry retry_save;
       State_Monad.return
         (if retval \<noteq> RIG_OK then retval
          else if status = 0 \<and> (length ack \<noteq> 1 \<or> octet ack 0 \<noteq> ACK) then - RIG_ERJCTED
          else RIG_OK)
     }
   }"

subsection \<open>Setting up, opening and closing\<close>

text \<open>\<^verbatim>\<open>icom_init\<close>, on a port \<open>l\<close> that is open: the memory is cleared first, then some fields are
  set. A scope without a line length is refused.\<close>

definition zero_scope :: "int \<Rightarrow> icom_spectrum_scope_cache" where
  "zero_scope n = \<lparr>spectrum_metadata_valid = False, spectrum_mode = RIG_SPECTRUM_MODE_NONE,
     spectrum_center_freq = 0, spectrum_span_freq = 0, spectrum_low_edge_freq = 0, spectrum_high_edge_freq = 0,
     spectrum_data_length = 0, spectrum_data = replicate (nat n) 0\<rparr>"

definition zero_priv :: "'d line \<Rightarrow> int \<Rightarrow> int \<Rightarrow> bool \<Rightarrow> bool \<Rightarrow> 'd icom_priv_data" where
  "zero_priv l timeout retry on off = \<lparr>re_civ_addr = 0, civ_731_mode = False, no_xchg = False,
     no_1a_03_cmd = ENUM_1A_03_UNK, split_on = False, serial_USB_echo_off = False, curr_freq = 0, main_freq = 0,
     sub_freq = 0, maina_freq = 0, mainb_freq = 0, suba_freq = 0, subb_freq = 0, vfoa_freq = 0, vfob_freq = 0,
     other_freq = 0, x25cmdfails = False, x1cx03cmdfails = False, filter_sel = 0, poweron = False,
     vfo_flag = False, sat_rx_vfo = 0, sat_tx_vfo = 0, scopes = [], rigport = l, rigport_timeout = timeout,
     rigport_retry = retry, auto_power_on = on, auto_power_off = off\<rparr>"

definition icom_init :: "'d civ \<Rightarrow> 'd icom_call" where
  "icom_init C = do {
     rig \<leftarrow> gets id;
     let p = zero_priv (rigport (priv rig)) (rigport_timeout (priv rig)) (rigport_retry (priv rig))
               (auto_power_on (priv rig)) (auto_power_off (priv rig));
     if 0 < scope_count C \<and> spectrum_line_length C < 1
     then do { _ \<leftarrow> upd_icom (\<lambda>_. p); State_Monad.return (- RIG_ECONF) }
     else do {
       _ \<leftarrow> upd_icom (\<lambda>_. p\<lparr>scopes := replicate (scope_count C) (zero_scope (spectrum_line_length C)),
              re_civ_addr := civ_addr C, civ_731_mode := civ_731 C, no_xchg := civ_no_xchg C,
              sat_tx_vfo := RIG_VFO_NONE, sat_rx_vfo := RIG_VFO_NONE,
              filter_sel := word_of_int RIG_PASSBAND_NOCHANGE, x25cmdfails := False, x1cx03cmdfails := False\<rparr>);
       _ \<leftarrow> modify (\<lambda>rig. rig\<lparr>current_vfo := RIG_VFO_NONE\<rparr>);
       State_Monad.return RIG_OK
     }
   }"

text \<open>From the label \<^verbatim>\<open>retry_open\<close>: the echo, then the current VFO, then the frequency.\<close>

definition icom_open_attempt :: "'d civ \<Rightarrow> 'd icom_caps \<Rightarrow> 'd icom_ports \<Rightarrow> 'd icom_call" where
  "icom_open_attempt C caps P = do {
     retval_echo \<leftarrow> icom_get_usb_echo_off C;
     if retval_echo = 0 \<or> retval_echo = 1
     then do {
       _ \<leftarrow> set_retry 0;
       vfo \<leftarrow> icom_current_vfo C caps P;
       _ \<leftarrow> modify (\<lambda>rig. rig\<lparr>current_vfo := vfo\<rparr>);
       (retval, _) \<leftarrow> rig_get_freq caps P RIG_VFO_CURR (junk_freq P);
       State_Monad.return retval
     }
     else State_Monad.return retval_echo
   }"

text \<open>Switching on. \<open>Inl\<close>: an early return, whose code \<^verbatim>\<open>abs\<close> has made positive.\<close>

definition icom_open_power :: "'d civ \<Rightarrow> 'd icom_caps \<Rightarrow> int \<Rightarrow> ('d icom_rig, int + int) state" where
  "icom_open_power C caps retry_save = do {
     rc \<leftarrow> rig_set_powerstat caps 1;
     let retval = \<bar>rc\<bar>;
     if retval \<noteq> RIG_OK
     then do {
       _ \<leftarrow> set_retry retry_save;
       State_Monad.return (Inl (if retval = RIG_ENIMPL \<or> retval = RIG_ENAVAIL then - RIG_ECONF else retval))
     }
     else do {
       retval_echo \<leftarrow> icom_get_usb_echo_off C;
       if retval_echo \<noteq> 0 \<and> retval_echo \<noteq> 1
       then do { _ \<leftarrow> set_retry retry_save; State_Monad.return (Inl retval_echo) }
       else State_Monad.return (Inr retval)
     }
   }"

fun icom_open_tries :: "'d civ \<Rightarrow> 'd icom_caps \<Rightarrow> 'd icom_ports \<Rightarrow> int \<Rightarrow> nat \<Rightarrow> ('d icom_rig, int + int) state" where
  "icom_open_tries C caps P retry_save retry_flag = do {
     retval \<leftarrow> icom_open_attempt C caps P;
     rig \<leftarrow> gets id;
     if retval \<noteq> RIG_OK \<and> \<not> poweron (priv rig) \<and> auto_power_on (priv rig)
     then icom_open_power C caps retry_save
     else if retval \<noteq> RIG_OK
     then (case retry_flag of
         Suc k \<Rightarrow> do { _ \<leftarrow> pause_for C (500 * 1000); icom_open_tries C caps P retry_save k }
       | 0 \<Rightarrow> do { _ \<leftarrow> set_retry retry_save; State_Monad.return (Inr retval) })
     else State_Monad.return (Inr retval)
   }"

declare icom_open_tries.simps [simp del]

text \<open>After the attempts; whatever they said, the result is \<^verbatim>\<open>RIG_OK\<close>.\<close>

definition icom_open_end :: "'d civ \<Rightarrow> 'd icom_caps \<Rightarrow> 'd icom_ports \<Rightarrow> int \<Rightarrow> int \<Rightarrow> 'd icom_call" where
  "icom_open_end C caps P retry_save retval = do {
     _ \<leftarrow> upd_icom (\<lambda>p. p\<lparr>poweron := (retval = RIG_OK)\<rparr>);
     _ \<leftarrow> (if retval = RIG_OK then do {
             vfo \<leftarrow> icom_current_vfo C caps P;
             modify (\<lambda>rig. rig\<lparr>current_vfo := vfo\<rparr>)
           } else State_Monad.return ());
     _ \<leftarrow> (if cap_has_get_func caps AND RIG_FUNC_SATMODE \<noteq> 0 then do {
             (rc, sat) \<leftarrow> rig_get_func caps RIG_VFO_CURR RIG_FUNC_SATMODE 0;
             _ \<leftarrow> modify (on_cache (\<lambda>t c. c\<lparr>satmode := sat \<noteq> 0\<rparr>));
             do_when (rc = RIG_OK) (upd_icom (\<lambda>p. p\<lparr>sat_rx_vfo := RIG_VFO_MAIN,
               sat_tx_vfo := (if sat \<noteq> 0 then RIG_VFO_SUB else RIG_VFO_MAIN)\<rparr>))
           } else State_Monad.return ());
     _ \<leftarrow> set_retry retry_save;
     State_Monad.return RIG_OK
   }"

definition icom_rig_open :: "'d civ \<Rightarrow> 'd icom_caps \<Rightarrow> 'd icom_ports \<Rightarrow> 'd icom_call" where
  "icom_rig_open C caps P = do {
     retry_save \<leftarrow> gets (\<lambda>rig. rigport_retry (priv rig));
     _ \<leftarrow> set_retry 0;
     _ \<leftarrow> upd_icom (\<lambda>p. p\<lparr>no_1a_03_cmd := ENUM_1A_03_UNK\<rparr>);
     r \<leftarrow> icom_open_tries C caps P retry_save 1;
     case r of Inl rc \<Rightarrow> State_Monad.return rc | Inr retval \<Rightarrow> icom_open_end C caps P retry_save retval
   }"

definition icom_rig_close :: "'d icom_caps \<Rightarrow> 'd icom_call" where
  "icom_rig_close caps = do {
     p \<leftarrow> gets priv;
     if poweron p \<and> auto_power_off p
     then do {
       rc \<leftarrow> rig_set_powerstat caps 0;
       State_Monad.return (if \<bar>rc\<bar> \<in> {RIG_OK, RIG_ENIMPL, RIG_ENAVAIL} then RIG_OK else \<bar>rc\<bar>)
     }
     else State_Monad.return RIG_OK
   }"

subsection \<open>The table of functions\<close>

text \<open>
  What a model of the family puts into its \<^verbatim>\<open>rig_caps\<close>. The functions are given a table in turn,
  through which the front end calls them; \<open>n\<close> is how deep that goes. Only some models can be switched on
  and off; \<^verbatim>\<open>icom_get_vfo\<close> is defined as \<^verbatim>\<open>NULL\<close>.
\<close>

primrec icom_table :: "'d civ \<Rightarrow> 'd icom_caps \<Rightarrow> 'd icom_ports \<Rightarrow> nat \<Rightarrow> 'd icom_caps" where
  "icom_table C base P 0 = base"
| "icom_table C base P (Suc n) = base
     \<lparr>set_freq := Some (icom_set_freq C (icom_table C base P n) P),
      get_freq := Some (icom_get_freq C (icom_table C base P n) P),
      set_vfo := Some (icom_set_vfo C), cap_vfo_op := Some (icom_vfo_op C),
      set_ptt := Some (icom_set_ptt C), get_ptt := Some (icom_get_ptt C), get_dcd := Some (icom_get_dcd C),
      set_powerstat := (if set_powerstat base = None then None
                        else Some (icom_set_powerstat C (icom_table C base P n) P))\<rparr>"

lemma icom_table_caps [simp]:
  "rig_model (icom_table C base P n) = rig_model base"
  "targetable (icom_table C base P n) k = targetable base k"
  by (induction n) (simp_all add: targetable_def)

lemma icom_table_ops [simp]:
  "set_freq (icom_table C base P (Suc n)) = Some (icom_set_freq C (icom_table C base P n) P)"
  "get_freq (icom_table C base P (Suc n)) = Some (icom_get_freq C (icom_table C base P n) P)"
  by simp_all

declare icom_table.simps(2) [simp del]

subsection \<open>What reading and setting do to the private data\<close>

lemma remember_keeps [simp]:
  "rigport (remember_read v f p) = rigport p" "re_civ_addr (remember_read v f p) = re_civ_addr p"
  "serial_USB_echo_off (remember_read v f p) = serial_USB_echo_off p"
  "x25cmdfails (remember_read v f p) = x25cmdfails p" "civ_731_mode (remember_read v f p) = civ_731_mode p"
  "rigport (remember_set v f p) = rigport p" "re_civ_addr (remember_set v f p) = re_civ_addr p"
  "serial_USB_echo_off (remember_set v f p) = serial_USB_echo_off p"
  "x25cmdfails (remember_set v f p) = x25cmdfails p" "civ_731_mode (remember_set v f p) = civ_731_mode p"
  by (simp_all add: remember_read_def remember_set_def Let_def if_distrib [of rigport]
      if_distrib [of re_civ_addr] if_distrib [of serial_USB_echo_off] if_distrib [of x25cmdfails]
      if_distrib [of civ_731_mode] cong: if_cong split del: if_split)

lemma only_line_keeps:
  "only_line rig rig' \<Longrightarrow> same_setup rig rig' \<and> cache rig' = cache rig
    \<and> re_civ_addr (priv rig') = re_civ_addr (priv rig)
    \<and> serial_USB_echo_off (priv rig') = serial_USB_echo_off (priv rig)
    \<and> x25cmdfails (priv rig') = x25cmdfails (priv rig) \<and> civ_731_mode (priv rig') = civ_731_mode (priv rig)"
  by (auto simp: only_line_def same_setup_def)

lemma bcd_of_nat: "bcd_of_freq (real n) 5 = freq_octets n"
  by (simp add: bcd_of_freq_def freq_octets_def c_trunc_def)

text \<open>A frequency in the answer to \<^verbatim>\<open>0x25\<close>.\<close>

lemma freq_of_x25: "n < 10 ^ 10 \<Longrightarrow> freq_of_reply 5 (C_SEND_SEL_FREQ # sub # freq_octets n) 2 = Some (real n)"
  using bcd_at_freq [of n "[C_SEND_SEL_FREQ, sub]" "[]"]
  by (simp add: freq_of_reply_def numeral_2_eq_2)

text \<open>The selected VFO is always asked for by sub-command 0.\<close>

lemma x25_selected [simp]: "x25_subcmd cv cv = 0" "x25_subcmd cv RIG_VFO_CURR = 0"
  by (auto simp: x25_subcmd_def other_side_def vfo_defs Let_def)

lemma get_tx_other [simp]: "vfo \<noteq> RIG_VFO_TX \<Longrightarrow> get_tx_freq C vfo = State_Monad.return (Inr (vfo, C_RD_FREQ, - 1))"
  by (simp add: get_tx_freq_def)

lemma get_freq_x25_run:
  assumes "vfo \<notin> {RIG_VFO_TX, RIG_VFO_MEM, RIG_VFO_NONE}" and "\<not> x25cmdfails (priv rig)"
    and "run_state (icom_transaction C C_SEND_SEL_FREQ (x25_subcmd (current_vfo rig) vfo) [] True) rig
      = ((RIG_OK, C_SEND_SEL_FREQ # sub # freq_octets n), rig1)" and "n < 10 ^ 10"
  shows "run_state (icom_get_freq C caps P vfo x) rig
      = ((RIG_OK, real n), rig1\<lparr>priv := remember_read vfo (real n) (priv rig1)\<rparr>)"
  using assms(1-3) freq_of_x25 [OF assms(4)]
  by (simp add: icom_get_freq_def ask_freq_def run_state_bind Let_def)

subsection \<open>Finding out about the echo\<close>

lemma rd_freq_frame:
  "command C rig C_RD_FREQ (- 1) [] = reply_frame (re_civ_addr (priv rig))
     (if \<not> serial_full_duplex C then CTRLID else 0x80) [C_RD_FREQ]"
  by (simp add: command_def make_cmd_frame_def reply_frame_def)

lemma rd_freq_proper:
  "re_civ_addr (priv rig) \<notin> {FI, COL, BCASTID} \<Longrightarrow>
   proper_reply (re_civ_addr (priv rig)) (if \<not> serial_full_duplex C then CTRLID else 0x80) [C_RD_FREQ]"
  by (auto simp: proper_reply_def civ_defs MAXFRAMELEN_def)

text \<open>C7: finding out whether the line echoes. Whatever the back end believed before, after
  \<^verbatim>\<open>icom_get_usb_echo_off\<close> it knows: on a line that gives the command back before the radio's reply the
  result is 0 and the flag is cleared, on any other it is 1 and set, and in both cases both frames are taken
  off the line. But the reply after the echo is read into 16 octets, by a function that clears and fills up to
  200 of them: the probe of an echoing line writes past the end of its buffer.\<close>

theorem echo_probe:
  assumes "usable (line_of rig)" and "stale (line_of rig)" and "re_civ_addr (priv rig) \<notin> {FI, COL, BCASTID}"
    and "proper_reply a b (C_RD_FREQ # data)" and "data \<noteq> []"
    and "reply_of (radio C) (command C rig C_RD_FREQ (- 1) []) (device (line_of rig))
      = (map Octet ((if looped then command C rig C_RD_FREQ (- 1) [] else []) @ reply_frame a b (C_RD_FREQ # data)), d')"
  shows "\<exists>rig'. run_state (icom_get_usb_echo_off C) rig = (if looped then 0 else 1, rig')
    \<and> serial_USB_echo_off (priv rig') = (\<not> looped)
    \<and> incoming (line_of rig') = [] \<and> device (line_of rig') = d'
    \<and> overrun (line_of rig') = (overrun (line_of rig) \<or> looped)"
proof -
  let ?rig0 = "rig\<lparr>priv := (priv rig)\<lparr>serial_USB_echo_off := True\<rparr>\<rparr>"
  let ?tx = "command C rig C_RD_FREQ (- 1) []" and ?ans = "reply_frame a b (C_RD_FREQ # data)"
  have l0: "line_of ?rig0 = line_of rig" "?tx = command C ?rig0 C_RD_FREQ (- 1) []" "echo_of C ?rig0 xs = []" for xs
    by (simp_all add: line_of_def command_def echo_of_def)
  have whole: "whole_frame ?tx"
    unfolding rd_freq_frame by (rule reply_whole [OF rd_freq_proper [OF assms(3)]])
  note go = full_transaction_delivers [of ?rig0, unfolded l0(1), OF assms(1,2) l0(2) whole]
  show ?thesis
  proof (cases looped)
    case True
    let ?ctrl = "if \<not> serial_full_duplex C then CTRLID else 0x80"
    have "reply_of (radio C) ?tx (device (line_of rig)) = (map Octet (echo_of C ?rig0 ?tx
        @ reply_frame (re_civ_addr (priv rig)) ?ctrl [C_RD_FREQ]) @ map Octet ?ans, d')"
      using assms(6) True by (simp add: l0(3) rd_freq_frame)
    from go [OF this rd_freq_proper [OF assms(3)]] obtain r1 where r1:
      "run_state (icom_transaction C C_RD_FREQ (- 1) [] True) ?rig0 = ((RIG_OK, [C_RD_FREQ]), r1)"
      "incoming (line_of r1) = map Octet ?ans" "device (line_of r1) = d'" "usable (line_of r1)"
      "overrun (line_of r1) = overrun (line_of rig)"
      by (auto simp: civ_defs)
    let ?r2 = "r1\<lparr>priv := (priv r1)\<lparr>serial_USB_echo_off := False\<rparr>\<rparr>"
    have l2: "line_of ?r2 = line_of r1" by (simp add: line_of_def)
    have "incoming (line_of ?r2) = map Octet ?ans @ []" "usable (line_of ?r2)" using r1 by (simp_all add: l2)
    from run_read_frame_into [OF reply_whole [OF assms(4)] this, of C 16] obtain r3 where r3:
      "run_state (read_icom_frame C 16) ?r2 = ((int (length ?ans), ?ans), r3)" "only_line ?r2 r3"
      "incoming (line_of r3) = []" "same_port (line_of r1) (line_of r3)"
      "overrun (line_of r3) = (overrun (line_of r1) \<or> 16 < MAXFRAMELEN)" by (auto simp: l2)
    have "run_state (icom_get_usb_echo_off C) rig = (0, r3)"
      using r1(1) r3(1) by (simp add: icom_get_usb_echo_off_def run_state_bind reply_frame_def)
    then show ?thesis
      using True r1 r3 line_of_only [OF r3(2)] by (auto simp: same_port_eq MAXFRAMELEN_def)
  next
    case False
    have "reply_of (radio C) ?tx (device (line_of rig)) = (map Octet (echo_of C ?rig0 ?tx @ ?ans) @ [], d')"
      using assms(6) False by (simp add: l0(3))
    from go [OF this assms(4)] obtain r1 where r1:
      "run_state (icom_transaction C C_RD_FREQ (- 1) [] True) ?rig0 = ((RIG_OK, C_RD_FREQ # data), r1)"
      "only_line ?rig0 r1" "incoming (line_of r1) = []" "device (line_of r1) = d'"
      "overrun (line_of r1) = overrun (line_of rig)"
      using assms(5) by (auto simp: civ_defs)
    have "run_state (icom_get_usb_echo_off C) rig = (1, r1)"
      using r1(1) assms(5) by (simp add: icom_get_usb_echo_off_def run_state_bind)
    then show ?thesis using False r1 line_of_only [OF r1(2)] by auto
  qed
qed

subsection \<open>Opening a radio that is not there\<close>

lemma echo_probe_silent:
  assumes "usable (line_of rig)" and "stale (line_of rig)" and "silent (radio C)" and "rigport_retry (priv rig) = 0"
  shows "\<exists>rig'. run_state (icom_get_usb_echo_off C) rig = (- RIG_ETIMEOUT, rig')
    \<and> only_line (rig\<lparr>priv := (priv rig)\<lparr>serial_USB_echo_off := True\<rparr>\<rparr>) rig'
    \<and> device (line_of rig') = snd (reply_of (radio C) (command C rig C_RD_FREQ (- 1) []) (device (line_of rig)))
    \<and> usable (line_of rig') \<and> incoming (line_of rig') = []"
proof -
  let ?rig0 = "rig\<lparr>priv := (priv rig)\<lparr>serial_USB_echo_off := True\<rparr>\<rparr>"
  let ?tx = "command C rig C_RD_FREQ (- 1) []"
  have l0: "line_of ?rig0 = line_of rig" "?tx = command C ?rig0 C_RD_FREQ (- 1) []" "echo_of C ?rig0 [PR] = []"
    "length ?tx \<le> MAXFRAMELEN"
    by (simp_all add: line_of_def command_def echo_of_def make_cmd_frame_def MAXFRAMELEN_def)
  obtain r1 where r1: "run_state (icom_tries C (icom_one_transaction C C_RD_FREQ (- 1) [] True) 0) ?rig0
      = ((- RIG_ETIMEOUT, []), r1)" "only_line ?rig0 r1"
    "device (line_of r1) = hear (radio C) ?tx (Suc 0) (device (line_of rig))" "usable (line_of r1)" "incoming (line_of r1) = []"
    using tries_silent [of ?rig0 C ?tx C_RD_FREQ "- 1" "[]" 0] assms(1-3) l0 by auto
  have "run_state (icom_get_usb_echo_off C) rig = (- RIG_ETIMEOUT, r1)"
    using r1(1) assms(4) by (simp add: icom_get_usb_echo_off_def icom_transaction_def run_state_bind)
  then show ?thesis using r1 by auto
qed

lemma attempt_silent:
  assumes "usable (line_of rig)" and "stale (line_of rig)" and "silent (radio C)" and "rigport_retry (priv rig) = 0"
  shows "\<exists>rig'. run_state (icom_open_attempt C caps P) rig = (- RIG_ETIMEOUT, rig')
    \<and> only_line (rig\<lparr>priv := (priv rig)\<lparr>serial_USB_echo_off := True\<rparr>\<rparr>) rig'
    \<and> device (line_of rig') = snd (reply_of (radio C) (command C rig C_RD_FREQ (- 1) []) (device (line_of rig)))
    \<and> usable (line_of rig') \<and> stale (line_of rig')"
proof -
  have ne: "- RIG_ETIMEOUT \<noteq> 0" "- RIG_ETIMEOUT \<noteq> 1" by (simp_all add: RIG_ETIMEOUT_def)
  obtain r where r: "run_state (icom_get_usb_echo_off C) rig = (- RIG_ETIMEOUT, r)"
    "only_line (rig\<lparr>priv := (priv rig)\<lparr>serial_USB_echo_off := True\<rparr>\<rparr>) r"
    "device (line_of r) = snd (reply_of (radio C) (command C rig C_RD_FREQ (- 1) []) (device (line_of rig)))"
    "usable (line_of r)" "incoming (line_of r) = []"
    using echo_probe_silent [OF assms] by blast
  have "run_state (icom_open_attempt C caps P) rig = (- RIG_ETIMEOUT, r)"
    using r(1) ne by (simp add: icom_open_attempt_def run_state_bind)
  with r show ?thesis by (auto simp: stale_def)
qed

text \<open>C8: opening a radio that is off, of a model that has no satellite mode to ask for. When nothing answers on the
  line and the handle is not to switch the radio on by itself, \<^verbatim>\<open>icom_rig_open\<close> asks for the frequency twice, gets no answer, notes that the
  radio is not on, restores the number of retries, and returns \<^verbatim>\<open>RIG_OK\<close>.\<close>

theorem open_without_radio:
  assumes "usable (line_of rig)" and "stale (line_of rig)" and "silent (radio C)"
    and "\<not> auto_power_on (priv rig)" and "cap_has_get_func caps AND RIG_FUNC_SATMODE = 0"
  shows "\<exists>rig'. run_state (icom_rig_open C caps P) rig = (RIG_OK, rig')
    \<and> \<not> poweron (priv rig') \<and> rigport_retry (priv rig') = rigport_retry (priv rig)
    \<and> current_vfo rig' = current_vfo rig
    \<and> device (line_of rig') = hear (radio C) (command C rig C_RD_FREQ (- 1) []) 2 (device (line_of rig))"
proof -
  let ?tx = "command C rig C_RD_FREQ (- 1) []" and ?save = "rigport_retry (priv rig)"
  let ?r0 = "rig\<lparr>priv := (priv rig)\<lparr>rigport_retry := 0, no_1a_03_cmd := ENUM_1A_03_UNK\<rparr>\<rparr>"
  have l0: "line_of ?r0 = line_of rig" "command C ?r0 = command C rig"
    by (simp_all add: line_of_def command_def fun_eq_iff)
  have err: "- RIG_ETIMEOUT \<noteq> RIG_OK" by (simp add: RIG_ETIMEOUT_def RIG_OK_def)
  obtain r1 where r1: "run_state (icom_open_attempt C caps P) ?r0 = (- RIG_ETIMEOUT, r1)"
    "only_line (?r0\<lparr>priv := (priv ?r0)\<lparr>serial_USB_echo_off := True\<rparr>\<rparr>) r1"
    "device (line_of r1) = snd (reply_of (radio C) ?tx (device (line_of rig)))" "usable (line_of r1)" "stale (line_of r1)"
    using attempt_silent [of ?r0 C caps P] assms(1-3) by (auto simp: l0)
  let ?r1 = "r1\<lparr>now := after_sleep C (500 * 1000) (now r1)\<rparr>"
  have p0: "\<not> auto_power_on (priv r1)" using r1(2) assms(4) by (auto simp: only_line_def)
  have p1: "rigport_retry (priv ?r1) = 0" "\<not> auto_power_on (priv ?r1)" "current_vfo ?r1 = current_vfo rig"
    "command C ?r1 = command C rig" "line_of ?r1 = line_of r1"
    using r1(2) assms(4) by (auto simp: only_line_def command_def fun_eq_iff)
  obtain r2 where r2: "run_state (icom_open_attempt C caps P) ?r1 = (- RIG_ETIMEOUT, r2)"
    "only_line (?r1\<lparr>priv := (priv ?r1)\<lparr>serial_USB_echo_off := True\<rparr>\<rparr>) r2"
    "device (line_of r2) = snd (reply_of (radio C) ?tx (device (line_of r1)))"
    using attempt_silent [of ?r1 C caps P] r1(4,5) assms(3) p1 by auto
  have p2: "\<not> auto_power_on (priv r2)" "current_vfo r2 = current_vfo rig"
    using r2(2) p1(2,3) by (auto simp: only_line_def)
  have "run_state (icom_open_tries C caps P ?save 1) ?r0 = (Inr (- RIG_ETIMEOUT), r2\<lparr>priv := (priv r2)\<lparr>rigport_retry := ?save\<rparr>\<rparr>)"
    using r1(1) r2(1) err p2 p0
    by (simp add: icom_open_tries.simps run_state_bind set_retry_def)
  then have "run_state (icom_rig_open C caps P) rig
      = (RIG_OK, r2\<lparr>priv := (priv r2)\<lparr>rigport_retry := ?save, poweron := False\<rparr>\<rparr>)"
    using assms(5) err by (simp add: icom_rig_open_def icom_open_end_def run_state_bind set_retry_def)
  then show ?thesis
    using p2(2) r1(3) r2(3) by (simp add: line_of_def numeral_2_eq_2)
qed

text \<open>A radio on a line that echoes, at 14.074 MHz; its answer to any frame is its frequency.\<close>

definition looped_civ :: "unit civ" where
  "looped_civ = (bench_civ [])\<lparr>radio := (\<lambda>b d. (Octet b
     # (if b = FI then map Octet (reply_frame CTRLID 0x94 [C_RD_FREQ, 0x00, 0x40, 0x07, 0x14, 0x00]) else []), d))\<rparr>"

lemma bench_line: "line_of (bench_rig l) = l" "usable (fresh_line [] d)" "stale (fresh_line [] d)"
  "re_civ_addr (priv (bench_rig l)) = 0x94"
  by (simp_all add: line_of_def bench_rig_def fresh_line_def usable_def stale_def zero_rig_def)

lemma echo_probe_witness:
  "\<exists>rig'. run_state (icom_get_usb_echo_off looped_civ) (bench_rig (fresh_line [] ())) = (0, rig')
    \<and> \<not> serial_USB_echo_off (priv rig') \<and> overrun (line_of rig')"
proof -
  let ?rig = "bench_rig (fresh_line [] ())"
  have proper: "proper_reply CTRLID 0x94 [C_RD_FREQ, 0x00, 0x40, 0x07, 0x14, 0x00]"
    by (auto simp: proper_reply_def civ_defs MAXFRAMELEN_def octet_def)
  have "reply_of (radio looped_civ) (command looped_civ ?rig C_RD_FREQ (- 1) []) ()
      = (map Octet (command looped_civ ?rig C_RD_FREQ (- 1) []
          @ reply_frame CTRLID 0x94 [C_RD_FREQ, 0x00, 0x40, 0x07, 0x14, 0x00]), ())"
    by (simp add: looped_civ_def bench_civ_def command_def make_cmd_frame_def bench_line civ_defs reply_frame_def)
  then show ?thesis
    using echo_probe [of ?rig CTRLID "0x94" "[0x00, 0x40, 0x07, 0x14, 0x00]" looped_civ True] proper
    by (auto simp: bench_line civ_defs)
qed

lemma open_without_radio_witness:
  "fst (run_state (icom_rig_open (bench_civ []) no_caps dead_ports) (bench_rig (fresh_line [] ()))) = RIG_OK"
proof -
  let ?rig = "bench_rig (fresh_line [] ())"
  have "silent (radio (bench_civ []))" by (simp add: silent_def bench_civ_def)
  moreover have "\<not> auto_power_on (priv ?rig)" by (simp add: bench_rig_def zero_rig_def)
  moreover have "cap_has_get_func (no_caps :: unit icom_caps) AND RIG_FUNC_SATMODE = 0" by (simp add: no_caps_def)
  ultimately show ?thesis
    using open_without_radio [of ?rig "bench_civ []" no_caps dead_ports] by (auto simp: bench_line)
qed

end
