(* ===== verification/Hamlib_Icom_Stack.thy ===== *)
theory Hamlib_Icom_Stack
  imports Hamlib_Icom
begin

text \<open>
  The stack above an Icom radio: \<^verbatim>\<open>src/rig.c\<close> over \<^verbatim>\<open>rigs/icom/icom.c\<close> over
  \<^verbatim>\<open>rigs/icom/frame.c\<close> over \<^verbatim>\<open>src/iofunc.c\<close>. The locale \<open>civ_radio\<close> is what the back end relies on
  in the radio at the other end of the line, in octets; from it follows the contract \<open>tuner\<close>, which is what
  the front end relies on in the back end.
\<close>

subsection \<open>What the radio must do\<close>

text \<open>
  \<open>at_vfo cv d\<close>: the radio has VFO \<open>cv\<close> selected and waits for a command; \<open>dial cv d\<close> is its frequency;
  \<open>echo\<close>: the line repeats what is sent on it. The model is one whose frequency can only be set on the
  selected VFO.
\<close>

definition civ_command :: "'d civ \<Rightarrow> u8 \<Rightarrow> u8 \<Rightarrow> int \<Rightarrow> u8 list \<Rightarrow> u8 list" where
  "civ_command C addr cmd subcmd payload =
     make_cmd_frame addr (if \<not> serial_full_duplex C then CTRLID else 0x80) cmd subcmd payload"

definition civ_echo :: "'d civ \<Rightarrow> bool \<Rightarrow> u8 list \<Rightarrow> u8 list" where
  "civ_echo C echo tx = (if \<not> serial_full_duplex C \<and> echo then tx else [])"

text \<open>The radio answers \<open>tx\<close> with \<open>data\<close>, and is then in state \<open>d'\<close>.\<close>

definition civ_answers ::
  "'d civ \<Rightarrow> bool \<Rightarrow> u8 list \<Rightarrow> 'd \<Rightarrow> u8 list \<Rightarrow> 'd \<Rightarrow> bool" where
  "civ_answers C echo tx d data d' \<longleftrightarrow> (\<exists>a b. proper_reply a b data
     \<and> reply_of (radio C) tx d = (map Octet (civ_echo C echo tx @ reply_frame a b data), d'))"

locale civ_radio =
  fixes C :: "'d civ" and base :: "'d icom_caps" and P :: "'d icom_ports" and addr :: u8 and echo :: bool
    and at_vfo :: "vfo_t \<Rightarrow> 'd \<Rightarrow> bool" and dial :: "vfo_t \<Rightarrow> 'd \<Rightarrow> nat" and settable :: "nat \<Rightarrow> bool"
  assumes one_vfo: "\<not> targetable base RIG_TARGETABLE_FREQ"
    and addr_octet: "addr \<notin> {FI, COL}"
    and plain_vfo: "at_vfo cv d \<Longrightarrow> cv \<notin> {RIG_VFO_TX, RIG_VFO_MEM, RIG_VFO_NONE}"
    and dial_digits: "at_vfo cv d \<Longrightarrow> dial cv d < 10 ^ 10"
    and settable_range: "settable n \<Longrightarrow> 0 < n \<and> n < 10 ^ 10"
    and tells_freq: "at_vfo cv d \<Longrightarrow>
      \<exists>d'. civ_answers C echo (civ_command C addr C_SEND_SEL_FREQ 0 []) d
          (C_SEND_SEL_FREQ # 0 # freq_octets (dial cv d)) d' \<and> at_vfo cv d' \<and> dial cv d' = dial cv d"
    and takes_freq: "at_vfo cv d \<Longrightarrow> settable n \<Longrightarrow>
      \<exists>d'. civ_answers C echo (civ_command C addr C_SET_FREQ (- 1) (freq_octets n)) d [ACK] d'
        \<and> at_vfo cv d' \<and> dial cv d' = n"

text \<open>The handle is ready when the line is quiet and the back end has found out how the radio talks.\<close>

definition civ_ready :: "u8 \<Rightarrow> bool \<Rightarrow> (vfo_t \<Rightarrow> 'd \<Rightarrow> bool) \<Rightarrow> vfo_t \<Rightarrow> 'd icom_priv_data \<Rightarrow> bool" where
  "civ_ready addr echo at_vfo cv p \<longleftrightarrow> usable (rigport p) \<and> incoming (rigport p) = []
     \<and> at_vfo cv (device (rigport p)) \<and> re_civ_addr p = addr \<and> (serial_USB_echo_off p \<longleftrightarrow> \<not> echo)
     \<and> \<not> x25cmdfails p \<and> \<not> civ_731_mode p"

definition civ_tuned :: "(vfo_t \<Rightarrow> 'd \<Rightarrow> nat) \<Rightarrow> vfo_t \<Rightarrow> 'd icom_priv_data \<Rightarrow> freq_t" where
  "civ_tuned dial cv p = real (dial cv (device (rigport p)))"

definition tunable_freq :: "(nat \<Rightarrow> bool) \<Rightarrow> freq_t \<Rightarrow> bool" where
  "tunable_freq settable f \<longleftrightarrow> f = real (nat \<lfloor>f\<rfloor>) \<and> settable (nat \<lfloor>f\<rfloor>)"

lemma command_whole:
  assumes "addr \<notin> {FI, COL}" and "cmd \<notin> {FI, COL}" and "sub \<in> {- 1, 0}" and "{FI, COL} \<inter> set payload = {}"
    and "length payload < 100"
  shows "whole_frame (civ_command C addr cmd sub payload)"
  using assms
  by (auto simp: whole_frame_def civ_command_def make_cmd_frame_def subcmd_octet civ_defs MAXFRAMELEN_def
      butlast_append)

subsection \<open>One exchange with such a radio\<close>

lemma civ_exchange:
  assumes "civ_ready addr echo at_vfo cv (priv rig)" and "whole_frame (civ_command C addr cmd sub payload)"
    and "civ_answers C echo (civ_command C addr cmd sub payload) (device (rigport (priv rig))) data d'"
    and "at_vfo cv d'" and "data \<noteq> [NAK]"
  shows "\<exists>rig'. run_state (icom_transaction C cmd sub payload True) rig = ((RIG_OK, data), rig')
    \<and> only_line rig rig' \<and> device (rigport (priv rig')) = d' \<and> civ_ready addr echo at_vfo cv (priv rig')"
proof -
  let ?tx = "civ_command C addr cmd sub payload"
  obtain a b where ab: "proper_reply a b data"
    "reply_of (radio C) ?tx (device (line_of rig)) = (map Octet (civ_echo C echo ?tx @ reply_frame a b data) @ [], d')"
    using assms(3) by (auto simp: civ_answers_def line_of_def)
  have line: "usable (line_of rig)" "stale (line_of rig)" "?tx = command C rig cmd sub payload"
    "civ_echo C echo ?tx = echo_of C rig ?tx"
    using assms(1) by (auto simp: civ_ready_def line_of_def stale_def civ_command_def command_def
        civ_echo_def echo_of_def)
  obtain rig' where r: "run_state (icom_transaction C cmd sub payload True) rig = ((RIG_OK, data), rig')"
    "only_line rig rig'" "incoming (line_of rig') = []" "device (line_of rig') = d'" "usable (line_of rig')"
    using full_transaction_delivers [OF line(1-3) assms(2) ab(2) [unfolded line(4)] ab(1)] assms(5) by auto
  then have "civ_ready addr echo at_vfo cv (priv rig')"
    using assms(1,4) only_line_keeps [OF r(2)] by (auto simp: civ_ready_def line_of_def)
  with r show ?thesis by (auto simp: line_of_def)
qed

context civ_radio
begin

lemma get_freq_reads:
  assumes "civ_ready addr echo at_vfo (current_vfo rig) (priv rig)"
    and "v \<in> {RIG_VFO_CURR, current_vfo rig}"
  shows "\<exists>rig'. run_state (icom_get_freq C caps P v x) rig
      = ((RIG_OK, civ_tuned dial (current_vfo rig) (priv rig)), rig')
    \<and> same_setup rig rig' \<and> cache rig' = cache rig
    \<and> same_radio (civ_ready addr echo at_vfo) (civ_tuned dial) rig rig'"
proof -
  let ?cv = "current_vfo rig" and ?d = "device (rigport (priv rig))"
  have on: "at_vfo ?cv ?d" using assms(1) by (simp add: civ_ready_def)
  obtain d' where d': "civ_answers C echo (civ_command C addr C_SEND_SEL_FREQ 0 []) ?d
      (C_SEND_SEL_FREQ # 0 # freq_octets (dial ?cv ?d)) d'" "at_vfo ?cv d'" "dial ?cv d' = dial ?cv ?d"
    using tells_freq [OF on] by blast
  have whole: "whole_frame (civ_command C addr C_SEND_SEL_FREQ 0 [])"
    using addr_octet by (intro command_whole) (auto simp: civ_defs icom_defs)
  obtain rig1 where r: "run_state (icom_transaction C C_SEND_SEL_FREQ 0 [] True) rig
      = ((RIG_OK, C_SEND_SEL_FREQ # 0 # freq_octets (dial ?cv ?d)), rig1)" "only_line rig rig1"
    "device (rigport (priv rig1)) = d'" "civ_ready addr echo at_vfo ?cv (priv rig1)"
    using civ_exchange [OF assms(1) whole d'(1,2)] by auto
  let ?rig' = "rig1\<lparr>priv := remember_read v (real (dial ?cv ?d)) (priv rig1)\<rparr>"
  have v: "v \<notin> {RIG_VFO_TX, RIG_VFO_MEM, RIG_VFO_NONE}"
    using assms(2) plain_vfo [OF on] by (auto simp: vfo_defs)
  have sub: "x25_subcmd ?cv v = 0" and x25: "\<not> x25cmdfails (priv rig)"
    using assms by (auto simp: civ_ready_def)
  have "run_state (icom_get_freq C caps P v x) rig = ((RIG_OK, civ_tuned dial ?cv (priv rig)), ?rig')"
    using get_freq_x25_run [OF v x25 r(1) [folded sub] dial_digits [OF on]] by (simp add: civ_tuned_def)
  moreover have "same_setup rig ?rig'" "cache ?rig' = cache rig"
    using only_line_keeps [OF r(2)] by (auto simp: same_setup_def)
  moreover have "same_radio (civ_ready addr echo at_vfo) (civ_tuned dial) rig ?rig'"
    using r(3,4) d'(3) by (simp add: same_radio_def civ_ready_def civ_tuned_def)
  ultimately show ?thesis by blast
qed

end

sublocale civ_radio \<subseteq> civ_reader: reader "icom_table C base P (Suc n)" "icom_get_freq C (icom_table C base P n) P"
    "civ_ready addr echo at_vfo" "civ_tuned dial" for n
  by unfold_locales (auto intro: get_freq_reads)

lemma tracked_table:
  "tracked (icom_table C base P n) ready tuned s rig \<longleftrightarrow> tracked (icom_table C base P m) ready tuned s rig"
  by (simp add: tracked_def tuning_setup_def)

context civ_radio
begin

lemma set_freq_tunes:
  assumes "tracked (icom_table C base P (Suc n)) (civ_ready addr echo at_vfo) (civ_tuned dial) s rig"
    and "tunable_freq settable f"
  shows "\<exists>rig'. run_state (icom_set_freq C (icom_table C base P (Suc n)) P RIG_VFO_CURR f) rig = (RIG_OK, rig')
    \<and> same_setup rig rig' \<and> civ_ready addr echo at_vfo (current_vfo rig) (priv rig')
    \<and> civ_tuned dial (current_vfo rig) (priv rig') = f"
proof -
  let ?T = "icom_table C base P (Suc n)" and ?cv = "current_vfo rig"
  define m where "m = nat \<lfloor>f\<rfloor>"
  have m: "f = real m" "settable m" using assms(2) by (simp_all add: tunable_freq_def m_def)
  obtain rig1 u where r1: "run_state (rig_get_freq ?T P RIG_VFO_CURR (junk_freq P)) rig = ((RIG_OK, u), rig1)"
    "same_setup rig rig1" "tracked ?T (civ_ready addr echo at_vfo) (civ_tuned dial) s rig1"
    using civ_reader.get_freq_run [OF assms(1), of P "junk_freq P"] by blast
  then have v1: "current_vfo rig1 = ?cv" and ready: "civ_ready addr echo at_vfo ?cv (priv rig1)"
    by (simp_all add: same_setup_def tracked_def)
  have on: "at_vfo ?cv (device (rigport (priv rig1)))" and mode: "\<not> civ_731_mode (priv rig1)"
    using ready by (simp_all add: civ_ready_def)
  obtain d' where d': "civ_answers C echo (civ_command C addr C_SET_FREQ (- 1) (freq_octets m))
      (device (rigport (priv rig1))) [ACK] d'" "at_vfo ?cv d'" "dial ?cv d' = m"
    using takes_freq [OF on m(2)] by blast
  have whole: "whole_frame (civ_command C addr C_SET_FREQ (- 1) (freq_octets m))"
    using addr_octet freq_octets_no_marks [of m] by (intro command_whole) (auto simp: civ_defs)
  obtain rig2 where r2: "run_state (icom_transaction C C_SET_FREQ (- 1) (freq_octets m) True) rig1
      = ((RIG_OK, [ACK]), rig2)" "only_line rig1 rig2" "device (rigport (priv rig2)) = d'"
    "civ_ready addr echo at_vfo ?cv (priv rig2)"
    using civ_exchange [OF ready whole d'(1,2)] by (auto simp: civ_defs)
  let ?rig' = "rig2\<lparr>now := after_sleep C (50 * 1000) (now rig2), priv := remember_set RIG_VFO_CURR f (priv rig2)\<rparr>"
  have "ack_result [ACK] = RIG_OK" by (simp add: ack_result_def)
  then have "run_state (icom_set_freq C ?T P RIG_VFO_CURR f) rig = (RIG_OK, ?rig')"
    using one_vfo r1(1) r2(1) mode
    by (simp add: icom_set_freq_def run_state_bind set_vfo_curr_def bcd_of_nat m(1) pause_for_def Let_def vfo_defs)
  moreover have "same_setup rig ?rig'"
    using same_setup_trans [OF r1(2)] only_line_keeps [OF r2(2)] by (simp add: same_setup_def)
  moreover have "civ_ready addr echo at_vfo ?cv (priv ?rig')" "civ_tuned dial ?cv (priv ?rig') = f"
    using r2(3,4) d'(3) by (simp_all add: civ_ready_def civ_tuned_def m(1))
  ultimately show ?thesis by blast
qed

end

sublocale civ_radio \<subseteq> civ_tuner: tuner "icom_table C base P (Suc (Suc n))"
    "icom_get_freq C (icom_table C base P (Suc n)) P" "civ_ready addr echo at_vfo" "civ_tuned dial"
    "icom_set_freq C (icom_table C base P (Suc n)) P" "tunable_freq settable" "\<lambda>_. True" for n
proof unfold_locales
  show "tunable_freq settable f \<Longrightarrow> f \<noteq> 0" for f
    using settable_range [of "nat \<lfloor>f\<rfloor>"] by (auto simp: tunable_freq_def)
qed (auto intro: set_freq_tunes simp: tracked_table [of C base P "Suc (Suc n)" _ _ _ _ "Suc n"])

end
