(* ===== verification/Hamlib_Simicom.thy ===== *)
theory Hamlib_Simicom
  imports Hamlib_Icom_Stack
begin

text \<open>
  The Icom simulator of the repository (\<^verbatim>\<open>simulators/simicom.c\<close>), as the radio at the other end of the
  line, and what the whole stack does over it.

  The simulator keeps frequencies in a \<^verbatim>\<open>float\<close>: \<open>flt\<close> is its rounding of natural numbers (24
  significant bits, ties to even). Its global \<^verbatim>\<open>civ_731_mode\<close> is 0 and never assigned, so a frequency
  has five octets. It reads octets one by one; \<open>rx\<close> is what has come of the current frame. A frame longer
  than its buffer sets \<open>smashed\<close>. What it prints is left out.
\<close>

subsection \<open>The state of the simulator\<close>

definition flt :: "nat \<Rightarrow> nat" where
  "flt n = (if n < 2 ^ 24 then n
            else let e = nbits n - 24; q = n div 2 ^ e; r = n mod 2 ^ e; h = 2 ^ (e - 1)
                 in (if r > h \<or> (r = h \<and> 0 < r \<and> odd q) then (q + 1) * 2 ^ e else q * 2 ^ e))"

definition BUFSIZE :: nat where "BUFSIZE = 256"

record simicom =
  rx :: "u8 list"
  smashed :: bool
  sim_vfo :: vfo_t
  sim_split :: int
  freqA :: nat
  freqB :: nat
  modeA :: u32
  modeB :: u32
  widthA :: int
  widthB :: int
  ant_curr :: u32
  sim_ant_option :: int
  power_level :: int
  meter_level :: int

definition simicom_start :: simicom where
  "simicom_start = \<lparr>rx = [], smashed = False, sim_vfo = RIG_VFO_A, sim_split = 0, freqA = flt 14074000,
     freqB = flt 14074500, modeA = ucast RIG_MODE_CW, modeB = ucast RIG_MODE_USB, widthA = 0, widthB = 1,
     ant_curr = 0, sim_ant_option = 0, power_level = 0, meter_level = 0\<rparr>"

definition on_A :: "simicom \<Rightarrow> bool" where
  "on_A d \<longleftrightarrow> sim_vfo d = RIG_VFO_A \<or> sim_vfo d = RIG_VFO_MAIN"

subsection \<open>frameParse\<close>

text \<open>\<^verbatim>\<open>to_bcd(&frame[i], f, 2 * n)\<close>, and the octets \<open>bs\<close> written from place \<open>i\<close> on.\<close>

definition put_bcd :: "nat \<Rightarrow> nat \<Rightarrow> nat \<Rightarrow> u8 list \<Rightarrow> u8 list" where
  "put_bcd i n f frame = poke frame i (to_bcd (take n (drop i frame)) (of_nat f) (2 * n))"

text \<open>The acknowledgement that a set command is answered with.\<close>

definition sim_ack :: "u8 list \<Rightarrow> u8 list" where
  "sim_ack frame = take 6 (poke frame 4 [0xfb, 0xfd])"

definition set_vfo_of :: "u8 \<Rightarrow> vfo_t \<Rightarrow> vfo_t" where
  "set_vfo_of b v = (if b = 0x00 then RIG_VFO_A else if b = 0x01 then RIG_VFO_B
     else if b = 0xd0 then RIG_VFO_MAIN else if b = 0xd1 then RIG_VFO_SUB else v)"

text \<open>The meter and the power go round in steps of ten.\<close>

definition next_level :: "int \<Rightarrow> int" where
  "next_level l = (if l + 10 > 250 then 0 else l + 10)"

definition frameParse :: "u8 list \<Rightarrow> simicom \<Rightarrow> u8 list \<times> simicom" where
  "frameParse frame d =
     (let cmd = frame ! 4; sub = frame ! 5
      in if frame ! 0 \<noteq> 0xfe \<and> frame ! 1 \<noteq> 0xfe then ([], d)
         else if cmd = 0x03
         then (take 11 (poke (put_bcd 5 5 (if on_A d then freqA d else freqB d) frame) 10 [0xfd]), d)
         else if cmd = 0x04
         then (take 8 (poke frame 5 [ucast (if on_A d then modeA d else modeB d),
                 word_of_int (if on_A d then widthA d else widthB d), 0xfd]), d)
         else if cmd = 0x05
         then let f = flt (bcd_at frame 5 5)
              in (sim_ack frame, if on_A d then d\<lparr>freqA := f\<rparr> else d\<lparr>freqB := f\<rparr>)
         else if cmd = 0x06
         then (sim_ack frame, if on_A d then d\<lparr>modeA := ucast (frame ! 6)\<rparr> else d\<lparr>modeB := ucast (frame ! 6)\<rparr>)
         else if cmd = 0x07 then (sim_ack frame, d\<lparr>sim_vfo := set_vfo_of sub (sim_vfo d)\<rparr>)
         else if cmd = 0x0f then (sim_ack frame, d\<lparr>sim_split := (if sub = 0 then 0 else 1)\<rparr>)
         else if cmd = 0x12
         then let d' = (if sub \<noteq> 0xfd then d\<lparr>ant_curr := ucast sub, sim_ant_option := uint (frame ! 6)\<rparr> else d)
              in (take 8 (poke frame 5 [ucast (ant_curr d'), word_of_int (sim_ant_option d'), 0xfd]), d')
         else if cmd = 0x14
         then if sub = 0x0a
              then let l = next_level (power_level d)
                   in (take 9 (poke (put_bcd 6 1 (nat l) frame) 8 [0xfd]), d\<lparr>power_level := l\<rparr>)
              else ([], d)
         else if cmd = 0x15
         then if sub = 0x11
              then let l = next_level (meter_level d)
                   in (take 9 (poke (put_bcd 6 1 (nat l) frame) 8 [0xfd]), d\<lparr>meter_level := l\<rparr>)
              else ([], d)
         else if cmd = 0x1a
         then if sub = 0x03
              then (take 8 (poke frame 6 [word_of_int (if on_A d then widthA d else widthB d), 0xfd]), d)
              else if sub = 0x04 then (take 9 (poke frame 6 [0, 0, 0xfd]), d)
              else if sub = 0x07 then (take 8 (poke frame 6 [0, 0xfd]), d)
              else ([], d)
         else if cmd = 0x25
         then if frame ! 6 = 0xfd
              then (take 12 (poke (put_bcd 6 5 (if sub = 0x00 then freqA d else freqB d) frame) 11 [0xfd]), d)
              else let f = flt (bcd_at frame 5 5)
                   in ([], if sub = 0x00 then d\<lparr>freqA := f\<rparr> else d\<lparr>freqB := f\<rparr>)
         else ([], d))"

subsection \<open>frameGet and the main loop\<close>

text \<open>One octet that \<^verbatim>\<open>frameGet\<close> reads; a whole frame, in its cleared buffer, when it is the end mark.\<close>

definition frameGet :: "u8 \<Rightarrow> simicom \<Rightarrow> u8 list option \<times> simicom" where
  "frameGet c d =
     (let buf = rx d @ [c]; d' = d\<lparr>smashed := smashed d \<or> BUFSIZE < length buf\<rparr>
      in if c = 0xfd then (Some (buf @ replicate (BUFSIZE - length buf) 0), d'\<lparr>rx := []\<rparr>)
         else (None, d'\<lparr>rx := buf\<rparr>))"

definition simicom_radio :: "simicom answers" where
  "simicom_radio c d = (case frameGet c d of
     (None, d') \<Rightarrow> ([], d')
   | (Some frame, d') \<Rightarrow> (let (w, d'') = frameParse frame d' in (map Octet w, d'')))"

subsection \<open>The IC-7200\<close>

text \<open>The model the simulator is closest to; functions of it that nothing here calls are left out.\<close>

definition RIG_MODEL_IC7200 :: nat where [model_defs]: "RIG_MODEL_IC7200 = RIG_MAKE_MODEL RIG_ICOM 61"

definition IC7200_VFO_OPS :: u32 where
  "IC7200_VFO_OPS = RIG_OP_CPY OR RIG_OP_XCHG OR RIG_OP_FROM_VFO OR RIG_OP_TO_VFO OR RIG_OP_MCL OR RIG_OP_TUNE"

definition ic7200_caps :: "simicom icom_caps" where
  "ic7200_caps = no_caps\<lparr>rig_model := RIG_MODEL_IC7200, targetable_vfo := 0, vfo_ops := IC7200_VFO_OPS\<rparr>"

text \<open>The radio with any clock: \<open>ar\<close> after a read, \<open>asl\<close> after a pause.\<close>

definition simicom_civ ::
  "(simicom line \<Rightarrow> timespec \<Rightarrow> timespec) \<Rightarrow> (int \<Rightarrow> timespec \<Rightarrow> timespec) \<Rightarrow> simicom civ" where
  "simicom_civ ar asl = \<lparr>radio = simicom_radio, after_read = ar, after_sleep = asl, civ_model = RIG_MODEL_IC7200,
     civ_addr = 0x76, civ_731 = False, civ_no_xchg = False, scope_count = 0, serial_full_duplex = False, spectrum_line_length = 0, single_frame_data_length = 0\<rparr>"

lemma simicom_civ_simps [simp]:
  "radio (simicom_civ ar asl) = simicom_radio" "serial_full_duplex (simicom_civ ar asl) = False"
  by (simp_all add: simicom_civ_def)

subsection \<open>The simulator keeps the contract\<close>

lemma radio_collects:
  "FI \<notin> set xs \<Longrightarrow> length (rx d) + length xs \<le> BUFSIZE \<Longrightarrow>
   reply_of simicom_radio xs d = ([], d\<lparr>rx := rx d @ xs\<rparr>)"
proof (induction xs arbitrary: d)
  case (Cons x xs)
  have "simicom_radio x d = ([], d\<lparr>rx := rx d @ [x]\<rparr>)"
    using Cons.prems by (auto simp: simicom_radio_def frameGet_def civ_defs Let_def)
  then show ?case using Cons by simp
qed simp

lemma radio_frame:
  assumes "FI \<notin> set xs" and "rx d = []" and "length xs < BUFSIZE"
  shows "reply_of simicom_radio (xs @ [FI]) d
    = (let (w, d') = frameParse (xs @ FI # replicate (BUFSIZE - length xs - 1) 0) d in (map Octet w, d'))"
proof -
  have "d\<lparr>smashed := smashed d \<or> BUFSIZE < Suc (length xs), rx := []\<rparr> = d" using assms(2,3) by simp
  then have "simicom_radio FI (d\<lparr>rx := xs\<rparr>)
      = (let (w, d') = frameParse (xs @ FI # replicate (BUFSIZE - length xs - 1) 0) d in (map Octet w, d'))"
    by (simp add: simicom_radio_def frameGet_def civ_defs Let_def)
  with assms show ?thesis by (simp add: reply_of_append radio_collects case_prod_beta Let_def)
qed

lemma to_bcd_fresh: "length xs = 5 \<Longrightarrow> to_bcd xs (of_nat f) 10 = freq_octets f"
proof (rule nth_equalityI)
  assume xs: "length xs = 5"
  then show "length (to_bcd xs (of_nat f) 10) = length (freq_octets f)" by (simp add: to_bcd_length)
  fix i assume "i < length (to_bcd xs (of_nat f) 10)"
  then have i: "i < 5" using xs by (simp add: to_bcd_length)
  have d: "digit_le (to_bcd xs (of_nat f) 10) 10 k = digit_le (freq_octets f) 10 k" if "k < 10" for k
    using xs that by (simp add: freq_octets_def to_bcd_digit)
  from d [of "2 * i"] d [of "2 * i + 1"] i show "to_bcd xs (of_nat f) 10 ! i = freq_octets f ! i"
    by (intro octet_ext) (simp_all add: digit_le_def)
qed

lemma poke_at: "length h = i \<Longrightarrow> length m = length xs \<Longrightarrow> poke (h @ m @ t) i xs = h @ xs @ t"
  by (simp add: poke_def)

lemma simicom_tells:
  assumes "rx d = []" and "a \<noteq> FI"
  shows "reply_of simicom_radio (make_cmd_frame a CTRLID C_SEND_SEL_FREQ 0 []) d
    = (map Octet (reply_frame a CTRLID (C_SEND_SEL_FREQ # 0 # freq_octets (freqA d))), d)"
proof -
  let ?h = "[PR, PR, a, CTRLID, C_SEND_SEL_FREQ, 0]"
  let ?frame = "?h @ FI # replicate 249 0"
  have split: "?frame = ?h @ (FI # replicate 4 0) @ replicate 245 0"
    by (simp flip: replicate_add)
  have "put_bcd 6 5 (freqA d) ?frame = ?h @ freq_octets (freqA d) @ replicate 245 0"
    unfolding put_bcd_def split by (subst poke_at) (simp_all add: to_bcd_length to_bcd_fresh)
  also have "\<dots> = (?h @ freq_octets (freqA d)) @ [0] @ replicate 244 0"
    using replicate_Suc [of 244 "0 :: u8"] by (simp del: replicate_Suc)
  finally have "poke (put_bcd 6 5 (freqA d) ?frame) 11 [0xfd] = (?h @ freq_octets (freqA d)) @ [0xfd] @ replicate 244 0"
    by (simp only:, subst poke_at) simp_all
  then have "frameParse ?frame d = (?h @ freq_octets (freqA d) @ [FI], d)"
    by (simp add: frameParse_def civ_defs icom_defs Let_def)
  moreover have "reply_of simicom_radio (?h @ [FI]) d
      = (let (w, d') = frameParse (?h @ FI # replicate (BUFSIZE - length ?h - 1) 0) d in (map Octet w, d'))"
    using assms by (intro radio_frame) (auto simp: civ_defs icom_defs BUFSIZE_def)
  ultimately show ?thesis
    by (simp add: make_cmd_frame_def subcmd_octet reply_frame_def BUFSIZE_def)
qed

lemma simicom_takes:
  assumes "rx d = []" and "a \<noteq> FI" and "on_A d" and "n < 10 ^ 10"
  shows "reply_of simicom_radio (make_cmd_frame a CTRLID C_SET_FREQ (- 1) (freq_octets n)) d
    = (map Octet (reply_frame a CTRLID [ACK]), d\<lparr>freqA := flt n\<rparr>)"
proof -
  let ?h = "[PR, PR, a, CTRLID, C_SET_FREQ]"
  let ?frame = "(?h @ freq_octets n) @ FI # replicate 245 0"
  have "length ?h = 5" by simp
  with bcd_at_freq [OF assms(4), of ?h "FI # replicate 245 0"] have "bcd_at ?frame 5 5 = n"
    by (simp only: append_assoc)
  moreover have "sim_ack ?frame = [PR, PR, a, CTRLID, ACK, FI]"
    by (simp add: sim_ack_def poke_def civ_defs)
  ultimately have "frameParse ?frame d = ([PR, PR, a, CTRLID, ACK, FI], d\<lparr>freqA := flt n\<rparr>)"
    using assms(3) by (simp add: frameParse_def civ_defs Let_def)
  moreover have "reply_of simicom_radio ((?h @ freq_octets n) @ [FI]) d
      = (let (w, d') = frameParse ((?h @ freq_octets n)
            @ FI # replicate (BUFSIZE - length (?h @ freq_octets n) - 1) 0) d in (map Octet w, d'))"
    using assms(1,2) freq_octets_no_marks [of n] by (intro radio_frame) (auto simp: civ_defs BUFSIZE_def)
  ultimately show ?thesis
    by (simp add: make_cmd_frame_def reply_frame_def BUFSIZE_def)
qed

text \<open>What the simulator can be trusted with: VFO A, and frequencies that a \<^verbatim>\<open>float\<close> holds exactly.
  On VFO B it sets one frequency and tells the other.\<close>

definition sim_at :: "vfo_t \<Rightarrow> simicom \<Rightarrow> bool" where
  "sim_at cv d \<longleftrightarrow> cv = RIG_VFO_A \<and> on_A d \<and> rx d = [] \<and> freqA d < 10 ^ 10"

definition sim_dial :: "vfo_t \<Rightarrow> simicom \<Rightarrow> nat" where
  "sim_dial cv d = freqA d"

definition sim_exact :: "nat \<Rightarrow> bool" where
  "sim_exact n \<longleftrightarrow> 0 < n \<and> n < 10 ^ 10 \<and> flt n = n"

interpretation simicom: civ_radio "simicom_civ ar asl" ic7200_caps P "0x76" False sim_at sim_dial sim_exact
  for ar asl P
proof
  show "\<not> targetable ic7200_caps RIG_TARGETABLE_FREQ" by (simp add: ic7200_caps_def targetable_def)
  show "0x76 \<notin> {FI, COL}" by (simp add: civ_defs)
  show "cv \<notin> {RIG_VFO_TX, RIG_VFO_MEM, RIG_VFO_NONE}" if "sim_at cv d" for cv d
    using that by (simp add: sim_at_def vfo_defs)
  show "sim_dial cv d < 10 ^ 10" if "sim_at cv d" for cv d
    using that by (simp add: sim_at_def sim_dial_def)
  show "0 < n \<and> n < 10 ^ 10" if "sim_exact n" for n
    using that by (simp add: sim_exact_def)
  have proper: "proper_reply 0x76 CTRLID (C_SEND_SEL_FREQ # 0 # freq_octets n)" for n
    using freq_octets_no_marks [of n] by (auto simp: proper_reply_def civ_defs icom_defs MAXFRAMELEN_def)
  show "\<exists>d'. civ_answers (simicom_civ ar asl) False (civ_command (simicom_civ ar asl) 0x76 C_SEND_SEL_FREQ 0 []) d
      (C_SEND_SEL_FREQ # 0 # freq_octets (sim_dial cv d)) d' \<and> sim_at cv d' \<and> sim_dial cv d' = sim_dial cv d"
    if "sim_at cv d" for cv d
    using that simicom_tells [of d "0x76"] proper
    by (intro exI [of _ d]) (auto simp: sim_at_def sim_dial_def civ_answers_def civ_command_def civ_echo_def civ_defs)
  have ack: "proper_reply 0x76 CTRLID [ACK]"
    by (auto simp: proper_reply_def civ_defs MAXFRAMELEN_def)
  show "\<exists>d'. civ_answers (simicom_civ ar asl) False (civ_command (simicom_civ ar asl) 0x76 C_SET_FREQ (- 1) (freq_octets n)) d
      [ACK] d' \<and> sim_at cv d' \<and> sim_dial cv d' = n"
    if "sim_at cv d" "sim_exact n" for cv d n
    using that simicom_takes [of d "0x76" n] ack
    by (intro exI [of _ "d\<lparr>freqA := n\<rparr>"])
      (auto simp: sim_at_def sim_dial_def sim_exact_def on_A_def civ_answers_def civ_command_def civ_echo_def civ_defs)
qed

subsection \<open>The stack over the simulator\<close>

text \<open>C1: the library over the simulated Icom radio, from the API to the octets on the line. Take an open
  handle of an IC-7200 on VFO A whose line is quiet, for which the back end has not found the radio to refuse
  command \<^verbatim>\<open>0x25\<close>, with no watch on the knob (\<^verbatim>\<open>twiddle_timeout\<close>) and no VFO excepted
  from reading (\<^verbatim>\<open>uplink\<close>), on which the cache holds nothing or the right frequency, and at the other
  end the simulator, on VFO A. Let every frequency set be one that reaches the radio, less the local oscillator and
  with the compensation, as a whole number of up to ten digits which the simulator's \<^verbatim>\<open>float\<close> holds
  exactly, and that the corrections in \<^verbatim>\<open>double\<close> arithmetic give back (\<open>comes_back\<close>: every frequency without local
  oscillator and compensation, every whole one without compensation). Then any sequence of
  \<^verbatim>\<open>rig_set_freq\<close> and \<^verbatim>\<open>rig_get_freq\<close> calls on the current VFO is answered as a plain
  variable would, whatever the clock does in between: each call returns \<^verbatim>\<open>RIG_OK\<close>, each read the last
  frequency set.\<close>

theorem icom_tuning_session:
  assumes "tracked (icom_table (simicom_civ ar asl) ic7200_caps P (Suc (Suc n)))
      (civ_ready 0x76 False sim_at) (civ_tuned sim_dial) s rig"
    and "\<forall>f. Tune f \<in> set rs \<longrightarrow> tunable_freq sim_exact (raw_freq rig f) \<and> comes_back rig f"
  shows "fst (run_state (serve (icom_table (simicom_civ ar asl) ic7200_caps P (Suc (Suc n))) P rs) rig)
    = promised (user_freq rig (civ_tuned sim_dial (current_vfo rig) (priv rig))) rs"
  using simicom.civ_tuner.serve_run [OF assms(1) TrueI assms(2)] by (simp add: on_air_def)

definition simicom_handle :: "simicom icom_rig" where
  "simicom_handle = (bench_rig (fresh_line [] simicom_start))
     \<lparr>priv := (priv (bench_rig (fresh_line [] simicom_start)))\<lparr>re_civ_addr := 0x76\<rparr>\<rparr>"

lemma simicom_handle_tracked:
  "tracked (icom_table C ic7200_caps P n) (civ_ready 0x76 False sim_at) (civ_tuned sim_dial) MainA simicom_handle"
  by (simp add: tracked_def tuning_setup_def on_air_def coherent_def civ_ready_def civ_tuned_def usable_def
      simicom_handle_def bench_rig_def fresh_line_def simicom_start_def sim_at_def sim_dial_def on_A_def flt_def
      zero_rig_def zero_cache_def cache_vfo_def freq_slot_def vfo_defs)

lemma exact_freqs: "flt 7074000 = 7074000" "flt 144174000 = 144174000"
  by (simp_all add: flt_def nbits.simps)

lemma icom_tuning_session_witness:
  "fst (run_state (serve (icom_table (simicom_civ (\<lambda>l t. t) (\<lambda>us t. t)) ic7200_caps dead_ports 2) dead_ports
      [Read 0, Tune 7074000, Read 0, Pause \<lparr>tv_sec = 500, tv_nsec = 0\<rparr>, Tune 144174000, Read 7]) simicom_handle)
    = [(RIG_OK, 14074000), (RIG_OK, 7074000), (RIG_OK, 7074000), (RIG_OK, 144174000), (RIG_OK, 144174000)]"
proof -
  have "lo_freq simicom_handle = 0" "vfo_comp simicom_handle = 0"
    by (simp_all add: simicom_handle_def bench_rig_def zero_rig_def)
  moreover have "civ_tuned sim_dial (current_vfo simicom_handle) (priv simicom_handle) = 14074000"
    by (simp add: civ_tuned_def sim_dial_def simicom_handle_def bench_rig_def fresh_line_def simicom_start_def flt_def
        zero_rig_def)
  ultimately show ?thesis
    using icom_tuning_session [OF simicom_handle_tracked,
        where rs = "[Read 0, Tune 7074000, Read 0, Pause \<lparr>tv_sec = 500, tv_nsec = 0\<rparr>, Tune 144174000, Read 7]"
          and P = dead_ports and ar = "\<lambda>l t. t" and asl = "\<lambda>us t. t" and n = 0]
    by (simp add: comes_back_plain raw_freq_def user_freq_def tunable_freq_def sim_exact_def exact_freqs numeral_2_eq_2)
qed

end
