(* ===== verification/Hamlib_Text.thy ===== *)
theory Hamlib_Text
  imports Hamlib_Prelude
begin

text \<open>
  C strings, as the back ends with textual protocols print and scan them: the octets of characters,
  the formats \<^verbatim>\<open>%d\<close> and \<^verbatim>\<open>%0nd\<close> of \<^verbatim>\<open>snprintf\<close>, and \<^verbatim>\<open>atoi\<close>, \<^verbatim>\<open>%d\<close>,
  \<^verbatim>\<open>%lf\<close> of \<^verbatim>\<open>sscanf\<close>. A string is the list of its characters before the final zero. Integers
  are scanned without a bound; hexadecimal numbers, infinities and NaNs are not numbers here.
\<close>

subsection \<open>Characters and octets\<close>

definition octet_of :: "char \<Rightarrow> u8" where
  "octet_of c = of_nat (of_char c)"

definition char_at :: "u8 \<Rightarrow> char" where
  "char_at b = char_of (unat b)"

definition octs :: "string \<Rightarrow> u8 list" where
  "octs s = map octet_of s"

definition chars :: "u8 list \<Rightarrow> string" where
  "chars bs = map char_at bs"

text \<open>The string a buffer holds: up to the first zero.\<close>

definition c_str :: "u8 list \<Rightarrow> string" where
  "c_str bs = chars (takeWhile (\<lambda>b. b \<noteq> 0) bs)"

definition NUL :: char where "NUL = CHR 0x00"

text \<open>The character at a place; beyond the end there are zeros.\<close>

definition char_nth :: "string \<Rightarrow> nat \<Rightarrow> char" where
  "char_nth s i = (if i < length s then s ! i else NUL)"

definition starts :: "string \<Rightarrow> string \<Rightarrow> bool" where
  "starts p s \<longleftrightarrow> take (length p) s = p"

lemma unat_octet: "unat (octet_of c) = of_char c"
  by (simp add: octet_of_def unat_of_nat of_char_mod_256 take_bit_eq_mod)

lemma char_octet [simp]: "char_at (octet_of c) = c"
  by (simp add: char_at_def unat_octet)

lemma octet_inject [simp]: "octet_of c = octet_of d \<longleftrightarrow> c = d"
  by (metis char_octet)

lemma octet_zero [simp]: "octet_of c = 0 \<longleftrightarrow> c = NUL"
proof -
  have "octet_of NUL = 0" by (simp add: octet_of_def NUL_def)
  then show ?thesis by (metis octet_inject)
qed

lemma octs_simps [simp]:
  "octs [] = []" "octs (c # s) = octet_of c # octs s" "octs (s @ t) = octs s @ octs t" "length (octs s) = length s"
  "octs s = [] \<longleftrightarrow> s = []" "chars (octs s) = s"
  by (simp_all add: octs_def chars_def o_def)

lemma in_octs [simp]: "octet_of c \<in> set (octs s) \<longleftrightarrow> c \<in> set s"
  by (auto simp: octs_def)

lemma c_str_octs [simp]: "NUL \<notin> set s \<Longrightarrow> c_str (octs s) = s"
proof -
  assume "NUL \<notin> set s"
  then have "takeWhile (\<lambda>b. b \<noteq> 0) (octs s) = octs s"
    by (intro takeWhile_eq_all_conv [THEN iffD2]) (auto simp: octs_def)
  then show ?thesis by (simp only: c_str_def octs_simps)
qed

lemma char_nth_simps [simp]:
  "char_nth (c # s) 0 = c" "char_nth (c # s) (Suc i) = char_nth s i" "char_nth [] i = NUL"
  by (simp_all add: char_nth_def)

subsection \<open>Printing\<close>

definition digit_char :: "nat \<Rightarrow> char" where
  "digit_char d = char_of (48 + d)"

fun dec :: "nat \<Rightarrow> string" where
  "dec n = (if n < 10 then [digit_char n] else dec (n div 10) @ [digit_char (n mod 10)])"

declare dec.simps [simp del]

text \<open>\<^verbatim>\<open>%d\<close>, and \<^verbatim>\<open>%0wd\<close>: zeros between the sign and the digits.\<close>

definition sgn_chars :: "int \<Rightarrow> string" where
  "sgn_chars i = (if i < 0 then ''-'' else [])"

definition int_str :: "int \<Rightarrow> string" where
  "int_str i = sgn_chars i @ dec (nat \<bar>i\<bar>)"

definition pad0 :: "nat \<Rightarrow> int \<Rightarrow> string" where
  "pad0 w i = sgn_chars i @ replicate (w - length (int_str i)) CHR ''0'' @ dec (nat \<bar>i\<bar>)"

text \<open>What \<^verbatim>\<open>snprintf\<close> leaves in a buffer of \<open>n\<close> characters: the string ends at a zero that was printed.\<close>

definition snprintf :: "nat \<Rightarrow> string \<Rightarrow> string" where
  "snprintf n s = takeWhile (\<lambda>c. c \<noteq> NUL) (take (n - 1) s)"

subsection \<open>Scanning\<close>

definition is_digit :: "char \<Rightarrow> bool" where
  "is_digit c \<longleftrightarrow> 48 \<le> (of_char c :: nat) \<and> (of_char c :: nat) \<le> 57"

definition digit_val :: "char \<Rightarrow> nat" where
  "digit_val c = of_char c - 48"

definition is_space :: "char \<Rightarrow> bool" where
  "is_space c \<longleftrightarrow> (of_char c :: nat) \<in> {9, 10, 11, 12, 13, 32}"

fun scan_digits :: "nat \<Rightarrow> string \<Rightarrow> nat \<times> string" where
  "scan_digits v [] = (v, [])"
| "scan_digits v (c # s) = (if is_digit c then scan_digits (10 * v + digit_val c) s else (v, c # s))"

text \<open>A sign, if there is one: its factor.\<close>

definition scan_sign :: "string \<Rightarrow> int \<times> string" where
  "scan_sign s = (if s \<noteq> [] \<and> hd s = CHR ''-'' then (- 1, tl s)
                  else if s \<noteq> [] \<and> hd s = CHR ''+'' then (1, tl s) else (1, s))"

text \<open>\<^verbatim>\<open>%d\<close>: the number and the rest; \<open>None\<close>: no number.\<close>

definition scan_int :: "string \<Rightarrow> (int \<times> string) option" where
  "scan_int s = (let (sg, s1) = scan_sign (dropWhile is_space s); (v, s2) = scan_digits 0 s1
     in if s2 = s1 then None else Some (sg * int v, s2))"

definition atoi :: "string \<Rightarrow> int" where
  "atoi s = (case scan_int s of None \<Rightarrow> 0 | Some (i, _) \<Rightarrow> i)"

text \<open>The exponent of a floating-point number: \<open>None\<close> when a mark has no number after it.\<close>

definition scan_exponent :: "string \<Rightarrow> int option" where
  "scan_exponent s =
     (if s \<noteq> [] \<and> hd s \<in> {CHR ''e'', CHR ''E''}
      then let (sg, s1) = scan_sign (tl s); (v, s2) = scan_digits 0 s1
           in if s2 = s1 then None else Some (sg * int v)
      else Some 0)"

definition scan_double :: "string \<Rightarrow> real option" where
  "scan_double s =
     (let (sg, s1) = scan_sign (dropWhile is_space s); (a, s2) = scan_digits 0 s1;
          frac = (if s2 \<noteq> [] \<and> hd s2 = CHR ''.'' then tl s2 else []);
          (b, s3) = scan_digits 0 frac;
          point = (s2 \<noteq> [] \<and> hd s2 = CHR ''.'')
      in if s2 = s1 \<and> s3 = frac then None
         else case scan_exponent (if point then s3 else s2) of
             None \<Rightarrow> None
           | Some e \<Rightarrow> Some (of_int sg * (real a + real b / 10 ^ (length frac - length s3))
                         * (if 0 \<le> e then 10 ^ nat e else 1 / 10 ^ nat (- e))))"

subsection \<open>What is printed can be scanned\<close>

lemma of_digit_char: "d < 10 \<Longrightarrow> of_char (digit_char d) = (48 + d :: nat)"
  by (simp add: digit_char_def)

lemma digit_char_digit [simp]: "d < 10 \<Longrightarrow> is_digit (digit_char d)" "d < 10 \<Longrightarrow> digit_val (digit_char d) = d"
  by (simp_all add: is_digit_def digit_val_def of_digit_char)

lemma zero_digit [simp]: "is_digit CHR ''0''" "digit_val CHR ''0'' = 0"
  by (simp_all add: is_digit_def digit_val_def)

lemma no_digit [simp]: "\<not> is_digit CHR ''-''" "\<not> is_digit CHR ''+''" "\<not> is_digit CHR ''.''" "\<not> is_digit CHR '';''"
  "\<not> is_digit NUL" "\<not> is_digit CHR 0x5C"
  by (simp_all add: is_digit_def NUL_def)

lemma digit_no_space: "is_digit c \<Longrightarrow> \<not> is_space c"
  by (auto simp: is_digit_def is_space_def)

lemma dec_digits: "c \<in> set (dec n) \<Longrightarrow> is_digit c"
  by (induction n rule: dec.induct) (subst (asm) dec.simps, auto split: if_splits)

lemma dec_nonempty [simp]: "dec n \<noteq> []"
  by (subst dec.simps) simp

lemma dec_length: "0 < k \<Longrightarrow> n < 10 ^ k \<Longrightarrow> length (dec n) \<le> k"
proof (induction n arbitrary: k rule: dec.induct)
  case (1 n)
  show ?case
  proof (cases "n < 10")
    case False
    with "1.prems" obtain j where j: "k = Suc j" "0 < j" by (cases k; cases "k - 1") auto
    then have "n div 10 < 10 ^ j" using "1.prems"(2) by (auto simp: div_less_iff_less_mult ac_simps)
    with 1(1) [OF False j(2)] show ?thesis using False j by (subst dec.simps) simp
  qed (use "1.prems"(1) in \<open>subst dec.simps, simp\<close>)
qed

lemma scan_digits_append:
  "\<forall>c \<in> set ds. is_digit c \<Longrightarrow> scan_digits v (ds @ r) = scan_digits (fst (scan_digits v ds)) r"
  by (induction ds arbitrary: v) auto

lemma scan_digits_zeros: "fst (scan_digits 0 (replicate k CHR ''0'')) = 0"
  by (induction k) simp_all

lemma scan_dec: "fst (scan_digits 0 (dec n)) = n"
proof (induction n rule: dec.induct)
  case (1 n)
  show ?case
  proof (cases "n < 10")
    case False
    then show ?thesis
      using 1 dec_digits by (subst dec.simps) (simp add: scan_digits_append)
  qed (subst dec.simps, simp)
qed

lemma scan_padded:
  assumes "r = [] \<or> \<not> is_digit (hd r)"
  shows "scan_digits 0 (replicate k CHR ''0'' @ dec n @ r) = (n, r)"
proof -
  have "scan_digits v r = (v, r)" for v using assms by (cases r) auto
  then show ?thesis
    using dec_digits [of _ n] scan_dec [of n] by (simp add: scan_digits_append scan_digits_zeros)
qed

lemma padded_hd: "\<exists>c s. replicate k CHR ''0'' @ dec n @ r = c # s \<and> is_digit c"
proof (cases k)
  case 0
  obtain c s where "dec n = c # s" by (meson dec_nonempty neq_Nil_conv)
  then show ?thesis using 0 dec_digits [of c n] by auto
qed auto

lemma scan_sign_number:
  "is_digit c \<Longrightarrow> scan_sign (dropWhile is_space (c # s)) = (1, c # s)"
  "scan_sign (dropWhile is_space (CHR ''-'' # s)) = (- 1, s)"
proof -
  have "\<not> is_space CHR ''-''" by (simp add: is_space_def)
  then show "scan_sign (dropWhile is_space (CHR ''-'' # s)) = (- 1, s)" by (simp add: scan_sign_def)
  show "is_digit c \<Longrightarrow> scan_sign (dropWhile is_space (c # s)) = (1, c # s)"
    using no_digit by (auto simp: scan_sign_def digit_no_space)
qed

lemma scan_sign_pad0:
  "scan_sign (dropWhile is_space (pad0 w i @ r))
    = (if i < 0 then - 1 else 1, replicate (w - length (int_str i)) CHR ''0'' @ dec (nat \<bar>i\<bar>) @ r)"
proof -
  obtain c s where cs: "replicate (w - length (int_str i)) CHR ''0'' @ dec (nat \<bar>i\<bar>) @ r = c # s" "is_digit c"
    using padded_hd by blast
  show ?thesis
    using scan_sign_number(1) [OF cs(2), of s] scan_sign_number(2) [of "c # s"]
    by (simp add: pad0_def sgn_chars_def cs(1))
qed

text \<open>Scanning what \<^verbatim>\<open>%0nd\<close> prints.\<close>

lemma scan_pad0:
  assumes "r = [] \<or> \<not> is_digit (hd r)"
  shows "scan_int (pad0 w i @ r) = Some (i, r)"
  using scan_sign_pad0 [of w i r] scan_padded [OF assms, of "w - length (int_str i)" "nat \<bar>i\<bar>"]
  by (simp add: scan_int_def)

lemma atoi_pad0 [simp]: "atoi (pad0 w i) = i"
  using scan_pad0 [of "[]" w i] by (simp add: atoi_def)

lemma scan_double_pad0 [simp]: "scan_double (pad0 w (int n)) = Some (real n)"
  using scan_sign_pad0 [of w "int n" "[]"] scan_padded [of "[]" "w - length (int_str (int n))" n]
  by (simp add: scan_double_def scan_exponent_def)

lemma pad0_digits: "c \<in> set (pad0 w (int n)) \<Longrightarrow> is_digit c"
  by (auto simp: pad0_def sgn_chars_def dest: dec_digits)

lemma pad0_length: "0 < w \<Longrightarrow> n < 10 ^ w \<Longrightarrow> length (pad0 w (int n)) = w"
  using dec_length [of w n] by (simp add: pad0_def sgn_chars_def int_str_def)

lemma snprintf_all: "NUL \<notin> set s \<Longrightarrow> length s < n \<Longrightarrow> snprintf n s = s"
  by (auto simp: snprintf_def takeWhile_eq_all_conv)

end
