(* ===== verification/Hamlib_Kenwood_Ids.thy ===== *)
theory Hamlib_Kenwood_Ids
  imports Hamlib_Models Hamlib_Flags Hamlib_Text
begin

text \<open>
  Tables of the Kenwood back end (\<^verbatim>\<open>rigs/kenwood/kenwood.c\<close>): the models of the family
  (\<^verbatim>\<open>include/hamlib/riglist.h\<close>), the identifications the radios answer to \<^verbatim>\<open>ID;\<close>, the
  sub-audible tones, and the numbers of the modes with their two conversions.
\<close>

subsection \<open>Models\<close>

named_theorems ken_models \<open>model numbers\<close>

definition RIG_MODEL_TS50 :: nat where [ken_models]: "RIG_MODEL_TS50 = RIG_MAKE_MODEL RIG_KENWOOD 1"
definition RIG_MODEL_TS440 :: nat where [ken_models]: "RIG_MODEL_TS440 = RIG_MAKE_MODEL RIG_KENWOOD 2"
definition RIG_MODEL_TS450S :: nat where [ken_models]: "RIG_MODEL_TS450S = RIG_MAKE_MODEL RIG_KENWOOD 3"
definition RIG_MODEL_TS570D :: nat where [ken_models]: "RIG_MODEL_TS570D = RIG_MAKE_MODEL RIG_KENWOOD 4"
definition RIG_MODEL_TS690S :: nat where [ken_models]: "RIG_MODEL_TS690S = RIG_MAKE_MODEL RIG_KENWOOD 5"
definition RIG_MODEL_TS711 :: nat where [ken_models]: "RIG_MODEL_TS711 = RIG_MAKE_MODEL RIG_KENWOOD 6"
definition RIG_MODEL_TS790 :: nat where [ken_models]: "RIG_MODEL_TS790 = RIG_MAKE_MODEL RIG_KENWOOD 7"
definition RIG_MODEL_TS811 :: nat where [ken_models]: "RIG_MODEL_TS811 = RIG_MAKE_MODEL RIG_KENWOOD 8"
definition RIG_MODEL_TS850 :: nat where [ken_models]: "RIG_MODEL_TS850 = RIG_MAKE_MODEL RIG_KENWOOD 9"
definition RIG_MODEL_TS870S :: nat where [ken_models]: "RIG_MODEL_TS870S = RIG_MAKE_MODEL RIG_KENWOOD 10"
definition RIG_MODEL_TS940 :: nat where [ken_models]: "RIG_MODEL_TS940 = RIG_MAKE_MODEL RIG_KENWOOD 11"
definition RIG_MODEL_TS950S :: nat where [ken_models]: "RIG_MODEL_TS950S = RIG_MAKE_MODEL RIG_KENWOOD 12"
definition RIG_MODEL_TS950SDX :: nat where [ken_models]: "RIG_MODEL_TS950SDX = RIG_MAKE_MODEL RIG_KENWOOD 13"
definition RIG_MODEL_TS2000 :: nat where [ken_models]: "RIG_MODEL_TS2000 = RIG_MAKE_MODEL RIG_KENWOOD 14"
definition RIG_MODEL_R5000 :: nat where [ken_models]: "RIG_MODEL_R5000 = RIG_MAKE_MODEL RIG_KENWOOD 15"
definition RIG_MODEL_TS570S :: nat where [ken_models]: "RIG_MODEL_TS570S = RIG_MAKE_MODEL RIG_KENWOOD 16"
definition RIG_MODEL_THD7A :: nat where [ken_models]: "RIG_MODEL_THD7A = RIG_MAKE_MODEL RIG_KENWOOD 17"
definition RIG_MODEL_THD7AG :: nat where [ken_models]: "RIG_MODEL_THD7AG = RIG_MAKE_MODEL RIG_KENWOOD 18"
definition RIG_MODEL_THF6A :: nat where [ken_models]: "RIG_MODEL_THF6A = RIG_MAKE_MODEL RIG_KENWOOD 19"
definition RIG_MODEL_THF7E :: nat where [ken_models]: "RIG_MODEL_THF7E = RIG_MAKE_MODEL RIG_KENWOOD 20"
definition RIG_MODEL_K2 :: nat where [ken_models]: "RIG_MODEL_K2 = RIG_MAKE_MODEL RIG_KENWOOD 21"
definition RIG_MODEL_TS930 :: nat where [ken_models]: "RIG_MODEL_TS930 = RIG_MAKE_MODEL RIG_KENWOOD 22"
definition RIG_MODEL_THG71 :: nat where [ken_models]: "RIG_MODEL_THG71 = RIG_MAKE_MODEL RIG_KENWOOD 23"
definition RIG_MODEL_TS680S :: nat where [ken_models]: "RIG_MODEL_TS680S = RIG_MAKE_MODEL RIG_KENWOOD 24"
definition RIG_MODEL_TS140S :: nat where [ken_models]: "RIG_MODEL_TS140S = RIG_MAKE_MODEL RIG_KENWOOD 25"
definition RIG_MODEL_TMD700 :: nat where [ken_models]: "RIG_MODEL_TMD700 = RIG_MAKE_MODEL RIG_KENWOOD 26"
definition RIG_MODEL_TMV7 :: nat where [ken_models]: "RIG_MODEL_TMV7 = RIG_MAKE_MODEL RIG_KENWOOD 27"
definition RIG_MODEL_TS480 :: nat where [ken_models]: "RIG_MODEL_TS480 = RIG_MAKE_MODEL RIG_KENWOOD 28"
definition RIG_MODEL_K3 :: nat where [ken_models]: "RIG_MODEL_K3 = RIG_MAKE_MODEL RIG_KENWOOD 29"
definition RIG_MODEL_TRC80 :: nat where [ken_models]: "RIG_MODEL_TRC80 = RIG_MAKE_MODEL RIG_KENWOOD 30"
definition RIG_MODEL_TS590S :: nat where [ken_models]: "RIG_MODEL_TS590S = RIG_MAKE_MODEL RIG_KENWOOD 31"
definition RIG_MODEL_TRANSFOX :: nat where [ken_models]: "RIG_MODEL_TRANSFOX = RIG_MAKE_MODEL RIG_KENWOOD 32"
definition RIG_MODEL_THD72A :: nat where [ken_models]: "RIG_MODEL_THD72A = RIG_MAKE_MODEL RIG_KENWOOD 33"
definition RIG_MODEL_TMD710 :: nat where [ken_models]: "RIG_MODEL_TMD710 = RIG_MAKE_MODEL RIG_KENWOOD 34"
definition RIG_MODEL_TMV71 :: nat where [ken_models]: "RIG_MODEL_TMV71 = RIG_MAKE_MODEL RIG_KENWOOD 35"
definition RIG_MODEL_F6K :: nat where [ken_models]: "RIG_MODEL_F6K = RIG_MAKE_MODEL RIG_KENWOOD 36"
definition RIG_MODEL_TS590SG :: nat where [ken_models]: "RIG_MODEL_TS590SG = RIG_MAKE_MODEL RIG_KENWOOD 37"
definition RIG_MODEL_XG3 :: nat where [ken_models]: "RIG_MODEL_XG3 = RIG_MAKE_MODEL RIG_KENWOOD 38"
definition RIG_MODEL_TS990S :: nat where [ken_models]: "RIG_MODEL_TS990S = RIG_MAKE_MODEL RIG_KENWOOD 39"
definition RIG_MODEL_HPSDR :: nat where [ken_models]: "RIG_MODEL_HPSDR = RIG_MAKE_MODEL RIG_KENWOOD 40"
definition RIG_MODEL_TS890S :: nat where [ken_models]: "RIG_MODEL_TS890S = RIG_MAKE_MODEL RIG_KENWOOD 41"
definition RIG_MODEL_THD74 :: nat where [ken_models]: "RIG_MODEL_THD74 = RIG_MAKE_MODEL RIG_KENWOOD 42"
definition RIG_MODEL_K3S :: nat where [ken_models]: "RIG_MODEL_K3S = RIG_MAKE_MODEL RIG_KENWOOD 43"
definition RIG_MODEL_KX2 :: nat where [ken_models]: "RIG_MODEL_KX2 = RIG_MAKE_MODEL RIG_KENWOOD 44"
definition RIG_MODEL_KX3 :: nat where [ken_models]: "RIG_MODEL_KX3 = RIG_MAKE_MODEL RIG_KENWOOD 45"
definition RIG_MODEL_PT8000A :: nat where [ken_models]: "RIG_MODEL_PT8000A = RIG_MAKE_MODEL RIG_KENWOOD 46"
definition RIG_MODEL_K4 :: nat where [ken_models]: "RIG_MODEL_K4 = RIG_MAKE_MODEL RIG_KENWOOD 47"
definition RIG_MODEL_POWERSDR :: nat where [ken_models]: "RIG_MODEL_POWERSDR = RIG_MAKE_MODEL RIG_KENWOOD 48"
definition RIG_MODEL_MALACHITE :: nat where [ken_models]: "RIG_MODEL_MALACHITE = RIG_MAKE_MODEL RIG_KENWOOD 49"
definition RIG_MODEL_LAB599_TX500 :: nat where [ken_models]: "RIG_MODEL_LAB599_TX500 = RIG_MAKE_MODEL RIG_KENWOOD 50"

subsection \<open>Identifications\<close>

definition kenwood_id_string_list :: "(nat \<times> string) list" where
  "kenwood_id_string_list =
  [(RIG_MODEL_TS940, ''001''), (RIG_MODEL_TS811, ''002''), (RIG_MODEL_TS711, ''003''), (RIG_MODEL_TS440, ''004''),
   (RIG_MODEL_R5000, ''005''), (RIG_MODEL_TS140S, ''006''), (RIG_MODEL_TS790, ''007''), (RIG_MODEL_TS950S, ''008''),
   (RIG_MODEL_TS850, ''009''), (RIG_MODEL_TS450S, ''010''), (RIG_MODEL_TS690S, ''011''), (RIG_MODEL_TS950SDX, ''012''),
   (RIG_MODEL_TS50, ''013''), (RIG_MODEL_TS870S, ''015''), (RIG_MODEL_TS570D, ''017''), (RIG_MODEL_TS570S, ''018''),
   (RIG_MODEL_TS2000, ''019''), (RIG_MODEL_TS480, ''020''), (RIG_MODEL_PT8000A, ''020''), (RIG_MODEL_TS590S, ''021''),
   (RIG_MODEL_TS990S, ''022''), (RIG_MODEL_TS590SG, ''023''), (RIG_MODEL_TS890S, ''024''), (RIG_MODEL_THD7A, ''TH-D7''),
   (RIG_MODEL_THD7AG, ''TH-D7G''), (RIG_MODEL_TMD700, ''TM-D700''), (RIG_MODEL_TMD710, ''TM-D710''), (RIG_MODEL_THD72A, ''TH-D72''),
   (RIG_MODEL_THD74, ''TH-D74''), (RIG_MODEL_TMV7, ''TM-V7''), (RIG_MODEL_TMV71, ''TM-V71''), (RIG_MODEL_THF6A, ''TH-F6''),
   (RIG_MODEL_THF7E, ''TH-F7''), (RIG_MODEL_THG71, ''TH-G71''), (RIG_MODEL_MALACHITE, ''020'')]"

subsection \<open>Tones\<close>

definition kenwood38_ctcss_list :: "nat list" where
  "kenwood38_ctcss_list =
    [670, 719, 744, 770, 797, 825, 854, 885, 915, 948, 974, 1000, 1035, 1072, 1109, 1148, 1188, 1230, 1273, 1318,
     1365, 1413, 1462, 1514, 1567, 1622, 1679, 1738, 1799, 1862, 1928, 2035, 2107, 2181, 2257, 2336, 2418, 2503]"

definition kenwood42_ctcss_list :: "nat list" where
  "kenwood42_ctcss_list =
    [670, 693, 719, 744, 770, 797, 825, 854, 885, 915, 948, 974, 1000, 1035, 1072, 1109, 1148, 1188, 1230, 1273,
     1318, 1365, 1413, 1462, 1514, 1567, 1622, 1679, 1738, 1799, 1862, 1928, 2035, 2065, 2107, 2181, 2257, 2291,
     2336, 2418, 2503, 2541]"

subsection \<open>Modes\<close>

definition KENWOOD_MODE_TABLE_MAX :: nat where "KENWOOD_MODE_TABLE_MAX = 24"

text \<open>A table has that many entries; those not given are zero.\<close>

definition mode_table_of :: "rmode_t list \<Rightarrow> rmode_t list" where
  "mode_table_of ms = ms @ replicate (KENWOOD_MODE_TABLE_MAX - length ms) 0"

definition kenwood_mode_table :: "rmode_t list" where
  "kenwood_mode_table = mode_table_of
    [RIG_MODE_NONE, RIG_MODE_LSB, RIG_MODE_USB, RIG_MODE_CW, RIG_MODE_FM, RIG_MODE_AM, RIG_MODE_RTTY,
     RIG_MODE_CWR, RIG_MODE_NONE, RIG_MODE_RTTYR, RIG_MODE_PSK, RIG_MODE_PSKR, RIG_MODE_PKTLSB,
     RIG_MODE_PKTUSB, RIG_MODE_PKTFM, RIG_MODE_PKTAM]"

definition kenwood2rmode :: "u8 \<Rightarrow> rmode_t list \<Rightarrow> rmode_t" where
  "kenwood2rmode mode mode_table =
     (if KENWOOD_MODE_TABLE_MAX \<le> unat mode then RIG_MODE_NONE else mode_table ! unat mode)"

text \<open>The loop: the first place that holds the mode, or -1.\<close>

fun mode_place :: "rmode_t \<Rightarrow> int \<Rightarrow> rmode_t list \<Rightarrow> int" where
  "mode_place mode i [] = - 1"
| "mode_place mode i (m # ms) = (if m = mode then i else mode_place mode (i + 1) ms)"

definition rmode2kenwood :: "rmode_t \<Rightarrow> rmode_t list \<Rightarrow> int" where
  "rmode2kenwood mode mode_table = (if mode \<noteq> RIG_MODE_NONE then mode_place mode 0 mode_table else - 1)"

text \<open>The character for a mode in a command, and the mode a character of a reply stands for; a
  \<^verbatim>\<open>char\<close> is signed.\<close>

definition kmode_char :: "int \<Rightarrow> char" where
  "kmode_char kmode = char_at (word_of_int (if kmode \<le> 9 then 48 + kmode else 65 + kmode - 10))"

definition char_kmode :: "char \<Rightarrow> int" where
  "char_kmode c = (let v = sint (octet_of c) in if v \<le> 57 then v - 48 else v - 65 + 10)"

lemma mode_place_none: "mode \<notin> set ms \<Longrightarrow> mode_place mode i ms = - 1"
  by (induction ms arbitrary: i) auto

lemma mode_place_some:
  "mode \<in> set ms \<Longrightarrow> \<exists>k < length ms. ms ! k = mode \<and> mode_place mode i ms = i + int k"
proof (induction ms arbitrary: i)
  case (Cons m ms)
  show ?case
  proof (cases "m = mode")
    case False
    then have "mode \<in> set ms" using Cons.prems by simp
    from Cons.IH [OF this, of "i + 1"] obtain k
      where "k < length ms" "ms ! k = mode" "mode_place mode (i + 1) ms = i + 1 + int k" by blast
    with False show ?thesis by (intro exI [of _ "Suc k"]) simp
  qed auto
qed simp

lemma kenwood_mode_found:
  assumes "0 \<le> rmode2kenwood mode T"
  shows "\<exists>k < length T. T ! k = mode \<and> rmode2kenwood mode T = int k"
proof -
  have "mode \<in> set T" "mode \<noteq> RIG_MODE_NONE"
    using assms mode_place_none [of mode T 0] by (auto simp: rmode2kenwood_def split: if_splits)
  then show ?thesis using mode_place_some [of mode T 0] by (auto simp: rmode2kenwood_def)
qed

lemma kenwood_mode_has_number: "mode \<in> set T \<Longrightarrow> mode \<noteq> RIG_MODE_NONE \<Longrightarrow> 0 \<le> rmode2kenwood mode T"
  using mode_place_some [of mode T 0] by (auto simp: rmode2kenwood_def)

lemma octet_char [simp]: "octet_of (char_at b) = b"
proof -
  have "unat b mod 256 = unat b" using unsigned_less [of b] by (intro mod_less) simp
  then show ?thesis by (simp add: octet_of_def char_at_def)
qed

lemma sint_small: "- 128 \<le> i \<Longrightarrow> i < 128 \<Longrightarrow> sint (word_of_int i :: u8) = i"
  by (simp add: signed_of_int signed_take_bit_int_eq_self)

text \<open>C19: the modes on their way to the radio and back. Whatever the table of the model, a mode that
  \<^verbatim>\<open>kenwood_set_mode\<close> finds a number for is the one \<^verbatim>\<open>kenwood_get_mode\<close> reads out of the
  character sent for that number; and in the table most models use, every mode but none has a number.\<close>

theorem kenwood_mode_roundtrip:
  assumes "length T = KENWOOD_MODE_TABLE_MAX" and "0 \<le> rmode2kenwood mode T"
  shows "kenwood2rmode (word_of_int (char_kmode (kmode_char (rmode2kenwood mode T)))) T = mode
    \<and> (\<forall>m \<in> set kenwood_mode_table. m \<noteq> RIG_MODE_NONE \<longrightarrow> 0 \<le> rmode2kenwood m kenwood_mode_table)"
proof -
  obtain n where n: "n < 24" "T ! n = mode" "rmode2kenwood mode T = int n"
    using kenwood_mode_found [OF assms(2)] assms(1) by (auto simp: KENWOOD_MODE_TABLE_MAX_def)
  have "char_kmode (kmode_char (int n)) = int n"
    using n(1) by (simp add: char_kmode_def kmode_char_def Let_def sint_small del: of_int_add of_int_diff)
  then have "kenwood2rmode (word_of_int (char_kmode (kmode_char (rmode2kenwood mode T)))) T = mode"
    using n by (simp add: kenwood2rmode_def KENWOOD_MODE_TABLE_MAX_def unat_of_nat)
  then show ?thesis using kenwood_mode_has_number by blast
qed

lemma kenwood_mode_roundtrip_witness:
  "kenwood2rmode (word_of_int (char_kmode (kmode_char (rmode2kenwood RIG_MODE_PKTUSB kenwood_mode_table))))
     kenwood_mode_table = RIG_MODE_PKTUSB"
proof -
  have "length kenwood_mode_table = KENWOOD_MODE_TABLE_MAX" "RIG_MODE_PKTUSB \<in> set kenwood_mode_table"
    by (simp_all add: kenwood_mode_table_def mode_table_of_def KENWOOD_MODE_TABLE_MAX_def)
  moreover from this have "0 \<le> rmode2kenwood RIG_MODE_PKTUSB kenwood_mode_table"
    by (intro kenwood_mode_has_number) (simp_all add: flag_defs)
  ultimately show ?thesis using kenwood_mode_roundtrip by blast
qed

end
