(* ===== verification/Hamlib_Kenwood_Trn.thy ===== *)
theory Hamlib_Kenwood_Trn
  imports Hamlib_Kenwood_Ids Hamlib_Io Hamlib_Frequency
begin

text \<open>
  Talking to a Kenwood radio (\<^verbatim>\<open>rigs/kenwood/kenwood.c\<close>): \<^verbatim>\<open>kenwood_transaction\<close> with its
  retries, the command that verifies a setting, and the cached reply to \<^verbatim>\<open>IF\<close>;
  \<^verbatim>\<open>kenwood_safe_transaction\<close> and \<^verbatim>\<open>kenwood_get_if\<close>.

  Commands and replies are strings. A command is never \<^verbatim>\<open>NULL\<close>: the C function dereferences it
  before it tests for that. A transaction that wants no reply has size 0.
\<close>

subsection \<open>The back end's data\<close>

text \<open>
  The parts of \<^verbatim>\<open>struct kenwood_priv_data\<close> that the modelled functions use, with the port and the
  fields of \<^verbatim>\<open>struct rig_state\<close> that only back ends read or write.
\<close>

record 'd kenwood_priv_data =
  info :: string
  k_split :: split_t
  k_tx_vfo :: vfo_t
  trn_state :: int
  fw_rev_uint :: int
  verify_cmd :: string
  is_emulation :: bool
  curr_mode :: rmode_t
  cache_start :: timespec
  last_if_response :: string
  k_poweron :: bool
  has_rit2 :: bool
  no_id :: bool
  k_modeA :: rmode_t
  k_modeB :: rmode_t
  datamodeA :: bool
  datamodeB :: bool
  k_port :: "'d line"
  k_retry :: int
  post_write_delay :: int
  transaction_active :: bool
  k_auto_power_on :: bool
  k_auto_power_off :: bool
  ag_format :: int
  micgain_min :: int
  micgain_max :: int
  k_power_now :: int
  k_power_min :: int
  k_power_max :: int

type_synonym 'd kenwood_rig = "'d kenwood_priv_data rig"
type_synonym 'd kenwood_ops = "'d kenwood_priv_data caps"
type_synonym 'd kenwood_ports = "'d kenwood_priv_data ports"
type_synonym 'd kenwood_call = "('d kenwood_rig, int) state"

text \<open>
  What surrounds the back end: the radio that answers each octet, the clock after a read and after a
  pause, and what the capabilities of the model say: \<^verbatim>\<open>struct kenwood_priv_caps\<close>, the timeout in
  milliseconds, and the lists of tones, attenuators and preamplifiers. \<open>cap_mode_table\<close> and \<open>cap_if_len\<close> may be
  missing and zero; lists stand without the entry that marks their end. \<open>no_restore_ai\<close> is a global
  variable of the library; the \<open>unset\<close> fields are what uninitialised local variables hold.
\<close>

record 'd ken =
  k_radio :: "'d answers"
  k_after_read :: "'d line \<Rightarrow> timespec \<Rightarrow> timespec"
  k_after_sleep :: "int \<Rightarrow> timespec \<Rightarrow> timespec"
  k_model :: nat
  cmdtrm :: char
  cap_if_len :: nat
  cap_mode_table :: "rmode_t list option"
  cap_filter_width :: "(rmode_t \<times> int \<times> pbwidth_t) list option"
  cap_timeout :: int
  cap_ctcss_list :: "nat list"
  cap_attenuator :: "int list"
  cap_preamp :: "int list"
  cap_slope_high :: "(rmode_t \<times> int \<times> int \<times> int) list option"
  cap_slope_low :: "(rmode_t \<times> int \<times> int \<times> int) list option"
  cap_str_cal :: "(int \<times> int) list"
  no_restore_ai :: bool
  unset_vfo :: vfo_t
  unset_int :: int
  unset_str :: string

text \<open>The defaults \<^verbatim>\<open>kenwood_init\<close> fills in.\<close>

definition if_len :: "'d ken \<Rightarrow> nat" where
  "if_len K = (if cap_if_len K = 0 then 37 else cap_if_len K)"

definition mode_table :: "'d ken \<Rightarrow> rmode_t list" where
  "mode_table K = (case cap_mode_table K of None \<Rightarrow> kenwood_mode_table | Some t \<Rightarrow> t)"

definition KENWOOD_MAX_BUF_LEN :: nat where "KENWOOD_MAX_BUF_LEN = 128"

definition upd_ken :: "('d kenwood_priv_data \<Rightarrow> 'd kenwood_priv_data) \<Rightarrow> ('d kenwood_rig, unit) state" where
  "upd_ken f = modify (\<lambda>rig. rig\<lparr>priv := f (priv rig)\<rparr>)"

definition ken_port :: "('d line \<Rightarrow> 'a \<times> 'd line) \<Rightarrow> ('d kenwood_rig, 'a) state" where
  "ken_port f = State (\<lambda>rig. let (a, l) = f (k_port (priv rig))
     in (a, rig\<lparr>priv := (priv rig)\<lparr>k_port := l\<rparr>\<rparr>))"

definition ken_sleep :: "'d ken \<Rightarrow> int \<Rightarrow> ('d kenwood_rig, unit) state" where
  "ken_sleep K us = modify (\<lambda>rig. rig\<lparr>now := k_after_sleep K us (now rig)\<rparr>)"

lemma run_ken [simp, run_simps]:
  "run_state (upd_ken f) rig = ((), rig\<lparr>priv := f (priv rig)\<rparr>)"
  "run_state (ken_sleep K us) rig = ((), rig\<lparr>now := k_after_sleep K us (now rig)\<rparr>)"
  by (simp_all add: upd_ken_def ken_sleep_def)

lemma run_ken_port:
  "run_state (ken_port f) rig = (fst (f (k_port (priv rig))),
     rig\<lparr>priv := (priv rig)\<lparr>k_port := snd (f (k_port (priv rig)))\<rparr>\<rparr>)"
  by (simp add: ken_port_def case_prod_beta)

subsection \<open>What becomes of a reply\<close>

text \<open>
  How a step of a transaction ends: \<open>Quit\<close> with a code, what is in the buffer and the data for the
  caller, by the label \<^verbatim>\<open>transaction_quit\<close>; \<open>Leave\<close> by a \<^verbatim>\<open>return\<close> before it; or the command
  is written again or only the reply read again, with the new count of retries, after a pause in
  microseconds.
\<close>

datatype ken_end = Quit int string "string option" | Leave int
datatype ken_step = End ken_end | Rewrite int int | Reread int int

definition again_or :: "int \<Rightarrow> int \<Rightarrow> int \<Rightarrow> string \<Rightarrow> ken_step" where
  "again_or retry n rc s = (if n < retry then Rewrite (n + 1) 0 else End (Quit rc s None))"

text \<open>The data: the reply without its terminator, at most the size less one.\<close>

definition reply_data :: "int \<Rightarrow> nat \<Rightarrow> string \<Rightarrow> string option" where
  "reply_data retval sz s = (if 0 < retval then Some (take (min sz (nat retval) - 1) s) else None)"

text \<open>Everything from the read to the end; \<open>n\<close> is \<^verbatim>\<open>retry_read\<close>, \<open>s\<close> the string in the buffer. The
  reply to the verifying command after \<^verbatim>\<open>TX\<close> leaves with the length of the reply as its code.\<close>

definition judge_reply ::
  "'d ken \<Rightarrow> string \<Rightarrow> int \<Rightarrow> int \<Rightarrow> string \<Rightarrow> nat \<Rightarrow> int \<Rightarrow> string \<Rightarrow> ken_step" where
  "judge_reply K verify retry n cmd sz retval s =
     (if retval < 0
      then if n < retry \<and> 0 < sz then Rewrite (n + 1) 0
           else if n < retry \<and> retval = - RIG_ETIMEOUT then Reread (n + 1) 0
           else End (Quit retval s None)
      else if s = [] \<or> last s \<noteq> cmdtrm K then again_or retry n (- RIG_EPROTO) s
      else if length s = 2 \<and> hd s = CHR ''N'' then End (Quit (- RIG_ENAVAIL) s None)
      else if length s = 2 \<and> hd s = CHR ''O'' then again_or retry n (- RIG_EPROTO) s
      else if length s = 2 \<and> hd s = CHR ''E'' then again_or retry n (- RIG_EIO) s
      else if length s = 2 \<and> hd s = CHR ''?''
      then if n \<le> 1 then Reread (n + 1) (100 * 1000)
           else if n + 1 < retry then Rewrite (n + 2) (cap_timeout K * 1000)
           else End (Quit (- RIG_ERJCTED) s None)
      else if 0 < sz
      then if hd s \<noteq> char_nth cmd 0 \<or> (char_nth cmd 1 \<noteq> NUL \<and> char_nth s 1 \<noteq> char_nth cmd 1)
           then again_or retry n (- RIG_EPROTO) s
           else End (Quit RIG_OK s (reply_data retval sz s))
      else if (starts ''RX'' cmd \<or> starts ''TX'' cmd) \<and> starts ''IF'' verify
      then End (Quit retval s None)
      else if char_nth verify 0 \<noteq> hd s \<or> (char_nth verify 1 \<noteq> NUL \<and> char_nth verify 1 \<noteq> char_nth s 1)
      then again_or retry n (- RIG_EPROTO) s
      else End (Quit RIG_OK s None))"

subsection \<open>Writing and reading\<close>

text \<open>Commands not followed by the verifying command.\<close>

definition skips_verify :: "string \<Rightarrow> bool" where
  "skips_verify cmd \<longleftrightarrow> starts ''RX'' cmd \<or> starts ''RU'' cmd \<or> starts ''RD'' cmd \<or> starts ''KYW'' cmd"

definition wire_command :: "'d ken \<Rightarrow> string \<Rightarrow> u8 list" where
  "wire_command K cmd =
     octs (if cmd \<noteq> [] \<and> last cmd \<in> {CHR '';'', CHR 0x0D} then cmd else cmd @ [cmdtrm K])"

text \<open>From \<^verbatim>\<open>transaction_write\<close> to \<^verbatim>\<open>transaction_read\<close>; \<open>None\<close>: go on and read.\<close>

definition kenwood_write :: "'d ken \<Rightarrow> string \<Rightarrow> nat \<Rightarrow> ('d kenwood_rig, ken_end option) state" where
  "kenwood_write K cmd sz = do {
     _ \<leftarrow> ken_port serial_flush;
     rc \<leftarrow> ken_port (write_block (k_radio K) (wire_command K cmd));
     p \<leftarrow> gets priv;
     if rc \<noteq> RIG_OK then State_Monad.return (Some (Quit rc [] None))
     else if skips_verify cmd then State_Monad.return (Some (Quit RIG_OK [] None))
     else if sz = 0 \<and> no_id p then State_Monad.return (Some (Leave RIG_OK))
     else if sz = 0
     then do {
       _ \<leftarrow> upd_ken (\<lambda>p. p\<lparr>transaction_active := False\<rparr>);
       rc2 \<leftarrow> ken_port (write_block (k_radio K) (octs (verify_cmd p)));
       State_Monad.return (if rc2 \<noteq> RIG_OK then Some (Quit rc2 [] None) else None)
     }
     else State_Monad.return None
   }"

text \<open>
  The buffer is as long as any, whatever limit the read is given. An empty string is looked at before
  its first character.
\<close>

definition reply_limit :: "string \<Rightarrow> nat \<Rightarrow> nat" where
  "reply_limit verify sz = min (if 0 < sz then sz + 1 else length verify + 48) KENWOOD_MAX_BUF_LEN"

definition read_reply :: "'d ken \<Rightarrow> nat \<Rightarrow> 'd line \<Rightarrow> (int \<times> string) \<times> 'd line" where
  "read_reply K len l =
     (let ((rc, got), l') = read_string len [octet_of (cmdtrm K)] 1 l
      in ((rc, c_str got), l'\<lparr>overrun := overrun l \<or> KENWOOD_MAX_BUF_LEN \<le> length got
                              \<or> (0 \<le> rc \<and> c_str got = [])\<rparr>))"

definition kenwood_read :: "'d ken \<Rightarrow> int \<Rightarrow> string \<Rightarrow> nat \<Rightarrow> int \<Rightarrow> ('d kenwood_rig, ken_step) state" where
  "kenwood_read K retry cmd sz n = do {
     verify \<leftarrow> gets (\<lambda>rig. verify_cmd (priv rig));
     (retval, s) \<leftarrow> ken_port (read_reply K (reply_limit verify sz));
     _ \<leftarrow> modify (\<lambda>rig. rig\<lparr>now := k_after_read K (k_port (priv rig)) (now rig)\<rparr>);
     let step = judge_reply K verify retry n cmd sz retval s;
     case step of
       Reread m us \<Rightarrow> do { _ \<leftarrow> do_when (us \<noteq> 0) (ken_sleep K us); State_Monad.return step }
     | Rewrite m us \<Rightarrow> do { _ \<leftarrow> do_when (us \<noteq> 0) (ken_sleep K us); State_Monad.return step }
     | End e \<Rightarrow> State_Monad.return step
   }"

subsection \<open>The retries\<close>

text \<open>Each jump back raises the count, and none happens once it has passed both 1 and the number of
  retries of the port: that is why the loop ends.\<close>

lemma judge_counts:
  "judge_reply K verify retry n cmd sz retval s = Rewrite m us \<Longrightarrow> n < m \<and> n < max retry 2"
  "judge_reply K verify retry n cmd sz retval s = Reread m us \<Longrightarrow> n < m \<and> n < max retry 2"
  by (auto simp: judge_reply_def again_or_def split: if_splits)

lemma kenwood_read_counts:
  "run_state (kenwood_read K retry cmd sz n) rig = (Rewrite m us, rig') \<Longrightarrow> n < m \<and> n < max retry 2"
  "run_state (kenwood_read K retry cmd sz n) rig = (Reread m us, rig') \<Longrightarrow> n < m \<and> n < max retry 2"
  by (auto simp: kenwood_read_def run_state_bind run_ken_port Let_def case_prod_beta split: ken_step.splits
      dest: judge_counts)

function kenwood_loop ::
  "'d ken \<Rightarrow> int \<Rightarrow> string \<Rightarrow> nat \<Rightarrow> bool \<Rightarrow> int \<Rightarrow> 'd kenwood_rig \<Rightarrow> ken_end \<times> 'd kenwood_rig" where
  "kenwood_loop K retry cmd sz write n rig =
     (let (sent, rig1) = (if write then run_state (kenwood_write K cmd sz) rig else (None, rig));
          (step, rig2) = run_state (kenwood_read K retry cmd sz n) rig1
      in case sent of Some e \<Rightarrow> (e, rig1)
         | None \<Rightarrow> (case step of
               End e \<Rightarrow> (e, rig2)
             | Rewrite m us \<Rightarrow> kenwood_loop K retry cmd sz True m rig2
             | Reread m us \<Rightarrow> kenwood_loop K retry cmd sz False m rig2))"
  by pat_completeness auto

termination kenwood_loop
  by (relation "measure (\<lambda>(K, retry, cmd, sz, write, n, rig). nat (max retry 2 - n))")
    (auto dest!: kenwood_read_counts [OF sym])

declare kenwood_loop.simps [simp del]

subsection \<open>A transaction\<close>

text \<open>Commands that invalidate the cached reply to \<^verbatim>\<open>IF\<close>.\<close>

definition sets_something :: "string \<Rightarrow> bool" where
  "sets_something cmd \<longleftrightarrow> 2 < length cmd \<or> cmd = ''RX'' \<or> starts ''TX'' cmd \<or> starts ''ZZTX'' cmd"

text \<open>The cached reply, if it can be used; looking at its age may renew its stamp.\<close>

definition kenwood_if_cached :: "string \<Rightarrow> ('d kenwood_rig, bool) state" where
  "kenwood_if_cached cmd = do {
     rig \<leftarrow> gets id;
     if cmd = ''IF'' \<and> tv_sec (cache_start (priv rig)) \<noteq> 0
     then do {
       let (age, stamp) = elapsed_ms (now rig) (cache_start (priv rig)) HAMLIB_ELAPSED_GET;
       _ \<leftarrow> upd_ken (\<lambda>p. p\<lparr>cache_start := stamp\<rparr>);
       State_Monad.return (age < 500)
     }
     else State_Monad.return False
   }"

text \<open>The label \<^verbatim>\<open>transaction_quit\<close>.\<close>

definition kenwood_quit :: "'d ken \<Rightarrow> string \<Rightarrow> int \<Rightarrow> string \<Rightarrow> ('d kenwood_rig, unit) state" where
  "kenwood_quit K cmd rc s = do {
     rig \<leftarrow> gets id;
     _ \<leftarrow> do_when (rc = RIG_OK \<and> cmd = ''IF'')
         (upd_ken (\<lambda>p. p\<lparr>cache_start := snd (elapsed_ms (now rig) (cache_start p) HAMLIB_ELAPSED_SET),
                         last_if_response := take (if_len K) s\<rparr>));
     upd_ken (\<lambda>p. p\<lparr>transaction_active := False\<rparr>)
   }"

definition kenwood_transaction ::
  "'d ken \<Rightarrow> string \<Rightarrow> string \<Rightarrow> nat \<Rightarrow> ('d kenwood_rig, int \<times> string) state" where
  "kenwood_transaction K cmd data sz = do {
     _ \<leftarrow> upd_ken (\<lambda>p. p\<lparr>transaction_active := True,
            post_write_delay := (if is_emulation p then 0 else post_write_delay p)\<rparr>);
     hit \<leftarrow> kenwood_if_cached cmd;
     p \<leftarrow> gets priv;
     if hit then State_Monad.return (RIG_OK, if 0 < sz then take sz (last_if_response p) else data)
     else do {
       _ \<leftarrow> do_when (sets_something cmd) (upd_ken (\<lambda>p. p\<lparr>cache_start := (cache_start p)\<lparr>tv_sec := 0\<rparr>\<rparr>));
       e \<leftarrow> State (kenwood_loop K (k_retry p) cmd sz True 0);
       case e of
         Leave rc \<Rightarrow> State_Monad.return (rc, data)
       | Quit rc s res \<Rightarrow> do {
           _ \<leftarrow> kenwood_quit K cmd rc s;
           State_Monad.return (rc, case res of None \<Rightarrow> data | Some d \<Rightarrow> d)
         }
     }
   }"

text \<open>A command without a reply.\<close>

definition kenwood_set :: "'d ken \<Rightarrow> string \<Rightarrow> 'd kenwood_call" where
  "kenwood_set K cmd = do {
     (rc, _) \<leftarrow> kenwood_transaction K cmd [] 0;
     State_Monad.return rc
   }"

subsection \<open>Replies of a given length\<close>

text \<open>The loop of \<^verbatim>\<open>kenwood_safe_transaction\<close>, \<open>n\<close> times more at most.\<close>

fun safe_tries ::
  "'d ken \<Rightarrow> string \<Rightarrow> nat \<Rightarrow> nat \<Rightarrow> nat \<Rightarrow> string \<Rightarrow> ('d kenwood_rig, int \<times> string) state" where
  "safe_tries K cmd sz expected n buf = do {
     (err, buf') \<leftarrow> kenwood_transaction K cmd buf sz;
     if err \<noteq> RIG_OK then State_Monad.return (err, buf')
     else if k_model K \<noteq> RIG_MODEL_POWERSDR \<and> length buf' \<noteq> expected
     then do {
       rig \<leftarrow> gets id;
       _ \<leftarrow> upd_ken (\<lambda>p. p\<lparr>cache_start := snd (elapsed_ms (now rig) (cache_start p) HAMLIB_ELAPSED_INVALIDATE)\<rparr>);
       _ \<leftarrow> ken_sleep K (50 * 1000);
       (case n of
          0 \<Rightarrow> State_Monad.return (- RIG_EPROTO, buf')
        | Suc k \<Rightarrow> safe_tries K cmd sz expected k buf')
     }
     else State_Monad.return (RIG_OK, buf')
   }"

declare safe_tries.simps [simp del]

definition kenwood_safe_transaction ::
  "'d ken \<Rightarrow> string \<Rightarrow> nat \<Rightarrow> nat \<Rightarrow> ('d kenwood_rig, int \<times> string) state" where
  "kenwood_safe_transaction K cmd sz expected = do {
     retry \<leftarrow> gets (\<lambda>rig. k_retry (priv rig));
     safe_tries K cmd (if expected = 0 then 0 else sz) expected (nat retry - 1) []
   }"

definition kenwood_get_if :: "'d ken \<Rightarrow> 'd kenwood_call" where
  "kenwood_get_if K = do {
     (rc, s) \<leftarrow> kenwood_safe_transaction K ''IF'' KENWOOD_MAX_BUF_LEN (if_len K);
     _ \<leftarrow> upd_ken (\<lambda>p. p\<lparr>info := s\<rparr>);
     State_Monad.return rc
   }"

subsection \<open>What a transaction changes\<close>

text \<open>The handles that differ only in the line, the clock and the notes of the transactions.\<close>

definition ken_only :: "'d kenwood_rig \<Rightarrow> 'd kenwood_rig \<Rightarrow> bool" where
  "ken_only rig rig' \<longleftrightarrow> (\<exists>l t a w c i. rig' = rig\<lparr>now := t, priv := (priv rig)\<lparr>k_port := l,
     transaction_active := a, post_write_delay := w, cache_start := c, last_if_response := i\<rparr>\<rparr>)"

lemma ken_only_trans [trans]: "ken_only a b \<Longrightarrow> ken_only b c \<Longrightarrow> ken_only a c"
  by (force simp: ken_only_def)

lemma ken_onlyI:
  assumes "rig' = rig\<lparr>now := now rig', priv := priv rig'\<rparr>"
    and "priv rig' = (priv rig)\<lparr>k_port := k_port (priv rig'), transaction_active := transaction_active (priv rig'),
      post_write_delay := post_write_delay (priv rig'), cache_start := cache_start (priv rig'),
      last_if_response := last_if_response (priv rig')\<rparr>"
  shows "ken_only rig rig'"
  unfolding ken_only_def using assms by metis

lemma ken_only_updates [simp]:
  "ken_only rig rig" "ken_only rig (rig\<lparr>now := t\<rparr>)" "ken_only rig (rig\<lparr>priv := (priv rig)\<lparr>k_port := l\<rparr>\<rparr>)"
  "ken_only rig (rig\<lparr>priv := (priv rig)\<lparr>k_port := l, transaction_active := a\<rparr>\<rparr>)"
  "ken_only rig (rig\<lparr>priv := (priv rig)\<lparr>k_port := l\<rparr>, now := t\<rparr>)"
  "ken_only rig (rig\<lparr>priv := (priv rig)\<lparr>transaction_active := a\<rparr>\<rparr>)"
  "ken_only rig (rig\<lparr>priv := (priv rig)\<lparr>transaction_active := a, post_write_delay := w\<rparr>\<rparr>)"
  "ken_only rig (rig\<lparr>priv := (priv rig)\<lparr>transaction_active := a, post_write_delay := w, cache_start := c\<rparr>\<rparr>)"
  "ken_only rig (rig\<lparr>priv := (priv rig)\<lparr>transaction_active := a, cache_start := c, last_if_response := i\<rparr>\<rparr>)"
  "ken_only rig (rig\<lparr>priv := (priv rig)\<lparr>cache_start := c\<rparr>\<rparr>)"
  by (rule ken_onlyI; simp)+

lemma ken_only_keeps:
  "ken_only rig rig' \<Longrightarrow> same_setup rig rig' \<and> cache rig' = cache rig
    \<and> verify_cmd (priv rig') = verify_cmd (priv rig) \<and> no_id (priv rig') = no_id (priv rig)
    \<and> k_retry (priv rig') = k_retry (priv rig) \<and> is_emulation (priv rig') = is_emulation (priv rig)
    \<and> k_split (priv rig') = k_split (priv rig) \<and> k_tx_vfo (priv rig') = k_tx_vfo (priv rig)
    \<and> has_rit2 (priv rig') = has_rit2 (priv rig) \<and> info (priv rig') = info (priv rig)
    \<and> fw_rev_uint (priv rig') = fw_rev_uint (priv rig)"
  by (auto simp: ken_only_def same_setup_def)

subsection \<open>One reply on the line\<close>

text \<open>A text the radio can send as a reply.\<close>

definition reply_text :: "'d ken \<Rightarrow> string \<Rightarrow> bool" where
  "reply_text K s \<longleftrightarrow> s \<noteq> [] \<and> cmdtrm K \<notin> set s \<and> NUL \<notin> set s \<and> hd s \<noteq> CHR 0x5C \<and> cmdtrm K \<noteq> NUL"

definition on_wire :: "'d ken \<Rightarrow> string \<Rightarrow> arrival list" where
  "on_wire K s = map Octet (octs (s @ [cmdtrm K]))"

lemma read_reply_text:
  assumes "reply_text K s" and "length s + 1 < len" and "len \<le> KENWOOD_MAX_BUF_LEN"
    and "incoming l = on_wire K s @ t" and "usable l"
  shows "\<exists>l'. read_reply K len l = ((int (length s) + 1, s @ [cmdtrm K]), l') \<and> consumed l t l'"
proof -
  let ?f = "octs (s @ [cmdtrm K])" and ?S = "[octet_of (cmdtrm K)]"
  let ?r = "read_string len ?S 1 l"
  have backslash: "octet_of CHR 0x5C = 0x5c" by (simp add: octet_of_def)
  have hd: "hd ?f \<noteq> 0x5c"
    using assms(1) unfolding backslash [symmetric] by (cases s) (auto simp: reply_text_def)
  have lim: "string_limit len ?f = len - 1" using hd by (simp add: string_limit_def)
  have w: "up_to_stop ?S (take (len - 1) ?f) = ?f"
  proof -
    have "take (len - 1) ?f = ?f" using assms(2) by simp
    moreover have "up_to_stop ?S ?f = ?f"
      using assms(1) by (intro up_to_stop_whole) (auto simp: reply_text_def butlast_append)
    ultimately show ?thesis by simp
  qed
  have inc: "incoming l = map Octet ?f @ t" using assms(4) by (simp add: on_wire_def)
  have r: "fst ?r = (int (length ?f), ?f)" "incoming (snd ?r) = t" "overrun (snd ?r) = overrun l" "same_port l (snd ?r)"
    using read_string_stopped [OF inc _ _ _ refl, of len ?S] assms(2,5) lim w by (auto simp: usable_def)
  have c: "c_str ?f = s @ [cmdtrm K]" using assms(1) by (intro c_str_octs) (auto simp: reply_text_def)
  have "read_reply K len l = ((int (length s) + 1, s @ [cmdtrm K]), (snd ?r)\<lparr>overrun := overrun l\<rparr>)"
    using r(1) c assms(2,3) by (simp add: read_reply_def case_prod_beta Let_def)
  moreover have "consumed l t ((snd ?r)\<lparr>overrun := overrun l\<rparr>)"
    using r by (simp add: consumed_def)
  ultimately show ?thesis by blast
qed

lemma read_reply_silent:
  assumes "usable l" and "incoming l = []" and "1 < len"
  shows "\<exists>l'. read_reply K len l = ((- RIG_ETIMEOUT, []), l') \<and> consumed l [] l'"
proof -
  let ?S = "[octet_of (cmdtrm K)]"
  let ?r = "read_string len ?S 1 l"
  have r: "fst ?r = (- RIG_ETIMEOUT, [])" "incoming (snd ?r) = []" "same_port l (snd ?r)"
    using read_string_dry [of l "[]" "[]" len ?S] assms by (auto simp: string_limit_def usable_def)
  have "read_reply K len l = ((- RIG_ETIMEOUT, []), (snd ?r)\<lparr>overrun := overrun l\<rparr>)"
    using r(1) by (simp add: read_reply_def case_prod_beta c_str_def chars_def KENWOOD_MAX_BUF_LEN_def RIG_ETIMEOUT_def)
  moreover have "consumed l [] ((snd ?r)\<lparr>overrun := overrun l\<rparr>)"
    using r by (simp add: consumed_def)
  ultimately show ?thesis by blast
qed

subsection \<open>Writing\<close>

definition quiet :: "'d kenwood_rig \<Rightarrow> bool" where
  "quiet rig \<longleftrightarrow> usable (k_port (priv rig)) \<and> stale (k_port (priv rig))"

text \<open>All that goes out in one round: the command, and the verifying command after a setting.\<close>

definition round_octets :: "'d ken \<Rightarrow> 'd kenwood_rig \<Rightarrow> string \<Rightarrow> nat \<Rightarrow> u8 list" where
  "round_octets K rig cmd sz = wire_command K cmd @ (if sz = 0 then octs (verify_cmd (priv rig)) else [])"

lemma write_run:
  assumes "quiet rig" and "\<not> skips_verify cmd" and "sz = 0 \<Longrightarrow> \<not> no_id (priv rig)"
  shows "\<exists>rig'. run_state (kenwood_write K cmd sz) rig = (None, rig') \<and> ken_only rig rig'
    \<and> heard (k_radio K) (round_octets K rig cmd sz) (k_port (priv rig)) (k_port (priv rig'))"
proof -
  let ?dev = "k_radio K" and ?tx = "wire_command K cmd"
  obtain l1 l2 where l: "serial_flush (k_port (priv rig)) = (RIG_OK, l1)" "write_block ?dev ?tx l1 = (RIG_OK, l2)"
    "heard ?dev ?tx (k_port (priv rig)) l2"
    using flush_write assms(1) unfolding quiet_def by metis
  have u: "usable l2" using l(3) by (simp add: heard_def)
  show ?thesis
  proof (cases "sz = 0")
    case True
    let ?v = "octs (verify_cmd (priv rig))" and ?l3 = "Hamlib_Io.transmit ?dev (octs (verify_cmd (priv rig))) l2"
    have w: "write_block ?dev ?v l2 = (RIG_OK, ?l3)" using u by (simp add: write_block_def usable_def)
    have "heard ?dev (?tx @ ?v) (k_port (priv rig)) ?l3"
      using l(3) u by (simp add: heard_def transmit_reply reply_of_append usable_def)
    moreover have "run_state (kenwood_write K cmd sz) rig
        = (None, rig\<lparr>priv := (priv rig)\<lparr>k_port := ?l3, transaction_active := False\<rparr>\<rparr>)"
      using True assms(2,3) l(1,2) w by (simp add: kenwood_write_def run_state_bind run_ken_port)
    ultimately show ?thesis
      using True by (intro exI [of _ "rig\<lparr>priv := (priv rig)\<lparr>k_port := ?l3, transaction_active := False\<rparr>\<rparr>"])
        (simp add: round_octets_def)
  next
    case False
    then have "run_state (kenwood_write K cmd sz) rig = (None, rig\<lparr>priv := (priv rig)\<lparr>k_port := l2\<rparr>\<rparr>)"
      using assms(2) l(1,2) by (simp add: kenwood_write_def run_state_bind run_ken_port)
    then show ?thesis
      using False l(3) by (intro exI [of _ "rig\<lparr>priv := (priv rig)\<lparr>k_port := l2\<rparr>\<rparr>"]) (simp add: round_octets_def)
  qed
qed

subsection \<open>Reading\<close>

lemma read_run:
  assumes "read_reply K (reply_limit (verify_cmd (priv rig)) sz) (k_port (priv rig)) = ((retval, s), l')"
  shows "\<exists>rig'. run_state (kenwood_read K retry cmd sz n) rig
      = (judge_reply K (verify_cmd (priv rig)) retry n cmd sz retval s, rig')
    \<and> ken_only rig rig' \<and> k_port (priv rig') = l'"
proof -
  let ?r1 = "rig\<lparr>priv := (priv rig)\<lparr>k_port := l'\<rparr>\<rparr>"
  let ?r2 = "?r1\<lparr>now := k_after_read K l' (now ?r1)\<rparr>"
  have "ken_only rig (?r2\<lparr>now := t\<rparr>)" for t by (rule ken_onlyI) simp_all
  moreover from this [of "now ?r2"] have "ken_only rig ?r2" by simp
  ultimately show ?thesis
    using assms by (auto simp: kenwood_read_def run_state_bind run_ken_port Let_def split: ken_step.split)
qed

text \<open>A reply that is accepted: to a question one that begins like it, to a setting one that begins like
  the verifying command.\<close>

definition accepted :: "'d ken \<Rightarrow> string \<Rightarrow> string \<Rightarrow> nat \<Rightarrow> string \<Rightarrow> bool" where
  "accepted K verify cmd sz s \<longleftrightarrow> reply_text K s \<and> length s \<noteq> 1 \<and> length s + 1 < reply_limit verify sz
     \<and> (if 0 < sz then hd s = char_nth cmd 0 \<and> (char_nth cmd 1 = NUL \<or> char_nth s 1 = char_nth cmd 1)
        else hd s = char_nth verify 0 \<and> (char_nth verify 1 = NUL \<or> char_nth s 1 = char_nth verify 1)
          \<and> \<not> (starts ''TX'' cmd \<and> starts ''IF'' verify))"

lemma char_nth_append: "i < length s \<Longrightarrow> char_nth (s @ t) i = char_nth s i"
  by (simp add: char_nth_def nth_append)

lemma judge_accepted:
  assumes "accepted K verify cmd sz s" and "\<not> skips_verify cmd"
  shows "judge_reply K verify retry n cmd sz (int (length s) + 1) (s @ [cmdtrm K])
    = End (Quit RIG_OK (s @ [cmdtrm K]) (if 0 < sz then Some s else None))"
proof -
  have s: "s \<noteq> []" "2 \<le> length s" using assms(1) by (auto simp: accepted_def reply_text_def neq_Nil_conv)
  then have c: "char_nth (s @ [cmdtrm K]) (Suc 0) = char_nth s (Suc 0)" by (intro char_nth_append) simp
  have "0 < sz \<Longrightarrow> length s < sz" using assms(1) by (auto simp: accepted_def reply_limit_def)
  then have d: "0 < sz \<Longrightarrow> take (min sz (nat (int (length s) + 1)) - 1) (s @ [cmdtrm K]) = s"
    by (simp add: nat_add_distrib min_absorb2)
  show ?thesis
    using assms s c d
    by (cases "0 < sz") (auto simp: judge_reply_def accepted_def reply_data_def skips_verify_def)
qed

definition answered :: "'d kenwood_rig \<Rightarrow> arrival list \<Rightarrow> 'd kenwood_rig \<Rightarrow> bool" where
  "answered rig t rig' \<longleftrightarrow> ken_only rig rig' \<and> consumed (k_port (priv rig)) t (k_port (priv rig'))"

lemma read_text:
  assumes "reply_text K s" and "length s + 1 < reply_limit (verify_cmd (priv rig)) sz"
    and "usable (k_port (priv rig))" and "incoming (k_port (priv rig)) = on_wire K s @ t"
  shows "\<exists>rig'. run_state (kenwood_read K retry cmd sz n) rig
      = (judge_reply K (verify_cmd (priv rig)) retry n cmd sz (int (length s) + 1) (s @ [cmdtrm K]), rig')
    \<and> answered rig t rig'"
proof -
  have "reply_limit (verify_cmd (priv rig)) sz \<le> KENWOOD_MAX_BUF_LEN" by (simp add: reply_limit_def)
  from read_reply_text [OF assms(1,2) this assms(4,3)] read_run show ?thesis
    unfolding answered_def by metis
qed

lemma read_silent:
  assumes "usable (k_port (priv rig))" and "incoming (k_port (priv rig)) = []"
  shows "\<exists>rig'. run_state (kenwood_read K retry cmd sz n) rig
      = (judge_reply K (verify_cmd (priv rig)) retry n cmd sz (- RIG_ETIMEOUT) [], rig')
    \<and> answered rig [] rig'"
proof -
  have "1 < reply_limit (verify_cmd (priv rig)) sz" by (simp add: reply_limit_def KENWOOD_MAX_BUF_LEN_def)
  from read_reply_silent [OF assms this] read_run show ?thesis unfolding answered_def by metis
qed

subsection \<open>Whole transactions\<close>

lemma loop_reads:
  assumes "accepted K (verify_cmd (priv rig)) cmd sz s" and "\<not> skips_verify cmd"
    and "usable (k_port (priv rig))" and "incoming (k_port (priv rig)) = on_wire K s @ t"
  shows "\<exists>rig'. kenwood_loop K retry cmd sz False n rig
      = (Quit RIG_OK (s @ [cmdtrm K]) (if 0 < sz then Some s else None), rig') \<and> answered rig t rig'"
proof -
  have "reply_text K s" "length s + 1 < reply_limit (verify_cmd (priv rig)) sz"
    using assms(1) by (auto simp: accepted_def)
  from read_text [OF this assms(3,4), of retry cmd n] obtain rig' where
    "run_state (kenwood_read K retry cmd sz n) rig = (judge_reply K (verify_cmd (priv rig)) retry n cmd sz
      (int (length s) + 1) (s @ [cmdtrm K]), rig')" "answered rig t rig'" by blast
  then show ?thesis
    by (subst kenwood_loop.simps) (auto simp: judge_accepted [OF assms(1,2)])
qed

text \<open>After the command is written the loop goes on as if there were nothing to write.\<close>

lemma loop_writes:
  assumes "quiet rig" and "\<not> skips_verify cmd" and "sz = 0 \<Longrightarrow> \<not> no_id (priv rig)"
  shows "\<exists>rig'. kenwood_loop K retry cmd sz True n rig = kenwood_loop K retry cmd sz False n rig'
    \<and> ken_only rig rig' \<and> heard (k_radio K) (round_octets K rig cmd sz) (k_port (priv rig)) (k_port (priv rig'))"
proof -
  obtain rig' where w: "run_state (kenwood_write K cmd sz) rig = (None, rig')" "ken_only rig rig'"
    "heard (k_radio K) (round_octets K rig cmd sz) (k_port (priv rig)) (k_port (priv rig'))"
    using write_run [OF assms] by blast
  then show ?thesis by (intro exI [of _ rig']) (simp add: kenwood_loop.simps)
qed

text \<open>The two ends of a transaction around the loop.\<close>

definition no_cached_if :: "string \<Rightarrow> 'd kenwood_rig \<Rightarrow> bool" where
  "no_cached_if cmd rig \<longleftrightarrow> cmd \<noteq> ''IF'' \<or> tv_sec (cache_start (priv rig)) = 0
     \<or> 500 \<le> fst (elapsed_ms (now rig) (cache_start (priv rig)) HAMLIB_ELAPSED_GET)"

lemma run_if_cached:
  "\<exists>c. run_state (kenwood_if_cached cmd) rig = (\<not> no_cached_if cmd rig, rig\<lparr>priv := (priv rig)\<lparr>cache_start := c\<rparr>\<rparr>)"
proof (cases "cmd = ''IF'' \<and> tv_sec (cache_start (priv rig)) \<noteq> 0")
  case True
  then show ?thesis
    by (intro exI [of _ "snd (elapsed_ms (now rig) (cache_start (priv rig)) HAMLIB_ELAPSED_GET)"])
      (simp add: kenwood_if_cached_def run_state_bind no_cached_if_def case_prod_beta Let_def not_le
        del: elapsed_ms.simps)
next
  case False
  then show ?thesis
    by (intro exI [of _ "cache_start (priv rig)"]) (auto simp: kenwood_if_cached_def run_state_bind no_cached_if_def)
qed

lemma transaction_enters:
  assumes "no_cached_if cmd rig"
  shows "\<exists>rig1. ken_only rig rig1 \<and> k_port (priv rig1) = k_port (priv rig) \<and>
    run_state (kenwood_transaction K cmd data sz) rig =
      (case kenwood_loop K (k_retry (priv rig)) cmd sz True 0 rig1 of
         (Leave rc, rig2) \<Rightarrow> ((rc, data), rig2)
       | (Quit rc s res, rig2) \<Rightarrow> ((rc, case res of None \<Rightarrow> data | Some d \<Rightarrow> d),
           snd (run_state (kenwood_quit K cmd rc s) rig2)))"
proof -
  define w where "w = (if is_emulation (priv rig) then 0 else post_write_delay (priv rig))"
  let ?r0 = "rig\<lparr>priv := (priv rig)\<lparr>transaction_active := True, post_write_delay := w\<rparr>\<rparr>"
  have "no_cached_if cmd ?r0" using assms by (simp add: no_cached_if_def)
  then obtain c where c: "run_state (kenwood_if_cached cmd) ?r0 = (False, ?r0\<lparr>priv := (priv ?r0)\<lparr>cache_start := c\<rparr>\<rparr>)"
    using run_if_cached [of cmd ?r0] by auto
  let ?c = "if sets_something cmd then c\<lparr>tv_sec := 0\<rparr> else c"
  let ?r1 = "rig\<lparr>priv := (priv rig)\<lparr>transaction_active := True, post_write_delay := w, cache_start := ?c\<rparr>\<rparr>"
  obtain e r2 where e: "kenwood_loop K (k_retry (priv rig)) cmd sz True 0 ?r1 = (e, r2)" by force
  have "run_state (kenwood_transaction K cmd data sz) rig =
      (case kenwood_loop K (k_retry (priv rig)) cmd sz True 0 ?r1 of
         (Leave rc, rig2) \<Rightarrow> ((rc, data), rig2)
       | (Quit rc s res, rig2) \<Rightarrow> ((rc, case res of None \<Rightarrow> data | Some d \<Rightarrow> d),
           snd (run_state (kenwood_quit K cmd rc s) rig2)))"
    unfolding kenwood_transaction_def e using c e
    by (cases e; cases "sets_something cmd")
      (simp_all add: run_state_bind case_prod_beta w_def [symmetric] split del: if_split)
  then show ?thesis by (intro exI [of _ ?r1]) simp
qed

lemma quit_run:
  "\<exists>c i. run_state (kenwood_quit K cmd rc s) rig
      = ((), rig\<lparr>priv := (priv rig)\<lparr>transaction_active := False, cache_start := c, last_if_response := i\<rparr>\<rparr>)
    \<and> (rc = RIG_OK \<and> cmd = ''IF'' \<longrightarrow> c = now rig \<and> i = take (if_len K) s)"
proof (cases "rc = RIG_OK \<and> cmd = ''IF''")
  case False
  have "rig\<lparr>priv := (priv rig)\<lparr>transaction_active := False\<rparr>\<rparr> = rig\<lparr>priv := (priv rig)\<lparr>transaction_active := False,
      cache_start := cache_start (priv rig), last_if_response := last_if_response (priv rig)\<rparr>\<rparr>" by simp
  with False show ?thesis
    by (intro exI [of _ "cache_start (priv rig)"] exI [of _ "last_if_response (priv rig)"])
      (auto simp: kenwood_quit_def run_state_bind)
qed (auto simp: kenwood_quit_def run_state_bind)

text \<open>The state after a transaction.\<close>

definition trn_done :: "'d kenwood_rig \<Rightarrow> 'd \<Rightarrow> 'd kenwood_rig \<Rightarrow> bool" where
  "trn_done rig d rig' \<longleftrightarrow> ken_only rig rig' \<and> usable (k_port (priv rig')) \<and> incoming (k_port (priv rig')) = []
     \<and> device (k_port (priv rig')) = d \<and> overrun (k_port (priv rig')) = overrun (k_port (priv rig))
     \<and> \<not> transaction_active (priv rig')"

lemma trn_done_quiet: "trn_done rig d rig' \<Longrightarrow> quiet rig'"
  by (simp add: trn_done_def quiet_def stale_def)

text \<open>A transaction whose loop, once the command is out, ends with \<open>Quit\<close> and a line on which all has been read.\<close>

lemma transaction_ends:
  assumes "quiet rig" and "\<not> skips_verify cmd" and "sz = 0 \<Longrightarrow> \<not> no_id (priv rig)" and "no_cached_if cmd rig"
    and "\<And>rig1. ken_only rig rig1 \<Longrightarrow>
      heard (k_radio K) (round_octets K rig cmd sz) (k_port (priv rig)) (k_port (priv rig1)) \<Longrightarrow>
      \<exists>rig2. kenwood_loop K (k_retry (priv rig)) cmd sz False 0 rig1 = (Quit rc s res, rig2)
        \<and> ken_only rig1 rig2 \<and> usable (k_port (priv rig2)) \<and> incoming (k_port (priv rig2)) = []
        \<and> device (k_port (priv rig2)) = d \<and> overrun (k_port (priv rig2)) = overrun (k_port (priv rig1))"
  shows "\<exists>rig'. run_state (kenwood_transaction K cmd data sz) rig
      = ((rc, case res of None \<Rightarrow> data | Some a \<Rightarrow> a), rig') \<and> trn_done rig d rig'
    \<and> (rc = RIG_OK \<and> cmd = ''IF'' \<longrightarrow> cache_start (priv rig') = now rig'
        \<and> last_if_response (priv rig') = take (if_len K) s)"
proof -
  obtain r0 where r0: "ken_only rig r0" "k_port (priv r0) = k_port (priv rig)"
    "run_state (kenwood_transaction K cmd data sz) rig =
      (case kenwood_loop K (k_retry (priv rig)) cmd sz True 0 r0 of
         (Leave rc, rig2) \<Rightarrow> ((rc, data), rig2)
       | (Quit rc s res, rig2) \<Rightarrow> ((rc, case res of None \<Rightarrow> data | Some d \<Rightarrow> d),
           snd (run_state (kenwood_quit K cmd rc s) rig2)))"
    using transaction_enters [OF assms(4)] by blast
  have v: "verify_cmd (priv r0) = verify_cmd (priv rig)" "no_id (priv r0) = no_id (priv rig)"
    using ken_only_keeps [OF r0(1)] by simp_all
  have "quiet r0" "sz = 0 \<Longrightarrow> \<not> no_id (priv r0)" using assms(1,3) r0(2) v by (simp_all add: quiet_def)
  moreover have ro: "round_octets K r0 cmd sz = round_octets K rig cmd sz" by (simp add: round_octets_def v)
  ultimately obtain r1 where r1: "kenwood_loop K (k_retry (priv rig)) cmd sz True 0 r0
      = kenwood_loop K (k_retry (priv rig)) cmd sz False 0 r1" "ken_only r0 r1"
    "heard (k_radio K) (round_octets K rig cmd sz) (k_port (priv rig)) (k_port (priv r1))"
    using loop_writes [OF _ assms(2), of r0 sz K "k_retry (priv rig)" 0] unfolding r0(2) ro by blast
  have k1: "ken_only rig r1" using ken_only_trans [OF r0(1) r1(2)] .
  obtain r2 where r2: "kenwood_loop K (k_retry (priv rig)) cmd sz False 0 r1 = (Quit rc s res, r2)"
    "ken_only r1 r2" "usable (k_port (priv r2))" "incoming (k_port (priv r2)) = []"
    "device (k_port (priv r2)) = d" "overrun (k_port (priv r2)) = overrun (k_port (priv r1))"
    using assms(5) [OF k1 r1(3)] by blast
  obtain c i where q: "run_state (kenwood_quit K cmd rc s) r2
      = ((), r2\<lparr>priv := (priv r2)\<lparr>transaction_active := False, cache_start := c, last_if_response := i\<rparr>\<rparr>)"
    "rc = RIG_OK \<and> cmd = ''IF'' \<longrightarrow> c = now r2 \<and> i = take (if_len K) s"
    using quit_run by blast
  let ?r3 = "r2\<lparr>priv := (priv r2)\<lparr>transaction_active := False, cache_start := c, last_if_response := i\<rparr>\<rparr>"
  have "ken_only rig ?r3" using ken_only_trans [OF ken_only_trans [OF k1 r2(2)]] by simp
  then have "trn_done rig d ?r3" using r1(3) r2(3-6) by (simp add: trn_done_def heard_def)
  moreover have "run_state (kenwood_transaction K cmd data sz) rig
      = ((rc, case res of None \<Rightarrow> data | Some a \<Rightarrow> a), ?r3)"
    using r0(3) r1(1) r2(1) q(1) by simp
  ultimately show ?thesis using q(2) by auto
qed

lemma answered_ends:
  "ken_only rig rig1 \<Longrightarrow> answered rig1 [] rig2 \<Longrightarrow> heard dev tx l (k_port (priv rig1)) \<Longrightarrow>
   ken_only rig1 rig2 \<and> usable (k_port (priv rig2)) \<and> incoming (k_port (priv rig2)) = []
   \<and> device (k_port (priv rig2)) = snd (reply_of dev tx (device l))
   \<and> overrun (k_port (priv rig2)) = overrun (k_port (priv rig1))"
  by (auto simp: answered_def consumed_def heard_def same_port_eq usable_def)

lemma ken_transaction_delivers:
  assumes "quiet rig" and "\<not> skips_verify cmd" and "sz = 0 \<longrightarrow> \<not> no_id (priv rig)" and "no_cached_if cmd rig"
    and "accepted K (verify_cmd (priv rig)) cmd sz s"
    and "reply_of (k_radio K) (round_octets K rig cmd sz) (device (k_port (priv rig))) = (on_wire K s, d)"
  shows "\<exists>rig'. run_state (kenwood_transaction K cmd data sz) rig = ((RIG_OK, if 0 < sz then s else data), rig')
    \<and> trn_done rig d rig' \<and> (cmd = ''IF'' \<longrightarrow> cache_start (priv rig') = now rig'
      \<and> last_if_response (priv rig') = take (if_len K) (s @ [cmdtrm K]))"
proof -
  have ok: "sz = 0 \<Longrightarrow> \<not> no_id (priv rig)" using assms(3) by blast
  have "\<exists>rig2. kenwood_loop K (k_retry (priv rig)) cmd sz False 0 rig1
        = (Quit RIG_OK (s @ [cmdtrm K]) (if 0 < sz then Some s else None), rig2)
      \<and> ken_only rig1 rig2 \<and> usable (k_port (priv rig2)) \<and> incoming (k_port (priv rig2)) = []
      \<and> device (k_port (priv rig2)) = d \<and> overrun (k_port (priv rig2)) = overrun (k_port (priv rig1))"
    if k: "ken_only rig rig1"
      and h: "heard (k_radio K) (round_octets K rig cmd sz) (k_port (priv rig)) (k_port (priv rig1))" for rig1
  proof -
    have "verify_cmd (priv rig1) = verify_cmd (priv rig)" using ken_only_keeps [OF k] by simp
    then have acc: "accepted K (verify_cmd (priv rig1)) cmd sz s" using assms(5) by simp
    have "usable (k_port (priv rig1))" "incoming (k_port (priv rig1)) = on_wire K s @ []"
      using h assms(6) by (simp_all add: heard_def)
    from loop_reads [OF acc assms(2) this] show ?thesis
      using answered_ends [OF k _ h] assms(6) by (metis snd_conv)
  qed
  from transaction_ends [OF assms(1,2) ok assms(4) this] show ?thesis
    by (auto split: if_splits)
qed

text \<open>C15: a transaction with a Kenwood radio that answers. A question gets the reply, without its terminator,
  when that begins with the letters of the question; a setting is done when the radio's reply to the verifying
  command, which is sent after it, comes back. Whatever stale octets were on the line before, they
  are gone; everything the radio sent has been read; and of the handle, only the line, the clock and the
  notes of the transaction have changed.\<close>

theorem kenwood_transaction_delivers:
  assumes "quiet rig" and "\<not> skips_verify cmd" and "sz = 0 \<longrightarrow> \<not> no_id (priv rig)" and "no_cached_if cmd rig"
    and "accepted K (verify_cmd (priv rig)) cmd sz s"
    and "reply_of (k_radio K) (round_octets K rig cmd sz) (device (k_port (priv rig))) = (on_wire K s, d)"
  shows "\<exists>rig'. run_state (kenwood_transaction K cmd data sz) rig = ((RIG_OK, if 0 < sz then s else data), rig')
    \<and> trn_done rig d rig'"
  using ken_transaction_delivers [OF assms] by blast

text \<open>C16: a setting the radio rejects is reported as done. The verifying command is there so that an error
  reply to the setting can be read; but after \<^verbatim>\<open>?\<close> the reply is read once more, which is
  the one to the verifying command, and that is taken for success.\<close>

theorem kenwood_rejection_lost:
  assumes "quiet rig" and "\<not> skips_verify cmd" and "\<not> no_id (priv rig)" and "no_cached_if cmd rig"
    and "accepted K (verify_cmd (priv rig)) cmd 0 v" and "cmdtrm K \<noteq> CHR ''?''"
    and "reply_of (k_radio K) (round_octets K rig cmd 0) (device (k_port (priv rig)))
      = (on_wire K ''?'' @ on_wire K v, d)"
  shows "\<exists>rig'. run_state (kenwood_set K cmd) rig = (RIG_OK, rig') \<and> trn_done rig d rig'"
proof -
  have "\<exists>rig2. kenwood_loop K (k_retry (priv rig)) cmd 0 False 0 rig1 = (Quit RIG_OK (v @ [cmdtrm K]) None, rig2)
      \<and> ken_only rig1 rig2 \<and> usable (k_port (priv rig2)) \<and> incoming (k_port (priv rig2)) = []
      \<and> device (k_port (priv rig2)) = d \<and> overrun (k_port (priv rig2)) = overrun (k_port (priv rig1))"
    if k: "ken_only rig rig1"
      and h: "heard (k_radio K) (round_octets K rig cmd 0) (k_port (priv rig)) (k_port (priv rig1))" for rig1
  proof -
    let ?retry = "k_retry (priv rig)"
    have v: "verify_cmd (priv rig1) = verify_cmd (priv rig)" using ken_only_keeps [OF k] by simp
    have q: "reply_text K ''?''" "length ''?'' + 1 < reply_limit (verify_cmd (priv rig1)) 0"
      using assms(5,6) by (auto simp: accepted_def reply_text_def NUL_def reply_limit_def KENWOOD_MAX_BUF_LEN_def)
    have l1: "usable (k_port (priv rig1))" "incoming (k_port (priv rig1)) = on_wire K ''?'' @ on_wire K v"
      using h assms(7) by (simp_all add: heard_def)
    obtain r2 where r2: "run_state (kenwood_read K ?retry cmd 0 0) rig1 = (Reread 1 100000, r2)"
      "answered rig1 (on_wire K v) r2"
      using read_text [OF q l1, of ?retry cmd 0] by (auto simp: judge_reply_def)
    have k2: "ken_only rig1 r2" "usable (k_port (priv r2))" "incoming (k_port (priv r2)) = on_wire K v @ []"
      using r2(2) l1(1) same_port_usable by (auto simp: answered_def consumed_def)
    have "accepted K (verify_cmd (priv r2)) cmd 0 v" using assms(5) v ken_only_keeps [OF k2(1)] by simp
    from loop_reads [OF this assms(2) k2(2,3), of ?retry 1] obtain r3 where r3:
      "kenwood_loop K ?retry cmd 0 False 1 r2 = (Quit RIG_OK (v @ [cmdtrm K]) None, r3)" "answered r2 [] r3" by auto
    have "kenwood_loop K ?retry cmd 0 False 0 rig1 = (Quit RIG_OK (v @ [cmdtrm K]) None, r3)"
      using r2(1) r3(1) by (subst kenwood_loop.simps) simp
    moreover have "device (k_port (priv r3)) = d"
      using r2(2) r3(2) h assms(7) by (simp add: answered_def consumed_def same_port_eq heard_def)
    ultimately show ?thesis
      using r2(2) r3(2) k2(2) ken_only_trans same_port_usable by (fastforce simp: answered_def consumed_def)
  qed
  from transaction_ends [OF assms(1,2) _ assms(4) this, of "[]"] assms(3) show ?thesis
    by (auto simp: kenwood_set_def run_state_bind)
qed

subsection \<open>A radio that does not answer\<close>

lemma judge_silent:
  "judge_reply K verify retry n cmd sz (- RIG_ETIMEOUT) [] =
     (if n < retry then if 0 < sz then Rewrite (n + 1) 0 else Reread (n + 1) 0
      else End (Quit (- RIG_ETIMEOUT) [] None))"
  by (simp add: judge_reply_def RIG_ETIMEOUT_def)

text \<open>Waiting for the reply to a setting: nothing is sent.\<close>

lemma loop_silent_set:
  assumes "usable (k_port (priv rig))" and "incoming (k_port (priv rig)) = []" and "retry = n + int k"
  shows "\<exists>rig'. kenwood_loop K retry cmd 0 False n rig = (Quit (- RIG_ETIMEOUT) [] None, rig') \<and> answered rig [] rig'"
  using assms
proof (induction k arbitrary: n rig)
  case 0
  then obtain r where "run_state (kenwood_read K retry cmd 0 n) rig = (End (Quit (- RIG_ETIMEOUT) [] None), r)" "answered rig [] r"
    using read_silent [OF 0(1,2), of K retry cmd 0 n] by (auto simp: judge_silent)
  then show ?case by (subst kenwood_loop.simps) simp
next
  case (Suc k)
  then obtain r where r: "run_state (kenwood_read K retry cmd 0 n) rig = (Reread (n + 1) 0, r)" "answered rig [] r"
    using read_silent [OF Suc(2,3), of K retry cmd 0 n] by (auto simp: judge_silent)
  have u: "usable (k_port (priv r))" "incoming (k_port (priv r)) = []" "retry = n + 1 + int k"
    using r(2) Suc(2,4) same_port_usable by (auto simp: answered_def consumed_def)
  obtain r' where r': "kenwood_loop K retry cmd 0 False (n + 1) r = (Quit (- RIG_ETIMEOUT) [] None, r')" "answered r [] r'"
    using Suc.IH [OF u] by blast
  have "answered rig [] r'"
    using r(2) r'(2) by (auto simp: answered_def consumed_def intro: ken_only_trans same_port_trans)
  with r(1) r'(1) show ?case by (subst kenwood_loop.simps) simp
qed

text \<open>A question is asked again and again.\<close>

lemma loop_silent_ask:
  assumes "quiet rig" and "silent (k_radio K)" and "\<not> skips_verify cmd" and "0 < sz" and "retry = n + int k"
  shows "\<exists>rig'. kenwood_loop K retry cmd sz True n rig = (Quit (- RIG_ETIMEOUT) [] None, rig') \<and> ken_only rig rig'
    \<and> usable (k_port (priv rig')) \<and> incoming (k_port (priv rig')) = []
    \<and> device (k_port (priv rig')) = hear (k_radio K) (wire_command K cmd) (Suc k) (device (k_port (priv rig)))
    \<and> overrun (k_port (priv rig')) = overrun (k_port (priv rig))"
  using assms(1,5)
proof (induction k arbitrary: n rig)
  case (0 n rig)
  obtain r1 where r1: "run_state (kenwood_write K cmd sz) rig = (None, r1)" "ken_only rig r1"
    "heard (k_radio K) (wire_command K cmd) (k_port (priv rig)) (k_port (priv r1))"
    using write_run [OF 0(1) assms(3), of sz K] assms(4) by (auto simp: round_octets_def)
  have u: "usable (k_port (priv r1))" "incoming (k_port (priv r1)) = []"
    using r1(3) silent_reply [OF assms(2)] by (simp_all add: heard_def)
  obtain r2 where r2: "run_state (kenwood_read K retry cmd sz n) r1 = (End (Quit (- RIG_ETIMEOUT) [] None), r2)" "answered r1 [] r2"
    using read_silent [OF u, of K retry cmd sz n] 0(2) by (auto simp: judge_silent)
  have "kenwood_loop K retry cmd sz True n rig = (Quit (- RIG_ETIMEOUT) [] None, r2)"
    using r1(1) r2(1) by (subst kenwood_loop.simps) simp
  moreover have "ken_only rig r2" using ken_only_trans [OF r1(2)] r2(2) by (simp add: answered_def)
  ultimately show ?case
    using answered_ends [OF r1(2) r2(2) r1(3)] r1(3) by (simp add: heard_def)
next
  case (Suc k n rig)
  obtain r1 where r1: "run_state (kenwood_write K cmd sz) rig = (None, r1)" "ken_only rig r1"
    "heard (k_radio K) (wire_command K cmd) (k_port (priv rig)) (k_port (priv r1))"
    using write_run [OF Suc(2) assms(3), of sz K] assms(4) by (auto simp: round_octets_def)
  have u: "usable (k_port (priv r1))" "incoming (k_port (priv r1)) = []"
    using r1(3) silent_reply [OF assms(2)] by (simp_all add: heard_def)
  obtain r2 where r2: "run_state (kenwood_read K retry cmd sz n) r1 = (Rewrite (n + 1) 0, r2)" "answered r1 [] r2"
    using read_silent [OF u, of K retry cmd sz n] Suc(3) assms(4) by (auto simp: judge_silent)
  note e = answered_ends [OF r1(2) r2(2) r1(3)]
  have q: "quiet r2" "retry = n + 1 + int k" using e Suc(3) by (simp_all add: quiet_def stale_def)
  obtain r3 where r3: "kenwood_loop K retry cmd sz True (n + 1) r2 = (Quit (- RIG_ETIMEOUT) [] None, r3)"
    "ken_only r2 r3" "usable (k_port (priv r3))" "incoming (k_port (priv r3)) = []"
    "device (k_port (priv r3)) = hear (k_radio K) (wire_command K cmd) (Suc k) (device (k_port (priv r2)))"
    "overrun (k_port (priv r3)) = overrun (k_port (priv r2))"
    using Suc.IH [OF q] by blast
  have "kenwood_loop K retry cmd sz True n rig = (Quit (- RIG_ETIMEOUT) [] None, r3)"
    using r1(1) r2(1) r3(1) by (subst kenwood_loop.simps) simp
  moreover have "ken_only rig r3" using ken_only_trans [OF ken_only_trans [OF r1(2)] r3(2)] e by simp
  ultimately show ?case
    using r3(3-6) e r1(3) by (intro exI [of _ r3]) (simp add: heard_def)
qed

text \<open>C17: a radio that is off. A question goes out once and then once more for every retry of the port, a
  setting with its verifying command only once however often the reply is waited for; then the
  transaction returns, with a timeout and nothing in the caller's buffer, and the line is quiet.\<close>

theorem kenwood_transaction_gives_up:
  assumes "quiet rig" and "silent (k_radio K)" and "\<not> skips_verify cmd" and "sz = 0 \<longrightarrow> \<not> no_id (priv rig)"
    and "no_cached_if cmd rig" and "k_retry (priv rig) = int n"
  shows "\<exists>rig'. run_state (kenwood_transaction K cmd data sz) rig = ((- RIG_ETIMEOUT, data), rig')
    \<and> trn_done rig (hear (k_radio K) (round_octets K rig cmd sz) (if 0 < sz then Suc n else 1)
        (device (k_port (priv rig)))) rig'"
proof -
  obtain r0 where r0: "ken_only rig r0" "k_port (priv r0) = k_port (priv rig)"
    "run_state (kenwood_transaction K cmd data sz) rig =
      (case kenwood_loop K (int n) cmd sz True 0 r0 of
         (Leave rc, rig2) \<Rightarrow> ((rc, data), rig2)
       | (Quit rc s res, rig2) \<Rightarrow> ((rc, case res of None \<Rightarrow> data | Some d \<Rightarrow> d),
           snd (run_state (kenwood_quit K cmd rc s) rig2)))"
    using transaction_enters [OF assms(5), of K data sz] unfolding assms(6) by blast
  let ?tx = "round_octets K rig cmd sz"
  have v: "verify_cmd (priv r0) = verify_cmd (priv rig)" "no_id (priv r0) = no_id (priv rig)"
    using ken_only_keeps [OF r0(1)] by simp_all
  have ro: "round_octets K r0 cmd sz = ?tx" by (simp add: round_octets_def v)
  have q: "quiet r0" "sz = 0 \<Longrightarrow> \<not> no_id (priv r0)" using assms(1,4) r0(2) v by (simp_all add: quiet_def)
  have "\<exists>r2. kenwood_loop K (int n) cmd sz True 0 r0 = (Quit (- RIG_ETIMEOUT) [] None, r2) \<and> ken_only r0 r2
      \<and> usable (k_port (priv r2)) \<and> incoming (k_port (priv r2)) = []
      \<and> device (k_port (priv r2)) = hear (k_radio K) ?tx (if 0 < sz then Suc n else 1) (device (k_port (priv rig)))
      \<and> overrun (k_port (priv r2)) = overrun (k_port (priv rig))"
  proof (cases "0 < sz")
    case True
    then show ?thesis
      using loop_silent_ask [OF q(1) assms(2,3) True, of "int n" 0 n] r0(2) by (auto simp: round_octets_def)
  next
    case False
    obtain r1 where r1: "kenwood_loop K (int n) cmd sz True 0 r0 = kenwood_loop K (int n) cmd sz False 0 r1"
      "ken_only r0 r1" "heard (k_radio K) ?tx (k_port (priv rig)) (k_port (priv r1))"
      using loop_writes [OF q(1) assms(3) q(2), of sz K "int n" 0] unfolding r0(2) ro by blast
    have u: "usable (k_port (priv r1))" "incoming (k_port (priv r1)) = []"
      using r1(3) silent_reply [OF assms(2)] by (simp_all add: heard_def)
    from loop_silent_set [OF u, of "int n" 0 n K cmd] obtain r2 where r2:
      "kenwood_loop K (int n) cmd 0 False 0 r1 = (Quit (- RIG_ETIMEOUT) [] None, r2)" "answered r1 [] r2" by auto
    have "ken_only r0 r2" using ken_only_trans [OF r1(2)] r2(2) by (simp add: answered_def)
    then show ?thesis
      using False r1 r2 answered_ends [OF ken_only_trans [OF r0(1) r1(2)] r2(2) r1(3)]
      by (intro exI [of _ r2]) (simp add: heard_def)
  qed
  then obtain r2 where r2: "kenwood_loop K (int n) cmd sz True 0 r0 = (Quit (- RIG_ETIMEOUT) [] None, r2)"
    "ken_only r0 r2" "usable (k_port (priv r2))" "incoming (k_port (priv r2)) = []"
    "device (k_port (priv r2)) = hear (k_radio K) ?tx (if 0 < sz then Suc n else 1) (device (k_port (priv rig)))"
    "overrun (k_port (priv r2)) = overrun (k_port (priv rig))" by blast
  obtain c i where c: "run_state (kenwood_quit K cmd (- RIG_ETIMEOUT) []) r2
      = ((), r2\<lparr>priv := (priv r2)\<lparr>transaction_active := False, cache_start := c, last_if_response := i\<rparr>\<rparr>)"
    using quit_run by blast
  let ?r3 = "r2\<lparr>priv := (priv r2)\<lparr>transaction_active := False, cache_start := c, last_if_response := i\<rparr>\<rparr>"
  have "ken_only rig ?r3" using ken_only_trans [OF ken_only_trans [OF r0(1) r2(2)]] by simp
  then have "trn_done rig (hear (k_radio K) ?tx (if 0 < sz then Suc n else 1) (device (k_port (priv rig)))) ?r3"
    using r2(3-6) by (simp add: trn_done_def)
  then show ?thesis using r0(3) r2(1) c by auto
qed

subsection \<open>The cached status\<close>

lemma transaction_hit:
  assumes "\<not> no_cached_if cmd rig" and "0 < sz"
  shows "\<exists>rig'. run_state (kenwood_transaction K cmd data sz) rig = ((RIG_OK, take sz (last_if_response (priv rig))), rig')
    \<and> k_port (priv rig') = k_port (priv rig) \<and> transaction_active (priv rig')"
proof -
  define w where "w = (if is_emulation (priv rig) then 0 else post_write_delay (priv rig))"
  let ?r0 = "rig\<lparr>priv := (priv rig)\<lparr>transaction_active := True, post_write_delay := w\<rparr>\<rparr>"
  have "\<not> no_cached_if cmd ?r0" using assms(1) by (simp add: no_cached_if_def)
  then obtain c where "run_state (kenwood_if_cached cmd) ?r0 = (True, ?r0\<lparr>priv := (priv ?r0)\<lparr>cache_start := c\<rparr>\<rparr>)"
    using run_if_cached [of cmd ?r0] by auto
  then show ?thesis
    using assms(2) by (simp add: kenwood_transaction_def run_state_bind w_def [symmetric] split del: if_split)
qed

text \<open>What writing and reading leave alone the loop leaves alone.\<close>

lemma loop_frame:
  assumes "\<And>r. f (snd (run_state (kenwood_write K cmd sz) r)) = f r"
    and "\<And>m r. f (snd (run_state (kenwood_read K retry cmd sz m) r)) = f r"
    and "kenwood_loop K retry cmd sz wr n rig = (e, rig')"
  shows "f rig' = f rig"
  using assms
proof (induction K retry cmd sz wr n rig rule: kenwood_loop.induct)
  case (1 K retry cmd sz wr n rig)
  obtain sent r1 where s: "(if wr then run_state (kenwood_write K cmd sz) rig else (None, rig)) = (sent, r1)"
    by force
  obtain step r2 where r: "run_state (kenwood_read K retry cmd sz n) r1 = (step, r2)" by force
  have r1: "f r1 = f rig" using s 1(3) [of rig] by (auto split: if_splits)
  have r2: "f r2 = f r1" using r 1(4) [of n r1] by simp
  note run = 1(5) [unfolded kenwood_loop.simps [of K retry cmd sz wr n rig] s r Let_def prod.case]
  show ?case
  proof (cases sent)
    case (Some x)
    then show ?thesis using run r1 by simp
  next
    case None
    note IH = 1(1,2) [OF s [symmetric] refl r [symmetric] refl None]
    show ?thesis
    proof (cases step)
      case (Rewrite m us)
      then show ?thesis using run None IH(1) [OF Rewrite 1(3,4)] r1 r2 by simp
    next
      case (Reread m us)
      then show ?thesis using run None IH(2) [OF Reread 1(3,4)] r1 r2 by simp
    qed (use run None r1 r2 in simp)
  qed
qed

lemma loop_keeps_cache:
  assumes "kenwood_loop K retry cmd sz wr n rig = (e, rig')"
  shows "cache_start (priv rig') = cache_start (priv rig) \<and> last_if_response (priv rig') = last_if_response (priv rig)"
proof -
  let ?f = "\<lambda>r. (cache_start (priv r), last_if_response (priv r))"
  have "?f rig' = ?f rig"
  proof (rule loop_frame [OF _ _ assms])
    show "?f (snd (run_state (kenwood_write K cmd sz) r)) = ?f r" for r
      by (auto simp: kenwood_write_def run_state_bind run_ken_port)
    show "?f (snd (run_state (kenwood_read K retry cmd sz m) r)) = ?f r" for m r
      by (auto simp: kenwood_read_def run_state_bind run_ken_port case_prod_beta Let_def split: ken_step.splits)
  qed
  then show ?thesis by simp
qed

text \<open>What another command does to the cached status.\<close>

lemma transaction_cache:
  assumes "cmd \<noteq> ''IF''" and "run_state (kenwood_transaction K cmd data sz) rig = (res, rig')"
  shows "last_if_response (priv rig') = last_if_response (priv rig)"
    "cache_start (priv rig') = (if sets_something cmd then (cache_start (priv rig))\<lparr>tv_sec := 0\<rparr> else cache_start (priv rig))"
proof -
  define w where "w = (if is_emulation (priv rig) then 0 else post_write_delay (priv rig))"
  let ?r0 = "rig\<lparr>priv := (priv rig)\<lparr>transaction_active := True, post_write_delay := w\<rparr>\<rparr>"
  let ?r1 = "if sets_something cmd then ?r0\<lparr>priv := (priv ?r0)\<lparr>cache_start := (cache_start (priv rig))\<lparr>tv_sec := 0\<rparr>\<rparr>\<rparr> else ?r0"
  have c: "run_state (kenwood_if_cached cmd) ?r0 = (False, ?r0)"
    using assms(1) by (simp add: kenwood_if_cached_def run_state_bind)
  obtain e r2 where l: "kenwood_loop K (k_retry (priv rig)) cmd sz True 0 ?r1 = (e, r2)" by force
  have q: "run_state (kenwood_quit K cmd rc t) r2 = ((), r2\<lparr>priv := (priv r2)\<lparr>transaction_active := False\<rparr>\<rparr>)" for rc t
    using assms(1) by (simp add: kenwood_quit_def run_state_bind)
  have "rig' = r2 \<or> rig' = r2\<lparr>priv := (priv r2)\<lparr>transaction_active := False\<rparr>\<rparr>"
    using assms(2) c l q
    by (cases e) (simp_all add: kenwood_transaction_def run_state_bind w_def [symmetric] split: if_splits split del: if_split)
  then show "last_if_response (priv rig') = last_if_response (priv rig)"
    "cache_start (priv rig') = (if sets_something cmd then (cache_start (priv rig))\<lparr>tv_sec := 0\<rparr> else cache_start (priv rig))"
    using loop_keeps_cache [OF l] by auto
qed

text \<open>Transactions one after the other, each with the clock it finds.\<close>

fun transactions :: "'d ken \<Rightarrow> (string \<times> string \<times> nat) list \<Rightarrow> 'd kenwood_rig \<Rightarrow> 'd kenwood_rig" where
  "transactions K [] rig = rig"
| "transactions K ((cmd, data, sz) # cs) rig = transactions K cs (snd (run_state (kenwood_transaction K cmd data sz) rig))"

lemma transactions_cache:
  assumes "''IF'' \<notin> fst ` set cs"
  shows "last_if_response (priv (transactions K cs rig)) = last_if_response (priv rig)
    \<and> cache_start (priv (transactions K cs rig)) =
      (if \<exists>c \<in> set cs. sets_something (fst c) then (cache_start (priv rig))\<lparr>tv_sec := 0\<rparr> else cache_start (priv rig))"
  using assms
proof (induction cs arbitrary: rig)
  case (Cons c cs)
  obtain cmd data sz where c: "c = (cmd, data, sz)" by (cases c) auto
  obtain res rig' where r: "run_state (kenwood_transaction K cmd data sz) rig = (res, rig')" by (metis surj_pair)
  have n: "cmd \<noteq> ''IF''" "''IF'' \<notin> fst ` set cs" using Cons.prems c by auto
  show ?case using Cons.IH [OF n(2), of rig'] transaction_cache [OF n(1) r] by (auto simp: c r)
qed simp

text \<open>C18: the cached status of the radio. Let the question \<^verbatim>\<open>IF\<close> be answered with a text of the usual
  length, at a time whose seconds and nanoseconds are not 0 (such a stamp counts as none), and let any other transactions follow.
  When none of them is a command that sets something (longer than two letters, \<^verbatim>\<open>RX\<close> or
  \<^verbatim>\<open>TX\<close>), a question \<^verbatim>\<open>IF\<close> within 500 ms of the answer gets the same text without a word to
  the radio, whatever has changed there, but the flag that a transaction is in progress stays set. When one of them is,
  the cached text is not used again, however soon the question comes.\<close>

theorem if_reply_cached:
  assumes "quiet rig" and "no_cached_if ''IF'' rig" and "accepted K (verify_cmd (priv rig)) ''IF'' sz s"
    and "reply_of (k_radio K) (wire_command K ''IF'') (device (k_port (priv rig))) = (on_wire K s, d)"
    and "length s = if_len K" and "0 < sz"
    and "run_state (kenwood_transaction K ''IF'' data sz) rig = (res, rig1)"
    and "tv_sec (now rig1) \<noteq> 0" and "tv_nsec (now rig1) \<noteq> 0"
    and "''IF'' \<notin> fst ` set cs" and "rig2 = (transactions K cs rig1)\<lparr>now := t\<rparr>"
    and "0 \<le> elapsed_nsec (now rig1) t" and "elapsed_nsec (now rig1) t < 500000000"
  shows "res = (RIG_OK, s) \<and> (if \<exists>c \<in> set cs. sets_something (fst c) then no_cached_if ''IF'' rig2
      else \<exists>rig3. run_state (kenwood_transaction K ''IF'' data' sz) rig2 = ((RIG_OK, s), rig3)
        \<and> k_port (priv rig3) = k_port (priv rig2) \<and> transaction_active (priv rig3) \<and> \<not> transaction_active (priv rig1))"
proof -
  have sk: "\<not> skips_verify ''IF''" by (simp add: skips_verify_def starts_def)
  have ro: "round_octets K rig ''IF'' sz = wire_command K ''IF''" using assms(6) by (simp add: round_octets_def)
  have 1: "res = (RIG_OK, s)" "cache_start (priv rig1) = now rig1"
    "last_if_response (priv rig1) = s" "\<not> transaction_active (priv rig1)"
    using ken_transaction_delivers [OF assms(1) sk _ assms(2,3), of d data] assms(4-7) ro by (auto simp: trn_done_def)
  have sz: "length s < sz" using assms(3,6) by (auto simp: accepted_def reply_limit_def)
  note kept = transactions_cache [OF assms(10), of K rig1, THEN conjunct1] transactions_cache [OF assms(10), of K rig1, THEN conjunct2]
  have "if \<exists>c \<in> set cs. sets_something (fst c) then no_cached_if ''IF'' rig2
      else \<exists>rig3. run_state (kenwood_transaction K ''IF'' data' sz) rig2 = ((RIG_OK, s), rig3)
        \<and> k_port (priv rig3) = k_port (priv rig2) \<and> transaction_active (priv rig3) \<and> \<not> transaction_active (priv rig1)"
  proof (cases "\<exists>c \<in> set cs. sets_something (fst c)")
    case True
    then have "tv_sec (cache_start (priv rig2)) = 0" using kept(2) by (simp add: assms(11))
    then show ?thesis using True by (simp add: no_cached_if_def)
  next
    case False
    have "elapsed_nsec (now rig1) t div 1000000 < 500" using assms(13) by linarith
    then have hit: "\<not> no_cached_if ''IF'' rig2"
      using False 1(2) kept(2) assms(8,9,12) by (simp add: no_cached_if_def assms(11) Let_def)
    have "last_if_response (priv rig2) = s" using kept(1) 1(3) by (simp add: assms(11))
    then show ?thesis
      using False transaction_hit [OF hit assms(6), of K data'] 1(4) sz by simp
  qed
  with 1(1) show ?thesis by blast
qed

subsection \<open>Witnesses\<close>

text \<open>A radio that answers commands from a table, and a fresh handle on a line to it.\<close>

definition table_radio :: "(string \<Rightarrow> string list) \<Rightarrow> string answers" where
  "table_radio T b d = (let c = char_at b in
     if c = CHR '';'' then (map Octet (octs (concat (map (\<lambda>s. s @ '';'') (T d)))), []) else ([], d @ [c]))"

definition zero_ken :: "'d line \<Rightarrow> int \<Rightarrow> 'd kenwood_priv_data" where
  "zero_ken l retry = \<lparr>info = [], k_split = RIG_SPLIT_OFF, k_tx_vfo = 0, trn_state = - 1, fw_rev_uint = 0,
     verify_cmd = ''ID;'', is_emulation = False, curr_mode = 0, cache_start = zero_time, last_if_response = [],
     k_poweron = False, has_rit2 = False, no_id = False, k_modeA = 0, k_modeB = 0, datamodeA = False, datamodeB = False,
     k_port = l, k_retry = retry, post_write_delay = 0, transaction_active = False, k_auto_power_on = False,
     k_auto_power_off = False, ag_format = - 1, micgain_min = - 1, micgain_max = - 1, k_power_now = 0, k_power_min = 0,
     k_power_max = 0\<rparr>"

definition ken_handle :: "'d line \<Rightarrow> 'd kenwood_rig" where
  "ken_handle l = (zero_rig \<lparr>tv_sec = 1000, tv_nsec = 5\<rparr> (zero_ken l 3))\<lparr>comm_state := True, current_vfo := RIG_VFO_A,
     vfo_list := RIG_VFO_A OR RIG_VFO_B\<rparr>"

definition bench_ken :: "'d answers \<Rightarrow> 'd ken" where
  "bench_ken dev = \<lparr>k_radio = dev, k_after_read = (\<lambda>l t. t), k_after_sleep = (\<lambda>us t. t), k_model = RIG_MODEL_TS890S,
     cmdtrm = CHR '';'', cap_if_len = 0, cap_mode_table = None, cap_filter_width = None, cap_timeout = 200,
     cap_ctcss_list = kenwood38_ctcss_list, cap_attenuator = [], cap_preamp = [], cap_slope_high = None,
     cap_slope_low = None, cap_str_cal = [],
     no_restore_ai = False, unset_vfo = 0, unset_int = 0, unset_str = []\<rparr>"

lemma bench_ken_simps [simp]:
  "k_radio (bench_ken dev) = dev" "cmdtrm (bench_ken dev) = CHR '';''" "k_model (bench_ken dev) = RIG_MODEL_TS890S"
  "if_len (bench_ken dev) = 37"
  by (simp_all add: bench_ken_def if_len_def)

lemma ken_handle_simps [simp]:
  "k_port (priv (ken_handle l)) = l" "verify_cmd (priv (ken_handle l)) = ''ID;''" "\<not> no_id (priv (ken_handle l))"
  "k_retry (priv (ken_handle l)) = 3" "no_cached_if cmd (ken_handle l)"
  by (simp_all add: ken_handle_def zero_rig_def zero_ken_def no_cached_if_def zero_time_def)

lemma ken_handle_quiet [simp]: "quiet (ken_handle (fresh_line [] d))"
  by (simp add: quiet_def stale_def usable_def)

lemma table_radio_char [simp]:
  "table_radio T (octet_of c) d
    = (if c = CHR '';'' then (map Octet (octs (concat (map (\<lambda>s. s @ '';'') (T d)))), []) else ([], d @ [c]))"
  by (simp add: table_radio_def)

lemma kenwood_transaction_delivers_witness:
  "fst (run_state (kenwood_transaction (bench_ken (table_radio (\<lambda>_. [''FA00014074000'']))) ''FA'' [] 50)
      (ken_handle (fresh_line [] []))) = (RIG_OK, ''FA00014074000'')"
proof -
  let ?K = "bench_ken (table_radio (\<lambda>_. [''FA00014074000'']))" and ?rig = "ken_handle (fresh_line [] [])"
  have acc: "accepted ?K (verify_cmd (priv ?rig)) ''FA'' 50 ''FA00014074000''"
    by (simp add: accepted_def reply_text_def NUL_def reply_limit_def KENWOOD_MAX_BUF_LEN_def)
  have re: "reply_of (k_radio ?K) (round_octets ?K ?rig ''FA'' 50) (device (k_port (priv ?rig)))
      = (on_wire ?K ''FA00014074000'', [])"
    by (simp add: round_octets_def wire_command_def on_wire_def)
  have sk: "\<not> skips_verify ''FA''" by (simp add: skips_verify_def starts_def)
  from kenwood_transaction_delivers [OF ken_handle_quiet sk _ _ acc re, of "[]"] show ?thesis by auto
qed

definition busy_table :: "string \<Rightarrow> string list" where
  "busy_table c = (if c = ''ID'' then [''ID024''] else [''?''])"

lemma kenwood_rejection_lost_witness:
  "fst (run_state (kenwood_set (bench_ken (table_radio busy_table)) ''FA00099999999'') (ken_handle (fresh_line [] []))) = RIG_OK"
proof -
  let ?K = "bench_ken (table_radio busy_table)" and ?rig = "ken_handle (fresh_line [] [])"
  have acc: "accepted ?K (verify_cmd (priv ?rig)) ''FA00099999999'' 0 ''ID024''"
    by (simp add: accepted_def reply_text_def NUL_def reply_limit_def KENWOOD_MAX_BUF_LEN_def starts_def)
  have re: "reply_of (k_radio ?K) (round_octets ?K ?rig ''FA00099999999'' 0) (device (k_port (priv ?rig)))
      = (on_wire ?K ''?'' @ on_wire ?K ''ID024'', [])"
    by (simp add: round_octets_def wire_command_def on_wire_def busy_table_def)
  have sk: "\<not> skips_verify ''FA00099999999''" by (simp add: skips_verify_def starts_def)
  have trm: "cmdtrm ?K \<noteq> CHR ''?''" by simp
  from kenwood_rejection_lost [OF ken_handle_quiet sk _ _ acc trm re] show ?thesis by auto
qed

lemma kenwood_transaction_gives_up_witness:
  "let K = bench_ken (\<lambda>b d. ([], d @ [b])); r = run_state (kenwood_transaction K ''FA'' [] 50) (ken_handle (fresh_line [] []))
   in fst r = (- RIG_ETIMEOUT, []) \<and> device (k_port (priv (snd r))) = octs ''FA;FA;FA;FA;''"
proof -
  let ?K = "bench_ken (\<lambda>b d. ([], d @ [b]))" and ?rig = "ken_handle (fresh_line [] [])"
  have sil: "silent (k_radio ?K)" by (simp add: silent_def)
  have sk: "\<not> skips_verify ''FA''" by (simp add: skips_verify_def starts_def)
  have re: "k_retry (priv ?rig) = int 3" by simp
  obtain r' where r': "run_state (kenwood_transaction ?K ''FA'' [] 50) ?rig = ((- RIG_ETIMEOUT, []), r')"
    "trn_done ?rig (hear (k_radio ?K) (round_octets ?K ?rig ''FA'' 50) (Suc 3) (device (k_port (priv ?rig)))) r'"
    using kenwood_transaction_gives_up [OF ken_handle_quiet sil sk _ _ re, of 50 "[]"] by auto
  then show ?thesis
    by (simp add: trn_done_def round_octets_def wire_command_def numeral_3_eq_3)
qed

text \<open>A status of 37 characters.\<close>

definition IF_status :: string where "IF_status = ''IF000503130001000+0000000000030000000''"

text \<open>A clock that does not move.\<close>

definition still_clock :: "'d ken \<Rightarrow> bool" where
  "still_clock K \<longleftrightarrow> (\<forall>l t. k_after_read K l t = t) \<and> (\<forall>us t. k_after_sleep K us t = t)"

lemma loop_stands_still:
  assumes "still_clock K" and "kenwood_loop K retry cmd sz wr n rig = (e, rig')"
  shows "now rig' = now rig"
proof (rule loop_frame [OF _ _ assms(2)])
  show "now (snd (run_state (kenwood_write K cmd sz) r)) = now r" for r
    by (auto simp: kenwood_write_def run_state_bind run_ken_port)
  show "now (snd (run_state (kenwood_read K retry cmd sz m) r)) = now r" for m r
    using assms(1) by (auto simp: kenwood_read_def run_state_bind run_ken_port case_prod_beta Let_def still_clock_def
        split: ken_step.splits)
qed

lemma clock_kept [simp]:
  "keeps (\<lambda>rig. now rig = t) (kenwood_if_cached cmd)" "keeps (\<lambda>rig. now rig = t) (upd_ken f)"
  "keeps (\<lambda>rig. now rig = t) (kenwood_quit K cmd rc s)"
proof -
  show "keeps (\<lambda>rig. now rig = t) (kenwood_if_cached cmd)"
  proof (rule keepsI)
    show "now rig = t \<Longrightarrow> now (snd (run_state (kenwood_if_cached cmd) rig)) = t" for rig
      using run_if_cached [of cmd rig] by auto
  qed
  show "keeps (\<lambda>rig. now rig = t) (kenwood_quit K cmd rc s)"
    by (auto simp: keeps_def kenwood_quit_def run_state_bind)
qed (auto simp: keeps_def)

lemma transaction_stands_still:
  assumes "still_clock K"
  shows "keeps (\<lambda>rig. now rig = t) (kenwood_transaction K cmd data sz)"
proof -
  have loop: "keeps (\<lambda>rig. now rig = t) (State (kenwood_loop K retry cmd sz True n))" for retry n
    using loop_stands_still [OF assms, of retry cmd sz True n] by (auto simp: keeps_def prod_eq_iff)
  have ends: "keeps (\<lambda>rig. now rig = t) (case e of Leave rc \<Rightarrow> State_Monad.return (rc, data)
       | Quit rc s res \<Rightarrow> do {
           _ \<leftarrow> kenwood_quit K cmd rc s;
           State_Monad.return (rc, case res of None \<Rightarrow> data | Some d \<Rightarrow> d)
         })" for e
    by (cases e) (auto intro!: keeps_bind)
  show ?thesis
    unfolding kenwood_transaction_def
    by (intro keeps_bind keeps_if keeps_do_when keeps_gets keeps_return clock_kept loop ends)
qed

lemma if_reply_cached_witness:
  "let K = bench_ken (table_radio (\<lambda>_. [IF_status])); t = \<lparr>tv_sec = 1000, tv_nsec = 499999999\<rparr>;
       r = snd (run_state (kenwood_transaction K ''IF'' [] 128) (ken_handle (fresh_line [] [])))
   in fst (run_state (kenwood_transaction K ''IF'' [] 128) ((transactions K [(''FA'', [], 50)] r)\<lparr>now := t\<rparr>)) = (RIG_OK, IF_status)
     \<and> no_cached_if ''IF'' ((transactions K [(''FA'', [], 50), (''AG0100'', [], 0)] r)\<lparr>now := t\<rparr>)"
proof -
  let ?K = "bench_ken (table_radio (\<lambda>_. [IF_status]))" and ?rig = "ken_handle (fresh_line [] [])"
  let ?t = "run_state (kenwood_transaction ?K ''IF'' [] 128) ?rig"
  define r where "r = snd ?t"
  have r: "?t = (fst ?t, r)" by (simp only: r_def prod.collapse)
  have "still_clock ?K" by (simp add: still_clock_def bench_ken_def)
  from keepsD [OF transaction_stands_still [OF this, of "\<lparr>tv_sec = 1000, tv_nsec = 5\<rparr>"] r]
  have t: "now r = \<lparr>tv_sec = 1000, tv_nsec = 5\<rparr>" by (simp add: ken_handle_def zero_rig_def)
  have acc: "accepted ?K (verify_cmd (priv ?rig)) ''IF'' 128 IF_status"
    by (simp add: accepted_def reply_text_def NUL_def reply_limit_def KENWOOD_MAX_BUF_LEN_def IF_status_def)
  have re: "reply_of (k_radio ?K) (wire_command ?K ''IF'') (device (k_port (priv ?rig))) = (on_wire ?K IF_status, [])"
    by (simp add: wire_command_def on_wire_def)
  have n: "no_cached_if ''IF'' ?rig" "length IF_status = if_len ?K" by (simp_all add: IF_status_def)
  note cached = if_reply_cached [where t = "\<lparr>tv_sec = 1000, tv_nsec = 499999999\<rparr>" and data' = "[]",
      THEN conjunct2, OF ken_handle_quiet n(1) acc re n(2) _ r _ _ _ refl]
  have fa: "\<not> sets_something ''FA''" "sets_something ''AG0100''" by (simp_all add: sets_something_def starts_def)
  show ?thesis
    using cached [where cs1 = "[(''FA'', [], 50)]"] cached [where cs1 = "[(''FA'', [], 50), (''AG0100'', [], 0)]"]
    by (auto simp: t elapsed_nsec_def r_def [symmetric] Let_def fa simp del: transactions.simps)
qed

end
