(* ===== verification/Hamlib_Kenwood.thy ===== *)
theory Hamlib_Kenwood
  imports Hamlib_Kenwood_Trn Hamlib_Split
begin

text \<open>
  Operations of the Kenwood back end (\<^verbatim>\<open>rigs/kenwood/kenwood.c\<close>): life of the handle, VFO,
  split, frequency, keying, squelch, power, transceive mode, reset.

  As with Icom, the C functions call back into the front end, which calls the back end through
  \<^verbatim>\<open>rig->caps\<close>; \<open>caps\<close> is an argument of theirs, and the table of a model (\<open>ts890_table\<close>) ties the knot to a given depth.
\<close>

named_theorems kenwood_defs \<open>codes used by the operations\<close>

definition RIG_POWER_OFF :: int where [kenwood_defs]: "RIG_POWER_OFF = 0"
definition RIG_POWER_ON :: int where [kenwood_defs]: "RIG_POWER_ON = 1"
definition RIG_TRN_OFF :: int where [kenwood_defs]: "RIG_TRN_OFF = 0"
definition RIG_TRN_RIG :: int where [kenwood_defs]: "RIG_TRN_RIG = 1"
definition RIG_RESET_SOFT :: int where [kenwood_defs]: "RIG_RESET_SOFT = 1"
definition RIG_RESET_VFO :: int where [kenwood_defs]: "RIG_RESET_VFO = 2"
definition RIG_RESET_MCALL :: int where [kenwood_defs]: "RIG_RESET_MCALL = 4"
definition RIG_RESET_MASTER :: int where [kenwood_defs]: "RIG_RESET_MASTER = 8"

text \<open>A character of the status that \<^verbatim>\<open>kenwood_get_if\<close> has stored.\<close>

definition info_at :: "'d kenwood_priv_data \<Rightarrow> nat \<Rightarrow> char" where
  "info_at p i = char_nth (info p) i"

subsection \<open>The status of the transceiver\<close>

definition kenwood_get_id :: "'d ken \<Rightarrow> string \<Rightarrow> ('d kenwood_rig, int \<times> string) state" where
  "kenwood_get_id K buf = kenwood_transaction K ''ID'' buf KENWOOD_MAX_BUF_LEN"

text \<open>Models that do not swap the VFO in the status while they transmit in split operation.\<close>

definition tracks_split :: "'d ken \<Rightarrow> bool" where
  "tracks_split K \<longleftrightarrow> k_model K \<noteq> RIG_MODEL_K2 \<and> k_model K \<noteq> RIG_MODEL_K3"

text \<open>The transmit VFO in the status, by its characters 30 and 32 and the receive VFO; the receive
  VFO is set to A when it is neither A nor B.\<close>

definition if_tx_vfo :: "'d ken \<Rightarrow> split_t \<times> vfo_t \<Rightarrow> split_t \<Rightarrow> ('d kenwood_rig, int \<times> split_t \<times> vfo_t) state" where
  "if_tx_vfo K out split = do {
     rig \<leftarrow> gets id;
     let p = priv rig;
     let other = (split \<noteq> RIG_SPLIT_OFF \<and> \<not> (info_at p 28 = CHR ''1'' \<and> tracks_split K));
     let known = (rx_vfo rig \<in> {RIG_VFO_A, RIG_VFO_B});
     if info_at p 30 \<notin> {CHR ''0'', CHR ''1'', CHR ''2''} then State_Monad.return (- RIG_EPROTO, split, snd out)
     else do {
       let tx = (if info_at p 30 = CHR ''2'' then RIG_VFO_MEM
                 else if \<not> known then RIG_VFO_A
                 else if info_at p 30 = CHR ''1'' \<and> rx_vfo rig = RIG_VFO_A
                 then if other then RIG_VFO_A else RIG_VFO_B
                 else if other then RIG_VFO_B else RIG_VFO_A);
       _ \<leftarrow> do_when (info_at p 30 \<noteq> CHR ''2'' \<and> \<not> known) (modify (\<lambda>rig. rig\<lparr>rx_vfo := RIG_VFO_A\<rparr>));
       _ \<leftarrow> upd_ken (\<lambda>p. p\<lparr>k_tx_vfo := tx\<rparr>);
       State_Monad.return (RIG_OK, split, tx)
     }
   }"

definition kenwood_get_split_vfo_if ::
  "'d ken \<Rightarrow> vfo_t \<Rightarrow> split_t \<times> vfo_t \<Rightarrow> ('d kenwood_rig, int \<times> split_t \<times> vfo_t) state" where
  "kenwood_get_split_vfo_if K rxvfo out =
     (if k_model K = RIG_MODEL_TS990S
      then do {
        (rc, buf) \<leftarrow> kenwood_safe_transaction K ''TB'' 4 3;
        if rc \<noteq> RIG_OK then State_Monad.return (rc, out)
        else do {
          let r = (if char_nth buf 2 = CHR ''1'' then (RIG_SPLIT_ON, RIG_VFO_SUB) else (RIG_SPLIT_OFF, RIG_VFO_MAIN));
          _ \<leftarrow> upd_ken (\<lambda>p. p\<lparr>k_tx_vfo := snd r\<rparr>);
          State_Monad.return (RIG_OK, r)
        }
      }
      else do {
        rc \<leftarrow> kenwood_get_if K;
        p \<leftarrow> gets priv;
        if rc \<noteq> RIG_OK then State_Monad.return (rc, out)
        else if info_at p 32 \<notin> {CHR ''0'', CHR ''1''} then State_Monad.return (- RIG_EPROTO, out)
        else do {
          let split = (if info_at p 32 = CHR ''1'' then RIG_SPLIT_ON else RIG_SPLIT_OFF);
          _ \<leftarrow> upd_ken (\<lambda>p. p\<lparr>k_split := split\<rparr>);
          if_tx_vfo K out split
        }
      })"

definition kenwood_get_vfo_if :: "'d ken \<Rightarrow> vfo_t \<Rightarrow> ('d kenwood_rig, int \<times> vfo_t) state" where
  "kenwood_get_vfo_if K vfo = do {
     rc \<leftarrow> kenwood_get_if K;
     p \<leftarrow> gets priv;
     let swapped = (info_at p 28 = CHR ''1'' \<and> info_at p 32 = CHR ''1'' \<and> tracks_split K);
     if rc \<noteq> RIG_OK then State_Monad.return (rc, vfo)
     else if info_at p 30 = CHR ''0''
     then do {
       let v = (if swapped then RIG_VFO_B else RIG_VFO_A);
       _ \<leftarrow> modify (\<lambda>rig. rig\<lparr>rx_vfo := v, tx_vfo := v\<rparr>);
       _ \<leftarrow> upd_ken (\<lambda>p. p\<lparr>k_tx_vfo := (if info_at p 32 = CHR ''1'' then RIG_VFO_B else v)\<rparr>);
       State_Monad.return (RIG_OK, v)
     }
     else if info_at p 30 = CHR ''1''
     then do {
       _ \<leftarrow> upd_ken (\<lambda>p. p\<lparr>k_tx_vfo := RIG_VFO_B\<rparr>);
       State_Monad.return (RIG_OK, if swapped then RIG_VFO_A else RIG_VFO_B)
     }
     else if info_at p 30 = CHR ''2''
     then do {
       _ \<leftarrow> upd_ken (\<lambda>p. p\<lparr>k_tx_vfo := RIG_VFO_MEM\<rparr>);
       State_Monad.return (RIG_OK, RIG_VFO_MEM)
     }
     else State_Monad.return (- RIG_EPROTO, vfo)
   }"

subsection \<open>Selecting a VFO\<close>

definition kenwood_set_vfo_main_sub :: "'d ken \<Rightarrow> vfo_t \<Rightarrow> 'd kenwood_call" where
  "kenwood_set_vfo_main_sub K vfo =
     (if vfo = RIG_VFO_MAIN then kenwood_set K ''CB0''
      else if vfo = RIG_VFO_SUB then kenwood_set K ''CB1''
      else if vfo = RIG_VFO_CURR then State_Monad.return RIG_OK
      else State_Monad.return (- RIG_EINVAL))"

definition kenwood_get_vfo_main_sub :: "'d ken \<Rightarrow> vfo_t \<Rightarrow> ('d kenwood_rig, int \<times> vfo_t) state" where
  "kenwood_get_vfo_main_sub K vfo = do {
     (rc, buf) \<leftarrow> kenwood_safe_transaction K ''CB'' 4 3;
     State_Monad.return (rc, if rc \<noteq> RIG_OK then vfo
                             else if char_nth buf 2 = CHR ''1'' then RIG_VFO_SUB else RIG_VFO_MAIN)
   }"

text \<open>The character of a VFO in the commands \<^verbatim>\<open>FR\<close>, \<^verbatim>\<open>FN\<close>.\<close>

definition vfo_function :: "'d kenwood_rig \<Rightarrow> vfo_t \<Rightarrow> char option" where
  "vfo_function rig vfo =
     (if vfo = RIG_VFO_A then Some CHR ''0''
      else if vfo = RIG_VFO_B then Some CHR ''1''
      else if vfo = RIG_VFO_MEM then Some CHR ''2''
      else if vfo = RIG_VFO_TX then Some (if tx_vfo rig = RIG_VFO_B then CHR ''1'' else CHR ''0'')
      else None)"

text \<open>Whether a TS-2000 is in satellite mode, where the command is refused.\<close>

definition in_satellite :: "'d ken \<Rightarrow> ('d kenwood_rig, int \<times> bool) state" where
  "in_satellite K = do {
     p \<leftarrow> gets priv;
     if k_model K = RIG_MODEL_TS2000 \<and> \<not> is_emulation p
     then do {
       (rc, buf) \<leftarrow> kenwood_transaction K ''SA'' [] 20;
       State_Monad.return (rc, rc = RIG_OK \<and> char_nth buf 2 = CHR ''1'')
     }
     else State_Monad.return (RIG_OK, False)
   }"

text \<open>
  After the command nothing more is sent: with the command \<^verbatim>\<open>FN\<close> or in split operation the
  function returns, and what follows is for split operation.
\<close>

definition kenwood_set_vfo :: "'d ken \<Rightarrow> vfo_t \<Rightarrow> 'd kenwood_call" where
  "kenwood_set_vfo K vfo = do {
     rig \<leftarrow> gets id;
     let p = priv rig;
     if is_emulation p \<and> 0 < curr_mode p then State_Monad.return RIG_OK
     else if current_vfo rig = vfo then State_Monad.return RIG_OK
     else if vfo = RIG_VFO_CURR
     then do {
       _ \<leftarrow> modify (\<lambda>rig. rig\<lparr>current_vfo := RIG_VFO_CURR\<rparr>);
       State_Monad.return RIG_OK
     }
     else (case vfo_function rig vfo of
         None \<Rightarrow> State_Monad.return (- RIG_EINVAL)
       | Some c \<Rightarrow> do {
           (rc, sat) \<leftarrow> in_satellite K;
           if rc \<noteq> RIG_OK then State_Monad.return rc
           else if sat then State_Monad.return RIG_OK
           else do {
             p \<leftarrow> gets priv;
             let fn = (k_model K = RIG_MODEL_TS50 \<or> k_model K = RIG_MODEL_TS940);
             rc \<leftarrow> kenwood_set K ((if fn then ''FN'' else ''FR'') @ [c]
                    @ (if k_split p = RIG_SPLIT_OFF then [] else if c = CHR ''0'' then '';FT1'' else '';FT0''));
             _ \<leftarrow> do_when (rc = RIG_OK) (modify (\<lambda>rig. rig\<lparr>current_vfo := vfo\<rparr>));
             State_Monad.return rc
           }
         })
   }"

subsection \<open>Frequency\<close>

text \<open>The letter of a VFO in the commands \<^verbatim>\<open>FA\<close>, \<^verbatim>\<open>FB\<close>, \<^verbatim>\<open>FC\<close>; \<open>tx\<close> is that of \<^verbatim>\<open>RIG_VFO_TX\<close>.\<close>

definition vfo_letter :: "char \<Rightarrow> vfo_t \<Rightarrow> char option" where
  "vfo_letter tx vfo =
     (if vfo = RIG_VFO_A \<or> vfo = RIG_VFO_MAIN then Some CHR ''A''
      else if vfo = RIG_VFO_B \<or> vfo = RIG_VFO_SUB then Some CHR ''B''
      else if vfo = RIG_VFO_C then Some CHR ''C''
      else if vfo = RIG_VFO_TX then Some tx
      else None)"

definition scan_freq :: "string \<Rightarrow> freq_t \<Rightarrow> freq_t" where
  "scan_freq s freq = (case scan_double s of None \<Rightarrow> freq | Some f \<Rightarrow> f)"

definition kenwood_get_freq_if :: "'d ken \<Rightarrow> vfo_t \<Rightarrow> freq_t \<Rightarrow> ('d kenwood_rig, int \<times> freq_t) state" where
  "kenwood_get_freq_if K vfo freq = do {
     rc \<leftarrow> kenwood_get_if K;
     s \<leftarrow> gets (\<lambda>rig. info (priv rig));
     State_Monad.return (rc, if rc \<noteq> RIG_OK then freq else scan_freq (drop 2 (take 14 s)) freq)
   }"

text \<open>The current VFO, asked of the radio when it is not known; an error code on the left.\<close>

definition actual_vfo ::
  "'d kenwood_ops \<Rightarrow> vfo_t set \<Rightarrow> vfo_t \<Rightarrow> ('d kenwood_rig, int + vfo_t) state" where
  "actual_vfo caps unknown vfo = do {
     rig \<leftarrow> gets id;
     let tvfo = (if vfo = RIG_VFO_CURR \<or> vfo = RIG_VFO_VFO then current_vfo rig else vfo);
     if tvfo \<in> unknown
     then do {
       (rc, v) \<leftarrow> rig_get_vfo caps tvfo;
       State_Monad.return (if rc \<noteq> RIG_OK then Inl rc else Inr v)
     }
     else State_Monad.return (Inr tvfo)
   }"

definition kenwood_get_freq ::
  "'d ken \<Rightarrow> 'd kenwood_ops \<Rightarrow> vfo_t \<Rightarrow> freq_t \<Rightarrow> ('d kenwood_rig, int \<times> freq_t) state" where
  "kenwood_get_freq K caps vfo freq = do {
     t \<leftarrow> actual_vfo caps {RIG_VFO_CURR} vfo;
     case t of
       Inl rc \<Rightarrow> State_Monad.return (rc, freq)
     | Inr tvfo \<Rightarrow>
         if tvfo = RIG_VFO_MEM then kenwood_get_freq_if K vfo freq
         else do {
           split \<leftarrow> gets (\<lambda>rig. k_split (priv rig));
           case vfo_letter (if split = RIG_SPLIT_OFF then CHR ''A'' else CHR ''B'') tvfo of
             None \<Rightarrow> State_Monad.return (- RIG_EINVAL, freq)
           | Some c \<Rightarrow> do {
               (rc, buf) \<leftarrow> kenwood_safe_transaction K [CHR ''F'', c] 50 13;
               State_Monad.return (rc, if rc \<noteq> RIG_OK then freq else scan_freq (drop 2 buf) freq)
             }
         }
   }"

definition freq_command :: "char \<Rightarrow> freq_t \<Rightarrow> string" where
  "freq_command c freq = snprintf 16 ([CHR ''F'', c] @ pad0 11 (c_trunc freq))"

text \<open>The way around a defect of the TS-590S up to firmware 1.07: after the VFO that is not in use has
  been set in split operation, the other one is read and set to what was read.\<close>

definition ts590_repair :: "'d ken \<Rightarrow> char \<Rightarrow> int \<Rightarrow> 'd kenwood_call" where
  "ts590_repair K c err = do {
     p \<leftarrow> gets priv;
     if err = RIG_OK \<and> k_model K = RIG_MODEL_TS590S \<and> fw_rev_uint p \<le> 107 \<and> c \<in> {CHR ''A'', CHR ''B''}
     then do {
       rc \<leftarrow> kenwood_get_if K;
       p \<leftarrow> gets priv;
       if rc \<noteq> RIG_OK then State_Monad.return rc
       else if info_at p 32 = CHR ''1'' \<and> info_at p 30 \<noteq> (if c = CHR ''A'' then CHR ''0'' else CHR ''1'')
       then do {
         (rc, buf) \<leftarrow> kenwood_safe_transaction K (if c = CHR ''A'' then ''FB'' else ''FA'') 16 13;
         if rc \<noteq> RIG_OK then State_Monad.return rc else kenwood_set K buf
       }
       else State_Monad.return RIG_OK
     }
     else State_Monad.return err
   }"

definition kenwood_set_freq ::
  "'d ken \<Rightarrow> 'd kenwood_ops \<Rightarrow> 'd kenwood_ports \<Rightarrow> vfo_t \<Rightarrow> freq_t \<Rightarrow> 'd kenwood_call" where
  "kenwood_set_freq K caps P vfo freq = do {
     t \<leftarrow> actual_vfo caps {RIG_VFO_CURR, RIG_VFO_NONE} vfo;
     case t of
       Inl rc \<Rightarrow> State_Monad.return rc
     | Inr tvfo \<Rightarrow> do {
         (_, tfreq) \<leftarrow> rig_get_freq caps P tvfo 0;
         if tfreq = freq then State_Monad.return RIG_OK
         else do {
           tx \<leftarrow> gets (\<lambda>rig. k_tx_vfo (priv rig));
           case vfo_letter (if tx = RIG_VFO_A then CHR ''A'' else if tx = RIG_VFO_B then CHR ''B'' else NUL) tvfo of
             None \<Rightarrow> State_Monad.return (- RIG_EINVAL)
           | Some c \<Rightarrow> do {
               err \<leftarrow> kenwood_set K (freq_command c freq);
               ts590_repair K c err
             }
         }
       }
   }"

subsection \<open>Split\<close>

text \<open>The receive VFO is A, B or a memory once the first switch has been passed, so the calls for
  \<^verbatim>\<open>RIG_VFO_CURR\<close> further down are not reached, but for a transmit VFO with the receive VFO A.\<close>

definition split_tx_vfo :: "'d kenwood_rig \<Rightarrow> vfo_t \<Rightarrow> split_t \<Rightarrow> vfo_t \<Rightarrow> vfo_t" where
  "split_tx_vfo rig vfo split txvfo =
     (let tx = (if split = RIG_SPLIT_OFF then vfo else txvfo)
      in vfo_fixup rig (if tx = RIG_VFO_CURR \<and> vfo = RIG_VFO_A then RIG_VFO_B else tx) RIG_SPLIT_ON)"

text \<open>After the command: the cache, the transmit VFO, and what the front end says of the split.\<close>

definition split_commanded ::
  "'d ken \<Rightarrow> 'd kenwood_ops \<Rightarrow> 'd kenwood_ports \<Rightarrow> vfo_t \<Rightarrow> split_t \<Rightarrow> vfo_t \<Rightarrow> 'd kenwood_call" where
  "split_commanded K caps P vfo split txvfo = do {
     _ \<leftarrow> cache_split_now split txvfo;
     tx \<leftarrow> gets (\<lambda>rig. split_tx_vfo rig vfo split txvfo);
     if tx \<notin> {RIG_VFO_VFO, RIG_VFO_MAIN, RIG_VFO_A, RIG_VFO_SUB, RIG_VFO_B, RIG_VFO_MEM}
     then State_Monad.return (- RIG_EINVAL)
     else do {
       _ \<leftarrow> upd_ken (\<lambda>p. p\<lparr>k_tx_vfo := tx\<rparr>);
       (rc, tsplit, _) \<leftarrow> rig_get_split_vfo caps vfo (RIG_SPLIT_OFF, unset_vfo K);
       if rc = RIG_OK \<and> split = RIG_SPLIT_ON \<and> tsplit = RIG_SPLIT_ON then State_Monad.return RIG_OK
       else do {
         _ \<leftarrow> (if rig_model caps \<in> {RIG_MODEL_K4, RIG_MODEL_K3, RIG_MODEL_KX2, RIG_MODEL_KX3}
              then do {
                f \<leftarrow> gets (\<lambda>rig. c_freq (cache rig) MainA);
                rig_set_freq caps P RIG_VFO_B f
              }
              else State_Monad.return RIG_OK);
         _ \<leftarrow> do_when (rc = RIG_OK) (upd_ken (\<lambda>p. p\<lparr>k_split := split\<rparr>));
         State_Monad.return rc
       }
     }
   }"

definition kenwood_set_split_vfo ::
  "'d ken \<Rightarrow> 'd kenwood_ops \<Rightarrow> 'd kenwood_ports \<Rightarrow> vfo_t \<Rightarrow> split_t \<times> vfo_t \<Rightarrow> 'd kenwood_call" where
  "kenwood_set_split_vfo K caps P vfo0 arg =
     (let (split, txvfo) = arg in
      if k_model K = RIG_MODEL_TS990S
      then do {
        rc \<leftarrow> (if split \<noteq> RIG_SPLIT_OFF then kenwood_set_vfo_main_sub K RIG_VFO_MAIN else State_Monad.return RIG_OK);
        if rc \<noteq> RIG_OK then State_Monad.return rc
        else kenwood_set K (if split = RIG_SPLIT_ON then ''TB1'' else ''TB0'')
      }
      else do {
        rig \<leftarrow> gets id;
        let vfo1 = (if vfo0 = RIG_VFO_CURR then current_vfo rig else vfo0);
        let vfo = (if vfo1 = RIG_VFO_TX \<or> vfo1 = RIG_VFO_RX then vfo_fixup rig vfo1 split else vfo1);
        if vfo \<notin> {RIG_VFO_A, RIG_VFO_B, RIG_VFO_MEM} then State_Monad.return (- RIG_EINVAL)
        else do {
          (_, tsplit, _) \<leftarrow> rig_get_split_vfo caps vfo (RIG_SPLIT_OFF, unset_vfo K);
          if tsplit = split then State_Monad.return RIG_OK
          else do {
            let fr = (if vfo = RIG_VFO_A then ''FR0'' else if vfo = RIG_VFO_B then ''FR1'' else ''FR2'');
            rc \<leftarrow> kenwood_set K (fr @ (if split \<noteq> RIG_SPLIT_OFF \<and> vfo = RIG_VFO_A then '';FT1'' else '';FT0''));
            if rc \<noteq> RIG_OK then State_Monad.return rc
            else split_commanded K caps P vfo split txvfo
          }
        }
      })"

definition kenwood_set_split :: "'d ken \<Rightarrow> vfo_t \<Rightarrow> split_t \<times> vfo_t \<Rightarrow> 'd kenwood_call" where
  "kenwood_set_split K vfo arg = do {
     rc \<leftarrow> kenwood_set K (if fst arg = RIG_SPLIT_ON then ''SP1'' else ''SP0'');
     _ \<leftarrow> do_when (rc = RIG_OK) (upd_ken (\<lambda>p. p\<lparr>k_split := fst arg, k_tx_vfo := snd arg\<rparr>));
     State_Monad.return rc
   }"

subsection \<open>Keying and squelch\<close>

definition kenwood_get_ptt :: "'d ken \<Rightarrow> vfo_t \<Rightarrow> ptt_t \<Rightarrow> ('d kenwood_rig, int \<times> ptt_t) state" where
  "kenwood_get_ptt K vfo ptt = do {
     rc \<leftarrow> kenwood_get_if K;
     p \<leftarrow> gets priv;
     State_Monad.return (rc, if rc \<noteq> RIG_OK then ptt
                             else if info_at p 28 = CHR ''0'' then RIG_PTT_OFF else RIG_PTT_ON)
   }"

definition ptt_command :: "ptt_t \<Rightarrow> string" where
  "ptt_command ptt = (case ptt of RIG_PTT_ON \<Rightarrow> ''TX'' | RIG_PTT_ON_MIC \<Rightarrow> ''TX0'' | RIG_PTT_ON_DATA \<Rightarrow> ''TX1''
     | RIG_PTT_OFF \<Rightarrow> ''RX'')"

definition kenwood_set_ptt :: "'d ken \<Rightarrow> vfo_t \<Rightarrow> ptt_t \<Rightarrow> 'd kenwood_call" where
  "kenwood_set_ptt K vfo ptt = do {
     rc \<leftarrow> kenwood_set K (ptt_command ptt);
     _ \<leftarrow> do_when (ptt = RIG_PTT_OFF) (ken_sleep K (100 * 1000));
     State_Monad.return rc
   }"

definition kenwood_set_ptt_safe :: "'d ken \<Rightarrow> 'd kenwood_ports \<Rightarrow> vfo_t \<Rightarrow> ptt_t \<Rightarrow> 'd kenwood_call" where
  "kenwood_set_ptt_safe K P vfo ptt = do {
     (err, current) \<leftarrow> kenwood_get_ptt K vfo (junk_ptt P);
     if err \<noteq> RIG_OK then State_Monad.return err
     else if current = ptt then State_Monad.return RIG_OK
     else kenwood_set K (if ptt = RIG_PTT_ON then ''TX'' else ''RX'')
   }"

definition kenwood_get_dcd :: "'d ken \<Rightarrow> vfo_t \<Rightarrow> dcd_t \<Rightarrow> ('d kenwood_rig, int \<times> dcd_t) state" where
  "kenwood_get_dcd K vfo dcd = do {
     (rc, buf) \<leftarrow> kenwood_safe_transaction K ''BY'' 10
       (if k_model K \<in> {RIG_MODEL_TS480, RIG_MODEL_TS590S, RIG_MODEL_TS590SG, RIG_MODEL_TS990S, RIG_MODEL_TS2000}
        then 4 else 3);
     let offs = (if k_model K \<in> {RIG_MODEL_TS990S, RIG_MODEL_TS2000} \<and> vfo = RIG_VFO_SUB then 3 else 2);
     State_Monad.return (rc, if rc \<noteq> RIG_OK then dcd
                             else if char_nth buf offs = CHR ''1'' then RIG_DCD_ON else RIG_DCD_OFF)
   }"

subsection \<open>Transceive mode, power, reset\<close>

definition kenwood_set_trn :: "'d ken \<Rightarrow> int \<Rightarrow> 'd kenwood_call" where
  "kenwood_set_trn K trn =
     (if k_model K = RIG_MODEL_POWERSDR then State_Monad.return (- RIG_ENAVAIL)
      else if k_model K = RIG_MODEL_TS990S then kenwood_set K (if trn = RIG_TRN_RIG then ''AI2'' else ''AI0'')
      else if k_model K \<in> {RIG_MODEL_THD7A, RIG_MODEL_THD74}
      then do {
        (rc, _) \<leftarrow> kenwood_transaction K (if trn = RIG_TRN_RIG then ''AI 1'' else ''AI 0'') [] 5;
        State_Monad.return rc
      }
      else kenwood_set K (if trn = RIG_TRN_RIG then ''AI1'' else ''AI0''))"

definition kenwood_get_trn :: "'d ken \<Rightarrow> int \<Rightarrow> ('d kenwood_rig, int \<times> int) state" where
  "kenwood_get_trn K trn =
     (if k_model K \<in> {RIG_MODEL_TS450S, RIG_MODEL_TS690S, RIG_MODEL_TS790, RIG_MODEL_TS850, RIG_MODEL_TS950S,
                      RIG_MODEL_TS950SDX, RIG_MODEL_POWERSDR}
      then State_Monad.return (- RIG_ENAVAIL, trn)
      else do {
        let offs = (if k_model K \<in> {RIG_MODEL_THD74, RIG_MODEL_THD7A} then 3 else 2);
        (rc, buf) \<leftarrow> kenwood_safe_transaction K ''AI'' 6 (offs + 1);
        State_Monad.return (rc, if rc \<noteq> RIG_OK then trn
                                else if char_nth buf offs \<noteq> CHR ''0'' then RIG_TRN_RIG else RIG_TRN_OFF)
      })"

definition kenwood_get_powerstat :: "'d ken \<Rightarrow> int \<Rightarrow> ('d kenwood_rig, int \<times> int) state" where
  "kenwood_get_powerstat K status = do {
     (rc, buf) \<leftarrow> kenwood_safe_transaction K ''PS'' 6 3;
     State_Monad.return (rc, if rc \<noteq> RIG_OK then status
                             else if char_nth buf 2 = CHR ''0'' then RIG_POWER_OFF else RIG_POWER_ON)
   }"

text \<open>Waiting for the radio to wake up; the counter ends at 8, so the test for 9 below it never holds and
  the code of the last attempt is returned.\<close>

fun await_power ::
  "'d ken \<Rightarrow> 'd kenwood_ops \<Rightarrow> 'd kenwood_ports \<Rightarrow> nat \<Rightarrow> int \<Rightarrow> 'd kenwood_call" where
  "await_power K caps P 0 rc = State_Monad.return rc"
| "await_power K caps P (Suc n) rc = do {
     _ \<leftarrow> ken_sleep K 1000000;
     (rc, _) \<leftarrow> rig_get_freq caps P RIG_VFO_A (junk_freq P);
     if rc = RIG_OK then State_Monad.return RIG_OK else await_power K caps P n rc
   }"

definition kenwood_set_powerstat ::
  "'d ken \<Rightarrow> 'd kenwood_ops \<Rightarrow> 'd kenwood_ports \<Rightarrow> int \<Rightarrow> 'd kenwood_call" where
  "kenwood_set_powerstat K caps P status = do {
     rc \<leftarrow> kenwood_set K (if status = RIG_POWER_ON then '';;;;PS1;'' else ''PS0'');
     retry \<leftarrow> gets (\<lambda>rig. k_retry (priv rig));
     _ \<leftarrow> upd_ken (\<lambda>p. p\<lparr>k_retry := 0\<rparr>);
     rc \<leftarrow> await_power K caps P (if status = RIG_POWER_ON then 8 else 0) rc;
     _ \<leftarrow> upd_ken (\<lambda>p. p\<lparr>k_retry := retry\<rparr>);
     State_Monad.return rc
   }"

definition kenwood_reset :: "'d ken \<Rightarrow> int \<Rightarrow> 'd kenwood_call" where
  "kenwood_reset K reset =
     (let rst = (if k_model K = RIG_MODEL_TS990S
                 then if reset = RIG_RESET_SOFT then Some CHR ''4''
                      else if reset = RIG_RESET_VFO then Some CHR ''3''
                      else if reset = RIG_RESET_MCALL then Some CHR ''2''
                      else if reset = RIG_RESET_MASTER then Some CHR ''5'' else None
                 else if reset = RIG_RESET_VFO then Some CHR ''1''
                 else if reset = RIG_RESET_MASTER then Some CHR ''2'' else None)
      in case rst of None \<Rightarrow> State_Monad.return (- RIG_EINVAL) | Some c \<Rightarrow> kenwood_set K (''SR'' @ [c]))"

subsection \<open>Life of the handle\<close>

text \<open>\<^verbatim>\<open>kenwood_init\<close> clears the private data; the port of the handle, its retries and the two power
  settings are fields of the handle that stay.\<close>

definition kenwood_init :: "'d ken \<Rightarrow> 'd kenwood_call" where
  "kenwood_init K = do {
     _ \<leftarrow> upd_ken (\<lambda>p. p\<lparr>info := [], k_split := RIG_SPLIT_OFF, k_tx_vfo := 0, trn_state := - 1, fw_rev_uint := 0,
            verify_cmd := (if k_model K = RIG_MODEL_XG3 then [cmdtrm K] else ''ID'' @ [cmdtrm K]),
            is_emulation := False, curr_mode := 0, cache_start := zero_time, last_if_response := [],
            k_poweron := False, has_rit2 := False, no_id := False, k_modeA := 0, k_modeB := 0,
            datamodeA := False, datamodeB := False, ag_format := - 1, micgain_min := - 1, micgain_max := - 1\<rparr>);
     State_Monad.return RIG_OK
   }"

text \<open>The first part of \<^verbatim>\<open>kenwood_open\<close>: is there a radio, and is it on?\<close>

definition open_power :: "'d ken \<Rightarrow> 'd kenwood_ops \<Rightarrow> ('d kenwood_rig, int \<times> string) state" where
  "open_power K caps = do {
     (err, id0) \<leftarrow> kenwood_get_id K [];
     (err, id0) \<leftarrow> (if err \<noteq> RIG_OK
          then do { _ \<leftarrow> ken_sleep K (200 * 1000); kenwood_get_id K id0 }
          else State_Monad.return (err, id0));
     _ \<leftarrow> (if err = RIG_OK
          then do {
            (rc, status) \<leftarrow> rig_get_powerstat caps 0;
            p \<leftarrow> gets priv;
            _ \<leftarrow> (if rc = RIG_OK \<and> status = 0 \<and> \<not> k_poweron p \<and> k_auto_power_on p
                 then rig_set_powerstat caps 1 else State_Monad.return RIG_OK);
            upd_ken (\<lambda>p. p\<lparr>k_poweron := True\<rparr>)
          }
          else State_Monad.return ());
     p \<leftarrow> gets priv;
     if err = - RIG_ETIMEOUT \<and> k_auto_power_on p
     then do {
       _ \<leftarrow> rig_set_powerstat caps 1;
       kenwood_get_id K id0
     }
     else State_Monad.return (err, id0)
   }"

text \<open>The firmware of a TS-590S. A version without a point ends the function; an error stays in \<^verbatim>\<open>err\<close>.\<close>

definition fw_number :: "string \<Rightarrow> int" where
  "fw_number s = atoi (drop 2 s) * 100 + atoi (tl (dropWhile (\<lambda>c. c \<noteq> CHR ''.'') s))"

definition open_firmware :: "'d ken \<Rightarrow> int \<Rightarrow> ('d kenwood_rig, int + int) state" where
  "open_firmware K err =
     (if k_model K = RIG_MODEL_TS590S
      then do {
        (err, fw) \<leftarrow> kenwood_transaction K ''FV'' [] 7;
        if err \<noteq> RIG_OK
        then do { _ \<leftarrow> upd_ken (\<lambda>p. p\<lparr>fw_rev_uint := 100\<rparr>); State_Monad.return (Inr err) }
        else if CHR ''.'' \<in> set fw
        then do { _ \<leftarrow> upd_ken (\<lambda>p. p\<lparr>fw_rev_uint := fw_number fw\<rparr>); State_Monad.return (Inr RIG_OK) }
        else State_Monad.return (Inl (- RIG_EPROTO))
      }
      else State_Monad.return (Inr err))"

text \<open>The identification that is looked up: an error ends the function, but a radio that times out may
  still answer \<^verbatim>\<open>FA\<close>.\<close>

definition open_identify :: "'d ken \<Rightarrow> int \<Rightarrow> string \<Rightarrow> ('d kenwood_rig, int + string) state" where
  "open_identify K err id0 =
     (if k_model K \<noteq> RIG_MODEL_XG3 \<and> err = - RIG_ETIMEOUT
      then do {
        (err, _) \<leftarrow> kenwood_transaction K ''FA'' [] KENWOOD_MAX_BUF_LEN;
        if err \<noteq> RIG_OK then State_Monad.return (Inl err)
        else do {
          _ \<leftarrow> upd_ken (\<lambda>p. p\<lparr>verify_cmd := ''FA'' @ [cmdtrm K]\<rparr>);
          State_Monad.return (Inr ''ID019'')
        }
      }
      else if err \<noteq> RIG_OK then State_Monad.return (Inl err)
      else State_Monad.return (Inr id0))"

definition emulator_ids :: "string set" where
  "emulator_ids = {''IDID900'', ''ID900'', ''ID904'', ''ID905'', ''ID906'', ''ID907'', ''ID908'', ''ID909''}"

text \<open>The number after \<^verbatim>\<open>ID\<close> and a space.\<close>

definition id_number :: "string \<Rightarrow> string" where
  "id_number s = (let t = drop 2 s in if char_nth t 0 = CHR '' '' then tl t else t)"

text \<open>The driver matches: transceive mode is switched off and the split is asked for; with a radio that does
  not tell it the transmit VFO is whatever the local variable held.\<close>

definition open_matched :: "'d ken \<Rightarrow> ('d kenwood_rig, unit) state" where
  "open_matched K = do {
     p \<leftarrow> gets priv;
     (_, trn) \<leftarrow> kenwood_get_trn K (trn_state p);
     _ \<leftarrow> upd_ken (\<lambda>p. p\<lparr>trn_state := trn\<rparr>);
     _ \<leftarrow> (if trn \<noteq> RIG_TRN_OFF then kenwood_set_trn K RIG_TRN_OFF else State_Monad.return RIG_OK);
     if k_model K \<notin> {RIG_MODEL_THD74, RIG_MODEL_THD7A}
     then do {
       (_, _, tx) \<leftarrow> kenwood_get_split_vfo_if K RIG_VFO_A (RIG_SPLIT_OFF, unset_vfo K);
       upd_ken (\<lambda>p. p\<lparr>k_tx_vfo := tx\<rparr>)
     }
     else State_Monad.return ()
   }"

text \<open>The search through the table: each entry with the number asks for the VFO, the one of this model
  ends it.\<close>

fun open_search ::
  "'d ken \<Rightarrow> 'd kenwood_ops \<Rightarrow> string \<Rightarrow> (nat \<times> string) list \<Rightarrow> ('d kenwood_rig, unit) state" where
  "open_search K caps num [] = State_Monad.return ()"
| "open_search K caps num ((model, n) # list) =
     (if n \<noteq> num then open_search K caps num list
      else do {
        rx \<leftarrow> gets rx_vfo;
        (_, v) \<leftarrow> rig_get_vfo caps rx;
        _ \<leftarrow> modify (\<lambda>rig. rig\<lparr>rx_vfo := v\<rparr>);
        if model = k_model K then open_matched K else open_search K caps num list
      })"

definition kenwood_open_with :: "'d ken \<Rightarrow> 'd kenwood_ops \<Rightarrow> 'd kenwood_call" where
  "kenwood_open_with K caps = do {
     (err, id0) \<leftarrow> open_power K caps;
     _ \<leftarrow> do_when (k_model K \<in> {RIG_MODEL_TS2000, RIG_MODEL_TS480, RIG_MODEL_TS590S, RIG_MODEL_TS590SG,
                                RIG_MODEL_TS890S, RIG_MODEL_TS990S})
         (upd_ken (\<lambda>p. p\<lparr>has_rit2 := True\<rparr>));
     fw \<leftarrow> open_firmware K err;
     case fw of
       Inl rc \<Rightarrow> State_Monad.return rc
     | Inr err \<Rightarrow> do {
         i \<leftarrow> open_identify K err id0;
         case i of
           Inl rc \<Rightarrow> State_Monad.return rc
         | Inr id1 \<Rightarrow> do {
             let id2 = (if length id1 < 5 \<and> k_model K = RIG_MODEL_MALACHITE then ''ID020'' else id1);
             _ \<leftarrow> do_when (id2 \<in> emulator_ids) (upd_ken (\<lambda>p. p\<lparr>is_emulation := True\<rparr>));
             _ \<leftarrow> open_search K caps (id_number (if id2 \<in> emulator_ids then ''ID019'' else id2)) kenwood_id_string_list;
             State_Monad.return RIG_OK
           }
       }
   }"

text \<open>There are no retries while the handle is opened, and every way out sets them again.\<close>

definition kenwood_open :: "'d ken \<Rightarrow> 'd kenwood_ops \<Rightarrow> 'd kenwood_call" where
  "kenwood_open K caps = do {
     retry \<leftarrow> gets (\<lambda>rig. k_retry (priv rig));
     _ \<leftarrow> upd_ken (\<lambda>p. p\<lparr>k_retry := 0\<rparr>);
     rc \<leftarrow> kenwood_open_with K caps;
     _ \<leftarrow> upd_ken (\<lambda>p. p\<lparr>k_retry := retry\<rparr>);
     State_Monad.return rc
   }"

definition kenwood_close :: "'d ken \<Rightarrow> 'd kenwood_ops \<Rightarrow> 'd kenwood_call" where
  "kenwood_close K caps = do {
     p \<leftarrow> gets priv;
     _ \<leftarrow> (if \<not> no_restore_ai K \<and> 0 \<le> trn_state p then kenwood_set_trn K (trn_state p)
          else State_Monad.return RIG_OK);
     p \<leftarrow> gets priv;
     _ \<leftarrow> (if k_poweron p \<and> k_auto_power_off p then rig_set_powerstat caps 0 else State_Monad.return RIG_OK);
     State_Monad.return RIG_OK
   }"

end
