(* ===== verification/Hamlib_Kenwood_Mode.thy ===== *)
theory Hamlib_Kenwood_Mode
  imports Hamlib_Kenwood Hamlib_Ranges
begin

text \<open>
  Modes, filters, incremental tuning and functions of the Kenwood back end
  (\<^verbatim>\<open>rigs/kenwood/kenwood.c\<close>).
\<close>

subsection \<open>Filters\<close>

definition kenwood_set_filter :: "'d ken \<Rightarrow> pbwidth_t \<Rightarrow> 'd kenwood_call" where
  "kenwood_set_filter K width = kenwood_set K
     (if width \<le> 250 then ''FL010009'' else if width \<le> 500 then ''FL009009''
      else if width \<le> 2700 then ''FL007007'' else if width \<le> 6000 then ''FL005005'' else ''FL002002'')"

text \<open>The loop over the table: the first filter of the mode that is wide enough, else the last one.\<close>

fun pick_filter :: "(rmode_t \<times> int \<times> pbwidth_t) list \<Rightarrow> rmode_t \<Rightarrow> pbwidth_t \<Rightarrow> int option \<Rightarrow> int option" where
  "pick_filter [] mode width sel = sel"
| "pick_filter ((modes, v, hz) # list) mode width sel =
     (if modes AND mode = 0 then pick_filter list mode width sel
      else if width \<le> hz then Some v
      else pick_filter list mode width (Some v))"

definition kenwood_set_filter_width :: "'d ken \<Rightarrow> rmode_t \<Rightarrow> pbwidth_t \<Rightarrow> 'd kenwood_call" where
  "kenwood_set_filter_width K mode width =
     (case cap_filter_width K of
        None \<Rightarrow> State_Monad.return (- RIG_ENAVAIL)
      | Some list \<Rightarrow>
          (case pick_filter list mode width None of
             None \<Rightarrow> State_Monad.return (- RIG_EINVAL)
           | Some v \<Rightarrow> kenwood_set K (snprintf 20 (''FW'' @ pad0 4 v))))"

definition filter_hz :: "int \<Rightarrow> pbwidth_t \<Rightarrow> pbwidth_t" where
  "filter_hz f width = (if f = 2 then 12000 else if f = 3 \<or> f = 5 then 6000 else if f = 7 then 2700
     else if f = 9 then 500 else if f = 10 then 250 else width)"

definition kenwood_get_filter :: "'d ken \<Rightarrow> pbwidth_t \<Rightarrow> ('d kenwood_rig, int \<times> pbwidth_t) state" where
  "kenwood_get_filter K width = do {
     (err, buf) \<leftarrow> kenwood_safe_transaction K ''FL'' 10 8;
     let f1 = atoi (drop 2 (take 5 buf));
     let f2 = atoi (drop 5 buf);
     State_Monad.return (err, if err \<noteq> RIG_OK then width else filter_hz (if f1 < f2 then f2 else f1) width)
   }"

text \<open>The filter of a value among those of the mode; values from 50 on are widths.\<close>

definition width_of_filter :: "(rmode_t \<times> int \<times> pbwidth_t) list \<Rightarrow> rmode_t \<Rightarrow> int \<Rightarrow> pbwidth_t option" where
  "width_of_filter list mode v =
     (case List.find (\<lambda>(modes, w, hz). modes AND mode \<noteq> 0 \<and> w = v) list of
        Some (_, _, hz) \<Rightarrow> Some hz
      | None \<Rightarrow> if 50 \<le> v then Some v else None)"

definition kenwood_get_filter_width ::
  "'d ken \<Rightarrow> rmode_t \<Rightarrow> pbwidth_t \<Rightarrow> ('d kenwood_rig, int \<times> pbwidth_t) state" where
  "kenwood_get_filter_width K mode width =
     (case cap_filter_width K of
        None \<Rightarrow> State_Monad.return (- RIG_ENAVAIL, width)
      | Some list \<Rightarrow> do {
          (rc, buf) \<leftarrow> kenwood_safe_transaction K ''FW'' 20 6;
          let v = (case scan_int (drop 2 buf) of None \<Rightarrow> unset_int K | Some (i, _) \<Rightarrow> i);
          State_Monad.return
            (if rc \<noteq> RIG_OK then (rc, width)
             else case width_of_filter list mode v of None \<Rightarrow> (- RIG_EINVAL, width) | Some hz \<Rightarrow> (RIG_OK, hz))
        })"

subsection \<open>Setting the mode\<close>

definition data_models :: "nat set" where
  "data_models = {RIG_MODEL_TS590S, RIG_MODEL_TS590SG, RIG_MODEL_TS950S, RIG_MODEL_TS950SDX}"

definition filter_models :: "nat set" where
  "filter_models = {RIG_MODEL_TS450S, RIG_MODEL_TS690S, RIG_MODEL_TS850, RIG_MODEL_TS950S, RIG_MODEL_TS950SDX}"

text \<open>The data sub-mode, and the mode below it.\<close>

definition data_submode :: "rmode_t \<Rightarrow> bool \<times> rmode_t" where
  "data_submode mode =
     (if mode = RIG_MODE_PKTUSB then (True, RIG_MODE_USB)
      else if mode = RIG_MODE_PKTLSB then (True, RIG_MODE_LSB)
      else if mode = RIG_MODE_PKTFM then (True, RIG_MODE_FM)
      else (False, mode))"

definition emulated_mode :: "rmode_t \<Rightarrow> rmode_t" where
  "emulated_mode mode =
     (if mode = RIG_MODE_PKTLSB then RIG_MODE_RTTY else if mode = RIG_MODE_PKTUSB then RIG_MODE_RTTYR else mode)"

text \<open>Whether the sub-mode has to be set on the VFO.\<close>

definition needs_data :: "'d kenwood_priv_data \<Rightarrow> vfo_t \<Rightarrow> bool \<Rightarrow> bool" where
  "needs_data p vfo data \<longleftrightarrow> vfo AND (RIG_VFO_A OR RIG_VFO_MAIN) \<noteq> 0 \<and> datamodeA p \<noteq> data
     \<or> vfo AND (RIG_VFO_B OR RIG_VFO_SUB) \<noteq> 0 \<and> datamodeB p \<noteq> data"

text \<open>A TS-990S sets the mode of the operating VFO only: that VFO is changed for the command.\<close>

definition set_mode_ts990 :: "'d ken \<Rightarrow> vfo_t \<Rightarrow> char \<Rightarrow> 'd kenwood_call" where
  "set_mode_ts990 K vfo c = do {
     (rc, curr) \<leftarrow> kenwood_get_vfo_main_sub K (unset_vfo K);
     let away = (vfo \<noteq> RIG_VFO_CURR \<and> vfo \<noteq> curr);
     if rc \<noteq> RIG_OK then State_Monad.return rc
     else do {
       rc \<leftarrow> (if away then kenwood_set_vfo_main_sub K vfo else State_Monad.return RIG_OK);
       if rc \<noteq> RIG_OK then State_Monad.return rc
       else do {
         err \<leftarrow> kenwood_set K (''OM0'' @ [c]);
         if err = RIG_OK \<and> away then kenwood_set_vfo_main_sub K curr else State_Monad.return err
       }
     }
   }"

text \<open>The other models ask the front end for the current mode. The C code lets it write into \<^verbatim>\<open>curr_mode\<close>
  directly; here the result is stored when the call is over.\<close>

definition note_curr_mode ::
  "'d ken \<Rightarrow> 'd kenwood_ops \<Rightarrow> 'd kenwood_ports \<Rightarrow> vfo_t \<Rightarrow> 'd kenwood_call" where
  "note_curr_mode K caps P vfo = do {
     m \<leftarrow> gets (\<lambda>rig. curr_mode (priv rig));
     (rc, mode, _) \<leftarrow> rig_get_mode caps P vfo (m, unset_int K);
     _ \<leftarrow> upd_ken (\<lambda>p. p\<lparr>curr_mode := mode\<rparr>);
     State_Monad.return rc
   }"

text \<open>The filter for the mode; its errors are ignored.\<close>

definition set_mode_filter :: "'d ken \<Rightarrow> rmode_t \<Rightarrow> pbwidth_t \<Rightarrow> 'd kenwood_call" where
  "set_mode_filter K mode width = do {
     rig \<leftarrow> gets id;
     _ \<leftarrow> (if width = RIG_PASSBAND_NOCHANGE then State_Monad.return RIG_OK
          else if k_model K \<in> filter_models
          then kenwood_set_filter K (if width = RIG_PASSBAND_NORMAL then rig_passband_normal rig mode else width)
          else if k_model K = RIG_MODEL_TS480 then kenwood_set_filter_width K mode width
          else State_Monad.return RIG_OK);
     State_Monad.return RIG_OK
   }"

text \<open>The code of the command \<^verbatim>\<open>MD\<close> is overwritten or not looked at.\<close>

definition kenwood_set_mode ::
  "'d ken \<Rightarrow> 'd kenwood_ops \<Rightarrow> 'd kenwood_ports \<Rightarrow> vfo_t \<Rightarrow> rmode_t \<times> pbwidth_t \<Rightarrow> 'd kenwood_call" where
  "kenwood_set_mode K caps P vfo arg = do {
     p \<leftarrow> gets priv;
     let (mode0, width) = arg;
     let (data, mode1) = (if k_model K \<in> data_models then data_submode mode0 else (False, mode0));
     let mode = (if is_emulation p \<or> k_model K = RIG_MODEL_HPSDR then emulated_mode mode1 else mode1);
     let kmode = rmode2kenwood mode (mode_table K);
     if k_split p \<noteq> RIG_SPLIT_OFF \<and> k_tx_vfo p AND (RIG_VFO_B OR RIG_VFO_SUB OR RIG_VFO_SUB_A) \<noteq> 0
        \<and> k_modeB p = mode0
     then State_Monad.return RIG_OK
     else if kmode < 0 then State_Monad.return (- RIG_EINVAL)
     else do {
       let c = kmode_char kmode;
       err \<leftarrow> (if k_model K = RIG_MODEL_TS990S then set_mode_ts990 K vfo c else note_curr_mode K caps P vfo);
       if err \<noteq> RIG_OK then State_Monad.return err
       else do {
         p \<leftarrow> gets priv;
         _ \<leftarrow> (if curr_mode p \<noteq> mode then kenwood_set K (''MD'' @ [c]) else State_Monad.return RIG_OK);
         rig \<leftarrow> gets id;
         let on = (if vfo = RIG_VFO_CURR then current_vfo rig else vfo);
         err \<leftarrow> (if needs_data (priv rig) on data
              then kenwood_set K ((if data \<and> k_model K \<in> {RIG_MODEL_TS950S, RIG_MODEL_TS950SDX} then ''DT'' else ''DA'')
                     @ (if data then ''1'' else ''0''))
              else State_Monad.return RIG_OK);
         if err \<noteq> RIG_OK then State_Monad.return err else set_mode_filter K mode width
       }
     }
   }"

subsection \<open>Reading the mode\<close>

text \<open>The character of the VFO in commands of the TS-990S; an error code on the left.\<close>

definition side_char :: "'d ken \<Rightarrow> vfo_t \<Rightarrow> ('d kenwood_rig, int + vfo_t \<times> char) state" where
  "side_char K vfo = do {
     (rc, v) \<leftarrow> (if vfo = RIG_VFO_CURR \<or> vfo = RIG_VFO_VFO then kenwood_get_vfo_main_sub K vfo
                 else State_Monad.return (RIG_OK, vfo));
     State_Monad.return
       (if rc \<noteq> RIG_OK then Inl rc
        else if v = RIG_VFO_MAIN then Inr (v, CHR ''0'')
        else if v = RIG_VFO_SUB then Inr (v, CHR ''1'')
        else Inl (- RIG_EINVAL))
   }"

text \<open>The command that reads the mode, and the VFO it is for.\<close>

definition mode_query :: "'d ken \<Rightarrow> vfo_t \<Rightarrow> ('d kenwood_rig, int + vfo_t \<times> string) state" where
  "mode_query K vfo =
     (if k_model K = RIG_MODEL_TS990S
      then do {
        s \<leftarrow> side_char K vfo;
        State_Monad.return (case s of Inl rc \<Rightarrow> Inl rc | Inr (v, c) \<Rightarrow> Inr (v, ''OM'' @ [c]))
      }
      else State_Monad.return (Inr (vfo, if vfo = RIG_VFO_B \<and> k_model K = RIG_MODEL_K4 then ''MD$'' else ''MD'')))"

definition data_mode_of :: "rmode_t \<Rightarrow> rmode_t" where
  "data_mode_of mode =
     (if mode = RIG_MODE_USB then RIG_MODE_PKTUSB else if mode = RIG_MODE_LSB then RIG_MODE_PKTLSB
      else if mode = RIG_MODE_FM then RIG_MODE_PKTFM else if mode = RIG_MODE_AM then RIG_MODE_PKTAM else mode)"

definition hijacked_mode :: "rmode_t \<Rightarrow> rmode_t" where
  "hijacked_mode mode =
     (if mode = RIG_MODE_RTTY then RIG_MODE_PKTLSB else if mode = RIG_MODE_RTTYR then RIG_MODE_PKTUSB else mode)"

text \<open>The data sub-mode of the models that have it.\<close>

definition read_submode :: "'d ken \<Rightarrow> vfo_t \<Rightarrow> rmode_t \<Rightarrow> ('d kenwood_rig, int \<times> rmode_t) state" where
  "read_submode K vfo mode =
     (if k_model K \<in> data_models
      then do {
        (rc, buf) \<leftarrow> kenwood_safe_transaction K ''DA'' 6 3;
        let data = (char_nth buf 2 = CHR ''1'');
        if rc \<noteq> RIG_OK then State_Monad.return (rc, mode)
        else do {
          _ \<leftarrow> upd_ken (\<lambda>p. if vfo = RIG_VFO_A then p\<lparr>datamodeA := data\<rparr> else p\<lparr>datamodeB := data\<rparr>);
          State_Monad.return (RIG_OK, if data then data_mode_of mode else mode)
        }
      }
      else State_Monad.return (RIG_OK, mode))"

text \<open>The passband: read on a TS-480, the normal one elsewhere and when reading fails.\<close>

definition read_passband :: "'d ken \<Rightarrow> rmode_t \<Rightarrow> pbwidth_t \<Rightarrow> ('d kenwood_rig, pbwidth_t) state" where
  "read_passband K mode width = do {
     (rc, w) \<leftarrow> (if k_model K = RIG_MODEL_TS480 then kenwood_get_filter_width K mode width
                 else State_Monad.return (- RIG_ENAVAIL, width));
     rig \<leftarrow> gets id;
     State_Monad.return (if rc = RIG_OK then w else rig_passband_normal rig mode)
   }"

definition kenwood_get_mode ::
  "'d ken \<Rightarrow> vfo_t \<Rightarrow> rmode_t \<times> pbwidth_t \<Rightarrow> ('d kenwood_rig, int \<times> rmode_t \<times> pbwidth_t) state" where
  "kenwood_get_mode K vfo0 out = do {
     p \<leftarrow> gets priv;
     if 0 < curr_mode p \<and> is_emulation p \<and> vfo0 = RIG_VFO_B
     then do {
       _ \<leftarrow> modify (\<lambda>rig. rig\<lparr>current_vfo := RIG_VFO_A\<rparr>);
       State_Monad.return (RIG_OK, out)
     }
     else do {
       q \<leftarrow> mode_query K vfo0;
       case q of
         Inl rc \<Rightarrow> State_Monad.return (rc, out)
       | Inr (vfo, cmd) \<Rightarrow> do {
           let offs = length cmd;
           (rc, buf) \<leftarrow> kenwood_safe_transaction K cmd 6 (offs + 1);
           if rc \<noteq> RIG_OK then State_Monad.return (rc, out)
           else do {
             let mode = kenwood2rmode (word_of_int (char_kmode (char_nth buf offs))) (mode_table K);
             (rc, mode) \<leftarrow> read_submode K vfo
                (if is_emulation p \<or> k_model K = RIG_MODEL_HPSDR then hijacked_mode mode else mode);
             if rc \<noteq> RIG_OK then State_Monad.return (rc, mode, snd out)
             else do {
               width \<leftarrow> read_passband K mode (snd out);
               _ \<leftarrow> upd_ken (\<lambda>p. if vfo = RIG_VFO_A then p\<lparr>k_modeA := mode\<rparr> else p\<lparr>k_modeB := mode\<rparr>);
               State_Monad.return (RIG_OK, mode, width)
             }
           }
         }
     }
   }"

definition kenwood_get_mode_if ::
  "'d ken \<Rightarrow> vfo_t \<Rightarrow> rmode_t \<times> pbwidth_t \<Rightarrow> ('d kenwood_rig, int \<times> rmode_t \<times> pbwidth_t) state" where
  "kenwood_get_mode_if K vfo out = do {
     err \<leftarrow> kenwood_get_if K;
     rig \<leftarrow> gets id;
     let mode = kenwood2rmode (octet_of (info_at (priv rig) 29) - 48) (mode_table K);
     let width = rig_passband_normal rig mode;
     if err \<noteq> RIG_OK then State_Monad.return (err, out)
     else if k_model K \<in> filter_models
     then do {
       (_, w) \<leftarrow> kenwood_get_filter K width;
       State_Monad.return (RIG_OK, mode, w)
     }
     else State_Monad.return (RIG_OK, mode, width)
   }"

end
