(* ===== verification/Hamlib_Kenwood_Func.thy ===== *)
theory Hamlib_Kenwood_Func
  imports Hamlib_Kenwood_Mode
begin

text \<open>
  Functions, incremental tuning, tones, antennas, operations, memories, keyer and powers of the Kenwood back end
  (\<^verbatim>\<open>rigs/kenwood/kenwood.c\<close>).
\<close>

subsection \<open>Functions\<close>

text \<open>The command that sets a function; \<open>None\<close>: not supported.\<close>

definition onoff :: "int \<Rightarrow> string" where
  "onoff status = (if status = 0 then ''0'' else ''1'')"

definition func_command :: "'d ken \<Rightarrow> setting_t \<Rightarrow> int \<Rightarrow> string option" where
  "func_command K func status =
     (let ts890 = (k_model K = RIG_MODEL_TS890S) in
      if func = RIG_FUNC_NB then Some ((if ts890 then ''NB1'' else ''NB'') @ onoff status)
      else if func = RIG_FUNC_NB2 then Some ((if ts890 then ''NB2'' else ''NB'') @ onoff status)
      else if func = RIG_FUNC_ABM then Some (''AM'' @ onoff status)
      else if func = RIG_FUNC_COMP then Some ((if ts890 then ''PR0'' else ''PR'') @ onoff status)
      else if func = RIG_FUNC_TONE then Some (''TO'' @ onoff status)
      else if func = RIG_FUNC_TSQL then Some (''CT'' @ onoff status)
      else if func = RIG_FUNC_VOX then Some (''VX'' @ onoff status)
      else if func = RIG_FUNC_FAGC then Some (''GT00'' @ (if status = 0 then ''4'' else ''2''))
      else if func = RIG_FUNC_NR then Some (''NR'' @ (if ts890 \<and> status = 2 then ''2'' else onoff status))
      else if func = RIG_FUNC_BC then Some (''BC'' @ onoff status)
      else if func = RIG_FUNC_BC2 then Some (''BC'' @ (if status = 0 then ''0'' else ''2''))
      else if func = RIG_FUNC_ANF then Some (''NT'' @ onoff status)
      else if func = RIG_FUNC_LOCK then Some (''LK'' @ onoff status)
      else if func = RIG_FUNC_AIP then Some (''MX'' @ onoff status)
      else if func = RIG_FUNC_RIT then Some (''RT'' @ onoff status)
      else if func = RIG_FUNC_XIT then Some (''XT'' @ onoff status)
      else if func = RIG_FUNC_TUNER then Some (''AC1'' @ onoff status @ ''0'')
      else if func = RIG_FUNC_FBKIN then Some (''SD'' @ pad0 4 (if status = 1 then 0 else 50))
      else None)"

definition kenwood_set_func :: "'d ken \<Rightarrow> vfo_t \<Rightarrow> setting_t \<times> int \<Rightarrow> 'd kenwood_call" where
  "kenwood_set_func K vfo arg =
     (case func_command K (fst arg) (snd arg) of
        None \<Rightarrow> State_Monad.return (- RIG_EINVAL)
      | Some cmd \<Rightarrow> kenwood_set K cmd)"

definition get_kenwood_func :: "'d ken \<Rightarrow> string \<Rightarrow> int \<Rightarrow> ('d kenwood_rig, int \<times> int) state" where
  "get_kenwood_func K cmd status = do {
     let offset = (if length cmd = 3 then 3 else 2);
     (rc, buf) \<leftarrow> kenwood_safe_transaction K cmd 10 (offset + 1);
     State_Monad.return (rc, if rc \<noteq> RIG_OK then status else sint (octet_of (char_nth buf offset)) - 48)
   }"

text \<open>The functions read by a command of one digit.\<close>

definition func_query :: "'d ken \<Rightarrow> setting_t \<Rightarrow> string option" where
  "func_query K func =
     (if func = RIG_FUNC_NB then Some (if k_model K = RIG_MODEL_TS890S then ''NB1'' else ''NB'')
      else if func = RIG_FUNC_NB2 then Some ''NB2''
      else if func = RIG_FUNC_ABM then Some ''AM''
      else if func = RIG_FUNC_COMP then Some ''PR''
      else if func = RIG_FUNC_TONE then Some ''TO''
      else if func = RIG_FUNC_TSQL then Some ''CT''
      else if func = RIG_FUNC_VOX then Some ''VX''
      else if func = RIG_FUNC_NR then Some ''NR''
      else if func = RIG_FUNC_ANF then Some ''NT''
      else if func = RIG_FUNC_LOCK then Some ''LK''
      else if func = RIG_FUNC_AIP then Some ''MX''
      else if func = RIG_FUNC_RIT then Some ''RT''
      else if func = RIG_FUNC_XIT then Some ''XT''
      else None)"

definition kenwood_get_func :: "'d ken \<Rightarrow> setting_t \<Rightarrow> vfo_t \<Rightarrow> int \<Rightarrow> ('d kenwood_rig, int \<times> int) state" where
  "kenwood_get_func K func vfo status =
     (case func_query K func of
        Some cmd \<Rightarrow> get_kenwood_func K cmd status
      | None \<Rightarrow>
        if func = RIG_FUNC_BC \<or> func = RIG_FUNC_BC2
        then do {
          (rc, raw) \<leftarrow> get_kenwood_func K ''BC'' (unset_int K);
          State_Monad.return (rc, if rc \<noteq> RIG_OK then status
                                  else if raw = (if func = RIG_FUNC_BC then 1 else 2) then 1 else 0)
        }
        else if func = RIG_FUNC_FAGC
        then do {
          (rc, buf) \<leftarrow> kenwood_safe_transaction K ''GT'' 20 5;
          State_Monad.return (rc, if rc \<noteq> RIG_OK then status else if char_nth buf 4 \<noteq> CHR ''4'' then 1 else 0)
        }
        else if func = RIG_FUNC_TUNER
        then do {
          (rc, buf) \<leftarrow> kenwood_safe_transaction K ''AC'' 20 5;
          State_Monad.return (rc, if rc \<noteq> RIG_OK then status else if char_nth buf 3 \<noteq> CHR ''0'' then 1 else 0)
        }
        else if func = RIG_FUNC_FBKIN
        then do {
          (rc, buf) \<leftarrow> kenwood_safe_transaction K ''SD'' 20 6;
          let raw = (case scan_int (drop 2 buf) of None \<Rightarrow> unset_int K | Some (i, _) \<Rightarrow> i);
          State_Monad.return (rc, if rc \<noteq> RIG_OK then status else if raw = 0 then 1 else 0)
        }
        else State_Monad.return (- RIG_EINVAL, status))"

subsection \<open>Incremental tuning\<close>

definition kenwood_get_rit :: "'d ken \<Rightarrow> vfo_t \<Rightarrow> shortfreq_t \<Rightarrow> ('d kenwood_rig, int \<times> shortfreq_t) state" where
  "kenwood_get_rit K vfo rit = do {
     rc \<leftarrow> kenwood_get_if K;
     s \<leftarrow> gets (\<lambda>rig. info (priv rig));
     State_Monad.return (rc, if rc \<noteq> RIG_OK then rit else atoi (take 6 (drop 17 s)))
   }"

text \<open>Switching one of the two on when neither is.\<close>

definition enable_rit :: "'d ken \<Rightarrow> vfo_t \<Rightarrow> 'd kenwood_call" where
  "enable_rit K vfo = do {
     (rc, on) \<leftarrow> kenwood_get_func K RIG_FUNC_RIT vfo (unset_int K);
     if rc \<noteq> RIG_OK then State_Monad.return rc
     else if on \<noteq> 0 then State_Monad.return RIG_OK
     else do {
       (rc, xit) \<leftarrow> kenwood_get_func K RIG_FUNC_XIT vfo (unset_int K);
       if rc \<noteq> RIG_OK then State_Monad.return rc
       else if xit \<noteq> 0 then State_Monad.return RIG_OK
       else kenwood_set_func K vfo (RIG_FUNC_RIT, 1)
     }
   }"

text \<open>The number of steps of 10 Hz, as the expression is written: the conditional takes the whole sum, so that 5
  or -5 is divided by ten.\<close>

definition rit_steps :: "shortfreq_t \<Rightarrow> shortfreq_t \<Rightarrow> int" where
  "rit_steps cur rit = \<bar>c_trunc (of_int (if 0 \<le> (cur - rit) + (cur - rit) then 5 else - 5) / 10)\<bar>"

fun repeat_command :: "'d ken \<Rightarrow> string \<Rightarrow> nat \<Rightarrow> int \<Rightarrow> 'd kenwood_call" where
  "repeat_command K cmd 0 rc = State_Monad.return rc"
| "repeat_command K cmd (Suc n) rc = do { rc' \<leftarrow> kenwood_set K cmd; repeat_command K cmd n rc' }"

definition kenwood_set_rit :: "'d ken \<Rightarrow> vfo_t \<Rightarrow> shortfreq_t \<Rightarrow> 'd kenwood_call" where
  "kenwood_set_rit K vfo rit = do {
     rc \<leftarrow> enable_rit K vfo;
     if rc \<noteq> RIG_OK then State_Monad.return rc
     else do {
       (rc, cur) \<leftarrow> kenwood_get_rit K RIG_VFO_CURR (unset_int K);
       p \<leftarrow> gets priv;
       if rc \<noteq> RIG_OK then State_Monad.return rc
       else if rit = 0 \<and> cur = 0 then State_Monad.return RIG_OK
       else if has_rit2 p
       then kenwood_set K (snprintf 32 ((if 0 < rit - cur then ''RU'' else ''RD'') @ pad0 5 \<bar>rit - cur\<bar>))
       else repeat_command K (if 0 < rit then ''RU'' else ''RD'') (nat (rit_steps cur rit)) rc
     }
   }"

definition kenwood_get_xit :: "'d ken \<Rightarrow> vfo_t \<Rightarrow> shortfreq_t \<Rightarrow> ('d kenwood_rig, int \<times> shortfreq_t) state" where
  "kenwood_get_xit K vfo rit = kenwood_get_rit K vfo rit"

definition kenwood_set_xit :: "'d ken \<Rightarrow> vfo_t \<Rightarrow> shortfreq_t \<Rightarrow> 'd kenwood_call" where
  "kenwood_set_xit K vfo rit = kenwood_set_rit K vfo rit"

subsection \<open>Tones\<close>

text \<open>The place of a tone in the list of the model, from 0; the loop also ends, with success, at the end mark
  when the tone is 0.\<close>

definition tone_place :: "nat list \<Rightarrow> nat \<Rightarrow> int option" where
  "tone_place list tone =
     (let i = length (takeWhile (\<lambda>t. t \<noteq> tone) list)
      in if i < length list \<or> tone = 0 then Some (int i) else None)"

text \<open>The tone of a number in a reply, from 1.\<close>

definition tone_of_index :: "nat list \<Rightarrow> int \<Rightarrow> nat \<Rightarrow> int \<times> nat" where
  "tone_of_index list i tone =
     (if i = 0 \<or> i < 0 \<or> int (length list) < i then (- RIG_EPROTO, tone) else (RIG_OK, list ! nat (i - 1)))"

definition kenwood_set_ctcss_tone :: "'d ken \<Rightarrow> vfo_t \<Rightarrow> nat \<Rightarrow> 'd kenwood_call" where
  "kenwood_set_ctcss_tone K vfo tone =
     (case tone_place (cap_ctcss_list K) tone of
        None \<Rightarrow> State_Monad.return (- RIG_EINVAL)
      | Some i \<Rightarrow> kenwood_set K (snprintf 16 (''EX'' @ pad0 3 57 @ pad0 4 (i + 1))))"

text \<open>\<^verbatim>\<open>kenwood_set_ctcss_tone_tn\<close> and \<^verbatim>\<open>kenwood_set_ctcss_sql\<close> are the same but for the command.\<close>

definition set_tone_by :: "'d ken \<Rightarrow> string \<Rightarrow> vfo_t \<Rightarrow> nat \<Rightarrow> 'd kenwood_call" where
  "set_tone_by K cmd vfo tone =
     (case tone_place (cap_ctcss_list K) tone of
        None \<Rightarrow> State_Monad.return (- RIG_EINVAL)
      | Some i \<Rightarrow>
          if k_model K = RIG_MODEL_TS990S
          then do {
            s \<leftarrow> side_char K vfo;
            case s of
              Inl rc \<Rightarrow> State_Monad.return rc
            | Inr (_, c) \<Rightarrow> kenwood_set K (snprintf 16 (cmd @ [c] @ pad0 2 (i + 1)))
          }
          else kenwood_set K (snprintf 16 (cmd @ pad0 2 (i + 1))))"

definition kenwood_set_ctcss_tone_tn :: "'d ken \<Rightarrow> vfo_t \<Rightarrow> nat \<Rightarrow> 'd kenwood_call" where
  "kenwood_set_ctcss_tone_tn K vfo tone = set_tone_by K ''TN'' vfo tone"

definition kenwood_set_ctcss_sql :: "'d ken \<Rightarrow> vfo_t \<Rightarrow> nat \<Rightarrow> 'd kenwood_call" where
  "kenwood_set_ctcss_sql K vfo tone = set_tone_by K ''CN'' vfo tone"

definition kenwood_get_ctcss_tone :: "'d ken \<Rightarrow> vfo_t \<Rightarrow> nat \<Rightarrow> ('d kenwood_rig, int \<times> nat) state" where
  "kenwood_get_ctcss_tone K vfo tone =
     (if k_model K = RIG_MODEL_TS990S
      then do {
        s \<leftarrow> side_char K vfo;
        case s of
          Inl rc \<Rightarrow> State_Monad.return (rc, tone)
        | Inr (_, c) \<Rightarrow> do {
            (rc, buf) \<leftarrow> kenwood_safe_transaction K (''TN'' @ [c]) 6 5;
            State_Monad.return (if rc \<noteq> RIG_OK then (rc, tone)
              else tone_of_index (cap_ctcss_list K) (atoi (take 2 (drop 3 buf))) tone)
          }
      }
      else do {
        rc \<leftarrow> kenwood_get_if K;
        s \<leftarrow> gets (\<lambda>rig. info (priv rig));
        State_Monad.return (if rc \<noteq> RIG_OK then (rc, tone)
          else tone_of_index (cap_ctcss_list K) (atoi (take 2 (drop 34 s))) tone)
      })"

text \<open>Models other than the TS-990S are asked with \<^verbatim>\<open>CT\<close>, which is the switch of the squelch.\<close>

definition kenwood_get_ctcss_sql :: "'d ken \<Rightarrow> vfo_t \<Rightarrow> nat \<Rightarrow> ('d kenwood_rig, int \<times> nat) state" where
  "kenwood_get_ctcss_sql K vfo tone = do {
     s \<leftarrow> (if k_model K = RIG_MODEL_TS990S then side_char K vfo else State_Monad.return (Inr (vfo, NUL)));
     case s of
       Inl rc \<Rightarrow> State_Monad.return (rc, tone)
     | Inr (_, c) \<Rightarrow> do {
         let cmd = (if k_model K = RIG_MODEL_TS990S then ''CN'' @ [c] else ''CT'');
         (rc, buf) \<leftarrow> kenwood_safe_transaction K cmd 6 (length cmd + 2);
         State_Monad.return (if rc \<noteq> RIG_OK then (rc, tone)
           else tone_of_index (cap_ctcss_list K) (atoi (drop (length cmd) buf)) tone)
       }
   }"

subsection \<open>Antennas, scanning, operations\<close>

definition ant_char :: "ant_t \<Rightarrow> char option" where
  "ant_char ant = (if ant = FLAG32 0 then Some CHR ''1'' else if ant = FLAG32 1 then Some CHR ''2''
     else if ant = FLAG32 2 then Some CHR ''3'' else if ant = FLAG32 3 then Some CHR ''4'' else None)"

definition kenwood_set_ant :: "'d ken \<Rightarrow> vfo_t \<Rightarrow> ant_t \<times> value_t \<Rightarrow> 'd kenwood_call" where
  "kenwood_set_ant K vfo arg =
     (case ant_char (fst arg) of
        None \<Rightarrow> State_Monad.return (- RIG_EINVAL)
      | Some a \<Rightarrow>
          if k_model K = RIG_MODEL_TS990S
          then do {
            s \<leftarrow> side_char K vfo;
            case s of
              Inl rc \<Rightarrow> State_Monad.return rc
            | Inr (_, c) \<Rightarrow> kenwood_set K (''AN0'' @ [c, a] @ ''99'')
          }
          else kenwood_set K (''AN'' @ [a]))"

definition kenwood_set_ant_no_ack :: "'d ken \<Rightarrow> vfo_t \<Rightarrow> ant_t \<times> value_t \<Rightarrow> 'd kenwood_call" where
  "kenwood_set_ant_no_ack K vfo arg =
     (case ant_char (fst arg) of
        None \<Rightarrow> State_Monad.return (- RIG_EINVAL)
      | Some a \<Rightarrow> kenwood_set K (''AN'' @ [a]))"

definition kenwood_get_ant :: "'d ken \<Rightarrow> ant_t \<Rightarrow> vfo_t \<Rightarrow> value_t \<times> ant_t \<times> ant_t \<times> ant_t
    \<Rightarrow> ('d kenwood_rig, int \<times> value_t \<times> ant_t \<times> ant_t \<times> ant_t) state" where
  "kenwood_get_ant K dummy vfo out = (case out of (option, _, tx, rx) \<Rightarrow> do {
     let cmd = (if k_model K = RIG_MODEL_TS990S then ''AN0'' else ''AN'');
     let offs = (if k_model K = RIG_MODEL_TS990S then 4 else 2);
     (rc, buf) \<leftarrow> kenwood_safe_transaction K cmd 8 (if k_model K = RIG_MODEL_TS990S then 7 else 3);
     let i = sint (octet_of (char_nth buf offs)) - 49;
     State_Monad.return
       (if rc \<noteq> RIG_OK then (rc, out)
        else if i < 0 \<or> 8 < i then (- RIG_EPROTO, out)
        else (RIG_OK, option, FLAG32 (nat i), tx, rx))
   })"

definition kenwood_scan :: "'d ken \<Rightarrow> vfo_t \<Rightarrow> u32 \<times> int \<Rightarrow> 'd kenwood_call" where
  "kenwood_scan K vfo arg = kenwood_set K
     ((if k_model K = RIG_MODEL_TS990S then ''SC0'' else ''SC'') @ (if fst arg = RIG_SCAN_STOP then ''0'' else ''1''))"

definition kenwood_vfo_op :: "'d ken \<Rightarrow> vfo_t \<Rightarrow> u32 \<Rightarrow> 'd kenwood_call" where
  "kenwood_vfo_op K vfo op =
     (if op = RIG_OP_UP then kenwood_set K ''UP''
      else if op = RIG_OP_DOWN then kenwood_set K ''DN''
      else if op = RIG_OP_BAND_UP then kenwood_set K ''BU''
      else if op = RIG_OP_BAND_DOWN then kenwood_set K ''BD''
      else if op = RIG_OP_TUNE then kenwood_set K ''AC111''
      else if op = RIG_OP_CPY then kenwood_set K ''VV''
      else State_Monad.return (- RIG_EINVAL))"

end
