(* ===== verification/Hamlib_Kenwood_Mem.thy ===== *)
theory Hamlib_Kenwood_Mem
  imports Hamlib_Kenwood_Func
begin

text \<open>
  Memories, the keyer, extra parameters and powers of the Kenwood back end
  (\<^verbatim>\<open>rigs/kenwood/kenwood.c\<close>).
\<close>

subsection \<open>Memories\<close>

definition kenwood_set_mem :: "'d ken \<Rightarrow> vfo_t \<Rightarrow> int \<Rightarrow> 'd kenwood_call" where
  "kenwood_set_mem K vfo ch =
     (if k_model K = RIG_MODEL_TS990S
      then do {
        s \<leftarrow> side_char K vfo;
        case s of
          Inl rc \<Rightarrow> State_Monad.return rc
        | Inr (_, c) \<Rightarrow> kenwood_set K (snprintf 7 (''MN'' @ [c] @ pad0 3 ch))
      }
      else kenwood_set K (snprintf 7 (''MC '' @ pad0 2 ch)))"

definition kenwood_get_mem :: "'d ken \<Rightarrow> vfo_t \<Rightarrow> int \<Rightarrow> ('d kenwood_rig, int \<times> int) state" where
  "kenwood_get_mem K vfo ch = do {
     s \<leftarrow> (if k_model K = RIG_MODEL_TS990S then side_char K vfo else State_Monad.return (Inr (vfo, NUL)));
     case s of
       Inl rc \<Rightarrow> State_Monad.return (rc, ch)
     | Inr (_, c) \<Rightarrow> do {
         let cmd = (if k_model K = RIG_MODEL_TS990S then ''MN'' @ [c] else ''MC'');
         (rc, buf) \<leftarrow> kenwood_safe_transaction K cmd 10 (3 + length cmd);
         State_Monad.return (rc, if rc \<noteq> RIG_OK then ch else atoi (drop (length cmd) buf))
       }
   }"

definition kenwood_get_mem_if :: "'d ken \<Rightarrow> vfo_t \<Rightarrow> int \<Rightarrow> ('d kenwood_rig, int \<times> int) state" where
  "kenwood_get_mem_if K vfo ch = do {
     rc \<leftarrow> kenwood_get_if K;
     s \<leftarrow> gets (\<lambda>rig. info (priv rig));
     State_Monad.return (rc, if rc \<noteq> RIG_OK then ch else atoi (take 2 (drop 26 s)))
   }"

text \<open>The fields of \<^verbatim>\<open>channel_t\<close> that the back end uses; the others are cleared.\<close>

record mem_channel =
  mc_num :: int
  mc_bank :: int
  mc_vfo :: vfo_t
  mc_freq :: freq_t
  mc_mode :: rmode_t
  mc_tx_freq :: freq_t
  mc_tx_mode :: rmode_t
  mc_split :: split_t
  mc_flags :: u32
  mc_ctcss :: nat

definition RIG_CHFLAG_SKIP :: u32 where "RIG_CHFLAG_SKIP = FLAG32 0"

definition no_channel :: mem_channel where
  "no_channel = \<lparr>mc_num = 0, mc_bank = 0, mc_vfo = 0, mc_freq = 0, mc_mode = 0, mc_tx_freq = 0, mc_tx_mode = 0,
     mc_split = RIG_SPLIT_OFF, mc_flags = 0, mc_ctcss = 0\<rparr>"

text \<open>An entry of the list of tones, which is read without looking at its length.\<close>

definition tone_entry :: "'d ken \<Rightarrow> int \<Rightarrow> nat" where
  "tone_entry K i = (if 0 \<le> i \<and> i < int (length (cap_ctcss_list K)) then cap_ctcss_list K ! nat i
     else if i = int (length (cap_ctcss_list K)) then 0 else nat (unset_int K))"

definition bank_char :: "'d ken \<Rightarrow> int \<Rightarrow> char" where
  "bank_char K bank = (if k_model K = RIG_MODEL_TS940 then char_at (word_of_int (48 + bank)) else CHR '' '')"

text \<open>The mode and the frequency in a reply, and the channel from the first one.\<close>

definition chan_mode :: "'d ken \<Rightarrow> string \<Rightarrow> rmode_t" where
  "chan_mode K buf = kenwood2rmode (octet_of (char_nth buf 17) - 48) (mode_table K)"

definition chan_freq :: "string \<Rightarrow> freq_t" where
  "chan_freq buf = of_int (atoi (take 11 (drop 6 buf)))"

definition read_channel :: "'d ken \<Rightarrow> string \<Rightarrow> mem_channel" where
  "read_channel K buf = no_channel\<lparr>mc_vfo := RIG_VFO_VFO,
     mc_ctcss := (if char_nth buf 19 \<in> {CHR ''0'', CHR '' ''} then 0 else tone_entry K (atoi (take 2 (drop 20 buf)))),
     mc_flags := (if char_nth buf 18 = CHR ''1'' then RIG_CHFLAG_SKIP else 0),
     mc_mode := chan_mode K buf, mc_freq := chan_freq buf\<rparr>"

definition channel_place :: "string \<Rightarrow> mem_channel \<Rightarrow> mem_channel" where
  "channel_place buf ch = ch\<lparr>mc_num := atoi (take 2 (drop 4 buf)),
     mc_bank := (if is_digit (char_nth buf 3) then sint (octet_of (char_nth buf 3)) - 48 else 0)\<rparr>"

definition channel_split :: "'d ken \<Rightarrow> string \<Rightarrow> mem_channel \<Rightarrow> mem_channel" where
  "channel_split K buf ch =
     (if mc_freq ch = chan_freq buf
      then ch\<lparr>mc_tx_freq := 0, mc_tx_mode := RIG_MODE_NONE, mc_split := RIG_SPLIT_OFF\<rparr>
      else ch\<lparr>mc_tx_freq := chan_freq buf, mc_tx_mode := chan_mode K buf, mc_split := RIG_SPLIT_ON\<rparr>)"

definition channel_command :: "'d ken \<Rightarrow> char \<Rightarrow> mem_channel \<Rightarrow> string" where
  "channel_command K side ch = snprintf 8 (''MR'' @ [side, bank_char K (mc_bank ch)] @ pad0 2 (mc_num ch))"

definition kenwood_get_channel ::
  "'d ken \<Rightarrow> vfo_t \<Rightarrow> bool \<Rightarrow> mem_channel \<Rightarrow> ('d kenwood_rig, int \<times> mem_channel) state" where
  "kenwood_get_channel K vfo read_only ch = do {
     (err, buf) \<leftarrow> kenwood_safe_transaction K (channel_command K CHR ''0'' ch) 26 23;
     if err \<noteq> RIG_OK then State_Monad.return (err, ch)
     else do {
       let ch1 = read_channel K buf;
       if mc_freq ch1 = 0 then State_Monad.return (- RIG_ENAVAIL, ch1)
       else do {
         let ch2 = channel_place buf ch1;
         (err, buf2) \<leftarrow> kenwood_safe_transaction K (channel_command K CHR ''1'' ch) 26 23;
         State_Monad.return
           (if err \<noteq> RIG_OK then (err, ch2)
            else (if read_only then RIG_OK else - RIG_ENIMPL, channel_split K buf2 ch2))
       }
     }
   }"

text \<open>The text that stores one side of a channel; the tone has its place in the list plus one.\<close>

definition tone_number :: "'d ken \<Rightarrow> nat \<Rightarrow> int" where
  "tone_number K tone =
     (let i = length (takeWhile (\<lambda>t. t \<noteq> tone) (cap_ctcss_list K))
      in if tone = 0 then 0 else if i < length (cap_ctcss_list K) then int i + 1 else 1)"

definition channel_text :: "'d ken \<Rightarrow> char \<Rightarrow> mem_channel \<Rightarrow> freq_t \<Rightarrow> char \<Rightarrow> string" where
  "channel_text K side ch freq mode = snprintf 128
     (''MW'' @ [side, bank_char K (mc_bank ch)] @ pad0 2 (mc_num ch) @ pad0 11 (c_trunc freq)
      @ [mode, if mc_flags ch AND RIG_CHFLAG_SKIP \<noteq> 0 then CHR ''1'' else CHR ''0'',
         if mc_ctcss ch \<noteq> 0 then CHR ''1'' else CHR ''0'']
      @ pad0 2 (tone_number K (mc_ctcss ch)) @ '' '')"

definition chan_mode_char :: "int \<Rightarrow> char" where
  "chan_mode_char kmode = char_at (word_of_int (48 + kmode))"

definition kenwood_set_channel :: "'d ken \<Rightarrow> vfo_t \<Rightarrow> mem_channel \<Rightarrow> 'd kenwood_call" where
  "kenwood_set_channel K vfo ch =
     (let mode = rmode2kenwood (mc_mode ch) (mode_table K);
          split = (mc_split ch = RIG_SPLIT_ON);
          tx_mode = (if split then rmode2kenwood (mc_tx_mode ch) (mode_table K) else 0)
      in if mode < 0 \<or> tx_mode < 0 then State_Monad.return (- RIG_EINVAL)
         else do {
           err \<leftarrow> kenwood_set K (channel_text K CHR ''0'' ch (mc_freq ch) (chan_mode_char mode));
           if err \<noteq> RIG_OK then State_Monad.return err
           else kenwood_set K (channel_text K CHR ''1'' ch (if split then mc_tx_freq ch else 0)
                                 (if split then chan_mode_char tx_mode else CHR ''0''))
         })"

subsection \<open>Extra parameters and information\<close>

definition TOK_VOICE :: nat where [kenwood_defs]: "TOK_VOICE = 1"
definition TOK_FINE :: nat where [kenwood_defs]: "TOK_FINE = 2"
definition TOK_XIT :: nat where [kenwood_defs]: "TOK_XIT = 3"
definition TOK_RIT :: nat where [kenwood_defs]: "TOK_RIT = 4"
definition TOK_NO_ID :: nat where [kenwood_defs]: "TOK_NO_ID = 5"
definition TOK_FUNC_FILTER_WIDTH_DATA :: nat where [kenwood_defs]: "TOK_FUNC_FILTER_WIDTH_DATA = 6"

definition kenwood_set_ext_parm :: "'d ken \<Rightarrow> nat \<Rightarrow> value_t \<Rightarrow> 'd kenwood_call" where
  "kenwood_set_ext_parm K token val =
     (if token = TOK_VOICE then kenwood_set K ''VR''
      else if token = TOK_FINE then kenwood_set K (''FS'' @ onoff (val_i val))
      else if token = TOK_XIT then kenwood_set K (''XT'' @ onoff (val_i val))
      else if token = TOK_RIT then kenwood_set K (''RT'' @ onoff (val_i val))
      else if token = TOK_NO_ID
      then do { _ \<leftarrow> upd_ken (\<lambda>p. p\<lparr>no_id := (val_i val \<noteq> 0)\<rparr>); State_Monad.return RIG_OK }
      else State_Monad.return (- RIG_EINVAL))"

definition kenwood_get_ext_parm :: "'d ken \<Rightarrow> nat \<Rightarrow> value_t \<Rightarrow> ('d kenwood_rig, int \<times> value_t) state" where
  "kenwood_get_ext_parm K token val =
     (if token = TOK_FINE
      then do {
        (rc, i) \<leftarrow> get_kenwood_func K ''FS'' (val_i val);
        State_Monad.return (rc, if rc \<noteq> RIG_OK then val else VInt i)
      }
      else if token = TOK_XIT \<or> token = TOK_RIT
      then do {
        err \<leftarrow> kenwood_get_if K;
        p \<leftarrow> gets priv;
        State_Monad.return (err, if err \<noteq> RIG_OK then val
          else VInt (if info_at p (if token = TOK_XIT then 24 else 23) = CHR ''1'' then 1 else 0))
      }
      else State_Monad.return (- RIG_ENIMPL, val))"

definition kenwood_get_info :: "'d ken \<Rightarrow> ('d kenwood_rig, string option) state" where
  "kenwood_get_info K = do {
     (rc, buf) \<leftarrow> kenwood_safe_transaction K ''TY'' 10 5;
     State_Monad.return
       (if rc \<noteq> RIG_OK then None
        else Some (if char_nth buf 4 = CHR ''0'' then ''Firmware: Overseas type''
                   else if char_nth buf 4 = CHR ''1'' then ''Firmware: Japanese 100W type''
                   else if char_nth buf 4 = CHR ''2'' then ''Firmware: Japanese 20W type''
                   else ''Firmware: unknown''))
   }"

subsection \<open>The keyer\<close>

text \<open>Waiting for room in the buffer of the keyer, for as long as the radio says that it is full: \<open>None\<close> is
  that this never ends.\<close>

partial_function (option) await_keyer :: "'d ken \<Rightarrow> 'd kenwood_rig \<Rightarrow> (int \<times> 'd kenwood_rig) option" where
  "await_keyer K rig =
     (let ((rc, m), rig1) = run_state (kenwood_transaction K ''KY;'' [] 4) rig
      in if rc \<noteq> RIG_OK then Some (rc, rig1)
         else if starts ''KY0'' m then Some (RIG_OK, rig1)
         else if starts ''KY1'' m then await_keyer K (snd (run_state (ken_sleep K 500000) rig1))
         else Some (- RIG_EINVAL, rig1))"

text \<open>A segment of the message: 24 characters, filled with blanks for most models.\<close>

definition morse_command :: "'d ken \<Rightarrow> string \<Rightarrow> string" where
  "morse_command K seg = snprintf 40 (''KY '' @ seg
     @ (if k_model K \<in> {RIG_MODEL_K3, RIG_MODEL_K3S, RIG_MODEL_KX2, RIG_MODEL_KX3} then []
        else replicate (24 - length seg) CHR '' ''))"

function kenwood_send_morse :: "'d ken \<Rightarrow> string \<Rightarrow> 'd kenwood_rig \<Rightarrow> (int \<times> 'd kenwood_rig) option" where
  "kenwood_send_morse K msg rig =
     (if msg = [] then Some (RIG_OK, rig)
      else case await_keyer K rig of
          None \<Rightarrow> None
        | Some (rc, rig1) \<Rightarrow>
            if rc \<noteq> RIG_OK then Some (rc, rig1)
            else (let (rc, rig2) = run_state (kenwood_set K (morse_command K (take 24 msg))) rig1
                  in if rc \<noteq> RIG_OK then Some (rc, rig2) else kenwood_send_morse K (drop 24 msg) rig2))"
  by pat_completeness auto

termination kenwood_send_morse
  by (relation "measure (\<lambda>(K, msg, rig). length msg)") auto

declare kenwood_send_morse.simps [simp del]

subsection \<open>Powers\<close>

text \<open>The curve of the power setting, over the reals, and the way back, which is a line.\<close>

definition kenwood_power2mW ::
  "real \<Rightarrow> freq_t \<Rightarrow> rmode_t \<Rightarrow> nat \<Rightarrow> ('d kenwood_rig, int \<times> nat) state" where
  "kenwood_power2mW pw freq mode mwpower = do {
     rig \<leftarrow> gets id;
     let maxpower = (case rig_get_range (tx_range_list rig) freq mode of None \<Rightarrow> 100000 | Some r \<Rightarrow> high_power r);
     State_Monad.return (RIG_OK, nat (c_trunc
       (if pw < 0.1668 then pw * 0.6 * of_int maxpower
        else if pw < 0.3549 then (pw - 0.1668) * 0.775 * of_int maxpower + of_int (maxpower div 10)
        else if pw < 0.5807 then (pw - 0.3549) * 1.107 * of_int maxpower + of_int (maxpower div 4)
        else (pw - 0.5807) * 1.9375 * of_int maxpower + of_int (maxpower div 2))))
   }"

definition kenwood_mW2power ::
  "nat \<Rightarrow> freq_t \<Rightarrow> rmode_t \<Rightarrow> real \<Rightarrow> ('d kenwood_rig, int \<times> real) state" where
  "kenwood_mW2power mwpower freq mode pw =
     State_Monad.return (if 100000 < mwpower then (- RIG_EINVAL, pw) else (RIG_OK, of_nat mwpower / 100000))"

end
