(* ===== verification/Hamlib_Kenwood_Level.thy ===== *)
theory Hamlib_Kenwood_Level
  imports Hamlib_Kenwood_Mem Hamlib_Cal
begin

text \<open>
  Levels of the Kenwood back end (\<^verbatim>\<open>rigs/kenwood/kenwood.c\<close>). A \<^verbatim>\<open>float\<close> is a real number; the
  conversion to an integer cuts the fraction off.
\<close>

definition RIG_LEVEL_FLOAT_LIST :: u64 where
  "RIG_LEVEL_FLOAT_LIST = RIG_LEVEL_AF OR RIG_LEVEL_RF OR RIG_LEVEL_SQL OR RIG_LEVEL_APF OR RIG_LEVEL_NR
     OR RIG_LEVEL_PBT_IN OR RIG_LEVEL_PBT_OUT OR RIG_LEVEL_RFPOWER OR RIG_LEVEL_MICGAIN OR RIG_LEVEL_COMP
     OR RIG_LEVEL_BALANCE OR RIG_LEVEL_SWR OR RIG_LEVEL_ALC OR RIG_LEVEL_VOXGAIN OR RIG_LEVEL_ANTIVOX
     OR RIG_LEVEL_RFPOWER_METER OR RIG_LEVEL_RFPOWER_METER_WATTS OR RIG_LEVEL_COMP_METER OR RIG_LEVEL_VD_METER
     OR RIG_LEVEL_ID_METER OR RIG_LEVEL_NOTCHF_RAW OR RIG_LEVEL_MONITOR_GAIN OR RIG_LEVEL_NB OR RIG_LEVEL_SPECTRUM_REF"

definition RIG_LEVEL_IS_FLOAT :: "setting_t \<Rightarrow> bool" where
  "RIG_LEVEL_IS_FLOAT l \<longleftrightarrow> l AND RIG_LEVEL_FLOAT_LIST \<noteq> 0"

text \<open>The member \<^verbatim>\<open>f\<close>; as with \<open>val_i\<close>, a union that holds another member reads as 0.\<close>

fun val_f :: "value_t \<Rightarrow> real" where
  "val_f (VFloat f) = f"
| "val_f _ = 0"

definition HAMLIB_MAXDBLSTSIZ :: nat where "HAMLIB_MAXDBLSTSIZ = 8"

subsection \<open>Ranges the radio is asked for\<close>

text \<open>\<^verbatim>\<open>sscanf\<close> with a format of literals and \<^verbatim>\<open>%d\<close>: the numbers read before the first mismatch.\<close>

fun scan_seq :: "string list \<Rightarrow> string \<Rightarrow> int list" where
  "scan_seq [] s = []"
| "scan_seq (lit # lits) s =
     (if starts lit s
      then case scan_int (drop (length lit) s) of None \<Rightarrow> [] | Some (i, s') \<Rightarrow> i # scan_seq lits s'
      else [])"

definition nth_or :: "int list \<Rightarrow> nat \<Rightarrow> int \<Rightarrow> int" where
  "nth_or xs i d = (if i < length xs then xs ! i else d)"

text \<open>A batch of commands written at once, and the answers to it; an error of the write on the left.\<close>

definition ken_batch :: "'d ken \<Rightarrow> string \<Rightarrow> ('d kenwood_rig, int + int \<times> string) state" where
  "ken_batch K cmd = do {
     rc \<leftarrow> ken_port (write_block (k_radio K) (octs cmd));
     if rc \<noteq> RIG_OK then State_Monad.return (Inl rc)
     else do {
       (n, got) \<leftarrow> ken_port (read_string 19 [] 1);
       State_Monad.return (Inr (n, c_str got))
     }
   }"

text \<open>The limits of the microphone gain are stored as they are scanned, also when not all three numbers are
  there.\<close>

definition kenwood_get_micgain_minmax :: "'d ken \<Rightarrow> bool \<Rightarrow> 'd kenwood_call" where
  "kenwood_get_micgain_minmax K restore = do {
     r \<leftarrow> ken_batch K ''MG;MG000;MG;MG255;MG;MG000;'';
     case r of
       Inl rc \<Rightarrow> State_Monad.return rc
     | Inr (n, s) \<Rightarrow>
         if n \<noteq> 18 then State_Monad.return (- RIG_EPROTO)
         else do {
           let v = scan_seq [''MG'', '';MG'', '';MG''] s;
           _ \<leftarrow> upd_ken (\<lambda>p. p\<lparr>micgain_min := nth_or v 1 (micgain_min p), micgain_max := nth_or v 2 (micgain_max p)\<rparr>);
           if length v \<noteq> 3 then State_Monad.return (- RIG_EPROTO)
           else if restore then kenwood_set K (snprintf 19 (''MG'' @ pad0 3 (nth_or v 0 0) @ '';''))
           else State_Monad.return RIG_OK
         }
   }"

text \<open>
  The power, now and at its limits. Two models are not asked for the limits: they are looked up by mode and
  frequency, which is compared in Hertz with the number 70. The results are only used with the code
  \<^verbatim>\<open>RIG_OK\<close>.
\<close>

definition fixed_power :: "'d ken \<Rightarrow> bool" where
  "fixed_power K \<longleftrightarrow> k_model K = RIG_MODEL_TS480 \<or> k_model K = RIG_MODEL_TS890S"

definition power_limit :: "'d kenwood_rig \<Rightarrow> int" where
  "power_limit rig =
     (if current_mode rig = RIG_MODE_AM then if 70 \<le> current_freq rig then 13 else 50 else 100)"

definition kenwood_get_power_minmax ::
  "'d ken \<Rightarrow> bool \<Rightarrow> ('d kenwood_rig, int \<times> int \<times> int \<times> int) state" where
  "kenwood_get_power_minmax K restore = do {
     rig \<leftarrow> gets id;
     let fixed = fixed_power K;
     _ \<leftarrow> do_when fixed (upd_ken (\<lambda>p. p\<lparr>k_power_min := 5, k_power_max := (if 70 \<le> current_freq rig then 50 else 100)\<rparr>));
     p \<leftarrow> gets priv;
     if c_ptt (cache rig) = RIG_PTT_ON then State_Monad.return (RIG_OK, k_power_now p, k_power_min p, k_power_max p)
     else do {
       r \<leftarrow> ken_batch K (if fixed then ''PC;'' else ''PC;PC000;PC;PC255;PC;PC000;'');
       case r of
         Inl rc \<Rightarrow> State_Monad.return (rc, 0, 0, 0)
       | Inr (n, s) \<Rightarrow> do {
           let v = scan_seq (if fixed then [''PC''] else [''PC'', '';PC'', '';PC'']) s;
           let (nw, mn, mx) = (nth_or v 0 0, if fixed then 5 else nth_or v 1 0, if fixed then power_limit rig else nth_or v 2 0);
           if n \<noteq> (if fixed then 6 else 18) \<or> length v \<noteq> (if fixed then 1 else 3)
           then State_Monad.return (- RIG_EPROTO, 0, 0, 0)
           else if \<not> fixed \<and> restore
           then do {
             rc \<leftarrow> kenwood_set K (snprintf 19 (''PC'' @ pad0 3 nw @ '';''));
             State_Monad.return (rc, nw, mn, mx)
           }
           else do {
             _ \<leftarrow> upd_ken (\<lambda>p. p\<lparr>k_power_now := nw, k_power_min := mn, k_power_max := mx\<rparr>);
             State_Monad.return (RIG_OK, nw, mn, mx)
           }
         }
     }
   }"

subsection \<open>Slope filters\<close>

type_synonym slope_table = "(rmode_t \<times> int \<times> int \<times> int) list"

text \<open>The entries for a mode and a data filter: value and frequency. What they are for is asked of the cache and
  of an extra function; the error codes are on the left.\<close>

definition slope_entries ::
  "'d ken \<Rightarrow> 'd kenwood_ops \<Rightarrow> 'd kenwood_ports \<Rightarrow> vfo_t \<Rightarrow> slope_table option
    \<Rightarrow> ('d kenwood_rig, int + (int \<times> int) list) state" where
  "slope_entries K caps P vfo filt = (case filt of
     None \<Rightarrow> State_Monad.return (Inl (- RIG_ENAVAIL))
   | Some table \<Rightarrow> do {
       (rc, c) \<leftarrow> rig_get_cache vfo (junk_out P (junk_freq P));
       if rc \<noteq> RIG_OK then State_Monad.return (Inl (- RIG_EINVAL))
       else do {
         (rc, active) \<leftarrow> rig_get_ext_func caps vfo TOK_FUNC_FILTER_WIDTH_DATA (unset_int K);
         let data = (if rc \<noteq> RIG_OK then 0 else active);
         State_Monad.return (Inr
           (map (\<lambda>(_, _, v, hz). (v, hz)) (filter (\<lambda>(modes, d, _, _). modes AND o_mode c \<noteq> 0 \<and> d = data) table)))
       }
     })"

definition kenwood_find_slope_filter_for_frequency ::
  "'d ken \<Rightarrow> 'd kenwood_ops \<Rightarrow> 'd kenwood_ports \<Rightarrow> vfo_t \<Rightarrow> slope_table option \<Rightarrow> int
    \<Rightarrow> ('d kenwood_rig, int + int) state" where
  "kenwood_find_slope_filter_for_frequency K caps P vfo filt hz = do {
     e \<leftarrow> slope_entries K caps P vfo filt;
     State_Monad.return (case e of
       Inl rc \<Rightarrow> Inl rc
     | Inr es \<Rightarrow> (case List.find (\<lambda>(_, f). hz \<le> f) es of
          Some (v, _) \<Rightarrow> Inr v
        | None \<Rightarrow> if es = [] then Inl (- RIG_EINVAL) else Inr (fst (last es))))
   }"

definition kenwood_find_slope_filter_for_value ::
  "'d ken \<Rightarrow> 'd kenwood_ops \<Rightarrow> 'd kenwood_ports \<Rightarrow> vfo_t \<Rightarrow> slope_table option \<Rightarrow> int
    \<Rightarrow> ('d kenwood_rig, int + int) state" where
  "kenwood_find_slope_filter_for_value K caps P vfo filt value = do {
     e \<leftarrow> slope_entries K caps P vfo filt;
     State_Monad.return (case e of
       Inl rc \<Rightarrow> Inl rc
     | Inr es \<Rightarrow> (case List.find (\<lambda>(v, _). v = value) es of
          Some (_, f) \<Rightarrow> Inr f
        | None \<Rightarrow> Inl (- RIG_EINVAL)))
   }"

subsection \<open>Setting a level\<close>

text \<open>The place of a value in a list of attenuators or preamplifiers, from 1; 0 stands for off.\<close>

definition step_place :: "int list \<Rightarrow> int \<Rightarrow> int option" where
  "step_place list v =
     (let l = takeWhile (\<lambda>x. x \<noteq> 0) (take HAMLIB_MAXDBLSTSIZ list); i = length (takeWhile (\<lambda>x. x \<noteq> v) l)
      in if v = 0 then Some 0 else if i < length l then Some (int i + 1) else None)"

text \<open>The levels whose command depends on nothing but the value; an error code on the left.\<close>

definition level_command :: "'d ken \<Rightarrow> setting_t \<Rightarrow> value_t \<Rightarrow> int + string" where
  "level_command K level val =
     (let i = val_i val; f = val_f val;
          kv = (if RIG_LEVEL_IS_FLOAT level then c_trunc (f * 255) else i) in
      if level = RIG_LEVEL_RF
      then if 1 < f \<or> f < 0 then Inl (- RIG_EINVAL) else Inr (''RG'' @ pad0 3 (c_trunc (f * 255)))
      else if level = RIG_LEVEL_SQL then Inr (''SQ0'' @ pad0 3 kv)
      else if level = RIG_LEVEL_AGC then Inr (''GT'' @ pad0 3 (84 * (if 3 < kv then 3 else kv)))
      else if level = RIG_LEVEL_ATT
      then case step_place (cap_attenuator K) i of None \<Rightarrow> Inl (- RIG_EINVAL) | Some n \<Rightarrow> Inr (''RA'' @ pad0 2 n)
      else if level = RIG_LEVEL_PREAMP
      then case step_place (cap_preamp K) i of None \<Rightarrow> Inl (- RIG_EINVAL) | Some n \<Rightarrow> Inr (''PA'' @ pad0 1 n)
      else if level = RIG_LEVEL_CWPITCH
      then if 1000 < i \<or> i < 400 then Inl (- RIG_EINVAL) else Inr (''PT'' @ pad0 2 (i div 50 - 8))
      else if level = RIG_LEVEL_KEYSPD
      then if 60 < i \<or> i < 5 then Inl (- RIG_EINVAL) else Inr (''KS'' @ pad0 3 i)
      else if level = RIG_LEVEL_COMP
      then let v = c_trunc (f * (if k_model K = RIG_MODEL_TS990S then 255 else 100)) in Inr (''PL'' @ pad0 3 v @ pad0 3 v)
      else if level = RIG_LEVEL_VOXDELAY
      then if 30 < i \<or> i < 0 then Inl (- RIG_EINVAL) else Inr (''VD'' @ pad0 4 (i * 100))
      else if level = RIG_LEVEL_VOXGAIN then Inr (''VG'' @ pad0 3 (c_trunc (f * 9)))
      else if level = RIG_LEVEL_BKIN_DLYMS
      then if 1000 < i \<or> i < 0 then Inl (- RIG_EINVAL) else Inr (''SD'' @ pad0 4 i)
      else Inl (- RIG_EINVAL))"

text \<open>The command for the audio level; as long as its format is not known, nothing is printed into the
  buffer.\<close>

definition af_command :: "'d ken \<Rightarrow> 'd kenwood_priv_data \<Rightarrow> vfo_t \<Rightarrow> int \<Rightarrow> string" where
  "af_command K p vfo v =
     (if ag_format p = 1 then snprintf 16 (''AG'' @ pad0 3 v)
      else if ag_format p = 2 then snprintf 16 (''AG0'' @ pad0 3 v)
      else if ag_format p = 3
      then snprintf 16 (''AG'' @ (if vfo = RIG_VFO_A \<or> vfo = RIG_VFO_MAIN then ''0'' else ''1'') @ pad0 3 v)
      else unset_str K)"

definition set_rfpower :: "'d ken \<Rightarrow> real \<Rightarrow> 'd kenwood_call" where
  "set_rfpower K f = do {
     (rc, _, mn, mx) \<leftarrow> kenwood_get_power_minmax K False;
     let v = c_trunc (f * of_int mx);
     let v1 = (if v < mn then mn else v);
     if rc \<noteq> RIG_OK then State_Monad.return rc
     else kenwood_set K (snprintf 16 (''PC'' @ pad0 3 (if mx < v1 then mx else v1)))
   }"

definition set_micgain :: "'d ken \<Rightarrow> real \<Rightarrow> 'd kenwood_call" where
  "set_micgain K f = do {
     unknown \<leftarrow> gets (\<lambda>rig. micgain_min (priv rig) = - 1);
     rc \<leftarrow> (if unknown then kenwood_get_micgain_minmax K False else State_Monad.return RIG_OK);
     p \<leftarrow> gets priv;
     if rc \<noteq> RIG_OK then State_Monad.return rc
     else if 1 < f \<or> f < 0 then State_Monad.return (- RIG_EINVAL)
     else kenwood_set K (snprintf 16
            (''MG'' @ pad0 3 (c_trunc (f * of_int (micgain_max p - micgain_min p) + of_int (micgain_min p)))))
   }"

definition set_slope ::
  "'d ken \<Rightarrow> 'd kenwood_ops \<Rightarrow> 'd kenwood_ports \<Rightarrow> vfo_t \<Rightarrow> slope_table option \<Rightarrow> string \<Rightarrow> int
    \<Rightarrow> 'd kenwood_call" where
  "set_slope K caps P vfo filt cmd i = do {
     r \<leftarrow> kenwood_find_slope_filter_for_frequency K caps P vfo filt i;
     case r of
       Inr v \<Rightarrow> kenwood_set K (snprintf 16 (cmd @ pad0 2 v))
     | Inl _ \<Rightarrow> if 20 < i \<or> i < 0 then State_Monad.return (- RIG_EINVAL)
               else kenwood_set K (snprintf 16 (cmd @ pad0 2 i))
   }"

definition kenwood_set_level ::
  "'d ken \<Rightarrow> 'd kenwood_ops \<Rightarrow> 'd kenwood_ports \<Rightarrow> vfo_t \<Rightarrow> setting_t \<times> value_t \<Rightarrow> 'd kenwood_call" where
  "kenwood_set_level K caps P vfo arg = (case arg of (level, val) \<Rightarrow>
     if RIG_LEVEL_IS_FLOAT level \<and> 1 < val_f val then State_Monad.return (- RIG_EINVAL)
     else if level = RIG_LEVEL_RFPOWER then set_rfpower K (val_f val)
     else if level = RIG_LEVEL_AF
     then do {
       p \<leftarrow> gets priv;
       kenwood_set K (af_command K p vfo (c_trunc (val_f val * 255)))
     }
     else if level = RIG_LEVEL_MICGAIN then set_micgain K (val_f val)
     else if level = RIG_LEVEL_SLOPE_HIGH then set_slope K caps P vfo (cap_slope_high K) ''SH'' (val_i val)
     else if level = RIG_LEVEL_SLOPE_LOW then set_slope K caps P vfo (cap_slope_low K) ''SL'' (val_i val)
     else case level_command K level val of
         Inl rc \<Rightarrow> State_Monad.return rc
       | Inr cmd \<Rightarrow> kenwood_set K (snprintf 16 cmd))"

subsection \<open>Reading a level\<close>

definition get_kenwood_level :: "'d ken \<Rightarrow> string \<Rightarrow> ('d kenwood_rig, int \<times> int) state" where
  "get_kenwood_level K cmd = do {
     (rc, buf) \<leftarrow> kenwood_safe_transaction K cmd 10 (length cmd + 3);
     State_Monad.return (rc, case scan_int (drop (length cmd) buf) of None \<Rightarrow> unset_int K | Some (i, _) \<Rightarrow> i)
   }"

text \<open>A level on the scale from 0 to 255.\<close>

definition scaled_level :: "'d ken \<Rightarrow> string \<Rightarrow> value_t \<Rightarrow> ('d kenwood_rig, int \<times> value_t) state" where
  "scaled_level K cmd val = do {
     (rc, lvl) \<leftarrow> get_kenwood_level K cmd;
     State_Monad.return (rc, if rc \<noteq> RIG_OK then val else VFloat (of_int lvl / 255))
   }"

text \<open>A reply of fixed length with a number behind the command, and what is made of the number.\<close>

definition number_level ::
  "'d ken \<Rightarrow> string \<Rightarrow> nat \<Rightarrow> nat \<Rightarrow> int \<Rightarrow> (int \<Rightarrow> int \<times> value_t) \<Rightarrow> value_t \<Rightarrow> ('d kenwood_rig, int \<times> value_t) state"
where
  "number_level K cmd sz expected unset f val = do {
     (rc, buf) \<leftarrow> kenwood_safe_transaction K cmd sz expected;
     State_Monad.return (if rc \<noteq> RIG_OK then (rc, val)
       else f (case scan_int (drop (length cmd) buf) of None \<Rightarrow> unset | Some (i, _) \<Rightarrow> i))
   }"

text \<open>The value at a place from 1 of a list of attenuators or preamplifiers.\<close>

definition step_value :: "int list \<Rightarrow> int \<Rightarrow> value_t \<Rightarrow> int \<times> value_t" where
  "step_value list lvl val =
     (let l = takeWhile (\<lambda>x. x \<noteq> 0) (take HAMLIB_MAXDBLSTSIZ list) in
      if lvl = 0 then (RIG_OK, VInt 0)
      else if int (length l) < min lvl (int HAMLIB_MAXDBLSTSIZ) then (- RIG_EPROTO, val)
      else if lvl < 0 \<or> int HAMLIB_MAXDBLSTSIZ < lvl then (- RIG_EINTERNAL, val)
      else (RIG_OK, VInt (l ! nat (lvl - 1))))"

text \<open>Finding out which of three formats the audio level has, without retries.\<close>

definition probe_af :: "'d ken \<Rightarrow> ('d kenwood_rig, unit) state" where
  "probe_af K = do {
     retry \<leftarrow> gets (\<lambda>rig. k_retry (priv rig));
     _ \<leftarrow> upd_ken (\<lambda>p. p\<lparr>k_retry := 0\<rparr>);
     (r1, _) \<leftarrow> kenwood_transaction K ''AG'' [] KENWOOD_MAX_BUF_LEN;
     f \<leftarrow> (if r1 = RIG_OK then State_Monad.return 1
          else do {
            (r2, _) \<leftarrow> kenwood_transaction K ''AG1'' [] KENWOOD_MAX_BUF_LEN;
            if r2 = RIG_OK then State_Monad.return 3
            else do {
              (r3, _) \<leftarrow> kenwood_transaction K ''AG0'' [] KENWOOD_MAX_BUF_LEN;
              State_Monad.return (if r3 = RIG_OK then 2 else 0)
            }
          });
     upd_ken (\<lambda>p. p\<lparr>ag_format := f, k_retry := retry\<rparr>)
   }"

definition get_af :: "'d ken \<Rightarrow> vfo_t \<Rightarrow> value_t \<Rightarrow> ('d kenwood_rig, int \<times> value_t) state" where
  "get_af K vfo val = do {
     unknown \<leftarrow> gets (\<lambda>rig. ag_format (priv rig) < 0);
     _ \<leftarrow> (if unknown then probe_af K else State_Monad.return ());
     f \<leftarrow> gets (\<lambda>rig. ag_format (priv rig));
     if f = 0
     then do { _ \<leftarrow> upd_ken (\<lambda>p. p\<lparr>ag_format := - 1\<rparr>); State_Monad.return (RIG_OK, val) }
     else if f = 1 then scaled_level K ''AG'' val
     else if f = 2 then scaled_level K ''AG0'' val
     else if f = 3 then scaled_level K (if vfo = RIG_VFO_MAIN then ''AG0'' else ''AG1'') val
     else State_Monad.return (- RIG_EPROTO, val)
   }"

definition get_micgain :: "'d ken \<Rightarrow> value_t \<Rightarrow> ('d kenwood_rig, int \<times> value_t) state" where
  "get_micgain K val = do {
     unknown \<leftarrow> gets (\<lambda>rig. micgain_min (priv rig) = - 1);
     rc \<leftarrow> (if unknown then kenwood_get_micgain_minmax K True else State_Monad.return RIG_OK);
     if rc \<noteq> RIG_OK then State_Monad.return (rc, val)
     else do {
       (rc, lvl) \<leftarrow> get_kenwood_level K ''MG'';
       p \<leftarrow> gets priv;
       State_Monad.return (rc, if rc \<noteq> RIG_OK then val
         else VFloat (of_int (lvl - micgain_min p) / of_int (micgain_max p - micgain_min p)))
     }
   }"

definition agc_step :: "int \<Rightarrow> int" where
  "agc_step v = (if v = 0 then 0 else if v < 85 then 1 else if v < 170 then 2 else if v \<le> 255 then 3 else v)"

definition get_slope ::
  "'d ken \<Rightarrow> 'd kenwood_ops \<Rightarrow> 'd kenwood_ports \<Rightarrow> vfo_t \<Rightarrow> slope_table option \<Rightarrow> string \<Rightarrow> value_t
    \<Rightarrow> ('d kenwood_rig, int \<times> value_t) state" where
  "get_slope K caps P vfo filt cmd val = do {
     (rc, buf) \<leftarrow> kenwood_transaction K cmd [] KENWOOD_MAX_BUF_LEN;
     if rc \<noteq> RIG_OK then State_Monad.return (rc, val)
     else do {
       let v = atoi (drop 2 buf);
       r \<leftarrow> kenwood_find_slope_filter_for_value K caps P vfo filt v;
       State_Monad.return (case r of
         Inr hz \<Rightarrow> (RIG_OK, VInt hz)
       | Inl e \<Rightarrow> if e = - RIG_ENAVAIL then (RIG_OK, VInt v) else (e, val))
     }
   }"

definition get_rfpower :: "'d ken \<Rightarrow> value_t \<Rightarrow> ('d kenwood_rig, int \<times> value_t) state" where
  "get_rfpower K val = do {
     (rc, nw, _, mx) \<leftarrow> kenwood_get_power_minmax K True;
     State_Monad.return (rc, if rc \<noteq> RIG_OK then val else VFloat (of_int nw / of_int mx))
   }"

definition kenwood_get_level ::
  "'d ken \<Rightarrow> 'd kenwood_ops \<Rightarrow> 'd kenwood_ports \<Rightarrow> setting_t \<Rightarrow> vfo_t \<Rightarrow> value_t
    \<Rightarrow> ('d kenwood_rig, int \<times> value_t) state" where
  "kenwood_get_level K caps P level vfo val =
     (let i = val_i val; u = unset_int K; int_level = (\<lambda>f x. (RIG_OK, VInt (f x)));
          meter = (\<lambda>sm0. if sm0 then ''SM0'' else ''SM'');
          ts590 = (k_model K = RIG_MODEL_TS590S \<or> k_model K = RIG_MODEL_TS590SG) in
      if level = RIG_LEVEL_RAWSTR
      then number_level K (meter ts590) 10 (if ts590 then 7 else 6) i (int_level id) val
      else if level = RIG_LEVEL_STRENGTH
      then (let sm0 = (ts590 \<or> k_model K = RIG_MODEL_TS480) in
            number_level K (meter sm0) 10 (if sm0 then 7 else 6) i
              (int_level (\<lambda>x. if cap_str_cal K \<noteq> [] then c_trunc (rig_raw2val x (cap_str_cal K)) else x * 4 - 54)) val)
      else if level = RIG_LEVEL_ATT
      then number_level K ''RA'' 50 6 u (\<lambda>x. step_value (cap_attenuator K) x val) val
      else if level = RIG_LEVEL_PREAMP
      then do {
        (rc, buf) \<leftarrow> kenwood_safe_transaction K ''PA'' 50 3;
        State_Monad.return (if rc \<noteq> RIG_OK then (rc, val)
          else if is_digit (char_nth buf 2)
          then step_value (cap_preamp K) (int (digit_val (char_nth buf 2))) val
          else (- RIG_EPROTO, val))
      }
      else if level = RIG_LEVEL_RFPOWER then get_rfpower K val
      else if level = RIG_LEVEL_AF then get_af K vfo val
      else if level = RIG_LEVEL_RF then scaled_level K ''RG'' val
      else if level = RIG_LEVEL_MICGAIN then get_micgain K val
      else if level = RIG_LEVEL_AGC
      then do {
        (rc, lvl) \<leftarrow> get_kenwood_level K ''GT'';
        State_Monad.return (rc, VInt (agc_step (if rc \<noteq> RIG_OK then i else lvl)))
      }
      else if level = RIG_LEVEL_SLOPE_LOW then get_slope K caps P vfo (cap_slope_low K) ''SL'' val
      else if level = RIG_LEVEL_SLOPE_HIGH then get_slope K caps P vfo (cap_slope_high K) ''SH'' val
      else if level = RIG_LEVEL_CWPITCH then number_level K ''PT'' 50 4 i (int_level (\<lambda>x. x * 1000 + 1000)) val
      else if level = RIG_LEVEL_KEYSPD then number_level K ''KS'' 50 5 i (int_level id) val
      else if level = RIG_LEVEL_COMP
      then do {
        (rc, buf) \<leftarrow> kenwood_safe_transaction K ''PL'' 50 8;
        let raw = (case scan_int (take 3 (dropWhile is_space (drop 2 buf))) of None \<Rightarrow> u | Some (x, _) \<Rightarrow> x);
        State_Monad.return (rc, if rc \<noteq> RIG_OK then val
          else VFloat (of_int raw / (if k_model K = RIG_MODEL_TS990S then 255 else 100)))
      }
      else if level = RIG_LEVEL_VOXDELAY
      then number_level K ''VD'' 50 6 u (int_level (\<lambda>x. c_trunc (of_int x / 100))) val
      else if level = RIG_LEVEL_VOXGAIN then number_level K ''VG'' 50 5 u (\<lambda>x. (RIG_OK, VFloat (of_int x / 9))) val
      else if level = RIG_LEVEL_BKIN_DLYMS then number_level K ''SD'' 50 6 u (int_level id) val
      else if level \<in> {RIG_LEVEL_IF, RIG_LEVEL_APF, RIG_LEVEL_NR, RIG_LEVEL_PBT_IN, RIG_LEVEL_PBT_OUT,
                       RIG_LEVEL_NOTCHF, RIG_LEVEL_BKINDL, RIG_LEVEL_BALANCE}
      then State_Monad.return (- RIG_ENIMPL, val)
      else State_Monad.return (- RIG_EINVAL, val))"

end
