(* ===== verification/Hamlib_Ts890.thy ===== *)
theory Hamlib_Ts890
  imports Hamlib_Kenwood_Level Hamlib_Names
begin

text \<open>
  The TS-890S (\<^verbatim>\<open>rigs/kenwood/ts890s.c\<close>): its levels and its table of functions.
\<close>

subsection \<open>Levels\<close>

definition agc_char :: "int \<Rightarrow> char option" where
  "agc_char i = (if i = RIG_AGC_OFF then Some CHR ''0'' else if i = RIG_AGC_SLOW then Some CHR ''1''
     else if i = RIG_AGC_MEDIUM then Some CHR ''2'' else if i = RIG_AGC_FAST then Some CHR ''3''
     else if i = RIG_AGC_AUTO then Some CHR ''4'' else None)"

definition agc_of_char :: "char \<Rightarrow> int option" where
  "agc_of_char c = (if c = CHR ''0'' then Some RIG_AGC_OFF else if c = CHR ''1'' then Some RIG_AGC_SLOW
     else if c = CHR ''2'' then Some RIG_AGC_MEDIUM else if c = CHR ''3'' then Some RIG_AGC_FAST
     else if c = CHR ''4'' then Some RIG_AGC_AUTO else None)"

definition kenwood_ts890_set_level ::
  "'d ken \<Rightarrow> 'd kenwood_ops \<Rightarrow> 'd kenwood_ports \<Rightarrow> vfo_t \<Rightarrow> setting_t \<times> value_t \<Rightarrow> 'd kenwood_call" where
  "kenwood_ts890_set_level K caps P vfo arg = (case arg of (level, val) \<Rightarrow>
     if level = RIG_LEVEL_RF then kenwood_set K (snprintf 16 (''RG'' @ pad0 3 (c_trunc (val_f val * 255))))
     else if level = RIG_LEVEL_SQL then kenwood_set K (snprintf 16 (''SQ'' @ pad0 3 (c_trunc (val_f val * 255))))
     else if level = RIG_LEVEL_AGC
     then case agc_char (val_i val) of
         None \<Rightarrow> State_Monad.return (- RIG_EINVAL)
       | Some c \<Rightarrow> kenwood_set K (''GC'' @ [c])
     else kenwood_set_level K caps P vfo (level, val))"

text \<open>A reply that must have a length and, behind the command, a value.\<close>

definition level_reply ::
  "'d ken \<Rightarrow> string \<Rightarrow> nat \<Rightarrow> (string \<Rightarrow> value_t option) \<Rightarrow> value_t \<Rightarrow> ('d kenwood_rig, int \<times> value_t) state" where
  "level_reply K cmd expected f val = do {
     (rc, buf) \<leftarrow> kenwood_transaction K cmd [] 50;
     State_Monad.return
       (if rc \<noteq> RIG_OK then (rc, val)
        else if length buf \<noteq> expected then (- RIG_EPROTO, val)
        else case f (drop 2 buf) of None \<Rightarrow> (- RIG_EPROTO, val) | Some v \<Rightarrow> (RIG_OK, v))
   }"

definition level_255 :: "string \<Rightarrow> value_t option" where
  "level_255 s = map_option (\<lambda>(i, _). VFloat (of_int i / 255)) (scan_int s)"

definition kenwood_ts890_get_level ::
  "'d ken \<Rightarrow> 'd kenwood_ops \<Rightarrow> 'd kenwood_ports \<Rightarrow> setting_t \<Rightarrow> vfo_t \<Rightarrow> value_t
    \<Rightarrow> ('d kenwood_rig, int \<times> value_t) state" where
  "kenwood_ts890_get_level K caps P level vfo val =
     (if level = RIG_LEVEL_VOXDELAY
      then do {
        (rc, buf) \<leftarrow> kenwood_safe_transaction K ''VD0'' 50 6;
        let n = (case scan_int (drop 3 buf) of None \<Rightarrow> unset_int K | Some (i, _) \<Rightarrow> i);
        State_Monad.return (rc, if rc \<noteq> RIG_OK then val else VInt (c_trunc (of_int (n * 3) / 2)))
      }
      else if level = RIG_LEVEL_RF then level_reply K ''RG'' 5 level_255 val
      else if level = RIG_LEVEL_SQL then level_reply K ''SQ'' 5 level_255 val
      else if level = RIG_LEVEL_AGC
      then level_reply K ''GC'' 3 (\<lambda>s. map_option VInt (agc_of_char (char_nth s 0))) val
      else kenwood_get_level K caps P level vfo val)"

subsection \<open>The table\<close>

text \<open>
  The functions of \<^verbatim>\<open>ts890s_caps\<close>; those that call the front end are given the table they are called
  back through. \<open>ts890_table\<close> ties the knot: at depth 0 the front end finds a radio without functions.
\<close>

definition TS890_FUNC_ALL :: setting_t where
  "TS890_FUNC_ALL = RIG_FUNC_NB OR RIG_FUNC_NB2 OR RIG_FUNC_COMP OR RIG_FUNC_VOX OR RIG_FUNC_NR OR RIG_FUNC_BC
     OR RIG_FUNC_BC2 OR RIG_FUNC_RIT OR RIG_FUNC_XIT OR RIG_FUNC_TUNER"

definition TS890_LEVEL_ALL :: setting_t where
  "TS890_LEVEL_ALL = RIG_LEVEL_RFPOWER OR RIG_LEVEL_AF OR RIG_LEVEL_RF OR RIG_LEVEL_SQL OR RIG_LEVEL_AGC"

definition TS890_VFO_OPS :: u32 where
  "TS890_VFO_OPS = RIG_OP_UP OR RIG_OP_DOWN OR RIG_OP_BAND_UP OR RIG_OP_BAND_DOWN OR RIG_OP_CPY OR RIG_OP_TUNE"

definition ts890s_base :: "'p caps" where
  "ts890s_base = no_caps\<lparr>rig_model := RIG_MODEL_TS890S, targetable_vfo := RIG_TARGETABLE_FREQ,
     vfo_ops := TS890_VFO_OPS, cap_has_get_level := TS890_LEVEL_ALL, cap_has_get_func := TS890_FUNC_ALL\<rparr>"

definition ts890s_caps :: "'d ken \<Rightarrow> 'd kenwood_ports \<Rightarrow> 'd kenwood_ops \<Rightarrow> 'd kenwood_ops" where
  "ts890s_caps K P caps = ts890s_base
     \<lparr>set_freq := Some (kenwood_set_freq K caps P), get_freq := Some (kenwood_get_freq K caps),
      set_rit := Some (kenwood_set_rit K), get_rit := Some (kenwood_get_rit K),
      set_xit := Some (kenwood_set_xit K), get_xit := Some (kenwood_get_xit K),
      set_mode := Some (kenwood_set_mode K caps P), get_mode := Some (kenwood_get_mode K),
      set_vfo := Some (kenwood_set_vfo K), get_vfo := Some (kenwood_get_vfo_if K),
      set_split_vfo := Some (kenwood_set_split_vfo K caps P),
      get_split_vfo := Some (kenwood_get_split_vfo_if K),
      get_ptt := Some (kenwood_get_ptt K), set_ptt := Some (kenwood_set_ptt K), get_dcd := Some (kenwood_get_dcd K),
      set_powerstat := Some (kenwood_set_powerstat K caps P), get_powerstat := Some (kenwood_get_powerstat K),
      cap_reset := Some (kenwood_reset K), set_ant := Some (kenwood_set_ant K), get_ant := Some (kenwood_get_ant K),
      cap_scan := Some (kenwood_scan K),
      set_level := Some (kenwood_ts890_set_level K caps P), get_level := Some (kenwood_ts890_get_level K caps P),
      set_func := Some (kenwood_set_func K), get_func := Some (kenwood_get_func K)\<rparr>"

primrec ts890_table :: "'d ken \<Rightarrow> 'd kenwood_ports \<Rightarrow> nat \<Rightarrow> 'd kenwood_ops" where
  "ts890_table K P 0 = ts890s_base"
| "ts890_table K P (Suc n) = ts890s_caps K P (ts890_table K P n)"

text \<open>The parameters of the back end for this radio, in an environment \<open>K\<close>.\<close>

definition ts890s_ken :: "'d ken \<Rightarrow> 'd ken" where
  "ts890s_ken K = K\<lparr>k_model := RIG_MODEL_TS890S, cmdtrm := CHR '';'', cap_if_len := 0, cap_mode_table := None,
     cap_filter_width := None, cap_timeout := 200, cap_ctcss_list := [], cap_attenuator := [12], cap_preamp := [12],
     cap_slope_high := None, cap_slope_low := None, cap_str_cal := []\<rparr>"

lemma ts890s_ken_simps [simp]:
  "k_model (ts890s_ken K) = RIG_MODEL_TS890S" "cmdtrm (ts890s_ken K) = CHR '';''" "if_len (ts890s_ken K) = 37"
  "k_radio (ts890s_ken K) = k_radio K" "mode_table (ts890s_ken K) = kenwood_mode_table"
  by (simp_all add: ts890s_ken_def if_len_def mode_table_def)

end
