(* ===== verification/Hamlib_Kenwood_Stack.thy ===== *)
theory Hamlib_Kenwood_Stack
  imports Hamlib_Ts890
begin

text \<open>
  The stack above a TS-890S: \<^verbatim>\<open>src/rig.c\<close> over \<^verbatim>\<open>rigs/kenwood/kenwood.c\<close> over
  \<^verbatim>\<open>src/iofunc.c\<close>. The locale \<open>ken_radio\<close> is what the back end relies on in the radio, in commands and
  replies; from it follows the contract \<open>tuner\<close>, which is what the front end relies on in the back end.
\<close>

subsection \<open>Exchanges\<close>

text \<open>A question that is answered at the first try with a reply of the right length.\<close>

lemma safe_transaction_delivers:
  assumes "quiet rig" and "\<not> skips_verify cmd" and "no_cached_if cmd rig" and "0 < sz"
    and "accepted K (verify_cmd (priv rig)) cmd sz s" and "length s = expected" and "0 < expected"
    and "reply_of (k_radio K) (wire_command K cmd) (device (k_port (priv rig))) = (on_wire K s, d)"
  shows "\<exists>rig'. run_state (kenwood_safe_transaction K cmd sz expected) rig = ((RIG_OK, s), rig')
    \<and> trn_done rig d rig' \<and> (cmd = ''IF'' \<longrightarrow> cache_start (priv rig') = now rig'
      \<and> last_if_response (priv rig') = take (if_len K) (s @ [cmdtrm K]))"
proof -
  have re: "reply_of (k_radio K) (round_octets K rig cmd sz) (device (k_port (priv rig))) = (on_wire K s, d)"
    using assms(4,8) by (simp add: round_octets_def)
  from ken_transaction_delivers [OF assms(1,2) _ assms(3,5) re, of "[]"] assms(4) obtain rig' where
    r: "run_state (kenwood_transaction K cmd [] sz) rig = ((RIG_OK, s), rig')" "trn_done rig d rig'"
      "cmd = ''IF'' \<longrightarrow> cache_start (priv rig') = now rig'
        \<and> last_if_response (priv rig') = take (if_len K) (s @ [cmdtrm K])" by auto
  have "run_state (kenwood_safe_transaction K cmd sz expected) rig = ((RIG_OK, s), rig')"
    using r(1) assms(6,7) by (simp add: kenwood_safe_transaction_def run_state_bind safe_tries.simps)
  with r show ?thesis by blast
qed

text \<open>A setting whose verifying command is answered.\<close>

lemma set_delivers:
  assumes "quiet rig" and "\<not> skips_verify cmd" and "\<not> no_id (priv rig)" and "cmd \<noteq> ''IF''"
    and "accepted K (verify_cmd (priv rig)) cmd 0 v"
    and "reply_of (k_radio K) (wire_command K cmd @ octs (verify_cmd (priv rig))) (device (k_port (priv rig)))
      = (on_wire K v, d)"
  shows "\<exists>rig'. run_state (kenwood_set K cmd) rig = (RIG_OK, rig') \<and> trn_done rig d rig'"
proof -
  have re: "reply_of (k_radio K) (round_octets K rig cmd 0) (device (k_port (priv rig))) = (on_wire K v, d)"
    using assms(6) by (simp add: round_octets_def)
  have "no_cached_if cmd rig" using assms(4) by (simp add: no_cached_if_def)
  from ken_transaction_delivers [OF assms(1,2) _ this assms(5) re, of "[]"] assms(3) show ?thesis
    by (auto simp: kenwood_set_def run_state_bind)
qed

subsection \<open>What the radio must do\<close>

text \<open>The texts that tell and set the frequency of VFO A or B.\<close>

definition dial_letter :: "vfo_t \<Rightarrow> char" where
  "dial_letter cv = (if cv = RIG_VFO_B then CHR ''B'' else CHR ''A'')"

definition dial_text :: "vfo_t \<Rightarrow> nat \<Rightarrow> string" where
  "dial_text cv n = [CHR ''F'', dial_letter cv] @ pad0 11 (int n)"

text \<open>
  \<open>at_vfo cv d\<close>: the radio waits for a command, and VFO \<open>cv\<close> can be tuned; \<open>dial cv d\<close> is its frequency.
  \<open>ident\<close> is what the radio answers to the verifying command.
\<close>

locale ken_radio =
  fixes K :: "'d ken" and P :: "'d kenwood_ports" and ident :: string
    and at_vfo :: "vfo_t \<Rightarrow> 'd \<Rightarrow> bool" and dial :: "vfo_t \<Rightarrow> 'd \<Rightarrow> nat" and settable :: "nat \<Rightarrow> bool"
  assumes model: "k_model K = RIG_MODEL_TS890S" and trm: "cmdtrm K = CHR '';''"
    and ident: "accepted K ''ID;'' ''FA'' 0 ident"
    and two_vfos: "at_vfo cv d \<Longrightarrow> cv \<in> {RIG_VFO_A, RIG_VFO_B}"
    and dial_digits: "at_vfo cv d \<Longrightarrow> dial cv d < 10 ^ 11"
    and settable_range: "settable n \<Longrightarrow> 0 < n \<and> n < 10 ^ 11"
    and tells_freq: "at_vfo cv d \<Longrightarrow>
      \<exists>d'. reply_of (k_radio K) (wire_command K [CHR ''F'', dial_letter cv]) d = (on_wire K (dial_text cv (dial cv d)), d')
        \<and> at_vfo cv d' \<and> dial cv d' = dial cv d"
    and takes_freq: "at_vfo cv d \<Longrightarrow> settable n \<Longrightarrow>
      \<exists>d'. reply_of (k_radio K) (wire_command K (dial_text cv n) @ octs ''ID;'') d = (on_wire K ident, d')
        \<and> at_vfo cv d' \<and> dial cv d' = n"

text \<open>The handle is ready when the line is quiet and settings are verified by the identification.\<close>

definition ken_ready :: "(vfo_t \<Rightarrow> 'd \<Rightarrow> bool) \<Rightarrow> vfo_t \<Rightarrow> 'd kenwood_priv_data \<Rightarrow> bool" where
  "ken_ready at_vfo cv p \<longleftrightarrow> usable (k_port p) \<and> incoming (k_port p) = [] \<and> at_vfo cv (device (k_port p))
     \<and> verify_cmd p = ''ID;'' \<and> \<not> no_id p"

definition ken_tuned :: "(vfo_t \<Rightarrow> 'd \<Rightarrow> nat) \<Rightarrow> vfo_t \<Rightarrow> 'd kenwood_priv_data \<Rightarrow> freq_t" where
  "ken_tuned dial cv p = real (dial cv (device (k_port p)))"

definition whole_freq :: "(nat \<Rightarrow> bool) \<Rightarrow> freq_t \<Rightarrow> bool" where
  "whole_freq settable f \<longleftrightarrow> f = real (nat \<lfloor>f\<rfloor>) \<and> settable (nat \<lfloor>f\<rfloor>)"

text \<open>\<^verbatim>\<open>kenwood_set_freq\<close> compares the frequency it is to set with the one the front end reads, which is
  the same only without local oscillator and compensation; and the VFO must be known to the front end by its own
  name.\<close>

definition plain_handle :: "'p rig \<Rightarrow> bool" where
  "plain_handle rig \<longleftrightarrow> lo_freq rig = 0 \<and> vfo_comp rig = 0 \<and> \<not> VFO_HAS_MAIN_SUB rig"

lemma ken_ready_quiet: "ken_ready at_vfo cv (priv rig) \<Longrightarrow> quiet rig"
  by (simp add: ken_ready_def quiet_def stale_def)

lemma trn_done_ready:
  "trn_done rig d rig' \<Longrightarrow> ken_ready at_vfo cv (priv rig) \<Longrightarrow> at_vfo cv d \<Longrightarrow> ken_ready at_vfo cv (priv rig')"
  using ken_only_keeps [of rig rig'] by (simp add: trn_done_def ken_ready_def)

lemma dial_letter_vfo: "cv \<in> {RIG_VFO_A, RIG_VFO_B} \<Longrightarrow> vfo_letter c cv = Some (dial_letter cv)"
  by (auto simp: vfo_letter_def dial_letter_def vfo_defs)

lemma plain_handle_same: "same_setup rig rig' \<Longrightarrow> plain_handle rig \<Longrightarrow> plain_handle rig'"
  by (simp add: plain_handle_def same_setup_def VFO_HAS_MAIN_SUB_def vfo_has_all_def)

lemma plain_fixup: "plain_handle rig \<Longrightarrow> cv \<in> {RIG_VFO_A, RIG_VFO_B} \<Longrightarrow> vfo_fixup rig cv split = cv"
  by (auto simp: plain_handle_def vfo_fixup_def VFO_HAS_MAIN_SUB_A_B_ONLY_def VFO_HAS_MAIN_SUB_ONLY_def vfo_defs)

lemma plain_user_freq: "plain_handle rig \<Longrightarrow> user_freq rig f = f"
  by (simp add: plain_handle_def user_freq_def)

lemma plain_comes_back: "plain_handle rig \<Longrightarrow> comes_back rig f"
  by (simp add: plain_handle_def comes_back_plain)

lemma not_nul: "is_digit c \<Longrightarrow> c \<noteq> NUL" "is_digit c \<Longrightarrow> c \<noteq> CHR '';''"
  by (auto simp: is_digit_def NUL_def)

lemma dial_text_simps:
  assumes "n < 10 ^ 11"
  shows "length (dial_text cv n) = 13" "NUL \<notin> set (dial_text cv n)" "CHR '';'' \<notin> set (dial_text cv n)"
    "drop 2 (dial_text cv n) = pad0 11 (int n)" "hd (dial_text cv n) = CHR ''F''"
    "char_nth (dial_text cv n) 0 = CHR ''F''" "char_nth (dial_text cv n) 1 = dial_letter cv" "dial_text cv n \<noteq> []"
    "\<not> skips_verify (dial_text cv n)" "dial_text cv n \<noteq> ''IF''"
  using assms pad0_length [of 11 n] pad0_digits [of _ 11 n] not_nul
  by (auto simp: dial_text_def dial_letter_def NUL_def skips_verify_def starts_def)

lemma freq_command_text: "n < 10 ^ 11 \<Longrightarrow> freq_command (dial_letter cv) (real n) = dial_text cv n"
  using dial_text_simps(1,2) [of n cv] c_trunc_of_int [of "int n"] snprintf_all [of "dial_text cv n" 16]
  by (simp add: freq_command_def dial_text_def)

lemma accepted_dial:
  assumes "cmdtrm K = CHR '';''" and "n < 10 ^ 11"
  shows "accepted K v [CHR ''F'', dial_letter cv] 50 (dial_text cv n)"
  using assms dial_text_simps [OF assms(2), of cv]
  by (simp add: accepted_def reply_text_def reply_limit_def KENWOOD_MAX_BUF_LEN_def NUL_def)

context ken_radio
begin

lemma get_freq_reads:
  assumes "ken_ready at_vfo (current_vfo rig) (priv rig)" and "v \<in> {RIG_VFO_CURR, current_vfo rig}"
  shows "\<exists>rig'. run_state (kenwood_get_freq K caps v x) rig
      = ((RIG_OK, ken_tuned dial (current_vfo rig) (priv rig)), rig')
    \<and> same_setup rig rig' \<and> cache rig' = cache rig \<and> same_radio (ken_ready at_vfo) (ken_tuned dial) rig rig'"
proof -
  let ?cv = "current_vfo rig" and ?d = "device (k_port (priv rig))"
  have on: "at_vfo ?cv ?d" using assms(1) by (simp add: ken_ready_def)
  then have cv: "?cv \<in> {RIG_VFO_A, RIG_VFO_B}" and n: "dial ?cv ?d < 10 ^ 11" using two_vfos dial_digits by auto
  obtain d' where d': "reply_of (k_radio K) (wire_command K [CHR ''F'', dial_letter ?cv]) ?d
      = (on_wire K (dial_text ?cv (dial ?cv ?d)), d')" "at_vfo ?cv d'" "dial ?cv d' = dial ?cv ?d"
    using tells_freq [OF on] by blast
  have cmd: "\<not> skips_verify [CHR ''F'', dial_letter ?cv]" "no_cached_if [CHR ''F'', dial_letter ?cv] rig"
    by (simp_all add: skips_verify_def starts_def no_cached_if_def)
  obtain rig' where r: "run_state (kenwood_safe_transaction K [CHR ''F'', dial_letter ?cv] 50 13) rig
      = ((RIG_OK, dial_text ?cv (dial ?cv ?d)), rig')" "trn_done rig d' rig'"
    using safe_transaction_delivers [OF ken_ready_quiet [OF assms(1)] cmd _ accepted_dial [OF trm n] _ _ d'(1)]
      dial_text_simps(1) [OF n] by auto
  have mem: "?cv \<noteq> RIG_VFO_MEM" using cv by (auto simp: vfo_defs)
  have t: "run_state (actual_vfo caps {RIG_VFO_CURR} v) rig = (Inr ?cv, rig)"
    using assms(2) cv by (auto simp: actual_vfo_def run_state_bind Let_def vfo_defs)
  have "run_state (kenwood_get_freq K caps v x) rig = ((RIG_OK, ken_tuned dial ?cv (priv rig)), rig')"
    using mem r(1) dial_letter_vfo [OF cv] dial_text_simps(4) [OF n]
    by (simp add: kenwood_get_freq_def run_state_bind t ken_tuned_def scan_freq_def)
  moreover have "same_radio (ken_ready at_vfo) (ken_tuned dial) rig rig'"
    using trn_done_ready [OF r(2) assms(1) d'(2)] r(2) d'(3)
    by (simp add: same_radio_def ken_tuned_def trn_done_def)
  ultimately show ?thesis using ken_only_keeps r(2) unfolding trn_done_def by blast
qed

end

sublocale ken_radio \<subseteq> ken_reader: reader "ts890_table K P (Suc n)" "kenwood_get_freq K (ts890_table K P n)"
    "ken_ready at_vfo" "ken_tuned dial" for n
  by unfold_locales (simp_all add: ts890s_caps_def get_freq_reads)

lemma ts890_table_tracked:
  "tracked (ts890_table K P n) ready tuned s rig \<longleftrightarrow> tracked (ts890_table K P m) ready tuned s rig"
proof -
  have "rig_model (ts890_table K P i) = RIG_MODEL_TS890S" for i
    by (cases i) (simp_all add: ts890s_caps_def ts890s_base_def)
  then show ?thesis by (simp add: tracked_def tuning_setup_def)
qed

context ken_radio
begin

lemma set_freq_tunes:
  assumes "tracked (ts890_table K P (Suc n)) (ken_ready at_vfo) (ken_tuned dial) s rig" and "plain_handle rig"
    and "whole_freq settable f"
  shows "\<exists>rig'. run_state (kenwood_set_freq K (ts890_table K P (Suc n)) P RIG_VFO_CURR f) rig = (RIG_OK, rig')
    \<and> same_setup rig rig' \<and> ken_ready at_vfo (current_vfo rig) (priv rig')
    \<and> ken_tuned dial (current_vfo rig) (priv rig') = f"
proof -
  let ?T = "ts890_table K P (Suc n)" and ?cv = "current_vfo rig"
  define m where "m = nat \<lfloor>f\<rfloor>"
  have m: "f = real m" "settable m" using assms(3) by (simp_all add: whole_freq_def m_def)
  have "at_vfo ?cv (device (k_port (priv rig)))" using assms(1) by (simp add: tracked_def ken_ready_def)
  then have cv: "?cv \<in> {RIG_VFO_A, RIG_VFO_B}" by (rule two_vfos)
  have model_T: "rig_model ?T \<notin> {RIG_MODEL_FTDX101D, RIG_MODEL_IC910}"
    by (simp add: ts890s_caps_def ts890s_base_def ken_models RIG_MODEL_FTDX101D_def RIG_MODEL_IC910_def RIG_MAKE_MODEL_def
        RIG_KENWOOD_def RIG_YAESU_def RIG_ICOM_def MAX_MODELS_PER_BACKEND_def)
  obtain rig1 where r1: "run_state (rig_get_freq ?T P ?cv 0) rig = ((RIG_OK, on_air (ken_tuned dial) rig), rig1)"
    "same_setup rig rig1" "on_air (ken_tuned dial) rig1 = on_air (ken_tuned dial) rig"
    "tracked ?T (ken_ready at_vfo) (ken_tuned dial) s rig1"
    using ken_reader.get_freq_on_run [OF assms(1), of ?cv P 0] plain_fixup [OF assms(2) cv] model_T
      plain_user_freq [OF assms(2)] by auto
  have v1: "current_vfo rig1 = ?cv" using r1(2) by (simp add: same_setup_def)
  have ready: "ken_ready at_vfo ?cv (priv rig1)" using r1(4) v1 by (simp add: tracked_def)
  have t: "run_state (actual_vfo ?T {RIG_VFO_CURR, RIG_VFO_NONE} RIG_VFO_CURR) rig = (Inr ?cv, rig)"
    using cv by (auto simp: actual_vfo_def run_state_bind Let_def vfo_defs)
  show ?thesis
  proof (cases "on_air (ken_tuned dial) rig = f")
    case True
    then have "run_state (kenwood_set_freq K ?T P RIG_VFO_CURR f) rig = (RIG_OK, rig1)"
      using r1(1) by (simp add: kenwood_set_freq_def run_state_bind t del: ts890_table.simps)
    then show ?thesis using True r1(2,3) ready v1 by (auto simp: on_air_def)
  next
    case False
    have n: "m < 10 ^ 11" using settable_range [OF m(2)] by simp
    obtain d' where d': "reply_of (k_radio K) (wire_command K (dial_text ?cv m) @ octs ''ID;'') (device (k_port (priv rig1)))
        = (on_wire K ident, d')" "at_vfo ?cv d'" "dial ?cv d' = m"
      using takes_freq [OF _ m(2)] ready unfolding ken_ready_def by blast
    have verify: "verify_cmd (priv rig1) = ''ID;''" "\<not> no_id (priv rig1)" using ready by (simp_all add: ken_ready_def)
    have acc: "accepted K (verify_cmd (priv rig1)) (dial_text ?cv m) 0 ident"
      using ident dial_text_simps(6) [OF n, of ?cv] by (auto simp: accepted_def verify starts_def)
    obtain rig2 where r2: "run_state (kenwood_set K (dial_text ?cv m)) rig1 = (RIG_OK, rig2)" "trn_done rig1 d' rig2"
      using set_delivers [OF ken_ready_quiet [OF ready] _ verify(2) _ acc] dial_text_simps(9,10) [OF n, of ?cv] d'(1)
      unfolding verify(1) by blast
    have rep: "run_state (ts590_repair K c rc) r = (rc, r)" for c rc r
      using model by (simp add: ts590_repair_def run_state_bind ken_models RIG_MAKE_MODEL_def)
    have "run_state (kenwood_set_freq K ?T P RIG_VFO_CURR f) rig = (RIG_OK, rig2)"
      using r1(1) r2(1) False dial_letter_vfo [OF cv] freq_command_text [OF n, of ?cv]
      by (simp add: kenwood_set_freq_def run_state_bind t rep m(1) del: ts890_table.simps)
    moreover have "same_setup rig rig2" using same_setup_trans [OF r1(2)] ken_only_keeps r2(2) by (auto simp: trn_done_def)
    moreover have "ken_tuned dial ?cv (priv rig2) = f"
      using r2(2) d'(3) by (simp add: ken_tuned_def trn_done_def m(1))
    ultimately show ?thesis using trn_done_ready [OF r2(2) ready d'(2)] by blast
  qed
qed

end

sublocale ken_radio \<subseteq> ken_tuner: tuner "ts890_table K P (Suc (Suc n))" "kenwood_get_freq K (ts890_table K P (Suc n))"
    "ken_ready at_vfo" "ken_tuned dial" "kenwood_set_freq K (ts890_table K P (Suc n)) P" "whole_freq settable"
    plain_handle for n
proof unfold_locales
  show "set_freq (ts890_table K P (Suc (Suc n))) = Some (kenwood_set_freq K (ts890_table K P (Suc n)) P)"
    by (simp add: ts890s_caps_def)
  show "whole_freq settable f \<Longrightarrow> f \<noteq> 0" for f
    using settable_range [of "nat \<lfloor>f\<rfloor>"] by (auto simp: whole_freq_def)
qed (blast intro: plain_handle_same, rule set_freq_tunes,
    auto simp only: ts890_table_tracked [of K P "Suc (Suc n)" _ _ _ _ "Suc n"])

end
