(* ===== verification/Hamlib_Simkenwood.thy ===== *)
theory Hamlib_Simkenwood
  imports Hamlib_Kenwood_Stack
begin

text \<open>
  The simulated Kenwood radio \<^verbatim>\<open>simulators/simkenwood.c\<close>, as the device at the other end of the line,
  and the library above it.
\<close>

subsection \<open>The simulator\<close>

text \<open>The variables of \<^verbatim>\<open>main\<close>, with what \<^verbatim>\<open>getmyline\<close> has read so far; \<open>sk_gone\<close>: the
  program has ended; \<open>sk_overrun\<close>: it has written behind its buffer. Numbers are not bounded here.\<close>

record simkenwood =
  sk_buf :: string
  sk_freqa :: int
  sk_freqb :: int
  sk_modeA :: int
  sk_filternum :: int
  sk_datamode :: int
  sk_ant :: int
  sk_gone :: bool
  sk_overrun :: bool

definition simkenwood_start :: simkenwood where
  "simkenwood_start = \<lparr>sk_buf = [], sk_freqa = 14074000, sk_freqb = 140735000, sk_modeA = 0, sk_filternum = 7,
     sk_datamode = 0, sk_ant = 0, sk_gone = False, sk_overrun = False\<rparr>"

text \<open>\<^verbatim>\<open>sscanf\<close> of a number behind two letters.\<close>

definition sk_scan :: "string \<Rightarrow> int \<Rightarrow> int" where
  "sk_scan buf i = (case scan_int (drop 2 buf) of None \<Rightarrow> i | Some (j, _) \<Rightarrow> j)"

text \<open>One round of the loop of \<^verbatim>\<open>main\<close>: what is written, and the variables. To \<^verbatim>\<open>FB;\<close> the answer
  is the frequency of VFO A, under the name \<^verbatim>\<open>FA\<close>.\<close>

definition sk_command :: "string \<Rightarrow> simkenwood \<Rightarrow> string \<times> simkenwood" where
  "sk_command buf d =
     (if buf = ''RM5;'' then (''RM5100000;'', d)
      else if buf = ''AN0;'' then (''AN030;'', d)
      else if buf = ''IF;'' then (''IF000503130001000+0000000000030000000;'', d)
      else if buf = ''ID;'' then (''ID'' @ pad0 3 24 @ '';'', d)
      else if buf = ''VS;'' then (''VS0;'', d)
      else if buf = ''EX032;''
      then (''EX032'' @ pad0 1 ((sk_ant d + 1) mod 3) @ '';'', d\<lparr>sk_ant := (sk_ant d + 1) mod 3\<rparr>)
      else if buf = ''FA;'' \<or> buf = ''FB;'' then (''FA'' @ pad0 11 (sk_freqa d) @ '';'', d)
      else if starts ''FA'' buf then ([], d\<lparr>sk_freqa := sk_scan buf (sk_freqa d)\<rparr>)
      else if starts ''FB'' buf then ([], d\<lparr>sk_freqb := sk_scan buf (sk_freqb d)\<rparr>)
      else if starts ''AI;'' buf then (''AI0;'', d)
      else if starts ''SA;'' buf then (''SA0;'', d)
      else if starts ''MD;'' buf then (''MD'' @ int_str (sk_modeA d) @ '';'', d)
      else if starts ''MD'' buf then ([], d\<lparr>sk_modeA := sk_scan buf (sk_modeA d)\<rparr>)
      else if starts ''FL;'' buf then (''FL'' @ pad0 3 (sk_filternum d) @ '';'', d)
      else if starts ''FL'' buf then ([], d\<lparr>sk_filternum := sk_scan buf (sk_filternum d)\<rparr>)
      else if starts ''DA;'' buf then (''DA'' @ int_str (sk_datamode d) @ '';'', d)
      else if starts ''DA'' buf then ([], d\<lparr>sk_datamode := sk_scan buf (sk_datamode d)\<rparr>)
      else ([], d))"

text \<open>An octet: \<^verbatim>\<open>getmyline\<close> collects up to a semicolon. A line that begins with a zero is empty, which
  ends the program.\<close>

definition simkenwood_radio :: "simkenwood answers" where
  "simkenwood_radio b d =
     (let c = char_at b; buf = sk_buf d @ [c];
          d1 = d\<lparr>sk_buf := buf, sk_overrun := sk_overrun d \<or> 256 < length buf\<rparr>;
          s = takeWhile (\<lambda>c. c \<noteq> NUL) buf
      in if sk_gone d then ([], d)
         else if c \<noteq> CHR '';'' then ([], d1)
         else if s = [] then ([], d1\<lparr>sk_gone := True\<rparr>)
         else let (out, d2) = sk_command s d1 in (map Octet (octs out), d2\<lparr>sk_buf := []\<rparr>))"

subsection \<open>A command as a whole\<close>

definition sk_idle :: "simkenwood \<Rightarrow> bool" where
  "sk_idle d \<longleftrightarrow> sk_buf d = [] \<and> \<not> sk_gone d \<and> \<not> sk_overrun d"

lemma sk_collect:
  assumes "\<not> sk_gone d" and "CHR '';'' \<notin> set s" and "length (sk_buf d) + length s \<le> 256"
  shows "reply_of simkenwood_radio (octs s) d = ([], d\<lparr>sk_buf := sk_buf d @ s\<rparr>)"
  using assms
proof (induction s arbitrary: d)
  case (Cons c s)
  have "simkenwood_radio (octet_of c) d = ([], d\<lparr>sk_buf := sk_buf d @ [c]\<rparr>)"
  proof -
    have "c \<noteq> CHR '';''" using Cons.prems(2) by auto
    then show ?thesis using Cons.prems by (simp add: simkenwood_radio_def Let_def)
  qed
  then show ?case using Cons.IH [of "d\<lparr>sk_buf := sk_buf d @ [c]\<rparr>"] Cons.prems by simp
qed simp

lemma sk_command_buf:
  "sk_command buf (d\<lparr>sk_buf := b, sk_overrun := r\<rparr>)
    = (fst (sk_command buf d), (snd (sk_command buf d))\<lparr>sk_buf := b, sk_overrun := r\<rparr>)"
  by (simp add: sk_command_def)

lemma sk_command_overrun: "sk_overrun (snd (sk_command s d)) = sk_overrun d"
  by (simp add: sk_command_def)

lemma sk_round:
  assumes "sk_idle d" and "CHR '';'' \<notin> set s" and "NUL \<notin> set s" and "length s < 256"
  shows "reply_of simkenwood_radio (octs (s @ '';'')) d
    = (map Octet (octs (fst (sk_command (s @ '';'') d))), (snd (sk_command (s @ '';'') d))\<lparr>sk_buf := []\<rparr>)"
proof -
  have t: "takeWhile (\<lambda>c. c \<noteq> NUL) (s @ '';'') = s @ '';''"
    using assms(3) by (intro takeWhile_eq_all_conv [THEN iffD2]) (auto simp: NUL_def)
  have "reply_of simkenwood_radio (octs s) d = ([], d\<lparr>sk_buf := s\<rparr>)"
    using sk_collect [of d s] assms by (simp add: sk_idle_def)
  then show ?thesis
    using assms t sk_command_overrun [of "s @ '';''" d]
    by (simp add: reply_of_append simkenwood_radio_def sk_idle_def Let_def sk_command_buf case_prod_beta)
qed

lemma sk_keeps_idle: "sk_idle d \<Longrightarrow> sk_idle ((snd (sk_command s d))\<lparr>sk_buf := []\<rparr>)"
  by (simp add: sk_idle_def sk_command_def)

subsection \<open>The back end's contract\<close>

definition simkenwood_ken :: "simkenwood ken \<Rightarrow> simkenwood ken" where
  "simkenwood_ken E = (ts890s_ken E)\<lparr>k_radio := simkenwood_radio\<rparr>"

lemma simkenwood_ken_simps [simp]:
  "k_model (simkenwood_ken E) = RIG_MODEL_TS890S" "cmdtrm (simkenwood_ken E) = CHR '';''"
  "if_len (simkenwood_ken E) = 37" "k_radio (simkenwood_ken E) = simkenwood_radio"
  "mode_table (simkenwood_ken E) = kenwood_mode_table"
  by (simp_all add: simkenwood_ken_def ts890s_ken_def if_len_def mode_table_def)

definition sk_at :: "vfo_t \<Rightarrow> simkenwood \<Rightarrow> bool" where
  "sk_at cv d \<longleftrightarrow> cv = RIG_VFO_A \<and> sk_idle d \<and> 0 < sk_freqa d \<and> sk_freqa d < 2 ^ 31"

definition sk_dial :: "vfo_t \<Rightarrow> simkenwood \<Rightarrow> nat" where
  "sk_dial cv d = nat (sk_freqa d)"

definition sk_settable :: "nat \<Rightarrow> bool" where
  "sk_settable n \<longleftrightarrow> 0 < n \<and> n < 2 ^ 31"

lemma wire_simkenwood: "CHR '';'' \<notin> set s \<Longrightarrow> s \<noteq> [] \<Longrightarrow> CHR 0x0D \<notin> set s \<Longrightarrow>
    wire_command (simkenwood_ken E) s = octs (s @ '';'')"
  by (cases s rule: rev_cases) (auto simp: wire_command_def)

lemma sk_tells:
  assumes "sk_at cv d"
  shows "reply_of simkenwood_radio (octs ''FA;'') d = (on_wire (simkenwood_ken E) (dial_text RIG_VFO_A (sk_dial cv d)), d)"
proof -
  have "d\<lparr>sk_buf := []\<rparr> = d" using assms by (simp add: sk_at_def sk_idle_def)
  then show ?thesis
    using assms sk_round [of d "''FA''"]
    by (simp del: octs_simps reply_of.simps
        add: sk_at_def sk_command_def NUL_def on_wire_def dial_text_def dial_letter_def sk_dial_def vfo_defs)
qed

lemma sk_ident:
  assumes "sk_idle d"
  shows "reply_of simkenwood_radio (octs ''ID;'') d = (on_wire (simkenwood_ken E) ''ID024'', d)"
proof -
  have p: "pad0 3 24 = ''024''" by code_simp
  have "d\<lparr>sk_buf := []\<rparr> = d" using assms by (simp add: sk_idle_def)
  then show ?thesis
    using assms sk_round [of d "''ID''"] by (simp add: sk_command_def NUL_def on_wire_def p)
qed

lemma sk_takes:
  assumes "sk_idle d" and "n < 10 ^ 11"
  shows "reply_of simkenwood_radio (octs (dial_text RIG_VFO_A n @ '';'')) d = ([], d\<lparr>sk_freqa := int n\<rparr>)"
proof -
  let ?t = "dial_text RIG_VFO_A n"
  have t: "?t = CHR ''F'' # CHR ''A'' # pad0 11 (int n)" "length (pad0 11 (int n)) = 11"
    using dial_text_simps(1) [OF assms(2), of RIG_VFO_A] by (simp_all add: dial_text_def dial_letter_def vfo_defs)
  have ne: "pad0 11 (int n) \<noteq> []" using t(2) by auto
  have "sk_command (?t @ '';'') d = ([], d\<lparr>sk_freqa := int n\<rparr>)"
    using ne scan_pad0 [of "'';''" 11 "int n"]
    by (cases "pad0 11 (int n)") (simp_all add: t(1) sk_command_def starts_def sk_scan_def is_digit_def)
  moreover have "(d\<lparr>sk_freqa := int n\<rparr>)\<lparr>sk_buf := []\<rparr> = d\<lparr>sk_freqa := int n\<rparr>"
    using assms(1) by (simp add: sk_idle_def)
  ultimately show ?thesis
    using sk_round [OF assms(1) dial_text_simps(3,2) [OF assms(2), of RIG_VFO_A]] t(1,2) by simp
qed

interpretation simkenwood: ken_radio "simkenwood_ken E" P "''ID024''" sk_at sk_dial sk_settable for E P
proof
  let ?K = "simkenwood_ken E"
  show "k_model ?K = RIG_MODEL_TS890S" "cmdtrm ?K = CHR '';''" by simp_all
  show "accepted ?K ''ID;'' ''FA'' 0 ''ID024''"
    by (simp add: accepted_def reply_text_def NUL_def reply_limit_def KENWOOD_MAX_BUF_LEN_def starts_def)
  show "sk_at cv d \<Longrightarrow> cv \<in> {RIG_VFO_A, RIG_VFO_B}" for cv d by (simp add: sk_at_def)
  show "sk_at cv d \<Longrightarrow> sk_dial cv d < 10 ^ 11" for cv d by (auto simp: sk_at_def sk_dial_def)
  show "sk_settable n \<Longrightarrow> 0 < n \<and> n < 10 ^ 11" for n by (simp add: sk_settable_def)
  show "\<exists>d'. reply_of (k_radio ?K) (wire_command ?K [CHR ''F'', dial_letter cv]) d = (on_wire ?K (dial_text cv (sk_dial cv d)), d')
      \<and> sk_at cv d' \<and> sk_dial cv d' = sk_dial cv d" if "sk_at cv d" for cv d
  proof -
    have "cv = RIG_VFO_A" using that by (simp add: sk_at_def)
    moreover have "wire_command ?K ''FA'' = octs ''FA;''" by (simp add: wire_simkenwood)
    moreover have "dial_letter RIG_VFO_A = CHR ''A''" by (simp add: dial_letter_def vfo_defs)
    ultimately show ?thesis using that sk_tells [OF that, of E] by simp
  qed
  show "\<exists>d'. reply_of (k_radio ?K) (wire_command ?K (dial_text cv n) @ octs ''ID;'') d = (on_wire ?K ''ID024'', d')
      \<and> sk_at cv d' \<and> sk_dial cv d' = n" if "sk_at cv d" "sk_settable n" for cv d n
  proof -
    have n: "n < 10 ^ 11" using that(2) by (simp add: sk_settable_def)
    have "c \<noteq> CHR 0x0D" if "c \<in> set (dial_text cv n)" for c
      using that pad0_digits [of c 11 n] by (auto simp: dial_text_def dial_letter_def is_digit_def split: if_splits)
    then have w: "wire_command ?K (dial_text cv n) = octs (dial_text cv n @ '';'')"
      using dial_text_simps(3,8) [OF n, of cv] by (intro wire_simkenwood) auto
    have d: "sk_idle d" "cv = RIG_VFO_A" using that(1) by (simp_all add: sk_at_def)
    moreover have i: "sk_idle (d\<lparr>sk_freqa := int n\<rparr>)" using d(1) by (simp add: sk_idle_def)
    moreover have "sk_at cv (d\<lparr>sk_freqa := int n\<rparr>)"
      using that d by (simp add: sk_at_def sk_settable_def sk_idle_def)
    moreover have "reply_of simkenwood_radio (wire_command ?K (dial_text cv n) @ octs ''ID;'') d
        = (on_wire ?K ''ID024'', d\<lparr>sk_freqa := int n\<rparr>)"
      unfolding w unfolding d(2)
      by (simp only: reply_of_append sk_takes [OF d(1) n] sk_ident [OF i, of E] fst_conv snd_conv append_Nil)
    ultimately show ?thesis by (intro exI [of _ "d\<lparr>sk_freqa := int n\<rparr>"]) (simp add: sk_dial_def)
  qed
qed

subsection \<open>The stack over the simulator\<close>

text \<open>C10: the library over the simulated Kenwood radio, from the API to the octets on the line. Take an open
  handle of a TS-890S on VFO A whose line is quiet, without local oscillator and compensation, with no watch on the
  knob (\<^verbatim>\<open>twiddle_timeout\<close>) and no VFO excepted from reading (\<^verbatim>\<open>uplink\<close>), on which the cache
  holds nothing or the right frequency, and at the other end the simulator. Then any sequence of
  \<^verbatim>\<open>rig_set_freq\<close> and \<^verbatim>\<open>rig_get_freq\<close> calls on the current VFO is answered as a plain
  variable would, for all frequencies in whole Hertz below 2147 MHz, whatever the clock does in
  between: each call returns \<^verbatim>\<open>RIG_OK\<close>, each read the last frequency set.\<close>

theorem kenwood_tuning_session:
  assumes "tracked (ts890_table (simkenwood_ken E) P (Suc (Suc n))) (ken_ready sk_at) (ken_tuned sk_dial) s rig"
    and "plain_handle rig" and "\<forall>f. Tune f \<in> set rs \<longrightarrow> whole_freq sk_settable (raw_freq rig f)"
  shows "fst (run_state (serve (ts890_table (simkenwood_ken E) P (Suc (Suc n))) P rs) rig)
    = promised (user_freq rig (ken_tuned sk_dial (current_vfo rig) (priv rig))) rs"
  using simkenwood.ken_tuner.serve_run [OF assms(1,2)] assms(3) plain_comes_back [OF assms(2)]
  by (auto simp: on_air_def simp del: ts890_table.simps)

lemma simkenwood_handle_tracked:
  "tracked (ts890_table (simkenwood_ken E) P n) (ken_ready sk_at) (ken_tuned sk_dial) MainA
     (ken_handle (fresh_line [] simkenwood_start))"
  by (simp add: tracked_def tuning_setup_def on_air_def coherent_def ken_ready_def ken_tuned_def usable_def sk_idle_def
      ken_handle_def fresh_line_def simkenwood_start_def sk_at_def sk_dial_def zero_ken_def
      zero_rig_def zero_cache_def cache_vfo_def freq_slot_def vfo_defs)

lemma simkenwood_handle_plain: "plain_handle (ken_handle (fresh_line [] simkenwood_start))"
  by (simp add: plain_handle_def VFO_HAS_MAIN_SUB_def vfo_has_all_def ken_handle_def zero_rig_def vfo_defs)

lemma kenwood_tuning_session_witness:
  "fst (run_state (serve (ts890_table (simkenwood_ken (bench_ken simkenwood_radio)) dead_ports 2) dead_ports
      [Read 0, Tune 7074000, Read 0, Pause \<lparr>tv_sec = 500, tv_nsec = 0\<rparr>, Tune 144174000, Read 7])
      (ken_handle (fresh_line [] simkenwood_start)))
    = [(RIG_OK, 14074000), (RIG_OK, 7074000), (RIG_OK, 7074000), (RIG_OK, 144174000), (RIG_OK, 144174000)]"
proof -
  let ?rig = "ken_handle (fresh_line [] simkenwood_start)"
  have "lo_freq ?rig = 0" "vfo_comp ?rig = 0" by (simp_all add: ken_handle_def zero_rig_def)
  moreover have "ken_tuned sk_dial (current_vfo ?rig) (priv ?rig) = 14074000"
    by (simp add: ken_tuned_def sk_dial_def ken_handle_def zero_ken_def fresh_line_def simkenwood_start_def zero_rig_def)
  ultimately show ?thesis
    using kenwood_tuning_session [OF simkenwood_handle_tracked simkenwood_handle_plain, of
        "[Read 0, Tune 7074000, Read 0, Pause \<lparr>tv_sec = 500, tv_nsec = 0\<rparr>, Tune 144174000, Read 7]"
        "bench_ken simkenwood_radio" dead_ports 0]
    by (simp del: serve.simps ts890_table.simps
        add: raw_freq_def user_freq_def whole_freq_def sk_settable_def flip: numeral_2_eq_2)
qed

end
