(* ===== verification/Hamlib_Kenwood_Shape.thy ===== *)
theory Hamlib_Kenwood_Shape
  imports Hamlib_Kenwood_Stack
begin

text \<open>
  The private data of the Kenwood back end keep their shape: every operation leaves strings behind that fit the
  arrays of \<^verbatim>\<open>struct kenwood_priv_data\<close>. The operations call the front end, which calls them again: what
  the front end preserves is in locale \<open>kept_ops\<close>, which assumes the operations of the table to preserve it, and
  is interpreted on the table of the TS-890S at any depth.
\<close>

subsection \<open>Following the text of an operation\<close>

named_theorems keeping \<open>rules to show that an operation preserves a property\<close>

text \<open>A property of the private data.\<close>

definition on_priv :: "('p \<Rightarrow> bool) \<Rightarrow> 'p rig \<Rightarrow> bool" where
  "on_priv I rig \<longleftrightarrow> I (priv rig)"

lemma keeping_basic [keeping]:
  "keeps Q (State_Monad.return x)" "keeps Q (gets f)"
  by simp_all

lemma keeping_bind [keeping]: "keeps Q m \<Longrightarrow> (\<And>x. keeps Q (f x)) \<Longrightarrow> keeps Q (State_Monad.bind m f)"
  by (rule keeps_bind)

lemma keeping_if [keeping]: "(b \<Longrightarrow> keeps Q m) \<Longrightarrow> (\<not> b \<Longrightarrow> keeps Q n) \<Longrightarrow> keeps Q (if b then m else n)"
  by simp

lemma keeping_when [keeping]: "(b \<Longrightarrow> keeps Q m) \<Longrightarrow> keeps Q (do_when b m)"
  by (simp add: do_when_def)

lemma keeping_cases [keeping]:
  "(x = None \<Longrightarrow> keeps Q a) \<Longrightarrow> (\<And>y. x = Some y \<Longrightarrow> keeps Q (f y)) \<Longrightarrow> keeps Q (case x of None \<Rightarrow> a | Some y \<Rightarrow> f y)"
  "(\<And>y. z = Inl y \<Longrightarrow> keeps Q (g y)) \<Longrightarrow> (\<And>y. z = Inr y \<Longrightarrow> keeps Q (h y))
    \<Longrightarrow> keeps Q (case z of Inl y \<Rightarrow> g y | Inr y \<Rightarrow> h y)"
  "(\<And>u v. keeps Q (k u v)) \<Longrightarrow> keeps Q (case w of (u, v) \<Rightarrow> k u v)"
  by (auto split: option.splits sum.splits prod.splits)

lemma keeping_modify [keeping]: "(\<And>rig. priv (f rig) = priv rig) \<Longrightarrow> keeps (on_priv I) (modify f)"
  by (simp add: keeps_def on_priv_def)

lemma keeping_check [keeping]: "keeps Q m \<Longrightarrow> keeps Q (check_rig_arg err m)"
  by (simp add: check_rig_arg_def keeping)

lemma on_cache_priv [simp]: "priv (on_cache f rig) = priv rig"
  by (simp add: on_cache_def)

lemma keeping_cache [keeping]:
  "keeps (on_priv I) (rig_set_cache_freq v f)" "keeps (on_priv I) (rig_get_cache v out)"
  "keeps (on_priv I) (rig_set_cache_mode v m w)" "keeps (on_priv I) age_of_vfo" "keeps (on_priv I) age_of_split"
  "keeps (on_priv I) (cache_vfo_now v)" "keeps (on_priv I) (cache_split_now s v)"
  by (auto simp: keeps_def on_priv_def rig_set_cache_freq_def rig_get_cache_def rig_set_cache_mode_def age_of_vfo_def
      age_of_split_def cache_vfo_now_def cache_split_now_def Let_def split: option.split)

subsection \<open>The front end\<close>

text \<open>The operations of a table that the Kenwood back end calls through the front end, for a model whose
  PTT is not asked for while a frequency is read.\<close>

locale kept_ops =
  fixes I :: "'p \<Rightarrow> bool" and caps :: "'p caps"
  assumes plain_model: "rig_model caps \<notin> {RIG_MODEL_FTDX101D, RIG_MODEL_IC910}"
    and ops: "set_freq caps = Some f1 \<Longrightarrow> \<forall>vfo freq. keeps (on_priv I) (f1 vfo freq)"
      "get_freq caps = Some f2 \<Longrightarrow> \<forall>vfo freq. keeps (on_priv I) (f2 vfo freq)"
      "get_mode caps = Some f3 \<Longrightarrow> \<forall>vfo mw. keeps (on_priv I) (f3 vfo mw)"
      "set_vfo caps = Some f4 \<Longrightarrow> \<forall>vfo. keeps (on_priv I) (f4 vfo)"
      "get_vfo caps = Some f5 \<Longrightarrow> \<forall>vfo. keeps (on_priv I) (f5 vfo)"
      "get_split_vfo caps = Some f6 \<Longrightarrow> \<forall>vfo split. keeps (on_priv I) (f6 vfo split)"
      "set_powerstat caps = Some f7 \<Longrightarrow> \<forall>status. keeps (on_priv I) (f7 status)"
      "get_powerstat caps = Some f8 \<Longrightarrow> \<forall>status. keeps (on_priv I) (f8 status)"
      "get_ext_func caps = Some f9 \<Longrightarrow> \<forall>token vfo status. keeps (on_priv I) (f9 token vfo status)"
begin

lemma kept_power: "keeps (on_priv I) (rig_set_powerstat caps status)" "keeps (on_priv I) (rig_get_powerstat caps status)"
  unfolding rig_set_powerstat_def rig_get_powerstat_def by (intro keeping; auto dest!: ops)+

lemma kept_get_vfo: "keeps (on_priv I) (rig_get_vfo caps v)"
  unfolding rig_get_vfo_def Let_def by (intro keeping; auto dest!: ops)

lemma kept_twiddling: "keeps (on_priv I) (twiddling caps)"
  unfolding twiddling_def by (intro keeping; auto dest!: ops)

lemma kept_set_vfo: "keeps (on_priv I) (rig_set_vfo caps P v)"
  unfolding rig_set_vfo_def select_vfo_def Let_def by (intro keeping kept_get_vfo kept_twiddling; auto dest!: ops split: if_splits)

lemma kept_get_freq: "keeps (on_priv I) (rig_get_freq caps P v f)"
  using plain_model
  unfolding rig_get_freq_def get_freq_via_cache_def get_freq_uncached_def get_freq_direct_def get_freq_swap_def
    get_freq_end_def Let_def
  by (intro keeping; auto dest!: ops)

lemma kept_set_freq: "keeps (on_priv I) (rig_set_freq caps P v f)"
  unfolding rig_set_freq_def set_freq_direct_def set_freq_swap_def set_freq_verify_def set_freq_end_def
    set_freq_ignored_def Let_def
  by (intro keeping kept_set_vfo kept_twiddling kept_get_freq; auto dest!: ops)

lemma kept_get_mode: "keeps (on_priv I) (rig_get_mode caps P v mw)"
  unfolding rig_get_mode_def get_mode_swap_def get_mode_end_def Let_def by (intro keeping; auto dest!: ops)

lemma kept_get_split: "keeps (on_priv I) (rig_get_split_vfo caps v out)"
  unfolding rig_get_split_vfo_def by (intro keeping; auto dest!: ops)

lemma kept_ext_func: "keeps (on_priv I) (rig_get_ext_func caps v token out)"
  unfolding rig_get_ext_func_def on_target_def by (intro keeping; auto dest!: ops)

lemmas kept = kept_power kept_get_vfo kept_get_freq kept_set_freq kept_get_mode kept_get_split kept_ext_func

end

subsection \<open>Transactions\<close>

text \<open>The strings fit: \<^verbatim>\<open>info\<close> and \<^verbatim>\<open>last_if_response\<close> have 128 octets, \<^verbatim>\<open>verify_cmd\<close> four,
  with a zero at the end; and the verifying command is one of the three that the back end uses.\<close>

definition ken_shape :: "'d ken \<Rightarrow> 'd kenwood_priv_data \<Rightarrow> bool" where
  "ken_shape K p \<longleftrightarrow> length (info p) < KENWOOD_MAX_BUF_LEN \<and> length (last_if_response p) \<le> if_len K
     \<and> verify_cmd p \<in> {[cmdtrm K], ''ID'' @ [cmdtrm K], ''FA'' @ [cmdtrm K]}"

lemma keeping_ken [keeping]:
  "(\<And>p. I p \<Longrightarrow> I (f p)) \<Longrightarrow> keeps (on_priv I) (upd_ken f)"
  "(\<And>p l. I p \<Longrightarrow> I (p\<lparr>k_port := l\<rparr>)) \<Longrightarrow> keeps (on_priv I) (ken_port g)"
  "keeps (on_priv I) (ken_sleep K us)"
  by (simp_all add: keeps_def on_priv_def run_ken_port)

text \<open>What a transaction writes into the private data itself.\<close>

definition trn_kept :: "'d ken \<Rightarrow> ('d kenwood_priv_data \<Rightarrow> bool) \<Rightarrow> bool" where
  "trn_kept K I \<longleftrightarrow> (\<forall>p. I p \<longrightarrow> (\<forall>l a c w s. I (p\<lparr>k_port := l\<rparr>) \<and> I (p\<lparr>transaction_active := a\<rparr>)
     \<and> I (p\<lparr>cache_start := c\<rparr>) \<and> I (p\<lparr>transaction_active := a, post_write_delay := w\<rparr>)
     \<and> I (p\<lparr>cache_start := c, last_if_response := take (if_len K) s\<rparr>)))"

lemma trn_kept_shape [simp]: "trn_kept K (ken_shape K)"
  by (simp add: trn_kept_def ken_shape_def)

lemma keeping_write: "trn_kept K I \<Longrightarrow> keeps (on_priv I) (kenwood_write K cmd sz)"
  unfolding kenwood_write_def by (intro keeping; simp add: trn_kept_def)

lemma keeping_read: "trn_kept K I \<Longrightarrow> keeps (on_priv I) (kenwood_read K retry cmd sz n)"
  unfolding kenwood_read_def Let_def by (intro keeping; auto simp: trn_kept_def split: ken_step.split intro!: keeping)

lemma loop_kept:
  "trn_kept K I \<Longrightarrow> on_priv I rig \<Longrightarrow> on_priv I (snd (kenwood_loop K retry cmd sz wr n rig))"
proof (induction K retry cmd sz wr n rig rule: kenwood_loop.induct)
  case (1 K retry cmd sz wr n rig)
  let ?sent = "if wr then run_state (kenwood_write K cmd sz) rig else (None, rig)"
  have w1: "on_priv I (snd ?sent)"
    using 1(4) keeping_write [OF 1(3), of cmd sz] by (simp add: keeps_def)
  then have r: "on_priv I (snd (run_state (kenwood_read K retry cmd sz n) (snd ?sent)))"
    using keeping_read [OF 1(3), of retry cmd sz n] by (simp add: keeps_def)
  obtain sent rig1 where s: "?sent = (sent, rig1)" by fastforce
  obtain step rig2 where t: "run_state (kenwood_read K retry cmd sz n) rig1 = (step, rig2)" by fastforce
  show ?case
    using w1 r 1(1) [OF s [symmetric] refl t [symmetric]] 1(2) [OF s [symmetric] refl t [symmetric]] 1(3) s t
    by (subst kenwood_loop.simps) (auto simp: Let_def split: option.split ken_step.split)
qed

text \<open>The data are shorter than the size the caller gives.\<close>

lemma read_data_fits:
  "fst (run_state (kenwood_read K retry cmd sz n) rig) = End (Quit rc s (Some d)) \<Longrightarrow> length d < sz"
  by (auto simp: kenwood_read_def run_state_bind run_ken_port case_prod_beta Let_def judge_reply_def again_or_def
      reply_data_def split: ken_step.splits if_splits)

lemma write_gives_nothing: "fst (run_state (kenwood_write K cmd sz) rig) = Some (Quit rc s x) \<Longrightarrow> x = None"
  by (auto simp: kenwood_write_def run_state_bind run_ken_port split: if_splits)

lemma loop_data_fits:
  "fst (kenwood_loop K retry cmd sz wr n rig) = Quit rc s (Some d) \<Longrightarrow> length d < sz"
proof (induction K retry cmd sz wr n rig rule: kenwood_loop.induct)
  case (1 K retry cmd sz wr n rig)
  let ?sent = "if wr then run_state (kenwood_write K cmd sz) rig else (None, rig)"
  obtain sent rig1 where s: "?sent = (sent, rig1)" by fastforce
  obtain step rig2 where t: "run_state (kenwood_read K retry cmd sz n) rig1 = (step, rig2)" by fastforce
  have "sent \<noteq> Some (Quit rc s (Some d))"
    using s write_gives_nothing [of K cmd sz rig rc s "Some d"] by (auto split: if_splits)
  moreover have "step = End (Quit rc s (Some d)) \<Longrightarrow> length d < sz"
    using read_data_fits [of K retry cmd sz n rig1 rc s d] t by simp
  ultimately show ?case
    using 1(1) [OF s [symmetric] refl t [symmetric]] 1(2) [OF s [symmetric] refl t [symmetric]] 1(3) s t
    by (subst (asm) (3) kenwood_loop.simps) (auto simp: Let_def split: option.splits ken_step.splits)
qed

lemma keeping_cached: "trn_kept K I \<Longrightarrow> keeps (on_priv I) (kenwood_if_cached cmd)"
  unfolding kenwood_if_cached_def Let_def case_prod_beta by (intro keeping; simp add: trn_kept_def)

lemma keeping_quit: "trn_kept K I \<Longrightarrow> keeps (on_priv I) (kenwood_quit K cmd rc s)"
  unfolding kenwood_quit_def by (intro keeping; simp add: trn_kept_def)

lemma keeping_loop: "trn_kept K I \<Longrightarrow> keeps (on_priv I) (State (kenwood_loop K retry cmd sz wr n))"
  by (simp add: keeps_def loop_kept)

lemma transaction_kept:
  assumes "trn_kept K I" shows "keeps (on_priv I) (kenwood_transaction K cmd data sz)"
  unfolding kenwood_transaction_def
  by (intro keeping keeping_cached [OF assms] keeping_loop [OF assms])
    (use assms in \<open>auto simp: trn_kept_def split: ken_end.split intro!: keeping keeping_quit [OF assms]\<close>)

lemma set_kept: "trn_kept K I \<Longrightarrow> keeps (on_priv I) (kenwood_set K cmd)"
  unfolding kenwood_set_def by (intro keeping transaction_kept)

lemma tries_kept: "trn_kept K I \<Longrightarrow> keeps (on_priv I) (safe_tries K cmd sz expected n buf)"
proof (induction n arbitrary: buf)
  case 0
  then show ?case by (subst safe_tries.simps) (intro keeping transaction_kept; simp add: trn_kept_def)
next
  case (Suc n)
  then show ?case by (subst safe_tries.simps) (intro keeping transaction_kept; simp add: trn_kept_def)
qed

lemma safe_kept: "trn_kept K I \<Longrightarrow> keeps (on_priv I) (kenwood_safe_transaction K cmd sz expected)"
  unfolding kenwood_safe_transaction_def by (intro keeping tries_kept)

lemmas [keeping] = transaction_kept [OF trn_kept_shape] set_kept [OF trn_kept_shape] safe_kept [OF trn_kept_shape]

lemma transaction_fits:
  assumes "on_priv (ken_shape K) rig" and "if_len K < sz" and "length data < sz"
  shows "length (snd (fst (run_state (kenwood_transaction K cmd data sz) rig))) < sz"
proof -
  let ?r1 = "rig\<lparr>priv := (priv rig)\<lparr>transaction_active := True,
    post_write_delay := (if is_emulation (priv rig) then 0 else post_write_delay (priv rig))\<rparr>\<rparr>"
  obtain hit r2 where c: "run_state (kenwood_if_cached cmd) ?r1 = (hit, r2)" by fastforce
  have "on_priv (ken_shape K) ?r1" using assms(1) by (simp add: on_priv_def ken_shape_def)
  from keepsD [OF keeping_cached [OF trn_kept_shape] c this] have "length (last_if_response (priv r2)) < sz"
    using assms(2) by (simp add: on_priv_def ken_shape_def)
  then show ?thesis
    using assms(3)
    by (simp add: kenwood_transaction_def run_state_bind c split del: if_split)
      (auto simp: case_prod_beta run_state_bind split: ken_end.split option.split dest!: loop_data_fits)
qed

lemma tries_fit:
  "on_priv (ken_shape K) rig \<Longrightarrow> if_len K < sz \<Longrightarrow> length buf < sz
    \<Longrightarrow> length (snd (fst (run_state (safe_tries K cmd sz expected n buf) rig))) < sz"
proof (induction n arbitrary: buf rig)
  case 0
  then show ?case
    using transaction_fits [of K rig sz buf cmd]
    by (subst safe_tries.simps) (simp add: run_state_bind case_prod_beta)
next
  case (Suc n)
  obtain err buf' rig1 where r: "run_state (kenwood_transaction K cmd buf sz) rig = ((err, buf'), rig1)"
    by (metis prod.exhaust)
  have k: "on_priv (ken_shape K) rig1" "length buf' < sz"
    using keepsD [OF transaction_kept [OF trn_kept_shape] r Suc.prems(1)] transaction_fits [OF Suc.prems, of cmd] r by simp_all
  let ?rig = "rig1\<lparr>priv := (priv rig1)\<lparr>cache_start :=
    snd (elapsed_ms (now rig1) (cache_start (priv rig1)) HAMLIB_ELAPSED_INVALIDATE)\<rparr>,
    now := k_after_sleep K (50 * 1000) (now rig1)\<rparr>"
  have "on_priv (ken_shape K) ?rig" using k(1) by (simp add: on_priv_def ken_shape_def)
  from Suc.IH [OF this Suc.prems(2) k(2)] show ?case
    using r k(2) by (subst safe_tries.simps) (simp add: run_state_bind)
qed

lemma keeping_get_if:
  assumes "if_len K < KENWOOD_MAX_BUF_LEN"
  shows "keeps (on_priv (ken_shape K)) (kenwood_get_if K)"
proof (rule keepsI)
  fix rig
  assume s: "on_priv (ken_shape K) rig"
  obtain rc t rig1 where r: "run_state (kenwood_safe_transaction K ''IF'' KENWOOD_MAX_BUF_LEN (if_len K)) rig = ((rc, t), rig1)"
    by (metis prod.exhaust)
  have "if_len K \<noteq> 0" by (simp add: if_len_def)
  then have "length t < KENWOOD_MAX_BUF_LEN"
    using r tries_fit [OF s assms, of "[]" "''IF''" "if_len K" "nat (k_retry (priv rig)) - 1"] assms
    by (simp add: kenwood_safe_transaction_def run_state_bind)
  then show "on_priv (ken_shape K) (snd (run_state (kenwood_get_if K) rig))"
    using keepsD [OF safe_kept [OF trn_kept_shape] r s] r by (simp add: kenwood_get_if_def run_state_bind on_priv_def ken_shape_def)
qed

subsection \<open>The operations\<close>

locale kenwood_kept = kept_ops "ken_shape K" caps for K :: "'d ken" and caps :: "'d kenwood_ops" +
  assumes if_fits: "if_len K < KENWOOD_MAX_BUF_LEN"
begin

lemmas get_if = keeping_get_if [OF if_fits]

lemma shape_more [simp]:
  "ken_shape K (p\<lparr>k_tx_vfo := v\<rparr>) = ken_shape K p" "ken_shape K (p\<lparr>k_split := s\<rparr>) = ken_shape K p"
  "ken_shape K (p\<lparr>k_split := s, k_tx_vfo := v\<rparr>) = ken_shape K p" "ken_shape K (p\<lparr>k_retry := n\<rparr>) = ken_shape K p"
  "ken_shape K (p\<lparr>trn_state := n\<rparr>) = ken_shape K p" "ken_shape K (p\<lparr>curr_mode := m\<rparr>) = ken_shape K p"
  "ken_shape K (p\<lparr>k_poweron := b\<rparr>) = ken_shape K p" "ken_shape K (p\<lparr>has_rit2 := b\<rparr>) = ken_shape K p"
  "ken_shape K (p\<lparr>fw_rev_uint := n\<rparr>) = ken_shape K p" "ken_shape K (p\<lparr>is_emulation := b\<rparr>) = ken_shape K p"
  "ken_shape K (p\<lparr>ag_format := n\<rparr>) = ken_shape K p" "ken_shape K (p\<lparr>k_modeA := m\<rparr>) = ken_shape K p"
  "ken_shape K (p\<lparr>k_modeB := m\<rparr>) = ken_shape K p" "ken_shape K (p\<lparr>datamodeA := b\<rparr>) = ken_shape K p"
  "ken_shape K (p\<lparr>datamodeB := b\<rparr>) = ken_shape K p" "ken_shape K (p\<lparr>no_id := b\<rparr>) = ken_shape K p"
  by (simp_all add: ken_shape_def)

lemma keeps_get_vfo: "keeps (on_priv (ken_shape K)) (kenwood_get_vfo_if K vfo)"
  unfolding kenwood_get_vfo_if_def Let_def by (intro keeping get_if; simp)

lemma keeps_get_split_vfo: "keeps (on_priv (ken_shape K)) (kenwood_get_split_vfo_if K vfo out)"
  unfolding kenwood_get_split_vfo_if_def if_tx_vfo_def Let_def by (intro keeping get_if; simp)

lemma keeps_set_vfo: "keeps (on_priv (ken_shape K)) (kenwood_set_vfo K vfo)"
  unfolding kenwood_set_vfo_def in_satellite_def Let_def by (intro keeping; simp)

lemma keeps_get_freq: "keeps (on_priv (ken_shape K)) (kenwood_get_freq K caps vfo freq)"
  unfolding kenwood_get_freq_def actual_vfo_def kenwood_get_freq_if_def Let_def
  by (intro keeping kept get_if; simp)

lemma keeps_set_freq: "keeps (on_priv (ken_shape K)) (kenwood_set_freq K caps P vfo freq)"
  unfolding kenwood_set_freq_def actual_vfo_def ts590_repair_def Let_def
  by (intro keeping kept get_if; simp)

lemma keeps_set_split_vfo: "keeps (on_priv (ken_shape K)) (kenwood_set_split_vfo K caps P vfo arg)"
  unfolding kenwood_set_split_vfo_def split_commanded_def kenwood_set_vfo_main_sub_def Let_def
  by (intro keeping kept; simp)

lemma keeps_powerstat:
  "keeps (on_priv (ken_shape K)) (kenwood_set_powerstat K caps P status)"
  "keeps (on_priv (ken_shape K)) (kenwood_get_powerstat K status)"
proof -
  have w: "keeps (on_priv (ken_shape K)) (await_power K caps P n rc)" for n rc
    by (induction n arbitrary: rc) (auto intro!: keeping kept)
  show "keeps (on_priv (ken_shape K)) (kenwood_set_powerstat K caps P status)"
    unfolding kenwood_set_powerstat_def by (intro keeping w; simp)
  show "keeps (on_priv (ken_shape K)) (kenwood_get_powerstat K status)"
    unfolding kenwood_get_powerstat_def by (intro keeping)
qed

lemma keeps_trn: "keeps (on_priv (ken_shape K)) (kenwood_set_trn K trn)" "keeps (on_priv (ken_shape K)) (kenwood_get_trn K trn)"
  unfolding kenwood_set_trn_def kenwood_get_trn_def Let_def by (intro keeping)+

lemma keeps_open: "keeps (on_priv (ken_shape K)) (kenwood_open K caps)"
proof -
  have s: "keeps (on_priv (ken_shape K)) (open_search K caps num list)" for num list
    by (induction list) (auto simp: open_matched_def intro!: keeping kept keeps_trn keeps_get_split_vfo)
  show ?thesis
    unfolding kenwood_open_def kenwood_open_with_def open_power_def open_firmware_def open_identify_def kenwood_get_id_def
      Let_def
    by (intro keeping kept s; simp add: ken_shape_def)
qed

lemma keeps_close: "keeps (on_priv (ken_shape K)) (kenwood_close K caps)"
  unfolding kenwood_close_def by (intro keeping kept keeps_trn)

lemma shape_levels [simp]:
  "ken_shape K (p\<lparr>k_port := l\<rparr>) = ken_shape K p"
  "ken_shape K (p\<lparr>micgain_min := a, micgain_max := b\<rparr>) = ken_shape K p"
  "ken_shape K (p\<lparr>k_power_min := a, k_power_max := b\<rparr>) = ken_shape K p"
  "ken_shape K (p\<lparr>k_power_now := a\<rparr>) = ken_shape K p"
  "ken_shape K (p\<lparr>k_power_now := c, k_power_min := a, k_power_max := b\<rparr>) = ken_shape K p"
  "ken_shape K (p\<lparr>ag_format := a, k_retry := b\<rparr>) = ken_shape K p"
  by (simp_all add: ken_shape_def)

lemma keeps_main_sub:
  "keeps (on_priv (ken_shape K)) (kenwood_set_vfo_main_sub K vfo)"
  "keeps (on_priv (ken_shape K)) (kenwood_get_vfo_main_sub K vfo)"
  unfolding kenwood_set_vfo_main_sub_def kenwood_get_vfo_main_sub_def by (intro keeping)+

lemma keeps_set_mode: "keeps (on_priv (ken_shape K)) (kenwood_set_mode K caps P vfo arg)"
  unfolding kenwood_set_mode_def set_mode_ts990_def note_curr_mode_def set_mode_filter_def kenwood_set_filter_def
    kenwood_set_filter_width_def Let_def
  by (intro keeping kept keeps_main_sub; simp)

lemma keeps_side: "keeps (on_priv (ken_shape K)) (side_char K vfo)"
  unfolding side_char_def by (intro keeping keeps_main_sub)

lemma keeps_get_mode: "keeps (on_priv (ken_shape K)) (kenwood_get_mode K vfo mw)"
  unfolding kenwood_get_mode_def mode_query_def read_submode_def read_passband_def kenwood_get_filter_width_def Let_def
  by (intro keeping keeps_side; simp)

lemma keeps_func:
  "keeps (on_priv (ken_shape K)) (kenwood_set_func K vfo fs)"
  "keeps (on_priv (ken_shape K)) (kenwood_get_func K func vfo status)"
  unfolding kenwood_set_func_def kenwood_get_func_def get_kenwood_func_def Let_def by (intro keeping)+

lemma keeps_rit:
  "keeps (on_priv (ken_shape K)) (kenwood_get_rit K vfo rit)" "keeps (on_priv (ken_shape K)) (kenwood_set_rit K vfo rit)"
proof -
  have r: "keeps (on_priv (ken_shape K)) (repeat_command K cmd n rc)" for cmd n rc
    by (induction n arbitrary: rc) (auto intro!: keeping)
  show "keeps (on_priv (ken_shape K)) (kenwood_get_rit K vfo rit)"
    unfolding kenwood_get_rit_def by (intro keeping get_if)
  then show "keeps (on_priv (ken_shape K)) (kenwood_set_rit K vfo rit)"
    unfolding kenwood_set_rit_def enable_rit_def kenwood_get_rit_def Let_def by (intro keeping get_if keeps_func r)
qed

lemma keeps_tones:
  "keeps (on_priv (ken_shape K)) (kenwood_set_ctcss_tone_tn K vfo tone)"
  "keeps (on_priv (ken_shape K)) (kenwood_get_ctcss_tone K vfo tone)"
  "keeps (on_priv (ken_shape K)) (kenwood_set_ctcss_sql K vfo tone)"
  "keeps (on_priv (ken_shape K)) (kenwood_get_ctcss_sql K vfo tone)"
  unfolding kenwood_set_ctcss_tone_tn_def kenwood_set_ctcss_sql_def set_tone_by_def kenwood_get_ctcss_tone_def
    kenwood_get_ctcss_sql_def Let_def
  by (intro keeping keeps_side get_if)+

lemma keeps_ant:
  "keeps (on_priv (ken_shape K)) (kenwood_set_ant K vfo arg)"
  "keeps (on_priv (ken_shape K)) (kenwood_get_ant K ant vfo out)"
  unfolding kenwood_set_ant_def kenwood_get_ant_def Let_def by (intro keeping keeps_side)+

lemma keeps_memory:
  "keeps (on_priv (ken_shape K)) (kenwood_set_mem K vfo ch)" "keeps (on_priv (ken_shape K)) (kenwood_get_mem K vfo ch)"
  "keeps (on_priv (ken_shape K)) (kenwood_set_channel K vfo chan)"
  "keeps (on_priv (ken_shape K)) (kenwood_get_channel K vfo ro chan)"
  unfolding kenwood_set_mem_def kenwood_get_mem_def kenwood_set_channel_def kenwood_get_channel_def Let_def
  by (intro keeping keeps_side)+

lemma keeps_ext:
  "keeps (on_priv (ken_shape K)) (kenwood_set_ext_parm K token val)"
  "keeps (on_priv (ken_shape K)) (kenwood_get_ext_parm K token val)"
  unfolding kenwood_set_ext_parm_def kenwood_get_ext_parm_def get_kenwood_func_def Let_def
  by (intro keeping get_if; simp)+

lemma keeps_limits:
  "keeps (on_priv (ken_shape K)) (kenwood_get_micgain_minmax K restore)"
  "keeps (on_priv (ken_shape K)) (kenwood_get_power_minmax K restore)"
  unfolding kenwood_get_micgain_minmax_def kenwood_get_power_minmax_def ken_batch_def Let_def
  by (intro keeping; simp)+

lemma keeps_slopes: "keeps (on_priv (ken_shape K)) (slope_entries K caps P vfo filt)"
  unfolding slope_entries_def Let_def by (intro keeping kept)

lemma keeps_set_level: "keeps (on_priv (ken_shape K)) (kenwood_set_level K caps P vfo arg)"
  unfolding kenwood_set_level_def set_rfpower_def set_micgain_def set_slope_def
    kenwood_find_slope_filter_for_frequency_def Let_def
  by (intro keeping keeps_limits keeps_slopes)

lemma keeps_numbers:
  "keeps (on_priv (ken_shape K)) (get_kenwood_level K cmd)" "keeps (on_priv (ken_shape K)) (scaled_level K cmd val)"
  "keeps (on_priv (ken_shape K)) (number_level K cmd sz expected unset f val)"
  unfolding get_kenwood_level_def scaled_level_def number_level_def by (intro keeping)+

lemma keeps_get_level: "keeps (on_priv (ken_shape K)) (kenwood_get_level K caps P level vfo val)"
  unfolding kenwood_get_level_def get_rfpower_def get_af_def probe_af_def get_micgain_def get_slope_def
    kenwood_find_slope_filter_for_value_def Let_def
  by (intro keeping keeps_limits keeps_slopes keeps_numbers; simp)

lemma keeps_keying:
  "keeps (on_priv (ken_shape K)) (kenwood_set_ptt K vfo ptt)" "keeps (on_priv (ken_shape K)) (kenwood_get_ptt K vfo ptt)"
  "keeps (on_priv (ken_shape K)) (kenwood_get_dcd K vfo dcd)" "keeps (on_priv (ken_shape K)) (kenwood_reset K reset)"
  "keeps (on_priv (ken_shape K)) (kenwood_scan K vfo sc)" "keeps (on_priv (ken_shape K)) (kenwood_vfo_op K vfo op)"
  unfolding kenwood_set_ptt_def kenwood_get_ptt_def kenwood_get_dcd_def kenwood_reset_def kenwood_scan_def
    kenwood_vfo_op_def Let_def
  by (intro keeping get_if)+

lemma keeps_ts890:
  "keeps (on_priv (ken_shape K)) (kenwood_ts890_set_level K caps P vfo arg)"
  "keeps (on_priv (ken_shape K)) (kenwood_ts890_get_level K caps P level vfo val)"
  unfolding kenwood_ts890_set_level_def kenwood_ts890_get_level_def level_reply_def Let_def
  by (intro keeping keeps_set_level keeps_get_level)+

end

subsection \<open>The table of the TS-890S\<close>

lemma ts890_plain: "RIG_MODEL_TS890S \<noteq> RIG_MODEL_FTDX101D" "RIG_MODEL_TS890S \<noteq> RIG_MODEL_IC910"
  by (simp_all add: ken_models RIG_MODEL_FTDX101D_def RIG_MODEL_IC910_def RIG_MAKE_MODEL_def RIG_KENWOOD_def RIG_YAESU_def
      RIG_ICOM_def MAX_MODELS_PER_BACKEND_def)

lemma ts890_kept: "kenwood_kept (ts890s_ken E) (ts890_table (ts890s_ken E) P n)"
proof (induction n)
  case 0
  show ?case
    by unfold_locales (simp_all add: ts890s_base_def no_caps_def KENWOOD_MAX_BUF_LEN_def ts890_plain)
next
  case (Suc n)
  note keeps = kenwood_kept.keeps_set_freq [OF Suc] kenwood_kept.keeps_get_freq [OF Suc]
    kenwood_kept.keeps_get_mode [OF Suc] kenwood_kept.keeps_set_vfo [OF Suc] kenwood_kept.keeps_get_vfo [OF Suc]
    kenwood_kept.keeps_get_split_vfo [OF Suc] kenwood_kept.keeps_powerstat [OF Suc]
  show ?case
    by unfold_locales
      (auto simp: ts890s_caps_def ts890s_base_def no_caps_def KENWOOD_MAX_BUF_LEN_def ts890_plain intro!: keeps)
qed

interpretation ts890: kenwood_kept "ts890s_ken E" "ts890_table (ts890s_ken E) P n" for E P n
  by (rule ts890_kept)

text \<open>C11: the private data of a TS-890S never hold a string that is longer than its array. \<^verbatim>\<open>kenwood_init\<close>
  leaves them in shape from whatever was there: the status fits 128 octets with the zero at its end, the cached
  status is no longer than 37 characters, and the verifying command is one of the three that fit four
  octets. Opening and closing the handle and every other operation of the table, with any arguments and
  through any depth of calls back into the front end, keeps them so, whatever the radio answers.\<close>

theorem kenwood_data_in_shape:
  "let K = ts890s_ken E; caps = ts890_table K P n; shape = on_priv (ken_shape K) in
    shape (snd (run_state (kenwood_init K) rig))
    \<and> keeps shape (kenwood_open K caps) \<and> keeps shape (kenwood_close K caps)
    \<and> keeps shape (kenwood_transaction K cmd data sz)
    \<and> keeps shape (kenwood_set_freq K caps P vfo freq) \<and> keeps shape (kenwood_get_freq K caps vfo freq)
    \<and> keeps shape (kenwood_set_mode K caps P vfo mw) \<and> keeps shape (kenwood_get_mode K vfo mw)
    \<and> keeps shape (kenwood_set_vfo K vfo) \<and> keeps shape (kenwood_get_vfo_if K vfo)
    \<and> keeps shape (kenwood_set_split_vfo K caps P vfo sv) \<and> keeps shape (kenwood_get_split_vfo_if K vfo sv)
    \<and> keeps shape (kenwood_set_rit K vfo rit) \<and> keeps shape (kenwood_get_rit K vfo rit)
    \<and> keeps shape (kenwood_set_ptt K vfo ptt) \<and> keeps shape (kenwood_get_ptt K vfo ptt)
    \<and> keeps shape (kenwood_get_dcd K vfo dcd) \<and> keeps shape (kenwood_reset K reset)
    \<and> keeps shape (kenwood_set_powerstat K caps P status) \<and> keeps shape (kenwood_get_powerstat K status)
    \<and> keeps shape (kenwood_set_ant K vfo av) \<and> keeps shape (kenwood_get_ant K ant vfo out)
    \<and> keeps shape (kenwood_scan K vfo sc)
    \<and> keeps shape (kenwood_ts890_set_level K caps P vfo lv) \<and> keeps shape (kenwood_ts890_get_level K caps P level vfo val)
    \<and> keeps shape (kenwood_set_func K vfo fs) \<and> keeps shape (kenwood_get_func K func vfo status)"
proof -
  have "on_priv (ken_shape (ts890s_ken E)) (snd (run_state (kenwood_init (ts890s_ken E)) rig))"
    by (simp add: kenwood_init_def run_state_bind on_priv_def ken_shape_def KENWOOD_MAX_BUF_LEN_def)
  then show ?thesis
    unfolding Let_def
    by (intro conjI transaction_kept [OF trn_kept_shape] ts890.keeps_open ts890.keeps_close ts890.keeps_set_freq ts890.keeps_get_freq
        ts890.keeps_set_mode ts890.keeps_get_mode ts890.keeps_set_vfo ts890.keeps_get_vfo ts890.keeps_set_split_vfo
        ts890.keeps_get_split_vfo ts890.keeps_rit ts890.keeps_keying ts890.keeps_powerstat ts890.keeps_ant
        ts890.keeps_ts890 ts890.keeps_func)
qed

end
