(* ===== verification/Hamlib_Kenwood_Laws.thy ===== *)
theory Hamlib_Kenwood_Laws
  imports Hamlib_Kenwood_Shape
begin

text \<open>
  What the settings of the Kenwood back end do to a radio that keeps what it is told, and where they do not do
  what they mean to: RIT on older models, and the pitch of CW.
\<close>

subsection \<open>Setting and asking\<close>

text \<open>The radio takes the command \<open>c\<close> with the verifying command behind it, and then answers the question \<open>q\<close>
  with the text of \<open>c\<close>.\<close>

definition remembers :: "'d ken \<Rightarrow> 'd kenwood_rig \<Rightarrow> string \<Rightarrow> string \<Rightarrow> bool" where
  "remembers K rig c q \<longleftrightarrow> (\<exists>v d1 d2. accepted K (verify_cmd (priv rig)) c 0 v
     \<and> reply_of (k_radio K) (wire_command K c @ octs (verify_cmd (priv rig))) (device (k_port (priv rig))) = (on_wire K v, d1)
     \<and> reply_of (k_radio K) (wire_command K q) d1 = (on_wire K c, d2))"

lemma set_then_ask:
  assumes "quiet rig" and "\<not> no_id (priv rig)" and "remembers K rig c q"
    and "\<not> skips_verify c" and "c \<noteq> ''IF''" and "\<not> skips_verify q" and "q \<noteq> ''IF''"
    and "accepted K (verify_cmd (priv rig)) q sz c" and "length c = expected" and "0 < expected" and "0 < sz"
  shows "\<exists>rig1 rig2. run_state (kenwood_set K c) rig = (RIG_OK, rig1)
    \<and> run_state (kenwood_safe_transaction K q sz expected) rig1 = ((RIG_OK, c), rig2) \<and> ken_only rig rig2"
proof -
  obtain v d1 d2 where r: "accepted K (verify_cmd (priv rig)) c 0 v"
    "reply_of (k_radio K) (wire_command K c @ octs (verify_cmd (priv rig))) (device (k_port (priv rig))) = (on_wire K v, d1)"
    "reply_of (k_radio K) (wire_command K q) d1 = (on_wire K c, d2)"
    using assms(3) by (auto simp: remembers_def)
  obtain rig1 where s: "run_state (kenwood_set K c) rig = (RIG_OK, rig1)" "trn_done rig d1 rig1"
    using set_delivers [OF assms(1,4,2,5) r(1,2)] by blast
  have k: "verify_cmd (priv rig1) = verify_cmd (priv rig)" "device (k_port (priv rig1)) = d1"
    using s(2) ken_only_keeps [of rig rig1] by (simp_all add: trn_done_def)
  have "no_cached_if q rig1" using assms(7) by (simp add: no_cached_if_def)
  from safe_transaction_delivers [OF trn_done_quiet [OF s(2)] assms(6) this assms(11), of K c expected d2]
  obtain rig2 where a: "run_state (kenwood_safe_transaction K q sz expected) rig1 = ((RIG_OK, c), rig2)"
    "trn_done rig1 d2 rig2"
    using assms(8-10) r(3) k by auto
  have "ken_only rig rig2"
    using s(2) a(2) ken_only_trans [of rig rig1 rig2] by (simp add: trn_done_def)
  with s(1) a(1) show ?thesis by blast
qed

subsection \<open>Functions\<close>

text \<open>What \<^verbatim>\<open>rig_get_func\<close> gives back: on or off, but the two strengths of the noise reduction of a TS-890S.\<close>

definition func_value :: "'d ken \<Rightarrow> setting_t \<Rightarrow> int \<Rightarrow> int" where
  "func_value K func status = (if status = 0 then 0
     else if func = RIG_FUNC_NR \<and> k_model K = RIG_MODEL_TS890S \<and> status = 2 then 2 else 1)"

text \<open>The functions that are set and asked for in the same way: the question with a digit behind it.\<close>

definition plain_func :: "'d ken \<Rightarrow> setting_t \<Rightarrow> int \<Rightarrow> string \<Rightarrow> string \<Rightarrow> bool" where
  "plain_func K func status c q \<longleftrightarrow> func_command K func status = Some c \<and> func_query K func = Some q
     \<and> take (length q) c = q \<and> length c = Suc (length q)"

lemma plain_func_cases:
  assumes "plain_func K func status c q"
  shows "(func, q) \<in> {(RIG_FUNC_NB, ''NB1''), (RIG_FUNC_NB, ''NB''), (RIG_FUNC_NB2, ''NB2''), (RIG_FUNC_ABM, ''AM''),
    (RIG_FUNC_COMP, ''PR''), (RIG_FUNC_TONE, ''TO''), (RIG_FUNC_TSQL, ''CT''), (RIG_FUNC_VOX, ''VX''),
    (RIG_FUNC_NR, ''NR''), (RIG_FUNC_ANF, ''NT''), (RIG_FUNC_LOCK, ''LK''), (RIG_FUNC_AIP, ''MX''),
    (RIG_FUNC_RIT, ''RT''), (RIG_FUNC_XIT, ''XT'')}"
  using assms by (auto simp: plain_func_def func_query_def split: if_splits)

definition func_queries :: "string list" where
  "func_queries = [''NB1'', ''NB'', ''NB2'', ''AM'', ''PR'', ''TO'', ''CT'', ''VX'', ''NR'', ''NT'', ''LK'', ''MX'', ''RT'', ''XT'']"

definition status_char :: "int \<Rightarrow> char" where
  "status_char v = (if v = 0 then CHR ''0'' else if v = 1 then CHR ''1'' else CHR ''2'')"

lemma plain_func_texts:
  assumes "plain_func K func status c q"
  shows "q \<in> set func_queries" and "c = q @ [status_char (func_value K func status)]"
proof -
  show "q \<in> set func_queries"
    unfolding func_queries_def using plain_func_cases [OF assms] by (elim insertE emptyE) simp_all
  have f: "func_command K func status = Some c" "take (length q) c = q" "length c = Suc (length q)"
    using assms by (simp_all add: plain_func_def)
  show "c = q @ [status_char (func_value K func status)]"
    using plain_func_cases [OF assms] f
    by (elim insertE emptyE)
      (auto simp: func_command_def func_value_def onoff_def flag_defs Let_def status_char_def split: if_splits)
qed

text \<open>What the transaction looks at in these texts does not depend on the model.\<close>

definition sound_pair :: "string \<Rightarrow> string \<Rightarrow> bool" where
  "sound_pair q c \<longleftrightarrow> c \<noteq> [] \<and> CHR '';'' \<notin> set c \<and> NUL \<notin> set c \<and> hd c \<noteq> CHR 0x5C \<and> length c \<noteq> 1
     \<and> length c + 1 < 11 \<and> hd c = char_nth q 0 \<and> char_nth c 1 = char_nth q 1
     \<and> \<not> skips_verify c \<and> \<not> skips_verify q \<and> c \<noteq> ''IF'' \<and> q \<noteq> ''IF''
     \<and> length c = (if length q = 3 then 3 else 2) + 1 \<and> char_nth c (if length q = 3 then 3 else 2) = last c"

lemma func_pairs_sound: "list_all (\<lambda>q. list_all (\<lambda>v. sound_pair q (q @ [status_char v])) [0, 1, 2]) func_queries"
  by code_simp

lemma plain_func_sent:
  assumes "plain_func K func status c q" and "cmdtrm K = CHR '';''"
  shows "accepted K v q 10 c" "\<not> skips_verify c" "\<not> skips_verify q" "c \<noteq> ''IF''" "q \<noteq> ''IF''"
    "sint (octet_of (char_nth c (if length q = 3 then 3 else 2))) - 48 = func_value K func status"
    "length c = (if length q = 3 then 3 else 2) + 1"
proof -
  have v: "func_value K func status \<in> set [0, 1, 2]" by (simp add: func_value_def)
  have s: "sound_pair q c"
    using func_pairs_sound plain_func_texts [OF assms(1)] v unfolding list_all_iff by blast
  then show "accepted K v q 10 c" "\<not> skips_verify c" "\<not> skips_verify q" "c \<noteq> ''IF''" "q \<noteq> ''IF''"
    "length c = (if length q = 3 then 3 else 2) + 1"
    using assms(2) by (auto simp: sound_pair_def accepted_def reply_text_def reply_limit_def KENWOOD_MAX_BUF_LEN_def NUL_def)
  have "char_nth c (if length q = 3 then 3 else 2) = status_char (func_value K func status)"
    using s plain_func_texts(2) [OF assms(1)] unfolding sound_pair_def by (metis last_snoc)
  then show "sint (octet_of (char_nth c (if length q = 3 then 3 else 2))) - 48 = func_value K func status"
    using v by (auto simp: status_char_def octet_of_def)
qed

text \<open>C12: a function that is set and asked for with the same command reads back as it was set, on a model whose
  commands end with a semicolon and that verifies its settings (\<^verbatim>\<open>no_id\<close> is off). Let the line be quiet and the radio answer the verifying command, and the question for the function with the text that set it
  last. Then \<^verbatim>\<open>kenwood_set_func\<close> followed by \<^verbatim>\<open>kenwood_get_func\<close> both return \<^verbatim>\<open>RIG_OK\<close>, and
  the status read is 0 if the status set is 0, 2 for the second noise reduction of a TS-890S, and 1 otherwise.\<close>

theorem kenwood_func_roundtrip:
  assumes "plain_func K func status c q" and "cmdtrm K = CHR '';''"
    and "quiet rig" and "\<not> no_id (priv rig)" and "remembers K rig c q"
  shows "fst (run_state (do { rc1 \<leftarrow> kenwood_set_func K vfo (func, status); r \<leftarrow> kenwood_get_func K func vfo junk;
      State_Monad.return (rc1, r) }) rig) = (RIG_OK, RIG_OK, func_value K func status)"
proof -
  note sent = plain_func_sent [OF assms(1,2)]
  from set_then_ask [OF assms(3-5) sent(2,4,3,5,1,7)] obtain rig1 rig2 where
    r: "run_state (kenwood_set K c) rig = (RIG_OK, rig1)"
      "run_state (kenwood_safe_transaction K q 10 ((if length q = 3 then 3 else 2) + 1)) rig1 = ((RIG_OK, c), rig2)"
    by auto
  have "run_state (kenwood_set_func K vfo (func, status)) rig = (RIG_OK, rig1)"
    using assms(1) r(1) by (simp add: kenwood_set_func_def plain_func_def)
  moreover have "fst (run_state (kenwood_get_func K func vfo junk) rig1) = (RIG_OK, func_value K func status)"
    using assms(1) r(2) sent(6) by (simp add: kenwood_get_func_def plain_func_def get_kenwood_func_def run_state_bind Let_def
        split del: if_split)
  ultimately show ?thesis by (simp add: run_state_bind case_prod_beta)
qed

definition nb_table :: "string \<Rightarrow> string list" where
  "nb_table c = (if c = ''ID'' then [''ID024''] else if c = ''NB1'' then [''NB11''] else [])"

lemma kenwood_func_roundtrip_witness:
  "fst (run_state (do { rc1 \<leftarrow> kenwood_set_func (bench_ken (table_radio nb_table)) RIG_VFO_A (RIG_FUNC_NB, 7);
      r \<leftarrow> kenwood_get_func (bench_ken (table_radio nb_table)) RIG_FUNC_NB RIG_VFO_A 99;
      State_Monad.return (rc1, r) }) (ken_handle (fresh_line [] []))) = (RIG_OK, RIG_OK, 1)"
proof -
  let ?K = "bench_ken (table_radio nb_table)" and ?rig = "ken_handle (fresh_line [] [])"
  have p: "plain_func ?K RIG_FUNC_NB 7 ''NB11'' ''NB1''"
    by (simp add: plain_func_def func_command_def func_query_def onoff_def)
  have "accepted ?K (verify_cmd (priv ?rig)) ''NB11'' 0 ''ID024''"
    by (simp add: accepted_def reply_text_def NUL_def reply_limit_def KENWOOD_MAX_BUF_LEN_def starts_def)
  moreover have "reply_of (k_radio ?K) (wire_command ?K ''NB11'' @ octs (verify_cmd (priv ?rig))) (device (k_port (priv ?rig)))
      = (on_wire ?K ''ID024'', [])"
    by (simp add: wire_command_def on_wire_def nb_table_def)
  moreover have "reply_of (k_radio ?K) (wire_command ?K ''NB1'') [] = (on_wire ?K ''NB11'', [])"
    by (simp add: wire_command_def on_wire_def nb_table_def)
  ultimately have "remembers ?K ?rig ''NB11'' ''NB1''" unfolding remembers_def by blast
  from kenwood_func_roundtrip [OF p _ ken_handle_quiet _ this, of RIG_VFO_A 99] show ?thesis
    by (simp add: func_value_def flag_defs)
qed

subsection \<open>The pitch of CW\<close>

lemma pt_text:
  assumes "400 \<le> i" and "i \<le> 1000" and "cmdtrm K = CHR '';''"
  shows "accepted K v ''PT'' 50 (''PT'' @ pad0 2 (i div 50 - 8))" "\<not> skips_verify (''PT'' @ pad0 2 (i div 50 - 8))"
    "length (''PT'' @ pad0 2 (i div 50 - 8)) = 4" "scan_int (pad0 2 (i div 50 - 8)) = Some (i div 50 - 8, [])"
    "snprintf 16 (''PT'' @ pad0 2 (i div 50 - 8)) = ''PT'' @ pad0 2 (i div 50 - 8)"
proof -
  define n where "n = nat (i div 50 - 8)"
  have n: "i div 50 - 8 = int n" "n < 10 ^ 2" using assms(1,2) by (auto simp: n_def nat_less_iff)
  have d: "length (pad0 2 (int n)) = 2" "c \<in> set (pad0 2 (int n)) \<Longrightarrow> is_digit c" for c
    using pad0_length [OF _ n(2)] pad0_digits [of c 2 n] by simp_all
  then have m: "CHR '';'' \<notin> set (pad0 2 (int n))" "NUL \<notin> set (pad0 2 (int n))"
    using not_nul by blast+
  show "accepted K v ''PT'' 50 (''PT'' @ pad0 2 (i div 50 - 8))" "length (''PT'' @ pad0 2 (i div 50 - 8)) = 4"
    "\<not> skips_verify (''PT'' @ pad0 2 (i div 50 - 8))"
    using d m assms(3) unfolding n(1)
    by (simp_all add: accepted_def reply_text_def reply_limit_def KENWOOD_MAX_BUF_LEN_def NUL_def skips_verify_def starts_def)
  show "snprintf 16 (''PT'' @ pad0 2 (i div 50 - 8)) = ''PT'' @ pad0 2 (i div 50 - 8)"
    unfolding n(1) using d m by (intro snprintf_all) (auto simp: NUL_def)
  show "scan_int (pad0 2 (i div 50 - 8)) = Some (i div 50 - 8, [])"
    using scan_pad0 [of "[]" 2 "i div 50 - 8"] by simp
qed

lemma pitch_distinct:
  "RIG_LEVEL_CWPITCH \<noteq> RIG_LEVEL_RAWSTR" "RIG_LEVEL_CWPITCH \<noteq> RIG_LEVEL_STRENGTH" "RIG_LEVEL_CWPITCH \<noteq> RIG_LEVEL_ATT"
  "RIG_LEVEL_CWPITCH \<noteq> RIG_LEVEL_PREAMP" "RIG_LEVEL_CWPITCH \<noteq> RIG_LEVEL_RFPOWER" "RIG_LEVEL_CWPITCH \<noteq> RIG_LEVEL_AF"
  "RIG_LEVEL_CWPITCH \<noteq> RIG_LEVEL_RF" "RIG_LEVEL_CWPITCH \<noteq> RIG_LEVEL_MICGAIN" "RIG_LEVEL_CWPITCH \<noteq> RIG_LEVEL_AGC"
  "RIG_LEVEL_CWPITCH \<noteq> RIG_LEVEL_SLOPE_LOW" "RIG_LEVEL_CWPITCH \<noteq> RIG_LEVEL_SLOPE_HIGH"
  by (simp_all add: flag_defs)

lemma get_pitch:
  "kenwood_get_level K caps P RIG_LEVEL_CWPITCH vfo val
    = number_level K ''PT'' 50 4 (val_i val) (\<lambda>x. (RIG_OK, VInt (x * 1000 + 1000))) val"
  unfolding kenwood_get_level_def Let_def by (simp only: pitch_distinct simp_thms if_False if_True)

lemma pitch_step: "(i div 50 - 8) * 1000 + 1000 = i \<Longrightarrow> 400 \<le> i \<Longrightarrow> i \<le> 1000 \<Longrightarrow> False" for i :: int
proof -
  assume h: "(i div 50 - 8) * 1000 + 1000 = i" "400 \<le> i" "i \<le> 1000"
  then have "8 \<le> i div 50" using zdiv_mono1 [of 400 i 50] by simp
  moreover have "q = 8" if "(q - 8) * 1000 + 1000 = i" "8 \<le> q" for q using that h(3) by (simp add: algebra_simps)
  ultimately have "i div 50 = 8" using h(1) by blast
  with h(1,3) have "i = 1000" by simp
  with \<open>i div 50 = 8\<close> show False by simp
qed

text \<open>C14: the pitch of CW never reads back as it was set. For every pitch that \<^verbatim>\<open>kenwood_set_level\<close> accepts,
  400 to 1000 Hz, and a radio that keeps what it is told, both calls return \<^verbatim>\<open>RIG_OK\<close>; the radio is told the
  steps of 50 Hz above 400 Hz, and the answer is read as steps of 1000 Hz above 1000 Hz.\<close>

theorem kenwood_cw_pitch_differs:
  assumes "400 \<le> i" and "i \<le> 1000" and "cmdtrm K = CHR '';''"
    and "quiet rig" and "\<not> no_id (priv rig)" and "remembers K rig (''PT'' @ pad0 2 (i div 50 - 8)) ''PT''"
  shows "\<exists>j. j \<noteq> i \<and> j = (i div 50 - 8) * 1000 + 1000
    \<and> fst (run_state (do { rc1 \<leftarrow> kenwood_set_level K caps P vfo (RIG_LEVEL_CWPITCH, VInt i);
        r \<leftarrow> kenwood_get_level K caps P RIG_LEVEL_CWPITCH vfo (VInt junk);
        State_Monad.return (rc1, r) }) rig) = (RIG_OK, RIG_OK, VInt j)"
proof -
  let ?c = "''PT'' @ pad0 2 (i div 50 - 8)"
  note pt = pt_text [OF assms(1-3)]
  have t: "?c \<noteq> ''IF''" "\<not> skips_verify ''PT''" by (simp_all add: skips_verify_def starts_def)
  from set_then_ask [OF assms(4-6) pt(2) t _ pt(1,3)] obtain rig1 rig2 where
    r: "run_state (kenwood_set K ?c) rig = (RIG_OK, rig1)"
      "run_state (kenwood_safe_transaction K ''PT'' 50 4) rig1 = ((RIG_OK, ?c), rig2)" by auto
  have "run_state (kenwood_set_level K caps P vfo (RIG_LEVEL_CWPITCH, VInt i)) rig = (RIG_OK, rig1)"
    using assms(1,2) r(1) pt(5)
    by (simp add: kenwood_set_level_def level_command_def flag_defs RIG_LEVEL_IS_FLOAT_def RIG_LEVEL_FLOAT_LIST_def Let_def)
  moreover have "fst (run_state (kenwood_get_level K caps P RIG_LEVEL_CWPITCH vfo (VInt junk)) rig1)
      = (RIG_OK, VInt ((i div 50 - 8) * 1000 + 1000))"
    using r(2) pt(4)
    by (simp add: get_pitch number_level_def run_state_bind)
  ultimately have "fst (run_state (do { rc1 \<leftarrow> kenwood_set_level K caps P vfo (RIG_LEVEL_CWPITCH, VInt i);
        r \<leftarrow> kenwood_get_level K caps P RIG_LEVEL_CWPITCH vfo (VInt junk);
        State_Monad.return (rc1, r) }) rig) = (RIG_OK, RIG_OK, VInt ((i div 50 - 8) * 1000 + 1000))"
    by (simp only: run_state_bind prod.case run_state_return fst_conv snd_conv case_prod_beta)
  then show ?thesis using pitch_step [OF _ assms(1,2)] by blast
qed

definition pitch_table :: "string \<Rightarrow> string list" where
  "pitch_table c = (if c = ''ID'' then [''ID024''] else if c = ''PT'' then [''PT04''] else [])"

lemma kenwood_cw_pitch_differs_witness:
  "fst (run_state (do { rc1 \<leftarrow> kenwood_set_level (bench_ken (table_radio pitch_table)) ts890s_base dead_ports RIG_VFO_A
        (RIG_LEVEL_CWPITCH, VInt 600);
      r \<leftarrow> kenwood_get_level (bench_ken (table_radio pitch_table)) ts890s_base dead_ports RIG_LEVEL_CWPITCH RIG_VFO_A (VInt 0);
      State_Monad.return (rc1, r) }) (ken_handle (fresh_line [] []))) = (RIG_OK, RIG_OK, VInt 5000)"
proof -
  let ?K = "bench_ken (table_radio pitch_table)" and ?rig = "ken_handle (fresh_line [] [])"
  have p: "pad0 2 (600 div 50 - 8) = ''04''" by code_simp
  have "accepted ?K (verify_cmd (priv ?rig)) ''PT04'' 0 ''ID024''"
    by (simp add: accepted_def reply_text_def NUL_def reply_limit_def KENWOOD_MAX_BUF_LEN_def starts_def)
  moreover have "reply_of (k_radio ?K) (wire_command ?K ''PT04'' @ octs (verify_cmd (priv ?rig))) (device (k_port (priv ?rig)))
      = (on_wire ?K ''ID024'', [])"
    by (simp add: wire_command_def on_wire_def pitch_table_def)
  moreover have "reply_of (k_radio ?K) (wire_command ?K ''PT'') [] = (on_wire ?K ''PT04'', [])"
    by (simp add: wire_command_def on_wire_def pitch_table_def)
  ultimately have "remembers ?K ?rig (''PT'' @ pad0 2 (600 div 50 - 8)) ''PT''"
    unfolding remembers_def p append.simps by blast
  from kenwood_cw_pitch_differs [OF _ _ _ ken_handle_quiet _ this, of ts890s_base dead_ports RIG_VFO_A 0] show ?thesis by simp
qed

subsection \<open>RIT without a second command\<close>

lemma no_rit2_kept: "trn_kept K (\<lambda>p. \<not> has_rit2 p)"
  by (simp add: trn_kept_def)

lemma enable_keeps_rit2: "keeps (on_priv (\<lambda>p. \<not> has_rit2 p)) (enable_rit K vfo)"
  unfolding enable_rit_def kenwood_get_func_def kenwood_set_func_def get_kenwood_func_def Let_def
  by (intro keeping set_kept [OF no_rit2_kept] safe_kept [OF no_rit2_kept])

lemma get_rit_keeps_rit2: "keeps (on_priv (\<lambda>p. \<not> has_rit2 p)) (kenwood_get_rit K vfo rit)"
  unfolding kenwood_get_rit_def kenwood_get_if_def Let_def
  by (intro keeping safe_kept [OF no_rit2_kept]; simp)

lemma rit_steps_none: "nat (rit_steps cur rit) = 0"
  by (simp add: rit_steps_def c_trunc_def)

text \<open>C13: on a model without the second RIT command \<^verbatim>\<open>kenwood_set_rit\<close> does not move the RIT. Whatever the
  offset, the radio and its answers: it switches the RIT on and reads it, and that is all. No step up or
  down is sent, the result does not depend on the offset, and it is \<^verbatim>\<open>RIG_OK\<close> when the reading succeeds.\<close>

theorem kenwood_rit_never_moves:
  assumes "\<not> has_rit2 (priv rig)"
  shows "run_state (kenwood_set_rit K vfo rit) rig = run_state (do {
     rc \<leftarrow> enable_rit K vfo;
     if rc \<noteq> RIG_OK then State_Monad.return rc
     else do {
       (rc, cur) \<leftarrow> kenwood_get_rit K RIG_VFO_CURR (unset_int K);
       State_Monad.return rc
     }
   }) rig"
proof -
  obtain rc rig1 where e: "run_state (enable_rit K vfo) rig = (rc, rig1)" by fastforce
  obtain rc' cur rig2 where g: "run_state (kenwood_get_rit K RIG_VFO_CURR (unset_int K)) rig1 = ((rc', cur), rig2)"
    by (metis prod.exhaust)
  have "\<not> has_rit2 (priv rig2)"
    using assms keepsD [OF get_rit_keeps_rit2 g] keepsD [OF enable_keeps_rit2 e] by (simp add: on_priv_def)
  then show ?thesis
    using e g by (simp add: kenwood_set_rit_def run_state_bind rit_steps_none)
qed

lemma kenwood_rit_never_moves_witness:
  "run_state (kenwood_set_rit (bench_ken (table_radio nb_table)) RIG_VFO_A 100) (ken_handle (fresh_line [] []))
    = run_state (kenwood_set_rit (bench_ken (table_radio nb_table)) RIG_VFO_A (- 9990)) (ken_handle (fresh_line [] []))"
proof -
  have "\<not> has_rit2 (priv (ken_handle (fresh_line [] ([] :: string))))"
    by (simp add: ken_handle_def zero_rig_def zero_ken_def)
  from kenwood_rit_never_moves [OF this] show ?thesis by (simp only:)
qed

end
