(* ===== verification/Spec2Isabelle.thy ===== *)
theory Spec2Isabelle
  imports Hamlib_Bcd Hamlib_Crc Hamlib_Names Hamlib_Cal Hamlib_Split Hamlib_Cookie Hamlib_Dummy Hamlib_Register
    Hamlib_Lifecycle Hamlib_Rot_Dummy Hamlib_Simicom Hamlib_Simkenwood Hamlib_Kenwood_Laws
begin

text \<open>
  A model of the core of Hamlib, the radio control library, and the theorems about it.

  \<^bold>\<open>The program.\<close> An application holds handles of radios, rotators and amplifiers. The front end
  (\<^verbatim>\<open>src/\<close>) checks arguments, looks after a cache, moves between VFOs, and calls the back end of the
  model (\<^verbatim>\<open>rigs/\<close>) through the table of functions of its \<^verbatim>\<open>rig_caps\<close>. The back end talks to the device
  through a port (\<^verbatim>\<open>src/iofunc.c\<close>), and often calls the front end again. Back ends enter a registry
  at run time. All paths below are paths in the repository.

  \<^bold>\<open>How it is modelled.\<close> A handle (\<^verbatim>\<open>struct rig_state\<close>, \<^verbatim>\<open>rig_cache\<close>) is the record \<open>'p rig\<close>, with the
  private data \<open>'p\<close> of the back end and the clock \<open>now\<close>; \<open>'p caps\<close> is the table of functions. An operation
  is a function in the state monad, \<open>('p rig, int) state\<close> for one that only returns a status; the status is an
  \<open>int\<close>, zero or a negative error code as in C. Output parameters are arguments and results: what the
  caller's variable held is what a function that does not store leaves in it. Words keep their width;
  frequencies (\<^verbatim>\<open>double\<close>) and angles (\<^verbatim>\<open>float\<close>) are real numbers, rounded by \<open>to_double\<close> and \<open>to_float\<close> after each
  operation: in the corrections of the front end, in every sum of the rotators and in the simulated
  rotator's movement; in the codecs by \<open>dbl\<close> and \<open>flt\<close>. Calibration and levels are real numbers without rounding. A
  function pointer that may be \<^verbatim>\<open>NULL\<close> is an option. What lies outside the sources, the operating system, the
  clock, devices, the contents of uninitialised variables, is an argument of the definitions that use it.

  \<^bold>\<open>The theories\<close>, in the order in which they build on each other:
  \<^item> \<^verbatim>\<open>Hamlib_Prelude\<close>: error codes, bits of a flag word, the state monad and the invariant of a
    computation (\<open>keeps\<close>), conversion of floating point to integers.
  \<^item> \<^verbatim>\<open>Hamlib_Float\<close>: rounding to a \<^verbatim>\<open>float\<close> and to a \<^verbatim>\<open>double\<close>, with its order, its exact
    cases and the bound of its error.
  \<^item> \<^verbatim>\<open>Hamlib_Flags\<close>, \<^verbatim>\<open>Hamlib_Names\<close>: the flag words of \<^verbatim>\<open>include/hamlib/rig.h\<close> and the name tables of
    \<^verbatim>\<open>src/misc.c\<close>. Locales \<open>name_table\<close> and \<open>strict_name_table\<close>, interpreted on each table, give the
    round trips from value to name and back.
  \<^item> \<^verbatim>\<open>Hamlib_Bcd\<close>, \<^verbatim>\<open>Hamlib_Crc\<close>, \<^verbatim>\<open>Hamlib_Cal\<close>: BCD and hexadecimal codecs, the two CRC-32
    routines, the calibration tables of \<^verbatim>\<open>src/cal.c\<close>. A locale for a codec, interpreted on both byte
    orders; both CRC routines are shown to compute the bit-serial register.
  \<^item> \<^verbatim>\<open>Hamlib_State\<close>, \<^verbatim>\<open>Hamlib_Cache\<close>: the handle, and \<^verbatim>\<open>src/cache.c\<close> with \<^verbatim>\<open>vfo_fixup\<close>.
  \<^item> \<^verbatim>\<open>Hamlib_Target\<close>: every operation that goes to a target VFO and comes back, of
    \<^verbatim>\<open>src/rig.c\<close>, \<^verbatim>\<open>settings.c\<close>, \<^verbatim>\<open>tones.c\<close> and \<^verbatim>\<open>mem.c\<close>; they have four shapes (\<open>set_on_target\<close>,
    \<open>on_target\<close>, \<open>set_on_vfo\<close>, \<open>on_vfo\<close>), whose laws are proved once.
  \<^item> \<^verbatim>\<open>Hamlib_Ranges\<close>, \<^verbatim>\<open>Hamlib_Ptt\<close>, \<^verbatim>\<open>Hamlib_Frontend\<close>, \<^verbatim>\<open>Hamlib_Split\<close>,
    \<^verbatim>\<open>Hamlib_Cookie\<close>: lists of a handle, keying, frequency, mode and VFO, split operation, the lock shared
    by clients, all of \<^verbatim>\<open>src/rig.c\<close>. The calls of clients follow one another (\<open>cookie_step\<close>) or overlap
    (\<open>interleaved\<close>).
  \<^item> \<^verbatim>\<open>Hamlib_Frequency\<close>: the abstract specification of \<^verbatim>\<open>rig_set_freq\<close> and \<^verbatim>\<open>rig_get_freq\<close>, a variable
    that is written and read (\<open>promised\<close>), and the contract of a back end under which the front end with its
    cache refines it (locale \<open>reader\<close>, extended to \<open>tuner\<close>).
  \<^item> \<^verbatim>\<open>Hamlib_Dummy\<close>: the simulated radio of \<^verbatim>\<open>rigs/dummy/dummy.c\<close>; \<open>tuner\<close> is interpreted on it.
  \<^item> \<^verbatim>\<open>Hamlib_Models\<close>, \<^verbatim>\<open>Hamlib_Register\<close>: the three registries; their hash tables refine maps.
  \<^item> \<^verbatim>\<open>Hamlib_Port\<close>, \<^verbatim>\<open>Hamlib_Lifecycle\<close>: the descriptors that ports take and give back
    (\<^verbatim>\<open>src/iofunc.c\<close>, \<^verbatim>\<open>serial.c\<close> and the other port types), and the life of a handle from
    \<^verbatim>\<open>rig_open\<close> to \<^verbatim>\<open>rig_cleanup\<close>.
  \<^item> \<^verbatim>\<open>Hamlib_Io\<close>: octets on a port. The state of a port (\<open>line\<close>) is the list of what still arrives on it, octets,
    pauses and failures, with \<^verbatim>\<open>errno\<close>, and the state of the device at its other end; writing hands octets to the device, whose answers
    arrive. What the reading functions return is given in full by \<open>block_outcome\<close>, \<open>string_limit\<close>, \<open>up_to_stop\<close>.
  \<^item> \<^verbatim>\<open>Hamlib_Icom_Frame\<close>, \<^verbatim>\<open>Hamlib_Icom_Civ\<close>: \<^verbatim>\<open>rigs/icom/frame.c\<close>, frames, modes, and the transaction
    with its echo, its reply and its retries; what an Icom radio sends unasked (\<^verbatim>\<open>icom.c\<close>,
    \<^verbatim>\<open>src/event.c\<close>). An access outside a buffer sets \<open>overrun\<close>, and nothing is claimed from then on.
  \<^item> \<^verbatim>\<open>Hamlib_Icom\<close>: operations of \<^verbatim>\<open>rigs/icom/icom.c\<close>. The C code calls itself through the front end;
    \<open>icom_table\<close> ties that knot to a given depth.
  \<^item> \<^verbatim>\<open>Hamlib_Icom_Stack\<close>: locale \<open>civ_radio\<close>, what a radio has to do in octets; with \<open>sublocale\<close> it
    gives the back end's contract \<open>tuner\<close>.
  \<^item> \<^verbatim>\<open>Hamlib_Simicom\<close>: the simulator \<^verbatim>\<open>simulators/simicom.c\<close>, on which \<open>civ_radio\<close> is interpreted; an
    application's session is followed from the API to the octets and back.
  \<^item> \<^verbatim>\<open>Hamlib_Rotator\<close>, \<^verbatim>\<open>Hamlib_Rot_Dummy\<close>: \<^verbatim>\<open>src/rotator.c\<close>, \<^verbatim>\<open>rot_settings.c\<close> and the simulated
    rotator of \<^verbatim>\<open>rigs/dummy/rot_dummy.c\<close>, whose movement is shown to reach its target. What
    rounding costs is bounded for one update (\<open>turned\<close>) and summed up over queries.

  \<^item> \<^verbatim>\<open>Hamlib_Text\<close>: C strings, \<^verbatim>\<open>snprintf\<close> and \<^verbatim>\<open>sscanf\<close> as the textual protocols use them.
  \<^item> \<^verbatim>\<open>Hamlib_Kenwood_Ids\<close>, \<^verbatim>\<open>Hamlib_Kenwood_Trn\<close>: the models and the private data of the Kenwood
    back end (\<^verbatim>\<open>rigs/kenwood/kenwood.h\<close>), and the transaction of \<^verbatim>\<open>kenwood.c\<close> with its verifying
    command, its cached status and its retries. What a model fixes is the record \<open>'d ken\<close>, with the radio on the line.
  \<^item> \<^verbatim>\<open>Hamlib_Kenwood\<close>, \<^verbatim>\<open>Hamlib_Kenwood_Mode\<close>, \<^verbatim>\<open>Hamlib_Kenwood_Func\<close>,
    \<^verbatim>\<open>Hamlib_Kenwood_Mem\<close>, \<^verbatim>\<open>Hamlib_Kenwood_Level\<close>: the operations of \<^verbatim>\<open>kenwood.c\<close>, in this order: life of
    the handle, VFO, split, frequency and keying; modes, filters and RIT; functions, tones and antennas; memories
    and the keyer; levels. \<^verbatim>\<open>Hamlib_Ts890\<close>: \<^verbatim>\<open>ts890s.c\<close> and its table of functions, in which
    \<open>ts890_table\<close> ties the knot as \<open>icom_table\<close> does.
  \<^item> \<^verbatim>\<open>Hamlib_Kenwood_Stack\<close>: locale \<open>ken_radio\<close>, what a radio has to do in commands and replies; with
    \<open>sublocale\<close> it gives \<open>tuner\<close>. \<^verbatim>\<open>Hamlib_Simkenwood\<close>: the simulator
    \<^verbatim>\<open>simulators/simkenwood.c\<close>, on which it is interpreted.
  \<^item> \<^verbatim>\<open>Hamlib_Kenwood_Shape\<close>: the type invariant of the private data, \<open>ken_shape\<close>. Rules that follow the
    text of an operation (\<open>keeping\<close>) show that each keeps it; locales \<open>kept_ops\<close> and \<open>kenwood_kept\<close> deal with the
    calls through the front end. \<^verbatim>\<open>Hamlib_Kenwood_Laws\<close>: what is set is what is read back, and where it is not.

  \<^bold>\<open>What is proved.\<close> Refinement: a session of frequency requests over the dummy, over the Icom stack
  and over the Kenwood stack, and the registries. Invariants: who owns the cookie, what an opened handle leaves open, where the
  rotator may be, what the arrays of the Kenwood back end may hold. Safety: operations on a target VFO return to the former one; names, BCD, modes, functions and cached
  values survive the round trip; calibrated values and spectrum data stay within bounds. Termination: reading
  a block, flushing, and the transaction with a radio that is silent. Several theorems state what the code does
  where that is not what it means to do: for instance that a failed read is cached, that a radio that
  is not there opens, that nine octets from a radio write outside the memory of the library, that the
  RIT of older Kenwood radios is never moved.

  \<^bold>\<open>Bounds and fuel.\<close> Loops that end are total functions with a measure: the octets that still arrive, and the
  retries left. \<^verbatim>\<open>read_block\<close> may go on for ever and is a partial function with an option. The depth of
  \<open>icom_table\<close> is any number from two on in the theorems: \<^verbatim>\<open>icom_set_freq\<close> reads through the front
  end, and reading by command \<^verbatim>\<open>25\<close> calls nobody. So it is with \<open>ts890_table\<close> in the theorems about frequency; that the
  private data keep their shape is shown at any depth. The loop that waits for the buffer of the keyer may go on
  for ever, and is a partial function with an option too. Retry loops whose condition the preprocessor makes
  false run once.

  \<^bold>\<open>Not modelled.\<close> Debug output and locking of handles; configuration tokens and \<^verbatim>\<open>rig_init\<close>; line
  speeds, asynchronous input, sockets and the multicast publisher; callbacks of clients. Of \<^verbatim>\<open>icom.c\<close>: modes with
  data, split, levels, functions, memories, scans. Of \<^verbatim>\<open>rigs/kenwood\<close>:
  probing and registration, and the files of models other than the TS-890S. The back ends of other families
  (\<^verbatim>\<open>rigs/yaesu\<close> and so on) and their simulators are not modelled. The command line
  tools (\<^verbatim>\<open>tests/\<close>) are a user interface, \<^verbatim>\<open>bindings/\<close> glue, \<^verbatim>\<open>lib/termios.c\<close> a copy of a serial library.
\<close>

end
